(* ===== verification/Prelude.thy ===== *)
theory Prelude
  imports Complex_Main "HOL-Library.Multiset" "HOL-Library.Product_Lexorder"
begin

text \<open>
  Shared vocabulary of the development: the Python exceptions the code raises, rows kept in
  tables with integer primary keys, the table operations behind every repository class, and
  the laws that the rest of the library needs about them.  The interface \<^verbatim>\<open>repository\<close>
  states what a repository promises to the services; \<^verbatim>\<open>interval_table\<close> states what the
  overlap checks of the code promise.
\<close>

named_theorems table_simps \<open>rewrite rules about tables\<close>
named_theorems frame_simps \<open>which tables an operation leaves alone\<close>

section \<open>Exceptions and results\<close>

datatype exn =
    ValueError string
  | LookupError string
  | IntegrityError string
  | DataError string
  | TypeError string
  | KeyError string
  | AttributeError string
  | HTTPException int string
  | RateLimited string int
  | GatewayError string
  | IdempotencyValidationError string
  | IdempotencyConflictError string

type_synonym 'a result = "exn + 'a"

lemma sum_case_Inr_iff [simp]:
  "(case x of Inl e \<Rightarrow> Inl e | Inr a \<Rightarrow> f a) = Inr b \<longleftrightarrow> (\<exists>a. x = Inr a \<and> f a = Inr b)"
  by (cases x) auto

text \<open>A loop whose body may raise: the first error ends it.\<close>

fun map_result :: "('a \<Rightarrow> 'b result) \<Rightarrow> 'a list \<Rightarrow> 'b list result" where
  "map_result f [] = Inr []"
| "map_result f (x # xs) =
     (case f x of
        Inl e \<Rightarrow> Inl e
      | Inr y \<Rightarrow> (case map_result f xs of Inl e \<Rightarrow> Inl e | Inr ys \<Rightarrow> Inr (y # ys)))"

lemma map_result_Inr_iff: "map_result f xs = Inr ys \<longleftrightarrow> list_all2 (\<lambda>x y. f x = Inr y) xs ys"
  by (induction xs arbitrary: ys) (auto simp: list_all2_Cons1 split: sum.splits)

text \<open>\<^verbatim>\<open>a or b\<close> of Python on an optional string or list: null and empty are false.\<close>

definition or_else :: "'a list option \<Rightarrow> 'a list option \<Rightarrow> 'a list option" where
  "or_else a b = (case a of None \<Rightarrow> b | Some x \<Rightarrow> if x = [] then b else Some x)"

section \<open>Tables\<close>

text \<open>A table is the list of its rows in insertion order; \<^verbatim>\<open>ident\<close> reads the primary key.\<close>

definition tbl_get :: "('r \<Rightarrow> int) \<Rightarrow> int \<Rightarrow> 'r list \<Rightarrow> 'r option" where
  "tbl_get ident i t = find (\<lambda>r. ident r = i) t"

definition tbl_fresh :: "('r \<Rightarrow> int) \<Rightarrow> 'r list \<Rightarrow> int" where
  "tbl_fresh ident t = foldr (\<lambda>r m. max (ident r) m) t 0 + 1"

definition tbl_set :: "('r \<Rightarrow> int) \<Rightarrow> 'r \<Rightarrow> 'r list \<Rightarrow> 'r list" where
  "tbl_set ident r t = map (\<lambda>x. if ident x = ident r then r else x) t"

definition tbl_del :: "('r \<Rightarrow> int) \<Rightarrow> int \<Rightarrow> 'r list \<Rightarrow> 'r list" where
  "tbl_del ident i t = filter (\<lambda>x. ident x \<noteq> i) t"

definition tbl_ok :: "('r \<Rightarrow> int) \<Rightarrow> 'r list \<Rightarrow> bool" where
  "tbl_ok ident t = distinct (map ident t)"

text \<open>
  An insert assigns a fresh primary key and checks the table's constraints against the rows
  already there; an update checks them against the other rows.  \<^verbatim>\<open>violates\<close> names the
  violated constraint.
\<close>

definition db_insert ::
  "(int \<Rightarrow> 'r \<Rightarrow> 'r) \<Rightarrow> ('r \<Rightarrow> int) \<Rightarrow> ('r list \<Rightarrow> 'r \<Rightarrow> string option) \<Rightarrow> 'r list \<Rightarrow> 'r
    \<Rightarrow> ('r \<times> 'r list) result" where
  "db_insert set_ident ident violates t r =
     (let r' = set_ident (tbl_fresh ident t) r in
      case violates t r' of
        Some c \<Rightarrow> Inl (IntegrityError c)
      | None \<Rightarrow> Inr (r', t @ [r']))"

definition db_update ::
  "('r \<Rightarrow> int) \<Rightarrow> ('r list \<Rightarrow> 'r \<Rightarrow> string option) \<Rightarrow> 'r list \<Rightarrow> 'r \<Rightarrow> 'r list result" where
  "db_update ident violates t r =
     (case violates (tbl_del ident (ident r) t) r of
        Some c \<Rightarrow> Inl (IntegrityError c)
      | None \<Rightarrow> Inr (tbl_set ident r t))"

text \<open>\<^verbatim>\<open>ORDER BY key DESC LIMIT 1\<close>: the last row of the ascending order.\<close>

definition latest_by :: "('r \<Rightarrow> 'k::linorder) \<Rightarrow> 'r list \<Rightarrow> 'r option" where
  "latest_by key t = (case rev (sort_key key t) of [] \<Rightarrow> None | r # _ \<Rightarrow> Some r)"

lemma tbl_get_Some: "tbl_get ident i t = Some r \<Longrightarrow> r \<in> set t \<and> ident r = i"
  by (auto simp: tbl_get_def find_Some_iff)

lemma tbl_get_key: "tbl_get ident i t = Some r \<Longrightarrow> i \<in> ident ` set t"
  using tbl_get_Some by force

lemma tbl_get_None [table_simps]: "tbl_get ident i t = None \<longleftrightarrow> i \<notin> ident ` set t"
  by (auto simp: tbl_get_def find_None_iff)

lemma tbl_get_mem: "tbl_ok ident t \<Longrightarrow> r \<in> set t \<Longrightarrow> tbl_get ident (ident r) t = Some r"
  by (induction t) (auto simp: tbl_get_def tbl_ok_def)

lemma tbl_ok_inj: "tbl_ok ident t \<Longrightarrow> x \<in> set t \<Longrightarrow> y \<in> set t \<Longrightarrow> ident x = ident y \<Longrightarrow> x = y"
  by (metis tbl_get_mem option.inject)

lemma tbl_fresh_greater: "r \<in> set t \<Longrightarrow> ident r < tbl_fresh ident t"
  unfolding tbl_fresh_def by (induction t) auto

lemma tbl_fresh_notin [simp]: "tbl_fresh ident t \<notin> ident ` set t"
proof
  assume "tbl_fresh ident t \<in> ident ` set t"
  then obtain r where "r \<in> set t" and "ident r = tbl_fresh ident t" by force
  with tbl_fresh_greater [of r t ident] show False by simp
qed

lemma tbl_fresh_positive: "0 < tbl_fresh ident t"
proof -
  have "0 \<le> foldr (\<lambda>r m. max (ident r) m) t 0" by (induction t) auto
  then show ?thesis by (simp add: tbl_fresh_def)
qed

lemma set_tbl_set: "set (tbl_set ident r t) =
    (if ident r \<in> ident ` set t then insert r {x \<in> set t. ident x \<noteq> ident r} else set t)"
  by (induction t) (auto simp: tbl_set_def)

lemma in_tbl_set: "x \<in> set (tbl_set ident r t) \<Longrightarrow> x = r \<or> (x \<in> set t \<and> ident x \<noteq> ident r)"
  by (auto simp: tbl_set_def split: if_splits)

lemma map_ident_tbl_set [table_simps]: "map ident (tbl_set ident r t) = map ident t"
  by (induction t) (auto simp: tbl_set_def)

lemma length_tbl_set [table_simps]: "length (tbl_set ident r t) = length t"
  by (simp add: tbl_set_def)

lemma tbl_ok_set [table_simps]: "tbl_ok ident (tbl_set ident r t) = tbl_ok ident t"
  by (simp add: tbl_ok_def map_ident_tbl_set)

lemma tbl_ok_del: "tbl_ok ident t \<Longrightarrow> tbl_ok ident (tbl_del ident i t)"
  by (simp add: tbl_ok_def tbl_del_def distinct_map_filter)

lemma set_tbl_del [table_simps]: "set (tbl_del ident i t) = {x \<in> set t. ident x \<noteq> i}"
  by (auto simp: tbl_del_def)

lemma tbl_ok_append: "tbl_ok ident (t @ [r]) \<longleftrightarrow> tbl_ok ident t \<and> ident r \<notin> ident ` set t"
  by (auto simp: tbl_ok_def)

lemma tbl_get_append: "tbl_get ident i (t @ [r]) =
    (case tbl_get ident i t of Some x \<Rightarrow> Some x | None \<Rightarrow> if ident r = i then Some r else None)"
  by (induction t) (auto simp: tbl_get_def)

lemma tbl_get_set: "tbl_get ident i (tbl_set ident r t) =
    (if i = ident r \<and> i \<in> ident ` set t then Some r else tbl_get ident i t)"
  by (induction t) (auto simp: tbl_get_def tbl_set_def)

lemma tbl_set_mset:
  assumes "tbl_ok ident t" and "x \<in> set t" and "ident x = ident r"
  shows "mset (tbl_set ident r t) = mset t - {#x#} + {#r#}"
  using assms
proof (induction t)
  case Nil
  then show ?case by simp
next
  case (Cons y t)
  show ?case
  proof (cases "ident y = ident r")
    case True
    have "y = x"
      using Cons.prems True by (auto intro: tbl_ok_inj)
    moreover have no: "\<forall>z \<in> set t. ident z \<noteq> ident r"
      using Cons.prems True by (auto simp: tbl_ok_def image_iff)
    moreover have "tbl_set ident r t = t"
      using no by (simp add: tbl_set_def map_idI)
    ultimately show ?thesis using True by (simp add: tbl_set_def)
  next
    case False
    with Cons have "x \<in> set t" and "mset (tbl_set ident r t) = mset t - {#x#} + {#r#}"
      by (auto simp: tbl_ok_def)
    with False show ?thesis by (simp add: tbl_set_def)
  qed
qed

lemma latest_by_Some: "latest_by key t = Some r \<Longrightarrow> r \<in> set t \<and> (\<forall>x \<in> set t. key x \<le> key r)"
proof -
  assume l: "latest_by key t = Some r"
  then obtain xs where rev: "rev (sort_key key t) = r # xs"
    by (auto simp: latest_by_def split: list.splits)
  then have srt: "sort_key key t = rev xs @ [r]"
    by (metis rev.simps(2) rev_rev_ident)
  have "sorted (map key (rev xs @ [r]))"
    using sorted_sort_key [of key t] by (simp only: srt)
  then have "\<forall>x \<in> set xs. key x \<le> key r"
    by (auto simp: sorted_append)
  moreover have "set t = set (rev xs @ [r])"
    using srt by (metis set_sort)
  ultimately show ?thesis by auto
qed

lemma latest_by_None [simp]: "latest_by key t = None \<longleftrightarrow> t = []"
proof -
  have "sort_key key t = [] \<longleftrightarrow> t = []"
    by (metis length_0_conv length_sort)
  then show ?thesis by (auto simp: latest_by_def split: list.splits)
qed

section \<open>Loops of updates\<close>

text \<open>
  The loops \<^verbatim>\<open>for row in rows: repo.update(row, ...)\<close>: each row of a snapshot is flushed
  with the changed fields; the first constraint violation stops the loop.
\<close>

fun update_each :: "('r \<Rightarrow> 'w \<Rightarrow> 'w result) \<Rightarrow> ('r \<Rightarrow> 'r) \<Rightarrow> 'r list \<Rightarrow> 'w \<Rightarrow> 'w result" where
  "update_each update f [] w = Inr w"
| "update_each update f (r # rs) w =
     (case update (f r) w of Inl e \<Rightarrow> Inl e | Inr w' \<Rightarrow> update_each update f rs w')"

lemma update_each_frame:
  assumes "\<And>r w w'. update r w = Inr w' \<Longrightarrow> g w' = g w"
  shows "update_each update f rs w = Inr w' \<Longrightarrow> g w' = g w"
  using assms by (induction rs arbitrary: w) auto

section \<open>Rows that must not overlap\<close>

text \<open>Half-open intervals of live rows of one group are disjoint.\<close>

definition apart ::
  "('r \<Rightarrow> 'g) \<Rightarrow> ('r \<Rightarrow> int) \<Rightarrow> ('r \<Rightarrow> int) \<Rightarrow> ('r \<Rightarrow> bool) \<Rightarrow> 'r \<Rightarrow> 'r \<Rightarrow> bool" where
  "apart grp lo hi live x y \<longleftrightarrow>
     (live x \<and> live y \<and> grp x = grp y \<longrightarrow> hi x \<le> lo y \<or> hi y \<le> lo x)"

definition no_overlap ::
  "('r \<Rightarrow> int) \<Rightarrow> ('r \<Rightarrow> 'g) \<Rightarrow> ('r \<Rightarrow> int) \<Rightarrow> ('r \<Rightarrow> int) \<Rightarrow> ('r \<Rightarrow> bool) \<Rightarrow> 'r list \<Rightarrow> bool" where
  "no_overlap ident grp lo hi live t \<longleftrightarrow>
     (\<forall>x \<in> set t. \<forall>y \<in> set t. ident x \<noteq> ident y \<longrightarrow> apart grp lo hi live x y)"

lemma apart_sym: "apart grp lo hi live x y \<longleftrightarrow> apart grp lo hi live y x"
  by (auto simp: apart_def)

lemma no_overlap_Nil [simp]: "no_overlap ident grp lo hi live []"
  by (simp add: no_overlap_def)

lemma no_overlap_append:
  assumes "no_overlap ident grp lo hi live t"
    and "\<And>x. x \<in> set t \<Longrightarrow> apart grp lo hi live x r"
  shows "no_overlap ident grp lo hi live (t @ [r])"
proof -
  have "apart grp lo hi live r x" if "x \<in> set t" for x
    using assms(2) [OF that] by (simp only: apart_sym [of grp lo hi live r x])
  with assms show ?thesis by (auto simp: no_overlap_def)
qed

lemma no_overlap_set:
  assumes "no_overlap ident grp lo hi live t"
    and "\<And>x. x \<in> set t \<Longrightarrow> ident x \<noteq> ident r \<Longrightarrow> apart grp lo hi live x r"
  shows "no_overlap ident grp lo hi live (tbl_set ident r t)"
  unfolding no_overlap_def
proof (intro ballI impI)
  fix x y
  assume "x \<in> set (tbl_set ident r t)" "y \<in> set (tbl_set ident r t)" and ne: "ident x \<noteq> ident y"
  then have "x = r \<or> (x \<in> set t \<and> ident x \<noteq> ident r)" "y = r \<or> (y \<in> set t \<and> ident y \<noteq> ident r)"
    by (auto dest: in_tbl_set)
  moreover have "apart grp lo hi live r x" if "x \<in> set t" "ident x \<noteq> ident r" for x
    using assms(2) [OF that] by (simp only: apart_sym [of grp lo hi live r x])
  ultimately show "apart grp lo hi live x y"
    using assms ne by (auto simp: no_overlap_def)
qed

text \<open>An update that keeps a row's interval and group, and does not bring it to life, is harmless.\<close>

lemma no_overlap_set_same:
  assumes no: "no_overlap ident grp lo hi live t" and x: "x \<in> set t" "ident x = ident r"
    and "grp r = grp x" "lo r = lo x" "hi r = hi x" "live r \<Longrightarrow> live x"
  shows "no_overlap ident grp lo hi live (tbl_set ident r t)"
proof (rule no_overlap_set [OF no])
  fix y
  assume "y \<in> set t" "ident y \<noteq> ident r"
  with no x have "apart grp lo hi live y x" by (auto simp: no_overlap_def)
  with assms(4-7) show "apart grp lo hi live y r" by (auto simp: apart_def)
qed

lemma no_overlap_del: "no_overlap ident grp lo hi live t \<Longrightarrow>
    no_overlap ident grp lo hi live (tbl_del ident i t)"
  by (auto simp: no_overlap_def table_simps)

section \<open>The repository interface\<close>

text \<open>
  What the services rely on when they call a repository: \<^verbatim>\<open>get\<close> reads the row with a
  given key, \<^verbatim>\<open>create\<close> appends one row under a key that was not in use, \<^verbatim>\<open>update\<close>
  replaces the row of the same key and nothing else.
\<close>

locale repository =
  fixes ident :: "'r \<Rightarrow> int"
    and rows :: "'w \<Rightarrow> 'r list"
    and get :: "int \<Rightarrow> 'w \<Rightarrow> 'r option"
    and create :: "'r \<Rightarrow> 'w \<Rightarrow> ('r \<times> 'w) result"
    and update :: "'r \<Rightarrow> 'w \<Rightarrow> 'w result"
  assumes get_rows: "get i w = tbl_get ident i (rows w)"
    and create_rows: "create r w = Inr (r', w') \<Longrightarrow>
      rows w' = rows w @ [r'] \<and> ident r' \<notin> ident ` set (rows w)"
    and update_rows: "update r w = Inr w' \<Longrightarrow> rows w' = tbl_set ident r (rows w)"
begin

lemma get_mem: "get i w = Some r \<Longrightarrow> r \<in> set (rows w) \<and> ident r = i"
  by (auto simp: get_rows dest: tbl_get_Some)

lemma mem_get: "tbl_ok ident (rows w) \<Longrightarrow> r \<in> set (rows w) \<Longrightarrow> get (ident r) w = Some r"
  by (simp add: get_rows tbl_get_mem)

lemma create_unique:
  "create r w = Inr (r', w') \<Longrightarrow> tbl_ok ident (rows w) \<Longrightarrow> tbl_ok ident (rows w')"
  by (auto dest!: create_rows simp: tbl_ok_append)

lemma update_unique:
  "update r w = Inr w' \<Longrightarrow> tbl_ok ident (rows w) \<Longrightarrow> tbl_ok ident (rows w')"
  by (auto dest!: update_rows simp: tbl_ok_set)

lemma get_create: "create r w = Inr (r', w') \<Longrightarrow> get (ident r') w' = Some r'"
  by (drule create_rows) (auto simp: get_rows tbl_get_append split: option.splits dest!: tbl_get_key)

lemma get_update:
  "update r w = Inr w' \<Longrightarrow> get (ident r) w = Some r0 \<Longrightarrow> get (ident r) w' = Some r"
  by (drule update_rows) (auto dest!: tbl_get_key simp: get_rows tbl_get_set)

lemma get_update_other: "update r w = Inr w' \<Longrightarrow> i \<noteq> ident r \<Longrightarrow> get i w' = get i w"
  by (auto dest!: update_rows simp: get_rows tbl_get_set)

lemma get_create_other: "create r w = Inr (r', w') \<Longrightarrow> get i w = Some x \<Longrightarrow> get i w' = Some x"
  by (auto dest!: create_rows simp: get_rows tbl_get_append)

lemma update_each_rows:
  assumes "update_each update f rs w = Inr w'" and "\<And>r. ident (f r) = ident r"
    and "distinct (map ident rs)" and "set rs \<subseteq> set (rows w)" and "tbl_ok ident (rows w)"
  shows "rows w' = map (\<lambda>x. if x \<in> set rs then f x else x) (rows w)"
  using assms(1,3-5)
proof (induction rs arbitrary: w)
  case Nil
  then show ?case by simp
next
  case (Cons r rs)
  from Cons.prems(1) obtain w1 where u: "update (f r) w = Inr w1" and rest: "update_each update f rs w1 = Inr w'"
    by auto
  have w1: "rows w1 = map (\<lambda>x. if ident x = ident r then f r else x) (rows w)"
    using update_rows [OF u] assms(2) by (simp add: tbl_set_def)
  have inj: "x = r" if "x \<in> set (rows w)" "ident x = ident r" for x
    using that Cons.prems by (auto intro: tbl_ok_inj)
  have sub: "set rs \<subseteq> set (rows w1)"
    using Cons.prems w1 by (force simp: image_iff)
  have "tbl_ok ident (rows w1)"
    using update_unique [OF u] Cons.prems by simp
  with Cons rest sub have
    "rows w' = map (\<lambda>x. if x \<in> set rs then f x else x) (rows w1)" by simp
  moreover have "f r \<notin> set rs"
    using Cons.prems assms(2) by (metis distinct.simps(2) image_eqI list.simps(9) list.set_map)
  moreover have "(x \<in> set rs) = (x \<in> set (r # rs))" if "ident x \<noteq> ident r" for x
    using that by auto
  ultimately show ?case
    using inj w1 by auto
qed

end

text \<open>
  A repository with an overlap check.  The check is asked for a group, an interval and a row to
  leave out; when it answers no, no live row of the group meets the interval.
\<close>

locale guarded_repository = repository ident rows get create update
  for ident :: "'r \<Rightarrow> int" and rows :: "'w \<Rightarrow> 'r list"
    and get :: "int \<Rightarrow> 'w \<Rightarrow> 'r option"
    and create :: "'r \<Rightarrow> 'w \<Rightarrow> ('r \<times> 'w) result"
    and update :: "'r \<Rightarrow> 'w \<Rightarrow> 'w result" +
  fixes grp :: "'r \<Rightarrow> 'g" and lo :: "'r \<Rightarrow> int" and hi :: "'r \<Rightarrow> int" and live :: "'r \<Rightarrow> bool"
    and clash :: "'w \<Rightarrow> 'g \<Rightarrow> int \<Rightarrow> int \<Rightarrow> int option \<Rightarrow> bool"
  assumes clash_complete:
    "\<not> clash w g a b ex \<Longrightarrow> x \<in> set (rows w) \<Longrightarrow> live x \<Longrightarrow> grp x = g \<Longrightarrow> ex \<noteq> Some (ident x) \<Longrightarrow>
      hi x \<le> a \<or> b \<le> lo x"
begin

lemma create_no_overlap:
  assumes "no_overlap ident grp lo hi live (rows w)" and "create r w = Inr (r', w')"
    and "live r' \<Longrightarrow> \<not> clash w (grp r') (lo r') (hi r') None"
  shows "no_overlap ident grp lo hi live (rows w')"
proof -
  have "rows w' = rows w @ [r']" using create_rows assms(2) by blast
  moreover have "apart grp lo hi live x r'" if "x \<in> set (rows w)" for x
    using clash_complete [of w "grp r'" "lo r'" "hi r'" None x] that assms(3) by (auto simp: apart_def)
  ultimately show ?thesis
    using assms(1) by (simp add: no_overlap_append)
qed

lemma update_no_overlap:
  assumes "no_overlap ident grp lo hi live (rows w)" and "update r w = Inr w'"
    and "live r \<Longrightarrow> \<not> clash w (grp r) (lo r) (hi r) (Some (ident r))"
  shows "no_overlap ident grp lo hi live (rows w')"
proof -
  have "rows w' = tbl_set ident r (rows w)" using update_rows assms(2) by blast
  moreover have "apart grp lo hi live x r" if "x \<in> set (rows w)" "ident x \<noteq> ident r" for x
    using clash_complete [of w "grp r" "lo r" "hi r" "Some (ident r)" x] that assms(3)
    by (auto simp: apart_def)
  ultimately show ?thesis
    using assms(1) by (simp add: no_overlap_set)
qed

lemma update_same_no_overlap:
  assumes "no_overlap ident grp lo hi live (rows w)" and "update r w = Inr w'"
    and "get (ident r) w = Some x" "grp r = grp x" "lo r = lo x" "hi r = hi x" "live r \<Longrightarrow> live x"
  shows "no_overlap ident grp lo hi live (rows w')"
  using assms update_rows [OF assms(2)] get_mem [OF assms(3)]
  by (auto intro: no_overlap_set_same [of _ _ _ _ _ _ x])

end

end
