(* ===== verification/Enums.thy ===== *)
theory Enums
  imports Prelude
begin

text \<open>The enumerations of \<^verbatim>\<open>models/enums.py\<close>, with the stored values the code compares.\<close>

datatype membership_role = OWNER | ADMIN | PROVIDER | STAFF

datatype channel_type = CH_WHATSAPP | CH_TELEGRAM | CH_WEB | CH_MOBILE

datatype booking_channel = BC_WHATSAPP | BC_TELEGRAM | BC_WEB | BC_MOBILE | BC_DASHBOARD | BC_ADMIN

datatype appointment_status =
  APT_PENDING | APT_PENDING_PAYMENT | APT_CONFIRMED | APT_CANCELLED | APT_COMPLETED | APT_NO_SHOW

datatype payment_status =
  PAY_PENDING | PAY_REQUIRES_ACTION | PAY_SUCCEEDED | PAY_FAILED | PAY_CANCELED | PAY_REFUNDED

datatype payment_type = FULL | DEPOSIT

datatype commission_type = PERCENTAGE | FIXED

datatype cancellation_policy_type = FLEXIBLE | MODERATE | STRICT

datatype refund_status = RF_PENDING | RF_SUCCEEDED | RF_FAILED

datatype earning_status = ERN_PENDING | READY_FOR_PAYOUT | PAID_OUT

datatype message_direction = MSG_INBOUND | MSG_OUTBOUND

datatype notification_type = REMINDER | STATUS_UPDATE

datatype notification_status = NTF_PENDING | NTF_SENT | NTF_FAILED

datatype payout_status = PO_PENDING | PO_PROCESSING | PO_COMPLETED | PO_FAILED

fun channel_type_value :: "channel_type \<Rightarrow> string" where
  "channel_type_value CH_WHATSAPP = ''whatsapp''"
| "channel_type_value CH_TELEGRAM = ''telegram''"
| "channel_type_value CH_WEB = ''web''"
| "channel_type_value CH_MOBILE = ''mobile''"

fun appointment_status_value :: "appointment_status \<Rightarrow> string" where
  "appointment_status_value APT_PENDING = ''pending''"
| "appointment_status_value APT_PENDING_PAYMENT = ''pending_payment''"
| "appointment_status_value APT_CONFIRMED = ''confirmed''"
| "appointment_status_value APT_CANCELLED = ''cancelled''"
| "appointment_status_value APT_COMPLETED = ''completed''"
| "appointment_status_value APT_NO_SHOW = ''no_show''"

fun booking_channel_value :: "booking_channel \<Rightarrow> string" where
  "booking_channel_value BC_WHATSAPP = ''whatsapp''"
| "booking_channel_value BC_TELEGRAM = ''telegram''"
| "booking_channel_value BC_WEB = ''web''"
| "booking_channel_value BC_MOBILE = ''mobile''"
| "booking_channel_value BC_DASHBOARD = ''dashboard''"
| "booking_channel_value BC_ADMIN = ''admin''"

fun payment_status_value :: "payment_status \<Rightarrow> string" where
  "payment_status_value PAY_PENDING = ''pending''"
| "payment_status_value PAY_REQUIRES_ACTION = ''requires_action''"
| "payment_status_value PAY_SUCCEEDED = ''succeeded''"
| "payment_status_value PAY_FAILED = ''failed''"
| "payment_status_value PAY_CANCELED = ''canceled''"
| "payment_status_value PAY_REFUNDED = ''refunded''"

fun refund_status_value :: "refund_status \<Rightarrow> string" where
  "refund_status_value RF_PENDING = ''pending''"
| "refund_status_value RF_SUCCEEDED = ''succeeded''"
| "refund_status_value RF_FAILED = ''failed''"

fun payout_status_value :: "payout_status \<Rightarrow> string" where
  "payout_status_value PO_PENDING = ''pending''"
| "payout_status_value PO_PROCESSING = ''processing''"
| "payout_status_value PO_COMPLETED = ''completed''"
| "payout_status_value PO_FAILED = ''failed''"

text \<open>\<^verbatim>\<open>PaymentStatus(value)\<close>: the member with that value, or a \<^verbatim>\<open>ValueError\<close>.\<close>

definition payment_status_of_value :: "string \<Rightarrow> payment_status result" where
  "payment_status_of_value v =
     (case find (\<lambda>s. payment_status_value s = v)
        [PAY_PENDING, PAY_REQUIRES_ACTION, PAY_SUCCEEDED, PAY_FAILED, PAY_CANCELED, PAY_REFUNDED] of
        Some s \<Rightarrow> Inr s
      | None \<Rightarrow> Inl (ValueError (v @ '' is not a valid PaymentStatus'')))"

lemma payment_status_of_value_value [simp]:
  "payment_status_of_value (payment_status_value s) = Inr s"
  by (cases s) (simp_all add: payment_status_of_value_def)

end
