(* ===== verification/Clock.thy ===== *)
theory Clock
  imports Prelude
begin

text \<open>
  Dates, times and datetimes of \<^verbatim>\<open>utils/datetime.py\<close> and of the scheduling code.  An
  instant is an \<^verbatim>\<open>int\<close>: microseconds since 1970-01-01T00:00 UTC, the resolution of
  Python's datetime.  A date is its number of days since 1970-01-01, a time of day the
  microseconds since midnight.  The time-zone database is not part of the repository: a
  \<^verbatim>\<open>zone\<close> gives the offset of a wall-clock time and of an instant, and the table of the
  known zone names is a parameter of every definition that uses it.
\<close>

type_synonym instant = int
type_synonym date = int
type_synonym time_of_day = int

definition second_us :: int where "second_us = 1000000"
definition minute_us :: int where "minute_us = 60000000"
definition hour_us :: int where "hour_us = 3600000000"
definition day_us :: int where "day_us = 86400000000"

lemmas duration_defs = second_us_def minute_us_def hour_us_def day_us_def

text \<open>A naive datetime is a wall-clock reading; an aware one carries its UTC offset.\<close>

datatype py_datetime = Naive int | Aware int int

definition ensure_aware_utc :: "py_datetime \<Rightarrow> instant result" where
  "ensure_aware_utc value =
     (case value of
        Naive _ \<Rightarrow> Inl (ValueError ''Datetime must be timezone-aware.'')
      | Aware local offset \<Rightarrow> Inr (local - offset))"

definition as_utc :: "py_datetime \<Rightarrow> instant" where
  "as_utc value = (case value of Naive local \<Rightarrow> local | Aware local offset \<Rightarrow> local - offset)"

record zone =
  offset_of_local :: "int \<Rightarrow> int"
  offset_of_instant :: "instant \<Rightarrow> int"

type_synonym zones = "string \<Rightarrow> zone option"

definition combine :: "date \<Rightarrow> time_of_day \<Rightarrow> int" where
  "combine d t = d * day_us + t"

definition zone_info :: "zones \<Rightarrow> string \<Rightarrow> zone result" where
  "zone_info zs name = (case zs name of None \<Rightarrow> Inl (KeyError name) | Some z \<Rightarrow> Inr z)"

definition combine_local_datetime :: "zones \<Rightarrow> date \<Rightarrow> time_of_day \<Rightarrow> string \<Rightarrow> py_datetime result" where
  "combine_local_datetime zs target_date target_time timezone_name =
     (case zone_info zs timezone_name of
        Inl e \<Rightarrow> Inl e
      | Inr z \<Rightarrow> (let l = combine target_date target_time in Inr (Aware l (offset_of_local z l))))"

text \<open>\<^verbatim>\<open>datetime.combine(d, t).replace(tzinfo=z).astimezone(utc)\<close>\<close>

definition local_to_utc :: "zone \<Rightarrow> date \<Rightarrow> time_of_day \<Rightarrow> instant" where
  "local_to_utc z d t = (let l = combine d t in l - offset_of_local z l)"

text \<open>\<^verbatim>\<open>value.astimezone(z).date()\<close>\<close>

definition local_date :: "zone \<Rightarrow> instant \<Rightarrow> date" where
  "local_date z i = (i + offset_of_instant z i) div day_us"

text \<open>\<^verbatim>\<open>date.weekday()\<close>: Monday is 0, and 1970-01-01 was a Thursday.\<close>

definition weekday :: "date \<Rightarrow> int" where
  "weekday d = (d + 3) mod 7"

function daterange :: "date \<Rightarrow> date \<Rightarrow> date list" where
  "daterange current end_date =
     (if current \<le> end_date then current # daterange (current + 1) end_date else [])"
  by pat_completeness auto
termination
  by (relation "measure (\<lambda>(c, e). nat (e + 1 - c))") auto

declare daterange.simps [simp del]

lemma daterange_eq: "daterange a b = [a..b]"
proof (induction a b rule: daterange.induct)
  case (1 a b)
  then show ?case
    by (cases "a \<le> b") (simp_all add: daterange.simps [of a b] upto.simps [of a b])
qed

lemma set_daterange [simp]: "set (daterange a b) = {a..b}"
  by (simp add: daterange_eq)

lemma length_daterange: "a \<le> b \<Longrightarrow> int (length (daterange a b)) = b - a + 1"
  by (simp add: daterange_eq)

lemma weekday_range: "0 \<le> weekday d \<and> weekday d \<le> 6"
  by (simp add: weekday_def)

lemma ensure_aware_utc_as_utc: "ensure_aware_utc v = Inr i \<Longrightarrow> as_utc v = i"
  by (auto simp: ensure_aware_utc_def as_utc_def split: py_datetime.splits)

section \<open>isoformat of an aware UTC datetime\<close>

text \<open>The proleptic Gregorian date of a day number, counted in eras of 400 years from March.\<close>

definition civil_from_days :: "date \<Rightarrow> int \<times> int \<times> int" where
  "civil_from_days d =
     (let z = d + 719468; era = z div 146097; doe = z mod 146097;
          yoe = (doe - doe div 1460 + doe div 36524 - doe div 146096) div 365;
          doy = doe - (365 * yoe + yoe div 4 - yoe div 100);
          mp = (5 * doy + 2) div 153;
          m = (if mp < 10 then mp + 3 else mp - 9) in
      (yoe + era * 400 + (if m \<le> 2 then 1 else 0), m, doy - (153 * mp + 2) div 5 + 1))"

definition decimal_digit :: "int \<Rightarrow> char" where
  "decimal_digit n = ''0123456789'' ! nat (n mod 10)"

fun padded :: "nat \<Rightarrow> int \<Rightarrow> string" where
  "padded 0 n = []"
| "padded (Suc w) n = padded w (n div 10) @ [decimal_digit n]"

definition isoformat_utc :: "instant \<Rightarrow> string" where
  "isoformat_utc i =
     (let (y, m, d) = civil_from_days (i div day_us); t = i mod day_us; us = t mod second_us in
      padded 4 y @ ''-'' @ padded 2 m @ ''-'' @ padded 2 d @ ''T'' @
      padded 2 (t div hour_us) @ '':'' @ padded 2 (t div minute_us mod 60) @ '':'' @ padded 2 (t div second_us mod 60) @
      (if us = 0 then [] else ''.'' @ padded 6 us) @ ''+00:00'')"

lemma isoformat_epoch: "isoformat_utc 0 = ''1970-01-01T00:00:00+00:00''"
  by code_simp

lemma isoformat_leap_day: "isoformat_utc (19782 * day_us + 13 * hour_us + 5 * second_us + 7) = ''2024-02-29T13:00:05.000007+00:00''"
  by code_simp

end
