(* ===== verification/Pystring.thy ===== *)
theory Pystring
  imports Prelude
begin

text \<open>
  The Python string methods the code uses, on strings of ASCII characters: \<^verbatim>\<open>strip\<close>,
  \<^verbatim>\<open>lower\<close>, \<^verbatim>\<open>upper\<close>, \<^verbatim>\<open>isdigit\<close>, the decimal value of a digit string, and the
  two helpers of \<^verbatim>\<open>utils/phone.py\<close> and of \<^verbatim>\<open>DiscoveryService._normalize_email\<close>.
\<close>

definition code :: "char \<Rightarrow> nat" where
  "code c = of_char c"

text \<open>\<^verbatim>\<open>str.isspace\<close> on ASCII: tab to carriage return, the four separators, blank.\<close>

definition is_space :: "char \<Rightarrow> bool" where
  "is_space c \<longleftrightarrow> (let n = code c in (9 \<le> n \<and> n \<le> 13) \<or> (28 \<le> n \<and> n \<le> 32))"

definition is_digit :: "char \<Rightarrow> bool" where
  "is_digit c \<longleftrightarrow> 48 \<le> code c \<and> code c \<le> 57"

definition strip :: "string \<Rightarrow> string" where
  "strip s = rev (dropWhile is_space (rev (dropWhile is_space s)))"

definition lower_char :: "char \<Rightarrow> char" where
  "lower_char c = (if 65 \<le> code c \<and> code c \<le> 90 then char_of (code c + 32) else c)"

definition upper_char :: "char \<Rightarrow> char" where
  "upper_char c = (if 97 \<le> code c \<and> code c \<le> 122 then char_of (code c - 32) else c)"

definition lower :: "string \<Rightarrow> string" where
  "lower s = map lower_char s"

definition upper :: "string \<Rightarrow> string" where
  "upper s = map upper_char s"

lemma strip_Nil [simp]: "strip [] = []"
  by (simp add: strip_def)

lemma hd_dropWhile_not: "dropWhile P xs \<noteq> [] \<Longrightarrow> \<not> P (hd (dropWhile P xs))"
  by (induction xs) auto

lemma dropWhile_id: "xs \<noteq> [] \<Longrightarrow> \<not> P (hd xs) \<Longrightarrow> dropWhile P xs = xs"
  by (cases xs) auto

lemma strip_ends:
  assumes "strip s \<noteq> []"
  shows "\<not> is_space (hd (strip s))" and "\<not> is_space (last (strip s))"
proof -
  let ?a = "dropWhile is_space s"
  let ?b = "dropWhile is_space (rev ?a)"
  from assms have b: "?b \<noteq> []" by (simp add: strip_def)
  then have "last (rev ?b) = hd ?b" by (simp only: last_rev if_False)
  with hd_dropWhile_not [OF b] show "\<not> is_space (last (strip s))"
    by (metis strip_def)
  from b have a: "?a \<noteq> []" by (metis dropWhile.simps(1) rev.simps(1))
  obtain ys where ys: "rev ?a = ys @ ?b" by (metis takeWhile_dropWhile_id)
  then have "?a = rev ?b @ rev ys" by (metis rev_append rev_rev_ident)
  with b have "hd (rev ?b) = hd ?a" by (metis hd_append2 rev_is_Nil_conv)
  with hd_dropWhile_not [OF a] show "\<not> is_space (hd (strip s))"
    by (metis strip_def)
qed

lemma strip_idem [simp]: "strip (strip s) = strip s"
proof (cases "strip s = []")
  case False
  with strip_ends [OF False] have "dropWhile is_space (strip s) = strip s"
    and "dropWhile is_space (rev (strip s)) = rev (strip s)"
    by (auto intro!: dropWhile_id simp: hd_rev)
  then show ?thesis by (simp add: strip_def [of "strip s"])
qed simp

lemma length_strip: "length (strip s) \<le> length s"
  unfolding strip_def
  by (metis length_dropWhile_le length_rev order_trans)

lemma set_strip: "set (strip s) \<subseteq> set s"
  unfolding strip_def by (auto dest!: set_dropWhileD)

lemma lower_char_lower [simp]: "lower_char (lower_char c) = lower_char c"
proof (cases "65 \<le> code c \<and> code c \<le> 90")
  case True
  then have "code (char_of (code c + 32)) = code c + 32" by (simp add: code_def)
  with True show ?thesis by (simp add: lower_char_def)
next
  case False
  then show ?thesis by (auto simp: lower_char_def)
qed

lemma lower_lower [simp]: "lower (lower s) = lower s"
  by (simp add: lower_def)

text \<open>The decimal value of a string of digits, as \<^verbatim>\<open>int\<close> reads it.\<close>

definition digit_value :: "char \<Rightarrow> int" where
  "digit_value c = int (code c) - 48"

fun digits_value :: "int \<Rightarrow> string \<Rightarrow> int" where
  "digits_value acc [] = acc"
| "digits_value acc (c # cs) = digits_value (10 * acc + digit_value c) cs"

section \<open>utils/phone.py\<close>

definition normalize_phone_number :: "string \<Rightarrow> string result" where
  "normalize_phone_number raw_phone_number =
     (let stripped = strip raw_phone_number;
          digits = filter is_digit stripped in
      if digits = [] then Inl (ValueError ''Phone number must contain digits.'')
      else
        let normalized = CHR ''+'' # digits in
        if length digits < 7 then Inl (ValueError ''Phone number is too short.'')
        else if 15 < length digits then Inl (ValueError ''Phone number is too long.'')
        else Inr normalized)"

lemma is_digit_not_space: "is_digit c \<Longrightarrow> \<not> is_space c"
  by (auto simp: is_digit_def is_space_def Let_def)

lemma filter_digit_dropWhile: "filter is_digit (dropWhile is_space s) = filter is_digit s"
  by (induction s) (auto dest: is_digit_not_space)

lemma filter_digit_strip: "filter is_digit (strip s) = filter is_digit s"
proof -
  have "filter is_digit (strip s) = rev (filter is_digit (dropWhile is_space (rev (dropWhile is_space s))))"
    by (simp add: strip_def rev_filter)
  also have "\<dots> = filter is_digit (dropWhile is_space s)"
    by (simp only: filter_digit_dropWhile rev_filter rev_rev_ident)
  finally show ?thesis by (simp only: filter_digit_dropWhile)
qed

lemma normalize_phone_number_Inr:
  "normalize_phone_number s = Inr p \<longleftrightarrow>
     p = CHR ''+'' # filter is_digit s \<and> 7 \<le> length (filter is_digit s) \<and> length (filter is_digit s) \<le> 15"
  by (auto simp: normalize_phone_number_def Let_def filter_digit_strip)

lemma plus_not_digit [simp]: "\<not> is_digit CHR ''+''"
  by (simp add: is_digit_def code_def)

text \<open>A normalised number is a fixed point, so looking a customer up by it is stable.\<close>

lemma normalize_phone_number_idem:
  "normalize_phone_number s = Inr p \<Longrightarrow> normalize_phone_number p = Inr p"
  by (auto simp: normalize_phone_number_Inr)

section \<open>DiscoveryService._normalize_email\<close>

definition normalize_email :: "string option \<Rightarrow> string option" where
  "normalize_email value =
     (case value of
        None \<Rightarrow> None
      | Some v \<Rightarrow> (let normalized = lower (strip v) in if normalized = [] then None else Some normalized))"

end
