(* ===== verification/Config.thy ===== *)
theory Config
  imports Pystring
begin

text \<open>
  The settings of \<^verbatim>\<open>core/config.py\<close>: the record of their values, the defaults, and the
  checks that run when the settings object is built.  Floats are rationals.  Reading the
  environment and the coercions of pydantic are not modelled, nor are the warnings that the
  checks log; \<^verbatim>\<open>urlparse\<close> is modelled for ASCII text, without the check that the host
  between square brackets is an IP address.
\<close>

section \<open>Settings\<close>

definition DEFAULT_SECRET_PLACEHOLDER :: string where
  "DEFAULT_SECRET_PLACEHOLDER = ''change-me-in-production''"

definition INSECURE_SECRET_VALUES :: "string list" where
  "INSECURE_SECRET_VALUES =
     [[], DEFAULT_SECRET_PLACEHOLDER, ''change-this-secret'', ''changeme'', ''secret'']"

record settings =
  cfg_app_name :: string
  cfg_app_env :: string
  cfg_environment :: "string option"
  cfg_debug :: bool
  cfg_api_v1_prefix :: string
  cfg_enable_docs :: bool
  cfg_enable_metrics :: bool
  cfg_enable_admin_internal_endpoints :: bool
  cfg_secret_key :: string
  cfg_jwt_algorithm :: string
  cfg_access_token_expire_minutes :: int
  cfg_payment_webhooks_enabled :: bool
  cfg_payment_webhook_secret :: "string option"
  cfg_whatsapp_enabled :: bool
  cfg_whatsapp_verify_token :: "string option"
  cfg_whatsapp_access_token :: "string option"
  cfg_whatsapp_phone_number_id :: "string option"
  cfg_whatsapp_app_secret :: "string option"
  cfg_whatsapp_cloud_api_base_url :: string
  cfg_whatsapp_cloud_api_version :: string
  cfg_whatsapp_outbound_timeout_seconds :: rat
  cfg_whatsapp_outbound_max_retries :: int
  cfg_whatsapp_outbound_retry_backoff_seconds :: rat
  cfg_payment_pending_expiration_minutes :: int
  cfg_payment_expiration_check_interval_seconds :: int
  cfg_payout_processing_interval_seconds :: int
  cfg_payout_processing_provider_name :: string
  cfg_reminder_schedule_interval_seconds :: int
  cfg_reminder_lookahead_minutes :: int
  cfg_ops_cleanup_interval_seconds :: int
  cfg_domain_events_retention_days :: int
  cfg_idempotency_keys_retention_days :: int
  cfg_enable_rate_limiting :: bool
  cfg_rate_limit_use_redis :: bool
  cfg_rate_limit_fallback_to_memory :: bool
  cfg_rate_limit_public_slots_limit :: int
  cfg_rate_limit_public_slots_window_seconds :: int
  cfg_rate_limit_public_booking_limit :: int
  cfg_rate_limit_public_booking_window_seconds :: int
  cfg_rate_limit_public_booking_duplicate_limit :: int
  cfg_rate_limit_public_booking_duplicate_window_seconds :: int
  cfg_rate_limit_customer_booking_get_limit :: int
  cfg_rate_limit_customer_booking_get_window_seconds :: int
  cfg_rate_limit_customer_booking_action_limit :: int
  cfg_rate_limit_customer_booking_action_window_seconds :: int
  cfg_rate_limit_customer_invalid_token_limit :: int
  cfg_rate_limit_customer_invalid_token_window_seconds :: int
  cfg_rate_limit_payment_confirm_limit :: int
  cfg_rate_limit_payment_confirm_window_seconds :: int
  cfg_rate_limit_payout_create_limit :: int
  cfg_rate_limit_payout_create_window_seconds :: int
  cfg_rate_limit_manual_refund_limit :: int
  cfg_rate_limit_manual_refund_window_seconds :: int
  cfg_rate_limit_admin_events_limit :: int
  cfg_rate_limit_admin_events_window_seconds :: int
  cfg_rate_limit_whatsapp_inbound_limit :: int
  cfg_rate_limit_whatsapp_inbound_window_seconds :: int
  cfg_database_url :: string
  cfg_redis_url :: string
  cfg_celery_broker_url :: "string option"
  cfg_celery_result_backend :: "string option"
  cfg_default_city :: string
  cfg_default_timezone :: string
  cfg_cors_origins :: "string list"

definition default_settings :: settings where
  "default_settings =
     \<lparr>cfg_app_name = ''BookPoint API'',
      cfg_app_env = ''development'',
      cfg_environment = None,
      cfg_debug = False,
      cfg_api_v1_prefix = ''/api/v1'',
      cfg_enable_docs = True,
      cfg_enable_metrics = True,
      cfg_enable_admin_internal_endpoints = True,
      cfg_secret_key = DEFAULT_SECRET_PLACEHOLDER,
      cfg_jwt_algorithm = ''HS256'',
      cfg_access_token_expire_minutes = 60,
      cfg_payment_webhooks_enabled = True,
      cfg_payment_webhook_secret = None,
      cfg_whatsapp_enabled = False,
      cfg_whatsapp_verify_token = None,
      cfg_whatsapp_access_token = None,
      cfg_whatsapp_phone_number_id = None,
      cfg_whatsapp_app_secret = None,
      cfg_whatsapp_cloud_api_base_url = ''https://graph.facebook.com'',
      cfg_whatsapp_cloud_api_version = ''v21.0'',
      cfg_whatsapp_outbound_timeout_seconds = 5,
      cfg_whatsapp_outbound_max_retries = 2,
      cfg_whatsapp_outbound_retry_backoff_seconds = 1 / 5,
      cfg_payment_pending_expiration_minutes = 15,
      cfg_payment_expiration_check_interval_seconds = 60,
      cfg_payout_processing_interval_seconds = 300,
      cfg_payout_processing_provider_name = ''mock'',
      cfg_reminder_schedule_interval_seconds = 300,
      cfg_reminder_lookahead_minutes = 60,
      cfg_ops_cleanup_interval_seconds = 3600,
      cfg_domain_events_retention_days = 90,
      cfg_idempotency_keys_retention_days = 14,
      cfg_enable_rate_limiting = True,
      cfg_rate_limit_use_redis = False,
      cfg_rate_limit_fallback_to_memory = True,
      cfg_rate_limit_public_slots_limit = 60,
      cfg_rate_limit_public_slots_window_seconds = 60,
      cfg_rate_limit_public_booking_limit = 12,
      cfg_rate_limit_public_booking_window_seconds = 60,
      cfg_rate_limit_public_booking_duplicate_limit = 1,
      cfg_rate_limit_public_booking_duplicate_window_seconds = 20,
      cfg_rate_limit_customer_booking_get_limit = 30,
      cfg_rate_limit_customer_booking_get_window_seconds = 60,
      cfg_rate_limit_customer_booking_action_limit = 12,
      cfg_rate_limit_customer_booking_action_window_seconds = 60,
      cfg_rate_limit_customer_invalid_token_limit = 10,
      cfg_rate_limit_customer_invalid_token_window_seconds = 60,
      cfg_rate_limit_payment_confirm_limit = 60,
      cfg_rate_limit_payment_confirm_window_seconds = 60,
      cfg_rate_limit_payout_create_limit = 20,
      cfg_rate_limit_payout_create_window_seconds = 60,
      cfg_rate_limit_manual_refund_limit = 20,
      cfg_rate_limit_manual_refund_window_seconds = 60,
      cfg_rate_limit_admin_events_limit = 30,
      cfg_rate_limit_admin_events_window_seconds = 60,
      cfg_rate_limit_whatsapp_inbound_limit = 30,
      cfg_rate_limit_whatsapp_inbound_window_seconds = 60,
      cfg_database_url = ''postgresql+psycopg://bookpoint:bookpoint@db:5432/bookpoint'',
      cfg_redis_url = ''redis://redis:6379/0'',
      cfg_celery_broker_url = None,
      cfg_celery_result_backend = None,
      cfg_default_city = ''Baku'',
      cfg_default_timezone = ''Asia/Baku'',
      cfg_cors_origins = []\<rparr>"


text \<open>\<^verbatim>\<open>value or default\<close> and \<^verbatim>\<open>bool(value and value.strip())\<close> on an optional string.\<close>

definition str_or :: "string option \<Rightarrow> string \<Rightarrow> string" where
  "str_or value dflt = (case value of None \<Rightarrow> dflt | Some v \<Rightarrow> if v = [] then dflt else v)"

definition has_text :: "string option \<Rightarrow> bool" where
  "has_text value = (case value of None \<Rightarrow> False | Some v \<Rightarrow> strip v \<noteq> [])"

definition resolved_environment :: "settings \<Rightarrow> string" where
  "resolved_environment s =
     (let candidate = lower (strip (str_or (cfg_environment s) (cfg_app_env s))) in
      if candidate = [] then ''development'' else candidate)"

definition is_production :: "settings \<Rightarrow> bool" where
  "is_production s \<longleftrightarrow> resolved_environment s \<in> {''production'', ''prod''}"

definition resolved_celery_broker_url :: "settings \<Rightarrow> string" where
  "resolved_celery_broker_url s = str_or (cfg_celery_broker_url s) (cfg_redis_url s)"

definition resolved_celery_result_backend :: "settings \<Rightarrow> string" where
  "resolved_celery_result_backend s = str_or (cfg_celery_result_backend s) (cfg_redis_url s)"

section \<open>URLs\<close>

record url_parts =
  url_scheme :: string
  url_netloc :: string
  url_path :: string
  url_params :: string
  url_query :: string
  url_fragment :: string

text \<open>The text before and after the first character that satisfies \<^verbatim>\<open>P\<close>.\<close>

definition cut_at :: "(char \<Rightarrow> bool) \<Rightarrow> string \<Rightarrow> string \<times> string" where
  "cut_at P s = (takeWhile (\<lambda>c. \<not> P c) s, tl (dropWhile (\<lambda>c. \<not> P c) s))"

definition is_alpha :: "char \<Rightarrow> bool" where
  "is_alpha c \<longleftrightarrow> (65 \<le> code c \<and> code c \<le> 90) \<or> (97 \<le> code c \<and> code c \<le> 122)"

definition is_scheme_char :: "char \<Rightarrow> bool" where
  "is_scheme_char c \<longleftrightarrow> is_alpha c \<or> is_digit c \<or> c \<in> set ''+-.''"

definition split_scheme :: "string \<Rightarrow> string \<times> string" where
  "split_scheme url =
     (let (pre, post) = cut_at (\<lambda>c. c = CHR '':'') url in
      if CHR '':'' \<in> set url \<and> pre \<noteq> [] \<and> is_alpha (hd pre) \<and> (\<forall>c \<in> set pre. is_scheme_char c)
      then (lower pre, post) else ([], url))"

definition split_netloc :: "string \<Rightarrow> string \<times> string" where
  "split_netloc url =
     (if take 2 url = ''//''
      then (takeWhile (\<lambda>c. c \<notin> set ''/?#'') (drop 2 url), dropWhile (\<lambda>c. c \<notin> set ''/?#'') (drop 2 url))
      else ([], url))"

text \<open>The parameters of the last path segment, for the schemes that have them.\<close>

definition split_params :: "string \<Rightarrow> string \<times> string" where
  "split_params path =
     (let segment = rev (takeWhile (\<lambda>c. c \<noteq> CHR ''/'') (rev path));
          before = take (length path - length segment) path;
          (seg, params) = cut_at (\<lambda>c. c = CHR '';'') segment in
      (before @ seg, params))"

definition uses_params :: "string list" where
  "uses_params =
     [[], ''ftp'', ''hdl'', ''prospero'', ''http'', ''imap'', ''https'', ''shttp'', ''rtsp'',
      ''rtsps'', ''rtspu'', ''sip'', ''sips'', ''mms'', ''sftp'', ''tel'']"

definition urlparse :: "string \<Rightarrow> url_parts result" where
  "urlparse url =
     (let url1 = [c \<leftarrow> dropWhile (\<lambda>c. code c \<le> 32) url. code c \<notin> {9, 10, 13}];
          (scheme, rest) = split_scheme url1;
          (netloc, rest1) = split_netloc rest in
      if (CHR ''['' \<in> set netloc) \<noteq> (CHR '']'' \<in> set netloc) then Inl (ValueError ''Invalid IPv6 URL'')
      else
     (let (rest2, fragment) = cut_at (\<lambda>c. c = CHR ''#'') rest1;
          (path, query) = cut_at (\<lambda>c. c = CHR ''?'') rest2;
          (path', params) = (if scheme \<in> set uses_params then split_params path else (path, [])) in
      Inr \<lparr>url_scheme = scheme, url_netloc = netloc, url_path = path', url_params = params,
           url_query = query, url_fragment = fragment\<rparr>))"

section \<open>Checks at start-up\<close>

fun validate_cors_structure :: "bool \<Rightarrow> string list \<Rightarrow> unit result" where
  "validate_cors_structure production [] = Inr ()"
| "validate_cors_structure production (origin # rest) =
     (if origin = ''*'' then
        (if production then Inl (ValueError ''CORS wildcard origin is not allowed in production.'')
         else validate_cors_structure production rest)
      else case urlparse origin of
        Inl e \<Rightarrow> Inl e
      | Inr parsed \<Rightarrow>
          if url_scheme parsed \<notin> {''http'', ''https''} \<or> url_netloc parsed = []
          then Inl (ValueError (''Invalid CORS origin '' @ [CHR 0x27] @ origin @ [CHR 0x27] @ ''.''))
          else if url_path parsed \<notin> {[], ''/''} \<or> url_params parsed \<noteq> [] \<or> url_query parsed \<noteq> [] \<or> url_fragment parsed \<noteq> []
          then Inl (ValueError (''CORS origin must not include path/query/fragment: '' @ [CHR 0x27] @ origin @ [CHR 0x27]))
          else validate_cors_structure production rest)"

definition rate_limit_fields :: "settings \<Rightarrow> int list" where
  "rate_limit_fields s =
     [cfg_rate_limit_public_slots_limit s,
      cfg_rate_limit_public_slots_window_seconds s,
      cfg_rate_limit_public_booking_limit s,
      cfg_rate_limit_public_booking_window_seconds s,
      cfg_rate_limit_public_booking_duplicate_limit s,
      cfg_rate_limit_public_booking_duplicate_window_seconds s,
      cfg_rate_limit_customer_booking_get_limit s,
      cfg_rate_limit_customer_booking_get_window_seconds s,
      cfg_rate_limit_customer_booking_action_limit s,
      cfg_rate_limit_customer_booking_action_window_seconds s,
      cfg_rate_limit_customer_invalid_token_limit s,
      cfg_rate_limit_customer_invalid_token_window_seconds s,
      cfg_rate_limit_payment_confirm_limit s,
      cfg_rate_limit_payment_confirm_window_seconds s,
      cfg_rate_limit_payout_create_limit s,
      cfg_rate_limit_payout_create_window_seconds s,
      cfg_rate_limit_manual_refund_limit s,
      cfg_rate_limit_manual_refund_window_seconds s,
      cfg_rate_limit_admin_events_limit s,
      cfg_rate_limit_admin_events_window_seconds s,
      cfg_rate_limit_whatsapp_inbound_limit s,
      cfg_rate_limit_whatsapp_inbound_window_seconds s]"

definition validate_rate_limit_structure :: "settings \<Rightarrow> unit result" where
  "validate_rate_limit_structure s =
     (if \<exists>v \<in> set (rate_limit_fields s). v \<le> 0
      then Inl (ValueError ''Rate limit limits and windows must be positive integers.'') else Inr ())"

definition runtime_value_fields :: "settings \<Rightarrow> rat list" where
  "runtime_value_fields s =
     [of_int (cfg_payment_pending_expiration_minutes s), of_int (cfg_payment_expiration_check_interval_seconds s),
      of_int (cfg_payout_processing_interval_seconds s), of_int (cfg_reminder_schedule_interval_seconds s),
      of_int (cfg_reminder_lookahead_minutes s), of_int (cfg_ops_cleanup_interval_seconds s),
      of_int (cfg_domain_events_retention_days s), of_int (cfg_idempotency_keys_retention_days s),
      cfg_whatsapp_outbound_timeout_seconds s, cfg_whatsapp_outbound_retry_backoff_seconds s]"

definition validate_runtime_value_ranges :: "settings \<Rightarrow> unit result" where
  "validate_runtime_value_ranges s =
     (if \<exists>v \<in> set (runtime_value_fields s). v \<le> 0
      then Inl (ValueError ''Runtime scheduling and retention values must be positive integers.'')
      else if cfg_whatsapp_outbound_max_retries s < 0
      then Inl (ValueError ''WHATSAPP_OUTBOUND_MAX_RETRIES must be zero or a positive integer.'')
      else if strip (cfg_whatsapp_cloud_api_base_url s) = []
      then Inl (ValueError ''WHATSAPP_CLOUD_API_BASE_URL must be non-empty.'')
      else if strip (cfg_whatsapp_cloud_api_version s) = []
      then Inl (ValueError ''WHATSAPP_CLOUD_API_VERSION must be non-empty.'')
      else if strip (cfg_payout_processing_provider_name s) = []
      then Inl (ValueError ''PAYOUT_PROCESSING_PROVIDER_NAME must be non-empty.'')
      else Inr ())"

text \<open>The production branch of \<^verbatim>\<open>validate_runtime_safety\<close>.\<close>

definition validate_production :: "settings \<Rightarrow> unit result" where
  "validate_production s =
     (if lower (strip (cfg_secret_key s)) \<in> set INSECURE_SECRET_VALUES
      then Inl (ValueError ''SECRET_KEY must be set to a non-default value in production.'')
      else if cfg_debug s then Inl (ValueError ''DEBUG mode must be disabled in production.'')
      else if cfg_payment_webhooks_enabled s \<and> \<not> has_text (cfg_payment_webhook_secret s)
      then Inl (ValueError ''PAYMENT_WEBHOOK_SECRET is required when payment webhooks are enabled in production.'')
      else if cfg_whatsapp_enabled s \<and> \<not> has_text (cfg_whatsapp_verify_token s)
      then Inl (ValueError ''WHATSAPP_VERIFY_TOKEN is required when WhatsApp integration is enabled in production.'')
      else if cfg_whatsapp_enabled s \<and> \<not> has_text (cfg_whatsapp_access_token s)
      then Inl (ValueError ''WHATSAPP_ACCESS_TOKEN is required when WhatsApp integration is enabled in production.'')
      else if cfg_whatsapp_enabled s \<and> \<not> has_text (cfg_whatsapp_phone_number_id s)
      then Inl (ValueError ''WHATSAPP_PHONE_NUMBER_ID is required when WhatsApp integration is enabled in production.'')
      else if cfg_whatsapp_enabled s \<and> \<not> has_text (cfg_whatsapp_app_secret s)
      then Inl (ValueError ''WHATSAPP_APP_SECRET is required when WhatsApp integration is enabled in production.'')
      else if \<not> cfg_enable_rate_limiting s
      then Inl (ValueError ''ENABLE_RATE_LIMITING must remain enabled in production.'')
      else Inr ())"

definition validate_runtime_safety :: "settings \<Rightarrow> unit result" where
  "validate_runtime_safety s =
     (case (if is_production s then validate_production s else Inr ()) of
        Inl e \<Rightarrow> Inl e
      | Inr _ \<Rightarrow>
     (case validate_cors_structure (is_production s) (cfg_cors_origins s) of
        Inl e \<Rightarrow> Inl e
      | Inr _ \<Rightarrow>
     (case validate_rate_limit_structure s of
        Inl e \<Rightarrow> Inl e
      | Inr _ \<Rightarrow> validate_runtime_value_ranges s)))"

section \<open>What validated settings guarantee\<close>

lemma default_settings_valid: "validate_runtime_safety default_settings = Inr ()"
  by code_simp

lemma urlparse_origin:
  "urlparse ''HTTPS://app.example.com:8443/a;b?c#d'' =
     Inr \<lparr>url_scheme = ''https'', url_netloc = ''app.example.com:8443'', url_path = ''/a'',
          url_params = ''b'', url_query = ''c'', url_fragment = ''d''\<rparr>"
  by code_simp

lemma valid_limits_positive:
  "validate_runtime_safety s = Inr () \<Longrightarrow> v \<in> set (rate_limit_fields s) \<Longrightarrow> 0 < v"
  by (force simp: validate_runtime_safety_def validate_rate_limit_structure_def not_le
      split: if_splits sum.splits)

lemma valid_production_limits:
  "validate_runtime_safety s = Inr () \<Longrightarrow> is_production s \<Longrightarrow> cfg_enable_rate_limiting s"
  by (auto simp: validate_runtime_safety_def validate_production_def split: if_splits sum.splits)

lemma valid_production_secrets:
  "validate_runtime_safety s = Inr () \<Longrightarrow> is_production s \<Longrightarrow>
     strip (cfg_secret_key s) \<noteq> [] \<and> (cfg_payment_webhooks_enabled s \<longrightarrow> has_text (cfg_payment_webhook_secret s))"
  by (auto simp: validate_runtime_safety_def validate_production_def INSECURE_SECRET_VALUES_def lower_def
      split: if_splits sum.splits)

lemma valid_no_wildcard:
  "validate_cors_structure True origins = Inr () \<Longrightarrow> ''*'' \<notin> set origins"
  by (induction origins) (auto split: if_splits sum.splits)

end
