(* ===== verification/Schema.thy ===== *)
theory Schema
  imports Enums Clock Config "HOL-Library.AList"
begin

text \<open>
  The rows of \<^verbatim>\<open>models/*.py\<close>, one record per mapped class with its columns, the CHECK,
  UNIQUE and EXCLUDE constraints of each table, and the \<^verbatim>\<open>world\<close>: every table, the tasks
  handed to the message broker and the process-wide metric counters.  Timestamps of aware
  columns are instants.  \<^verbatim>\<open>updated_at\<close>, the \<^verbatim>\<open>created_at\<close> of rows that no query orders
  or filters by it, and the relationship attributes are left out; the code reads a relationship by the foreign key next to it.  What a request sees of its
  surroundings (clock, time zones, random tokens, broker, settings) is the record \<^verbatim>\<open>env\<close>.
\<close>

section \<open>Rows\<close>

record organization =
  org_id :: int
  org_name :: string
  org_slug :: string
  org_business_type :: string
  org_city :: string
  org_address :: "string option"
  org_timezone :: string
  org_is_active :: bool
  org_commission_type :: commission_type
  org_commission_percentage :: rat
  org_commission_fixed_minor :: int

record location =
  loc_id :: int
  loc_organization_id :: int
  loc_name :: string
  loc_slug :: string
  loc_address_line_1 :: "string option"
  loc_address_line_2 :: "string option"
  loc_city :: "string option"
  loc_region :: "string option"
  loc_postal_code :: "string option"
  loc_country :: "string option"
  loc_timezone :: "string option"
  loc_is_active :: bool

record provider =
  prov_id :: int
  prov_organization_id :: int
  prov_user_id :: "int option"
  prov_display_name :: string
  prov_title :: "string option"
  prov_bio :: "string option"
  prov_is_active :: bool
  prov_appointment_duration_minutes :: int

record service =
  svc_id :: int
  svc_organization_id :: int
  svc_provider_id :: int
  svc_name :: string
  svc_description :: "string option"
  svc_duration_minutes :: int
  svc_price :: "rat option"
  svc_currency :: "string option"
  svc_requires_payment :: bool
  svc_payment_type :: payment_type
  svc_deposit_amount_minor :: "int option"
  svc_cancellation_policy_type :: cancellation_policy_type
  svc_cancellation_window_hours :: int
  svc_buffer_before_minutes :: int
  svc_buffer_after_minutes :: int
  svc_is_active :: bool

record provider_service =
  ps_id :: int
  ps_provider_id :: int
  ps_service_id :: int
  ps_duration_minutes_override :: "int option"

record provider_location =
  pl_id :: int
  pl_provider_id :: int
  pl_location_id :: int

record service_location =
  sl_id :: int
  sl_service_id :: int
  sl_location_id :: int

record availability =
  av_id :: int
  av_provider_id :: int
  av_weekday :: int
  av_start_time :: time_of_day
  av_end_time :: time_of_day
  av_is_active :: bool

record date_override =
  ov_id :: int
  ov_provider_id :: int
  ov_override_date :: date
  ov_start_time :: "time_of_day option"
  ov_end_time :: "time_of_day option"
  ov_is_available :: bool
  ov_is_active :: bool

record time_off =
  off_id :: int
  off_provider_id :: int
  off_start_datetime :: instant
  off_end_datetime :: instant
  off_reason :: "string option"

record customer =
  cust_id :: int
  cust_full_name :: string
  cust_phone_number :: string
  cust_phone_number_normalized :: string
  cust_email :: "string option"
  cust_preferred_language :: "string option"

record appointment =
  apt_id :: int
  apt_booking_reference :: string
  apt_booking_access_token :: string
  apt_organization_id :: int
  apt_location_id :: int
  apt_provider_id :: int
  apt_service_id :: "int option"
  apt_customer_id :: int
  apt_start_datetime :: instant
  apt_end_datetime :: instant
  apt_status :: appointment_status
  apt_booking_channel :: booking_channel
  apt_notes :: "string option"

record payment =
  pay_id :: int
  pay_appointment_id :: int
  pay_organization_id :: int
  pay_amount_minor :: int
  pay_currency :: string
  pay_provider_name :: string
  pay_provider_payment_intent_id :: "string option"
  pay_provider_checkout_session_id :: "string option"
  pay_provider_checkout_url :: "string option"
  pay_status :: payment_status
  pay_payment_type :: payment_type
  pay_paid_at :: "instant option"
  pay_created_at :: instant

record refund =
  rf_id :: int
  rf_payment_id :: int
  rf_amount_minor :: int
  rf_currency :: string
  rf_provider_refund_id :: "string option"
  rf_status :: refund_status
  rf_processed_at :: "instant option"
  rf_created_at :: instant

record earning =
  ern_id :: int
  ern_provider_id :: int
  ern_appointment_id :: int
  ern_payment_id :: int
  ern_payout_id :: "int option"
  ern_gross_amount_minor :: int
  ern_platform_fee_minor :: int
  ern_provider_amount_minor :: int
  ern_refunded_amount_minor :: int
  ern_adjustment_pending_minor :: int
  ern_currency :: string
  ern_status :: earning_status
  ern_created_at :: instant

record payout =
  po_id :: int
  po_provider_id :: int
  po_total_amount_minor :: int
  po_currency :: string
  po_status :: payout_status
  po_provider_payout_reference :: "string option"
  po_processed_at :: "instant option"
  po_created_at :: instant

text \<open>JSON values as the code stores them.\<close>

datatype json =
    JNull
  | JBool bool
  | JInt int
  | JStr string
  | JList "json list"
  | JObj "(string \<times> json) list"

record domain_event =
  ev_id :: int
  ev_event_type :: string
  ev_entity_type :: "string option"
  ev_entity_id :: "int option"
  ev_organization_id :: "int option"
  ev_actor_type :: string
  ev_actor_id :: "int option"
  ev_request_id :: "string option"
  ev_related_payment_id :: "int option"
  ev_related_appointment_id :: "int option"
  ev_related_payout_id :: "int option"
  ev_status :: string
  ev_payload_json :: json
  ev_created_at :: instant

record idempotency_key =
  idk_id :: int
  idk_idempotency_key :: string
  idk_scope :: string
  idk_request_hash :: string
  idk_response_status_code :: "int option"
  idk_response_body_json :: "json option"
  idk_resource_type :: "string option"
  idk_resource_id :: "int option"
  idk_created_at :: instant

record user =
  usr_id :: int
  usr_email :: string
  usr_hashed_password :: string
  usr_full_name :: string
  usr_phone_number :: "string option"
  usr_is_active :: bool
  usr_is_platform_admin :: bool

record organization_member =
  mem_id :: int
  mem_organization_id :: int
  mem_user_id :: int
  mem_role :: membership_role
  mem_is_active :: bool

record channel_identity =
  cci_id :: int
  cci_customer_id :: int
  cci_channel :: channel_type
  cci_external_user_id :: string
  cci_external_chat_id :: "string option"

record notification =
  ntf_id :: int
  ntf_appointment_id :: int
  ntf_type :: notification_type
  ntf_status :: notification_status
  ntf_scheduled_for :: instant
  ntf_sent_at :: "instant option"
  ntf_payload_json :: "json option"

record message_log =
  msg_id :: int
  msg_customer_id :: "int option"
  msg_organization_id :: "int option"
  msg_provider_id :: "int option"
  msg_direction :: message_direction
  msg_channel :: channel_type
  msg_external_message_id :: "string option"
  msg_payload_json :: json
  msg_created_at :: instant

record conversation_state =
  cst_id :: int
  cst_customer_id :: int
  cst_channel :: channel_type
  cst_external_user_id :: "string option"
  cst_current_flow :: "string option"
  cst_current_step :: "string option"
  cst_selected_organization_id :: "int option"
  cst_selected_provider_id :: "int option"
  cst_selected_service_id :: "int option"
  cst_selected_location_id :: "int option"
  cst_selected_slot_start :: "instant option"
  cst_context_json :: json
  cst_last_interaction_at :: instant

text \<open>One entry of the rate limiter's in-process store.\<close>

record rate_entry =
  re_count :: int
  re_expires_at :: instant

section \<open>The world and its surroundings\<close>

record world =
  organizations :: "organization list"
  locations :: "location list"
  providers :: "provider list"
  services :: "service list"
  provider_services :: "provider_service list"
  provider_locations :: "provider_location list"
  service_locations :: "service_location list"
  availabilities :: "availability list"
  date_overrides :: "date_override list"
  time_offs :: "time_off list"
  customers :: "customer list"
  appointments :: "appointment list"
  payments :: "payment list"
  refunds :: "refund list"
  earnings :: "earning list"
  payouts :: "payout list"
  domain_events :: "domain_event list"
  idempotency_keys :: "idempotency_key list"
  users :: "user list"
  organization_members :: "organization_member list"
  channel_identities :: "channel_identity list"
  notifications :: "notification list"
  message_logs :: "message_log list"
  conversation_states :: "conversation_state list"
  rate_entries :: "(string \<times> rate_entry) list"
  redis_disabled_until :: instant
  sent_tasks :: "(string \<times> int) list"
  counters :: "(string \<times> int) list"

definition empty_world :: world where
  "empty_world =
     \<lparr>organizations = [], locations = [], providers = [], services = [], provider_services = [],
      provider_locations = [], service_locations = [], availabilities = [], date_overrides = [],
      time_offs = [], customers = [], appointments = [], payments = [], refunds = [],
      earnings = [], payouts = [], domain_events = [], idempotency_keys = [],
      users = [], organization_members = [], channel_identities = [], notifications = [],
      message_logs = [], conversation_states = [], rate_entries = [], redis_disabled_until = 0,
      sent_tasks = [], counters = []\<rparr>"

text \<open>
  \<^verbatim>\<open>token_hex\<close> is what \<^verbatim>\<open>secrets.token_hex\<close> (or \<^verbatim>\<open>token_urlsafe\<close>) draws for a
  purpose and an entity; \<^verbatim>\<open>broker_accepts\<close> tells whether \<^verbatim>\<open>celery_app.send_task\<close>
  returns or raises; \<^verbatim>\<open>event_store_ok\<close> whether the insert of an audit event succeeds;
  \<^verbatim>\<open>is_postgres\<close> whether the database is PostgreSQL, the only one with the exclusion
  constraint.  \<^verbatim>\<open>config\<close> are the settings.  The rest is code outside the repository:
  \<^verbatim>\<open>sha256_hex\<close> the digest of \<^verbatim>\<open>hashlib\<close>; \<^verbatim>\<open>redis_reply\<close> what the Redis server answers
  to the \<^verbatim>\<open>INCR\<close> and \<^verbatim>\<open>TTL\<close> of a key, None when it fails; \<^verbatim>\<open>jwt_encode\<close> and
  \<^verbatim>\<open>jwt_decode\<close> the token library, decoding to the \<^verbatim>\<open>sub\<close> claim if there is one;
  \<^verbatim>\<open>password_hash\<close> and \<^verbatim>\<open>password_verify\<close> the password library;
  \<^verbatim>\<open>http_post n payload attempt\<close> what the messaging provider answers to an attempt to post a
  message when \<^verbatim>\<open>n\<close> messages were logged before: a body, an error status with its body, a
  network error, or another exception of the client; \<^verbatim>\<open>json_datetime\<close> how the schema library
  writes a datetime in JSON; \<^verbatim>\<open>json_loads\<close> the parser of \<^verbatim>\<open>json\<close>, whose objects have each
  key once; \<^verbatim>\<open>datetime_fromisoformat\<close> the ISO parser of \<^verbatim>\<open>datetime\<close>, None when it raises;
  \<^verbatim>\<open>hmac_sha256_hex secret body\<close> the keyed digest of \<^verbatim>\<open>hmac\<close>.
\<close>

datatype http_reply =
    HttpBody string
  | HttpStatus int string
  | NetworkError string
  | HttpRaises exn

record env =
  now :: instant
  zone_table :: zones
  token_hex :: "string \<Rightarrow> int \<Rightarrow> string"
  broker_accepts :: "string \<Rightarrow> int \<Rightarrow> bool"
  event_store_ok :: "string \<Rightarrow> bool"
  is_postgres :: bool
  current_request_id :: "string option"
  config :: settings
  sha256_hex :: "string \<Rightarrow> string"
  redis_reply :: "string \<Rightarrow> (int \<times> int) option"
  jwt_encode :: "string \<Rightarrow> instant \<Rightarrow> string"
  jwt_decode :: "string \<Rightarrow> string option option"
  password_hash :: "string \<Rightarrow> string"
  password_verify :: "string \<Rightarrow> string \<Rightarrow> bool"
  http_post :: "nat \<Rightarrow> json \<Rightarrow> nat \<Rightarrow> http_reply"
  json_datetime :: "py_datetime \<Rightarrow> string"
  json_loads :: "string \<Rightarrow> json result"
  datetime_fromisoformat :: "string \<Rightarrow> py_datetime option"
  hmac_sha256_hex :: "string \<Rightarrow> string \<Rightarrow> string"

abbreviation pending_expiration_minutes :: "env \<Rightarrow> int" where
  "pending_expiration_minutes ev \<equiv> cfg_payment_pending_expiration_minutes (config ev)"

section \<open>Table constraints\<close>

definition blocking_statuses :: "appointment_status list" where
  "blocking_statuses = [APT_PENDING, APT_PENDING_PAYMENT, APT_CONFIRMED]"

definition is_blocking :: "appointment \<Rightarrow> bool" where
  "is_blocking a \<longleftrightarrow> apt_status a \<in> set blocking_statuses"

lemma is_blocking_iff:
  "is_blocking a \<longleftrightarrow> apt_status a = APT_PENDING \<or> apt_status a = APT_PENDING_PAYMENT \<or> apt_status a = APT_CONFIRMED"
  by (auto simp: is_blocking_def blocking_statuses_def)

text \<open>The exclusion constraint, on half-open ranges of the blocking rows of one provider.\<close>

definition excluded_by :: "appointment \<Rightarrow> appointment \<Rightarrow> bool" where
  "excluded_by r x \<longleftrightarrow>
     is_blocking r \<and> is_blocking x \<and> apt_provider_id r = apt_provider_id x \<and>
     apt_start_datetime r < apt_end_datetime x \<and> apt_start_datetime x < apt_end_datetime r"

definition appointment_violates :: "env \<Rightarrow> appointment list \<Rightarrow> appointment \<Rightarrow> string option" where
  "appointment_violates ev others r =
     (if \<not> apt_start_datetime r < apt_end_datetime r then Some ''ck_appointments_start_before_end''
      else if apt_booking_reference r \<in> apt_booking_reference ` set others
      then Some ''ix_appointments_booking_reference''
      else if apt_booking_access_token r \<in> apt_booking_access_token ` set others
      then Some ''ix_appointments_booking_access_token''
      else if is_postgres ev \<and> (\<exists>x \<in> set others. excluded_by r x)
      then Some ''ex_appointments_provider_no_overlap''
      else None)"

definition payment_violates :: "payment list \<Rightarrow> payment \<Rightarrow> string option" where
  "payment_violates others r =
     (if \<not> 0 \<le> pay_amount_minor r then Some ''ck_payments_non_negative_amount_minor'' else None)"

definition refund_violates :: "refund list \<Rightarrow> refund \<Rightarrow> string option" where
  "refund_violates others r =
     (if \<not> 0 \<le> rf_amount_minor r then Some ''ck_refunds_non_negative_amount_minor'' else None)"

definition payout_violates :: "payout list \<Rightarrow> payout \<Rightarrow> string option" where
  "payout_violates others r =
     (if \<not> 0 \<le> po_total_amount_minor r then Some ''ck_payouts_non_negative_total_amount_minor'' else None)"

definition earning_violates :: "earning list \<Rightarrow> earning \<Rightarrow> string option" where
  "earning_violates others r =
     (if ern_payment_id r \<in> ern_payment_id ` set others then Some ''uq_provider_earnings_payment_id''
      else if \<not> 0 \<le> ern_gross_amount_minor r then Some ''ck_provider_earnings_non_negative_gross''
      else if \<not> 0 \<le> ern_platform_fee_minor r then Some ''ck_provider_earnings_non_negative_platform_fee''
      else if \<not> 0 \<le> ern_provider_amount_minor r then Some ''ck_provider_earnings_non_negative_provider_amount''
      else if \<not> 0 \<le> ern_refunded_amount_minor r then Some ''ck_provider_earnings_non_negative_refunded_amount''
      else if \<not> 0 \<le> ern_adjustment_pending_minor r then Some ''ck_provider_earnings_non_negative_adjustment_pending''
      else if \<not> ern_platform_fee_minor r + ern_provider_amount_minor r \<le> ern_gross_amount_minor r
      then Some ''ck_provider_earnings_provider_plus_fee_lte_gross''
      else None)"

definition service_violates :: "service list \<Rightarrow> service \<Rightarrow> string option" where
  "service_violates others r =
     (if \<not> 0 < svc_duration_minutes r then Some ''ck_services_positive_duration''
      else if (case svc_price r of None \<Rightarrow> False | Some p \<Rightarrow> \<not> 0 \<le> p) then Some ''ck_services_non_negative_price''
      else if \<not> 0 \<le> svc_buffer_before_minutes r then Some ''ck_services_non_negative_buffer_before''
      else if \<not> 0 \<le> svc_buffer_after_minutes r then Some ''ck_services_non_negative_buffer_after''
      else if (case svc_deposit_amount_minor r of None \<Rightarrow> False | Some d \<Rightarrow> \<not> 0 < d)
      then Some ''ck_services_positive_deposit_amount_minor''
      else if svc_payment_type r = DEPOSIT \<and> svc_deposit_amount_minor r = None
      then Some ''ck_services_deposit_requires_amount''
      else if \<not> 0 \<le> svc_cancellation_window_hours r then Some ''ck_services_non_negative_cancellation_window_hours''
      else None)"

definition provider_violates :: "provider list \<Rightarrow> provider \<Rightarrow> string option" where
  "provider_violates others r =
     (if \<not> 0 < prov_appointment_duration_minutes r then Some ''ck_providers_positive_duration''
      else if prov_user_id r \<noteq> None \<and> prov_user_id r \<in> prov_user_id ` set others
      then Some ''ix_providers_user_id'' else None)"

definition organization_violates :: "organization list \<Rightarrow> organization \<Rightarrow> string option" where
  "organization_violates others r =
     (if \<not> (0 \<le> org_commission_percentage r \<and> org_commission_percentage r \<le> 1)
      then Some ''ck_organizations_commission_percentage_range''
      else if \<not> 0 \<le> org_commission_fixed_minor r then Some ''ck_organizations_commission_fixed_non_negative''
      else if org_slug r \<in> org_slug ` set others then Some ''ix_organizations_slug'' else None)"

text \<open>The lengths of the columns of an organization.  PostgreSQL refuses a longer value with a \<^verbatim>\<open>DataError\<close>.\<close>

definition organization_fits :: "organization \<Rightarrow> bool" where
  "organization_fits r \<longleftrightarrow>
     length (org_name r) \<le> 255 \<and> length (org_slug r) \<le> 255 \<and> length (org_business_type r) \<le> 100 \<and>
     length (org_city r) \<le> 100 \<and> (case org_address r of None \<Rightarrow> True | Some a \<Rightarrow> length a \<le> 255) \<and>
     length (org_timezone r) \<le> 64"

definition location_violates :: "location list \<Rightarrow> location \<Rightarrow> string option" where
  "location_violates others r =
     (if \<exists>x \<in> set others. loc_organization_id x = loc_organization_id r \<and> loc_slug x = loc_slug r
      then Some ''uq_organization_locations_org_slug'' else None)"

definition provider_location_violates :: "provider_location list \<Rightarrow> provider_location \<Rightarrow> string option" where
  "provider_location_violates others r =
     (if \<exists>x \<in> set others. pl_provider_id x = pl_provider_id r \<and> pl_location_id x = pl_location_id r
      then Some ''uq_provider_locations_provider_location'' else None)"

definition service_location_violates :: "service_location list \<Rightarrow> service_location \<Rightarrow> string option" where
  "service_location_violates others r =
     (if \<exists>x \<in> set others. sl_service_id x = sl_service_id r \<and> sl_location_id x = sl_location_id r
      then Some ''uq_service_locations_service_location'' else None)"

definition provider_service_violates :: "provider_service list \<Rightarrow> provider_service \<Rightarrow> string option" where
  "provider_service_violates others r =
     (if \<exists>x \<in> set others. ps_provider_id x = ps_provider_id r \<and> ps_service_id x = ps_service_id r
      then Some ''uq_provider_services_provider_service''
      else if (case ps_duration_minutes_override r of None \<Rightarrow> False | Some d \<Rightarrow> \<not> 0 < d)
      then Some ''ck_provider_services_positive_duration_override''
      else None)"

definition availability_violates :: "availability list \<Rightarrow> availability \<Rightarrow> string option" where
  "availability_violates others r =
     (if \<not> (0 \<le> av_weekday r \<and> av_weekday r \<le> 6) then Some ''ck_provider_availability_weekday_range''
      else if \<not> av_start_time r < av_end_time r then Some ''ck_provider_availability_start_before_end''
      else if \<exists>x \<in> set others. av_provider_id x = av_provider_id r \<and> av_weekday x = av_weekday r \<and>
                 av_start_time x = av_start_time r \<and> av_end_time x = av_end_time r
      then Some ''uq_provider_availability_provider_weekday_window''
      else None)"

definition date_override_violates :: "date_override list \<Rightarrow> date_override \<Rightarrow> string option" where
  "date_override_violates others r =
     (if (ov_is_available r \<and>
            (case (ov_start_time r, ov_end_time r) of (Some s, Some e) \<Rightarrow> s < e | _ \<Rightarrow> False)) \<or>
         (\<not> ov_is_available r \<and> ov_start_time r = None \<and> ov_end_time r = None)
      then None else Some ''ck_provider_date_overrides_time_shape'')"

definition time_off_violates :: "time_off list \<Rightarrow> time_off \<Rightarrow> string option" where
  "time_off_violates others r =
     (if \<not> off_start_datetime r < off_end_datetime r then Some ''ck_provider_time_off_start_before_end'' else None)"

definition customer_violates :: "customer list \<Rightarrow> customer \<Rightarrow> string option" where
  "customer_violates others r =
     (if cust_phone_number_normalized r \<in> cust_phone_number_normalized ` set others
      then Some ''ix_customers_phone_number_normalized'' else None)"

definition idempotency_key_violates :: "idempotency_key list \<Rightarrow> idempotency_key \<Rightarrow> string option" where
  "idempotency_key_violates others r =
     (if \<exists>x \<in> set others. idk_idempotency_key x = idk_idempotency_key r \<and> idk_scope x = idk_scope r
      then Some ''uq_idempotency_keys_scope_key'' else None)"

definition user_violates :: "user list \<Rightarrow> user \<Rightarrow> string option" where
  "user_violates others r = (if usr_email r \<in> usr_email ` set others then Some ''ix_users_email'' else None)"

definition organization_member_violates :: "organization_member list \<Rightarrow> organization_member \<Rightarrow> string option" where
  "organization_member_violates others r =
     (if \<exists>x \<in> set others. mem_organization_id x = mem_organization_id r \<and> mem_user_id x = mem_user_id r
      then Some ''uq_org_membership_org_user'' else None)"

definition channel_identity_violates :: "channel_identity list \<Rightarrow> channel_identity \<Rightarrow> string option" where
  "channel_identity_violates others r =
     (if \<exists>x \<in> set others. cci_customer_id x = cci_customer_id r \<and> cci_channel x = cci_channel r
      then Some ''uq_customer_identity_customer_channel''
      else if \<exists>x \<in> set others. cci_channel x = cci_channel r \<and> cci_external_user_id x = cci_external_user_id r
      then Some ''uq_customer_identity_channel_external_user'' else None)"

text \<open>Null values are distinct from each other in a UNIQUE constraint.\<close>

definition message_log_violates :: "message_log list \<Rightarrow> message_log \<Rightarrow> string option" where
  "message_log_violates others r =
     (if msg_external_message_id r \<noteq> None \<and>
         (\<exists>x \<in> set others. msg_channel x = msg_channel r \<and> msg_direction x = msg_direction r \<and>
            msg_external_message_id x = msg_external_message_id r)
      then Some ''uq_message_logs_channel_direction_external'' else None)"

definition conversation_state_violates :: "conversation_state list \<Rightarrow> conversation_state \<Rightarrow> string option" where
  "conversation_state_violates others r =
     (if \<exists>x \<in> set others. cst_customer_id x = cst_customer_id r \<and> cst_channel x = cst_channel r
      then Some ''uq_conversation_state_customer_channel'' else None)"

definition notification_violates :: "notification list \<Rightarrow> notification \<Rightarrow> string option" where
  "notification_violates others r = None"

text \<open>
  A world whose services, providers and assignments satisfy their CHECK constraints and whose
  keys are unique: what the database guarantees of the catalogue the scheduler reads.
\<close>

definition catalogue_ok :: "world \<Rightarrow> bool" where
  "catalogue_ok w \<longleftrightarrow>
     (\<forall>s \<in> set (services w). 0 < svc_duration_minutes s \<and> 0 \<le> svc_buffer_before_minutes s \<and>
        0 \<le> svc_buffer_after_minutes s) \<and>
     (\<forall>p \<in> set (providers w). 0 < prov_appointment_duration_minutes p) \<and>
     (\<forall>x \<in> set (provider_services w). case ps_duration_minutes_override x of None \<Rightarrow> True | Some d \<Rightarrow> 0 < d) \<and>
     tbl_ok svc_id (services w)"

end
