(* ===== verification/Repositories.thy ===== *)
theory Repositories
  imports Schema Pystring
begin

text \<open>
  The classes of \<^verbatim>\<open>repositories/*.py\<close> that the modelled services use: one definition per
  query, and \<^verbatim>\<open>create\<close> and \<^verbatim>\<open>update\<close> per table.  A write that fails a constraint is
  \<^verbatim>\<open>IntegrityError\<close>; the session is flushed by every write, and committing or rolling back
  is the caller's business: a caller that rolls back returns the world it started from.  Each
  table interprets the \<^verbatim>\<open>repository\<close> interface of the prelude.
\<close>

lemma db_insert_rows:
  assumes "db_insert set_ident ident violates t r = Inr (r', t')" and "\<And>i x. ident (set_ident i x) = i"
  shows "t' = t @ [r'] \<and> ident r' \<notin> ident ` set t"
proof -
  have r': "r' = set_ident (tbl_fresh ident t) r" and t': "t' = t @ [r']"
    using assms(1) by (auto simp: db_insert_def Let_def split: option.splits)
  have "ident r' = tbl_fresh ident t"
    by (simp add: r' assms(2))
  then show ?thesis
    using tbl_fresh_notin [of ident t] t' by simp
qed

lemma db_insert_row:
  "db_insert set_ident ident violates t r = Inr (r', t') \<Longrightarrow> r' = set_ident (tbl_fresh ident t) r \<and> violates t r' = None"
  by (auto simp: db_insert_def Let_def split: option.splits)

lemma db_update_rows: "db_update ident violates t r = Inr t' \<Longrightarrow> t' = tbl_set ident r t"
  by (auto simp: db_update_def split: option.splits)

lemma db_update_ok: "violates (tbl_del ident (ident r) t) r = None \<Longrightarrow> db_update ident violates t r = Inr (tbl_set ident r t)"
  by (simp add: db_update_def)

section \<open>Catalogue: organizations, locations, providers, services and assignments\<close>

definition organization_get :: "int \<Rightarrow> world \<Rightarrow> organization option" where
  "organization_get i w = tbl_get org_id i (organizations w)"

definition location_get :: "int \<Rightarrow> world \<Rightarrow> location option" where
  "location_get i w = tbl_get loc_id i (locations w)"

definition location_list_by_organization :: "int \<Rightarrow> bool \<Rightarrow> world \<Rightarrow> location list" where
  "location_list_by_organization organization_id include_inactive w =
     sort_key loc_id [l \<leftarrow> locations w. loc_organization_id l = organization_id \<and>
                                         (include_inactive \<or> loc_is_active l)]"

definition provider_get :: "int \<Rightarrow> world \<Rightarrow> provider option" where
  "provider_get i w = tbl_get prov_id i (providers w)"

definition service_get :: "int \<Rightarrow> world \<Rightarrow> service option" where
  "service_get i w = tbl_get svc_id i (services w)"

definition service_get_by_ids :: "int list \<Rightarrow> world \<Rightarrow> service list" where
  "service_get_by_ids service_ids w =
     (if service_ids = [] then [] else [s \<leftarrow> services w. svc_id s \<in> set service_ids])"

definition service_list :: "int option \<Rightarrow> int option \<Rightarrow> bool \<Rightarrow> world \<Rightarrow> service list" where
  "service_list organization_id provider_id include_inactive w =
     sort_key svc_id
       [s \<leftarrow> services w.
          (case organization_id of None \<Rightarrow> True | Some o' \<Rightarrow> svc_organization_id s = o') \<and>
          (case provider_id of None \<Rightarrow> True
           | Some p \<Rightarrow> \<exists>x \<in> set (provider_services w). ps_service_id x = svc_id s \<and> ps_provider_id x = p) \<and>
          (include_inactive \<or> svc_is_active s)]"

definition provider_location_get :: "int \<Rightarrow> int \<Rightarrow> world \<Rightarrow> provider_location option" where
  "provider_location_get provider_id location_id w =
     find (\<lambda>x. pl_provider_id x = provider_id \<and> pl_location_id x = location_id) (provider_locations w)"

definition provider_service_get :: "int \<Rightarrow> int \<Rightarrow> world \<Rightarrow> provider_service option" where
  "provider_service_get provider_id service_id w =
     find (\<lambda>x. ps_provider_id x = provider_id \<and> ps_service_id x = service_id) (provider_services w)"

definition provider_service_delete :: "provider_service \<Rightarrow> world \<Rightarrow> world" where
  "provider_service_delete r w = w\<lparr>provider_services := tbl_del ps_id (ps_id r) (provider_services w)\<rparr>"

definition service_location_get :: "int \<Rightarrow> int \<Rightarrow> world \<Rightarrow> service_location option" where
  "service_location_get service_id location_id w =
     find (\<lambda>x. sl_service_id x = service_id \<and> sl_location_id x = location_id) (service_locations w)"

lemma service_get_mem: "service_get i w = Some s \<Longrightarrow> s \<in> set (services w) \<and> svc_id s = i"
  by (auto simp: service_get_def dest: tbl_get_Some)

lemma provider_get_mem: "provider_get i w = Some p \<Longrightarrow> p \<in> set (providers w) \<and> prov_id p = i"
  by (auto simp: provider_get_def dest: tbl_get_Some)

section \<open>Schedules: availability, date overrides, time off\<close>

definition availability_get :: "int \<Rightarrow> world \<Rightarrow> availability option" where
  "availability_get i w = tbl_get av_id i (availabilities w)"

definition availability_list_by_provider :: "int \<Rightarrow> world \<Rightarrow> availability list" where
  "availability_list_by_provider provider_id w = [a \<leftarrow> availabilities w. av_provider_id a = provider_id]"

definition availability_has_overlap ::
  "int \<Rightarrow> int \<Rightarrow> time_of_day \<Rightarrow> time_of_day \<Rightarrow> int option \<Rightarrow> world \<Rightarrow> bool" where
  "availability_has_overlap provider_id week_day start_time end_time exclude_availability_id w \<longleftrightarrow>
     (\<exists>a \<in> set (availabilities w).
        av_provider_id a = provider_id \<and> av_weekday a = week_day \<and> av_is_active a \<and>
        av_start_time a < end_time \<and> start_time < av_end_time a \<and>
        exclude_availability_id \<noteq> Some (av_id a))"

definition availability_create :: "availability \<Rightarrow> world \<Rightarrow> (availability \<times> world) result" where
  "availability_create r w =
     (case db_insert (\<lambda>i r. r\<lparr>av_id := i\<rparr>) av_id availability_violates (availabilities w) r of
        Inl e \<Rightarrow> Inl e | Inr (r', t) \<Rightarrow> Inr (r', w\<lparr>availabilities := t\<rparr>))"

definition availability_update :: "availability \<Rightarrow> world \<Rightarrow> world result" where
  "availability_update r w =
     (case db_update av_id availability_violates (availabilities w) r of
        Inl e \<Rightarrow> Inl e | Inr t \<Rightarrow> Inr (w\<lparr>availabilities := t\<rparr>))"

definition availability_delete :: "availability \<Rightarrow> world \<Rightarrow> world" where
  "availability_delete r w = w\<lparr>availabilities := tbl_del av_id (av_id r) (availabilities w)\<rparr>"

definition date_override_get :: "int \<Rightarrow> world \<Rightarrow> date_override option" where
  "date_override_get i w = tbl_get ov_id i (date_overrides w)"

text \<open>SQL orders nulls last in an ascending order on PostgreSQL.\<close>

definition date_override_list_by_provider ::
  "int \<Rightarrow> date option \<Rightarrow> date option \<Rightarrow> world \<Rightarrow> date_override list" where
  "date_override_list_by_provider provider_id start_date end_date w =
     sort_key (\<lambda>o'. (ov_override_date o',
                     case ov_start_time o' of None \<Rightarrow> day_us | Some t \<Rightarrow> t))
       [o' \<leftarrow> date_overrides w. ov_provider_id o' = provider_id \<and>
          (case start_date of None \<Rightarrow> True | Some d \<Rightarrow> d \<le> ov_override_date o') \<and>
          (case end_date of None \<Rightarrow> True | Some d \<Rightarrow> ov_override_date o' \<le> d)]"

text \<open>A comparison with a null column is not true in SQL.\<close>

definition date_override_has_overlap ::
  "int \<Rightarrow> date \<Rightarrow> time_of_day \<Rightarrow> time_of_day \<Rightarrow> int option \<Rightarrow> world \<Rightarrow> bool" where
  "date_override_has_overlap provider_id override_date start_time end_time exclude_override_id w \<longleftrightarrow>
     (\<exists>o' \<in> set (date_overrides w).
        ov_provider_id o' = provider_id \<and> ov_override_date o' = override_date \<and>
        ov_is_active o' \<and> ov_is_available o' \<and>
        (case ov_start_time o' of None \<Rightarrow> False | Some s \<Rightarrow> s < end_time) \<and>
        (case ov_end_time o' of None \<Rightarrow> False | Some e \<Rightarrow> start_time < e) \<and>
        exclude_override_id \<noteq> Some (ov_id o'))"

definition date_override_has_active_unavailable_day :: "int \<Rightarrow> date \<Rightarrow> int option \<Rightarrow> world \<Rightarrow> bool" where
  "date_override_has_active_unavailable_day provider_id override_date exclude_override_id w \<longleftrightarrow>
     (\<exists>o' \<in> set (date_overrides w).
        ov_provider_id o' = provider_id \<and> ov_override_date o' = override_date \<and>
        ov_is_active o' \<and> \<not> ov_is_available o' \<and> exclude_override_id \<noteq> Some (ov_id o'))"

definition date_override_has_active_available_windows :: "int \<Rightarrow> date \<Rightarrow> int option \<Rightarrow> world \<Rightarrow> bool" where
  "date_override_has_active_available_windows provider_id override_date exclude_override_id w \<longleftrightarrow>
     (\<exists>o' \<in> set (date_overrides w).
        ov_provider_id o' = provider_id \<and> ov_override_date o' = override_date \<and>
        ov_is_active o' \<and> ov_is_available o' \<and> exclude_override_id \<noteq> Some (ov_id o'))"

definition date_override_create :: "date_override \<Rightarrow> world \<Rightarrow> (date_override \<times> world) result" where
  "date_override_create r w =
     (case db_insert (\<lambda>i r. r\<lparr>ov_id := i\<rparr>) ov_id date_override_violates (date_overrides w) r of
        Inl e \<Rightarrow> Inl e | Inr (r', t) \<Rightarrow> Inr (r', w\<lparr>date_overrides := t\<rparr>))"

definition date_override_update :: "date_override \<Rightarrow> world \<Rightarrow> world result" where
  "date_override_update r w =
     (case db_update ov_id date_override_violates (date_overrides w) r of
        Inl e \<Rightarrow> Inl e | Inr t \<Rightarrow> Inr (w\<lparr>date_overrides := t\<rparr>))"

definition date_override_delete :: "date_override \<Rightarrow> world \<Rightarrow> world" where
  "date_override_delete r w = w\<lparr>date_overrides := tbl_del ov_id (ov_id r) (date_overrides w)\<rparr>"

definition time_off_get :: "int \<Rightarrow> world \<Rightarrow> time_off option" where
  "time_off_get i w = tbl_get off_id i (time_offs w)"

definition time_off_list_by_provider :: "int \<Rightarrow> instant option \<Rightarrow> instant option \<Rightarrow> world \<Rightarrow> time_off list" where
  "time_off_list_by_provider provider_id start_datetime end_datetime w =
     [t \<leftarrow> time_offs w. off_provider_id t = provider_id \<and>
        (case start_datetime of None \<Rightarrow> True | Some s \<Rightarrow> s < off_end_datetime t) \<and>
        (case end_datetime of None \<Rightarrow> True | Some e \<Rightarrow> off_start_datetime t < e)]"

definition time_off_create :: "time_off \<Rightarrow> world \<Rightarrow> (time_off \<times> world) result" where
  "time_off_create r w =
     (case db_insert (\<lambda>i r. r\<lparr>off_id := i\<rparr>) off_id time_off_violates (time_offs w) r of
        Inl e \<Rightarrow> Inl e | Inr (r', t) \<Rightarrow> Inr (r', w\<lparr>time_offs := t\<rparr>))"

definition time_off_update :: "time_off \<Rightarrow> world \<Rightarrow> world result" where
  "time_off_update r w =
     (case db_update off_id time_off_violates (time_offs w) r of
        Inl e \<Rightarrow> Inl e | Inr t \<Rightarrow> Inr (w\<lparr>time_offs := t\<rparr>))"

definition time_off_delete :: "time_off \<Rightarrow> world \<Rightarrow> world" where
  "time_off_delete r w = w\<lparr>time_offs := tbl_del off_id (off_id r) (time_offs w)\<rparr>"

section \<open>Customers\<close>

definition customer_get :: "int \<Rightarrow> world \<Rightarrow> customer option" where
  "customer_get i w = tbl_get cust_id i (customers w)"

definition customer_get_by_phone_normalized :: "string \<Rightarrow> world \<Rightarrow> customer option" where
  "customer_get_by_phone_normalized p w = find (\<lambda>c. cust_phone_number_normalized c = p) (customers w)"

definition customer_list_by_email :: "string \<Rightarrow> world \<Rightarrow> customer list" where
  "customer_list_by_email email w =
     sort_key cust_id
       [c \<leftarrow> customers w. (case cust_email c of None \<Rightarrow> False | Some m \<Rightarrow> lower m = lower email)]"

definition customer_has_appointment_in_organization :: "int \<Rightarrow> int \<Rightarrow> world \<Rightarrow> bool" where
  "customer_has_appointment_in_organization customer_id organization_id w \<longleftrightarrow>
     (\<exists>a \<in> set (appointments w). apt_customer_id a = customer_id \<and> apt_organization_id a = organization_id)"

text \<open>\<^verbatim>\<open>create\<close> normalises the phone number itself; the session is committed.\<close>

definition customer_create :: "customer \<Rightarrow> world \<Rightarrow> (customer \<times> world) result" where
  "customer_create r w =
     (case normalize_phone_number (cust_phone_number r) of
        Inl e \<Rightarrow> Inl e
      | Inr p \<Rightarrow>
     (case db_insert (\<lambda>i r. r\<lparr>cust_id := i\<rparr>) cust_id customer_violates (customers w)
             (r\<lparr>cust_phone_number_normalized := p\<rparr>) of
        Inl e \<Rightarrow> Inl e | Inr (r', t) \<Rightarrow> Inr (r', w\<lparr>customers := t\<rparr>)))"

definition customer_update :: "customer \<Rightarrow> world \<Rightarrow> world result" where
  "customer_update r w =
     (case db_update cust_id customer_violates (customers w) r of
        Inl e \<Rightarrow> Inl e | Inr t \<Rightarrow> Inr (w\<lparr>customers := t\<rparr>))"

section \<open>Appointments\<close>

definition appointment_get :: "int \<Rightarrow> world \<Rightarrow> appointment option" where
  "appointment_get i w = tbl_get apt_id i (appointments w)"

definition appointment_list_blocking_for_provider ::
  "int \<Rightarrow> instant option \<Rightarrow> instant option \<Rightarrow> int option \<Rightarrow> world \<Rightarrow> appointment list" where
  "appointment_list_blocking_for_provider provider_id start_datetime end_datetime exclude_appointment_id w =
     [a \<leftarrow> appointments w. apt_provider_id a = provider_id \<and> is_blocking a \<and>
        (case start_datetime of None \<Rightarrow> True | Some s \<Rightarrow> s < apt_end_datetime a) \<and>
        (case end_datetime of None \<Rightarrow> True | Some e \<Rightarrow> apt_start_datetime a < e) \<and>
        exclude_appointment_id \<noteq> Some (apt_id a)]"

text \<open>The insert draws the reference and the access token, the defaults of the model class.\<close>

definition appointment_create :: "env \<Rightarrow> appointment \<Rightarrow> world \<Rightarrow> (appointment \<times> world) result" where
  "appointment_create ev r w =
     (case db_insert
             (\<lambda>i r. r\<lparr>apt_id := i,
                      apt_booking_reference := ''BKP-'' @ upper (token_hex ev ''booking_reference'' i),
                      apt_booking_access_token := token_hex ev ''booking_access_token'' i\<rparr>)
             apt_id (appointment_violates ev) (appointments w) r of
        Inl e \<Rightarrow> Inl e | Inr (r', t) \<Rightarrow> Inr (r', w\<lparr>appointments := t\<rparr>))"

definition appointment_update :: "env \<Rightarrow> appointment \<Rightarrow> world \<Rightarrow> world result" where
  "appointment_update ev r w =
     (case db_update apt_id (appointment_violates ev) (appointments w) r of
        Inl e \<Rightarrow> Inl e | Inr t \<Rightarrow> Inr (w\<lparr>appointments := t\<rparr>))"

section \<open>Payments, refunds, earnings, payouts\<close>

definition payment_get :: "int \<Rightarrow> world \<Rightarrow> payment option" where
  "payment_get i w = tbl_get pay_id i (payments w)"

definition payment_get_by_checkout_session_id :: "string \<Rightarrow> world \<Rightarrow> payment option" where
  "payment_get_by_checkout_session_id s w =
     latest_by pay_id [p \<leftarrow> payments w. pay_provider_checkout_session_id p = Some s]"

definition payment_get_by_payment_intent_id :: "string \<Rightarrow> world \<Rightarrow> payment option" where
  "payment_get_by_payment_intent_id s w =
     latest_by pay_id [p \<leftarrow> payments w. pay_provider_payment_intent_id p = Some s]"

definition payment_get_latest_for_appointment :: "int \<Rightarrow> world \<Rightarrow> payment option" where
  "payment_get_latest_for_appointment appointment_id w =
     latest_by (\<lambda>p. (pay_created_at p, pay_id p)) [p \<leftarrow> payments w. pay_appointment_id p = appointment_id]"

definition payment_list_expired_pending :: "instant \<Rightarrow> world \<Rightarrow> payment list" where
  "payment_list_expired_pending cutoff w =
     sort_key (\<lambda>p. (pay_created_at p, pay_id p))
       [p \<leftarrow> payments w. pay_status p \<in> {PAY_PENDING, PAY_REQUIRES_ACTION} \<and> pay_created_at p \<le> cutoff]"

definition payment_create :: "env \<Rightarrow> payment \<Rightarrow> world \<Rightarrow> (payment \<times> world) result" where
  "payment_create ev r w =
     (case db_insert (\<lambda>i r. r\<lparr>pay_id := i, pay_created_at := now ev\<rparr>) pay_id payment_violates (payments w) r of
        Inl e \<Rightarrow> Inl e | Inr (r', t) \<Rightarrow> Inr (r', w\<lparr>payments := t\<rparr>))"

definition payment_update :: "payment \<Rightarrow> world \<Rightarrow> world result" where
  "payment_update r w =
     (case db_update pay_id payment_violates (payments w) r of
        Inl e \<Rightarrow> Inl e | Inr t \<Rightarrow> Inr (w\<lparr>payments := t\<rparr>))"

definition refund_get :: "int \<Rightarrow> world \<Rightarrow> refund option" where
  "refund_get i w = tbl_get rf_id i (refunds w)"

definition refund_get_latest_for_payment :: "int \<Rightarrow> world \<Rightarrow> refund option" where
  "refund_get_latest_for_payment payment_id w =
     latest_by (\<lambda>r. (rf_created_at r, rf_id r)) [r \<leftarrow> refunds w. rf_payment_id r = payment_id]"

definition refund_sum_succeeded :: "int \<Rightarrow> world \<Rightarrow> int" where
  "refund_sum_succeeded payment_id w =
     sum_list (map rf_amount_minor [r \<leftarrow> refunds w. rf_payment_id r = payment_id \<and> rf_status r = RF_SUCCEEDED])"

definition refund_create :: "env \<Rightarrow> refund \<Rightarrow> world \<Rightarrow> (refund \<times> world) result" where
  "refund_create ev r w =
     (case db_insert (\<lambda>i r. r\<lparr>rf_id := i, rf_created_at := now ev\<rparr>) rf_id refund_violates (refunds w) r of
        Inl e \<Rightarrow> Inl e | Inr (r', t) \<Rightarrow> Inr (r', w\<lparr>refunds := t\<rparr>))"

definition refund_update :: "refund \<Rightarrow> world \<Rightarrow> world result" where
  "refund_update r w =
     (case db_update rf_id refund_violates (refunds w) r of
        Inl e \<Rightarrow> Inl e | Inr t \<Rightarrow> Inr (w\<lparr>refunds := t\<rparr>))"

definition earning_get :: "int \<Rightarrow> world \<Rightarrow> earning option" where
  "earning_get i w = tbl_get ern_id i (earnings w)"

definition earning_get_by_payment_id :: "int \<Rightarrow> world \<Rightarrow> earning option" where
  "earning_get_by_payment_id payment_id w = find (\<lambda>e. ern_payment_id e = payment_id) (earnings w)"

definition earning_list_by_provider :: "int \<Rightarrow> world \<Rightarrow> earning list" where
  "earning_list_by_provider provider_id w =
     rev (sort_key (\<lambda>e. (ern_created_at e, ern_id e)) [e \<leftarrow> earnings w. ern_provider_id e = provider_id])"

definition earning_list_ready_for_payout :: "int \<Rightarrow> world \<Rightarrow> earning list" where
  "earning_list_ready_for_payout provider_id w =
     sort_key ern_id
       [e \<leftarrow> earnings w. ern_provider_id e = provider_id \<and> ern_status e = READY_FOR_PAYOUT \<and>
          0 < ern_provider_amount_minor e \<and> ern_payout_id e = None]"

definition earning_list_by_payout :: "int \<Rightarrow> world \<Rightarrow> earning list" where
  "earning_list_by_payout payout_id w = sort_key ern_id [e \<leftarrow> earnings w. ern_payout_id e = Some payout_id]"

definition earning_create :: "env \<Rightarrow> earning \<Rightarrow> world \<Rightarrow> (earning \<times> world) result" where
  "earning_create ev r w =
     (case db_insert (\<lambda>i r. r\<lparr>ern_id := i, ern_created_at := now ev\<rparr>) ern_id earning_violates (earnings w) r of
        Inl e \<Rightarrow> Inl e | Inr (r', t) \<Rightarrow> Inr (r', w\<lparr>earnings := t\<rparr>))"

definition earning_update :: "earning \<Rightarrow> world \<Rightarrow> world result" where
  "earning_update r w =
     (case db_update ern_id earning_violates (earnings w) r of
        Inl e \<Rightarrow> Inl e | Inr t \<Rightarrow> Inr (w\<lparr>earnings := t\<rparr>))"

definition payout_get :: "int \<Rightarrow> world \<Rightarrow> payout option" where
  "payout_get i w = tbl_get po_id i (payouts w)"

definition payout_list_pending :: "world \<Rightarrow> payout list" where
  "payout_list_pending w =
     sort_key (\<lambda>p. (po_created_at p, po_id p)) [p \<leftarrow> payouts w. po_status p = PO_PENDING]"

definition payout_create :: "env \<Rightarrow> payout \<Rightarrow> world \<Rightarrow> (payout \<times> world) result" where
  "payout_create ev r w =
     (case db_insert (\<lambda>i r. r\<lparr>po_id := i, po_created_at := now ev\<rparr>) po_id payout_violates (payouts w) r of
        Inl e \<Rightarrow> Inl e | Inr (r', t) \<Rightarrow> Inr (r', w\<lparr>payouts := t\<rparr>))"

definition payout_update :: "payout \<Rightarrow> world \<Rightarrow> world result" where
  "payout_update r w =
     (case db_update po_id payout_violates (payouts w) r of
        Inl e \<Rightarrow> Inl e | Inr t \<Rightarrow> Inr (w\<lparr>payouts := t\<rparr>))"

section \<open>Idempotency keys and audit events\<close>

definition idempotency_get_by_scope_and_key :: "string \<Rightarrow> string \<Rightarrow> world \<Rightarrow> idempotency_key option" where
  "idempotency_get_by_scope_and_key scope key w =
     find (\<lambda>k. idk_scope k = scope \<and> idk_idempotency_key k = key) (idempotency_keys w)"

definition idempotency_create :: "env \<Rightarrow> idempotency_key \<Rightarrow> world \<Rightarrow> (idempotency_key \<times> world) result" where
  "idempotency_create ev r w =
     (case db_insert (\<lambda>i r. r\<lparr>idk_id := i, idk_created_at := now ev\<rparr>) idk_id idempotency_key_violates
             (idempotency_keys w) r of
        Inl e \<Rightarrow> Inl e | Inr (r', t) \<Rightarrow> Inr (r', w\<lparr>idempotency_keys := t\<rparr>))"

definition idempotency_update :: "idempotency_key \<Rightarrow> world \<Rightarrow> world result" where
  "idempotency_update r w =
     (case db_update idk_id idempotency_key_violates (idempotency_keys w) r of
        Inl e \<Rightarrow> Inl e | Inr t \<Rightarrow> Inr (w\<lparr>idempotency_keys := t\<rparr>))"

definition idempotency_delete :: "idempotency_key \<Rightarrow> world \<Rightarrow> world" where
  "idempotency_delete r w = w\<lparr>idempotency_keys := tbl_del idk_id (idk_id r) (idempotency_keys w)\<rparr>"

definition idempotency_delete_older_than :: "instant \<Rightarrow> world \<Rightarrow> int \<times> world" where
  "idempotency_delete_older_than cutoff w =
     (int (length [k \<leftarrow> idempotency_keys w. idk_created_at k < cutoff]),
      w\<lparr>idempotency_keys := [k \<leftarrow> idempotency_keys w. \<not> idk_created_at k < cutoff]\<rparr>)"

definition domain_event_create :: "env \<Rightarrow> domain_event \<Rightarrow> world \<Rightarrow> (domain_event \<times> world) result" where
  "domain_event_create ev r w =
     (if event_store_ok ev (ev_event_type r)
      then (let r' = r\<lparr>ev_id := tbl_fresh ev_id (domain_events w), ev_created_at := now ev\<rparr> in
            Inr (r', w\<lparr>domain_events := domain_events w @ [r']\<rparr>))
      else Inl (IntegrityError ''domain_events''))"

definition domain_event_delete_older_than :: "instant \<Rightarrow> world \<Rightarrow> int \<times> world" where
  "domain_event_delete_older_than cutoff w =
     (int (length [e \<leftarrow> domain_events w. ev_created_at e < cutoff]),
      w\<lparr>domain_events := [e \<leftarrow> domain_events w. \<not> ev_created_at e < cutoff]\<rparr>)"

text \<open>The upcoming bookings of a customer, and those that start within an interval.\<close>

definition appointment_list_starting_between ::
  "instant \<Rightarrow> instant \<Rightarrow> appointment_status list \<Rightarrow> world \<Rightarrow> appointment list" where
  "appointment_list_starting_between start_datetime end_datetime statuses w =
     sort_key apt_start_datetime
       [a \<leftarrow> appointments w. apt_status a \<in> set statuses \<and>
          start_datetime \<le> apt_start_datetime a \<and> apt_start_datetime a \<le> end_datetime]"

definition appointment_list_upcoming_for_customer ::
  "int \<Rightarrow> int option \<Rightarrow> instant \<Rightarrow> int \<Rightarrow> world \<Rightarrow> appointment list" where
  "appointment_list_upcoming_for_customer customer_id organization_id now_datetime limit w =
     take (nat (max 1 (min limit 50)))
       (sort_key apt_start_datetime
         [a \<leftarrow> appointments w. apt_customer_id a = customer_id \<and> is_blocking a \<and>
            now_datetime \<le> apt_start_datetime a \<and>
            (case organization_id of None \<Rightarrow> True | Some i \<Rightarrow> apt_organization_id a = i)])"

section \<open>Accounts, conversations and notifications\<close>

definition user_get :: "int \<Rightarrow> world \<Rightarrow> user option" where
  "user_get i w = tbl_get usr_id i (users w)"

definition user_get_by_email :: "string \<Rightarrow> world \<Rightarrow> user option" where
  "user_get_by_email email w = find (\<lambda>u. usr_email u = email) (users w)"

definition user_create :: "user \<Rightarrow> world \<Rightarrow> (user \<times> world) result" where
  "user_create r w =
     (case db_insert (\<lambda>i r. r\<lparr>usr_id := i\<rparr>) usr_id user_violates (users w) r of
        Inl e \<Rightarrow> Inl e | Inr (r', t) \<Rightarrow> Inr (r', w\<lparr>users := t\<rparr>))"

definition organization_member_get :: "int \<Rightarrow> world \<Rightarrow> organization_member option" where
  "organization_member_get i w = tbl_get mem_id i (organization_members w)"

definition organization_member_get_by_org_and_user :: "int \<Rightarrow> int \<Rightarrow> world \<Rightarrow> organization_member option" where
  "organization_member_get_by_org_and_user organization_id user_id w =
     find (\<lambda>m. mem_organization_id m = organization_id \<and> mem_user_id m = user_id) (organization_members w)"

definition organization_member_list_by_organization :: "int \<Rightarrow> world \<Rightarrow> organization_member list" where
  "organization_member_list_by_organization organization_id w =
     [m \<leftarrow> organization_members w. mem_organization_id m = organization_id]"

definition organization_member_list_active_org_ids_for_user :: "int \<Rightarrow> world \<Rightarrow> int list" where
  "organization_member_list_active_org_ids_for_user user_id w =
     map mem_organization_id [m \<leftarrow> organization_members w. mem_user_id m = user_id \<and> mem_is_active m]"

definition organization_member_add :: "organization_member \<Rightarrow> world \<Rightarrow> (organization_member \<times> world) result" where
  "organization_member_add r w =
     (case db_insert (\<lambda>i r. r\<lparr>mem_id := i\<rparr>) mem_id organization_member_violates (organization_members w) r of
        Inl e \<Rightarrow> Inl e | Inr (r', t) \<Rightarrow> Inr (r', w\<lparr>organization_members := t\<rparr>))"

definition organization_member_update :: "organization_member \<Rightarrow> world \<Rightarrow> world result" where
  "organization_member_update r w =
     (case db_update mem_id organization_member_violates (organization_members w) r of
        Inl e \<Rightarrow> Inl e | Inr t \<Rightarrow> Inr (w\<lparr>organization_members := t\<rparr>))"

definition identity_list_by_customer :: "int \<Rightarrow> world \<Rightarrow> channel_identity list" where
  "identity_list_by_customer customer_id w = [c \<leftarrow> channel_identities w. cci_customer_id c = customer_id]"

definition identity_get_by_channel_external_user :: "channel_type \<Rightarrow> string \<Rightarrow> world \<Rightarrow> channel_identity option" where
  "identity_get_by_channel_external_user channel external_user_id w =
     find (\<lambda>c. cci_channel c = channel \<and> cci_external_user_id c = external_user_id) (channel_identities w)"

definition identity_get_by_customer_and_channel :: "int \<Rightarrow> channel_type \<Rightarrow> world \<Rightarrow> channel_identity option" where
  "identity_get_by_customer_and_channel customer_id channel w =
     find (\<lambda>c. cci_customer_id c = customer_id \<and> cci_channel c = channel) (channel_identities w)"

definition identity_create :: "channel_identity \<Rightarrow> world \<Rightarrow> (channel_identity \<times> world) result" where
  "identity_create r w =
     (case db_insert (\<lambda>i r. r\<lparr>cci_id := i\<rparr>) cci_id channel_identity_violates (channel_identities w) r of
        Inl e \<Rightarrow> Inl e | Inr (r', t) \<Rightarrow> Inr (r', w\<lparr>channel_identities := t\<rparr>))"

definition notification_get :: "int \<Rightarrow> world \<Rightarrow> notification option" where
  "notification_get i w = tbl_get ntf_id i (notifications w)"

definition notification_exists_for_appointment ::
  "int \<Rightarrow> notification_type \<Rightarrow> notification_status list \<Rightarrow> world \<Rightarrow> bool" where
  "notification_exists_for_appointment appointment_id notification_type statuses w \<longleftrightarrow>
     (\<exists>n \<in> set (notifications w). ntf_appointment_id n = appointment_id \<and>
        ntf_type n = notification_type \<and> ntf_status n \<in> set statuses)"

definition notification_get_latest_pending_for_appointment ::
  "int \<Rightarrow> notification_type \<Rightarrow> world \<Rightarrow> notification option" where
  "notification_get_latest_pending_for_appointment appointment_id notification_type w =
     latest_by ntf_id [n \<leftarrow> notifications w. ntf_appointment_id n = appointment_id \<and>
                         ntf_type n = notification_type \<and> ntf_status n = NTF_PENDING]"

definition notification_create :: "notification \<Rightarrow> world \<Rightarrow> (notification \<times> world) result" where
  "notification_create r w =
     (case db_insert (\<lambda>i r. r\<lparr>ntf_id := i\<rparr>) ntf_id notification_violates (notifications w) r of
        Inl e \<Rightarrow> Inl e | Inr (r', t) \<Rightarrow> Inr (r', w\<lparr>notifications := t\<rparr>))"

definition notification_update :: "notification \<Rightarrow> world \<Rightarrow> world result" where
  "notification_update r w =
     (case db_update ntf_id notification_violates (notifications w) r of
        Inl e \<Rightarrow> Inl e | Inr t \<Rightarrow> Inr (w\<lparr>notifications := t\<rparr>))"

definition message_log_get_by_external_id ::
  "channel_type \<Rightarrow> message_direction \<Rightarrow> string \<Rightarrow> world \<Rightarrow> message_log option" where
  "message_log_get_by_external_id channel direction external_message_id w =
     find (\<lambda>m. msg_channel m = channel \<and> msg_direction m = direction \<and>
               msg_external_message_id m = Some external_message_id) (message_logs w)"

definition message_log_create :: "env \<Rightarrow> message_log \<Rightarrow> world \<Rightarrow> (message_log \<times> world) result" where
  "message_log_create ev r w =
     (case db_insert (\<lambda>i r. r\<lparr>msg_id := i, msg_created_at := now ev\<rparr>) msg_id message_log_violates (message_logs w) r of
        Inl e \<Rightarrow> Inl e | Inr (r', t) \<Rightarrow> Inr (r', w\<lparr>message_logs := t\<rparr>))"

definition conversation_get_by_customer_and_channel :: "int \<Rightarrow> channel_type \<Rightarrow> world \<Rightarrow> conversation_state option" where
  "conversation_get_by_customer_and_channel customer_id channel w =
     find (\<lambda>c. cst_customer_id c = customer_id \<and> cst_channel c = channel) (conversation_states w)"

definition conversation_create :: "env \<Rightarrow> conversation_state \<Rightarrow> world \<Rightarrow> (conversation_state \<times> world) result" where
  "conversation_create ev r w =
     (case db_insert (\<lambda>i r. r\<lparr>cst_id := i, cst_last_interaction_at := now ev\<rparr>) cst_id
             conversation_state_violates (conversation_states w) r of
        Inl e \<Rightarrow> Inl e | Inr (r', t) \<Rightarrow> Inr (r', w\<lparr>conversation_states := t\<rparr>))"

definition conversation_update ::
  "env \<Rightarrow> conversation_state \<Rightarrow> world \<Rightarrow> (conversation_state \<times> world) result" where
  "conversation_update ev r w =
     (let r' = r\<lparr>cst_last_interaction_at := now ev\<rparr> in
      case db_update cst_id conversation_state_violates (conversation_states w) r' of
        Inl e \<Rightarrow> Inl e | Inr t \<Rightarrow> Inr (r', w\<lparr>conversation_states := t\<rparr>))"

lemmas write_defs =
  availability_create_def availability_update_def date_override_create_def date_override_update_def
  time_off_create_def time_off_update_def customer_create_def customer_update_def
  appointment_create_def appointment_update_def payment_create_def payment_update_def
  refund_create_def refund_update_def earning_create_def earning_update_def
  payout_create_def payout_update_def idempotency_create_def idempotency_update_def
  user_create_def organization_member_add_def organization_member_update_def identity_create_def
  notification_create_def notification_update_def message_log_create_def conversation_create_def
  conversation_update_def

section \<open>Every table keeps the repository contract\<close>

interpretation availability_repo: repository av_id availabilities availability_get
  availability_create availability_update
  by unfold_locales
    (auto simp: availability_get_def write_defs split: sum.splits dest!: db_insert_rows db_update_rows)

interpretation date_override_repo: repository ov_id date_overrides date_override_get
  date_override_create date_override_update
  by unfold_locales
    (auto simp: date_override_get_def write_defs split: sum.splits dest!: db_insert_rows db_update_rows)

interpretation time_off_repo: repository off_id time_offs time_off_get time_off_create time_off_update
  by unfold_locales
    (auto simp: time_off_get_def write_defs split: sum.splits dest!: db_insert_rows db_update_rows)

interpretation customer_repo: repository cust_id customers customer_get customer_create customer_update
  by unfold_locales
    (auto simp: customer_get_def write_defs split: sum.splits dest!: db_insert_rows db_update_rows)

interpretation appointment_repo: repository apt_id appointments appointment_get
  "appointment_create ev" "appointment_update ev" for ev
  by unfold_locales
    (auto simp: appointment_get_def write_defs split: sum.splits dest!: db_insert_rows db_update_rows)

interpretation payment_repo: repository pay_id payments payment_get "payment_create ev" payment_update for ev
  by unfold_locales
    (auto simp: payment_get_def write_defs split: sum.splits dest!: db_insert_rows db_update_rows)

interpretation refund_repo: repository rf_id refunds refund_get "refund_create ev" refund_update for ev
  by unfold_locales
    (auto simp: refund_get_def write_defs split: sum.splits dest!: db_insert_rows db_update_rows)

interpretation earning_repo: repository ern_id earnings earning_get "earning_create ev" earning_update for ev
  by unfold_locales
    (auto simp: earning_get_def write_defs split: sum.splits dest!: db_insert_rows db_update_rows)

interpretation payout_repo: repository po_id payouts payout_get "payout_create ev" payout_update for ev
  by unfold_locales
    (auto simp: payout_get_def write_defs split: sum.splits dest!: db_insert_rows db_update_rows)

definition idempotency_get :: "int \<Rightarrow> world \<Rightarrow> idempotency_key option" where
  "idempotency_get i w = tbl_get idk_id i (idempotency_keys w)"

interpretation idempotency_repo: repository idk_id idempotency_keys idempotency_get
  "idempotency_create ev" idempotency_update for ev
  by unfold_locales
    (auto simp: idempotency_get_def write_defs split: sum.splits dest!: db_insert_rows db_update_rows)

interpretation organization_member_repo: repository mem_id organization_members organization_member_get
  organization_member_add organization_member_update
  by unfold_locales
    (auto simp: organization_member_get_def write_defs split: sum.splits dest!: db_insert_rows db_update_rows)

interpretation notification_repo: repository ntf_id notifications notification_get
  notification_create notification_update
  by unfold_locales
    (auto simp: notification_get_def write_defs split: sum.splits dest!: db_insert_rows db_update_rows)

end
