(* ===== verification/Observability.thy ===== *)
theory Observability
  imports Repositories "HOL-Library.AList"
begin

text \<open>
  What every service does besides its tables: the metric counters of
  \<^verbatim>\<open>services/observability/metrics.py\<close>, the audit events of
  \<^verbatim>\<open>services/observability/domain_events.py\<close> and the tasks that
  \<^verbatim>\<open>services/notifications/dispatcher.py\<close> hands to the broker.  None of them may fail the
  operation that calls it: a broker or event-store failure is swallowed, and the lemmas of
  \<^verbatim>\<open>frame_simps\<close> say that no business table changes.
\<close>

section \<open>Metric counters\<close>

definition default_counters :: "string list" where
  "default_counters =
     [''bookings_created_total'', ''bookings_canceled_total'', ''bookings_rescheduled_total'',
      ''payments_required_total'', ''payments_succeeded_total'', ''payments_failed_total'',
      ''refunds_succeeded_total'', ''refunds_failed_total'', ''payouts_created_total'',
      ''payouts_completed_total'', ''payouts_failed_total'', ''reminders_sent_total'',
      ''idempotency_replays_total'', ''reminders_scheduled_total'', ''worker_runs_total'',
      ''worker_failures_total'', ''rate_limit_hits_total'', ''rate_limit_allowed_total'',
      ''whatsapp_webhook_received_total'', ''whatsapp_outbound_sent_total'',
      ''whatsapp_outbound_failed_total'', ''whatsapp_conversation_started_total'',
      ''whatsapp_bookings_completed_total'', ''whatsapp_cancellations_completed_total'',
      ''whatsapp_reschedules_completed_total'']"

definition counter_value :: "string \<Rightarrow> world \<Rightarrow> int" where
  "counter_value name w = (case map_of (counters w) name of None \<Rightarrow> 0 | Some n \<Rightarrow> n)"

definition metrics_increment :: "string \<Rightarrow> int \<Rightarrow> (string \<times> int) list \<Rightarrow> (string \<times> int) list" where
  "metrics_increment name value cs =
     (if value = 0 then cs
      else AList.update name ((case map_of cs name of None \<Rightarrow> 0 | Some n \<Rightarrow> n) + value) cs)"

definition increment_counter :: "string \<Rightarrow> world \<Rightarrow> world" where
  "increment_counter name w = w\<lparr>counters := metrics_increment name 1 (counters w)\<rparr>"

definition metrics_reset :: "world \<Rightarrow> world" where
  "metrics_reset w = w\<lparr>counters := map (\<lambda>n. (n, 0)) default_counters\<rparr>"

lemma counter_value_increment:
  "counter_value m (increment_counter n w) = counter_value m w + (if m = n then 1 else 0)"
  by (simp add: counter_value_def increment_counter_def metrics_increment_def update_conv')

section \<open>Audit events\<close>

definition sensitive_keys :: "string list" where
  "sensitive_keys =
     [''token'', ''secret'', ''password'', ''authorization'', ''access_token'', ''refresh_token'',
      ''webhook_secret'']"

fun contains :: "string \<Rightarrow> string \<Rightarrow> bool" where
  "contains needle [] = (needle = [])"
| "contains needle (c # cs) = (take (length needle) (c # cs) = needle \<or> contains needle cs)"

definition is_sensitive :: "string \<Rightarrow> bool" where
  "is_sensitive key = (\<exists>s \<in> set sensitive_keys. contains s (lower key))"

function sanitize_payload :: "json \<Rightarrow> json" where
  "sanitize_payload (JObj kvs) =
     JObj (map (\<lambda>(k, v). (k, if is_sensitive k then JStr ''[redacted]'' else sanitize_payload v)) kvs)"
| "sanitize_payload (JList items) = JList (map sanitize_payload (take 100 items))"
| "sanitize_payload JNull = JNull"
| "sanitize_payload (JBool b) = JBool b"
| "sanitize_payload (JInt n) = JInt n"
| "sanitize_payload (JStr s) = JStr s"
  by pat_completeness auto
termination
  by (relation "measure size")
    (auto dest!: in_set_takeD simp: less_Suc_eq_le intro: size_list_estimation' order.refl)

text \<open>No value other than the redaction mark is left below a sensitive key, at any depth.\<close>

fun redacted :: "json \<Rightarrow> bool" where
  "redacted (JObj kvs) =
     (\<forall>f \<in> set kvs. if is_sensitive (fst f) then snd f = JStr ''[redacted]'' else redacted (snd f))"
| "redacted (JList items) = (\<forall>i \<in> set items. redacted i)"
| "redacted v = True"

text \<open>\<^verbatim>\<open>event_defaults\<close> holds the default arguments of \<^verbatim>\<open>record_domain_event\<close>.\<close>

definition event_defaults :: "string \<Rightarrow> domain_event" where
  "event_defaults event_type =
     \<lparr>ev_id = 0, ev_event_type = event_type, ev_entity_type = None, ev_entity_id = None,
      ev_organization_id = None, ev_actor_type = ''system'', ev_actor_id = None,
      ev_request_id = None, ev_related_payment_id = None, ev_related_appointment_id = None,
      ev_related_payout_id = None, ev_status = ''info'', ev_payload_json = JObj [],
      ev_created_at = 0\<rparr>"

definition record_domain_event :: "env \<Rightarrow> domain_event \<Rightarrow> world \<Rightarrow> domain_event option \<times> world" where
  "record_domain_event ev event w =
     (let resolved_request_id =
            (case ev_request_id event of
               None \<Rightarrow> current_request_id ev
             | Some r \<Rightarrow> if r = [] then current_request_id ev else Some r);
          sanitized_payload = sanitize_payload (ev_payload_json event) in
      case domain_event_create ev
             (event\<lparr>ev_request_id := resolved_request_id, ev_payload_json := sanitized_payload\<rparr>) w of
        Inr (e, w') \<Rightarrow> (Some e, w')
      | Inl _ \<Rightarrow> (None, w))"

abbreviation record_event :: "env \<Rightarrow> domain_event \<Rightarrow> world \<Rightarrow> world" where
  "record_event ev event w \<equiv> snd (record_domain_event ev event w)"

section \<open>Notification tasks\<close>

definition TASK_APPOINTMENT_CREATED :: string where
  "TASK_APPOINTMENT_CREATED = ''bookpoint.notifications.appointment_created''"
definition TASK_APPOINTMENT_CANCELLED :: string where
  "TASK_APPOINTMENT_CANCELLED = ''bookpoint.notifications.appointment_cancelled''"
definition TASK_APPOINTMENT_RESCHEDULED :: string where
  "TASK_APPOINTMENT_RESCHEDULED = ''bookpoint.notifications.appointment_rescheduled''"
definition TASK_PAYMENT_REQUIRED :: string where
  "TASK_PAYMENT_REQUIRED = ''bookpoint.notifications.payment_required''"
definition TASK_PAYMENT_SUCCEEDED :: string where
  "TASK_PAYMENT_SUCCEEDED = ''bookpoint.notifications.payment_succeeded''"
definition TASK_PAYMENT_FAILED :: string where
  "TASK_PAYMENT_FAILED = ''bookpoint.notifications.payment_failed''"
definition TASK_BOOKING_AUTO_CANCELED_PAYMENT_TIMEOUT :: string where
  "TASK_BOOKING_AUTO_CANCELED_PAYMENT_TIMEOUT =
     ''bookpoint.notifications.booking_auto_canceled_payment_timeout''"
definition TASK_REFUND_INITIATED :: string where
  "TASK_REFUND_INITIATED = ''bookpoint.notifications.refund_initiated''"
definition TASK_REFUND_SUCCEEDED :: string where
  "TASK_REFUND_SUCCEEDED = ''bookpoint.notifications.refund_succeeded''"
definition TASK_REFUND_FAILED :: string where
  "TASK_REFUND_FAILED = ''bookpoint.notifications.refund_failed''"
definition TASK_EARNING_CREATED :: string where
  "TASK_EARNING_CREATED = ''bookpoint.notifications.earning_created''"
definition TASK_PAYOUT_CREATED :: string where
  "TASK_PAYOUT_CREATED = ''bookpoint.notifications.payout_created''"
definition TASK_PAYOUT_COMPLETED :: string where
  "TASK_PAYOUT_COMPLETED = ''bookpoint.notifications.payout_completed''"
definition TASK_PAYOUT_FAILED :: string where
  "TASK_PAYOUT_FAILED = ''bookpoint.notifications.payout_failed''"

definition enqueue_task :: "env \<Rightarrow> string \<Rightarrow> int \<Rightarrow> world \<Rightarrow> bool \<times> world" where
  "enqueue_task ev task_name entity_id w =
     (if broker_accepts ev task_name entity_id
      then (True, w\<lparr>sent_tasks := sent_tasks w @ [(task_name, entity_id)]\<rparr>)
      else (False, w))"

abbreviation enqueue :: "env \<Rightarrow> string \<Rightarrow> int \<Rightarrow> world \<Rightarrow> world" where
  "enqueue ev task_name entity_id w \<equiv> snd (enqueue_task ev task_name entity_id w)"

section \<open>None of them touches a business table\<close>

text \<open>
  The business tables of a world; the events, tasks and counters and the state of the rate
  limiter are left out.
\<close>

definition business :: "world \<Rightarrow> world" where
  "business w = w\<lparr>domain_events := [], sent_tasks := [], counters := [], rate_entries := [], redis_disabled_until := 0\<rparr>"

lemma business_eqD: "business w = business w' \<Longrightarrow>
    organizations w = organizations w' \<and> locations w = locations w' \<and> providers w = providers w' \<and>
    services w = services w' \<and> provider_services w = provider_services w' \<and>
    provider_locations w = provider_locations w' \<and> service_locations w = service_locations w' \<and>
    availabilities w = availabilities w' \<and> date_overrides w = date_overrides w' \<and>
    time_offs w = time_offs w' \<and> customers w = customers w' \<and> appointments w = appointments w' \<and>
    payments w = payments w' \<and> refunds w = refunds w' \<and> earnings w = earnings w' \<and>
    payouts w = payouts w' \<and> idempotency_keys w = idempotency_keys w' \<and>
    users w = users w' \<and> organization_members w = organization_members w' \<and>
    channel_identities w = channel_identities w' \<and> notifications w = notifications w' \<and>
    message_logs w = message_logs w' \<and> conversation_states w = conversation_states w'"
  by (cases w; cases w') (simp add: business_def)

lemma business_increment_counter [simp]: "business (increment_counter n w) = business w"
  by (simp add: increment_counter_def business_def)

lemma business_record_domain_event [simp]: "business (snd (record_domain_event ev e w)) = business w"
  by (simp add: record_domain_event_def domain_event_create_def business_def Let_def)

lemma business_enqueue_task [simp]: "business (snd (enqueue_task ev t i w)) = business w"
  by (simp add: enqueue_task_def business_def)

lemmas increment_counter_tables [simp] = business_increment_counter [THEN business_eqD]
lemmas record_domain_event_tables [simp] = business_record_domain_event [THEN business_eqD]
lemmas enqueue_task_tables [simp] = business_enqueue_task [THEN business_eqD]

section \<open>Properties\<close>

text \<open>
  An audit event is recorded with a sanitised payload: below a key that contains a
  sensitive word, in any letter case and at any depth, only the redaction mark is stored.
\<close>

theorem sanitize_payload_redacted: "redacted (sanitize_payload v)"
proof (induction v)
  case (JList items)
  then show ?case by (auto dest: in_set_takeD)
next
  case (JObj kvs)
  then show ?case by fastforce
qed auto

end
