(* ===== verification/Sample_Data.thy ===== *)
theory Sample_Data
  imports Observability
begin

text \<open>
  A small salon on which the theorems are applied: one organization with one location, one
  provider and one paid service, open on Thursdays from 9:00 to 13:00, in a zone without
  offset.  Day 0 is Thursday 1970-01-01, and the clock stands at 8:00.
\<close>

definition sample_zone :: zone where
  "sample_zone = \<lparr>offset_of_local = (\<lambda>_. 0), offset_of_instant = (\<lambda>_. 0)\<rparr>"

definition sample_env :: env where
  "sample_env =
     \<lparr>now = 8 * hour_us,
      zone_table = (\<lambda>n. if n = ''UTC'' then Some sample_zone else None),
      token_hex = (\<lambda>purpose i. purpose @ replicate (nat i) CHR ''x''),
      broker_accepts = (\<lambda>_ _. True), event_store_ok = (\<lambda>_. True), is_postgres = True,
      current_request_id = None,
      config = default_settings\<lparr>cfg_payment_pending_expiration_minutes := 30\<rparr>,
      sha256_hex = (\<lambda>s. s), redis_reply = (\<lambda>_. None),
      jwt_encode = (\<lambda>sub expiry. sub), jwt_decode = (\<lambda>token. Some (Some token)),
      password_hash = (\<lambda>p. p), password_verify = (\<lambda>p h. p = h),
      http_post = (\<lambda>n _ _. HttpBody (''wamid'' @ replicate n CHR ''x'')),
      json_datetime = (\<lambda>d. isoformat_utc (as_utc d)),
      json_loads = (\<lambda>s. Inr (JObj [(''messages'', JList [JObj [(''id'', JStr s)]])])),
      datetime_fromisoformat = (\<lambda>_. None), hmac_sha256_hex = (\<lambda>key body. key @ body)\<rparr>"

definition sample_organization :: organization where
  "sample_organization =
     \<lparr>org_id = 1, org_name = ''Salon'', org_slug = ''salon'', org_business_type = ''beauty'',
      org_city = ''Baku'', org_address = None, org_timezone = ''UTC'', org_is_active = True,
      org_commission_type = PERCENTAGE, org_commission_percentage = 1/10, org_commission_fixed_minor = 0\<rparr>"

definition sample_location :: location where
  "sample_location =
     \<lparr>loc_id = 1, loc_organization_id = 1, loc_name = ''Main'', loc_slug = ''main'',
      loc_address_line_1 = None, loc_address_line_2 = None, loc_city = None, loc_region = None,
      loc_postal_code = None, loc_country = None, loc_timezone = None, loc_is_active = True\<rparr>"

definition sample_provider :: provider where
  "sample_provider =
     \<lparr>prov_id = 1, prov_organization_id = 1, prov_user_id = None, prov_display_name = ''Ada'',
      prov_title = None, prov_bio = None, prov_is_active = True, prov_appointment_duration_minutes = 30\<rparr>"

definition sample_service :: service where
  "sample_service =
     \<lparr>svc_id = 1, svc_organization_id = 1, svc_provider_id = 1, svc_name = ''Cut'', svc_description = None,
      svc_duration_minutes = 60, svc_price = Some 10, svc_currency = Some ''USD'',
      svc_requires_payment = True, svc_payment_type = FULL, svc_deposit_amount_minor = None,
      svc_cancellation_policy_type = FLEXIBLE, svc_cancellation_window_hours = 24,
      svc_buffer_before_minutes = 0, svc_buffer_after_minutes = 10, svc_is_active = True\<rparr>"

definition sample_customer :: customer where
  "sample_customer =
     \<lparr>cust_id = 1, cust_full_name = ''Lin'', cust_phone_number = ''+994501112233'',
      cust_phone_number_normalized = ''+994501112233'', cust_email = None,
      cust_preferred_language = None\<rparr>"

definition sample_world :: world where
  "sample_world = empty_world
     \<lparr>organizations := [sample_organization], locations := [sample_location],
      providers := [sample_provider], services := [sample_service],
      provider_services := [\<lparr>ps_id = 1, ps_provider_id = 1, ps_service_id = 1, ps_duration_minutes_override = None\<rparr>],
      provider_locations := [\<lparr>pl_id = 1, pl_provider_id = 1, pl_location_id = 1\<rparr>],
      service_locations := [\<lparr>sl_id = 1, sl_service_id = 1, sl_location_id = 1\<rparr>],
      availabilities := [\<lparr>av_id = 1, av_provider_id = 1, av_weekday = 3, av_start_time = 9 * hour_us,
                          av_end_time = 13 * hour_us, av_is_active = True\<rparr>],
      customers := [sample_customer]\<rparr>"

definition sample_appointment :: appointment where
  "sample_appointment =
     \<lparr>apt_id = 1, apt_booking_reference = ''BKP-1'', apt_booking_access_token = ''t1'',
      apt_organization_id = 1, apt_location_id = 1, apt_provider_id = 1, apt_service_id = Some 1,
      apt_customer_id = 1, apt_start_datetime = 11 * hour_us, apt_end_datetime = 12 * hour_us,
      apt_status = APT_PENDING_PAYMENT, apt_booking_channel = BC_WEB, apt_notes = None\<rparr>"

definition sample_payment :: payment where
  "sample_payment =
     \<lparr>pay_id = 1, pay_appointment_id = 1, pay_organization_id = 1, pay_amount_minor = 1000,
      pay_currency = ''USD'', pay_provider_name = ''mock'', pay_provider_payment_intent_id = Some ''pi'',
      pay_provider_checkout_session_id = Some ''cs'', pay_provider_checkout_url = Some ''url'',
      pay_status = PAY_REQUIRES_ACTION, pay_payment_type = FULL, pay_paid_at = None, pay_created_at = 0\<rparr>"

definition sample_earning :: earning where
  "sample_earning =
     \<lparr>ern_id = 1, ern_provider_id = 1, ern_appointment_id = 1, ern_payment_id = 1, ern_payout_id = None,
      ern_gross_amount_minor = 1000, ern_platform_fee_minor = 100, ern_provider_amount_minor = 900,
      ern_refunded_amount_minor = 0, ern_adjustment_pending_minor = 0, ern_currency = ''USD'',
      ern_status = READY_FOR_PAYOUT, ern_created_at = 0\<rparr>"

text \<open>The salon with a booked hour, and with that booking paid.\<close>

definition booked_world :: world where
  "booked_world = sample_world\<lparr>appointments := [sample_appointment], payments := [sample_payment]\<rparr>"

definition paid_world :: world where
  "paid_world = sample_world
     \<lparr>appointments := [sample_appointment\<lparr>apt_status := APT_CONFIRMED\<rparr>],
      payments := [sample_payment\<lparr>pay_status := PAY_SUCCEEDED, pay_paid_at := Some (8 * hour_us)\<rparr>],
      earnings := [sample_earning]\<rparr>"

lemmas sample_defs =
  sample_zone_def sample_env_def sample_organization_def sample_location_def sample_provider_def
  sample_service_def sample_customer_def sample_world_def sample_appointment_def sample_payment_def
  sample_earning_def booked_world_def paid_world_def empty_world_def default_settings_def

end
