(* ===== verification/Pytext.thy ===== *)
theory Pytext
  imports Pystring Clock
begin

text \<open>
  Text that the code prints and reads back: \<^verbatim>\<open>str(n)\<close> and \<^verbatim>\<open>int(s)\<close>, \<^verbatim>\<open>s.split(sep, n)\<close>,
  \<^verbatim>\<open>s.startswith\<close>, \<^verbatim>\<open>date.isoformat\<close>, \<^verbatim>\<open>date.fromisoformat\<close> and the formats of
  \<^verbatim>\<open>strftime\<close> that the conversation uses, for ASCII text.  The limit of 4300 digits of
  \<^verbatim>\<open>int\<close> is not modelled.  The round trips hold for every integer and for every date
  between the years 1 and 9999.
\<close>

section \<open>Prefixes and separators\<close>

fun startswith :: "string \<Rightarrow> string \<Rightarrow> bool" where
  "startswith [] s = True"
| "startswith (p # ps) [] = False"
| "startswith (p # ps) (c # cs) \<longleftrightarrow> p = c \<and> startswith ps cs"

fun split_max :: "nat \<Rightarrow> char \<Rightarrow> string \<Rightarrow> string list" where
  "split_max 0 sep s = [s]"
| "split_max (Suc n) sep s =
     (if sep \<in> set s
      then takeWhile (\<lambda>c. c \<noteq> sep) s # split_max n sep (tl (dropWhile (\<lambda>c. c \<noteq> sep) s))
      else [s])"

definition split_all :: "char \<Rightarrow> string \<Rightarrow> string list" where
  "split_all sep s = split_max (length s) sep s"

lemma startswith_append [simp]: "startswith p (p @ s)"
  by (induction p) auto

lemma takeWhile_until: "sep \<notin> set p \<Longrightarrow> takeWhile (\<lambda>c. c \<noteq> sep) (p @ sep # s) = p"
  by (induction p) auto

lemma dropWhile_until: "sep \<notin> set p \<Longrightarrow> dropWhile (\<lambda>c. c \<noteq> sep) (p @ sep # s) = sep # s"
  by (induction p) auto

lemma split_max_append [simp]:
  "sep \<notin> set p \<Longrightarrow> split_max (Suc n) sep (p @ sep # s) = p # split_max n sep s"
  by (simp add: takeWhile_until dropWhile_until)

lemma split_max_none: "sep \<notin> set s \<Longrightarrow> split_max n sep s = [s]"
  by (cases n) auto

section \<open>Integers\<close>

function nat_digits :: "nat \<Rightarrow> string" where
  "nat_digits n = (if n < 10 then [decimal_digit (int n)] else nat_digits (n div 10) @ [decimal_digit (int n)])"
  by pat_completeness auto
termination
  by (relation "measure id") auto

declare nat_digits.simps [simp del]

definition int_str :: "int \<Rightarrow> string" where
  "int_str i = (if i < 0 then CHR ''-'' # nat_digits (nat (- i)) else nat_digits (nat i))"

text \<open>Digits with single underscores between them.\<close>

fun int_literal :: "bool \<Rightarrow> string \<Rightarrow> bool" where
  "int_literal after_digit [] = after_digit"
| "int_literal after_digit (c # cs) =
     (if is_digit c then int_literal True cs else c = CHR ''_'' \<and> after_digit \<and> int_literal False cs)"

definition c_space :: "char \<Rightarrow> bool" where
  "c_space c \<longleftrightarrow> (9 \<le> code c \<and> code c \<le> 13) \<or> code c = 32"

definition trim_c_space :: "string \<Rightarrow> string" where
  "trim_c_space s = rev (dropWhile c_space (rev (dropWhile c_space s)))"

definition py_int :: "string \<Rightarrow> int result" where
  "py_int s =
     (let t = trim_c_space s;
          (sign, body) = (case t of
             [] \<Rightarrow> (1, [])
           | c # cs \<Rightarrow> if c = CHR ''-'' then (- 1, cs) else if c = CHR ''+'' then (1, cs) else (1, t)) in
      if int_literal False body then Inr (sign * digits_value 0 (filter is_digit body))
      else Inl (ValueError (''invalid literal for int() with base 10: '' @ s)))"

lemma decimal_digit_simps:
  assumes "0 \<le> i" and "i < 10"
  shows "is_digit (decimal_digit i)" and "digit_value (decimal_digit i) = i"
proof -
  have "i \<in> {0, 1, 2, 3, 4, 5, 6, 7, 8, 9}" using assms by simp presburger
  then show "is_digit (decimal_digit i)" and "digit_value (decimal_digit i) = i"
    by (auto simp: decimal_digit_def is_digit_def digit_value_def code_def)
qed

lemma decimal_digit_mod: "decimal_digit (i mod 10) = decimal_digit i"
  by (simp add: decimal_digit_def)

lemma is_digit_decimal_digit [simp]: "is_digit (decimal_digit i)"
  using decimal_digit_simps(1) [of "i mod 10"] by (simp add: decimal_digit_mod)

lemma digit_value_decimal_digit [simp]: "digit_value (decimal_digit i) = i mod 10"
  using decimal_digit_simps(2) [of "i mod 10"] by (simp add: decimal_digit_mod)

lemma digits_value_append: "digits_value a (s @ t) = digits_value (digits_value a s) t"
  by (induction s arbitrary: a) auto

lemma nat_digits_digits: "\<forall>c \<in> set (nat_digits n). is_digit c"
proof (induction n rule: nat_digits.induct)
  case (1 n)
  then show ?case by (cases "n < 10") (auto simp: nat_digits.simps [of n])
qed

lemma nat_digits_not_Nil [simp]: "nat_digits n \<noteq> []"
  by (simp add: nat_digits.simps [of n])

lemma digits_value_nat_digits [simp]: "digits_value 0 (nat_digits n) = int n"
proof (induction n rule: nat_digits.induct)
  case (1 n)
  show ?case
  proof (cases "n < 10")
    case True
    then show ?thesis by (simp add: nat_digits.simps [of n])
  next
    case False
    with 1 have "digits_value 0 (nat_digits n) = 10 * int (n div 10) + int n mod 10"
      by (simp add: nat_digits.simps [of n] digits_value_append)
    also have "\<dots> = int n" by (simp add: zdiv_int)
    finally show ?thesis .
  qed
qed

lemma int_literal_digits: "\<forall>c \<in> set s. is_digit c \<Longrightarrow> int_literal b s \<longleftrightarrow> s \<noteq> [] \<or> b"
  by (induction s arbitrary: b) auto

lemma c_space_not: "is_digit c \<Longrightarrow> \<not> c_space c" "\<not> c_space CHR ''-''"
  by (auto simp: is_digit_def c_space_def code_def)

lemma trim_c_space_id: "\<forall>c \<in> set s. \<not> c_space c \<Longrightarrow> trim_c_space s = s"
proof -
  assume no: "\<forall>c \<in> set s. \<not> c_space c"
  have "dropWhile c_space t = t" if "\<forall>c \<in> set t. \<not> c_space c" for t
    using that by (cases t) auto
  from this [of s] this [of "rev s"] no show ?thesis by (simp add: trim_c_space_def)
qed

text \<open>Reading back what was printed.\<close>

lemma py_int_int_str [simp]: "py_int (int_str i) = Inr i"
proof -
  have sp: "\<forall>c \<in> set (nat_digits n). \<not> c_space c" for n
    using nat_digits_digits c_space_not by blast
  have dig: "int_literal False (nat_digits n)" "filter is_digit (nat_digits n) = nat_digits n" for n
    using nat_digits_digits [of n] by (simp_all add: int_literal_digits)
  show ?thesis
  proof (cases "i < 0")
    case True
    then have "trim_c_space (int_str i) = CHR ''-'' # nat_digits (nat (- i))"
      using sp c_space_not by (subst trim_c_space_id) (auto simp: int_str_def)
    with True dig show ?thesis by (simp add: py_int_def)
  next
    case False
    then obtain c cs where n: "nat_digits (nat i) = c # cs" by (cases "nat_digits (nat i)") auto
    then have "is_digit c" using nat_digits_digits [of "nat i"] by simp
    then have c: "c \<noteq> CHR ''-''" "c \<noteq> CHR ''+''" by (auto simp: is_digit_def code_def)
    have "trim_c_space (int_str i) = c # cs"
      using sp [of "nat i"] False by (subst trim_c_space_id) (auto simp: int_str_def n)
    with False c dig [of "nat i"] digits_value_nat_digits [of "nat i"] show ?thesis
      by (simp add: py_int_def n)
  qed
qed

lemma int_str_no_colon [simp]: "CHR '':'' \<notin> set (int_str i)"
proof
  assume "CHR '':'' \<in> set (int_str i)"
  then obtain n where "CHR '':'' \<in> set (nat_digits n)"
    by (auto simp: int_str_def split: if_splits)
  then show False using nat_digits_digits [of n] by (auto simp: is_digit_def code_def)
qed

lemma int_str_not_Nil [simp]: "int_str i \<noteq> []"
  by (simp add: int_str_def)

section \<open>Dates\<close>

text \<open>The day number of a proleptic Gregorian date, the inverse of \<^verbatim>\<open>civil_from_days\<close>.\<close>

definition days_from_civil :: "int \<Rightarrow> int \<Rightarrow> int \<Rightarrow> date" where
  "days_from_civil y m d =
     (let y' = (if m \<le> 2 then y - 1 else y); era = y' div 400; yoe = y' mod 400;
          doy = (153 * ((m + 9) mod 12) + 2) div 5 + d - 1;
          doe = yoe * 365 + yoe div 4 - yoe div 100 + doy in
      era * 146097 + doe - 719468)"

definition is_leap :: "int \<Rightarrow> bool" where
  "is_leap y \<longleftrightarrow> y mod 4 = 0 \<and> (y mod 100 \<noteq> 0 \<or> y mod 400 = 0)"

definition days_in_month :: "int \<Rightarrow> int \<Rightarrow> int" where
  "days_in_month y m =
     (if m = 2 then (if is_leap y then 29 else 28) else if m \<in> {4, 6, 9, 11} then 30 else 31)"

definition new_date :: "int \<Rightarrow> int \<Rightarrow> int \<Rightarrow> date result" where
  "new_date y m d =
     (if \<not> (1 \<le> y \<and> y \<le> 9999) then Inl (ValueError ''year is out of range'')
      else if \<not> (1 \<le> m \<and> m \<le> 12) then Inl (ValueError ''month must be in 1..12'')
      else if \<not> (1 \<le> d \<and> d \<le> days_in_month y m) then Inl (ValueError ''day is out of range for month'')
      else Inr (days_from_civil y m d))"

definition isoformat_date :: "date \<Rightarrow> string" where
  "isoformat_date dt = (let (y, m, d) = civil_from_days dt in padded 4 y @ ''-'' @ padded 2 m @ ''-'' @ padded 2 d)"

text \<open>
  \<^verbatim>\<open>date.fromisoformat\<close> of Python 3.12: a calendar date or a week date, with or without
  separators, in a text of 7, 8 or 10 characters; what follows the last field is not looked at.
\<close>

definition parse_digits :: "nat \<Rightarrow> string \<Rightarrow> (int \<times> string) option" where
  "parse_digits n s =
     (if n \<le> length s \<and> (\<forall>c \<in> set (take n s). is_digit c)
      then Some (digits_value 0 (take n s), drop n s) else None)"

definition invalid_isoformat :: "string \<Rightarrow> 'a result" where
  "invalid_isoformat s = Inl (ValueError (''Invalid isoformat string: '' @ s))"

definition iso_week_date :: "int \<Rightarrow> int \<Rightarrow> int \<Rightarrow> date option" where
  "iso_week_date y week day =
     (let jan1 = days_from_civil y 1 1; first_weekday = weekday jan1;
          week1 = jan1 - first_weekday + (if first_weekday > 3 then 7 else 0) in
      if \<not> (1 \<le> y \<and> y \<le> 9999) then None
      else if \<not> (1 \<le> week \<and> (week \<le> 52 \<or>
                (week = 53 \<and> (first_weekday = 3 \<or> (first_weekday = 2 \<and> is_leap y))))) then None
      else if \<not> (1 \<le> day \<and> day \<le> 7) then None
      else Some (week1 + (week - 1) * 7 + (day - 1)))"

definition strip_separator :: "bool \<Rightarrow> string \<Rightarrow> string option" where
  "strip_separator expected s =
     (if \<not> expected then Some s else case s of [] \<Rightarrow> None | c # cs \<Rightarrow> if c = CHR ''-'' then Some cs else None)"

definition parse_week_date :: "bool \<Rightarrow> int \<Rightarrow> string \<Rightarrow> date option" where
  "parse_week_date uses_separator y s =
     (case parse_digits 2 s of
        None \<Rightarrow> None
      | Some (week, rest) \<Rightarrow>
          if rest = [] then iso_week_date y week 1
          else case strip_separator uses_separator rest of
            None \<Rightarrow> None
          | Some rest' \<Rightarrow> (case parse_digits 1 rest' of None \<Rightarrow> None | Some (day, _) \<Rightarrow> iso_week_date y week day))"

definition parse_calendar_date :: "bool \<Rightarrow> string \<Rightarrow> (int \<times> int) option" where
  "parse_calendar_date uses_separator s =
     (case parse_digits 2 s of
        None \<Rightarrow> None
      | Some (m, rest) \<Rightarrow>
          case strip_separator uses_separator rest of
            None \<Rightarrow> None
          | Some rest' \<Rightarrow> (case parse_digits 2 rest' of None \<Rightarrow> None | Some (d, _) \<Rightarrow> Some (m, d)))"

definition date_fromisoformat :: "string \<Rightarrow> date result" where
  "date_fromisoformat s =
     (if length s \<notin> {7, 8, 10} then invalid_isoformat s
      else case parse_digits 4 s of
        None \<Rightarrow> invalid_isoformat s
      | Some (y, rest) \<Rightarrow>
         (let uses_separator = (rest \<noteq> [] \<and> hd rest = CHR ''-'');
              rest1 = (if uses_separator then tl rest else rest) in
          if rest1 \<noteq> [] \<and> hd rest1 = CHR ''W'' then
            (case parse_week_date uses_separator y (tl rest1) of None \<Rightarrow> invalid_isoformat s | Some dt \<Rightarrow> Inr dt)
          else case parse_calendar_date uses_separator rest1 of
            None \<Rightarrow> invalid_isoformat s
          | Some (m, d) \<Rightarrow> new_date y m d))"

lemma date_fromisoformat_examples:
  "date_fromisoformat ''2024-02-29'' = Inr 19782"
  "date_fromisoformat ''20240229'' = Inr 19782"
  "date_fromisoformat ''2024-W09-4'' = Inr 19782"
  "date_fromisoformat ''2023-02-29'' = Inl (ValueError ''day is out of range for month'')"
  by code_simp+

lemma isoformat_date_example: "isoformat_date 19782 = ''2024-02-29''"
  by code_simp

section \<open>Every date reads back\<close>

lemma length_padded [simp]: "length (padded w n) = w"
  by (induction w n rule: padded.induct) auto

lemma padded_digits: "\<forall>c \<in> set (padded w n). is_digit c"
  by (induction w n rule: padded.induct) auto

lemma digits_value_padded: "digits_value 0 (padded w n) = n mod 10 ^ w"
proof (induction w n rule: padded.induct)
  case (2 w n)
  have "n mod (10 * 10 ^ w) = 10 * (n div 10 mod 10 ^ w) + n mod 10"
    by (rule zmod_zmult2_eq) simp
  with 2 show ?case by (simp add: digits_value_append)
qed simp

lemma parse_digits_padded:
  "0 \<le> n \<Longrightarrow> n < 10 ^ w \<Longrightarrow> parse_digits w (padded w n @ rest) = Some (n, rest)"
  by (auto simp: parse_digits_def padded_digits digits_value_padded)

text \<open>The year of an era of 400 years, and the day of that year counted from March.\<close>

lemma year_of_era:
  fixes doe :: int
  assumes "0 \<le> doe" and "doe < 146097"
  defines "yoe \<equiv> (doe - doe div 1460 + doe div 36524 - doe div 146096) div 365"
  defines "doy \<equiv> doe - (365 * yoe + yoe div 4 - yoe div 100)"
  shows "0 \<le> yoe" and "yoe < 400" and "0 \<le> doy" and "doy \<le> 365" and "doy = 365 \<Longrightarrow> is_leap (yoe + 1)"
proof -
  define c where "c = min 3 (doe div 36524)"
  define r where "r = doe - 36524 * c"
  define q where "q = r div 1461"
  define s where "s = r - 1461 * q"
  define t where "t = min 3 (s div 365)"
  define u where "u = s - 365 * t"
  have c: "0 \<le> c" "c \<le> 3" and r: "0 \<le> r" "r \<le> 36524" "c < 3 \<longrightarrow> r < 36524"
    using assms(1,2) by (auto simp: c_def r_def)
  then have q: "0 \<le> q" "q \<le> 24" and s: "0 \<le> s" "s \<le> 1460"
    by (auto simp: q_def s_def)
  then have t: "0 \<le> t" "t \<le> 3" and u: "0 \<le> u" "u \<le> 365" "t < 3 \<longrightarrow> u < 365"
    by (auto simp: t_def u_def)
  have doe: "doe = 36524 * c + 1461 * q + 365 * t + u"
    by (simp add: r_def s_def u_def)
  define e where "e = 24 * c + q + 365 * t + u"
  define \<delta> where "\<delta> = (if 1460 \<le> e then 1 else 0 :: int)"
  have e: "0 \<le> e" "e < 2920" using c q t u by (auto simp: e_def)
  have "doe = 1460 * (25 * c + q) + e" by (simp add: doe e_def)
  then have d1: "doe div 1460 = 25 * c + q + \<delta>" using e by (auto simp: \<delta>_def)
  have d2: "doe div 36524 - doe div 146096 = c"
  proof (cases "doe = 146096")
    case True
    then show ?thesis by (simp add: c_def)
  next
    case False
    then have "doe div 146096 = 0" "doe div 36524 \<le> 3" using assms(1,2) by auto
    then show ?thesis by (simp add: c_def)
  qed
  have "0 \<le> u - \<delta>" "u - \<delta> < 365"
    using c q t u by (auto simp: \<delta>_def e_def)
  moreover have "doe - doe div 1460 + doe div 36524 - doe div 146096 = 365 * (100 * c + 4 * q + t) + (u - \<delta>)"
    using d1 d2 doe by simp
  ultimately have yoe: "yoe = 100 * c + 4 * q + t" by (simp add: yoe_def)
  have "yoe div 4 = 25 * c + q" using t by (simp add: yoe)
  moreover have "yoe div 100 = c" using q t by (simp add: yoe)
  ultimately have doy: "doy = u" by (simp add: doy_def doe yoe)
  show "0 \<le> yoe" "yoe < 400" "0 \<le> doy" "doy \<le> 365"
    using c q t u by (simp_all add: yoe doy)
  show "is_leap (yoe + 1)" if "doy = 365"
  proof -
    have t3: "t = 3" and u3: "u = 365" using that u t by (auto simp: doy)
    then have "q = 24 \<longrightarrow> c = 3"
      using r c by (auto simp: r_def doe)
    moreover have "yoe + 1 = 4 * (25 * c + q + 1)" by (simp add: yoe t3)
    moreover have "(4 * (25 * c + q + 1)) mod 100 \<noteq> 0" if "q \<noteq> 24"
    proof -
      have "4 * (25 * c + q + 1) = 4 * (q + 1) + c * 100" by simp
      then show ?thesis using q that by (simp only: mod_mult_self1) simp
    qed
    ultimately have "q \<noteq> 24 \<longrightarrow> (yoe + 1) mod 100 \<noteq> 0" "(yoe + 1) mod 4 = 0" "q = 24 \<longrightarrow> yoe + 1 = 400"
      by (metis, simp, simp)
    then show ?thesis
      unfolding is_leap_def by (cases "q = 24") simp_all
  qed
qed

lemma is_leap_era: "is_leap (a + e * 400) = is_leap a"
proof -
  have "a + e * 400 = a + (e * 100) * 4" "a + e * 400 = a + (e * 4) * 100" by simp_all
  then have "(a + e * 400) mod 4 = a mod 4" "(a + e * 400) mod 100 = a mod 100"
    by (metis mod_mult_self1)+
  then show ?thesis by (simp add: is_leap_def)
qed

definition month_of_year_day :: "int \<Rightarrow> bool" where
  "month_of_year_day doy =
     (let mp = (5 * doy + 2) div 153; m = (if mp < 10 then mp + 3 else mp - 9);
          d = doy - (153 * mp + 2) div 5 + 1 in
      1 \<le> m \<and> m \<le> 12 \<and> 1 \<le> d \<and> (m + 9) mod 12 = mp \<and> (m \<le> 2 \<longleftrightarrow> 306 \<le> doy) \<and>
      d \<le> (if m = 2 then (if doy = 365 then 29 else 28) else if m \<in> {4, 6, 9, 11} then 30 else 31))"

lemma month_of_year_day:
  assumes "0 \<le> doy" and "doy \<le> 365"
  shows "month_of_year_day doy"
proof -
  have "\<forall>i \<in> set [0..365]. month_of_year_day i" by code_simp
  with assms show ?thesis by simp
qed

lemma civil_from_days:
  assumes "- 719162 \<le> dt" and "dt \<le> 2932896" and civil: "civil_from_days dt = (y, m, d)"
  shows "new_date y m d = Inr dt" and "0 \<le> y" "y \<le> 9999" "1 \<le> m" "m \<le> 12" "1 \<le> d" "d \<le> 31"
proof -
  define z where "z = dt + 719468"
  define era where "era = z div 146097"
  define doe where "doe = z mod 146097"
  define yoe where "yoe = (doe - doe div 1460 + doe div 36524 - doe div 146096) div 365"
  define doy where "doy = doe - (365 * yoe + yoe div 4 - yoe div 100)"
  have doe: "0 \<le> doe" "doe < 146097" by (simp_all add: doe_def)
  note year = year_of_era [OF doe, folded yoe_def, folded doy_def]
  have z: "z = era * 146097 + doe" by (simp add: era_def doe_def)
  have era: "0 \<le> era" "era \<le> 24"
    using assms(1,2) by (auto simp: era_def z_def)
  define mp where "mp = (5 * doy + 2) div 153"
  define m' where "m' = (if mp < 10 then mp + 3 else mp - 9)"
  have "civil_from_days dt = (yoe + era * 400 + (if m' \<le> 2 then 1 else 0), m', doy - (153 * mp + 2) div 5 + 1)"
    unfolding civil_from_days_def Let_def z_def [symmetric] era_def [symmetric] doe_def [symmetric]
      yoe_def [symmetric] doy_def [symmetric] mp_def [symmetric] m'_def [symmetric] ..
  with civil have m: "m = m'" and d: "d = doy - (153 * mp + 2) div 5 + 1"
    and y: "y = yoe + era * 400 + (if m \<le> 2 then 1 else 0)"
    by (simp_all only: prod.inject) auto
  have mon: "1 \<le> m" "m \<le> 12" "1 \<le> d" "(m + 9) mod 12 = mp" "m \<le> 2 \<longleftrightarrow> 306 \<le> doy"
    "d \<le> (if m = 2 then (if doy = 365 then 29 else 28) else if m \<in> {4, 6, 9, 11} then 30 else 31)"
    using month_of_year_day [OF year(3,4)] unfolding month_of_year_day_def Let_def mp_def [symmetric] m'_def [symmetric] m [symmetric] d [symmetric] by blast+
  show "1 \<le> m" "m \<le> 12" "1 \<le> d" by (rule mon)+
  show "d \<le> 31" using mon(6) by (auto split: if_splits)
  have "is_leap y" if "m = 2" "doy = 365"
  proof -
    have "y = yoe + 1 + era * 400" using that by (simp add: y)
    then show ?thesis using year(5) [OF that(2)] by (simp only: is_leap_era)
  qed
  then have dm: "d \<le> days_in_month y m"
    using mon(6) by (auto simp: days_in_month_def split: if_splits)
  have shifted: "(if m \<le> 2 then y - 1 else y) = yoe + era * 400" by (simp add: y)
  have restore: "days_from_civil y m d = dt"
    using year(1,2) z
    by (simp add: days_from_civil_def Let_def shifted mon(4) d doy_def) (simp add: z_def)
  have y1: "1 \<le> y"
  proof (cases "era = 0 \<and> yoe = 0")
    case True
    then have "doy = z" using z by (simp add: doy_def)
    with True show ?thesis using assms(1) mon(5) by (simp add: y z_def)
  next
    case False
    then show ?thesis using era(1) year(1) by (auto simp: y)
  qed
  have y2: "y \<le> 9999"
  proof (cases "era = 24 \<and> yoe = 399")
    case True
    then have "doy \<le> 305" using z assms(2) by (simp add: doy_def z_def)
    with True show ?thesis using mon(5) by (simp add: y)
  next
    case False
    then show ?thesis using era(2) year(2) by (auto simp: y)
  qed
  show "new_date y m d = Inr dt" using y1 y2 mon dm restore by (simp add: new_date_def)
  show "0 \<le> y" "y \<le> 9999" using y1 y2 by simp_all
qed

lemma date_fromisoformat_isoformat:
  assumes "- 719162 \<le> dt" and "dt \<le> 2932896"
  shows "date_fromisoformat (isoformat_date dt) = Inr dt"
proof -
  obtain y m d where c: "civil_from_days dt = (y, m, d)" by (metis prod_cases3)
  note f = civil_from_days [OF assms c]
  have nonempty: "padded 2 m \<noteq> []"
    by (metis length_padded list.size(3) zero_neq_numeral)
  then have "is_digit (hd (padded 2 m))"
    using padded_digits [of 2 m] hd_in_set by blast
  then have "hd (padded 2 m) \<noteq> CHR ''W''" by (auto simp: is_digit_def code_def)
  with nonempty show ?thesis
    using f parse_digits_padded [of d 2 "[]"] by (auto simp: date_fromisoformat_def isoformat_date_def c parse_digits_padded
        parse_calendar_date_def strip_separator_def hd_append)
qed

section \<open>strftime and timestamps\<close>

definition month_name :: "int \<Rightarrow> string" where
  "month_name m =
     [''Jan'', ''Feb'', ''Mar'', ''Apr'', ''May'', ''Jun'', ''Jul'', ''Aug'', ''Sep'', ''Oct'', ''Nov'', ''Dec''] ! nat (m - 1)"

definition weekday_name :: "date \<Rightarrow> string" where
  "weekday_name dt = [''Mon'', ''Tue'', ''Wed'', ''Thu'', ''Fri'', ''Sat'', ''Sun''] ! nat (weekday dt)"

text \<open>The formats \<^verbatim>\<open>%b %d\<close>, \<^verbatim>\<open>%a, %b %d\<close>, \<^verbatim>\<open>%H:%M UTC\<close> and their combinations.\<close>

definition strftime_b_d :: "date \<Rightarrow> string" where
  "strftime_b_d dt = (let (y, m, d) = civil_from_days dt in month_name m @ '' '' @ padded 2 d)"

definition strftime_a_b_d :: "date \<Rightarrow> string" where
  "strftime_a_b_d dt = weekday_name dt @ '', '' @ strftime_b_d dt"

definition strftime_H_M_UTC :: "instant \<Rightarrow> string" where
  "strftime_H_M_UTC i =
     (let t = i mod day_us in padded 2 (t div hour_us) @ '':'' @ padded 2 (t div minute_us mod 60) @ '' UTC'')"

definition strftime_Y_m_d_H_M_UTC :: "instant \<Rightarrow> string" where
  "strftime_Y_m_d_H_M_UTC i = isoformat_date (i div day_us) @ '' '' @ strftime_H_M_UTC i"

definition strftime_b_d_H_M_UTC :: "instant \<Rightarrow> string" where
  "strftime_b_d_H_M_UTC i = strftime_b_d (i div day_us) @ '' '' @ strftime_H_M_UTC i"

text \<open>\<^verbatim>\<open>int(value.timestamp())\<close> truncates towards zero.\<close>

definition int_timestamp :: "instant \<Rightarrow> int" where
  "int_timestamp i = (if 0 \<le> i then i div second_us else - ((- i) div second_us))"

lemma strftime_examples:
  "strftime_a_b_d 19782 = ''Thu, Feb 29''"
  "strftime_Y_m_d_H_M_UTC (19782 * day_us + 13 * hour_us + 5 * minute_us) = ''2024-02-29 13:05 UTC''"
  by code_simp+

text \<open>\<^verbatim>\<open>sep.join(parts)\<close>\<close>

fun join :: "string \<Rightarrow> string list \<Rightarrow> string" where
  "join sep [] = []"
| "join sep [p] = p"
| "join sep (p # q # ps) = p @ sep @ join sep (q # ps)"

end
