(* ===== verification/Rate_Limiter.thy ===== *)
theory Rate_Limiter
  imports Sample_Data Pytext
begin

text \<open>
  \<^verbatim>\<open>services/rate_limiter.py\<close> and \<^verbatim>\<open>dependencies/rate_limit.py\<close>: the in-process store
  of counters, the check with its fall-back when Redis fails, the table of policies and the
  guard that endpoints call.  The store is used through the interface \<^verbatim>\<open>rate_store\<close>: a hit
  counts in the window of its key and leaves the other keys alone.  From that follows that a
  key gets at most twice its limit through in any interval as long as the window.
\<close>

section \<open>The in-process store\<close>

record rate_limit_policy =
  rlp_name :: string
  rlp_limit :: int
  rlp_window_seconds :: int

record rate_limit_decision =
  rld_allowed :: bool
  rld_retry_after_seconds :: int
  rld_limit :: int
  rld_remaining :: int
  rld_policy_name :: string
  rld_key_fingerprint :: string
  rld_backend :: string

definition memory_cleanup :: "instant \<Rightarrow> (string \<times> rate_entry) list \<Rightarrow> (string \<times> rate_entry) list" where
  "memory_cleanup t entries = [x \<leftarrow> entries. \<not> re_expires_at (snd x) \<le> t]"

definition memory_hit ::
  "instant \<Rightarrow> string \<Rightarrow> int \<Rightarrow> int \<Rightarrow> (string \<times> rate_entry) list
    \<Rightarrow> (bool \<times> int \<times> int) \<times> (string \<times> rate_entry) list" where
  "memory_hit t key limit window_seconds entries =
     (let cleaned = memory_cleanup t entries;
          fresh = \<lparr>re_count = 1, re_expires_at = t + window_seconds * second_us\<rparr>;
          entry = (case map_of cleaned key of
                     None \<Rightarrow> fresh
                   | Some e \<Rightarrow> if re_expires_at e \<le> t then fresh else e\<lparr>re_count := re_count e + 1\<rparr>);
          allowed = (re_count entry \<le> limit);
          left = (re_expires_at entry - t) div second_us;
          retry_after = (if \<not> allowed then max left 1 else max left 0);
          remaining = max (limit - re_count entry) 0 in
      ((allowed, retry_after, remaining), AList.update key entry cleaned))"

section \<open>The check\<close>

definition hit_redis :: "int \<times> int \<Rightarrow> int \<Rightarrow> int \<Rightarrow> bool \<times> int \<times> int" where
  "hit_redis reply limit window_seconds =
     (let (count, ttl0) = reply;
          ttl = (if ttl0 < 0 then window_seconds else ttl0);
          allowed = (count \<le> limit);
          retry_after = (if \<not> allowed then max ttl 1 else max ttl 0) in
      (allowed, retry_after, max (limit - count) 0))"

definition open_decision :: "rate_limit_policy \<Rightarrow> string \<Rightarrow> string \<Rightarrow> rate_limit_decision" where
  "open_decision policy key_fingerprint backend =
     \<lparr>rld_allowed = True, rld_retry_after_seconds = 0, rld_limit = rlp_limit policy,
      rld_remaining = rlp_limit policy, rld_policy_name = rlp_name policy,
      rld_key_fingerprint = key_fingerprint, rld_backend = backend\<rparr>"

definition decided ::
  "rate_limit_policy \<Rightarrow> string \<Rightarrow> string \<Rightarrow> bool \<times> int \<times> int \<Rightarrow> world \<Rightarrow> rate_limit_decision \<times> world" where
  "decided policy key_fingerprint backend hit w =
     (case hit of (allowed, retry_after, remaining) \<Rightarrow>
        (\<lparr>rld_allowed = allowed, rld_retry_after_seconds = retry_after, rld_limit = rlp_limit policy,
          rld_remaining = remaining, rld_policy_name = rlp_name policy,
          rld_key_fingerprint = key_fingerprint, rld_backend = backend\<rparr>,
         increment_counter (if allowed then ''rate_limit_allowed_total'' else ''rate_limit_hits_total'') w))"

definition key_fingerprint :: "env \<Rightarrow> rate_limit_policy \<Rightarrow> string \<Rightarrow> string" where
  "key_fingerprint ev policy key = sha256_hex ev (rlp_name policy @ '':'' @ key)"

definition storage_key :: "env \<Rightarrow> rate_limit_policy \<Rightarrow> string \<Rightarrow> string" where
  "storage_key ev policy key = ''rl:'' @ rlp_name policy @ '':'' @ key_fingerprint ev policy key"

text \<open>The hit on the in-process store, when Redis is off, unreachable or cooling down.\<close>

definition check_memory ::
  "env \<Rightarrow> rate_limit_policy \<Rightarrow> string \<Rightarrow> world \<Rightarrow> rate_limit_decision \<times> world" where
  "check_memory ev policy key w =
     (let (hit, entries) = memory_hit (now ev) (storage_key ev policy key) (rlp_limit policy)
                             (rlp_window_seconds policy) (rate_entries w) in
      decided policy (key_fingerprint ev policy key) ''memory'' hit (w\<lparr>rate_entries := entries\<rparr>))"

definition check :: "env \<Rightarrow> rate_limit_policy \<Rightarrow> string \<Rightarrow> world \<Rightarrow> rate_limit_decision \<times> world" where
  "check ev policy key w =
     (if \<not> cfg_enable_rate_limiting (config ev) then
        (open_decision policy (key_fingerprint ev policy key) ''disabled'',
         increment_counter ''rate_limit_allowed_total'' w)
      else if cfg_rate_limit_use_redis (config ev) \<and> \<not> now ev < redis_disabled_until w then
        (case redis_reply ev (storage_key ev policy key) of
           Some reply \<Rightarrow>
             decided policy (key_fingerprint ev policy key) ''redis''
               (hit_redis reply (rlp_limit policy) (rlp_window_seconds policy)) w
         | None \<Rightarrow>
            (let w1 = w\<lparr>redis_disabled_until := now ev + 5 * second_us\<rparr> in
             if \<not> cfg_rate_limit_fallback_to_memory (config ev) then
               (open_decision policy (key_fingerprint ev policy key) ''redis_unavailable'',
                increment_counter ''rate_limit_allowed_total'' w1)
             else check_memory ev policy key w1))
      else check_memory ev policy key w)"

definition reset_for_tests :: "world \<Rightarrow> world" where
  "reset_for_tests w = w\<lparr>rate_entries := [], redis_disabled_until := 0\<rparr>"

definition policy_map :: "settings \<Rightarrow> (string \<times> int \<times> int) list" where
  "policy_map s =
     [(''public_slots'', cfg_rate_limit_public_slots_limit s, cfg_rate_limit_public_slots_window_seconds s),
      (''public_booking'', cfg_rate_limit_public_booking_limit s, cfg_rate_limit_public_booking_window_seconds s),
      (''public_booking_duplicate'', cfg_rate_limit_public_booking_duplicate_limit s,
       cfg_rate_limit_public_booking_duplicate_window_seconds s),
      (''customer_booking_get'', cfg_rate_limit_customer_booking_get_limit s,
       cfg_rate_limit_customer_booking_get_window_seconds s),
      (''customer_booking_action'', cfg_rate_limit_customer_booking_action_limit s,
       cfg_rate_limit_customer_booking_action_window_seconds s),
      (''customer_invalid_token'', cfg_rate_limit_customer_invalid_token_limit s,
       cfg_rate_limit_customer_invalid_token_window_seconds s),
      (''payment_confirm'', cfg_rate_limit_payment_confirm_limit s, cfg_rate_limit_payment_confirm_window_seconds s),
      (''payout_create'', cfg_rate_limit_payout_create_limit s, cfg_rate_limit_payout_create_window_seconds s),
      (''manual_refund'', cfg_rate_limit_manual_refund_limit s, cfg_rate_limit_manual_refund_window_seconds s),
      (''admin_events'', cfg_rate_limit_admin_events_limit s, cfg_rate_limit_admin_events_window_seconds s),
      (''whatsapp_inbound'', cfg_rate_limit_whatsapp_inbound_limit s, cfg_rate_limit_whatsapp_inbound_window_seconds s)]"

definition get_rate_limit_policy :: "env \<Rightarrow> string \<Rightarrow> rate_limit_policy result" where
  "get_rate_limit_policy ev policy_name =
     (case map_of (policy_map (config ev)) policy_name of
        None \<Rightarrow> Inl (KeyError (''Unknown rate limit policy: '' @ policy_name))
      | Some (limit, window_seconds) \<Rightarrow>
          Inr \<lparr>rlp_name = policy_name, rlp_limit = limit, rlp_window_seconds = window_seconds\<rparr>)"

section \<open>The guard of the endpoints\<close>

record http_request =
  rq_forwarded_for :: "string option"
  rq_client_host :: "string option"
  rq_path :: string
  rq_method :: string

definition get_client_ip :: "http_request \<Rightarrow> string" where
  "get_client_ip request =
     (let first = strip (hd (split_all CHR '','' (str_or (rq_forwarded_for request) [])))
      in if first \<noteq> [] then first else str_or (rq_client_host request) ''unknown'')"

definition hash_key_part :: "env \<Rightarrow> string \<Rightarrow> string" where
  "hash_key_part ev raw = take 16 (sha256_hex ev raw)"

definition build_identity_key :: "string list \<Rightarrow> string" where
  "build_identity_key parts =
     (let normalized = [strip part. part \<leftarrow> parts, part \<noteq> [] \<and> strip part \<noteq> []] in
      if normalized = [] then ''unknown'' else join ''|'' normalized)"

definition enforce_rate_limit ::
  "env \<Rightarrow> http_request \<Rightarrow> string \<Rightarrow> string \<Rightarrow> string \<Rightarrow> domain_event \<Rightarrow> world \<Rightarrow> (exn + unit) \<times> world" where
  "enforce_rate_limit ev request policy_name identity_key message about w =
     (case get_rate_limit_policy ev policy_name of
        Inl e \<Rightarrow> (Inl e, w)
      | Inr policy \<Rightarrow>
       (let (decision, w1) = check ev policy identity_key w in
        if rld_allowed decision then (Inr (), w1)
        else
         (Inl (RateLimited message (rld_retry_after_seconds decision)),
          record_event ev
            (about\<lparr>ev_event_type := ''rate_limit_exceeded'', ev_status := ''failure'',
              ev_payload_json := JObj
                [(''policy'', JStr (rld_policy_name decision)), (''limit'', JInt (rld_limit decision)),
                 (''retry_after_seconds'', JInt (rld_retry_after_seconds decision)),
                 (''path'', JStr (rq_path request)), (''method'', JStr (rq_method request)),
                 (''backend'', JStr (rld_backend decision)),
                 (''key_fingerprint'', JStr (rld_key_fingerprint decision))]\<rparr>) w1)))"

definition default_rate_limit_message :: string where
  "default_rate_limit_message = ''Too many requests. Please retry later.''"

text \<open>No business table changes.\<close>

lemma business_rate_entries [simp]: "business (w\<lparr>rate_entries := e\<rparr>) = business w"
  by (simp add: business_def)

lemma business_redis_disabled [simp]: "business (w\<lparr>redis_disabled_until := t\<rparr>) = business w"
  by (simp add: business_def)

lemma business_check [simp]: "business (snd (check ev policy key w)) = business w"
  by (simp add: check_def check_memory_def decided_def Let_def split: prod.splits option.splits)

lemma business_enforce [simp]: "business (snd (enforce_rate_limit ev request n key m about w)) = business w"
proof -
  have "business w1 = business w" if "check ev policy key w = (decision, w1)" for policy decision w1
    using business_check [of ev policy key w] that by simp
  then show ?thesis
    by (auto simp: enforce_rate_limit_def split: prod.splits sum.splits)
qed

section \<open>Fixed windows\<close>

text \<open>
  The contract of a store of counters.  \<^verbatim>\<open>view t k s\<close> is the count of the running window
  of a key and the instant the window ends, None when no window is running.
\<close>

definition live :: "instant \<Rightarrow> (int \<times> instant) option \<Rightarrow> (int \<times> instant) option" where
  "live t v = (case v of None \<Rightarrow> None | Some (c, x) \<Rightarrow> if t < x then Some (c, x) else None)"

definition count_hit :: "instant \<Rightarrow> int \<Rightarrow> (int \<times> instant) option \<Rightarrow> int \<times> instant" where
  "count_hit t d v = (case v of None \<Rightarrow> (1, t + d * second_us) | Some (c, x) \<Rightarrow> (c + 1, x))"

text \<open>The specification: one key hit at the given instants, with what each hit is told.\<close>

fun counter_run :: "int \<Rightarrow> int \<Rightarrow> instant list \<Rightarrow> (int \<times> instant) option \<Rightarrow> (instant \<times> bool) list" where
  "counter_run l d [] v = []"
| "counter_run l d (t # ts) v =
     (let e = count_hit t d (live t v) in (t, fst e \<le> l) # counter_run l d ts (Some e))"

text \<open>A store hit at instants, by keys, limits and windows in any interleaving.\<close>

fun store_run ::
  "(instant \<Rightarrow> string \<Rightarrow> int \<Rightarrow> int \<Rightarrow> 's \<Rightarrow> (bool \<times> int \<times> int) \<times> 's)
    \<Rightarrow> (instant \<times> string \<times> int \<times> int) list \<Rightarrow> 's \<Rightarrow> (instant \<times> string \<times> bool) list" where
  "store_run hit [] s = []"
| "store_run hit ((t, k, l, d) # hits) s =
     (let (answer, s') = hit t k l d s in (t, k, fst answer) # store_run hit hits s')"

text \<open>The instants at which a key is hit, and what its hits are told.\<close>

fun key_times :: "string \<Rightarrow> (instant \<times> string \<times> 'a) list \<Rightarrow> instant list" where
  "key_times k [] = []"
| "key_times k ((t, k', x) # hits) = (if k' = k then t # key_times k hits else key_times k hits)"

fun key_trace :: "string \<Rightarrow> (instant \<times> string \<times> bool) list \<Rightarrow> (instant \<times> bool) list" where
  "key_trace k [] = []"
| "key_trace k ((t, k', b) # run) = (if k' = k then (t, b) # key_trace k run else key_trace k run)"

lemma set_key_times: "t \<in> set (key_times k hits) \<Longrightarrow> t \<in> fst ` set hits"
  by (induction k hits rule: key_times.induct) (auto split: if_splits)

lemma sorted_key_times: "sorted (map fst hits) \<Longrightarrow> sorted (key_times k hits)"
  by (induction k hits rule: key_times.induct) (auto dest!: set_key_times)

lemma live_later: "t \<le> t' \<Longrightarrow> live t' (live t v) = live t' v"
  by (auto simp: live_def split: option.splits)

lemma counter_run_live: "\<forall>t' \<in> set ts. t \<le> t' \<Longrightarrow> counter_run l d ts (live t v) = counter_run l d ts v"
  by (cases ts) (auto simp: live_later)

locale rate_store =
  fixes ok :: "'s \<Rightarrow> bool"
    and view :: "instant \<Rightarrow> string \<Rightarrow> 's \<Rightarrow> (int \<times> instant) option"
    and hit :: "instant \<Rightarrow> string \<Rightarrow> int \<Rightarrow> int \<Rightarrow> 's \<Rightarrow> (bool \<times> int \<times> int) \<times> 's"
  assumes hit_ok: "ok s \<Longrightarrow> ok (snd (hit t k l d s))"
    and view_later: "t \<le> t' \<Longrightarrow> view t' k s = live t' (view t k s)"
    and view_hit: "ok s \<Longrightarrow> view t k' (snd (hit t k l d s)) =
      (if k' = k then live t (Some (count_hit t d (view t k s))) else view t k' s)"
    and hit_allowed: "ok s \<Longrightarrow> fst (fst (hit t k l d s)) \<longleftrightarrow> fst (count_hit t d (view t k s)) \<le> l"
begin

lemma store_run_counter:
  assumes "ok s" and "sorted (map fst hits)" and "\<forall>x \<in> set hits. t0 \<le> fst x"
    and "\<forall>(t, k', l', d') \<in> set hits. k' = k \<longrightarrow> l' = l \<and> d' = d"
  shows "key_trace k (store_run hit hits s) =
    counter_run l d (key_times k hits) (view t0 k s)"
  using assms
proof (induction hits arbitrary: s t0)
  case Nil
  then show ?case by simp
next
  case (Cons x hits)
  obtain t k' l' d' where x: "x = (t, k', l', d')" by (metis prod_cases4)
  let ?s = "snd (hit t k' l' d' s)"
  have later: "\<forall>t' \<in> set (key_times k hits). t \<le> t'"
    using Cons.prems(2) by (auto simp: x dest!: set_key_times)
  have now: "view t k s = live t (view t0 k s)"
    using Cons.prems(3) by (simp add: x view_later [of t0 t])
  have rest: "key_trace k (store_run hit hits ?s) =
      counter_run l d (key_times k hits) (view t k ?s)"
    using Cons.prems by (intro Cons.IH hit_ok) (auto simp: x)
  have step: "store_run hit (x # hits) s = (t, k', fst (fst (hit t k' l' d' s))) # store_run hit hits ?s"
    by (simp add: x split: prod.split)
  show ?case
  proof (cases "k' = k")
    case True
    with Cons.prems have same: "l' = l" "d' = d" by (auto simp: x)
    let ?e = "count_hit t d (live t (view t0 k s))"
    have "view t k ?s = live t (Some ?e)"
      using view_hit [OF Cons.prems(1)] by (simp add: True same now)
    with rest True same hit_allowed [OF Cons.prems(1)] show ?thesis
      unfolding step by (simp add: x now counter_run_live [OF later] Let_def)
  next
    case False
    have "view t k ?s = live t (view t0 k s)"
      using view_hit [OF Cons.prems(1)] False by (simp add: now)
    with rest False show ?thesis
      unfolding step by (simp add: x counter_run_live [OF later])
  qed
qed

end

section \<open>The in-process store keeps the contract\<close>

definition rate_store_ok :: "(string \<times> rate_entry) list \<Rightarrow> bool" where
  "rate_store_ok entries \<longleftrightarrow> distinct (map fst entries) \<and> (\<forall>x \<in> set entries. 0 \<le> re_count (snd x))"

definition memory_view :: "instant \<Rightarrow> string \<Rightarrow> (string \<times> rate_entry) list \<Rightarrow> (int \<times> instant) option" where
  "memory_view t k entries =
     live t (map_option (\<lambda>e. (re_count e, re_expires_at e)) (map_of entries k))"

lemma map_of_filter_snd:
  "distinct (map fst xs) \<Longrightarrow>
     map_of [x \<leftarrow> xs. P (snd x)] k = (case map_of xs k of None \<Rightarrow> None | Some v \<Rightarrow> if P v then Some v else None)"
proof (induction xs)
  case (Cons x xs)
  then have "map_of xs (fst x) = None" by (auto simp: map_of_eq_None_iff)
  with Cons show ?case by (auto split: option.splits)
qed simp

lemma memory_view_cleanup:
  "distinct (map fst entries) \<Longrightarrow>
     map_of (memory_cleanup t entries) k =
       (case map_of entries k of None \<Rightarrow> None | Some e \<Rightarrow> if t < re_expires_at e then Some e else None)"
  by (simp add: memory_cleanup_def not_le map_of_filter_snd [where P = "\<lambda>e. t < re_expires_at e"])


lemma memory_hit_entry:
  assumes "distinct (map fst entries)"
  shows "\<exists>e. snd (memory_hit t k l d entries) = AList.update k e (memory_cleanup t entries) \<and>
    (re_count e, re_expires_at e) = count_hit t d (memory_view t k entries) \<and>
    fst (fst (memory_hit t k l d entries)) = (re_count e \<le> l)"
  using memory_view_cleanup [OF assms, of t k]
  by (auto simp: memory_hit_def Let_def count_hit_def memory_view_def live_def split: option.splits)

lemma count_hit_view_nonneg:
  "rate_store_ok entries \<Longrightarrow> 0 \<le> fst (count_hit t d (memory_view t k entries))"
  by (auto simp: rate_store_ok_def count_hit_def memory_view_def live_def dest!: map_of_SomeD
      split: option.splits)

lemma set_alist_update: "x \<in> set (AList.update k v al) \<Longrightarrow> x = (k, v) \<or> x \<in> set al"
  by (induction al) (auto split: if_splits)

lemma rate_store_ok_hit:
  assumes "rate_store_ok entries"
  shows "rate_store_ok (snd (memory_hit t k l d entries))"
proof -
  from assms obtain e where hit: "snd (memory_hit t k l d entries) = AList.update k e (memory_cleanup t entries)"
    and e: "(re_count e, re_expires_at e) = count_hit t d (memory_view t k entries)"
    using memory_hit_entry [of entries t k l d] by (auto simp: rate_store_ok_def)
  have "0 \<le> re_count e"
    using count_hit_view_nonneg [OF assms, of t d k] e by (metis fst_conv)
  moreover have "distinct (map fst (memory_cleanup t entries))" "set (memory_cleanup t entries) \<subseteq> set entries"
    using assms by (auto simp: rate_store_ok_def memory_cleanup_def distinct_map_filter)
  ultimately show ?thesis
    using assms by (auto simp: rate_store_ok_def hit distinct_update dest!: set_alist_update)
qed


lemma memory_view_hit:
  assumes "rate_store_ok entries"
  shows "memory_view t k' (snd (memory_hit t k l d entries)) =
    (if k' = k then live t (Some (count_hit t d (memory_view t k entries))) else memory_view t k' entries)"
proof -
  from assms have dist: "distinct (map fst entries)" by (simp add: rate_store_ok_def)
  obtain e where hit: "snd (memory_hit t k l d entries) = AList.update k e (memory_cleanup t entries)"
    and e: "(re_count e, re_expires_at e) = count_hit t d (memory_view t k entries)"
    using memory_hit_entry [OF dist, of t k l d] by blast
  show ?thesis
  proof (cases "k' = k")
    case True
    have "memory_view t k (AList.update k e (memory_cleanup t entries)) = live t (Some (re_count e, re_expires_at e))"
      by (simp add: memory_view_def update_conv')
    then show ?thesis by (simp add: True hit e)
  next
    case False
    then show ?thesis
      by (auto simp: hit memory_view_def update_conv' memory_view_cleanup [OF dist] live_def split: option.splits)
  qed
qed

interpretation memory_store: rate_store rate_store_ok memory_view memory_hit
proof
  show "rate_store_ok s \<Longrightarrow> rate_store_ok (snd (memory_hit t k l d s))" for s t k l d
    by (rule rate_store_ok_hit)
  show "t \<le> t' \<Longrightarrow> memory_view t' k s = live t' (memory_view t k s)" for t t' k s
    by (simp add: memory_view_def live_later)
  show "rate_store_ok s \<Longrightarrow> memory_view t k' (snd (memory_hit t k l d s)) =
      (if k' = k then live t (Some (count_hit t d (memory_view t k s))) else memory_view t k' s)" for s t k k' l d
    by (rule memory_view_hit)
  show "rate_store_ok s \<Longrightarrow> fst (fst (memory_hit t k l d s)) \<longleftrightarrow> fst (count_hit t d (memory_view t k s)) \<le> l" for s t k l d
    using memory_hit_entry [of s t k l d] by (auto simp: rate_store_ok_def) (metis fst_conv)+
qed

section \<open>How much a counter lets through\<close>

definition passed :: "instant \<Rightarrow> instant \<Rightarrow> (instant \<times> bool) list \<Rightarrow> nat" where
  "passed a b run = length [x \<leftarrow> run. a \<le> fst x \<and> fst x < b \<and> snd x]"

lemma passed_Nil [simp]: "passed a b [] = 0"
  by (simp add: passed_def)

lemma passed_Cons [simp]:
  "passed a b ((t, p) # run) = (if a \<le> t \<and> t < b \<and> p then Suc (passed a b run) else passed a b run)"
  by (simp add: passed_def)

text \<open>A window that is open until after the interval admits only what is left of the limit.\<close>

lemma passed_open_window:
  assumes "0 \<le> c" and "b \<le> x" and "sorted ts"
  shows "passed a b (counter_run l d ts (Some (c, x))) \<le> nat (l - c)"
  using assms
proof (induction ts arbitrary: c)
  case Nil
  then show ?case by simp
next
  case (Cons t ts)
  show ?case
  proof (cases "t < x")
    case True
    have "passed a b (counter_run l d ts (Some (c + 1, x))) \<le> nat (l - (c + 1))"
      using Cons.prems by (intro Cons.IH) auto
    with True show ?thesis by (auto simp: live_def count_hit_def Let_def)
  next
    case False
    have "passed a b (counter_run l d ts' v) = 0" if "\<forall>t' \<in> set ts'. b \<le> t'" for ts' v
      using that by (induction ts' arbitrary: v) (auto simp: Let_def)
    moreover have "\<forall>t' \<in> set ts. b \<le> t'"
      using Cons.prems False by auto
    ultimately show ?thesis
      using Cons.prems False by (auto simp: Let_def)
  qed
qed

text \<open>So two windows at most share an interval that is no longer than one of them.\<close>

lemma passed_two_windows:
  assumes "0 \<le> l" and "case v of None \<Rightarrow> True | Some (c, x) \<Rightarrow> 0 \<le> c" and "sorted ts"
    and "\<forall>t \<in> set ts. a \<le> t" and "b \<le> a + d * second_us"
  shows "passed a b (counter_run l d ts v) \<le>
    nat l + (case v of None \<Rightarrow> 0 | Some (c, x) \<Rightarrow> nat (l - c))"
  using assms
proof (induction ts arbitrary: v)
  case Nil
  then show ?case by simp
next
  case (Cons t ts)
  show ?case
  proof (cases "live t v")
    case None
    have "b \<le> t + d * second_us" using Cons.prems by simp
    then have "passed a b (counter_run l d ts (Some (1, t + d * second_us))) \<le> nat (l - 1)"
      using Cons.prems by (intro passed_open_window) auto
    with None show ?thesis by (auto simp: count_hit_def Let_def split: option.splits)
  next
    case (Some e)
    then obtain c x where v: "v = Some (c, x)" "t < x"
      by (auto simp: live_def split: option.splits if_splits)
    have "passed a b (counter_run l d ts (Some (c + 1, x))) \<le> nat l + nat (l - (c + 1))"
      using Cons.IH [of "Some (c + 1, x)"] Cons.prems by (simp add: v)
    with v show ?thesis by (auto simp: live_def count_hit_def Let_def)
  qed
qed

lemma passed_bound:
  assumes "0 \<le> l" and "case v of None \<Rightarrow> True | Some (c, x) \<Rightarrow> 0 \<le> c" and "sorted ts"
    and "b \<le> a + d * second_us"
  shows "passed a b (counter_run l d ts v) \<le> 2 * nat l"
  using assms
proof (induction ts arbitrary: v)
  case Nil
  then show ?case by simp
next
  case (Cons t ts)
  show ?case
  proof (cases "t < a")
    case True
    have "case Some (count_hit t d (live t v)) of None \<Rightarrow> True | Some (c, x) \<Rightarrow> 0 \<le> c"
      using Cons.prems(2) by (auto simp: count_hit_def live_def split: option.splits)
    then have "passed a b (counter_run l d ts (Some (count_hit t d (live t v)))) \<le> 2 * nat l"
      using Cons.prems by (intro Cons.IH) auto
    with True show ?thesis by (simp add: Let_def)
  next
    case False
    then have "passed a b (counter_run l d (t # ts) v) \<le>
        nat l + (case v of None \<Rightarrow> 0 | Some (c, x) \<Rightarrow> nat (l - c))"
      using Cons.prems by (intro passed_two_windows) auto
    also have "\<dots> \<le> 2 * nat l" using Cons.prems(2) by (auto split: option.splits)
    finally show ?thesis .
  qed
qed


section \<open>Requests against the limiter\<close>

text \<open>
  Requests arrive at an instant, under a policy and with a key; \<^verbatim>\<open>None\<close> stands for a
  request whose policy does not exist.
\<close>

fun check_run ::
  "env \<Rightarrow> (instant \<times> string \<times> string) list \<Rightarrow> world \<Rightarrow> (instant \<times> (string \<times> string) \<times> bool option) list" where
  "check_run ev [] w = []"
| "check_run ev ((t, policy_name, key) # requests) w =
     (case get_rate_limit_policy ev policy_name of
        Inl e \<Rightarrow> (t, (policy_name, key), None) # check_run ev requests w
      | Inr policy \<Rightarrow>
         (let (decision, w') = check (ev\<lparr>now := t\<rparr>) policy key w in
          (t, (policy_name, key), Some (rld_allowed decision)) # check_run ev requests w'))"

text \<open>The same requests as hits on the in-process store.\<close>

fun request_hits :: "env \<Rightarrow> (instant \<times> string \<times> string) list \<Rightarrow> (instant \<times> string \<times> int \<times> int) list" where
  "request_hits ev [] = []"
| "request_hits ev ((t, policy_name, key) # requests) =
     (case get_rate_limit_policy ev policy_name of
        Inl e \<Rightarrow> request_hits ev requests
      | Inr policy \<Rightarrow>
          (t, storage_key ev policy key, rlp_limit policy, rlp_window_seconds policy) # request_hits ev requests)"

text \<open>How many requests of a key passed under a policy in the interval from \<^verbatim>\<open>a\<close> to \<^verbatim>\<open>b\<close>.\<close>

definition let_through ::
  "instant \<Rightarrow> instant \<Rightarrow> string \<Rightarrow> string \<Rightarrow> (instant \<times> (string \<times> string) \<times> bool option) list \<Rightarrow> nat" where
  "let_through a b policy_name key run =
     length [(t, who, answer) \<leftarrow> run. who = (policy_name, key) \<and> answer = Some True \<and> a \<le> t \<and> t < b]"

lemma storage_key_now [simp]: "storage_key (ev\<lparr>now := t\<rparr>) = storage_key ev"
  by (simp add: storage_key_def key_fingerprint_def fun_eq_iff)

lemma get_rate_limit_policy_name: "get_rate_limit_policy ev n = Inr p \<Longrightarrow> rlp_name p = n"
  by (auto simp: get_rate_limit_policy_def split: option.splits)

lemma policy_limit_field:
  "get_rate_limit_policy ev n = Inr p \<Longrightarrow> rlp_limit p \<in> set (rate_limit_fields (config ev))"
  by (auto simp: get_rate_limit_policy_def policy_map_def rate_limit_fields_def split: option.splits if_splits)

lemma policy_names_no_colon: "get_rate_limit_policy ev n = Inr p \<Longrightarrow> CHR '':'' \<notin> set n"
  by (auto simp: get_rate_limit_policy_def policy_map_def split: option.splits if_splits)

lemma storage_key_policy:
  assumes "get_rate_limit_policy ev n = Inr p" and "get_rate_limit_policy ev n' = Inr p'"
    and "storage_key ev p' key' = storage_key ev p key"
  shows "p' = p"
proof -
  have "n' @ CHR '':'' # key_fingerprint ev p' key' = n @ CHR '':'' # key_fingerprint ev p key"
    using assms(3) get_rate_limit_policy_name [OF assms(1)] get_rate_limit_policy_name [OF assms(2)]
    by (simp add: storage_key_def)
  from arg_cong [OF this, of "takeWhile (\<lambda>c. c \<noteq> CHR '':'')"] have "n' = n"
    using policy_names_no_colon [OF assms(1)] policy_names_no_colon [OF assms(2)]
    by (simp add: takeWhile_until)
  with assms(1,2) show ?thesis by simp
qed

lemma let_through_store:
  assumes "cfg_enable_rate_limiting (config ev)" "\<not> cfg_rate_limit_use_redis (config ev)"
    and "get_rate_limit_policy ev n = Inr p"
  shows "let_through a b n key (check_run ev requests w) \<le>
    passed a b (key_trace (storage_key ev p key) (store_run memory_hit (request_hits ev requests) (rate_entries w)))"
proof (induction requests arbitrary: w)
  case Nil
  then show ?case by (simp add: let_through_def)
next
  case (Cons x requests)
  obtain t n' key' where x: "x = (t, n', key')" by (metis prod_cases3)
  show ?case
  proof (cases "get_rate_limit_policy ev n'")
    case (Inl e)
    with Cons show ?thesis by (simp add: x let_through_def)
  next
    case (Inr p')
    obtain ok retry remaining entries where hit:
      "memory_hit t (storage_key ev p' key') (rlp_limit p') (rlp_window_seconds p') (rate_entries w) =
         ((ok, retry, remaining), entries)"
      by (metis prod_cases3 surj_pair)
    have fp: "key_fingerprint (ev\<lparr>now := t\<rparr>) = key_fingerprint ev"
      by (simp add: key_fingerprint_def fun_eq_iff)
    obtain w' where chk: "check (ev\<lparr>now := t\<rparr>) p' key' w = (fst (check (ev\<lparr>now := t\<rparr>) p' key' w), w')"
      and ok: "rld_allowed (fst (check (ev\<lparr>now := t\<rparr>) p' key' w)) = ok" and w': "rate_entries w' = entries"
      using assms(1,2)
      by (auto simp: check_def check_memory_def decided_def hit increment_counter_def)
    from Inr have run: "check_run ev (x # requests) w = (t, (n', key'), Some ok) # check_run ev requests w'"
      using chk ok by (auto simp: x split: prod.splits)
    have hits: "store_run memory_hit (request_hits ev (x # requests)) (rate_entries w) =
        (t, storage_key ev p' key', ok) # store_run memory_hit (request_hits ev requests) entries"
      using Inr by (simp add: x hit)
    show ?thesis
      using Cons.IH [of w'] assms(3) Inr unfolding run hits w'
      by (auto simp: let_through_def)
  qed
qed


lemma request_hits_fst: "x \<in> set (request_hits ev requests) \<Longrightarrow> fst x \<in> fst ` set requests"
  by (induction ev requests rule: request_hits.induct) (auto split: sum.splits)

lemma sorted_request_hits: "sorted (map fst requests) \<Longrightarrow> sorted (map fst (request_hits ev requests))"
  by (induction ev requests rule: request_hits.induct) (auto split: sum.splits dest!: request_hits_fst)

lemma request_hits_policy:
  assumes "get_rate_limit_policy ev n = Inr p"
    and "(t, storage_key ev p key, l, d) \<in> set (request_hits ev requests)"
  shows "l = rlp_limit p \<and> d = rlp_window_seconds p"
  using assms(2)
proof (induction requests)
  case (Cons x requests)
  obtain t' n' k where x: "x = (t', n', k)" by (metis prod_cases3)
  show ?case
  proof (cases "get_rate_limit_policy ev n'")
    case (Inr p')
    then have "p' = p" if "storage_key ev p key = storage_key ev p' k"
      using storage_key_policy [OF assms(1) Inr] that by metis
    with Cons Inr show ?thesis by (auto simp: x)
  qed (use Cons in \<open>simp add: x\<close>)
qed simp

lemma memory_store_counter:
  assumes "get_rate_limit_policy ev n = Inr p" and "rate_store_ok entries" and "sorted (map fst requests)"
    and "\<forall>x \<in> set requests. t0 \<le> fst x"
  shows "key_trace (storage_key ev p key) (store_run memory_hit (request_hits ev requests) entries) =
    counter_run (rlp_limit p) (rlp_window_seconds p) (key_times (storage_key ev p key) (request_hits ev requests))
      (memory_view t0 (storage_key ev p key) entries)"
proof (rule memory_store.store_run_counter)
  show "\<forall>x \<in> set (request_hits ev requests). t0 \<le> fst x"
    using assms(4) request_hits_fst by fastforce
  show "\<forall>(t, k', l', d') \<in> set (request_hits ev requests).
      k' = storage_key ev p key \<longrightarrow> l' = rlp_limit p \<and> d' = rlp_window_seconds p"
    using request_hits_policy [OF assms(1)] by blast
qed (simp_all add: assms sorted_request_hits)

text \<open>What the requests of one key were told, and when they came.\<close>

fun answers_of :: "string \<times> string \<Rightarrow> (instant \<times> (string \<times> string) \<times> bool option) list \<Rightarrow> (instant \<times> bool) list" where
  "answers_of who [] = []"
| "answers_of who ((t, who', answer) # run) =
     (if who' = who \<and> answer \<noteq> None then (t, answer = Some True) # answers_of who run else answers_of who run)"

definition arrivals_of :: "string \<times> string \<Rightarrow> (instant \<times> string \<times> string) list \<Rightarrow> instant list" where
  "arrivals_of who requests = map fst [x \<leftarrow> requests. snd x = who]"

text \<open>The digest tells the keys of a policy apart.\<close>

definition digest_separates :: "env \<Rightarrow> string \<Rightarrow> string \<Rightarrow> (instant \<times> string \<times> string) list \<Rightarrow> bool" where
  "digest_separates ev policy_name key requests \<longleftrightarrow>
     (\<forall>(t, n, k) \<in> set requests. n = policy_name \<and> k \<noteq> key \<longrightarrow>
        sha256_hex ev (n @ '':'' @ k) \<noteq> sha256_hex ev (policy_name @ '':'' @ key))"

lemma storage_key_separates:
  assumes "get_rate_limit_policy ev n = Inr p" and "get_rate_limit_policy ev n' = Inr p'"
    and "n' = n \<and> k \<noteq> key \<longrightarrow> sha256_hex ev (n' @ '':'' @ k) \<noteq> sha256_hex ev (n @ '':'' @ key)"
  shows "storage_key ev p' k = storage_key ev p key \<longleftrightarrow> (n', k) = (n, key)"
proof
  assume eq: "storage_key ev p' k = storage_key ev p key"
  then have p: "p' = p" using storage_key_policy [OF assms(1,2)] by blast
  then have "n' = n" using assms(1,2) get_rate_limit_policy_name by metis
  moreover have "sha256_hex ev (n @ '':'' @ k) = sha256_hex ev (n @ '':'' @ key)"
    using eq p get_rate_limit_policy_name [OF assms(1)]
    by (simp add: storage_key_def key_fingerprint_def)
  ultimately show "(n', k) = (n, key)" using assms(3) by auto
next
  assume "(n', k) = (n, key)"
  with assms(1,2) show "storage_key ev p' k = storage_key ev p key" by simp
qed

lemma arrivals_key_times:
  assumes "get_rate_limit_policy ev n = Inr p" and "digest_separates ev n key requests"
  shows "key_times (storage_key ev p key) (request_hits ev requests) = arrivals_of (n, key) requests"
  using assms(2)
proof (induction requests)
  case Nil
  then show ?case by (simp add: arrivals_of_def)
next
  case (Cons x requests)
  obtain t n' k where x: "x = (t, n', k)" by (metis prod_cases3)
  have IH: "key_times (storage_key ev p key) (request_hits ev requests) = arrivals_of (n, key) requests"
    using Cons by (simp add: digest_separates_def)
  show ?case
  proof (cases "get_rate_limit_policy ev n'")
    case (Inl e)
    with assms(1) have "n' \<noteq> n" by auto
    with Inl IH show ?thesis by (simp add: x arrivals_of_def)
  next
    case (Inr p')
    have "storage_key ev p' k = storage_key ev p key \<longleftrightarrow> (n', k) = (n, key)"
      using Cons.prems by (intro storage_key_separates [OF assms(1) Inr]) (auto simp: x digest_separates_def)
    with Inr IH show ?thesis by (simp add: x arrivals_of_def)
  qed
qed

lemma check_memory_step:
  assumes "cfg_enable_rate_limiting (config ev)" "\<not> cfg_rate_limit_use_redis (config ev)"
  shows "rld_allowed (fst (check (ev\<lparr>now := t\<rparr>) p key w)) =
      fst (fst (memory_hit t (storage_key ev p key) (rlp_limit p) (rlp_window_seconds p) (rate_entries w)))"
    and "rate_entries (snd (check (ev\<lparr>now := t\<rparr>) p key w)) =
      snd (memory_hit t (storage_key ev p key) (rlp_limit p) (rlp_window_seconds p) (rate_entries w))"
  using assms
  by (simp_all add: check_def check_memory_def decided_def increment_counter_def Let_def split: prod.split)

lemma check_run_Inr:
  "get_rate_limit_policy ev n = Inr p \<Longrightarrow> check_run ev ((t, n, key) # requests) w =
     (t, (n, key), Some (rld_allowed (fst (check (ev\<lparr>now := t\<rparr>) p key w)))) #
       check_run ev requests (snd (check (ev\<lparr>now := t\<rparr>) p key w))"
  by (simp split: prod.split)

lemma store_run_Cons:
  "store_run hit ((t, k, l, d) # hits) s = (t, k, fst (fst (hit t k l d s))) # store_run hit hits (snd (hit t k l d s))"
  by (simp split: prod.split)

lemma answers_key_trace:
  assumes "cfg_enable_rate_limiting (config ev)" "\<not> cfg_rate_limit_use_redis (config ev)"
    and "get_rate_limit_policy ev n = Inr p" and "digest_separates ev n key requests"
  shows "answers_of (n, key) (check_run ev requests w) =
    key_trace (storage_key ev p key) (store_run memory_hit (request_hits ev requests) (rate_entries w))"
  using assms(4)
proof (induction requests arbitrary: w)
  case Nil
  then show ?case by simp
next
  case (Cons x requests)
  obtain t n' k where x: "x = (t, n', k)" by (metis prod_cases3)
  have IH: "answers_of (n, key) (check_run ev requests w') =
      key_trace (storage_key ev p key) (store_run memory_hit (request_hits ev requests) (rate_entries w'))" for w'
    using Cons by (simp add: digest_separates_def)
  show ?case
  proof (cases "get_rate_limit_policy ev n'")
    case (Inl e)
    with IH show ?thesis by (simp add: x)
  next
    case (Inr p')
    have "storage_key ev p' k = storage_key ev p key \<longleftrightarrow> (n', k) = (n, key)"
      using Cons.prems by (intro storage_key_separates [OF assms(3) Inr]) (auto simp: x digest_separates_def)
    with IH [of "snd (check (ev\<lparr>now := t\<rparr>) p' k w)"] show ?thesis
      unfolding x check_run_Inr [OF Inr]
      by (auto simp: Inr check_memory_step [OF assms(1,2)] store_run_Cons simp del: store_run.simps)
  qed
qed

section \<open>Properties\<close>

text \<open>
  C19. Fixed windows bound what gets through.  With validated settings and the in-process store,
  whatever other requests are interleaved, at most twice a policy's limit of requests with one
  key is allowed in any interval as long as the policy's window.
\<close>

theorem rate_limit_bounds_window:
  assumes "validate_runtime_safety (config ev) = Inr ()"
    and "cfg_enable_rate_limiting (config ev)" "\<not> cfg_rate_limit_use_redis (config ev)"
    and "get_rate_limit_policy ev n = Inr p" and "rate_store_ok (rate_entries w)"
    and "sorted (map fst requests)"
  shows "let_through a (a + rlp_window_seconds p * second_us) n key (check_run ev requests w) \<le> 2 * nat (rlp_limit p)"
proof -
  have "0 < rlp_limit p"
    using valid_limits_positive [OF assms(1) policy_limit_field [OF assms(4)]] .
  obtain t0 where t0: "\<forall>x \<in> set requests. t0 \<le> fst x"
    using assms(6) by (cases requests) auto
  have "case memory_view t0 k (rate_entries w) of None \<Rightarrow> True | Some (c, x) \<Rightarrow> 0 \<le> c" for k
    using assms(5) by (auto simp: memory_view_def live_def rate_store_ok_def dest!: map_of_SomeD split: option.splits)
  then have "passed a (a + rlp_window_seconds p * second_us)
      (key_trace (storage_key ev p key) (store_run memory_hit (request_hits ev requests) (rate_entries w)))
      \<le> 2 * nat (rlp_limit p)"
    unfolding memory_store_counter [OF assms(4,5,6) t0, of key] using \<open>0 < rlp_limit p\<close>
    by (intro passed_bound sorted_key_times sorted_request_hits assms(6)) simp_all
  then show ?thesis
    by (rule order_trans [OF let_through_store [OF assms(2-4)]])
qed

text \<open>
  C17. With the in-process store, the check refines a counter per policy and key: with the limiter
  enabled and Redis not in use, and as long as the digest tells the keys apart, the answers that the
  requests of one key get are those of a single fixed-window counter fed with that key's arrivals
  only, whatever the other keys and policies do.  The policy is a known one, requests arrive in order
  of time, and the store holds each key once.
\<close>

theorem rate_limiter_refines_counter:
  assumes "cfg_enable_rate_limiting (config ev)" "\<not> cfg_rate_limit_use_redis (config ev)"
    and "get_rate_limit_policy ev n = Inr p" and "rate_store_ok (rate_entries w)"
    and "sorted (map fst requests)" and "\<forall>x \<in> set requests. t0 \<le> fst x"
    and "digest_separates ev n key requests"
  shows "answers_of (n, key) (check_run ev requests w) =
    counter_run (rlp_limit p) (rlp_window_seconds p) (arrivals_of (n, key) requests)
      (memory_view t0 (storage_key ev p key) (rate_entries w))"
  by (simp only: answers_key_trace [OF assms(1-3,7)] memory_store_counter [OF assms(3-6)]
      arrivals_key_times [OF assms(3,7)])


text \<open>Two bookings with the same contact inside 20 seconds: the second is refused.\<close>

definition duplicate_policy :: rate_limit_policy where
  "duplicate_policy = \<lparr>rlp_name = ''public_booking_duplicate'', rlp_limit = 1, rlp_window_seconds = 20\<rparr>"

definition duplicate_requests :: "(instant \<times> string \<times> string) list" where
  "duplicate_requests =
     [(0, ''public_booking_duplicate'', ''a''), (5 * second_us, ''public_slots'', ''a''),
      (10 * second_us, ''public_booking_duplicate'', ''a''), (25 * second_us, ''public_booking_duplicate'', ''a'')]"

lemma duplicate_policy_sample:
  "get_rate_limit_policy sample_env ''public_booking_duplicate'' = Inr duplicate_policy"
  by code_simp

lemma sample_settings:
  "validate_runtime_safety (config sample_env) = Inr ()" "cfg_enable_rate_limiting (config sample_env)"
  "\<not> cfg_rate_limit_use_redis (config sample_env)"
  by code_simp+

lemma duplicate_requests_facts:
  "rate_store_ok (rate_entries sample_world)" "sorted (map fst duplicate_requests)"
  "\<forall>x \<in> set duplicate_requests. 0 \<le> fst x"
  "digest_separates sample_env ''public_booking_duplicate'' ''a'' duplicate_requests"
  by code_simp+

theorem rate_limit_bounds_window_witness:
  "let_through 0 (20 * second_us) ''public_booking_duplicate'' ''a''
     (check_run sample_env duplicate_requests sample_world) \<le> 2"
  using rate_limit_bounds_window [OF sample_settings duplicate_policy_sample duplicate_requests_facts(1,2), of 0 "''a''"]
  by (simp add: duplicate_policy_def)

theorem rate_limiter_refines_counter_witness:
  "answers_of (''public_booking_duplicate'', ''a'') (check_run sample_env duplicate_requests sample_world) =
     [(0, True), (10 * second_us, False), (25 * second_us, True)]"
proof -
  have "counter_run 1 20 (arrivals_of (''public_booking_duplicate'', ''a'') duplicate_requests)
      (memory_view 0 (storage_key sample_env duplicate_policy ''a'') (rate_entries sample_world)) =
    [(0, True), (10 * second_us, False), (25 * second_us, True)]"
    by code_simp
  then show ?thesis
    using rate_limiter_refines_counter [OF sample_settings(2,3) duplicate_policy_sample duplicate_requests_facts(1-4)]
    by (simp add: duplicate_policy_def)
qed

end
