(* ===== verification/Idempotency.thy ===== *)
theory Idempotency
  imports Rate_Limiter "HOL-Library.List_Lexorder" "HOL-Library.Char_ord"
begin

text \<open>
  \<^verbatim>\<open>services/idempotency_service.py\<close> and the way the endpoints use it.  A request that
  carries a key first claims a row for its scope and key; a second request with the key is
  answered from the row, or refused when the payload differs or the first one has not
  finished.  \<^verbatim>\<open>race\<close> is what other sessions commit between the look-up and the insert
  of the row.  The shape that the four endpoints share is \<^verbatim>\<open>idempotent_request\<close>; what
  they need of their handlers is the interface \<^verbatim>\<open>keyed_handler\<close>.
\<close>

section \<open>json.dumps with sorted keys and compact separators\<close>

definition hex_digit :: "nat \<Rightarrow> char" where
  "hex_digit n = ''0123456789abcdef'' ! (n mod 16)"

definition escape_char :: "char \<Rightarrow> string" where
  "escape_char c =
     (if c = CHR 0x22 then [CHR 0x5C, CHR 0x22]
      else if c = CHR 0x5C then [CHR 0x5C, CHR 0x5C]
      else if code c = 10 then CHR 0x5C # ''n''
      else if code c = 13 then CHR 0x5C # ''r''
      else if code c = 9 then CHR 0x5C # ''t''
      else if code c = 8 then CHR 0x5C # ''b''
      else if code c = 12 then CHR 0x5C # ''f''
      else if code c < 32 \<or> 126 < code c
      then CHR 0x5C # ''u00'' @ [hex_digit (code c div 16), hex_digit (code c)]
      else [c])"

definition json_string :: "string \<Rightarrow> string" where
  "json_string s = [CHR 0x22] @ concat (map escape_char s) @ [CHR 0x22]"

fun json_dumps :: "json \<Rightarrow> string" where
  "json_dumps JNull = ''null''"
| "json_dumps (JBool b) = (if b then ''true'' else ''false'')"
| "json_dumps (JInt i) = int_str i"
| "json_dumps (JStr s) = json_string s"
| "json_dumps (JList items) = ''['' @ join '','' (map json_dumps items) @ '']''"
| "json_dumps (JObj kvs) =
     ''{'' @ join '','' (map (\<lambda>(k, text). json_string k @ '':'' @ text)
       (sort_key fst (map (\<lambda>(k, v). (k, json_dumps v)) kvs))) @ ''}''"

lemma json_dumps_example:
  "json_dumps (JObj [(''status'', JStr ''paid''), (''amount'', JInt (- 5)), (''tags'', JList [JNull, JBool True])]) =
     ''{'' @ json_string ''amount'' @ '':-5,'' @ json_string ''status'' @ '':'' @ json_string ''paid'' @ '',''
       @ json_string ''tags'' @ '':[null,true]}''"
  by code_simp

section \<open>The service\<close>

definition MAX_IDEMPOTENCY_KEY_LENGTH :: nat where
  "MAX_IDEMPOTENCY_KEY_LENGTH = 255"

record http_response =
  hr_status_code :: int
  hr_body :: json
  hr_replayed :: bool

datatype start_result = Proceed "idempotency_key option" | Replay http_response

definition normalize_key :: "string option \<Rightarrow> string option result" where
  "normalize_key value =
     (case value of
        None \<Rightarrow> Inr None
      | Some v \<Rightarrow>
         (let normalized = strip v in
          if normalized = [] then Inr None
          else if MAX_IDEMPOTENCY_KEY_LENGTH < length normalized
          then Inl (IdempotencyValidationError ''Idempotency key is too long.'')
          else Inr (Some normalized)))"

definition hash_payload :: "env \<Rightarrow> json \<Rightarrow> string" where
  "hash_payload ev payload = sha256_hex ev (json_dumps payload)"

definition resolve_existing ::
  "env \<Rightarrow> idempotency_key \<Rightarrow> string \<Rightarrow> world \<Rightarrow> (exn + start_result) \<times> world" where
  "resolve_existing ev existing request_hash w =
     (if idk_request_hash existing \<noteq> request_hash then
        (Inl (IdempotencyConflictError ''Idempotency key was already used with a different request.''), w)
      else case (idk_response_status_code existing, idk_response_body_json existing) of
        (Some status_code, Some body) \<Rightarrow>
          (Inr (Replay \<lparr>hr_status_code = status_code, hr_body = body, hr_replayed = True\<rparr>),
           record_event ev
             ((event_defaults ''idempotency_replayed'')
                \<lparr>ev_entity_type := Some (str_or (idk_resource_type existing) ''idempotency_key''),
                 ev_entity_id := Some (case idk_resource_id existing of
                                         None \<Rightarrow> idk_id existing | Some i \<Rightarrow> if i = 0 then idk_id existing else i),
                 ev_payload_json := JObj
                   [(''scope'', JStr (idk_scope existing)),
                    (''idempotency_key'', JStr (idk_idempotency_key existing)),
                    (''resource_type'', case idk_resource_type existing of None \<Rightarrow> JNull | Some t \<Rightarrow> JStr t),
                    (''resource_id'', case idk_resource_id existing of None \<Rightarrow> JNull | Some i \<Rightarrow> JInt i)]\<rparr>)
             (increment_counter ''idempotency_replays_total'' w))
      | _ \<Rightarrow> (Inl (IdempotencyConflictError ''Idempotency key is already being processed.''), w))"

definition claim :: "string \<Rightarrow> string \<Rightarrow> string \<Rightarrow> idempotency_key" where
  "claim key scope request_hash =
     \<lparr>idk_id = 0, idk_idempotency_key = key, idk_scope = scope, idk_request_hash = request_hash,
      idk_response_status_code = None, idk_response_body_json = None,
      idk_resource_type = None, idk_resource_id = None, idk_created_at = 0\<rparr>"

definition start_request ::
  "env \<Rightarrow> (world \<Rightarrow> world) \<Rightarrow> string option \<Rightarrow> string \<Rightarrow> json \<Rightarrow> world \<Rightarrow> (exn + start_result) \<times> world" where
  "start_request ev race idempotency_key scope request_payload w =
     (case normalize_key idempotency_key of
        Inl e \<Rightarrow> (Inl e, w)
      | Inr None \<Rightarrow> (Inr (Proceed None), w)
      | Inr (Some normalized_key) \<Rightarrow>
         (let request_hash = hash_payload ev request_payload in
          case idempotency_get_by_scope_and_key scope normalized_key w of
            Some existing \<Rightarrow> resolve_existing ev existing request_hash w
          | None \<Rightarrow>
             (let w1 = race w in
              case idempotency_create ev (claim normalized_key scope request_hash) w1 of
                Inr (record, w2) \<Rightarrow> (Inr (Proceed (Some record)), w2)
              | Inl e \<Rightarrow>
                  (case idempotency_get_by_scope_and_key scope normalized_key w1 of
                     None \<Rightarrow> (Inl e, w1)
                   | Some raced \<Rightarrow> resolve_existing ev raced request_hash w1))))"

definition finalize_success ::
  "idempotency_key option \<Rightarrow> int \<Rightarrow> json \<Rightarrow> string option \<Rightarrow> int option \<Rightarrow> world \<Rightarrow> world result" where
  "finalize_success record status_code response_body resource_type resource_id w =
     (case record of
        None \<Rightarrow> Inr w
      | Some r \<Rightarrow>
          idempotency_update
            (r\<lparr>idk_response_status_code := Some status_code, idk_response_body_json := Some response_body,
               idk_resource_type := resource_type, idk_resource_id := resource_id\<rparr>) w)"

definition abort :: "idempotency_key option \<Rightarrow> world \<Rightarrow> world" where
  "abort record w = (case record of None \<Rightarrow> w | Some r \<Rightarrow> idempotency_delete r w)"

section \<open>The endpoints' protocol\<close>

text \<open>What a handler hands to \<^verbatim>\<open>finalize_success\<close>, and to the client.\<close>

record handled =
  hd_status_code :: int
  hd_body :: json
  hd_resource_type :: string
  hd_resource_id :: int

definition idempotent_request ::
  "env \<Rightarrow> (world \<Rightarrow> world) \<Rightarrow> string option \<Rightarrow> string \<Rightarrow> json
    \<Rightarrow> (world \<Rightarrow> (exn + unit) \<times> world) \<Rightarrow> (world \<Rightarrow> ((exn + handled) \<times> world) option)
    \<Rightarrow> world \<Rightarrow> ((exn + http_response) \<times> world) option" where
  "idempotent_request ev race idempotency_key scope payload limits handler w =
     (case start_request ev race idempotency_key scope payload w of
        (Inl (IdempotencyValidationError m), w1) \<Rightarrow> Some (Inl (HTTPException 400 m), w1)
      | (Inl (IdempotencyConflictError m), w1) \<Rightarrow> Some (Inl (HTTPException 409 m), w1)
      | (Inl e, w1) \<Rightarrow> Some (Inl e, w1)
      | (Inr (Replay response), w1) \<Rightarrow> Some (Inr response, w1)
      | (Inr (Proceed record), w1) \<Rightarrow>
          (case limits w1 of
             (Inl e, w2) \<Rightarrow> Some (Inl e, w2)
           | (Inr _, w2) \<Rightarrow>
               (case handler w2 of
                  None \<Rightarrow> None
                | Some (Inl e, w3) \<Rightarrow> Some (Inl e, abort record w3)
                | Some (Inr h, w3) \<Rightarrow>
                    (case finalize_success record (hd_status_code h) (hd_body h)
                            (Some (hd_resource_type h)) (Some (hd_resource_id h)) w3 of
                       Inl e \<Rightarrow> Some (Inl e, abort record w3)
                     | Inr w4 \<Rightarrow> Some (Inr \<lparr>hr_status_code = hd_status_code h, hr_body = hd_body h,
                                              hr_replayed = False\<rparr>, w4)))))"

section \<open>The table of keys\<close>

definition keys_ok :: "world \<Rightarrow> bool" where
  "keys_ok w \<longleftrightarrow> tbl_ok idk_id (idempotency_keys w) \<and>
     distinct (map (\<lambda>k. (idk_scope k, idk_idempotency_key k)) (idempotency_keys w))"

text \<open>The row of a scope and key, and whether it holds an answer.\<close>

definition answered :: "idempotency_key \<Rightarrow> http_response option" where
  "answered row =
     (case (idk_response_status_code row, idk_response_body_json row) of
        (Some status_code, Some body) \<Rightarrow>
          Some \<lparr>hr_status_code = status_code, hr_body = body, hr_replayed = True\<rparr>
      | _ \<Rightarrow> None)"

lemma answered_replayed: "answered row = Some response \<Longrightarrow> response\<lparr>hr_replayed := True\<rparr> = response"
  by (auto simp: answered_def split: option.splits)

lemma get_scope_key_Some:
  "idempotency_get_by_scope_and_key scope k w = Some row \<Longrightarrow>
     row \<in> set (idempotency_keys w) \<and> idk_scope row = scope \<and> idk_idempotency_key row = k"
  by (auto simp: idempotency_get_by_scope_and_key_def find_Some_iff)

lemma get_scope_key_None:
  "idempotency_get_by_scope_and_key scope k w = None \<longleftrightarrow>
     (\<forall>x \<in> set (idempotency_keys w). \<not> (idk_scope x = scope \<and> idk_idempotency_key x = k))"
  by (auto simp: idempotency_get_by_scope_and_key_def find_None_iff)

lemma get_scope_key_cong:
  "idempotency_keys w' = idempotency_keys w \<Longrightarrow>
     idempotency_get_by_scope_and_key scope k w' = idempotency_get_by_scope_and_key scope k w"
  by (simp add: idempotency_get_by_scope_and_key_def)

lemma find_append: "find P (xs @ ys) = (case find P xs of None \<Rightarrow> find P ys | Some x \<Rightarrow> Some x)"
  by (induction xs) auto

lemma keys_ok_unique:
  "keys_ok w \<Longrightarrow> x \<in> set (idempotency_keys w) \<Longrightarrow> y \<in> set (idempotency_keys w) \<Longrightarrow>
     idk_scope x = idk_scope y \<Longrightarrow> idk_idempotency_key x = idk_idempotency_key y \<Longrightarrow> x = y"
  by (auto simp: keys_ok_def distinct_map inj_on_def)

lemma keys_ok_cong: "idempotency_keys w' = idempotency_keys w \<Longrightarrow> keys_ok w' = keys_ok w"
  by (simp add: keys_ok_def)

lemma idempotency_create_effect:
  assumes "idempotency_create ev (claim k scope h) w = Inr (r, w')" and "keys_ok w"
  shows "w' = w\<lparr>idempotency_keys := idempotency_keys w @ [r]\<rparr>"
    and "idk_scope r = scope" "idk_idempotency_key r = k" "idk_request_hash r = h" "answered r = None"
    and "idempotency_get_by_scope_and_key scope k w = None" and "keys_ok w'"
proof -
  obtain t where ins: "db_insert (\<lambda>i r. r\<lparr>idk_id := i, idk_created_at := now ev\<rparr>) idk_id idempotency_key_violates
      (idempotency_keys w) (claim k scope h) = Inr (r, t)" and w': "w' = w\<lparr>idempotency_keys := t\<rparr>"
    using assms(1) by (auto simp: idempotency_create_def split: sum.splits)
  have t: "t = idempotency_keys w @ [r]" and fresh: "idk_id r \<notin> idk_id ` set (idempotency_keys w)"
    using db_insert_rows [OF ins] by auto
  note row = db_insert_row [OF ins]
  show "w' = w\<lparr>idempotency_keys := idempotency_keys w @ [r]\<rparr>" by (simp add: w' t)
  show sk: "idk_scope r = scope" "idk_idempotency_key r = k" "idk_request_hash r = h" "answered r = None"
    using row by (simp_all add: claim_def answered_def)
  show none: "idempotency_get_by_scope_and_key scope k w = None"
    using row sk by (auto simp: get_scope_key_None idempotency_key_violates_def split: if_splits)
  then show "keys_ok w'"
    using assms(2) fresh sk by (auto simp: keys_ok_def w' t tbl_ok_append get_scope_key_None)
qed

lemma idempotency_update_row:
  assumes "keys_ok w" and "r \<in> set (idempotency_keys w)"
    and "idk_id r' = idk_id r" "idk_scope r' = idk_scope r" "idk_idempotency_key r' = idk_idempotency_key r"
  shows "idempotency_update r' w = Inr (w\<lparr>idempotency_keys := tbl_set idk_id r' (idempotency_keys w)\<rparr>)"
proof -
  have "x = r" if "x \<in> set (idempotency_keys w)" "idk_scope x = idk_scope r" "idk_idempotency_key x = idk_idempotency_key r" for x
    using assms(1,2) that by (auto simp: keys_ok_def distinct_map inj_on_def)
  then have "idempotency_key_violates (tbl_del idk_id (idk_id r') (idempotency_keys w)) r' = None"
    using assms(3-5) by (auto simp: idempotency_key_violates_def table_simps)
  then show ?thesis by (simp add: idempotency_update_def db_update_ok)
qed

lemma map_tbl_set_same_value:
  "tbl_ok ident t \<Longrightarrow> r \<in> set t \<Longrightarrow> ident r' = ident r \<Longrightarrow> f r' = f r \<Longrightarrow> map f (tbl_set ident r' t) = map f t"
  by (auto simp: tbl_set_def dest: tbl_ok_inj)

lemma finalized_row:
  assumes "keys_ok w" and "r \<in> set (idempotency_keys w)"
    and "finalize_success (Some r) st body ty i w = Inr w'"
  shows "\<exists>row. idempotency_get_by_scope_and_key (idk_scope r) (idk_idempotency_key r) w' = Some row \<and>
      idk_request_hash row = idk_request_hash r \<and>
      answered row = Some \<lparr>hr_status_code = st, hr_body = body, hr_replayed = True\<rparr>"
    and "keys_ok w'" and "w' = w\<lparr>idempotency_keys := idempotency_keys w'\<rparr>"
proof -
  let ?row = "r\<lparr>idk_response_status_code := Some st, idk_response_body_json := Some body,
                 idk_resource_type := ty, idk_resource_id := i\<rparr>"
  let ?f = "\<lambda>k. (idk_scope k, idk_idempotency_key k)"
  have w': "w' = w\<lparr>idempotency_keys := tbl_set idk_id ?row (idempotency_keys w)\<rparr>"
    using assms(3) idempotency_update_row [OF assms(1,2), of ?row] by (simp add: finalize_success_def)
  have fs: "map ?f (idempotency_keys w') = map ?f (idempotency_keys w)"
    using assms(1,2) unfolding w' by (simp add: keys_ok_def) (rule map_tbl_set_same_value [of _ _ r], simp_all)
  show "w' = w\<lparr>idempotency_keys := idempotency_keys w'\<rparr>" by (simp add: w')
  show ok: "keys_ok w'"
    using assms(1) fs by (simp add: keys_ok_def) (simp add: w' tbl_ok_set)
  have mem: "?row \<in> set (idempotency_keys w')"
    using assms(2) by (auto simp: w' set_tbl_set)
  obtain x where x: "idempotency_get_by_scope_and_key (idk_scope r) (idk_idempotency_key r) w' = Some x"
    using mem get_scope_key_None [of "idk_scope r" "idk_idempotency_key r" w']
    by (cases "idempotency_get_by_scope_and_key (idk_scope r) (idk_idempotency_key r) w'") force+
  have "x = ?row"
    using get_scope_key_Some [OF x] mem by (intro keys_ok_unique [OF ok]) simp_all
  with x show "\<exists>row. idempotency_get_by_scope_and_key (idk_scope r) (idk_idempotency_key r) w' = Some row \<and>
      idk_request_hash row = idk_request_hash r \<and>
      answered row = Some \<lparr>hr_status_code = st, hr_body = body, hr_replayed = True\<rparr>"
    by (simp add: answered_def)
qed

lemma resolve_existing_Inr:
  "resolve_existing ev row h w = (Inr s, w') \<Longrightarrow>
     idk_request_hash row = h \<and> (\<exists>response. s = Replay response \<and> answered row = Some response) \<and> business w' = business w"
  by (auto simp: resolve_existing_def answered_def split: option.splits if_splits)

lemma start_request_proceeds:
  assumes "start_request ev race key scope payload w = (Inr (Proceed record), w1)"
    and "normalize_key key = Inr (Some k)" and "keys_ok (race w)"
  shows "\<exists>r. record = Some r \<and> r \<in> set (idempotency_keys w1) \<and> idk_scope r = scope \<and> idk_idempotency_key r = k \<and>
    idk_request_hash r = hash_payload ev payload \<and> answered r = None \<and> keys_ok w1 \<and>
    w1 = (race w)\<lparr>idempotency_keys := idempotency_keys (race w) @ [r]\<rparr> \<and>
    idempotency_get_by_scope_and_key scope k (race w) = None"
proof -
  obtain r where "record = Some r" and c: "idempotency_create ev (claim k scope (hash_payload ev payload)) (race w) = Inr (r, w1)"
    using assms(1,2)
    by (auto simp: start_request_def Let_def split: option.splits sum.splits prod.splits dest: resolve_existing_Inr)
  with idempotency_create_effect [OF c assms(3)] show ?thesis by auto
qed

lemma start_request_replays:
  assumes "start_request ev race key scope payload w = (Inr (Replay response), w1)"
    and "normalize_key key = Inr (Some k)" and "keys_ok w" "keys_ok (race w)"
  shows "keys_ok w1 \<and> business w1 \<in> {business w, business (race w)} \<and>
    (\<exists>row. idempotency_get_by_scope_and_key scope k w1 = Some row \<and>
       idk_request_hash row = hash_payload ev payload \<and> answered row = Some response)"
proof -
  obtain w0 row where "w0 \<in> {w, race w}" and row: "idempotency_get_by_scope_and_key scope k w0 = Some row"
    and res: "resolve_existing ev row (hash_payload ev payload) w0 = (Inr (Replay response), w1)"
    using assms(1,2) by (auto simp: start_request_def Let_def split: option.splits sum.splits prod.splits)
  moreover from res have "idempotency_keys w1 = idempotency_keys w0"
    by (auto dest!: resolve_existing_Inr business_eqD)
  ultimately show ?thesis
    using assms(3,4) resolve_existing_Inr [OF res] keys_ok_cong [of w1 w0] get_scope_key_cong [of w1 w0]
    by auto
qed

section \<open>What a keyed endpoint promises\<close>

text \<open>The handler and the rate limits leave the table of keys alone.\<close>

locale keyed_handler =
  fixes limits :: "world \<Rightarrow> (exn + unit) \<times> world"
    and handler :: "world \<Rightarrow> ((exn + handled) \<times> world) option"
  assumes limits_keys: "idempotency_keys (snd (limits w)) = idempotency_keys w"
    and handler_keys: "handler w = Some (r, w') \<Longrightarrow> idempotency_keys w' = idempotency_keys w"
begin

abbreviation request where
  "request ev race key scope payload \<equiv> idempotent_request ev race key scope payload limits handler"

text \<open>A key whose row holds an answer is answered from it; no business table changes.\<close>

lemma replay:
  assumes "normalize_key key = Inr (Some k)"
    and "idempotency_get_by_scope_and_key scope k w = Some row" and "answered row = Some response"
    and "idk_request_hash row = hash_payload ev payload"
  shows "\<exists>w'. request ev race key scope payload w = Some (Inr response, w') \<and> business w' = business w"
proof -
  obtain w' where "resolve_existing ev row (hash_payload ev payload) w = (Inr (Replay response), w')"
    and "business w' = business w"
    using assms(3,4) by (auto simp: resolve_existing_def answered_def split: option.splits)
  then show ?thesis
    using assms(1,2) by (simp add: idempotent_request_def start_request_def)
qed

lemma payload_conflict:
  assumes "normalize_key key = Inr (Some k)"
    and "idempotency_get_by_scope_and_key scope k w = Some row"
    and "idk_request_hash row \<noteq> hash_payload ev payload"
  shows "request ev race key scope payload w =
    Some (Inl (HTTPException 409 ''Idempotency key was already used with a different request.''), w)"
  using assms by (simp add: idempotent_request_def start_request_def resolve_existing_def)

lemma in_flight_conflict:
  assumes "normalize_key key = Inr (Some k)"
    and "idempotency_get_by_scope_and_key scope k w = Some row" and "answered row = None"
    and "idk_request_hash row = hash_payload ev payload"
  shows "request ev race key scope payload w =
    Some (Inl (HTTPException 409 ''Idempotency key is already being processed.''), w)"
  using assms
  by (auto simp: idempotent_request_def start_request_def resolve_existing_def answered_def split: option.splits)

text \<open>A request that returns leaves its answer in the row of its key.\<close>

lemma success_recorded:
  assumes "request ev race key scope payload w = Some (Inr response, w')"
    and "normalize_key key = Inr (Some k)" and "keys_ok w" "keys_ok (race w)"
  shows "keys_ok w' \<and> (\<exists>row. idempotency_get_by_scope_and_key scope k w' = Some row \<and>
    idk_request_hash row = hash_payload ev payload \<and> answered row = Some (response\<lparr>hr_replayed := True\<rparr>))"
proof (cases "start_request ev race key scope payload w")
  case (Pair started w1)
  show ?thesis
  proof (cases started)
    case (Inl e)
    with Pair assms(1) show ?thesis by (simp add: idempotent_request_def split: exn.splits)
  next
    case (Inr s)
    show ?thesis
    proof (cases s)
      case (Replay answer)
      with Pair Inr assms(1) have "response = answer" "w' = w1"
        by (simp_all add: idempotent_request_def)
      with start_request_replays [of ev race key scope payload w answer w1 k] Pair Inr Replay assms(2-4)
      show ?thesis by (auto simp: answered_replayed)
    next
      case (Proceed claimed)
      with start_request_proceeds [of ev race key scope payload w claimed w1 k] Pair Inr assms(2,4)
      obtain r where r: "claimed = Some r" "r \<in> set (idempotency_keys w1)" "idk_scope r = scope"
        "idk_idempotency_key r = k" "idk_request_hash r = hash_payload ev payload" "keys_ok w1" by auto
      from assms(1) Pair Inr Proceed obtain u w2 h w3 where
        l: "limits w1 = (Inr u, w2)" and h: "handler w2 = Some (Inr h, w3)"
        and f: "finalize_success (Some r) (hd_status_code h) (hd_body h) (Some (hd_resource_type h))
            (Some (hd_resource_id h)) w3 = Inr w'"
        and resp: "response = \<lparr>hr_status_code = hd_status_code h, hr_body = hd_body h, hr_replayed = False\<rparr>"
        by (auto simp: idempotent_request_def r(1) split: prod.splits sum.splits option.splits)
      have "idempotency_keys w3 = idempotency_keys w1"
        using limits_keys [of w1] handler_keys [OF h] by (simp add: l)
      then have "keys_ok w3" "r \<in> set (idempotency_keys w3)"
        using r keys_ok_cong [of w3 w1] by simp_all
      from finalized_row [OF this f] r resp show ?thesis by auto
    qed
  qed
qed

text \<open>So the same request, whenever it comes again, gets the same answer and books nothing.\<close>

lemma replayed_later:
  assumes "request ev race key scope payload w = Some (Inr response, w')"
    and "normalize_key key = Inr (Some k)" and "keys_ok w" "keys_ok (race w)"
    and "idempotency_get_by_scope_and_key scope k w2 = idempotency_get_by_scope_and_key scope k w'"
    and "sha256_hex ev2 = sha256_hex ev"
  shows "\<exists>w3. request ev2 race2 key scope payload w2 = Some (Inr (response\<lparr>hr_replayed := True\<rparr>), w3) \<and>
    business w3 = business w2"
proof -
  obtain row where row: "idempotency_get_by_scope_and_key scope k w' = Some row"
    "idk_request_hash row = hash_payload ev payload" "answered row = Some (response\<lparr>hr_replayed := True\<rparr>)"
    using success_recorded [OF assms(1-4)] by blast
  then show ?thesis
    using replay [OF assms(2), of scope w2 row "response\<lparr>hr_replayed := True\<rparr>" ev2 payload race2] assms(5,6)
    by (simp add: hash_payload_def)
qed

text \<open>A request whose handler fails gives its key back.\<close>

lemma failure_releases:
  assumes "start_request ev race key scope payload w = (Inr (Proceed record), w1)"
    and "normalize_key key = Inr (Some k)" and "keys_ok (race w)"
    and "limits w1 = (Inr u, w2)" and "handler w2 = Some (Inl e, w3)"
  shows "\<exists>w'. request ev race key scope payload w = Some (Inl e, w') \<and>
    idempotency_get_by_scope_and_key scope k w' = None \<and> w' = w3\<lparr>idempotency_keys := idempotency_keys w'\<rparr>"
proof -
  obtain r where r: "record = Some r" "idk_scope r = scope" "idk_idempotency_key r = k" "keys_ok w1"
    "r \<in> set (idempotency_keys w1)"
    using start_request_proceeds [OF assms(1-3)] by auto
  have keys: "idempotency_keys w3 = idempotency_keys w1"
    using limits_keys [of w1] handler_keys [OF assms(5)] by (simp add: assms(4))
  have "\<forall>x \<in> set (idempotency_keys w1). idk_scope x = scope \<and> idk_idempotency_key x = k \<longrightarrow> idk_id x = idk_id r"
    using keys_ok_unique [OF r(4) _ r(5)] r(2,3) by auto
  then show ?thesis
    using assms(1,4,5) r(1) keys
    by (auto simp: idempotent_request_def abort_def idempotency_delete_def get_scope_key_None table_simps)
qed

text \<open>A request that the rate limit stops keeps its key.\<close>

lemma throttled_keeps_key:
  assumes "start_request ev race key scope payload w = (Inr (Proceed record), w1)"
    and "normalize_key key = Inr (Some k)" and "keys_ok (race w)"
    and "limits w1 = (Inl e, w2)"
  shows "request ev race key scope payload w = Some (Inl e, w2)"
    and "\<exists>row. idempotency_get_by_scope_and_key scope k w2 = Some row \<and>
      idk_request_hash row = hash_payload ev payload \<and> answered row = None"
proof -
  obtain r where r: "record = Some r" "idk_scope r = scope" "idk_idempotency_key r = k" "keys_ok w1"
    "r \<in> set (idempotency_keys w1)" "idk_request_hash r = hash_payload ev payload" "answered r = None"
    using start_request_proceeds [OF assms(1-3)] by auto
  show "request ev race key scope payload w = Some (Inl e, w2)"
    using assms(1,4) by (simp add: idempotent_request_def)
  have keys: "idempotency_keys w2 = idempotency_keys w1"
    using limits_keys [of w1] by (simp add: assms(4))
  obtain x where x: "idempotency_get_by_scope_and_key scope k w2 = Some x"
    using r(2,3,5) get_scope_key_None [of scope k w2] keys
    by (cases "idempotency_get_by_scope_and_key scope k w2") auto
  then have "x = r"
    using get_scope_key_Some [OF x] r(2,3,5) keys by (intro keys_ok_unique [OF r(4)]) auto
  with x r show "\<exists>row. idempotency_get_by_scope_and_key scope k w2 = Some row \<and>
      idk_request_hash row = hash_payload ev payload \<and> answered row = None" by simp
qed

end

end
