(* ===== verification/Access.thy ===== *)
theory Access
  imports Sample_Data Pytext
begin

text \<open>
  Who may do what: \<^verbatim>\<open>dependencies/auth.py\<close>, \<^verbatim>\<open>services/auth_service.py\<close>,
  \<^verbatim>\<open>core/security.py\<close> and \<^verbatim>\<open>routers/auth.py\<close>.  Token and password libraries are fields
  of the environment; a token decodes to its subject, or fails.  The guards either return the
  caller's membership or end the request with an HTTP error.
\<close>

section \<open>Log-in\<close>

definition authenticate_user :: "env \<Rightarrow> string \<Rightarrow> string \<Rightarrow> world \<Rightarrow> user option" where
  "authenticate_user ev email password w =
     (case user_get_by_email email w of
        None \<Rightarrow> None
      | Some user \<Rightarrow> if \<not> password_verify ev password (usr_hashed_password user) then None else Some user)"

definition create_access_token :: "env \<Rightarrow> int \<Rightarrow> int option \<Rightarrow> string" where
  "create_access_token ev subject expires_delta =
     (let expire = (case expires_delta of
                      Some d \<Rightarrow> if d \<noteq> 0 then now ev + d else now ev + cfg_access_token_expire_minutes (config ev) * minute_us
                    | None \<Rightarrow> now ev + cfg_access_token_expire_minutes (config ev) * minute_us) in
      jwt_encode ev (int_str subject) expire)"

record token_response =
  tok_access_token :: string
  tok_expires_in :: int

definition login :: "env \<Rightarrow> string \<Rightarrow> string \<Rightarrow> world \<Rightarrow> token_response result" where
  "login ev email password w =
     (case authenticate_user ev email password w of
        None \<Rightarrow> Inl (HTTPException 401 ''Invalid email or password'')
      | Some user \<Rightarrow>
        if \<not> usr_is_active user then Inl (HTTPException 403 ''Inactive user'')
        else Inr \<lparr>tok_access_token = create_access_token ev (usr_id user)
                    (Some (cfg_access_token_expire_minutes (config ev) * minute_us)),
                  tok_expires_in = cfg_access_token_expire_minutes (config ev) * 60\<rparr>)"

section \<open>The current user\<close>

definition credentials_exception :: exn where
  "credentials_exception = HTTPException 401 ''Could not validate credentials''"

definition get_current_user :: "env \<Rightarrow> string \<Rightarrow> world \<Rightarrow> user result" where
  "get_current_user ev token w =
     (case jwt_decode ev token of
        None \<Rightarrow> Inl credentials_exception
      | Some None \<Rightarrow> Inl credentials_exception
      | Some (Some user_id_raw) \<Rightarrow>
        case py_int user_id_raw of
          Inl e \<Rightarrow> Inl credentials_exception
        | Inr user_id \<Rightarrow>
          case user_get user_id w of None \<Rightarrow> Inl credentials_exception | Some user \<Rightarrow> Inr user)"

definition get_current_active_user :: "env \<Rightarrow> string \<Rightarrow> world \<Rightarrow> user result" where
  "get_current_active_user ev token w =
     (case get_current_user ev token w of
        Inl e \<Rightarrow> Inl e
      | Inr current_user \<Rightarrow>
        if \<not> usr_is_active current_user then Inl (HTTPException 403 ''Inactive user'') else Inr current_user)"

definition require_platform_admin :: "env \<Rightarrow> string \<Rightarrow> world \<Rightarrow> user result" where
  "require_platform_admin ev token w =
     (case get_current_active_user ev token w of
        Inl e \<Rightarrow> Inl e
      | Inr current_user \<Rightarrow>
        if \<not> usr_is_platform_admin current_user then Inl (HTTPException 403 ''Admin privileges required'')
        else Inr current_user)"

section \<open>Membership\<close>

definition ORG_ADMIN_ROLES :: "membership_role list" where
  "ORG_ADMIN_ROLES = [OWNER, ADMIN]"

definition require_org_membership ::
  "int \<Rightarrow> user \<Rightarrow> membership_role list option \<Rightarrow> world \<Rightarrow> organization_member result" where
  "require_org_membership organization_id user allowed_roles w =
     (if usr_is_platform_admin user then
        Inr \<lparr>mem_id = 0, mem_organization_id = organization_id, mem_user_id = usr_id user,
             mem_role = OWNER, mem_is_active = True\<rparr>
      else case organization_member_get_by_org_and_user organization_id (usr_id user) w of
        None \<Rightarrow> Inl (HTTPException 403 ''Organization access denied'')
      | Some membership \<Rightarrow>
        if \<not> mem_is_active membership then Inl (HTTPException 403 ''Organization access denied'')
        else if (case allowed_roles of None \<Rightarrow> False | Some roles \<Rightarrow> roles \<noteq> [] \<and> mem_role membership \<notin> set roles)
        then Inl (HTTPException 403 ''Insufficient organization role'')
        else Inr membership)"

definition require_org_admin_membership :: "int \<Rightarrow> user \<Rightarrow> world \<Rightarrow> organization_member result" where
  "require_org_admin_membership organization_id user w =
     require_org_membership organization_id user (Some ORG_ADMIN_ROLES) w"

definition require_provider_schedule_access :: "provider \<Rightarrow> user \<Rightarrow> world \<Rightarrow> organization_member result" where
  "require_provider_schedule_access provider user w =
     (case require_org_membership (prov_organization_id provider) user None w of
        Inl e \<Rightarrow> Inl e
      | Inr membership \<Rightarrow>
        if mem_role membership \<in> set ORG_ADMIN_ROLES then Inr membership
        else if mem_role membership = PROVIDER \<and> prov_user_id provider = Some (usr_id user) then Inr membership
        else Inl (HTTPException 403 ''Insufficient organization role''))"

section \<open>What the guards establish\<close>

text \<open>The user of a token may act for an organization, in one of the given roles if any are given.\<close>

definition acts_for :: "world \<Rightarrow> user \<Rightarrow> int \<Rightarrow> membership_role list \<Rightarrow> bool" where
  "acts_for w user organization_id roles \<longleftrightarrow>
     usr_is_active user \<and>
     (usr_is_platform_admin user \<or>
      (\<exists>m \<in> set (organization_members w). mem_organization_id m = organization_id \<and>
         mem_user_id m = usr_id user \<and> mem_is_active m \<and> (roles = [] \<or> mem_role m \<in> set roles)))"

lemma active_user_row:
  "get_current_active_user ev token w = Inr user \<Longrightarrow>
     user \<in> set (users w) \<and> usr_is_active user \<and> (\<exists>s. jwt_decode ev token = Some (Some s) \<and> py_int s = Inr (usr_id user))"
  by (auto simp: get_current_active_user_def get_current_user_def user_get_def
      split: option.splits sum.splits if_splits dest!: tbl_get_Some)

lemma membership_acts_for:
  assumes "require_org_membership organization_id user allowed w = Inr m" and "usr_is_active user"
  shows "acts_for w user organization_id (case allowed of None \<Rightarrow> [] | Some roles \<Rightarrow> roles)"
  using assms
  by (auto simp: require_org_membership_def acts_for_def organization_member_get_by_org_and_user_def find_Some_iff
      split: option.splits if_splits)

text \<open>The token of a log-in is accepted as long as the account stays active.\<close>

lemma login_accepted:
  assumes "login ev email password w = Inr t" and "tbl_ok usr_id (users w)"
    and "\<And>s i. jwt_decode ev (jwt_encode ev s i) = Some (Some s)"
  shows "\<exists>u. get_current_active_user ev (tok_access_token t) w = Inr u \<and> usr_email u = email \<and>
    password_verify ev password (usr_hashed_password u)"
  using assms
  by (auto simp: login_def authenticate_user_def user_get_by_email_def create_access_token_def
      get_current_active_user_def get_current_user_def user_get_def find_Some_iff
      split: option.splits if_splits) (metis nth_mem option.inject tbl_get_mem option.distinct(1))+

end
