(* ===== verification/Money.thy ===== *)
theory Money
  imports Enums Pystring
begin

text \<open>
  The money helpers of \<^verbatim>\<open>utils/payment.py\<close> and \<^verbatim>\<open>utils/commission.py\<close>.  Decimal
  values are exact rationals: every amount the code multiplies fits a 32-bit column and every
  rate has four decimals, far inside the 28 digits of the decimal context, so its products are
  exact.  \<^verbatim>\<open>round_half_up\<close> is \<^verbatim>\<open>quantize(Decimal(1), ROUND_HALF_UP)\<close>: ties go
  away from zero.
\<close>

definition round_half_up :: "rat \<Rightarrow> int" where
  "round_half_up x = (if 0 \<le> x then \<lfloor>x + 1/2\<rfloor> else - \<lfloor>- x + 1/2\<rfloor>)"

lemma round_half_up_of_int [simp]: "round_half_up (of_int n) = n"
proof (cases "0 \<le> n")
  case True
  then show ?thesis by (simp add: round_half_up_def floor_eq_iff)
next
  case False
  then have "\<lfloor>- (of_int n :: rat) + 1/2\<rfloor> = - n"
    by (simp add: floor_eq_iff)
  with False show ?thesis by (simp add: round_half_up_def)
qed

lemma floor_half_error: "\<bar>of_int \<lfloor>x + 1/2\<rfloor> - x\<bar> \<le> (1/2 :: rat)"
  by linarith

lemma round_half_up_error: "\<bar>of_int (round_half_up x) - x\<bar> \<le> 1/2"
  using floor_half_error [of x] floor_half_error [of "- x"]
  by (auto simp: round_half_up_def abs_if split: if_splits)

lemma round_half_up_nonneg: "0 \<le> x \<Longrightarrow> 0 \<le> round_half_up x"
  by (simp add: round_half_up_def)

lemma round_half_up_mono: "0 \<le> x \<Longrightarrow> x \<le> y \<Longrightarrow> round_half_up x \<le> round_half_up y"
  by (simp add: round_half_up_def floor_mono)

lemma round_half_up_le: "0 \<le> x \<Longrightarrow> x \<le> of_int n \<Longrightarrow> round_half_up x \<le> n"
  using round_half_up_mono [of x "of_int n"] by simp

section \<open>utils/payment.py\<close>

definition zero_decimal_currencies :: "string list" where
  "zero_decimal_currencies =
     [''BIF'', ''CLP'', ''DJF'', ''GNF'', ''JPY'', ''KMF'', ''KRW'', ''MGA'', ''PYG'', ''RWF'',
      ''UGX'', ''VND'', ''VUV'', ''XAF'', ''XOF'', ''XPF'']"

definition currency_minor_exponent :: "string \<Rightarrow> nat" where
  "currency_minor_exponent currency = (if upper currency \<in> set zero_decimal_currencies then 0 else 2)"

definition decimal_to_minor :: "rat \<Rightarrow> string \<Rightarrow> int" where
  "decimal_to_minor amount currency =
     (let multiplier = 10 ^ currency_minor_exponent currency in
      round_half_up (amount * multiplier))"

lemma decimal_to_minor_nonneg: "0 \<le> a \<Longrightarrow> 0 \<le> decimal_to_minor a c"
  by (simp add: decimal_to_minor_def round_half_up_nonneg)

definition validate_service_payment_policy ::
  "bool \<Rightarrow> payment_type \<Rightarrow> rat option \<Rightarrow> string option \<Rightarrow> int option \<Rightarrow> unit result" where
  "validate_service_payment_policy requires_payment payment_type price currency deposit_amount_minor =
     (if \<not> requires_payment then
        (if deposit_amount_minor \<noteq> None
         then Inl (ValueError ''deposit_amount_minor must be null when requires_payment is false.'')
         else Inr ())
      else case price of
        None \<Rightarrow> Inl (ValueError ''price is required when requires_payment is true.'')
      | Some price \<Rightarrow>
     (case currency of
        None \<Rightarrow> Inl (ValueError ''currency is required when requires_payment is true.'')
      | Some currency \<Rightarrow>
      if strip currency = [] then Inl (ValueError ''currency is required when requires_payment is true.'')
      else
     (let price_minor = decimal_to_minor price currency in
      if payment_type = DEPOSIT then
        (case deposit_amount_minor of
           None \<Rightarrow> Inl (ValueError ''deposit_amount_minor is required when payment_type is deposit.'')
         | Some deposit \<Rightarrow>
           if deposit \<le> 0 then Inl (ValueError ''deposit_amount_minor must be greater than zero.'')
           else if price_minor < deposit
           then Inl (ValueError ''deposit_amount_minor must be less than or equal to service price.'')
           else Inr ())
      else if deposit_amount_minor \<noteq> None
      then Inl (ValueError ''deposit_amount_minor must be null when payment_type is full.'')
      else Inr ())))"

section \<open>utils/commission.py\<close>

definition validate_organization_commission_config ::
  "commission_type \<Rightarrow> rat option \<Rightarrow> int option \<Rightarrow> unit result" where
  "validate_organization_commission_config commission_type commission_percentage commission_fixed_minor =
     (case commission_fixed_minor of
        None \<Rightarrow> Inl (ValueError ''commission_fixed_minor is required.'')
      | Some fixed \<Rightarrow>
      if fixed < 0 then Inl (ValueError ''commission_fixed_minor must be non-negative.'')
      else case commission_percentage of
        None \<Rightarrow> Inl (ValueError ''commission_percentage is required.'')
      | Some percentage_decimal \<Rightarrow>
      if percentage_decimal < 0 \<or> 1 < percentage_decimal
      then Inl (ValueError ''commission_percentage must be between 0 and 1.'')
      else (case commission_type of FIXED \<Rightarrow> Inr () | PERCENTAGE \<Rightarrow> Inr ()))"

definition calculate_platform_fee_minor ::
  "int \<Rightarrow> commission_type \<Rightarrow> rat option \<Rightarrow> int option \<Rightarrow> int result" where
  "calculate_platform_fee_minor amount_minor commission_type commission_percentage commission_fixed_minor =
     (if amount_minor \<le> 0 then Inr 0
      else case validate_organization_commission_config commission_type commission_percentage commission_fixed_minor of
        Inl e \<Rightarrow> Inl e
      | Inr _ \<Rightarrow>
      if commission_type = FIXED
      then Inr (min (max (case commission_fixed_minor of None \<Rightarrow> 0 | Some f \<Rightarrow> f) 0) amount_minor)
      else
       (let percentage_decimal = (case commission_percentage of None \<Rightarrow> 0 | Some p \<Rightarrow> p);
            fee = round_half_up (of_int amount_minor * percentage_decimal) in
        Inr (min (max fee 0) amount_minor)))"

lemma calculate_platform_fee_minor_bounds:
  "calculate_platform_fee_minor a ct pct fx = Inr fee \<Longrightarrow> 0 \<le> fee \<and> fee \<le> max a 0"
  by (auto simp: calculate_platform_fee_minor_def Let_def split: if_splits)

text \<open>The commission settings the constraints of the organizations table allow.\<close>

definition commission_config_ok :: "rat \<Rightarrow> int \<Rightarrow> bool" where
  "commission_config_ok pct fixed \<longleftrightarrow> 0 \<le> pct \<and> pct \<le> 1 \<and> 0 \<le> fixed"

lemma calculate_platform_fee_minor_total:
  "commission_config_ok pct fixed \<Longrightarrow> \<exists>fee. calculate_platform_fee_minor a ct (Some pct) (Some fixed) = Inr fee"
  by (auto simp: calculate_platform_fee_minor_def validate_organization_commission_config_def
      commission_config_ok_def Let_def split: commission_type.splits)

text \<open>The clamp of the percentage fee never bites: the rounded share is within the amount.\<close>

lemma percentage_fee_exact:
  assumes "commission_config_ok pct fixed" and "0 < a"
  shows "calculate_platform_fee_minor a PERCENTAGE (Some pct) (Some fixed)
           = Inr (round_half_up (of_int a * pct))"
proof -
  let ?x = "of_int a * pct"
  have "0 \<le> ?x" using assms by (simp add: commission_config_ok_def)
  moreover have "?x \<le> of_int a"
    using assms by (simp add: commission_config_ok_def mult_left_le)
  ultimately have "0 \<le> round_half_up ?x" and "round_half_up ?x \<le> a"
    by (simp_all add: round_half_up_nonneg round_half_up_le)
  with assms show ?thesis
    by (simp add: calculate_platform_fee_minor_def validate_organization_commission_config_def
        commission_config_ok_def Let_def)
qed

text \<open>
  The platform fee of a percentage commission is the exact share of the amount rounded to
  the nearest minor unit: it is never further than half a unit from it and never leaves the
  range from nothing to the whole amount, for every rate the organizations table can store.
\<close>

theorem percentage_fee_within_half_unit:
  assumes "commission_config_ok pct fixed" and "0 < a"
  shows "\<exists>fee. calculate_platform_fee_minor a PERCENTAGE (Some pct) (Some fixed) = Inr fee \<and>
           \<bar>of_int fee - of_int a * pct\<bar> \<le> 1/2 \<and> 0 \<le> fee \<and> fee \<le> a"
  using percentage_fee_exact [OF assms] round_half_up_error [of "of_int a * pct"]
    calculate_platform_fee_minor_bounds assms(2) by fastforce

theorem percentage_fee_within_half_unit_witness:
  "commission_config_ok (1/10) 0 \<and>
   (\<exists>fee. calculate_platform_fee_minor 1005 PERCENTAGE (Some (1/10)) (Some 0) = Inr fee \<and>
     \<bar>of_int fee - of_int 1005 * (1/10)\<bar> \<le> (1/2 :: rat) \<and> 0 \<le> fee \<and> fee \<le> 1005)"
proof -
  have "commission_config_ok (1/10) 0" by (simp add: commission_config_ok_def)
  then show ?thesis using percentage_fee_within_half_unit [of "1/10" 0 1005] by simp
qed

end
