(* ===== verification/Earnings.thy ===== *)
theory Earnings
  imports Money Sample_Data
begin

text \<open>
  \<^verbatim>\<open>services/payments/earning_service.py\<close>: the provider's share of a payment and what a
  refund takes from it.  An earning is a small ledger: the platform fee, what the provider is
  still owed and what refunds have taken add up to the gross amount.  The quotient of the
  proportional share has 28 digits in the code; amounts have at most ten, so it rounds to the
  same unit as the exact quotient.
\<close>

definition new_earning :: "payment \<Rightarrow> appointment \<Rightarrow> int \<Rightarrow> earning" where
  "new_earning payment appointment platform_fee_minor =
     (let gross_amount_minor = pay_amount_minor payment;
          provider_amount_minor = max (gross_amount_minor - platform_fee_minor) 0 in
      \<lparr>ern_id = 0, ern_provider_id = apt_provider_id appointment,
       ern_appointment_id = apt_id appointment, ern_payment_id = pay_id payment,
       ern_payout_id = None, ern_gross_amount_minor = gross_amount_minor,
       ern_platform_fee_minor = platform_fee_minor,
       ern_provider_amount_minor = provider_amount_minor,
       ern_refunded_amount_minor = 0, ern_adjustment_pending_minor = 0,
       ern_currency = pay_currency payment,
       ern_status = (if 0 < provider_amount_minor then READY_FOR_PAYOUT else ERN_PENDING),
       ern_created_at = 0\<rparr>)"

definition ensure_earning_for_payment ::
  "env \<Rightarrow> payment \<Rightarrow> appointment \<Rightarrow> world \<Rightarrow> ((earning \<times> bool) \<times> world) result" where
  "ensure_earning_for_payment ev payment appointment w =
     (case earning_get_by_payment_id (pay_id payment) w of
        Some existing \<Rightarrow> Inr ((existing, False), w)
      | None \<Rightarrow>
      case organization_get (apt_organization_id appointment) w of
        None \<Rightarrow> Inl (LookupError ''Organization not found.'')
      | Some organization \<Rightarrow>
      case calculate_platform_fee_minor (pay_amount_minor payment) (org_commission_type organization)
             (Some (org_commission_percentage organization)) (Some (org_commission_fixed_minor organization)) of
        Inl e \<Rightarrow> Inl e
      | Inr platform_fee_minor \<Rightarrow>
      case earning_create ev (new_earning payment appointment platform_fee_minor) w of
        Inl e \<Rightarrow> Inl e
      | Inr (earning, w') \<Rightarrow> Inr ((earning, True), w'))"

definition original_provider_amount_minor :: "earning \<Rightarrow> int" where
  "original_provider_amount_minor e =
     ern_provider_amount_minor e + ern_refunded_amount_minor e + ern_adjustment_pending_minor e"

definition provider_refund_impact_minor :: "earning \<Rightarrow> int \<Rightarrow> int" where
  "provider_refund_impact_minor e refund_amount_minor =
     (if refund_amount_minor \<le> 0 then 0
      else if ern_gross_amount_minor e \<le> 0 then 0
      else if original_provider_amount_minor e \<le> 0 then 0
      else
       (let proportional =
              round_half_up (of_int refund_amount_minor * of_int (original_provider_amount_minor e) /
                             of_int (ern_gross_amount_minor e)) in
        if proportional \<le> 0 then 1 else proportional))"

text \<open>The adjusted earning, or nothing when the refund leaves the row alone.\<close>

definition refund_adjustment :: "earning \<Rightarrow> int \<Rightarrow> earning option" where
  "refund_adjustment earning refund_amount_minor =
     (let impact_minor = provider_refund_impact_minor earning refund_amount_minor in
      if impact_minor \<le> 0 then None
      else if ern_status earning = PAID_OUT then
       (let available_adjustment =
              max (ern_provider_amount_minor earning - ern_adjustment_pending_minor earning) 0;
            impact_minor = min impact_minor available_adjustment in
        if impact_minor \<le> 0 then None
        else Some (earning\<lparr>ern_adjustment_pending_minor := ern_adjustment_pending_minor earning + impact_minor\<rparr>))
      else
       (let available_unpaid = ern_provider_amount_minor earning;
            impact_minor = min impact_minor available_unpaid in
        if impact_minor \<le> 0 then None
        else
         (let remaining_provider_amount = max (available_unpaid - impact_minor) 0 in
          Some (earning\<lparr>ern_provider_amount_minor := remaining_provider_amount,
                        ern_refunded_amount_minor := ern_refunded_amount_minor earning + impact_minor,
                        ern_status := (if remaining_provider_amount = 0 then ERN_PENDING
                                       else ern_status earning)\<rparr>))))"

definition apply_refund_adjustment_for_payment ::
  "int \<Rightarrow> int \<Rightarrow> world \<Rightarrow> (earning option \<times> world) result" where
  "apply_refund_adjustment_for_payment payment_id refund_amount_minor w =
     (case earning_get_by_payment_id payment_id w of
        None \<Rightarrow> Inr (None, w)
      | Some earning \<Rightarrow>
      case refund_adjustment earning refund_amount_minor of
        None \<Rightarrow> Inr (Some earning, w)
      | Some adjusted \<Rightarrow>
      case earning_update adjusted w of
        Inl e \<Rightarrow> Inl e
      | Inr w' \<Rightarrow> Inr (Some adjusted, w'))"

section \<open>The ledger of an earning\<close>

definition earning_balanced :: "earning \<Rightarrow> bool" where
  "earning_balanced e \<longleftrightarrow>
     ern_platform_fee_minor e + ern_provider_amount_minor e + ern_refunded_amount_minor e = ern_gross_amount_minor e \<and>
     0 \<le> ern_platform_fee_minor e \<and> 0 \<le> ern_provider_amount_minor e \<and> 0 \<le> ern_refunded_amount_minor e \<and>
     0 \<le> ern_adjustment_pending_minor e \<and>
     ern_adjustment_pending_minor e \<le> ern_provider_amount_minor e + ern_refunded_amount_minor e"

definition earning_status_ok :: "earning \<Rightarrow> bool" where
  "earning_status_ok e \<longleftrightarrow>
     (ern_status e = PAID_OUT \<longleftrightarrow> ern_payout_id e \<noteq> None) \<and>
     (ern_status e \<noteq> ERN_PENDING \<longleftrightarrow> 0 < ern_provider_amount_minor e)"

definition earnings_sound :: "world \<Rightarrow> bool" where
  "earnings_sound w \<longleftrightarrow>
     tbl_ok ern_id (earnings w) \<and> distinct (map ern_payment_id (earnings w)) \<and>
     (\<forall>e \<in> set (earnings w). earning_balanced e \<and> earning_status_ok e)"

lemma find_snoc: "find P (xs @ [x]) = (case find P xs of Some y \<Rightarrow> Some y | None \<Rightarrow> if P x then Some x else None)"
  by (induction xs) auto

lemma earning_get_by_payment_id_mem:
  "earning_get_by_payment_id p w = Some e \<Longrightarrow> e \<in> set (earnings w) \<and> ern_payment_id e = p"
  by (auto simp: earning_get_by_payment_id_def find_Some_iff)

lemma earning_get_by_payment_id_None:
  "earning_get_by_payment_id p w = None \<longleftrightarrow> p \<notin> ern_payment_id ` set (earnings w)"
  by (auto simp: earning_get_by_payment_id_def find_None_iff)

lemma earning_create_eq:
  "earning_create ev r w = Inr (r', w') \<Longrightarrow>
     (\<exists>i. r' = r\<lparr>ern_id := i, ern_created_at := now ev\<rparr>) \<and> ern_id r' \<notin> ern_id ` set (earnings w) \<and>
     w' = w\<lparr>earnings := earnings w @ [r']\<rparr> \<and> ern_payment_id r' \<notin> ern_payment_id ` set (earnings w)"
  by (frule earning_repo.create_rows)
    (auto simp: earning_create_def db_insert_def earning_violates_def Let_def split: option.splits if_splits)

lemma earning_update_eq:
  "earning_update r w = Inr w' \<Longrightarrow> w' = w\<lparr>earnings := tbl_set ern_id r (earnings w)\<rparr>"
  by (auto simp: earning_update_def db_update_def split: option.splits)

lemma impact_nonneg: "0 \<le> provider_refund_impact_minor e a"
  by (simp add: provider_refund_impact_minor_def Let_def)

lemma refund_adjustment_keys:
  "refund_adjustment e a = Some e' \<Longrightarrow>
     ern_id e' = ern_id e \<and> ern_payment_id e' = ern_payment_id e \<and> ern_payout_id e' = ern_payout_id e \<and>
     ern_gross_amount_minor e' = ern_gross_amount_minor e \<and> ern_platform_fee_minor e' = ern_platform_fee_minor e \<and>
     ern_provider_id e' = ern_provider_id e \<and> ern_currency e' = ern_currency e"
  by (auto simp: refund_adjustment_def Let_def split: if_splits)

lemma refund_adjustment_sound:
  assumes "refund_adjustment e a = Some e'" and "earning_balanced e" and "earning_status_ok e"
  shows "earning_balanced e' \<and> earning_status_ok e'"
  using assms impact_nonneg [of e a]
  by (auto simp: refund_adjustment_def earning_balanced_def earning_status_ok_def Let_def split: if_splits)

lemma map_tbl_set_same:
  assumes "tbl_ok ident t" and "x \<in> set t" and "ident x = ident r" and "f r = f x"
  shows "map f (tbl_set ident r t) = map f t"
proof -
  have "f (if ident y = ident r then r else y) = f y" if "y \<in> set t" for y
    using tbl_ok_inj [OF assms(1) assms(2) that] assms(3,4) by auto
  then show ?thesis by (simp add: tbl_set_def)
qed

lemma earnings_sound_update:
  assumes "earnings_sound w" and "earning_update r w = Inr w'" and "e \<in> set (earnings w)"
    and "ern_id r = ern_id e" and "ern_payment_id r = ern_payment_id e"
    and "earning_balanced r" and "earning_status_ok r"
  shows "earnings_sound w'"
  using assms map_tbl_set_same [of ern_id "earnings w" e r ern_payment_id] earning_update_eq [OF assms(2)]
  by (auto simp: earnings_sound_def tbl_ok_set dest!: in_tbl_set)

lemma ensure_earning_eq:
  assumes "ensure_earning_for_payment ev p a w = Inr ((e, True), w')"
  shows "w' = w\<lparr>earnings := earnings w @ [e]\<rparr> \<and> ern_id e \<notin> ern_id ` set (earnings w) \<and>
     ern_payment_id e = pay_id p \<and> pay_id p \<notin> ern_payment_id ` set (earnings w) \<and>
     earning_balanced e \<and> earning_status_ok e \<and> ern_gross_amount_minor e = pay_amount_minor p \<and>
     ern_provider_id e = apt_provider_id a \<and> ern_appointment_id e = apt_id a \<and>
     ern_currency e = pay_currency p \<and> ern_payout_id e = None"
proof -
  have "\<exists>ct pct fx fee. calculate_platform_fee_minor (pay_amount_minor p) ct pct fx = Inr fee \<and>
      earning_create ev (new_earning p a fee) w = Inr (e, w')"
    using assms by (auto simp: ensure_earning_for_payment_def split: option.splits)
  then obtain ct pct fx fee where
    fee: "calculate_platform_fee_minor (pay_amount_minor p) ct pct fx = Inr fee" and
    c: "earning_create ev (new_earning p a fee) w = Inr (e, w')" by blast
  have "0 \<le> pay_amount_minor p"
    using c by (auto simp: earning_create_def db_insert_def earning_violates_def new_earning_def Let_def
        split: option.splits if_splits)
  with calculate_platform_fee_minor_bounds [OF fee] earning_create_eq [OF c] show ?thesis
    by (auto simp: earning_balanced_def earning_status_ok_def new_earning_def Let_def split: if_splits)
qed

lemma ensure_earning_existing:
  "ensure_earning_for_payment ev p a w = Inr ((e, False), w') \<Longrightarrow>
     w' = w \<and> earning_get_by_payment_id (pay_id p) w = Some e"
  by (auto simp: ensure_earning_for_payment_def Let_def split: option.splits)

lemma ensure_earning_sound:
  assumes "ensure_earning_for_payment ev p a w = Inr ((e, b), w')" and "earnings_sound w"
  shows "earnings_sound w'"
proof (cases b)
  case True
  with assms ensure_earning_eq [of ev p a w e w'] show ?thesis
    by (auto simp: earnings_sound_def tbl_ok_append)
next
  case False
  with assms ensure_earning_existing [of ev p a w e w'] show ?thesis by simp
qed

lemma ensure_earning_present:
  assumes "ensure_earning_for_payment ev p a w = Inr ((e, b), w')"
  shows "earning_get_by_payment_id (pay_id p) w' = Some e"
proof (cases b)
  case True
  with assms have w': "w' = w\<lparr>earnings := earnings w @ [e]\<rparr>" and e: "ern_payment_id e = pay_id p"
    and "pay_id p \<notin> ern_payment_id ` set (earnings w)"
    using ensure_earning_eq [of ev p a w e w'] by simp_all
  then have "earning_get_by_payment_id (pay_id p) w = None"
    by (simp add: earning_get_by_payment_id_None)
  with w' e show ?thesis by (simp add: earning_get_by_payment_id_def find_snoc)
next
  case False
  with assms ensure_earning_existing [of ev p a w e w'] show ?thesis by simp
qed

lemma ensure_earning_frame:
  assumes "ensure_earning_for_payment ev p a w = Inr ((e, b), w')"
  shows "\<exists>t. w' = w\<lparr>earnings := t\<rparr>"
proof (cases b)
  case True
  with assms ensure_earning_eq [of ev p a w e w'] have "w' = w\<lparr>earnings := earnings w @ [e]\<rparr>" by simp
  then show ?thesis by blast
next
  case False
  with assms ensure_earning_existing [of ev p a w e w'] have "w' = w\<lparr>earnings := earnings w\<rparr>" by simp
  then show ?thesis by (rule exI)
qed

lemma apply_refund_adjustment_cases:
  assumes "apply_refund_adjustment_for_payment p a w = Inr (r, w')"
  obtains (unchanged) "w' = w"
  | (adjusted) e e' where "earning_get_by_payment_id p w = Some e" and "refund_adjustment e a = Some e'"
      and "earning_update e' w = Inr w'"
proof (cases "earning_get_by_payment_id p w")
  case None
  with assms unchanged show thesis by (simp add: apply_refund_adjustment_for_payment_def)
next
  case (Some e)
  show thesis
  proof (cases "refund_adjustment e a")
    case None
    with assms Some unchanged show thesis by (simp add: apply_refund_adjustment_for_payment_def)
  next
    case (Some e')
    with assms \<open>earning_get_by_payment_id p w = Some e\<close> have "earning_update e' w = Inr w'"
      by (simp add: apply_refund_adjustment_for_payment_def)
    then show thesis by (rule adjusted [OF \<open>earning_get_by_payment_id p w = Some e\<close> Some])
  qed
qed

lemma apply_refund_adjustment_frame:
  assumes "apply_refund_adjustment_for_payment p a w = Inr (r, w')" shows "\<exists>t. w' = w\<lparr>earnings := t\<rparr>"
  using assms
proof (cases rule: apply_refund_adjustment_cases)
  case unchanged
  then have "w' = w\<lparr>earnings := earnings w\<rparr>" by simp
  then show ?thesis by (rule exI)
next
  case (adjusted e e')
  then show ?thesis using earning_update_eq by blast
qed

lemma apply_refund_adjustment_sound:
  assumes "apply_refund_adjustment_for_payment p a w = Inr (r, w')" and "earnings_sound w"
  shows "earnings_sound w'"
  using assms(1)
proof (cases rule: apply_refund_adjustment_cases)
  case unchanged
  then show ?thesis using assms(2) by simp
next
  case (adjusted e e')
  note g = adjusted(1) and adj = adjusted(2) and u = adjusted(3)
  have e: "e \<in> set (earnings w)" using earning_get_by_payment_id_mem [OF g] by simp
  then have "earning_balanced e" "earning_status_ok e" using assms(2) by (auto simp: earnings_sound_def)
  with refund_adjustment_sound [OF adj] refund_adjustment_keys [OF adj]
  show ?thesis by (intro earnings_sound_update [OF assms(2) u e]) auto
qed

section \<open>Properties\<close>

text \<open>
  C29. Earnings are books that balance: creating the earning of a payment and taking a refund from
  it keep, for every row, fee plus provider share plus refunded amount equal to the gross amount,
  every amount non-negative, the pending adjustment within the provider's original share, one
  earning for each payment, and the status in step with the payout link and the amount left.
\<close>

theorem earning_ledger_preserved:
  assumes "earnings_sound w"
  shows "(\<forall>p a r w'. ensure_earning_for_payment ev p a w = Inr (r, w') \<longrightarrow> earnings_sound w') \<and>
         (\<forall>i a r w'. apply_refund_adjustment_for_payment i a w = Inr (r, w') \<longrightarrow> earnings_sound w')"
proof (intro conjI allI impI)
  fix p a w' and r :: "earning \<times> bool"
  assume "ensure_earning_for_payment ev p a w = Inr (r, w')"
  then show "earnings_sound w'" using ensure_earning_sound assms by (cases r) blast
next
  fix i a r w'
  assume "apply_refund_adjustment_for_payment i a w = Inr (r, w')"
  then show "earnings_sound w'" using apply_refund_adjustment_sound assms by blast
qed

lemma sample_earnings_sound: "earnings_sound paid_world"
  by (simp add: earnings_sound_def earning_balanced_def earning_status_ok_def tbl_ok_def sample_defs)

lemma paid_world_adjustment:
  "apply_refund_adjustment_for_payment 1 300 paid_world =
     Inr (Some (sample_earning\<lparr>ern_provider_amount_minor := 630, ern_refunded_amount_minor := 270\<rparr>),
          paid_world\<lparr>earnings := [sample_earning\<lparr>ern_provider_amount_minor := 630, ern_refunded_amount_minor := 270\<rparr>]\<rparr>)"
  by code_simp

theorem earning_ledger_preserved_witness:
  "earnings_sound paid_world \<and>
   earnings_sound (paid_world\<lparr>earnings := [sample_earning\<lparr>ern_provider_amount_minor := 630, ern_refunded_amount_minor := 270\<rparr>]\<rparr>)"
  using earning_ledger_preserved [OF sample_earnings_sound] paid_world_adjustment sample_earnings_sound by blast

text \<open>
  A refund takes from an unpaid earning the provider's proportional part of it: what it takes
  is the refunded share of the provider's original amount to within half a minor unit, but at
  least one unit and never more than what is left.
\<close>

theorem unpaid_refund_proportional:
  assumes "earning_balanced e" and "ern_status e \<noteq> PAID_OUT" and "ern_adjustment_pending_minor e = 0"
    and "refund_adjustment e a = Some e'"
  shows "\<exists>share taken. share = of_int a * of_int (ern_gross_amount_minor e - ern_platform_fee_minor e) /
             (of_int (ern_gross_amount_minor e) :: rat) \<and>
           ern_refunded_amount_minor e' = ern_refunded_amount_minor e + taken \<and>
           ern_provider_amount_minor e' = ern_provider_amount_minor e - taken \<and>
           1 \<le> taken \<and> (taken = 1 \<or> of_int taken \<le> share + 1/2) \<and>
           (taken = ern_provider_amount_minor e \<or> share - 1/2 \<le> of_int taken)"
proof -
  let ?i = "provider_refund_impact_minor e a" and ?t = "min (provider_refund_impact_minor e a) (ern_provider_amount_minor e)"
  let ?s = "of_int a * of_int (ern_gross_amount_minor e - ern_platform_fee_minor e) / (of_int (ern_gross_amount_minor e) :: rat)"
  have pos: "0 < ?i" "0 < ?t"
    and e': "ern_refunded_amount_minor e' = ern_refunded_amount_minor e + ?t"
      "ern_provider_amount_minor e' = ern_provider_amount_minor e - ?t"
    using assms(2,4) by (auto simp: refund_adjustment_def Let_def split: if_splits)
  have orig: "original_provider_amount_minor e = ern_gross_amount_minor e - ern_platform_fee_minor e"
    using assms(1,3) by (simp add: original_provider_amount_minor_def earning_balanced_def)
  have imp: "?i = (if round_half_up ?s \<le> 0 then 1 else round_half_up ?s)"
    using pos(1) orig by (simp add: provider_refund_impact_minor_def Let_def split: if_splits)
  have err: "\<bar>of_int (round_half_up ?s) - ?s\<bar> \<le> 1/2" by (rule round_half_up_error)
  have up: "?t = 1 \<or> of_int ?t \<le> ?s + 1/2"
  proof (cases "round_half_up ?s \<le> 0")
    case True
    with imp pos(2) show ?thesis by simp
  next
    case False
    then have "of_int ?t \<le> (of_int (round_half_up ?s) :: rat)" using imp by simp
    with err show ?thesis by linarith
  qed
  have lo: "?t = ern_provider_amount_minor e \<or> ?s - 1/2 \<le> of_int ?t"
  proof (cases "?i \<le> ern_provider_amount_minor e")
    case True
    then have "(of_int (round_half_up ?s) :: rat) \<le> of_int ?t" using imp by simp
    with err show ?thesis by linarith
  qed simp
  show ?thesis using e' pos(2) up lo by (intro exI [of _ ?s] exI [of _ ?t]) simp
qed

theorem unpaid_refund_proportional_witness:
  "\<exists>share taken. share = of_int 300 * of_int (1000 - 100) / (of_int 1000 :: rat) \<and>
     (270 :: int) = 0 + taken \<and> (630 :: int) = 900 - taken \<and>
     1 \<le> taken \<and> (taken = 1 \<or> of_int taken \<le> share + 1/2) \<and> (taken = 900 \<or> share - 1/2 \<le> of_int taken)"
proof -
  have adj: "refund_adjustment sample_earning 300 =
      Some (sample_earning\<lparr>ern_provider_amount_minor := 630, ern_refunded_amount_minor := 270\<rparr>)"
    by code_simp
  show ?thesis
    using unpaid_refund_proportional [OF _ _ _ adj]
    by (simp add: sample_earning_def earning_balanced_def)
qed

definition paid_out_earning :: earning where
  "paid_out_earning = sample_earning\<lparr>ern_status := PAID_OUT, ern_payout_id := Some 1\<rparr>"

text \<open>
  After the payout the same sequence of refunds costs the provider more.  The impact is
  computed from the sum of the amounts, to which a pending adjustment adds again what the
  provider share still contains: two refunds of 300 on a payment of 1000 with a fee of 100 take
  270 and 270 from an unpaid earning, but 270 and 351 from a paid-out one.
\<close>

theorem paid_out_refunds_overcharge:
  "Option.bind (refund_adjustment sample_earning 300) (\<lambda>e. refund_adjustment e 300) =
     Some (sample_earning\<lparr>ern_provider_amount_minor := 360, ern_refunded_amount_minor := 540\<rparr>) \<and>
   Option.bind (refund_adjustment paid_out_earning 300) (\<lambda>e. refund_adjustment e 300) =
     Some (paid_out_earning\<lparr>ern_adjustment_pending_minor := 621\<rparr>)"
  by code_simp

end
