(* ===== verification/Refunds.thy ===== *)
theory Refunds
  imports Earnings
begin

text \<open>
  \<^verbatim>\<open>services/payments/refund_service.py\<close> with the refund provider of
  \<^verbatim>\<open>services/payments/mock_provider.py\<close>, the only one registered.  Creating a refund commits
  a pending row first, asks the provider, and settles the row in a second transaction; the value
  of an operation is therefore a result together with the world committed by then, which is the
  starting world when nothing was committed.
\<close>

definition MODERATE_DEFAULT_WINDOW_HOURS :: int where "MODERATE_DEFAULT_WINDOW_HOURS = 24"
definition STRICT_DEFAULT_WINDOW_HOURS :: int where "STRICT_DEFAULT_WINDOW_HOURS = 48"

text \<open>The relationship \<^verbatim>\<open>appointment.service\<close>.\<close>

definition appointment_service :: "appointment \<Rightarrow> world \<Rightarrow> service option" where
  "appointment_service a w = Option.bind (apt_service_id a) (\<lambda>i. service_get i w)"

section \<open>The refundable amount\<close>

definition get_refundable_remaining_minor :: "payment \<Rightarrow> world \<Rightarrow> int" where
  "get_refundable_remaining_minor payment w =
     (let refunded = refund_sum_succeeded (pay_id payment) w in max (pay_amount_minor payment - refunded) 0)"

definition moderate_late_retained_amount_minor :: "service option \<Rightarrow> payment \<Rightarrow> int" where
  "moderate_late_retained_amount_minor service payment =
     (if pay_payment_type payment = DEPOSIT then pay_amount_minor payment
      else case Option.bind service svc_deposit_amount_minor of
        Some deposit \<Rightarrow> min deposit (pay_amount_minor payment)
      | None \<Rightarrow> max (round_half_up (of_int (pay_amount_minor payment) * (20/100))) 1)"

text \<open>The window in force: a configured zero counts as not configured.\<close>

definition window_or :: "int \<Rightarrow> int \<Rightarrow> int" where
  "window_or configured fallback = (if configured = 0 then fallback else configured)"

definition refund_target :: "service \<Rightarrow> payment \<Rightarrow> int \<Rightarrow> int" where
  "refund_target service payment time_before =
     (case svc_cancellation_policy_type service of
        FLEXIBLE \<Rightarrow> pay_amount_minor payment
      | MODERATE \<Rightarrow>
         (if window_or (svc_cancellation_window_hours service) MODERATE_DEFAULT_WINDOW_HOURS * hour_us \<le> time_before
          then pay_amount_minor payment
          else max (pay_amount_minor payment - moderate_late_retained_amount_minor (Some service) payment) 0)
      | STRICT \<Rightarrow>
         (if window_or (svc_cancellation_window_hours service) STRICT_DEFAULT_WINDOW_HOURS * hour_us \<le> time_before
          then round_half_up (of_int (pay_amount_minor payment) * (50/100))
          else 0))"

definition calculate_refund_amount :: "appointment \<Rightarrow> payment \<Rightarrow> instant \<Rightarrow> world \<Rightarrow> int" where
  "calculate_refund_amount appointment payment now_utc w =
     (if pay_status payment \<notin> {PAY_SUCCEEDED, PAY_REFUNDED} then 0
      else case appointment_service appointment w of
        None \<Rightarrow> 0
      | Some service \<Rightarrow>
      if \<not> svc_requires_payment service then 0
      else
       (let target_amount = refund_target service payment (apt_start_datetime appointment - now_utc);
            remaining = get_refundable_remaining_minor payment w in
        min (max target_amount 0) remaining))"

section \<open>The refund provider\<close>

record refund_provider_result =
  rpr_provider_refund_id :: string
  rpr_status :: string

definition mock_create_refund :: "env \<Rightarrow> int \<Rightarrow> refund_provider_result" where
  "mock_create_refund ev refund_id =
     \<lparr>rpr_provider_refund_id = ''mock_rf_'' @ token_hex ev ''refund'' refund_id,
      rpr_status = refund_status_value RF_SUCCEEDED\<rparr>"

section \<open>Settling a refund\<close>

definition refund_event :: "string \<Rightarrow> string \<Rightarrow> string \<Rightarrow> int option \<Rightarrow> refund \<Rightarrow> payment \<Rightarrow> domain_event" where
  "refund_event event_type status actor_type actor_id r payment =
     (event_defaults event_type)
       \<lparr>ev_entity_type := Some ''refund'', ev_entity_id := Some (rf_id r),
        ev_organization_id := Some (pay_organization_id payment), ev_actor_type := actor_type,
        ev_actor_id := actor_id, ev_related_payment_id := Some (rf_payment_id r),
        ev_related_appointment_id := Some (pay_appointment_id payment), ev_status := status,
        ev_payload_json := JObj [(''amount_minor'', JInt (rf_amount_minor r)), (''currency'', JStr (rf_currency r))]\<rparr>"

text \<open>The transaction of \<^verbatim>\<open>mark_refund_succeeded\<close> up to its commit.\<close>

definition settle_refund :: "env \<Rightarrow> refund \<Rightarrow> string option \<Rightarrow> world \<Rightarrow> (refund \<times> world) result" where
  "settle_refund ev locked_refund provider_refund_id w =
     (let updated = locked_refund\<lparr>rf_status := RF_SUCCEEDED,
            rf_provider_refund_id := or_else provider_refund_id (rf_provider_refund_id locked_refund),
            rf_processed_at := Some (now ev)\<rparr> in
      case refund_update updated w of
        Inl e \<Rightarrow> Inl e
      | Inr w1 \<Rightarrow>
      case payment_get (rf_payment_id updated) w1 of
        None \<Rightarrow> Inr (updated, w1)
      | Some payment \<Rightarrow>
       (let succeeded_total = refund_sum_succeeded (pay_id payment) w1 in
        case (if pay_amount_minor payment \<le> succeeded_total
              then payment_update (payment\<lparr>pay_status := PAY_REFUNDED\<rparr>) w1 else Inr w1) of
          Inl e \<Rightarrow> Inl e
        | Inr w2 \<Rightarrow>
        case apply_refund_adjustment_for_payment (pay_id payment) (rf_amount_minor updated) w2 of
          Inl e \<Rightarrow> Inl e
        | Inr (_, w3) \<Rightarrow> Inr (updated, w3)))"

text \<open>What follows the commit: the notification, the counter and the audit event.\<close>

definition announce_refund ::
  "env \<Rightarrow> string \<Rightarrow> string \<Rightarrow> string \<Rightarrow> string \<Rightarrow> string \<Rightarrow> int option \<Rightarrow> refund \<Rightarrow> world
    \<Rightarrow> (exn + refund) \<times> world" where
  "announce_refund ev task counter event_type status actor_type actor_id r w =
     (case payment_get (rf_payment_id r) w of
        None \<Rightarrow> (Inl (AttributeError ''appointment_id''), w)
      | Some payment \<Rightarrow>
        (Inr r,
         record_event ev (refund_event event_type status actor_type actor_id r payment)
           (increment_counter counter (enqueue ev task (pay_appointment_id payment) w))))"

definition mark_refund_succeeded ::
  "env \<Rightarrow> int \<Rightarrow> string option \<Rightarrow> string \<Rightarrow> int option \<Rightarrow> world \<Rightarrow> (exn + refund) \<times> world" where
  "mark_refund_succeeded ev refund_id provider_refund_id actor_type actor_id w =
     (case refund_get refund_id w of
        None \<Rightarrow> (Inl (LookupError ''Refund not found.''), w)
      | Some locked_refund \<Rightarrow>
      if rf_status locked_refund = RF_SUCCEEDED then (Inr locked_refund, w)
      else case settle_refund ev locked_refund provider_refund_id w of
        Inl e \<Rightarrow> (Inl e, w)
      | Inr (updated, w') \<Rightarrow>
        announce_refund ev TASK_REFUND_SUCCEEDED ''refunds_succeeded_total'' ''refund_succeeded'' ''success''
          actor_type actor_id updated w')"

definition mark_refund_failed ::
  "env \<Rightarrow> int \<Rightarrow> string \<Rightarrow> int option \<Rightarrow> world \<Rightarrow> (exn + refund) \<times> world" where
  "mark_refund_failed ev refund_id actor_type actor_id w =
     (case refund_get refund_id w of
        None \<Rightarrow> (Inl (LookupError ''Refund not found.''), w)
      | Some locked_refund \<Rightarrow>
      if rf_status locked_refund = RF_FAILED then (Inr locked_refund, w)
      else
       (let updated = locked_refund\<lparr>rf_status := RF_FAILED, rf_processed_at := Some (now ev)\<rparr> in
        case refund_update updated w of
          Inl e \<Rightarrow> (Inl e, w)
        | Inr w' \<Rightarrow>
          announce_refund ev TASK_REFUND_FAILED ''refunds_failed_total'' ''refund_failed'' ''failure''
            actor_type actor_id updated w'))"

section \<open>Creating a refund\<close>

definition create_refund ::
  "env \<Rightarrow> payment \<Rightarrow> int \<Rightarrow> string \<Rightarrow> int option \<Rightarrow> world \<Rightarrow> (exn + refund option) \<times> world" where
  "create_refund ev payment amount_minor actor_type actor_id w =
     (if amount_minor < 0 then (Inl (ValueError ''Refund amount must be non-negative.''), w)
      else if amount_minor = 0 then (Inr None, w)
      else if pay_status payment \<notin> {PAY_SUCCEEDED, PAY_REFUNDED}
      then (Inl (ValueError ''Only succeeded payments can be refunded.''), w)
      else if get_refundable_remaining_minor payment w < amount_minor
      then (Inl (ValueError ''Refund amount exceeds refundable balance.''), w)
      else case refund_create ev
             \<lparr>rf_id = 0, rf_payment_id = pay_id payment, rf_amount_minor = amount_minor,
              rf_currency = pay_currency payment, rf_provider_refund_id = None,
              rf_status = RF_PENDING, rf_processed_at = None, rf_created_at = 0\<rparr> w of
        Inl e \<Rightarrow> (Inl e, w)
      | Inr (refund, w1) \<Rightarrow>
       (let w2 = record_event ev (refund_event ''refund_initiated'' ''info'' actor_type actor_id refund payment)
                   (enqueue ev TASK_REFUND_INITIATED (pay_appointment_id payment) w1) in
        if pay_provider_name payment \<noteq> ''mock''
        then (Inl (ValueError (''Unsupported refund provider: '' @ pay_provider_name payment)), w2)
        else
         (let provider_result = mock_create_refund ev (rf_id refund);
              settled =
                (if rpr_status provider_result = refund_status_value RF_SUCCEEDED
                 then mark_refund_succeeded ev (rf_id refund) (Some (rpr_provider_refund_id provider_result))
                        actor_type actor_id w2
                 else mark_refund_failed ev (rf_id refund) actor_type actor_id w2);
              final =
                (case settled of
                   (Inl _, w3) \<Rightarrow> mark_refund_failed ev (rf_id refund) actor_type actor_id w3
                 | (Inr r, w3) \<Rightarrow> (Inr r, w3)) in
          case final of
            (Inl e, w4) \<Rightarrow> (Inl e, w4)
          | (Inr r, w4) \<Rightarrow> (Inr (Some r), w4))))"

definition process_refund_for_cancellation ::
  "env \<Rightarrow> appointment \<Rightarrow> world \<Rightarrow> (exn + refund option) \<times> world" where
  "process_refund_for_cancellation ev appointment w =
     (case payment_get_latest_for_appointment (apt_id appointment) w of
        None \<Rightarrow> (Inr None, w)
      | Some payment \<Rightarrow>
      if pay_status payment \<notin> {PAY_SUCCEEDED, PAY_REFUNDED} then (Inr None, w)
      else
       (let amount_minor = calculate_refund_amount appointment payment (now ev) w in
        if amount_minor \<le> 0 then (Inr None, w)
        else create_refund ev payment amount_minor ''system'' None w))"

section \<open>Sums over a table\<close>

lemma sum_tbl_set:
  fixes f :: "'r \<Rightarrow> int"
  assumes "tbl_ok ident t" and "x \<in> set t" and "ident x = ident r"
  shows "sum_list (map f (tbl_set ident r t)) = sum_list (map f t) - f x + f r"
proof -
  have "sum_list (map f (tbl_set ident r t)) = sum_mset (image_mset f (mset (tbl_set ident r t)))"
    by (simp add: sum_mset_sum_list flip: mset_map)
  also have "\<dots> = sum_mset (image_mset f (mset t - {#x#})) + f r"
    by (simp add: tbl_set_mset [OF assms])
  also have "sum_mset (image_mset f (mset t - {#x#})) = sum_mset (image_mset f (mset t)) - f x"
    using assms(2) by (simp add: image_mset_Diff sum_mset_diff)
  finally show ?thesis by (simp add: sum_mset_sum_list flip: mset_map)
qed

definition refunded_by :: "int \<Rightarrow> refund \<Rightarrow> int" where
  "refunded_by p r = (if rf_payment_id r = p \<and> rf_status r = RF_SUCCEEDED then rf_amount_minor r else 0)"

lemma refund_sum_succeeded_eq: "refund_sum_succeeded p w = sum_list (map (refunded_by p) (refunds w))"
  by (simp add: refund_sum_succeeded_def refunded_by_def [abs_def] sum_list_map_filter')

section \<open>The state the refund operations rely on\<close>

definition amounts_ok :: "world \<Rightarrow> bool" where
  "amounts_ok w \<longleftrightarrow> tbl_ok pay_id (payments w) \<and> tbl_ok rf_id (refunds w) \<and>
     (\<forall>p \<in> set (payments w). 0 \<le> pay_amount_minor p) \<and> (\<forall>r \<in> set (refunds w). 0 \<le> rf_amount_minor r)"

lemma refund_sum_nonneg: "amounts_ok w \<Longrightarrow> 0 \<le> refund_sum_succeeded p w"
  unfolding refund_sum_succeeded_eq by (rule sum_list_nonneg) (auto simp: amounts_ok_def refunded_by_def)

lemma refund_update_eq: "0 \<le> rf_amount_minor r \<Longrightarrow> refund_update r w = Inr (w\<lparr>refunds := tbl_set rf_id r (refunds w)\<rparr>)"
  by (simp add: refund_update_def db_update_def refund_violates_def)

lemma payment_update_eq: "0 \<le> pay_amount_minor p \<Longrightarrow> payment_update p w = Inr (w\<lparr>payments := tbl_set pay_id p (payments w)\<rparr>)"
  by (simp add: payment_update_def db_update_def payment_violates_def)

lemma refund_create_ok:
  "0 \<le> rf_amount_minor r \<Longrightarrow>
     refund_create ev r w =
       (let r' = r\<lparr>rf_id := tbl_fresh rf_id (refunds w), rf_created_at := now ev\<rparr> in
        Inr (r', w\<lparr>refunds := refunds w @ [r']\<rparr>))"
  by (simp add: refund_create_def db_insert_def refund_violates_def Let_def)

lemma earning_update_ok:
  assumes "earnings_sound w" and "e \<in> set (earnings w)" and "ern_id r = ern_id e"
    and "ern_payment_id r = ern_payment_id e" and "earning_balanced r"
  shows "earning_update r w = Inr (w\<lparr>earnings := tbl_set ern_id r (earnings w)\<rparr>)"
proof -
  have d: "distinct (map ern_payment_id (earnings w))" and k: "tbl_ok ern_id (earnings w)"
    using assms(1) by (simp_all add: earnings_sound_def)
  have "ern_payment_id r \<notin> ern_payment_id ` set (tbl_del ern_id (ern_id r) (earnings w))"
    using assms(2-4) d by (auto simp: table_simps distinct_map dest: inj_onD)
  moreover have "ern_platform_fee_minor r + ern_provider_amount_minor r \<le> ern_gross_amount_minor r"
    "0 \<le> ern_gross_amount_minor r"
    using assms(5) by (auto simp: earning_balanced_def)
  ultimately have "earning_violates (tbl_del ern_id (ern_id r) (earnings w)) r = None"
    using assms(5) by (simp add: earning_violates_def earning_balanced_def)
  then show ?thesis by (simp add: earning_update_def db_update_ok)
qed

text \<open>A refund leaves the earnings of other payments alone.\<close>

definition other_earnings :: "int \<Rightarrow> world \<Rightarrow> earning list" where
  "other_earnings p w = [e \<leftarrow> earnings w. ern_payment_id e \<noteq> p]"

lemma filter_tbl_set:
  "\<not> P r \<Longrightarrow> (\<And>x. x \<in> set t \<Longrightarrow> ident x = ident r \<Longrightarrow> \<not> P x) \<Longrightarrow> filter P (tbl_set ident r t) = filter P t"
  by (induction t) (auto simp: tbl_set_def)

lemma apply_refund_adjustment_others:
  assumes "apply_refund_adjustment_for_payment p a w = Inr (r, w')" and "earnings_sound w"
  shows "other_earnings p w' = other_earnings p w"
  using assms(1)
proof (cases rule: apply_refund_adjustment_cases)
  case (adjusted e e')
  have e: "e \<in> set (earnings w)" "ern_payment_id e = p" using earning_get_by_payment_id_mem [OF adjusted(1)] by simp_all
  have "ern_payment_id x = p" if "x \<in> set (earnings w)" "ern_id x = ern_id e'" for x
    using that e assms(2) refund_adjustment_keys [OF adjusted(2)]
    by (auto simp: earnings_sound_def tbl_ok_def distinct_map dest: inj_onD)
  then show ?thesis
    using e refund_adjustment_keys [OF adjusted(2)] earning_update_eq [OF adjusted(3)]
    by (simp add: other_earnings_def filter_tbl_set)
qed simp

lemma apply_refund_adjustment_total:
  assumes "earnings_sound w"
  shows "\<exists>r t. apply_refund_adjustment_for_payment p a w = Inr (r, w\<lparr>earnings := t\<rparr>) \<and>
     earnings_sound (w\<lparr>earnings := t\<rparr>) \<and> other_earnings p (w\<lparr>earnings := t\<rparr>) = other_earnings p w"
proof -
  have "\<exists>r w'. apply_refund_adjustment_for_payment p a w = Inr (r, w')"
  proof (cases "earning_get_by_payment_id p w")
    case None
    then show ?thesis by (simp add: apply_refund_adjustment_for_payment_def)
  next
    case (Some e)
    show ?thesis
    proof (cases "refund_adjustment e a")
      case None
      with Some show ?thesis by (simp add: apply_refund_adjustment_for_payment_def)
    next
      case (Some e')
      have e: "e \<in> set (earnings w)"
        using earning_get_by_payment_id_mem [OF \<open>earning_get_by_payment_id p w = Some e\<close>] by simp
      then have "earning_balanced e'"
        using refund_adjustment_sound [OF Some] assms by (simp add: earnings_sound_def)
      with earning_update_ok [OF assms e] refund_adjustment_keys [OF Some] Some
        \<open>earning_get_by_payment_id p w = Some e\<close>
      show ?thesis by (simp add: apply_refund_adjustment_for_payment_def)
    qed
  qed
  then show ?thesis
    using apply_refund_adjustment_frame apply_refund_adjustment_sound [OF _ assms]
      apply_refund_adjustment_others [OF _ assms] by metis
qed

lemma refund_get_mem: "refund_get i w = Some r \<Longrightarrow> r \<in> set (refunds w) \<and> rf_id r = i"
  by (auto simp: refund_get_def dest: tbl_get_Some)

lemma payment_get_mem: "payment_get i w = Some p \<Longrightarrow> p \<in> set (payments w) \<and> pay_id p = i"
  by (auto simp: payment_get_def dest: tbl_get_Some)

text \<open>What settling a refund does, for every sound world.\<close>

definition settled_refund :: "env \<Rightarrow> refund \<Rightarrow> string option \<Rightarrow> refund" where
  "settled_refund ev r ref = r\<lparr>rf_status := RF_SUCCEEDED,
     rf_provider_refund_id := or_else ref (rf_provider_refund_id r), rf_processed_at := Some (now ev)\<rparr>"

lemma settle_refund_total:
  assumes ok: "amounts_ok w" "earnings_sound w" and r: "refund_get (rf_id r) w = Some r"
    and ns: "rf_status r \<noteq> RF_SUCCEEDED" and p: "payment_get (rf_payment_id r) w = Some p"
  shows "\<exists>t. settle_refund ev r ref w = Inr (settled_refund ev r ref,
      w\<lparr>refunds := tbl_set rf_id (settled_refund ev r ref) (refunds w),
        payments := (if pay_amount_minor p \<le> refund_sum_succeeded (pay_id p) w + rf_amount_minor r
                     then tbl_set pay_id (p\<lparr>pay_status := PAY_REFUNDED\<rparr>) (payments w) else payments w),
        earnings := t\<rparr>) \<and> earnings_sound (w\<lparr>earnings := t\<rparr>) \<and>
     other_earnings (pay_id p) (w\<lparr>earnings := t\<rparr>) = other_earnings (pay_id p) w"
proof -
  let ?u = "settled_refund ev r ref"
  let ?w1 = "w\<lparr>refunds := tbl_set rf_id ?u (refunds w)\<rparr>"
  have mem: "r \<in> set (refunds w)" "p \<in> set (payments w)" "pay_id p = rf_payment_id r"
    using refund_get_mem [OF r] payment_get_mem [OF p] by auto
  have nn: "0 \<le> rf_amount_minor ?u" "0 \<le> pay_amount_minor p"
    using mem ok(1) by (auto simp: amounts_ok_def settled_refund_def)
  have sum: "refund_sum_succeeded (pay_id p) ?w1 = refund_sum_succeeded (pay_id p) w + rf_amount_minor r"
    using sum_tbl_set [of rf_id "refunds w" r ?u "refunded_by (pay_id p)"] ok(1) mem ns
    by (simp add: refund_sum_succeeded_eq amounts_ok_def settled_refund_def refunded_by_def)
  have pg: "payment_get (rf_payment_id ?u) ?w1 = Some p"
    using p by (simp add: payment_get_def settled_refund_def)
  let ?w2 = "w\<lparr>refunds := tbl_set rf_id ?u (refunds w),
        payments := (if pay_amount_minor p \<le> refund_sum_succeeded (pay_id p) w + rf_amount_minor r
                     then tbl_set pay_id (p\<lparr>pay_status := PAY_REFUNDED\<rparr>) (payments w) else payments w)\<rparr>"
  have "earnings_sound ?w2" using ok(2) by (simp add: earnings_sound_def)
  from apply_refund_adjustment_total [OF this] obtain x t where
    a: "apply_refund_adjustment_for_payment (pay_id p) (rf_amount_minor ?u) ?w2 = Inr (x, ?w2\<lparr>earnings := t\<rparr>)"
    "earnings_sound (?w2\<lparr>earnings := t\<rparr>)" "other_earnings (pay_id p) (?w2\<lparr>earnings := t\<rparr>) = other_earnings (pay_id p) ?w2"
    by blast
  have "settle_refund ev r ref w =
      (case (if pay_amount_minor p \<le> refund_sum_succeeded (pay_id p) ?w1
              then payment_update (p\<lparr>pay_status := PAY_REFUNDED\<rparr>) ?w1 else Inr ?w1) of
          Inl e \<Rightarrow> Inl e
        | Inr w2 \<Rightarrow>
        case apply_refund_adjustment_for_payment (pay_id p) (rf_amount_minor ?u) w2 of
          Inl e \<Rightarrow> Inl e
        | Inr (_, w3) \<Rightarrow> Inr (?u, w3))"
    unfolding settle_refund_def Let_def settled_refund_def [symmetric]
    by (simp add: refund_update_eq [OF nn(1)] pg)
  moreover have "(if pay_amount_minor p \<le> refund_sum_succeeded (pay_id p) ?w1
      then payment_update (p\<lparr>pay_status := PAY_REFUNDED\<rparr>) ?w1 else Inr ?w1) = Inr ?w2"
    unfolding sum by (cases w) (simp add: nn(2) payment_update_eq)
  ultimately have "settle_refund ev r ref w = Inr (?u, ?w2\<lparr>earnings := t\<rparr>)"
    by (simp only: sum.case a(1) prod.case)
  moreover have "earnings_sound (w\<lparr>earnings := t\<rparr>)" using a(2) by (simp add: earnings_sound_def)
  moreover have "other_earnings (pay_id p) (w\<lparr>earnings := t\<rparr>) = other_earnings (pay_id p) w"
    using a(3) by (simp add: other_earnings_def)
  ultimately show ?thesis by (intro exI [of _ t]) simp
qed

text \<open>The three tables a refund touches; the rest is framed.\<close>

definition refund_frame :: "world \<Rightarrow> world" where
  "refund_frame w = business (w\<lparr>refunds := [], payments := [], earnings := []\<rparr>)"

lemma refund_frame_business: "business w = business w' \<Longrightarrow> refund_frame w = refund_frame w'"
  by (cases w; cases w') (simp add: refund_frame_def business_def)

lemma refund_frame_simps [simp]:
  "refund_frame (w\<lparr>refunds := a, payments := b, earnings := c\<rparr>) = refund_frame w"
  "refund_frame (w\<lparr>refunds := a\<rparr>) = refund_frame w"
  "refund_frame (increment_counter n w) = refund_frame w"
  "refund_frame (snd (record_domain_event ev e w)) = refund_frame w"
  "refund_frame (snd (enqueue_task ev t i w)) = refund_frame w"
  by (simp_all add: refund_frame_def business_def increment_counter_def record_domain_event_def
      domain_event_create_def enqueue_task_def Let_def)

lemma sound_by_tables:
  "earnings w = earnings w' \<Longrightarrow> earnings_sound w = earnings_sound w'"
  "refunds w = refunds w' \<Longrightarrow> payments w = payments w' \<Longrightarrow> amounts_ok w = amounts_ok w'"
  "refunds w = refunds w' \<Longrightarrow> refund_sum_succeeded p w = refund_sum_succeeded p w'"
  "payments w = payments w' \<Longrightarrow> payment_get p w = payment_get p w'"
  "refunds w = refunds w' \<Longrightarrow> refund_get p w = refund_get p w'"
  by (simp_all add: earnings_sound_def amounts_ok_def refund_sum_succeeded_def payment_get_def refund_get_def)

lemma sound_frames [simp]:
  "earnings_sound (increment_counter n w) = earnings_sound w"
  "earnings_sound (snd (record_domain_event ev e w)) = earnings_sound w"
  "earnings_sound (snd (enqueue_task ev t i w)) = earnings_sound w"
  "amounts_ok (increment_counter n w) = amounts_ok w"
  "amounts_ok (snd (record_domain_event ev e w)) = amounts_ok w"
  "amounts_ok (snd (enqueue_task ev t i w)) = amounts_ok w"
  by (simp_all add: earnings_sound_def amounts_ok_def)

definition refunded_payments :: "payment \<Rightarrow> int \<Rightarrow> payment list \<Rightarrow> payment list" where
  "refunded_payments p refunded t =
     (if pay_amount_minor p \<le> refunded then tbl_set pay_id (p\<lparr>pay_status := PAY_REFUNDED\<rparr>) t else t)"

lemma payment_get_refunded:
  assumes "payment_get i w = Some q" and "payment_get (pay_id p) w = Some p"
    and "payments w' = refunded_payments p refunded (payments w)"
  shows "payment_get i w' = Some (if i = pay_id p \<and> pay_amount_minor p \<le> refunded then p\<lparr>pay_status := PAY_REFUNDED\<rparr> else q)"
  using assms by (auto simp: payment_get_def refunded_payments_def tbl_get_set dest!: tbl_get_key)

lemma mark_refund_succeeded_effect:
  assumes ok: "amounts_ok w" "earnings_sound w" and r: "refund_get (rf_id r) w = Some r"
    and ns: "rf_status r \<noteq> RF_SUCCEEDED" and p: "payment_get (rf_payment_id r) w = Some p"
  shows "\<exists>w'. mark_refund_succeeded ev (rf_id r) ref actor i w = (Inr (settled_refund ev r ref), w') \<and>
    refunds w' = tbl_set rf_id (settled_refund ev r ref) (refunds w) \<and>
    payments w' = refunded_payments p (refund_sum_succeeded (pay_id p) w + rf_amount_minor r) (payments w) \<and>
    earnings_sound w' \<and> refund_frame w' = refund_frame w \<and> other_earnings (pay_id p) w' = other_earnings (pay_id p) w"
proof -
  let ?u = "settled_refund ev r ref"
  let ?ps = "refunded_payments p (refund_sum_succeeded (pay_id p) w + rf_amount_minor r) (payments w)"
  from settle_refund_total [OF ok r ns p, of ev ref] obtain t where
    s: "settle_refund ev r ref w = Inr (?u, w\<lparr>refunds := tbl_set rf_id ?u (refunds w), payments := ?ps, earnings := t\<rparr>)"
    and e: "earnings_sound (w\<lparr>earnings := t\<rparr>)" "other_earnings (pay_id p) (w\<lparr>earnings := t\<rparr>) = other_earnings (pay_id p) w"
    by (auto simp: refunded_payments_def)
  let ?w1 = "w\<lparr>refunds := tbl_set rf_id ?u (refunds w), payments := ?ps, earnings := t\<rparr>"
  have pid: "pay_id p = rf_payment_id r" using payment_get_mem [OF p] by simp
  have "payment_get (rf_payment_id ?u) ?w1 \<noteq> None"
    using payment_get_refunded [of "rf_payment_id r" w p p ?w1] p pid by (simp add: settled_refund_def)
  then obtain q where q: "payment_get (rf_payment_id ?u) ?w1 = Some q" by blast
  have "mark_refund_succeeded ev (rf_id r) ref actor i w =
      announce_refund ev TASK_REFUND_SUCCEEDED ''refunds_succeeded_total'' ''refund_succeeded'' ''success'' actor i ?u ?w1"
    using r ns s by (simp add: mark_refund_succeeded_def)
  moreover have "earnings_sound ?w1" "other_earnings (pay_id p) ?w1 = other_earnings (pay_id p) w"
    using e by (simp_all add: earnings_sound_def other_earnings_def)
  ultimately show ?thesis
    using q by (simp add: announce_refund_def other_earnings_def)
qed

lemma mark_refund_succeeded_payment:
  assumes "refund_get rid w = Some r"
  shows "mark_refund_succeeded ev rid = mark_refund_succeeded ev (rf_id r)"
  using refund_get_mem [OF assms] by simp

lemma tbl_set_absent: "ident r \<notin> ident ` set t \<Longrightarrow> tbl_set ident r t = t"
  by (induction t) (auto simp: tbl_set_def)

lemma tbl_set_snoc:
  assumes "ident r = ident r'" and "ident r \<notin> ident ` set t" shows "tbl_set ident r (t @ [r']) = t @ [r]"
  using tbl_set_absent [OF assms(2)] assms(1) by (simp add: tbl_set_def)

text \<open>
  A refund within the refundable balance goes through: one settled row is added, the payment
  turns to refunded when nothing is left to refund, and the earning is adjusted.
\<close>

lemma create_refund_effect:
  assumes ok: "amounts_ok w" "earnings_sound w" and p: "payment_get (pay_id p) w = Some p"
    and mock: "pay_provider_name p = ''mock''" and st: "pay_status p \<in> {PAY_SUCCEEDED, PAY_REFUNDED}"
    and a: "0 < a" "a \<le> get_refundable_remaining_minor p w"
  shows "\<exists>r w'. create_refund ev p a actor i w = (Inr (Some r), w') \<and>
    rf_id r \<notin> rf_id ` set (refunds w) \<and> rf_payment_id r = pay_id p \<and> rf_amount_minor r = a \<and>
    rf_status r = RF_SUCCEEDED \<and> rf_currency r = pay_currency p \<and> refunds w' = refunds w @ [r] \<and>
    payments w' = refunded_payments p (refund_sum_succeeded (pay_id p) w + a) (payments w) \<and>
    earnings_sound w' \<and> refund_frame w' = refund_frame w \<and> other_earnings (pay_id p) w' = other_earnings (pay_id p) w"
proof -
  let ?d = "\<lparr>rf_id = tbl_fresh rf_id (refunds w), rf_payment_id = pay_id p, rf_amount_minor = a,
              rf_currency = pay_currency p, rf_provider_refund_id = None,
              rf_status = RF_PENDING, rf_processed_at = None, rf_created_at = now ev\<rparr>"
  let ?w1 = "w\<lparr>refunds := refunds w @ [?d]\<rparr>"
  let ?w2 = "record_event ev (refund_event ''refund_initiated'' ''info'' actor i ?d p)
               (enqueue ev TASK_REFUND_INITIATED (pay_appointment_id p) ?w1)"
  let ?ref = "Some (rpr_provider_refund_id (mock_create_refund ev (rf_id ?d)))"
  have fresh: "rf_id ?d \<notin> rf_id ` set (refunds w)" by simp
  have ok2: "amounts_ok ?w2" "earnings_sound ?w2"
    using ok a(1) fresh by (auto simp: amounts_ok_def tbl_ok_append earnings_sound_def)
  have rg: "refund_get (rf_id ?d) ?w2 = Some ?d"
  proof -
    have "tbl_get rf_id (rf_id ?d) (refunds w) = None" using fresh by (simp add: tbl_get_None)
    then show ?thesis by (simp add: refund_get_def tbl_get_append)
  qed
  have pg: "payment_get (rf_payment_id ?d) ?w2 = Some p" using p by (simp add: payment_get_def)
  have sum: "refund_sum_succeeded (pay_id p) ?w2 = refund_sum_succeeded (pay_id p) w"
    by (simp add: refund_sum_succeeded_def)
  obtain w' where m: "mark_refund_succeeded ev (rf_id ?d) ?ref actor i ?w2 = (Inr (settled_refund ev ?d ?ref), w')"
    and w': "refunds w' = tbl_set rf_id (settled_refund ev ?d ?ref) (refunds ?w2)"
      "payments w' = refunded_payments p (refund_sum_succeeded (pay_id p) ?w2 + rf_amount_minor ?d) (payments ?w2)"
      "earnings_sound w'" "refund_frame w' = refund_frame ?w2" "other_earnings (pay_id p) w' = other_earnings (pay_id p) ?w2"
    using mark_refund_succeeded_effect [OF ok2 rg _ pg, of ev ?ref actor i] by auto
  have "create_refund ev p a actor i w = (Inr (Some (settled_refund ev ?d ?ref)), w')"
    using a st mock m
    by (simp add: create_refund_def refund_create_ok mock_create_refund_def Let_def)
  moreover have "refunds w' = refunds w @ [settled_refund ev ?d ?ref]"
    using w'(1) fresh by (simp add: tbl_set_snoc settled_refund_def)
  ultimately show ?thesis
    using fresh w'(2-5) sum
    by (intro exI [of _ "settled_refund ev ?d ?ref"] exI [of _ w']) (simp add: settled_refund_def other_earnings_def)
qed

section \<open>The refundable amount\<close>

lemma remaining_nonneg: "0 \<le> get_refundable_remaining_minor p w"
  by (simp add: get_refundable_remaining_minor_def Let_def)

lemma calculate_refund_amount_bounds:
  "0 \<le> calculate_refund_amount a p t w \<and> calculate_refund_amount a p t w \<le> get_refundable_remaining_minor p w"
  using remaining_nonneg [of p w]
  by (auto simp: calculate_refund_amount_def Let_def split: option.splits)

lemma moderate_retained_nonneg:
  assumes "0 \<le> pay_amount_minor p" and "\<forall>d. svc_deposit_amount_minor s = Some d \<longrightarrow> 0 \<le> d"
  shows "0 \<le> moderate_late_retained_amount_minor (Some s) p"
  using assms by (auto simp: moderate_late_retained_amount_minor_def split: option.split)

lemma half_nonneg: "0 \<le> n \<Longrightarrow> 0 \<le> round_half_up (of_int n * (50/100))"
  by (intro round_half_up_nonneg) simp

lemma refund_target_mono:
  assumes "0 \<le> pay_amount_minor p" and "\<forall>d. svc_deposit_amount_minor s = Some d \<longrightarrow> 0 \<le> d" and "t \<le> t'"
  shows "refund_target s p t \<le> refund_target s p t'"
  using moderate_retained_nonneg [OF assms(1,2)] half_nonneg [OF assms(1)] assms(1,3)
  by (auto simp: refund_target_def split: cancellation_policy_type.split)

lemma calculate_refund_amount_antimono:
  assumes "0 \<le> pay_amount_minor p" and "\<forall>s \<in> set (services w). \<forall>d. svc_deposit_amount_minor s = Some d \<longrightarrow> 0 \<le> d"
    and "t \<le> t'"
  shows "calculate_refund_amount a p t' w \<le> calculate_refund_amount a p t w"
proof (cases "appointment_service a w")
  case None
  then show ?thesis by (simp add: calculate_refund_amount_def)
next
  case (Some s)
  then have "s \<in> set (services w)"
    by (auto simp: appointment_service_def service_get_def bind_eq_Some_conv dest: tbl_get_Some)
  then have "refund_target s p (apt_start_datetime a - t') \<le> refund_target s p (apt_start_datetime a - t)"
    using refund_target_mono [OF assms(1), of s] assms(2,3) by auto
  with Some show ?thesis by (auto simp: calculate_refund_amount_def Let_def)
qed

section \<open>Properties\<close>

text \<open>
  C25. A refund within the balance of a paid payment goes through completely, on sound books and with
  the mock provider, the only one of the code: exactly one settled row of that amount is added, the
  succeeded refunds of the payment grow by the amount and stay within what was paid, the payment becomes
  refunded precisely when nothing is left (and otherwise keeps its status), the earnings stay
  balanced, and no other payment and no earning of another payment changes.  Of the rest of the world
  the theorem leaves open the audit events, the counters, the tasks handed to the broker and the
  store of the rate limiter; no other table changes.
\<close>

theorem refund_within_balance_settles:
  assumes "amounts_ok w" "earnings_sound w" and "payment_get (pay_id p) w = Some p"
    and "pay_provider_name p = ''mock''" and "pay_status p \<in> {PAY_SUCCEEDED, PAY_REFUNDED}"
    and "0 < a" "a \<le> get_refundable_remaining_minor p w"
  shows "\<exists>r w'. create_refund ev p a actor i w = (Inr (Some r), w') \<and> rf_status r = RF_SUCCEEDED \<and>
    rf_amount_minor r = a \<and> refunds w' = refunds w @ [r] \<and>
    refund_sum_succeeded (pay_id p) w' = refund_sum_succeeded (pay_id p) w + a \<and>
    refund_sum_succeeded (pay_id p) w' \<le> pay_amount_minor p \<and>
    map_option pay_status (payment_get (pay_id p) w') =
      Some (if get_refundable_remaining_minor p w = a then PAY_REFUNDED else pay_status p) \<and>
    [q \<leftarrow> payments w'. pay_id q \<noteq> pay_id p] = [q \<leftarrow> payments w. pay_id q \<noteq> pay_id p] \<and>
    earnings_sound w' \<and> other_earnings (pay_id p) w' = other_earnings (pay_id p) w \<and> refund_frame w' = refund_frame w"
proof -
  from create_refund_effect [OF assms, of ev actor i] obtain r w' where
    c: "create_refund ev p a actor i w = (Inr (Some r), w')"
    and r: "rf_payment_id r = pay_id p" "rf_amount_minor r = a" "rf_status r = RF_SUCCEEDED"
    and w': "refunds w' = refunds w @ [r]" "earnings_sound w'" "refund_frame w' = refund_frame w"
      "other_earnings (pay_id p) w' = other_earnings (pay_id p) w"
    and ps: "payments w' = refunded_payments p (refund_sum_succeeded (pay_id p) w + a) (payments w)"
    by blast
  have sum: "refund_sum_succeeded (pay_id p) w' = refund_sum_succeeded (pay_id p) w + a"
    using r w'(1) by (simp add: refund_sum_succeeded_def)
  have le: "refund_sum_succeeded (pay_id p) w + a \<le> pay_amount_minor p"
    using assms(6,7) by (simp add: get_refundable_remaining_minor_def Let_def)
  have "get_refundable_remaining_minor p w = a \<longleftrightarrow> pay_amount_minor p \<le> refund_sum_succeeded (pay_id p) w + a"
    using le assms(6) by (auto simp: get_refundable_remaining_minor_def Let_def)
  moreover have "[q \<leftarrow> payments w'. pay_id q \<noteq> pay_id p] = [q \<leftarrow> payments w. pay_id q \<noteq> pay_id p]"
    by (simp add: ps refunded_payments_def filter_tbl_set)
  ultimately show ?thesis
    using c r w' sum le payment_get_refunded [OF assms(3,3) ps] by auto
qed

definition sample_paid_payment :: payment where
  "sample_paid_payment = sample_payment\<lparr>pay_status := PAY_SUCCEEDED, pay_paid_at := Some (8 * hour_us)\<rparr>"

lemma paid_world_amounts_ok: "amounts_ok paid_world"
  by (simp add: amounts_ok_def tbl_ok_def sample_defs)

theorem refund_within_balance_settles_witness:
  "\<exists>r w'. create_refund sample_env sample_paid_payment 1000 ''user'' None paid_world = (Inr (Some r), w') \<and>
     map_option pay_status (payment_get 1 w') = Some PAY_REFUNDED \<and> refund_sum_succeeded 1 w' = 1000"
proof -
  have "payment_get (pay_id sample_paid_payment) paid_world = Some sample_paid_payment"
    "pay_provider_name sample_paid_payment = ''mock''"
    "pay_status sample_paid_payment \<in> {PAY_SUCCEEDED, PAY_REFUNDED}"
    and rem: "get_refundable_remaining_minor sample_paid_payment paid_world = 1000"
    "refund_sum_succeeded 1 paid_world = 0" "pay_id sample_paid_payment = 1"
    by (simp_all add: sample_paid_payment_def sample_defs payment_get_def tbl_get_def
        get_refundable_remaining_minor_def refund_sum_succeeded_def Let_def)
  from refund_within_balance_settles [OF paid_world_amounts_ok sample_earnings_sound this(1-3), of 1000 sample_env "''user''" None]
  show ?thesis by (auto simp: rem)
qed

text \<open>
  A refund outside the balance is refused before anything is written: a negative amount, a
  payment that has not succeeded, or more than the refundable remainder raise an error and leave
  the world as it was, notifications and audit events included.
\<close>

theorem refund_outside_balance_refused:
  assumes "a < 0 \<or> (0 < a \<and> (pay_status p \<notin> {PAY_SUCCEEDED, PAY_REFUNDED} \<or> get_refundable_remaining_minor p w < a))"
  shows "\<exists>msg. create_refund ev p a actor i w = (Inl (ValueError msg), w)"
  using assms by (auto simp: create_refund_def)

theorem refund_outside_balance_refused_witness:
  "\<exists>msg. create_refund sample_env sample_paid_payment 1001 ''user'' None paid_world = (Inl (ValueError msg), paid_world)"
proof (rule refund_outside_balance_refused)
  show "1001 < 0 \<or> (0 < (1001::int) \<and> (pay_status sample_paid_payment \<notin> {PAY_SUCCEEDED, PAY_REFUNDED} \<or>
      get_refundable_remaining_minor sample_paid_payment paid_world < 1001))"
    by (simp add: sample_paid_payment_def sample_defs get_refundable_remaining_minor_def
        refund_sum_succeeded_def Let_def)
qed

text \<open>
  Cancelling earlier never pays back less: under every policy the refund for a cancellation is
  between nothing and the refundable remainder and does not grow as the appointment draws nearer.
\<close>

theorem refund_amount_antimono:
  assumes "0 \<le> pay_amount_minor p" and "\<forall>s \<in> set (services w). \<forall>d. svc_deposit_amount_minor s = Some d \<longrightarrow> 0 \<le> d"
    and "t \<le> t'"
  shows "0 \<le> calculate_refund_amount a p t' w \<and>
    calculate_refund_amount a p t' w \<le> calculate_refund_amount a p t w \<and>
    calculate_refund_amount a p t w \<le> get_refundable_remaining_minor p w"
  using calculate_refund_amount_antimono [OF assms] calculate_refund_amount_bounds by blast

theorem refund_amount_antimono_witness:
  "calculate_refund_amount sample_appointment sample_paid_payment (10 * hour_us) paid_world
     \<le> calculate_refund_amount sample_appointment sample_paid_payment (8 * hour_us) paid_world"
  using refund_amount_antimono [of sample_paid_payment paid_world "8 * hour_us" "10 * hour_us" sample_appointment]
  by (simp add: sample_paid_payment_def sample_defs hour_us_def)

text \<open>
  A service cannot ask for no notice: a moderate or strict policy configured with a window of
  zero hours refuses the full refund within the default window, exactly as the default itself
  does; a window of one hour would have granted it.
\<close>

theorem zero_window_is_default:
  assumes "svc_cancellation_window_hours s = 0"
  shows "refund_target s p t = refund_target (s\<lparr>svc_cancellation_window_hours :=
           (if svc_cancellation_policy_type s = STRICT then STRICT_DEFAULT_WINDOW_HOURS
            else MODERATE_DEFAULT_WINDOW_HOURS)\<rparr>) p t"
  using assms
  by (simp add: refund_target_def window_or_def moderate_late_retained_amount_minor_def
      STRICT_DEFAULT_WINDOW_HOURS_def MODERATE_DEFAULT_WINDOW_HOURS_def split: cancellation_policy_type.split)

theorem zero_window_is_default_witness:
  "refund_target (sample_service\<lparr>svc_cancellation_policy_type := MODERATE, svc_cancellation_window_hours := 0\<rparr>)
     sample_paid_payment (3 * hour_us) = 800 \<and>
   refund_target (sample_service\<lparr>svc_cancellation_policy_type := MODERATE, svc_cancellation_window_hours := 1\<rparr>)
     sample_paid_payment (3 * hour_us) = 1000"
proof
  let ?s = "sample_service\<lparr>svc_cancellation_policy_type := MODERATE, svc_cancellation_window_hours := 0\<rparr>"
  have "refund_target (?s\<lparr>svc_cancellation_window_hours := MODERATE_DEFAULT_WINDOW_HOURS\<rparr>)
      sample_paid_payment (3 * hour_us) = 800" by code_simp
  then show "refund_target ?s sample_paid_payment (3 * hour_us) = 800"
    using zero_window_is_default [of ?s sample_paid_payment "3 * hour_us"] by simp
  show "refund_target (sample_service\<lparr>svc_cancellation_policy_type := MODERATE, svc_cancellation_window_hours := 1\<rparr>)
      sample_paid_payment (3 * hour_us) = 1000" by code_simp
qed

end
