(* ===== verification/Payments.thy ===== *)
theory Payments
  imports Refunds
begin

text \<open>
  \<^verbatim>\<open>services/payments/service.py\<close> with the checkout provider of
  \<^verbatim>\<open>services/payments/mock_provider.py\<close>: the amount a booking owes, the checkout session,
  the status updates a provider's webhook sends, and the expiry of payments nobody completed.
  Each operation is one transaction followed by its announcements; expiry is one transaction for
  each payment.
\<close>

definition required_amount_minor :: "service \<Rightarrow> int result" where
  "required_amount_minor service =
     (case validate_service_payment_policy (svc_requires_payment service) (svc_payment_type service)
             (svc_price service) (svc_currency service) (svc_deposit_amount_minor service) of
        Inl e \<Rightarrow> Inl e
      | Inr _ \<Rightarrow>
      if svc_payment_type service = DEPOSIT
      then Inr (case svc_deposit_amount_minor service of None \<Rightarrow> 0 | Some d \<Rightarrow> d)
      else (case (svc_price service, svc_currency service) of
              (Some price, Some currency) \<Rightarrow> Inr (decimal_to_minor price currency)
            | _ \<Rightarrow> Inl (TypeError ''unsupported operand NoneType'')))"

section \<open>The summary a customer sees\<close>

record payment_summary =
  psm_payment_required :: bool
  psm_payment_status :: "payment_status option"
  psm_amount_due_minor :: "int option"
  psm_currency :: "string option"
  psm_checkout_url :: "string option"
  psm_checkout_session_id :: "string option"
  psm_provider_name :: "string option"
  psm_expires_at :: "instant option"
  psm_refund_status :: "refund_status option"
  psm_refund_amount_minor :: "int option"
  psm_refund_processed_at :: "instant option"

definition no_summary :: payment_summary where
  "no_summary =
     \<lparr>psm_payment_required = False, psm_payment_status = None, psm_amount_due_minor = None,
      psm_currency = None, psm_checkout_url = None, psm_checkout_session_id = None,
      psm_provider_name = None, psm_expires_at = None, psm_refund_status = None,
      psm_refund_amount_minor = None, psm_refund_processed_at = None\<rparr>"

definition pending_expires_at :: "env \<Rightarrow> payment \<Rightarrow> instant" where
  "pending_expires_at ev payment = pay_created_at payment + pending_expiration_minutes ev * minute_us"

definition get_customer_payment_summary :: "env \<Rightarrow> appointment \<Rightarrow> world \<Rightarrow> payment_summary result" where
  "get_customer_payment_summary ev appointment w =
     (case appointment_service appointment w of
        None \<Rightarrow> Inr no_summary
      | Some service \<Rightarrow>
      if \<not> svc_requires_payment service then Inr no_summary
      else case required_amount_minor service of
        Inl e \<Rightarrow> Inl e
      | Inr amount_due_minor \<Rightarrow>
       (let currency = (case svc_currency service of None \<Rightarrow> None | Some c \<Rightarrow> if c = [] then None else Some (upper c)) in
        case payment_get_latest_for_appointment (apt_id appointment) w of
          None \<Rightarrow> Inr (no_summary\<lparr>psm_payment_required := True,
                                  psm_amount_due_minor := Some amount_due_minor, psm_currency := currency\<rparr>)
        | Some payment \<Rightarrow>
         (let pending = pay_status payment \<in> {PAY_PENDING, PAY_REQUIRES_ACTION};
              latest_refund = refund_get_latest_for_payment (pay_id payment) w in
          Inr \<lparr>psm_payment_required = True, psm_payment_status = Some (pay_status payment),
               psm_amount_due_minor = Some (pay_amount_minor payment), psm_currency = Some (pay_currency payment),
               psm_checkout_url = (if pending then pay_provider_checkout_url payment else None),
               psm_checkout_session_id = pay_provider_checkout_session_id payment,
               psm_provider_name = Some (pay_provider_name payment),
               psm_expires_at = (if pending then Some (pending_expires_at ev payment) else None),
               psm_refund_status = map_option rf_status latest_refund,
               psm_refund_amount_minor = map_option rf_amount_minor latest_refund,
               psm_refund_processed_at = Option.bind latest_refund rf_processed_at\<rparr>)))"

section \<open>Checkout\<close>

record checkout_session =
  cs_checkout_session_id :: string
  cs_payment_intent_id :: string
  cs_checkout_url :: string
  cs_status :: string

definition mock_create_checkout_session :: "env \<Rightarrow> int \<Rightarrow> checkout_session" where
  "mock_create_checkout_session ev payment_id =
     (let session_id = ''mock_cs_'' @ token_hex ev ''checkout_session'' payment_id in
      \<lparr>cs_checkout_session_id = session_id,
       cs_payment_intent_id = ''mock_pi_'' @ token_hex ev ''payment_intent'' payment_id,
       cs_checkout_url = ''https://mock-pay.bookpoint.local/checkout/'' @ session_id,
       cs_status = payment_status_value PAY_REQUIRES_ACTION\<rparr>)"

definition payment_event ::
  "string \<Rightarrow> string \<Rightarrow> string \<Rightarrow> payment \<Rightarrow> (string \<times> json) list \<Rightarrow> domain_event" where
  "payment_event event_type status actor_type payment payload =
     (event_defaults event_type)
       \<lparr>ev_entity_type := Some ''payment'', ev_entity_id := Some (pay_id payment),
        ev_organization_id := Some (pay_organization_id payment), ev_actor_type := actor_type,
        ev_related_payment_id := Some (pay_id payment),
        ev_related_appointment_id := Some (pay_appointment_id payment), ev_status := status,
        ev_payload_json := JObj payload\<rparr>"

definition opt_json :: "string option \<Rightarrow> json" where
  "opt_json v = (case v of None \<Rightarrow> JNull | Some s \<Rightarrow> JStr s)"

definition open_checkout :: "env \<Rightarrow> appointment \<Rightarrow> service \<Rightarrow> int \<Rightarrow> string \<Rightarrow> world
    \<Rightarrow> ((payment \<times> checkout_session) \<times> world) result" where
  "open_checkout ev appointment service amount_minor currency w =
     (case payment_create ev
             \<lparr>pay_id = 0, pay_appointment_id = apt_id appointment,
              pay_organization_id = apt_organization_id appointment, pay_amount_minor = amount_minor,
              pay_currency = currency, pay_provider_name = ''mock'',
              pay_provider_payment_intent_id = None, pay_provider_checkout_session_id = None,
              pay_provider_checkout_url = None, pay_status = PAY_PENDING,
              pay_payment_type = svc_payment_type service, pay_paid_at = None, pay_created_at = 0\<rparr> w of
        Inl e \<Rightarrow> Inl e
      | Inr (payment, w1) \<Rightarrow>
       (let session = mock_create_checkout_session ev (pay_id payment) in
        case payment_status_of_value (cs_status session) of
          Inl e \<Rightarrow> Inl e
        | Inr status \<Rightarrow>
         (let payment' = payment\<lparr>pay_provider_checkout_session_id := Some (cs_checkout_session_id session),
                                 pay_provider_payment_intent_id := Some (cs_payment_intent_id session),
                                 pay_provider_checkout_url := Some (cs_checkout_url session),
                                 pay_status := status\<rparr> in
          case payment_update payment' w1 of
            Inl e \<Rightarrow> Inl e
          | Inr w2 \<Rightarrow> Inr ((payment', session), w2))))"

definition create_checkout_session_for_appointment ::
  "env \<Rightarrow> appointment \<Rightarrow> string \<Rightarrow> world \<Rightarrow> ((payment \<times> checkout_session) option \<times> world) result" where
  "create_checkout_session_for_appointment ev appointment provider_name w =
     (case appointment_service appointment w of
        None \<Rightarrow> Inr (None, w)
      | Some service \<Rightarrow>
      if \<not> svc_requires_payment service then Inr (None, w)
      else if provider_name \<noteq> ''mock''
      then Inl (ValueError (''Unsupported payment provider: '' @ provider_name))
      else case required_amount_minor service of
        Inl e \<Rightarrow> Inl e
      | Inr amount_minor \<Rightarrow>
       (let currency = upper (case svc_currency service of None \<Rightarrow> [] | Some c \<Rightarrow> c) in
        if currency = [] then Inl (ValueError ''Service currency is required for paid bookings.'')
        else case open_checkout ev appointment service amount_minor currency w of
          Inl e \<Rightarrow> Inl e
        | Inr ((payment, session), w1) \<Rightarrow>
            Inr (Some (payment, session),
                 record_event ev
                   (payment_event ''payment_required'' ''success'' ''system'' payment
                      [(''provider_name'', JStr (pay_provider_name payment)),
                       (''amount_minor'', JInt (pay_amount_minor payment)),
                       (''currency'', JStr (pay_currency payment)),
                       (''checkout_session_id'', opt_json (pay_provider_checkout_session_id payment))])
                   (increment_counter ''payments_required_total''
                     (enqueue ev TASK_PAYMENT_REQUIRED (apt_id appointment) w1)))))"

section \<open>Status updates\<close>

definition cancel_pending_payment_appointment ::
  "env \<Rightarrow> appointment \<Rightarrow> string \<Rightarrow> world \<Rightarrow> (bool \<times> world) result" where
  "cancel_pending_payment_appointment ev appointment reason_note w =
     (if apt_status appointment \<noteq> APT_PENDING_PAYMENT then Inr (False, w)
      else
       (let merged_notes = or_else (apt_notes appointment) (Some reason_note) in
        case appointment_update ev (appointment\<lparr>apt_status := APT_CANCELLED, apt_notes := merged_notes\<rparr>) w of
          Inl e \<Rightarrow> Inl e
        | Inr w' \<Rightarrow> Inr (True, w')))"

definition resolve_payment_for_status_update ::
  "string \<Rightarrow> string option \<Rightarrow> string option \<Rightarrow> world \<Rightarrow> payment result" where
  "resolve_payment_for_status_update provider_name checkout_session_id payment_intent_id w =
     (case or_else checkout_session_id None of
        Some s \<Rightarrow>
         (case payment_get_by_checkout_session_id s w of
            None \<Rightarrow> Inl (LookupError ''Payment not found.'')
          | Some p \<Rightarrow> if pay_provider_name p \<noteq> provider_name then Inl (LookupError ''Payment not found.'') else Inr p)
      | None \<Rightarrow>
      case or_else payment_intent_id None of
        Some s \<Rightarrow>
         (case payment_get_by_payment_intent_id s w of
            None \<Rightarrow> Inl (LookupError ''Payment not found.'')
          | Some p \<Rightarrow> if pay_provider_name p \<noteq> provider_name then Inl (LookupError ''Payment not found.'') else Inr p)
      | None \<Rightarrow> Inl (ValueError ''Payment identifier is required.''))"

definition unsuccessful_note :: string where
  "unsuccessful_note = ''Auto-cancelled due to unsuccessful payment.''"

definition timeout_note :: string where
  "timeout_note = ''Auto-cancelled due to payment timeout.''"

text \<open>The transaction: whether an earning was created and whether the appointment was cancelled.\<close>

definition apply_payment_status ::
  "env \<Rightarrow> payment \<Rightarrow> payment_status \<Rightarrow> world \<Rightarrow> ((bool \<times> bool) \<times> world) result" where
  "apply_payment_status ev payment status w =
     (case payment_update payment w of
        Inl e \<Rightarrow> Inl e
      | Inr w1 \<Rightarrow>
      case appointment_get (pay_appointment_id payment) w1 of
        None \<Rightarrow> Inl (LookupError ''Appointment not found.'')
      | Some appointment \<Rightarrow>
      if status = PAY_SUCCEEDED then
       (let appointment' =
              (if apt_status appointment \<in> {APT_PENDING_PAYMENT, APT_PENDING}
               then appointment\<lparr>apt_status := APT_CONFIRMED\<rparr> else appointment) in
        case (if apt_status appointment \<in> {APT_PENDING_PAYMENT, APT_PENDING}
              then appointment_update ev appointment' w1 else Inr w1) of
          Inl e \<Rightarrow> Inl e
        | Inr w2 \<Rightarrow>
        case ensure_earning_for_payment ev payment appointment' w2 of
          Inl e \<Rightarrow> Inl e
        | Inr ((_, earning_created), w3) \<Rightarrow> Inr ((earning_created, False), w3))
      else if status \<in> {PAY_FAILED, PAY_CANCELED} then
       (case cancel_pending_payment_appointment ev appointment unsuccessful_note w1 of
          Inl e \<Rightarrow> Inl e
        | Inr (auto_cancelled, w2) \<Rightarrow> Inr ((False, auto_cancelled), w2))
      else Inr ((False, False), w1))"

definition announce_payment_status ::
  "env \<Rightarrow> payment \<Rightarrow> payment_status \<Rightarrow> bool \<Rightarrow> bool \<Rightarrow> world \<Rightarrow> world" where
  "announce_payment_status ev payment status earning_created auto_cancelled w =
     (let aid = pay_appointment_id payment;
          w1 = (if earning_created
                then record_event ev
                       (payment_event ''earning_created'' ''success'' ''system'' payment
                          [(''appointment_id'', JInt aid), (''payment_id'', JInt (pay_id payment))])
                       (enqueue ev TASK_EARNING_CREATED aid w)
                else w);
          payload = [(''provider_name'', JStr (pay_provider_name payment)),
                     (''status'', JStr (payment_status_value status))];
          w2 = (if status = PAY_SUCCEEDED
                then record_event ev (payment_event ''payment_confirmed'' ''success'' ''webhook'' payment payload)
                       (increment_counter ''payments_succeeded_total'' (enqueue ev TASK_PAYMENT_SUCCEEDED aid w1))
                else if status \<in> {PAY_FAILED, PAY_CANCELED}
                then record_event ev (payment_event ''payment_failed'' ''failure'' ''webhook'' payment payload)
                       (increment_counter ''payments_failed_total'' (enqueue ev TASK_PAYMENT_FAILED aid w1))
                else w1) in
      if auto_cancelled then enqueue ev TASK_APPOINTMENT_CANCELLED aid w2 else w2)"

definition mark_payment_status ::
  "env \<Rightarrow> string \<Rightarrow> payment_status \<Rightarrow> string option \<Rightarrow> string option \<Rightarrow> world \<Rightarrow> (payment \<times> world) result" where
  "mark_payment_status ev provider_name status checkout_session_id payment_intent_id w =
     (case resolve_payment_for_status_update provider_name checkout_session_id payment_intent_id w of
        Inl e \<Rightarrow> Inl e
      | Inr payment \<Rightarrow>
       (let previous_status = pay_status payment in
        if previous_status = status then Inr (payment, w)
        else if previous_status \<in> {PAY_SUCCEEDED, PAY_REFUNDED} \<and>
                status \<in> {PAY_PENDING, PAY_REQUIRES_ACTION, PAY_FAILED, PAY_CANCELED}
        then Inr (payment, w)
        else
         (let paid_at = (if status = PAY_SUCCEEDED then Some (now ev) else None);
              payment' = payment\<lparr>pay_status := status, pay_paid_at := paid_at\<rparr> in
          case apply_payment_status ev payment' status w of
            Inl e \<Rightarrow> Inl e
          | Inr ((earning_created, auto_cancelled), w') \<Rightarrow>
              Inr (payment', announce_payment_status ev payment' status earning_created auto_cancelled w'))))"

section \<open>Expiry\<close>

record expiry_counts =
  exp_checked :: int
  exp_expired :: int
  exp_auto_canceled_appointments :: int
  exp_failed :: int

text \<open>The transaction for one stale payment; nothing when it is skipped.\<close>

definition expire_payment :: "env \<Rightarrow> int \<Rightarrow> world \<Rightarrow> ((payment \<times> appointment \<times> bool) option \<times> world) result" where
  "expire_payment ev payment_id w =
     (case payment_get payment_id w of
        None \<Rightarrow> Inr (None, w)
      | Some payment \<Rightarrow>
      if pay_status payment \<notin> {PAY_PENDING, PAY_REQUIRES_ACTION} then Inr (None, w)
      else case appointment_get (pay_appointment_id payment) w of
        None \<Rightarrow> Inr (None, w)
      | Some appointment \<Rightarrow>
      case payment_update (payment\<lparr>pay_status := PAY_CANCELED, pay_paid_at := None\<rparr>) w of
        Inl e \<Rightarrow> Inl e
      | Inr w1 \<Rightarrow>
      case cancel_pending_payment_appointment ev appointment timeout_note w1 of
        Inl e \<Rightarrow> Inl e
      | Inr (auto_canceled, w2) \<Rightarrow> Inr (Some (payment, appointment, auto_canceled), w2))"

definition announce_expiry :: "env \<Rightarrow> payment \<Rightarrow> appointment \<Rightarrow> world \<Rightarrow> world" where
  "announce_expiry ev payment appointment w =
     record_event ev
       ((event_defaults ''booking_auto_canceled_payment_timeout'')
          \<lparr>ev_entity_type := Some ''appointment'', ev_entity_id := Some (apt_id appointment),
           ev_organization_id := Some (apt_organization_id appointment), ev_actor_type := ''worker'',
           ev_related_payment_id := Some (pay_id payment),
           ev_related_appointment_id := Some (apt_id appointment), ev_status := ''failure'',
           ev_payload_json := JObj [(''payment_id'', JInt (pay_id payment)),
                                    (''previous_appointment_status'', JStr ''pending_payment'')]\<rparr>)
       (increment_counter ''payments_failed_total''
         (enqueue ev TASK_BOOKING_AUTO_CANCELED_PAYMENT_TIMEOUT (apt_id appointment)
           (enqueue ev TASK_APPOINTMENT_CANCELLED (apt_id appointment) w)))"

fun expire_loop :: "env \<Rightarrow> payment list \<Rightarrow> expiry_counts \<Rightarrow> world \<Rightarrow> expiry_counts \<times> world" where
  "expire_loop ev [] c w = (c, w)"
| "expire_loop ev (stale # rest) c w =
     (let c1 = c\<lparr>exp_checked := exp_checked c + 1\<rparr> in
      case expire_payment ev (pay_id stale) w of
        Inl _ \<Rightarrow> expire_loop ev rest (c1\<lparr>exp_failed := exp_failed c1 + 1\<rparr>) w
      | Inr (None, _) \<Rightarrow> expire_loop ev rest c1 w
      | Inr (Some (payment, appointment, auto_canceled), w1) \<Rightarrow>
         (let c2 = c1\<lparr>exp_expired := exp_expired c1 + 1\<rparr> in
          if auto_canceled
          then expire_loop ev rest
                 (c2\<lparr>exp_auto_canceled_appointments := exp_auto_canceled_appointments c2 + 1\<rparr>)
                 (announce_expiry ev payment appointment w1)
          else expire_loop ev rest c2 w1))"

definition expire_pending_payments ::
  "env \<Rightarrow> int option \<Rightarrow> instant option \<Rightarrow> world \<Rightarrow> expiry_counts \<times> world" where
  "expire_pending_payments ev expiration_minutes now_utc w =
     (let effective_now = (case now_utc of None \<Rightarrow> now ev | Some t \<Rightarrow> t);
          minutes = (case expiration_minutes of None \<Rightarrow> pending_expiration_minutes ev | Some m \<Rightarrow> m);
          cutoff = effective_now - minutes * minute_us in
      expire_loop ev (payment_list_expired_pending cutoff w)
        \<lparr>exp_checked = 0, exp_expired = 0, exp_auto_canceled_appointments = 0, exp_failed = 0\<rparr> w)"

section \<open>Sound tables of appointments\<close>

abbreviation no_double_booking :: "appointment list \<Rightarrow> bool" where
  "no_double_booking t \<equiv> no_overlap apt_id apt_provider_id apt_start_datetime apt_end_datetime is_blocking t"

definition appointments_sound :: "world \<Rightarrow> bool" where
  "appointments_sound w \<longleftrightarrow>
     tbl_ok apt_id (appointments w) \<and> distinct (map apt_booking_reference (appointments w)) \<and>
     distinct (map apt_booking_access_token (appointments w)) \<and>
     (\<forall>a \<in> set (appointments w). apt_start_datetime a < apt_end_datetime a) \<and>
     no_double_booking (appointments w)"

text \<open>Two versions of a row that occupy no more of the calendar than the first.\<close>

definition same_place :: "appointment \<Rightarrow> appointment \<Rightarrow> bool" where
  "same_place r a \<longleftrightarrow>
     apt_id r = apt_id a \<and> apt_booking_reference r = apt_booking_reference a \<and>
     apt_booking_access_token r = apt_booking_access_token a \<and> apt_provider_id r = apt_provider_id a \<and>
     apt_start_datetime r = apt_start_datetime a \<and> apt_end_datetime r = apt_end_datetime a \<and>
     (is_blocking r \<longrightarrow> is_blocking a)"

lemma other_row_key:
  assumes "distinct (map f t)" and "tbl_ok ident t" and "a \<in> set t" and "ident r = ident a" and "f r = f a"
  shows "f r \<notin> f ` set (tbl_del ident (ident r) t)"
  using assms by (auto simp: table_simps distinct_map dest: inj_onD)

lemma excluded_by_apart:
  "\<not> excluded_by r x \<longleftrightarrow> apart apt_provider_id apt_start_datetime apt_end_datetime is_blocking r x"
  by (auto simp: excluded_by_def apart_def)

lemma appointment_update_keeps:
  assumes s: "appointments_sound w" and a: "a \<in> set (appointments w)" and r: "same_place r a"
  shows "appointment_update ev r w = Inr (w\<lparr>appointments := tbl_set apt_id r (appointments w)\<rparr>) \<and>
     appointments_sound (w\<lparr>appointments := tbl_set apt_id r (appointments w)\<rparr>)"
proof -
  let ?o = "tbl_del apt_id (apt_id r) (appointments w)"
  have k: "tbl_ok apt_id (appointments w)" and no: "no_double_booking (appointments w)"
    and refs: "distinct (map apt_booking_reference (appointments w))"
    "distinct (map apt_booking_access_token (appointments w))"
    and lt: "\<forall>x \<in> set (appointments w). apt_start_datetime x < apt_end_datetime x"
    using s by (simp_all add: appointments_sound_def)
  have "apt_booking_reference r \<notin> apt_booking_reference ` set ?o"
    "apt_booking_access_token r \<notin> apt_booking_access_token ` set ?o"
    using other_row_key [OF refs(1) k a] other_row_key [OF refs(2) k a] r by (simp_all add: same_place_def)
  moreover have "\<not> excluded_by r x" if "x \<in> set ?o" for x
  proof -
    have "x \<in> set (appointments w)" "apt_id x \<noteq> apt_id a"
      using that r by (auto simp: table_simps same_place_def)
    then have "apart apt_provider_id apt_start_datetime apt_end_datetime is_blocking a x"
      using no a by (auto simp: no_overlap_def)
    then show ?thesis using r by (auto simp: excluded_by_apart apart_def same_place_def)
  qed
  moreover have "apt_start_datetime r < apt_end_datetime r" using lt a r by (simp add: same_place_def)
  ultimately have v: "appointment_violates ev ?o r = None" by (simp add: appointment_violates_def)
  have no': "no_double_booking (tbl_set apt_id r (appointments w))"
    using no_overlap_set_same [OF no a, of r] r by (simp add: same_place_def)
  have "map apt_booking_reference (tbl_set apt_id r (appointments w)) = map apt_booking_reference (appointments w)"
    "map apt_booking_access_token (tbl_set apt_id r (appointments w)) = map apt_booking_access_token (appointments w)"
    using r by (auto intro!: map_tbl_set_same [OF k a] simp: same_place_def)
  then have "appointments_sound (w\<lparr>appointments := tbl_set apt_id r (appointments w)\<rparr>)"
    using k refs lt no' r a by (auto simp: appointments_sound_def tbl_ok_set same_place_def dest!: in_tbl_set)
  with v show ?thesis by (simp add: appointment_update_def db_update_ok)
qed

lemma appointment_get_mem: "appointment_get i w = Some a \<Longrightarrow> a \<in> set (appointments w) \<and> apt_id a = i"
  by (auto simp: appointment_get_def dest: tbl_get_Some)

lemma same_place_status [simp]:
  "(is_blocking (a\<lparr>apt_status := s\<rparr>) \<Longrightarrow> is_blocking a) \<Longrightarrow> same_place (a\<lparr>apt_status := s\<rparr>) a"
  "same_place (a\<lparr>apt_status := APT_CANCELLED, apt_notes := n\<rparr>) a"
  by (simp_all add: same_place_def is_blocking_iff)

section \<open>Sound books\<close>

text \<open>Foreign keys hold, and organizations keep the constraints on their commission.\<close>

definition references_ok :: "world \<Rightarrow> bool" where
  "references_ok w \<longleftrightarrow>
     (\<forall>p \<in> set (payments w). appointment_get (pay_appointment_id p) w \<noteq> None) \<and>
     (\<forall>a \<in> set (appointments w). \<exists>org. organization_get (apt_organization_id a) w = Some org \<and>
        commission_config_ok (org_commission_percentage org) (org_commission_fixed_minor org))"

definition books_sound :: "world \<Rightarrow> bool" where
  "books_sound w \<longleftrightarrow> amounts_ok w \<and> earnings_sound w \<and> appointments_sound w \<and> references_ok w"

lemma earning_create_ok:
  assumes "earning_balanced r" and "0 \<le> ern_gross_amount_minor r" and "ern_payment_id r \<notin> ern_payment_id ` set (earnings w)"
  shows "\<exists>r' w'. earning_create ev r w = Inr (r', w')"
  using assms by (auto simp: earning_create_def db_insert_def earning_violates_def earning_balanced_def Let_def)

lemma ensure_earning_total:
  assumes "earnings_sound w" and "0 \<le> pay_amount_minor p" and "organization_get (apt_organization_id a) w = Some org"
    and "commission_config_ok (org_commission_percentage org) (org_commission_fixed_minor org)"
  shows "\<exists>e b t. ensure_earning_for_payment ev p a w = Inr ((e, b), w\<lparr>earnings := t\<rparr>)"
proof (cases "earning_get_by_payment_id (pay_id p) w")
  case (Some e)
  then have "ensure_earning_for_payment ev p a w = Inr ((e, False), w\<lparr>earnings := earnings w\<rparr>)"
    by (simp add: ensure_earning_for_payment_def)
  then show ?thesis by blast
next
  case None
  obtain fee where fee: "calculate_platform_fee_minor (pay_amount_minor p) (org_commission_type org)
      (Some (org_commission_percentage org)) (Some (org_commission_fixed_minor org)) = Inr fee"
    using calculate_platform_fee_minor_total [OF assms(4)] by blast
  have "earning_balanced (new_earning p a fee)" "0 \<le> ern_gross_amount_minor (new_earning p a fee)"
    "ern_payment_id (new_earning p a fee) \<notin> ern_payment_id ` set (earnings w)"
    using calculate_platform_fee_minor_bounds [OF fee] assms(2) None
    by (auto simp: new_earning_def earning_balanced_def Let_def earning_get_by_payment_id_None)
  from earning_create_ok [OF this] obtain e w' where c: "earning_create ev (new_earning p a fee) w = Inr (e, w')" by blast
  then have "ensure_earning_for_payment ev p a w = Inr ((e, True), w')"
    using None assms(3) fee by (simp add: ensure_earning_for_payment_def)
  with earning_create_eq [OF c] show ?thesis by blast
qed

definition cancel_rows :: "appointment \<Rightarrow> string \<Rightarrow> appointment list \<Rightarrow> appointment list" where
  "cancel_rows a n t =
     (if apt_status a = APT_PENDING_PAYMENT
      then tbl_set apt_id (a\<lparr>apt_status := APT_CANCELLED, apt_notes := or_else (apt_notes a) (Some n)\<rparr>) t else t)"

lemma cancel_pending_total:
  assumes "appointments_sound w" and "a \<in> set (appointments w)"
  shows "cancel_pending_payment_appointment ev a n w =
      Inr (apt_status a = APT_PENDING_PAYMENT, w\<lparr>appointments := cancel_rows a n (appointments w)\<rparr>) \<and>
     appointments_sound (w\<lparr>appointments := cancel_rows a n (appointments w)\<rparr>)"
  using appointment_update_keeps [OF assms same_place_status(2)] assms(1)
  by (simp add: cancel_pending_payment_appointment_def cancel_rows_def Let_def)

section \<open>Finding a payment again\<close>

lemma latest_by_unique:
  assumes "tbl_ok key t"
  shows "latest_by key t = Some r \<longleftrightarrow> r \<in> set t \<and> (\<forall>x \<in> set t. key x \<le> key r)"
proof
  assume "latest_by key t = Some r"
  then show "r \<in> set t \<and> (\<forall>x \<in> set t. key x \<le> key r)" by (rule latest_by_Some)
next
  assume r: "r \<in> set t \<and> (\<forall>x \<in> set t. key x \<le> key r)"
  then have "t \<noteq> []" by auto
  then obtain q where q: "latest_by key t = Some q" using latest_by_None [of key t] by fastforce
  with latest_by_Some [OF q] r have "key q = key r" by (meson order_antisym)
  then have "q = r" using latest_by_Some [OF q] r assms by (auto intro: tbl_ok_inj)
  with q show "latest_by key t = Some r" by simp
qed

lemma latest_payment_update:
  assumes k: "tbl_ok pay_id t" and p: "latest_by pay_id (filter P t) = Some p"
    and "pay_id p' = pay_id p" and "P p'"
  shows "latest_by pay_id (filter P (tbl_set pay_id p' t)) = Some p'"
proof -
  have f: "tbl_ok pay_id (filter P x)" if "tbl_ok pay_id x" for x
    using that by (simp add: tbl_ok_def distinct_map_filter)
  have p2: "p \<in> set t" "P p" "\<forall>x \<in> set (filter P t). pay_id x \<le> pay_id p"
    using p by (auto simp: latest_by_unique [OF f [OF k]])
  have "p' \<in> set (tbl_set pay_id p' t)" using p2(1) assms(3) by (simp add: set_tbl_set)
  moreover have "pay_id x \<le> pay_id p'" if "x \<in> set (filter P (tbl_set pay_id p' t))" for x
    using that p2(3) assms(3) by (auto dest!: in_tbl_set)
  ultimately show ?thesis
    using assms(4) latest_by_unique [OF f, of "tbl_set pay_id p' t"] k by (simp add: tbl_ok_set)
qed

lemma resolve_mem:
  "resolve_payment_for_status_update n cs it w = Inr p \<Longrightarrow> p \<in> set (payments w) \<and> pay_provider_name p = n"
  by (auto simp: resolve_payment_for_status_update_def payment_get_by_checkout_session_id_def
      payment_get_by_payment_intent_id_def split: option.splits if_splits dest!: latest_by_Some)

lemma resolve_update:
  assumes r: "resolve_payment_for_status_update n cs it w = Inr p" and k: "tbl_ok pay_id (payments w)"
    and "payments w' = tbl_set pay_id p' (payments w)" and "pay_id p' = pay_id p"
    and "pay_provider_name p' = pay_provider_name p"
    and "pay_provider_checkout_session_id p' = pay_provider_checkout_session_id p"
    and "pay_provider_payment_intent_id p' = pay_provider_payment_intent_id p"
  shows "resolve_payment_for_status_update n cs it w' = Inr p'"
proof -
  have cs: "payment_get_by_checkout_session_id s w' = Some p'" if "payment_get_by_checkout_session_id s w = Some p" for s
    using that latest_payment_update [OF k, of "\<lambda>q. pay_provider_checkout_session_id q = Some s" p p'] assms(3-7)
    by (auto simp: payment_get_by_checkout_session_id_def dest: latest_by_Some)
  have it: "payment_get_by_payment_intent_id s w' = Some p'" if "payment_get_by_payment_intent_id s w = Some p" for s
    using that latest_payment_update [OF k, of "\<lambda>q. pay_provider_payment_intent_id q = Some s" p p'] assms(3-7)
    by (auto simp: payment_get_by_payment_intent_id_def dest: latest_by_Some)
  show ?thesis
  proof (cases "or_else cs None")
    case (Some s)
    with r have "payment_get_by_checkout_session_id s w = Some p" "pay_provider_name p = n"
      by (auto simp: resolve_payment_for_status_update_def split: option.splits if_splits)
    with Some cs assms(5) show ?thesis by (simp add: resolve_payment_for_status_update_def)
  next
    case None
    with r obtain s where "or_else it None = Some s" "payment_get_by_payment_intent_id s w = Some p" "pay_provider_name p = n"
      by (auto simp: resolve_payment_for_status_update_def split: option.splits if_splits)
    with None it assms(5) show ?thesis by (simp add: resolve_payment_for_status_update_def)
  qed
qed

lemma business_announce_payment_status [simp]: "business (announce_payment_status ev p s e c w) = business w"
  by (simp add: announce_payment_status_def Let_def)

lemmas announce_payment_status_tables [simp] = business_announce_payment_status [THEN business_eqD]

lemma business_announce_expiry [simp]: "business (announce_expiry ev p a w) = business w"
  by (simp add: announce_expiry_def)

lemmas announce_expiry_tables [simp] = business_announce_expiry [THEN business_eqD]

section \<open>What a status update does\<close>

lemma books_soundD:
  assumes "books_sound w" and "p \<in> set (payments w)"
  obtains a org where "appointment_get (pay_appointment_id p) w = Some a" and "a \<in> set (appointments w)"
    and "apt_id a = pay_appointment_id p"
    and "organization_get (apt_organization_id a) w = Some org"
    and "commission_config_ok (org_commission_percentage org) (org_commission_fixed_minor org)"
    and "0 \<le> pay_amount_minor p"
proof -
  obtain a where a: "appointment_get (pay_appointment_id p) w = Some a"
    using assms by (auto simp: books_sound_def references_ok_def)
  then have "a \<in> set (appointments w)" "apt_id a = pay_appointment_id p" by (auto dest: appointment_get_mem)
  with a that assms show thesis by (auto simp: books_sound_def references_ok_def amounts_ok_def)
qed

lemma sound_with_payments [simp]:
  "earnings_sound (w\<lparr>payments := t\<rparr>) = earnings_sound w"
  "appointments_sound (w\<lparr>payments := t\<rparr>) = appointments_sound w"
  "appointment_get i (w\<lparr>payments := t\<rparr>) = appointment_get i w"
  "organization_get i (w\<lparr>payments := t\<rparr>) = organization_get i w"
  "earnings_sound (w\<lparr>appointments := u\<rparr>) = earnings_sound w"
  "organization_get i (w\<lparr>appointments := u\<rparr>) = organization_get i w"
  "appointments_sound (w\<lparr>earnings := v\<rparr>) = appointments_sound w"
  by (simp_all add: earnings_sound_def appointments_sound_def appointment_get_def organization_get_def)

lemma apply_success_total:
  assumes s: "books_sound w" and p: "p \<in> set (payments w)"
    and a: "appointment_get (pay_appointment_id p) w = Some a"
    and p': "pay_appointment_id p' = pay_appointment_id p" "pay_amount_minor p' = pay_amount_minor p"
  shows "\<exists>b t. apply_payment_status ev p' PAY_SUCCEEDED w = Inr ((b, False),
      w\<lparr>payments := tbl_set pay_id p' (payments w),
        appointments := (if apt_status a \<in> {APT_PENDING_PAYMENT, APT_PENDING}
                         then tbl_set apt_id (a\<lparr>apt_status := APT_CONFIRMED\<rparr>) (appointments w) else appointments w),
        earnings := t\<rparr>) \<and>
     earnings_sound (w\<lparr>earnings := t\<rparr>) \<and> pay_id p' \<in> ern_payment_id ` set t \<and>
     appointments_sound (w\<lparr>appointments := (if apt_status a \<in> {APT_PENDING_PAYMENT, APT_PENDING}
                         then tbl_set apt_id (a\<lparr>apt_status := APT_CONFIRMED\<rparr>) (appointments w) else appointments w)\<rparr>)"
proof -
  obtain org where am: "a \<in> set (appointments w)" and o': "organization_get (apt_organization_id a) w = Some org"
    "commission_config_ok (org_commission_percentage org) (org_commission_fixed_minor org)" and nn: "0 \<le> pay_amount_minor p"
    using books_soundD [OF s p] a by (metis option.inject)
  let ?c = "a\<lparr>apt_status := APT_CONFIRMED\<rparr>"
  let ?pend = "apt_status a \<in> {APT_PENDING_PAYMENT, APT_PENDING}"
  let ?a = "if ?pend then ?c else a"
  let ?ts = "if ?pend then tbl_set apt_id ?c (appointments w) else appointments w"
  let ?w1 = "w\<lparr>payments := tbl_set pay_id p' (payments w)\<rparr>"
  let ?w2 = "w\<lparr>payments := tbl_set pay_id p' (payments w), appointments := ?ts\<rparr>"
  have snd: "appointments_sound w" "earnings_sound w" using s by (simp_all add: books_sound_def)
  have keep: "appointment_update ev ?c ?w1 = Inr (?w1\<lparr>appointments := tbl_set apt_id ?c (appointments w)\<rparr>) \<and>
      appointments_sound (w\<lparr>appointments := tbl_set apt_id ?c (appointments w)\<rparr>)" if ?pend
  proof -
    have "same_place ?c a" using that by (auto simp: same_place_def is_blocking_iff)
    with appointment_update_keeps [of ?w1 a ?c ev] appointment_update_keeps [of w a ?c ev] am snd show ?thesis by simp
  qed
  have w2: "(if ?pend then appointment_update ev ?c ?w1 else Inr ?w1) = Inr ?w2"
    using keep by (cases w) auto
  have "organization_get (apt_organization_id ?a) ?w2 = Some org" using o' by simp
  from ensure_earning_total [OF _ _ this o'(2), of p' ev] snd nn p' obtain e b t where
    en: "ensure_earning_for_payment ev p' ?a ?w2 = Inr ((e, b), ?w2\<lparr>earnings := t\<rparr>)" by auto
  have "earnings_sound (?w2\<lparr>earnings := t\<rparr>)" using ensure_earning_sound [OF en] snd by simp
  moreover have "pay_id p' \<in> ern_payment_id ` set t"
    using ensure_earning_present [OF en] earning_get_by_payment_id_mem by force
  moreover have "apply_payment_status ev p' PAY_SUCCEEDED w = Inr ((b, False), ?w2\<lparr>earnings := t\<rparr>)"
  proof -
    have "payment_update p' w = Inr ?w1" using nn p' by (simp add: payment_update_eq)
    moreover have "appointment_get (pay_appointment_id p') ?w1 = Some a" using a p' by simp
    ultimately have "apply_payment_status ev p' PAY_SUCCEEDED w =
        (case (if ?pend then appointment_update ev ?a ?w1 else Inr ?w1) of
          Inl e \<Rightarrow> Inl e
        | Inr w2 \<Rightarrow>
        case ensure_earning_for_payment ev p' ?a w2 of
          Inl e \<Rightarrow> Inl e
        | Inr ((_, earning_created), w3) \<Rightarrow> Inr ((earning_created, False), w3))"
      by (simp only: apply_payment_status_def sum.case option.case Let_def if_True simp_thms)
    moreover have "(if ?pend then appointment_update ev ?a ?w1 else Inr ?w1) = Inr ?w2"
      using w2 by (cases ?pend) simp_all
    ultimately show ?thesis by (simp only: sum.case en prod.case)
  qed
  moreover have "appointments_sound (w\<lparr>appointments := ?ts\<rparr>)"
    using keep snd by (cases ?pend) simp_all
  ultimately show ?thesis
    by (intro exI [of _ b] exI [of _ t]) (simp add: earnings_sound_def)
qed

lemma references_ok_update:
  assumes "references_ok w" and "organizations w' = organizations w"
    and "\<And>p. p \<in> set (payments w') \<Longrightarrow> \<exists>q \<in> set (payments w). pay_appointment_id q = pay_appointment_id p"
    and "\<And>a. a \<in> set (appointments w') \<Longrightarrow> \<exists>b \<in> set (appointments w). apt_organization_id b = apt_organization_id a"
    and "map apt_id (appointments w') = map apt_id (appointments w)"
  shows "references_ok w'"
proof -
  have "set (map apt_id (appointments w')) = set (map apt_id (appointments w))"
    by (simp only: assms(5))
  then have "appointment_get i w' = None \<longleftrightarrow> appointment_get i w = None" for i
    by (simp add: appointment_get_def tbl_get_None)
  moreover have "organization_get i w' = organization_get i w" for i
    using assms(2) by (simp add: organization_get_def)
  ultimately show ?thesis
    using assms(1,3,4) unfolding references_ok_def by (metis (no_types, lifting))
qed

lemma amounts_ok_update:
  assumes "amounts_ok w" and "payments w' = tbl_set pay_id p' (payments w)" and "0 \<le> pay_amount_minor p'"
    and "refunds w' = refunds w"
  shows "amounts_ok w'"
  using assms by (auto simp: amounts_ok_def tbl_ok_set dest!: in_tbl_set)

lemma books_sound_update:
  assumes s: "books_sound w" and p: "p \<in> set (payments w)" and a: "a \<in> set (appointments w)"
    and pw: "payments w' = tbl_set pay_id p' (payments w)" "pay_id p' = pay_id p"
      "pay_appointment_id p' = pay_appointment_id p" "pay_amount_minor p' = pay_amount_minor p"
    and aw: "appointments w' = appointments w \<or>
        (appointments w' = tbl_set apt_id r (appointments w) \<and> apt_id r = apt_id a \<and>
         apt_organization_id r = apt_organization_id a)"
    and rest: "refunds w' = refunds w" "organizations w' = organizations w" "earnings_sound w'" "appointments_sound w'"
  shows "books_sound w'"
proof -
  have "0 \<le> pay_amount_minor p'" using s p pw(4) by (auto simp: books_sound_def amounts_ok_def)
  then have "amounts_ok w'"
    using s by (intro amounts_ok_update [OF _ pw(1) _ rest(1)]) (auto simp: books_sound_def)
  moreover have "references_ok w'"
  proof (rule references_ok_update [OF _ rest(2)])
    show "references_ok w" using s by (simp add: books_sound_def)
    show "\<exists>q \<in> set (payments w). pay_appointment_id q = pay_appointment_id x" if "x \<in> set (payments w')" for x
      using that pw p by (auto dest!: in_tbl_set)
    show "\<exists>b \<in> set (appointments w). apt_organization_id b = apt_organization_id x" if "x \<in> set (appointments w')" for x
      using that aw a by (fastforce dest!: in_tbl_set)
    show "map apt_id (appointments w') = map apt_id (appointments w)"
      using aw by (auto simp: map_ident_tbl_set)
  qed
  ultimately show ?thesis using rest by (simp add: books_sound_def)
qed

lemma appointment_get_update:
  assumes "appointment_get (apt_id a) w = Some a" and "apt_id r = apt_id a"
  shows "tbl_get apt_id (apt_id a) (tbl_set apt_id r (appointments w)) = Some r"
  using assms by (auto simp: appointment_get_def tbl_get_set dest!: tbl_get_key)

lemma mark_success_effect:
  assumes s: "books_sound w" and r: "resolve_payment_for_status_update n cs it w = Inr p"
    and ns: "pay_status p \<noteq> PAY_SUCCEEDED" and a: "appointment_get (pay_appointment_id p) w = Some a"
  shows "\<exists>p' w'. mark_payment_status ev n PAY_SUCCEEDED cs it w = Inr (p', w') \<and>
    p' = p\<lparr>pay_status := PAY_SUCCEEDED, pay_paid_at := Some (now ev)\<rparr> \<and>
    payments w' = tbl_set pay_id p' (payments w) \<and> refunds w' = refunds w \<and>
    appointments w' = (if apt_status a \<in> {APT_PENDING_PAYMENT, APT_PENDING}
                       then tbl_set apt_id (a\<lparr>apt_status := APT_CONFIRMED\<rparr>) (appointments w) else appointments w) \<and>
    pay_id p \<in> ern_payment_id ` set (earnings w') \<and> books_sound w'"
proof -
  let ?p' = "p\<lparr>pay_status := PAY_SUCCEEDED, pay_paid_at := Some (now ev)\<rparr>"
  let ?pend = "apt_status a \<in> {APT_PENDING_PAYMENT, APT_PENDING}"
  let ?ts = "if ?pend then tbl_set apt_id (a\<lparr>apt_status := APT_CONFIRMED\<rparr>) (appointments w) else appointments w"
  have p: "p \<in> set (payments w)" using resolve_mem [OF r] by simp
  have am: "a \<in> set (appointments w)" using appointment_get_mem [OF a] by simp
  from apply_success_total [OF s p a, of ?p' ev] obtain b t where
    ap: "apply_payment_status ev ?p' PAY_SUCCEEDED w = Inr ((b, False),
      w\<lparr>payments := tbl_set pay_id ?p' (payments w), appointments := ?ts, earnings := t\<rparr>)"
    and t: "earnings_sound (w\<lparr>earnings := t\<rparr>)" "pay_id p \<in> ern_payment_id ` set t"
      "appointments_sound (w\<lparr>appointments := ?ts\<rparr>)" by auto
  let ?w1 = "w\<lparr>payments := tbl_set pay_id ?p' (payments w), appointments := ?ts, earnings := t\<rparr>"
  let ?w' = "announce_payment_status ev ?p' PAY_SUCCEEDED b False ?w1"
  have "mark_payment_status ev n PAY_SUCCEEDED cs it w = Inr (?p', ?w')"
    using r ns ap by (simp add: mark_payment_status_def Let_def)
  moreover have "books_sound ?w'"
  proof (rule books_sound_update [OF s p am])
    show "payments ?w' = tbl_set pay_id ?p' (payments w)" by simp
    show "earnings_sound ?w'" using t(1) by (simp add: earnings_sound_def)
    show "appointments_sound ?w'" using t(3) by (simp add: appointments_sound_def)
    show "appointments ?w' = appointments w \<or>
        (appointments ?w' = tbl_set apt_id (a\<lparr>apt_status := APT_CONFIRMED\<rparr>) (appointments w) \<and>
         apt_id (a\<lparr>apt_status := APT_CONFIRMED\<rparr>) = apt_id a \<and>
         apt_organization_id (a\<lparr>apt_status := APT_CONFIRMED\<rparr>) = apt_organization_id a)" by simp
  qed simp_all
  ultimately show ?thesis using t(2) by (intro exI [of _ ?p'] exI [of _ ?w']) simp
qed

lemma unique_earning:
  "earnings_sound w \<Longrightarrow> i \<in> ern_payment_id ` set (earnings w) \<Longrightarrow>
     \<exists>!e. e \<in> set (earnings w) \<and> ern_payment_id e = i"
  unfolding earnings_sound_def distinct_map inj_on_def by auto

section \<open>Properties\<close>

text \<open>
  C24. A successful payment confirms its booking: the payment is marked succeeded now, a booking
  that was pending becomes confirmed, the payment has exactly one earning, all the books stay
  sound, and the webhook's redelivery of the same message changes nothing.
\<close>

theorem payment_success_confirms:
  assumes "books_sound w" and "resolve_payment_for_status_update n cs it w = Inr p"
    and "pay_status p \<noteq> PAY_SUCCEEDED" and "appointment_get (pay_appointment_id p) w = Some a"
  shows "\<exists>p' w'. mark_payment_status ev n PAY_SUCCEEDED cs it w = Inr (p', w') \<and>
    payment_get (pay_id p) w' = Some p' \<and> pay_status p' = PAY_SUCCEEDED \<and> pay_paid_at p' = Some (now ev) \<and>
    map_option apt_status (appointment_get (apt_id a) w') =
      Some (if apt_status a \<in> {APT_PENDING_PAYMENT, APT_PENDING} then APT_CONFIRMED else apt_status a) \<and>
    (\<exists>!e. e \<in> set (earnings w') \<and> ern_payment_id e = pay_id p) \<and> books_sound w' \<and>
    mark_payment_status ev n PAY_SUCCEEDED cs it w' = Inr (p', w')"
proof -
  from mark_success_effect [OF assms, of ev] obtain p' w' where
    m: "mark_payment_status ev n PAY_SUCCEEDED cs it w = Inr (p', w')"
    and p': "p' = p\<lparr>pay_status := PAY_SUCCEEDED, pay_paid_at := Some (now ev)\<rparr>"
    and w': "payments w' = tbl_set pay_id p' (payments w)"
      "appointments w' = (if apt_status a \<in> {APT_PENDING_PAYMENT, APT_PENDING}
                       then tbl_set apt_id (a\<lparr>apt_status := APT_CONFIRMED\<rparr>) (appointments w) else appointments w)"
      "pay_id p \<in> ern_payment_id ` set (earnings w')" "books_sound w'"
    by blast
  have k: "tbl_ok pay_id (payments w)" using assms(1) by (simp add: books_sound_def amounts_ok_def)
  have "payment_get (pay_id p) w' = Some p'"
    using w'(1) p' resolve_mem [OF assms(2)] by (simp add: payment_get_def tbl_get_set)
  moreover have "apt_id a = pay_appointment_id p" using appointment_get_mem [OF assms(4)] by simp
  then have "map_option apt_status (appointment_get (apt_id a) w') =
      Some (if apt_status a \<in> {APT_PENDING_PAYMENT, APT_PENDING} then APT_CONFIRMED else apt_status a)"
    using assms(4) w'(2) appointment_get_update [of a w "a\<lparr>apt_status := APT_CONFIRMED\<rparr>"]
    by (auto simp: appointment_get_def)
  moreover have "\<exists>!e. e \<in> set (earnings w') \<and> ern_payment_id e = pay_id p"
    using unique_earning w'(3,4) by (simp add: books_sound_def)
  moreover have "resolve_payment_for_status_update n cs it w' = Inr p'"
    using resolve_update [OF assms(2) k w'(1)] p' by simp
  then have "mark_payment_status ev n PAY_SUCCEEDED cs it w' = Inr (p', w')"
    by (simp add: mark_payment_status_def p')
  ultimately show ?thesis using m p' w'(4) by auto
qed

lemma booked_world_sound: "books_sound booked_world"
  by (simp add: books_sound_def amounts_ok_def earnings_sound_def appointments_sound_def references_ok_def
      tbl_ok_def no_overlap_def sample_defs appointment_get_def organization_get_def tbl_get_def
      commission_config_ok_def hour_us_def)

lemma booked_world_resolve:
  "resolve_payment_for_status_update ''mock'' (Some ''cs'') None booked_world = Inr sample_payment"
  by code_simp

lemma booked_world_appointment:
  "appointment_get (pay_appointment_id sample_payment) booked_world = Some sample_appointment"
  by (simp add: appointment_get_def tbl_get_def sample_defs)

theorem payment_success_confirms_witness:
  "\<exists>p' w'. mark_payment_status sample_env ''mock'' PAY_SUCCEEDED (Some ''cs'') None booked_world = Inr (p', w') \<and>
     map_option apt_status (appointment_get 1 w') = Some APT_CONFIRMED"
proof -
  have "pay_status sample_payment \<noteq> PAY_SUCCEEDED" "apt_status sample_appointment = APT_PENDING_PAYMENT"
    "apt_id sample_appointment = 1"
    by (simp_all add: sample_defs)
  then show ?thesis
    using payment_success_confirms [OF booked_world_sound booked_world_resolve _ booked_world_appointment, of sample_env]
    by auto
qed

text \<open>
  Money taken is not forgotten: once a payment has succeeded or was refunded, a message that
  reports it pending, failed or canceled is accepted and ignored; the world does not change.
\<close>

theorem settled_payment_never_regresses:
  assumes "resolve_payment_for_status_update n cs it w = Inr p" and "pay_status p \<in> {PAY_SUCCEEDED, PAY_REFUNDED}"
    and "status \<notin> {PAY_SUCCEEDED, PAY_REFUNDED}"
  shows "mark_payment_status ev n status cs it w = Inr (p, w)"
  using assms by (cases status) (auto simp: mark_payment_status_def Let_def)

theorem settled_payment_never_regresses_witness:
  "mark_payment_status sample_env ''mock'' PAY_FAILED (Some ''cs'') None paid_world = Inr (sample_paid_payment, paid_world)"
proof (rule settled_payment_never_regresses)
  show "resolve_payment_for_status_update ''mock'' (Some ''cs'') None paid_world = Inr sample_paid_payment" by code_simp
qed (simp_all add: sample_paid_payment_def)

text \<open>
  A late success is lost on a cancelled booking: when the payment of a booking that was
  cancelled meanwhile succeeds, the payment is marked succeeded and the provider's earning is
  created, while the booking stays cancelled and no refund is started.
\<close>

theorem late_success_keeps_cancellation:
  assumes "books_sound w" and "resolve_payment_for_status_update n cs it w = Inr p"
    and "pay_status p \<notin> {PAY_SUCCEEDED, PAY_REFUNDED}"
    and "appointment_get (pay_appointment_id p) w = Some a" and "apt_status a = APT_CANCELLED"
  shows "\<exists>p' w'. mark_payment_status ev n PAY_SUCCEEDED cs it w = Inr (p', w') \<and> pay_status p' = PAY_SUCCEEDED \<and>
    appointments w' = appointments w \<and> refunds w' = refunds w \<and>
    (\<exists>!e. e \<in> set (earnings w') \<and> ern_payment_id e = pay_id p)"
proof -
  have "pay_status p \<noteq> PAY_SUCCEEDED" using assms(3) by simp
  from mark_success_effect [OF assms(1,2) this assms(4), of ev] obtain p' w' where
    "mark_payment_status ev n PAY_SUCCEEDED cs it w = Inr (p', w')" "pay_status p' = PAY_SUCCEEDED"
    "refunds w' = refunds w" "appointments w' = appointments w"
    "pay_id p \<in> ern_payment_id ` set (earnings w')" "books_sound w'"
    using assms(5) by auto
  then show ?thesis using unique_earning [of w' "pay_id p"] by (auto simp: books_sound_def)
qed

definition cancelled_world :: world where
  "cancelled_world = booked_world\<lparr>appointments := [sample_appointment\<lparr>apt_status := APT_CANCELLED\<rparr>]\<rparr>"

lemma cancelled_world_sound: "books_sound cancelled_world"
  by (simp add: books_sound_def amounts_ok_def earnings_sound_def appointments_sound_def references_ok_def
      tbl_ok_def no_overlap_def sample_defs cancelled_world_def appointment_get_def organization_get_def
      tbl_get_def commission_config_ok_def hour_us_def)

theorem late_success_keeps_cancellation_witness:
  "\<exists>p' w'. mark_payment_status sample_env ''mock'' PAY_SUCCEEDED (Some ''cs'') None cancelled_world = Inr (p', w') \<and>
     pay_status p' = PAY_SUCCEEDED \<and> appointments w' = [sample_appointment\<lparr>apt_status := APT_CANCELLED\<rparr>] \<and> refunds w' = []"
proof -
  have "resolve_payment_for_status_update ''mock'' (Some ''cs'') None cancelled_world = Inr sample_payment" by code_simp
  from late_success_keeps_cancellation [OF cancelled_world_sound this, of "sample_appointment\<lparr>apt_status := APT_CANCELLED\<rparr>" sample_env]
  show ?thesis
    by (auto simp: sample_defs cancelled_world_def appointment_get_def tbl_get_def)
qed

section \<open>Expiry\<close>

definition canceled :: "payment \<Rightarrow> payment" where
  "canceled p = p\<lparr>pay_status := PAY_CANCELED, pay_paid_at := None\<rparr>"

definition timed_out :: "appointment \<Rightarrow> appointment" where
  "timed_out a = a\<lparr>apt_status := APT_CANCELLED, apt_notes := or_else (apt_notes a) (Some timeout_note)\<rparr>"

lemma tbl_set_map_if:
  assumes "tbl_ok ident t" and "x \<in> set t" and "ident (f x) = ident x"
  shows "tbl_set ident (f x) t = map (\<lambda>y. if y = x then f y else y) t"
proof -
  have "(if ident y = ident (f x) then f x else y) = (if y = x then f y else y)" if "y \<in> set t" for y
    using tbl_ok_inj [OF assms(1) that assms(2)] assms(3) by auto
  then show ?thesis by (simp add: tbl_set_def)
qed

definition release_booking :: "int set \<Rightarrow> appointment \<Rightarrow> appointment" where
  "release_booking ids a = (if apt_status a = APT_PENDING_PAYMENT \<and> apt_id a \<in> ids then timed_out a else a)"

lemma expire_payment_effect:
  assumes s: "books_sound w" and p: "p \<in> set (payments w)" and st: "pay_status p \<in> {PAY_PENDING, PAY_REQUIRES_ACTION}"
  shows "\<exists>a b w'. expire_payment ev (pay_id p) w = Inr (Some (p, a, b), w') \<and>
    payments w' = map (\<lambda>x. if x = p then canceled x else x) (payments w) \<and>
    appointments w' = map (release_booking {pay_appointment_id p}) (appointments w) \<and>
    earnings w' = earnings w \<and> refunds w' = refunds w \<and> books_sound w'"
proof -
  from books_soundD [OF s p] obtain a where
    a: "appointment_get (pay_appointment_id p) w = Some a" "a \<in> set (appointments w)" "apt_id a = pay_appointment_id p"
    and nn: "0 \<le> pay_amount_minor p" by metis
  have pk: "tbl_ok pay_id (payments w)" and ak: "tbl_ok apt_id (appointments w)" and snd: "appointments_sound w" "earnings_sound w"
    using s by (simp_all add: books_sound_def amounts_ok_def appointments_sound_def)
  have pg: "payment_get (pay_id p) w = Some p" using pk p by (simp add: payment_get_def tbl_get_mem)
  let ?w1 = "w\<lparr>payments := tbl_set pay_id (canceled p) (payments w)\<rparr>"
  have up: "payment_update (p\<lparr>pay_status := PAY_CANCELED, pay_paid_at := None\<rparr>) w = Inr ?w1"
    using nn by (simp add: payment_update_eq canceled_def)
  define t where "t = cancel_rows a timeout_note (appointments w)"
  have c: "cancel_pending_payment_appointment ev a timeout_note ?w1 =
      Inr (apt_status a = APT_PENDING_PAYMENT, ?w1\<lparr>appointments := t\<rparr>)" "appointments_sound (?w1\<lparr>appointments := t\<rparr>)"
    using cancel_pending_total [of ?w1 a ev timeout_note] snd a(2) by (simp_all add: t_def)
  have t: "t = (if apt_status a = APT_PENDING_PAYMENT then tbl_set apt_id (timed_out a) (appointments w) else appointments w)"
    by (simp add: t_def cancel_rows_def timed_out_def)
  let ?w' = "?w1\<lparr>appointments := t\<rparr>"
  have e: "expire_payment ev (pay_id p) w = Inr (Some (p, a, apt_status a = APT_PENDING_PAYMENT), ?w')"
    using pg st a(1) up c(1) by (simp add: expire_payment_def)
  have key: "apt_id y = pay_appointment_id p \<longleftrightarrow> y = a" if "y \<in> set (appointments w)" for y
    using tbl_ok_inj [OF ak that a(2)] a(3) by metis
  have tm: "t = map (release_booking {pay_appointment_id p}) (appointments w)"
  proof (cases "apt_status a = APT_PENDING_PAYMENT")
    case True
    have eq: "(if y = a then timed_out y else y) = release_booking {pay_appointment_id p} y" if "y \<in> set (appointments w)" for y
      using key [OF that] True by (simp add: release_booking_def)
    have "t = map (\<lambda>y. if y = a then timed_out y else y) (appointments w)"
      using t True tbl_set_map_if [OF ak a(2), of timed_out] by (simp add: timed_out_def)
    with eq show ?thesis by simp
  next
    case False
    have "release_booking {pay_appointment_id p} y = y" if "y \<in> set (appointments w)" for y
      using key [OF that] False by (auto simp: release_booking_def)
    then show ?thesis using t False by (simp add: map_idI)
  qed
  have pm: "tbl_set pay_id (canceled p) (payments w) = map (\<lambda>x. if x = p then canceled x else x) (payments w)"
    using tbl_set_map_if [OF pk p, of canceled] by (simp add: canceled_def)
  have "books_sound ?w'"
    using snd c(2) t a(2) by (intro books_sound_update [OF s p a(2), of _ "canceled p" "timed_out a"])
      (auto simp: canceled_def timed_out_def)
  with e tm pm show ?thesis by (intro exI [of _ a] exI [of _ "apt_status a = APT_PENDING_PAYMENT"] exI [of _ ?w']) simp
qed

lemma books_sound_business: "business w = business w' \<Longrightarrow> books_sound w = books_sound w'"
  by (drule business_eqD)
    (simp add: books_sound_def amounts_ok_def earnings_sound_def appointments_sound_def references_ok_def
      appointment_get_def organization_get_def)

lemma release_booking_twice [simp]: "release_booking A (release_booking B a) = release_booking (A \<union> B) a"
  by (auto simp: release_booking_def timed_out_def)

lemma expire_loop_effect:
  assumes "books_sound w" and "set ps \<subseteq> set (payments w)" and "distinct ps"
    and "\<forall>p \<in> set ps. pay_status p \<in> {PAY_PENDING, PAY_REQUIRES_ACTION}"
  shows "\<exists>c' w'. expire_loop ev ps c w = (c', w') \<and>
    exp_checked c' = exp_checked c + int (length ps) \<and> exp_expired c' = exp_expired c + int (length ps) \<and>
    exp_failed c' = exp_failed c \<and>
    payments w' = map (\<lambda>x. if x \<in> set ps then canceled x else x) (payments w) \<and>
    appointments w' = map (release_booking (pay_appointment_id ` set ps)) (appointments w) \<and>
    earnings w' = earnings w \<and> refunds w' = refunds w \<and> books_sound w'"
  using assms
proof (induction ps arbitrary: w c)
  case Nil
  then show ?case by (simp add: release_booking_def)
next
  case (Cons p ps)
  then have p: "p \<in> set (payments w)" and st: "pay_status p \<in> {PAY_PENDING, PAY_REQUIRES_ACTION}" by simp_all
  from expire_payment_effect [OF Cons.prems(1) p st, of ev] obtain a b w1 where
    e: "expire_payment ev (pay_id p) w = Inr (Some (p, a, b), w1)"
    and w1: "payments w1 = map (\<lambda>x. if x = p then canceled x else x) (payments w)"
      "appointments w1 = map (release_booking {pay_appointment_id p}) (appointments w)"
      "earnings w1 = earnings w" "refunds w1 = refunds w" "books_sound w1" by blast
  define w2 where "w2 = (if b then announce_expiry ev p a w1 else w1)"
  define c2 where "c2 = (let c1 = c\<lparr>exp_checked := exp_checked c + 1\<rparr>; c2 = c1\<lparr>exp_expired := exp_expired c1 + 1\<rparr> in
    if b then c2\<lparr>exp_auto_canceled_appointments := exp_auto_canceled_appointments c2 + 1\<rparr> else c2)"
  have step: "expire_loop ev (p # ps) c w = expire_loop ev ps c2 w2"
    using e by (simp add: w2_def c2_def Let_def)
  have c2: "exp_checked c2 = exp_checked c + 1" "exp_expired c2 = exp_expired c + 1" "exp_failed c2 = exp_failed c"
    by (simp_all add: c2_def Let_def)
  have w2: "payments w2 = payments w1" "appointments w2 = appointments w1" "earnings w2 = earnings w1"
      "refunds w2 = refunds w1" "books_sound w2"
    using w1(5) books_sound_business [of w2 w1] by (simp_all add: w2_def)
  have sub: "set ps \<subseteq> set (payments w2)"
    using Cons.prems(2,3) w1(1) w2(1) by (auto simp: image_iff)
  from Cons.IH [OF w2(5) sub, of c2] Cons.prems obtain c' w' where
    l: "expire_loop ev ps c2 w2 = (c', w')"
    and c': "exp_checked c' = exp_checked c2 + int (length ps)" "exp_expired c' = exp_expired c2 + int (length ps)"
      "exp_failed c' = exp_failed c2"
    and w': "payments w' = map (\<lambda>x. if x \<in> set ps then canceled x else x) (payments w2)"
      "appointments w' = map (release_booking (pay_appointment_id ` set ps)) (appointments w2)"
      "earnings w' = earnings w2" "refunds w' = refunds w2" "books_sound w'" by auto
  have "canceled p \<notin> set ps" using Cons.prems(4) by (auto simp: canceled_def)
  then have "payments w' = map (\<lambda>x. if x \<in> set (p # ps) then canceled x else x) (payments w)"
    using w'(1) w2(1) w1(1) by auto
  moreover have "appointments w' = map (release_booking (pay_appointment_id ` set (p # ps))) (appointments w)"
    using w'(2) w2(2) w1(2) by (simp add: Un_commute)
  ultimately show ?case using step l c' c2 w' w2 w1 by simp
qed

definition stale :: "instant \<Rightarrow> payment \<Rightarrow> bool" where
  "stale cutoff p \<longleftrightarrow> pay_status p \<in> {PAY_PENDING, PAY_REQUIRES_ACTION} \<and> pay_created_at p \<le> cutoff"

lemma set_list_expired_pending: "set (payment_list_expired_pending cutoff w) = {p \<in> set (payments w). stale cutoff p}"
  by (auto simp: payment_list_expired_pending_def stale_def)

lemma distinct_list_expired_pending: "amounts_ok w \<Longrightarrow> distinct (payment_list_expired_pending cutoff w)"
  by (simp add: payment_list_expired_pending_def amounts_ok_def tbl_ok_def distinct_map)

text \<open>
  C34. Expiry clears exactly what is overdue: every pending payment created up to the cutoff is
  canceled and no other payment is touched, the bookings that waited for one of them are cancelled
  and no other booking is, earnings and refunds stay as they were, and the counts it reports are
  those of a run without failures.
\<close>

theorem expiry_clears_overdue:
  assumes "books_sound w"
  shows "\<exists>c w'. expire_pending_payments ev (Some m) (Some t) w = (c, w') \<and>
    exp_failed c = 0 \<and> exp_expired c = exp_checked c \<and>
    payments w' = map (\<lambda>p. if stale (t - m * minute_us) p then canceled p else p) (payments w) \<and>
    appointments w' = map (release_booking (pay_appointment_id ` {p \<in> set (payments w). stale (t - m * minute_us) p}))
                        (appointments w) \<and>
    earnings w' = earnings w \<and> refunds w' = refunds w \<and> books_sound w'"
proof -
  let ?cut = "t - m * minute_us"
  let ?ps = "payment_list_expired_pending ?cut w"
  let ?c = "\<lparr>exp_checked = 0, exp_expired = 0, exp_auto_canceled_appointments = 0, exp_failed = 0\<rparr>"
  have "distinct ?ps" using assms distinct_list_expired_pending by (simp add: books_sound_def)
  from expire_loop_effect [OF assms _ this, of ev ?c] obtain c' w' where
    l: "expire_loop ev ?ps ?c w = (c', w')" "exp_checked c' = int (length ?ps)" "exp_expired c' = int (length ?ps)"
      "exp_failed c' = 0"
    and w': "payments w' = map (\<lambda>x. if x \<in> set ?ps then canceled x else x) (payments w)"
      "appointments w' = map (release_booking (pay_appointment_id ` set ?ps)) (appointments w)"
      "earnings w' = earnings w" "refunds w' = refunds w" "books_sound w'"
    by (auto simp: set_list_expired_pending stale_def)
  have "payments w' = map (\<lambda>p. if stale ?cut p then canceled p else p) (payments w)"
    using w'(1) by (simp add: set_list_expired_pending)
  with l w' show ?thesis
    by (simp add: expire_pending_payments_def Let_def set_list_expired_pending)
qed

theorem expiry_clears_overdue_witness:
  "\<exists>c w'. expire_pending_payments sample_env (Some 30) (Some hour_us) booked_world = (c, w') \<and>
     map pay_status (payments w') = [PAY_CANCELED] \<and> map apt_status (appointments w') = [APT_CANCELLED]"
  using expiry_clears_overdue [OF booked_world_sound, of sample_env 30 hour_us]
  by (force simp: sample_defs stale_def canceled_def release_booking_def timed_out_def hour_us_def minute_us_def)

end
