(* ===== verification/Payouts.thy ===== *)
theory Payouts
  imports Payments
begin

text \<open>
  \<^verbatim>\<open>services/payments/payout_service.py\<close> with the payout provider of
  \<^verbatim>\<open>services/payments/mock_provider.py\<close>: collecting a provider's ready earnings into a
  payout, settling or failing it, and the worker's pass over the pending payouts, which commits
  after every step of every payout.
\<close>

definition collect_provider_earnings :: "int \<Rightarrow> world \<Rightarrow> earning list" where
  "collect_provider_earnings provider_id w = earning_list_ready_for_payout provider_id w"

definition payout_event :: "string \<Rightarrow> string \<Rightarrow> string \<Rightarrow> int option \<Rightarrow> payout \<Rightarrow> int \<Rightarrow> (string \<times> json) list \<Rightarrow> domain_event" where
  "payout_event event_type status actor_type actor_id payout organization_id payload =
     (event_defaults event_type)
       \<lparr>ev_entity_type := Some ''payout'', ev_entity_id := Some (po_id payout),
        ev_organization_id := Some organization_id, ev_actor_type := actor_type, ev_actor_id := actor_id,
        ev_related_payout_id := Some (po_id payout), ev_status := status, ev_payload_json := JObj payload\<rparr>"

definition pay_earning :: "int \<Rightarrow> earning \<Rightarrow> earning" where
  "pay_earning payout_id e = e\<lparr>ern_status := PAID_OUT, ern_payout_id := Some payout_id\<rparr>"

definition release_earning :: "earning \<Rightarrow> earning" where
  "release_earning e = e\<lparr>ern_status := READY_FOR_PAYOUT, ern_payout_id := None\<rparr>"

definition create_payout ::
  "env \<Rightarrow> int \<Rightarrow> string \<Rightarrow> int option \<Rightarrow> world \<Rightarrow> (payout \<times> world) result" where
  "create_payout ev provider_id actor_type actor_id w =
     (case provider_get provider_id w of
        None \<Rightarrow> Inl (LookupError ''Provider not found.'')
      | Some provider \<Rightarrow>
       (let es = collect_provider_earnings provider_id w in
        if es = [] then Inl (ValueError ''No earnings ready for payout.'')
        else
         (let currencies = remdups (map ern_currency es) in
          if length currencies \<noteq> 1 then Inl (ValueError ''Payout currency mismatch across earnings.'')
          else
           (let currency = hd currencies;
                total_amount_minor = sum_list (map ern_provider_amount_minor es) in
            if total_amount_minor \<le> 0 then Inl (ValueError ''No positive payout amount available.'')
            else case payout_create ev
                   \<lparr>po_id = 0, po_provider_id = prov_id provider, po_total_amount_minor = total_amount_minor,
                    po_currency = currency, po_status = PO_PENDING, po_provider_payout_reference = None,
                    po_processed_at = None, po_created_at = 0\<rparr> w of
              Inl e \<Rightarrow> Inl e
            | Inr (payout, w1) \<Rightarrow>
            case update_each earning_update (pay_earning (po_id payout)) es w1 of
              Inl e \<Rightarrow> Inl e
            | Inr w2 \<Rightarrow>
              Inr (payout,
                   record_event ev
                     (payout_event ''payout_created'' ''success'' actor_type actor_id payout
                        (prov_organization_id provider)
                        [(''provider_id'', JInt (po_provider_id payout)),
                         (''total_amount_minor'', JInt (po_total_amount_minor payout)),
                         (''currency'', JStr (po_currency payout)),
                         (''earning_count'', JInt (int (length es)))])
                     (increment_counter ''payouts_created_total''
                       (enqueue ev TASK_PAYOUT_CREATED (po_id payout) w2)))))))"

text \<open>What follows the commit of a settled payout; the organization is read from its provider.\<close>

definition announce_payout ::
  "env \<Rightarrow> string \<Rightarrow> string \<Rightarrow> string \<Rightarrow> string \<Rightarrow> payout \<Rightarrow> world \<Rightarrow> (exn + payout) \<times> world" where
  "announce_payout ev task counter event_type status payout w =
     (let w1 = increment_counter counter (enqueue ev task (po_id payout) w) in
      case provider_get (po_provider_id payout) w1 of
        None \<Rightarrow> (Inl (AttributeError ''organization_id''), w1)
      | Some provider \<Rightarrow>
        (Inr payout,
         record_event ev
           (payout_event event_type status ''worker'' None payout (prov_organization_id provider)
              [(''provider_id'', JInt (po_provider_id payout)),
               (''provider_payout_reference'', opt_json (po_provider_payout_reference payout))])
           w1))"

definition mark_payout_completed ::
  "env \<Rightarrow> int \<Rightarrow> string option \<Rightarrow> world \<Rightarrow> (exn + payout) \<times> world" where
  "mark_payout_completed ev payout_id reference w =
     (case payout_get payout_id w of
        None \<Rightarrow> (Inl (LookupError ''Payout not found.''), w)
      | Some locked \<Rightarrow>
      if po_status locked = PO_COMPLETED then (Inr locked, w)
      else
       (let updated = locked\<lparr>po_status := PO_COMPLETED,
              po_provider_payout_reference := or_else reference (po_provider_payout_reference locked),
              po_processed_at := Some (now ev)\<rparr> in
        case payout_update updated w of
          Inl e \<Rightarrow> (Inl e, w)
        | Inr w' \<Rightarrow>
          announce_payout ev TASK_PAYOUT_COMPLETED ''payouts_completed_total'' ''payout_completed'' ''success''
            updated w'))"

definition mark_payout_failed ::
  "env \<Rightarrow> int \<Rightarrow> string option \<Rightarrow> world \<Rightarrow> (exn + payout) \<times> world" where
  "mark_payout_failed ev payout_id reference w =
     (case payout_get payout_id w of
        None \<Rightarrow> (Inl (LookupError ''Payout not found.''), w)
      | Some locked \<Rightarrow>
      if po_status locked = PO_FAILED then (Inr locked, w)
      else case update_each earning_update release_earning (earning_list_by_payout (po_id locked) w) w of
        Inl e \<Rightarrow> (Inl e, w)
      | Inr w1 \<Rightarrow>
       (let updated = locked\<lparr>po_status := PO_FAILED,
              po_provider_payout_reference := or_else reference (po_provider_payout_reference locked),
              po_processed_at := Some (now ev)\<rparr> in
        case payout_update updated w1 of
          Inl e \<Rightarrow> (Inl e, w)
        | Inr w' \<Rightarrow>
          announce_payout ev TASK_PAYOUT_FAILED ''payouts_failed_total'' ''payout_failed'' ''failure''
            updated w'))"

record payout_provider_result =
  ppr_provider_payout_reference :: string
  ppr_status :: string

definition mock_create_payout :: "env \<Rightarrow> int \<Rightarrow> payout_provider_result" where
  "mock_create_payout ev payout_id =
     \<lparr>ppr_provider_payout_reference = ''mock_po_'' @ token_hex ev ''payout'' payout_id,
      ppr_status = payout_status_value PO_COMPLETED\<rparr>"

datatype payout_outcome = Payout_skipped | Payout_completed | Payout_failed

text \<open>The body of the worker's loop for one pending payout.\<close>

definition process_payout :: "env \<Rightarrow> int \<Rightarrow> world \<Rightarrow> payout_outcome \<times> world" where
  "process_payout ev pending_id w =
     (case payout_get pending_id w of
        None \<Rightarrow> (Payout_skipped, w)
      | Some payout \<Rightarrow>
      if po_status payout \<noteq> PO_PENDING then (Payout_skipped, w)
      else case payout_update (payout\<lparr>po_status := PO_PROCESSING\<rparr>) w of
        Inl e \<Rightarrow> (Payout_failed, w)
      | Inr w1 \<Rightarrow>
       (let provider_result = mock_create_payout ev (po_id payout);
            reference = Some (ppr_provider_payout_reference provider_result) in
        if ppr_status provider_result = payout_status_value PO_COMPLETED
        then (case mark_payout_completed ev (po_id payout) reference w1 of
                (Inr _, w2) \<Rightarrow> (Payout_completed, w2)
              | (Inl _, w2) \<Rightarrow> (Payout_failed, snd (mark_payout_failed ev (po_id payout) None w2)))
        else (case mark_payout_failed ev (po_id payout) reference w1 of
                (Inr _, w2) \<Rightarrow> (Payout_failed, w2)
              | (Inl _, w2) \<Rightarrow> (Payout_failed, snd (mark_payout_failed ev (po_id payout) None w2)))))"

record payout_counts =
  pc_processed :: int
  pc_completed :: int
  pc_failed :: int

fun process_loop :: "env \<Rightarrow> payout list \<Rightarrow> payout_counts \<Rightarrow> world \<Rightarrow> payout_counts \<times> world" where
  "process_loop ev [] c w = (c, w)"
| "process_loop ev (pending # rest) c w =
     (let c1 = c\<lparr>pc_processed := pc_processed c + 1\<rparr>;
          (outcome, w1) = process_payout ev (po_id pending) w in
      process_loop ev rest
        (case outcome of
           Payout_skipped \<Rightarrow> c1
         | Payout_completed \<Rightarrow> c1\<lparr>pc_completed := pc_completed c1 + 1\<rparr>
         | Payout_failed \<Rightarrow> c1\<lparr>pc_failed := pc_failed c1 + 1\<rparr>) w1)"

definition process_pending_payouts :: "env \<Rightarrow> string \<Rightarrow> world \<Rightarrow> (exn + payout_counts) \<times> world" where
  "process_pending_payouts ev provider_name w =
     (if provider_name \<noteq> ''mock''
      then (Inl (ValueError (''Unsupported payout provider: '' @ provider_name)), w)
      else
       (let (c, w') = process_loop ev (payout_list_pending w)
                        \<lparr>pc_processed = 0, pc_completed = 0, pc_failed = 0\<rparr> w in
        (Inr c, w')))"

section \<open>Updating several earnings\<close>

lemma earning_update_each:
  assumes "earnings_sound w" and "set es \<subseteq> set (earnings w)" and "distinct (map ern_id es)"
    and "\<And>e. e \<in> set es \<Longrightarrow> ern_id (f e) = ern_id e \<and> ern_payment_id (f e) = ern_payment_id e \<and>
           earning_balanced (f e) \<and> earning_status_ok (f e)"
  shows "\<exists>t. update_each earning_update f es w = Inr (w\<lparr>earnings := t\<rparr>) \<and> earnings_sound (w\<lparr>earnings := t\<rparr>)"
  using assms
proof (induction es arbitrary: w)
  case Nil
  then have "update_each earning_update f [] w = Inr (w\<lparr>earnings := earnings w\<rparr>) \<and> earnings_sound (w\<lparr>earnings := earnings w\<rparr>)"
    by simp
  then show ?case by blast
next
  case (Cons e es)
  have e: "e \<in> set (earnings w)" and f: "ern_id (f e) = ern_id e" "ern_payment_id (f e) = ern_payment_id e"
    "earning_balanced (f e)" "earning_status_ok (f e)"
    using Cons.prems by auto
  let ?w1 = "w\<lparr>earnings := tbl_set ern_id (f e) (earnings w)\<rparr>"
  have u: "earning_update (f e) w = Inr ?w1" by (rule earning_update_ok [OF Cons.prems(1) e f(1,2,3)])
  have s: "earnings_sound ?w1" by (rule earnings_sound_update [OF Cons.prems(1) u e f])
  have sub: "set es \<subseteq> set (earnings ?w1)"
  proof
    fix x assume x: "x \<in> set es"
    have "ern_id e \<notin> ern_id ` set es" using Cons.prems(3) by simp
    with x have "x \<in> set (earnings w)" "ern_id x \<noteq> ern_id e" using Cons.prems(2) by (auto simp: image_iff)
    then show "x \<in> set (earnings ?w1)" using f(1) by (auto simp: set_tbl_set)
  qed
  from Cons.IH [OF s sub] Cons.prems(3,4) obtain t where
    "update_each earning_update f es ?w1 = Inr (?w1\<lparr>earnings := t\<rparr>)" "earnings_sound (?w1\<lparr>earnings := t\<rparr>)" by auto
  then show ?case using u by auto
qed

lemma earning_update_each_map:
  assumes "earnings_sound w" and "set es \<subseteq> set (earnings w)" and "distinct (map ern_id es)"
    and "\<And>e. ern_id (f e) = ern_id e"
    and "\<And>e. e \<in> set es \<Longrightarrow> ern_payment_id (f e) = ern_payment_id e \<and> earning_balanced (f e) \<and> earning_status_ok (f e)"
  shows "update_each earning_update f es w = Inr (w\<lparr>earnings := map (\<lambda>x. if x \<in> set es then f x else x) (earnings w)\<rparr>) \<and>
    earnings_sound (w\<lparr>earnings := map (\<lambda>x. if x \<in> set es then f x else x) (earnings w)\<rparr>)"
proof -
  from earning_update_each [OF assms(1-3)] assms(4,5) obtain t where
    t: "update_each earning_update f es w = Inr (w\<lparr>earnings := t\<rparr>)" "earnings_sound (w\<lparr>earnings := t\<rparr>)" by metis
  have "tbl_ok ern_id (earnings w)" using assms(1) by (simp add: earnings_sound_def)
  from earning_repo.update_each_rows [OF t(1) assms(4,3,2) this]
  have "t = map (\<lambda>x. if x \<in> set es then f x else x) (earnings w)" by simp
  with t show ?thesis by simp
qed

section \<open>Payouts and the earnings they pay\<close>

definition linked_total :: "int \<Rightarrow> earning list \<Rightarrow> int" where
  "linked_total i t = sum_list (map ern_provider_amount_minor [e \<leftarrow> t. ern_payout_id e = Some i])"

definition payouts_sound :: "world \<Rightarrow> bool" where
  "payouts_sound w \<longleftrightarrow> tbl_ok po_id (payouts w) \<and>
     (\<forall>e \<in> set (earnings w). \<forall>i. ern_payout_id e = Some i \<longrightarrow>
        (\<exists>p \<in> set (payouts w). po_id p = i \<and> po_provider_id p = ern_provider_id e \<and> po_currency p = ern_currency e)) \<and>
     (\<forall>p \<in> set (payouts w).
        (if po_status p = PO_FAILED then \<forall>e \<in> set (earnings w). ern_payout_id e \<noteq> Some (po_id p)
         else po_total_amount_minor p = linked_total (po_id p) (earnings w)) \<and> 0 \<le> po_total_amount_minor p)"

lemma sum_list_sort_key: "sum_list (map f (sort_key k xs)) = (sum_list (map f xs) :: int)"
  by (metis mset_map mset_sort sum_mset_sum_list)

lemma in_ready: "e \<in> set (collect_provider_earnings p w) \<longleftrightarrow>
    e \<in> set (earnings w) \<and> ern_provider_id e = p \<and> ern_status e = READY_FOR_PAYOUT \<and>
    0 < ern_provider_amount_minor e \<and> ern_payout_id e = None"
  by (auto simp: collect_provider_earnings_def earning_list_ready_for_payout_def)

lemma distinct_sorted_filter: "tbl_ok ident t \<Longrightarrow> distinct (map ident (sort_key k (filter P t)))"
  by (metis distinct_map_filter mset_eq_imp_distinct_iff mset_map mset_sort tbl_ok_def)

lemma ready_distinct: "earnings_sound w \<Longrightarrow> distinct (map ern_id (collect_provider_earnings p w))"
  by (simp add: collect_provider_earnings_def earning_list_ready_for_payout_def earnings_sound_def distinct_sorted_filter)

lemma linked_total_paid:
  assumes "\<forall>e \<in> set t. ern_payout_id e \<noteq> Some i"
  shows "linked_total i (map (\<lambda>x. if P x then pay_earning i x else x) t) = sum_list (map ern_provider_amount_minor (filter P t))"
  using assms by (induction t) (auto simp: linked_total_def pay_earning_def)

lemma linked_total_other:
  assumes "\<And>x. x \<in> set t \<Longrightarrow> P x \<Longrightarrow> ern_payout_id x \<noteq> Some j" and "i \<noteq> j"
  shows "linked_total j (map (\<lambda>x. if P x then pay_earning i x else x) t) = linked_total j t"
  using assms by (induction t) (auto simp: linked_total_def pay_earning_def)

lemma linked_total_nonneg: "earnings_sound w \<Longrightarrow> 0 \<le> linked_total i (earnings w)"
  unfolding linked_total_def by (rule sum_list_nonneg) (auto simp: earnings_sound_def earning_balanced_def)

lemma payout_create_eq:
  "payout_create ev r w = Inr (p, w') \<Longrightarrow>
     p = r\<lparr>po_id := tbl_fresh po_id (payouts w), po_created_at := now ev\<rparr> \<and> w' = w\<lparr>payouts := payouts w @ [p]\<rparr>"
  by (auto simp: payout_create_def db_insert_def Let_def split: option.splits)

lemma create_payout_effect:
  assumes c: "create_payout ev i actor ai w = Inr (p, w')" and s: "earnings_sound w"
  shows "\<exists>es. es = collect_provider_earnings i w \<and> es \<noteq> [] \<and> (\<forall>e \<in> set es. ern_currency e = po_currency p) \<and>
    po_provider_id p = i \<and> po_status p = PO_PENDING \<and> po_id p = tbl_fresh po_id (payouts w) \<and>
    po_total_amount_minor p = sum_list (map ern_provider_amount_minor es) \<and> 0 < po_total_amount_minor p \<and>
    payouts w' = payouts w @ [p] \<and>
    earnings w' = map (\<lambda>x. if x \<in> set es then pay_earning (po_id p) x else x) (earnings w) \<and>
    earnings_sound w' \<and> payments w' = payments w \<and> refunds w' = refunds w \<and> appointments w' = appointments w"
proof -
  define es where "es = collect_provider_earnings i w"
  have es: "set es \<subseteq> set (earnings w)" "distinct (map ern_id es)"
    using ready_distinct [OF s] by (auto simp: es_def in_ready)
  from c obtain prov w1 w2 where prov: "provider_get i w = Some prov" and ne: "es \<noteq> []"
    and cur: "length (remdups (map ern_currency es)) = 1"
    and pos: "0 < sum_list (map ern_provider_amount_minor es)"
    and pc: "payout_create ev
        \<lparr>po_id = 0, po_provider_id = prov_id prov, po_total_amount_minor = sum_list (map ern_provider_amount_minor es),
         po_currency = hd (remdups (map ern_currency es)), po_status = PO_PENDING, po_provider_payout_reference = None,
         po_processed_at = None, po_created_at = 0\<rparr> w = Inr (p, w1)"
    and up: "update_each earning_update (pay_earning (po_id p)) es w1 = Inr w2"
    and bw: "business w' = business w2"
    by (auto simp: create_payout_def Let_def es_def [symmetric] split: option.splits if_splits)
  from payout_create_eq [OF pc] have p: "po_id p = tbl_fresh po_id (payouts w)" "po_provider_id p = prov_id prov"
    "po_total_amount_minor p = sum_list (map ern_provider_amount_minor es)"
    "po_currency p = hd (remdups (map ern_currency es))" "po_status p = PO_PENDING"
    and w1: "w1 = w\<lparr>payouts := payouts w @ [p]\<rparr>" by simp_all
  have "prov_id prov = i" using provider_get_mem [OF prov] by simp
  have s1: "earnings_sound w1" using s w1 by (simp add: earnings_sound_def)
  have "ern_payment_id (pay_earning (po_id p) e) = ern_payment_id e \<and> earning_balanced (pay_earning (po_id p) e) \<and>
      earning_status_ok (pay_earning (po_id p) e)" if "e \<in> set es" for e
    using that s by (auto simp: es_def in_ready pay_earning_def earnings_sound_def earning_balanced_def earning_status_ok_def)
  then have "w2 = w1\<lparr>earnings := map (\<lambda>x. if x \<in> set es then pay_earning (po_id p) x else x) (earnings w1)\<rparr> \<and> earnings_sound w2"
    using earning_update_each_map [OF s1 _ es(2), of "pay_earning (po_id p)"] es(1) w1 up by (simp add: pay_earning_def)
  then have w2: "earnings w2 = map (\<lambda>x. if x \<in> set es then pay_earning (po_id p) x else x) (earnings w)"
    "earnings_sound w2" "payouts w2 = payouts w @ [p]" "payments w2 = payments w" "refunds w2 = refunds w"
    "appointments w2 = appointments w"
    using w1 by auto
  obtain c where "remdups (map ern_currency es) = [c]" using cur by (metis One_nat_def length_0_conv length_Suc_conv)
  then have "set (map ern_currency es) = {po_currency p}" using p(4) by (metis list.sel(1) set_remdups list.set(1,2))
  then have "\<forall>e \<in> set es. ern_currency e = po_currency p" by auto
  moreover have "earnings_sound w'" using w2(2) business_eqD [OF bw] by (simp add: earnings_sound_def)
  ultimately show ?thesis
    using ne p pos \<open>prov_id prov = i\<close> w2 business_eqD [OF bw] by (intro exI [of _ es]) (simp add: es_def)
qed

lemma create_payout_sound:
  assumes c: "create_payout ev i actor ai w = Inr (p, w')" and s: "earnings_sound w" and ps: "payouts_sound w"
  shows "payouts_sound w'"
proof -
  define es where "es = collect_provider_earnings i w"
  from create_payout_effect [OF c s] have e: "\<forall>e \<in> set es. ern_currency e = po_currency p"
    "po_provider_id p = i" "po_status p = PO_PENDING" "po_id p = tbl_fresh po_id (payouts w)"
    "po_total_amount_minor p = sum_list (map ern_provider_amount_minor es)" "0 < po_total_amount_minor p"
    "payouts w' = payouts w @ [p]"
    "earnings w' = map (\<lambda>x. if x \<in> set es then pay_earning (po_id p) x else x) (earnings w)"
    by (auto simp: es_def)
  have fresh: "po_id p \<notin> po_id ` set (payouts w)" using e(4) by simp
  have unlinked: "\<forall>x \<in> set (earnings w). ern_payout_id x \<noteq> Some (po_id p)"
    using ps fresh unfolding payouts_sound_def by (metis image_eqI)
  have P: "[x \<leftarrow> earnings w. x \<in> set es] = [x \<leftarrow> earnings w. ern_provider_id x = i \<and> ern_status x = READY_FOR_PAYOUT \<and>
      0 < ern_provider_amount_minor x \<and> ern_payout_id x = None]"
    by (rule filter_cong) (auto simp: es_def in_ready)
  have "sum_list (map ern_provider_amount_minor es) = sum_list (map ern_provider_amount_minor [x \<leftarrow> earnings w. x \<in> set es])"
    by (simp add: P) (simp add: es_def collect_provider_earnings_def earning_list_ready_for_payout_def sum_list_sort_key)
  then have tot: "po_total_amount_minor p = linked_total (po_id p) (earnings w')"
    using linked_total_paid [OF unlinked, of "\<lambda>x. x \<in> set es"] e(5,8) by simp
  have other: "linked_total (po_id q) (earnings w') = linked_total (po_id q) (earnings w)"
    and other_none: "(\<forall>x \<in> set (earnings w'). ern_payout_id x \<noteq> Some (po_id q)) \<longleftrightarrow>
      (\<forall>x \<in> set (earnings w). ern_payout_id x \<noteq> Some (po_id q))" if "q \<in> set (payouts w)" for q
  proof -
    have ne: "po_id p \<noteq> po_id q" using that fresh by auto
    show "linked_total (po_id q) (earnings w') = linked_total (po_id q) (earnings w)"
      unfolding e(8) by (rule linked_total_other [OF _ ne]) (auto simp: es_def in_ready)
    show "(\<forall>x \<in> set (earnings w'). ern_payout_id x \<noteq> Some (po_id q)) \<longleftrightarrow>
      (\<forall>x \<in> set (earnings w). ern_payout_id x \<noteq> Some (po_id q))"
      unfolding e(8) using ne by (auto simp: pay_earning_def es_def in_ready split: if_splits)
  qed
  have "tbl_ok po_id (payouts w')" using ps fresh e(7) by (simp add: payouts_sound_def tbl_ok_append)
  moreover have "\<exists>q \<in> set (payouts w'). po_id q = j \<and> po_provider_id q = ern_provider_id x \<and> po_currency q = ern_currency x"
    if "x \<in> set (earnings w')" "ern_payout_id x = Some j" for x j
    using that e(1,2,7,8) ps unfolding payouts_sound_def
    by (auto simp: pay_earning_def es_def in_ready split: if_splits)
  moreover have "(if po_status q = PO_FAILED then \<forall>x \<in> set (earnings w'). ern_payout_id x \<noteq> Some (po_id q)
         else po_total_amount_minor q = linked_total (po_id q) (earnings w')) \<and> 0 \<le> po_total_amount_minor q"
    if "q \<in> set (payouts w')" for q
  proof (cases "q = p")
    case True
    then show ?thesis using tot e(3,6) by simp
  next
    case False
    then have q: "q \<in> set (payouts w)" using that e(7) by simp
    with ps have "(if po_status q = PO_FAILED then \<forall>x \<in> set (earnings w). ern_payout_id x \<noteq> Some (po_id q)
         else po_total_amount_minor q = linked_total (po_id q) (earnings w)) \<and> 0 \<le> po_total_amount_minor q"
      unfolding payouts_sound_def by blast
    then show ?thesis unfolding other [OF q] other_none [OF q] .
  qed
  ultimately show ?thesis unfolding payouts_sound_def by blast
qed

lemma payout_update_eq: "0 \<le> po_total_amount_minor p \<Longrightarrow> payout_update p w = Inr (w\<lparr>payouts := tbl_set po_id p (payouts w)\<rparr>)"
  by (simp add: payout_update_def db_update_def payout_violates_def)

lemma payout_get_mem: "payout_get i w = Some p \<Longrightarrow> p \<in> set (payouts w) \<and> po_id p = i"
  by (auto simp: payout_get_def dest: tbl_get_Some)

lemma payouts_sound_nonneg: "payouts_sound w \<Longrightarrow> p \<in> set (payouts w) \<Longrightarrow> 0 \<le> po_total_amount_minor p"
  by (simp add: payouts_sound_def)

text \<open>A change of status and bookkeeping fields that does not cross the failed status.\<close>

lemma payouts_sound_status:
  assumes s: "payouts_sound w" and p: "p \<in> set (payouts w)"
    and r: "po_id r = po_id p" "po_provider_id r = po_provider_id p" "po_currency r = po_currency p"
      "po_total_amount_minor r = po_total_amount_minor p" "po_status p \<noteq> PO_FAILED" "po_status r \<noteq> PO_FAILED"
    and w': "payouts w' = tbl_set po_id r (payouts w)" "earnings w' = earnings w"
  shows "payouts_sound w'"
proof -
  have "\<exists>q \<in> set (payouts w'). po_id q = i \<and> po_provider_id q = ern_provider_id e \<and> po_currency q = ern_currency e"
    if e: "e \<in> set (earnings w)" "ern_payout_id e = Some i" for e i
  proof -
    from e s obtain q where q: "q \<in> set (payouts w)" "po_id q = i" "po_provider_id q = ern_provider_id e" "po_currency q = ern_currency e"
      unfolding payouts_sound_def by blast
    show ?thesis
    proof (cases "po_id q = po_id p")
      case True
      then have "q = p" using s p q(1) by (auto simp: payouts_sound_def intro: tbl_ok_inj)
      moreover have "r \<in> set (payouts w')" using p r(1) w'(1) by (simp add: set_tbl_set)
      ultimately show ?thesis using q r by auto
    next
      case False
      then have "q \<in> set (payouts w')" using p q(1) r(1) w'(1) by (auto simp: set_tbl_set)
      then show ?thesis using q by blast
    qed
  qed
  moreover have "tbl_ok po_id (payouts w')" using s w'(1) by (simp add: payouts_sound_def tbl_ok_set)
  moreover have "(if po_status q = PO_FAILED then \<forall>x \<in> set (earnings w'). ern_payout_id x \<noteq> Some (po_id q)
         else po_total_amount_minor q = linked_total (po_id q) (earnings w')) \<and> 0 \<le> po_total_amount_minor q"
    if "q \<in> set (payouts w')" for q
  proof -
    have "q = r \<or> q \<in> set (payouts w)" using that w'(1) by (auto dest: in_tbl_set)
    then show ?thesis
    proof
      assume "q = r"
      have "po_total_amount_minor p = linked_total (po_id p) (earnings w) \<and> 0 \<le> po_total_amount_minor p"
        using s p r(5) unfolding payouts_sound_def by fastforce
      then show ?thesis using \<open>q = r\<close> r w'(2) by simp
    next
      assume "q \<in> set (payouts w)"
      then show ?thesis using s w'(2) unfolding payouts_sound_def by fastforce
    qed
  qed
  ultimately show ?thesis using w'(2) unfolding payouts_sound_def by (simp only:) blast
qed

lemma business_announce_payout: "business (snd (announce_payout ev t c et st p w)) = business w"
  by (simp add: announce_payout_def Let_def split: option.split)

lemma announce_payout_ok:
  "provider_get (po_provider_id p) w \<noteq> None \<Longrightarrow> \<exists>w'. announce_payout ev t c et st p w = (Inr p, w') \<and> business w' = business w"
  by (auto simp: announce_payout_def Let_def provider_get_def)

definition completed_payout :: "env \<Rightarrow> string option \<Rightarrow> payout \<Rightarrow> payout" where
  "completed_payout ev reference p = p\<lparr>po_status := PO_COMPLETED,
     po_provider_payout_reference := or_else reference (po_provider_payout_reference p),
     po_processed_at := Some (now ev)\<rparr>"

definition failed_payout :: "env \<Rightarrow> string option \<Rightarrow> payout \<Rightarrow> payout" where
  "failed_payout ev reference p = p\<lparr>po_status := PO_FAILED,
     po_provider_payout_reference := or_else reference (po_provider_payout_reference p),
     po_processed_at := Some (now ev)\<rparr>"

lemma mark_payout_completed_effect:
  assumes p: "payout_get i w = Some p" and st: "po_status p \<noteq> PO_COMPLETED" and nn: "0 \<le> po_total_amount_minor p"
    and prov: "provider_get (po_provider_id p) w \<noteq> None"
  shows "\<exists>w'. mark_payout_completed ev i ref w = (Inr (completed_payout ev ref p), w') \<and>
    payouts w' = tbl_set po_id (completed_payout ev ref p) (payouts w) \<and> earnings w' = earnings w \<and> providers w' = providers w"
proof -
  let ?p = "completed_payout ev ref p"
  let ?w1 = "w\<lparr>payouts := tbl_set po_id ?p (payouts w)\<rparr>"
  have "provider_get (po_provider_id ?p) ?w1 \<noteq> None" using prov by (simp add: provider_get_def completed_payout_def)
  from announce_payout_ok [OF this] obtain w' where
    a: "announce_payout ev TASK_PAYOUT_COMPLETED ''payouts_completed_total'' ''payout_completed'' ''success'' ?p ?w1 = (Inr ?p, w')"
    and b: "business w' = business ?w1" by blast
  have "payout_update ?p w = Inr ?w1" using nn by (simp add: payout_update_eq completed_payout_def)
  then have "mark_payout_completed ev i ref w = (Inr ?p, w')"
    using p st a by (simp add: mark_payout_completed_def completed_payout_def)
  with business_eqD [OF b] show ?thesis by simp
qed

lemma linked_paid_out:
  assumes "earnings_sound w" and "e \<in> set (earnings w)" and "ern_payout_id e = Some i"
  shows "earning_balanced (release_earning e) \<and> earning_status_ok (release_earning e)"
proof -
  have "earning_balanced e" "earning_status_ok e" using assms(1,2) by (simp_all add: earnings_sound_def)
  then show ?thesis
    using assms(3) by (auto simp: earning_balanced_def earning_status_ok_def release_earning_def)
qed

lemma mark_payout_failed_effect:
  assumes s: "earnings_sound w" and p: "payout_get i w = Some p" and st: "po_status p \<noteq> PO_FAILED"
    and nn: "0 \<le> po_total_amount_minor p" and prov: "provider_get (po_provider_id p) w \<noteq> None"
  shows "\<exists>w'. mark_payout_failed ev i ref w = (Inr (failed_payout ev ref p), w') \<and>
    payouts w' = tbl_set po_id (failed_payout ev ref p) (payouts w) \<and>
    earnings w' = map (\<lambda>e. if ern_payout_id e = Some i then release_earning e else e) (earnings w) \<and>
    earnings_sound w' \<and> providers w' = providers w"
proof -
  let ?p = "failed_payout ev ref p"
  have pid: "po_id p = i" using payout_get_mem [OF p] by simp
  define es where "es = earning_list_by_payout i w"
  have set_es: "set es = {e \<in> set (earnings w). ern_payout_id e = Some i}"
    by (auto simp: es_def earning_list_by_payout_def)
  have "distinct (map ern_id es)"
    using s by (simp add: es_def earning_list_by_payout_def earnings_sound_def distinct_sorted_filter)
  moreover have "ern_payment_id (release_earning e) = ern_payment_id e \<and> earning_balanced (release_earning e) \<and>
      earning_status_ok (release_earning e)" if "e \<in> set es" for e
    using that linked_paid_out [OF s] by (auto simp: set_es release_earning_def)
  moreover have "set es \<subseteq> set (earnings w)" by (auto simp: set_es)
  ultimately have up: "update_each earning_update release_earning es w =
      Inr (w\<lparr>earnings := map (\<lambda>x. if x \<in> set es then release_earning x else x) (earnings w)\<rparr>) \<and>
      earnings_sound (w\<lparr>earnings := map (\<lambda>x. if x \<in> set es then release_earning x else x) (earnings w)\<rparr>)"
    by (intro earning_update_each_map [OF s]) (simp_all add: release_earning_def)
  have m: "map (\<lambda>x. if x \<in> set es then release_earning x else x) (earnings w) =
      map (\<lambda>e. if ern_payout_id e = Some i then release_earning e else e) (earnings w)"
    by (simp add: set_es)
  let ?w1 = "w\<lparr>earnings := map (\<lambda>e. if ern_payout_id e = Some i then release_earning e else e) (earnings w)\<rparr>"
  let ?w2 = "?w1\<lparr>payouts := tbl_set po_id ?p (payouts w)\<rparr>"
  have "provider_get (po_provider_id ?p) ?w2 \<noteq> None" using prov by (simp add: provider_get_def failed_payout_def)
  from announce_payout_ok [OF this] obtain w' where
    a: "announce_payout ev TASK_PAYOUT_FAILED ''payouts_failed_total'' ''payout_failed'' ''failure'' ?p ?w2 = (Inr ?p, w')"
    and b: "business w' = business ?w2" by blast
  have "payout_update ?p ?w1 = Inr ?w2" using nn by (simp add: payout_update_eq failed_payout_def)
  moreover have "update_each earning_update release_earning (earning_list_by_payout (po_id p) w) w = Inr ?w1"
    using up unfolding m by (simp add: es_def pid)
  ultimately have "mark_payout_failed ev i ref w = (Inr ?p, w')"
    using p st a by (simp add: mark_payout_failed_def failed_payout_def)
  moreover have "earnings_sound w'" using up m business_eqD [OF b] by (simp add: earnings_sound_def)
  ultimately show ?thesis using business_eqD [OF b] by simp
qed

lemma linked_total_release_other:
  "i \<noteq> j \<Longrightarrow> linked_total j (map (\<lambda>e. if ern_payout_id e = Some i then release_earning e else e) t) = linked_total j t"
  by (induction t) (auto simp: linked_total_def release_earning_def)

lemma mark_payout_failed_sound:
  assumes s: "payouts_sound w" and p: "p \<in> set (payouts w)"
    and w': "payouts w' = tbl_set po_id (failed_payout ev ref p) (payouts w)"
      "earnings w' = map (\<lambda>e. if ern_payout_id e = Some (po_id p) then release_earning e else e) (earnings w)"
  shows "payouts_sound w'"
proof -
  let ?r = "failed_payout ev ref p"
  have rid: "po_id ?r = po_id p" by (simp add: failed_payout_def)
  have keep: "q \<in> set (payouts w')" if "q \<in> set (payouts w)" "po_id q \<noteq> po_id p" for q
    using that p w'(1) rid by (auto simp: set_tbl_set)
  have old: "e \<in> set (earnings w) \<and> j \<noteq> po_id p" if "e \<in> set (earnings w')" "ern_payout_id e = Some j" for e j
    using that w'(2) by (auto simp: release_earning_def split: if_splits)
  have link: "\<exists>q \<in> set (payouts w'). po_id q = j \<and> po_provider_id q = ern_provider_id e \<and> po_currency q = ern_currency e"
    if "e \<in> set (earnings w')" "ern_payout_id e = Some j" for e j
    using old [OF that] that(2) s keep unfolding payouts_sound_def by metis
  have tot: "(if po_status q = PO_FAILED then \<forall>x \<in> set (earnings w'). ern_payout_id x \<noteq> Some (po_id q)
         else po_total_amount_minor q = linked_total (po_id q) (earnings w')) \<and> 0 \<le> po_total_amount_minor q"
    if "q \<in> set (payouts w')" for q
  proof -
    have "q = ?r \<or> (q \<in> set (payouts w) \<and> po_id q \<noteq> po_id p)"
      using that w'(1) rid by (auto dest: in_tbl_set)
    then show ?thesis
    proof
      assume q: "q = ?r"
      have "\<forall>x \<in> set (earnings w'). ern_payout_id x \<noteq> Some (po_id p)" using old by blast
      then show ?thesis using q payouts_sound_nonneg [OF s p] by (simp add: failed_payout_def)
    next
      assume q: "q \<in> set (payouts w) \<and> po_id q \<noteq> po_id p"
      have "linked_total (po_id q) (earnings w') = linked_total (po_id q) (earnings w)"
        unfolding w'(2) using q by (intro linked_total_release_other) simp
      moreover have "\<forall>x \<in> set (earnings w'). ern_payout_id x \<noteq> Some (po_id q)"
        if "\<forall>x \<in> set (earnings w). ern_payout_id x \<noteq> Some (po_id q)"
        using that old by blast
      ultimately show ?thesis using q s unfolding payouts_sound_def by fastforce
    qed
  qed
  have "tbl_ok po_id (payouts w')" using s w'(1) by (simp add: payouts_sound_def tbl_ok_set)
  with link tot show ?thesis unfolding payouts_sound_def by blast
qed

section \<open>The worker's pass\<close>

definition providers_ok :: "world \<Rightarrow> bool" where
  "providers_ok w \<longleftrightarrow> (\<forall>p \<in> set (payouts w). provider_get (po_provider_id p) w \<noteq> None)"

definition mock_completed :: "env \<Rightarrow> payout \<Rightarrow> payout" where
  "mock_completed ev p = completed_payout ev (Some (''mock_po_'' @ token_hex ev ''payout'' (po_id p))) p"

lemma tbl_set_twice: "ident r = ident r' \<Longrightarrow> tbl_set ident r (tbl_set ident r' t) = tbl_set ident r t"
  by (auto simp: tbl_set_def)

lemma process_payout_effect:
  assumes s: "payouts_sound w" "providers_ok w" and p: "p \<in> set (payouts w)" and st: "po_status p = PO_PENDING"
  shows "\<exists>w'. process_payout ev (po_id p) w = (Payout_completed, w') \<and>
    payouts w' = map (\<lambda>x. if x = p then mock_completed ev x else x) (payouts w) \<and>
    earnings w' = earnings w \<and> payouts_sound w' \<and> providers_ok w'"
proof -
  let ?q = "p\<lparr>po_status := PO_PROCESSING\<rparr>"
  let ?ref = "Some (ppr_provider_payout_reference (mock_create_payout ev (po_id p)))"
  let ?w1 = "w\<lparr>payouts := tbl_set po_id ?q (payouts w)\<rparr>"
  let ?r = "completed_payout ev ?ref ?q"
  have k: "tbl_ok po_id (payouts w)" and nn: "0 \<le> po_total_amount_minor p" and prov: "provider_get (po_provider_id p) w \<noteq> None"
    using s p by (simp_all add: payouts_sound_def providers_ok_def)
  have g: "payout_get (po_id p) w = Some p" using k p by (simp add: payout_get_def tbl_get_mem)
  have up: "payout_update ?q w = Inr ?w1" using nn by (simp add: payout_update_eq)
  have g1: "payout_get (po_id p) ?w1 = Some ?q"
    using p by (simp add: payout_get_def tbl_get_set)
  have "provider_get (po_provider_id ?q) ?w1 \<noteq> None" using prov by (simp add: provider_get_def)
  from mark_payout_completed_effect [OF g1 _ _ this, of ev ?ref] nn obtain w' where
    m: "mark_payout_completed ev (po_id p) ?ref ?w1 = (Inr ?r, w')"
    and w': "payouts w' = tbl_set po_id ?r (payouts ?w1)" "earnings w' = earnings w" "providers w' = providers w" by auto
  have r: "?r = mock_completed ev p"
    by (simp add: mock_completed_def completed_payout_def mock_create_payout_def)
  have "payouts w' = tbl_set po_id (mock_completed ev p) (payouts w)"
    using w'(1) unfolding r by (simp add: tbl_set_twice mock_completed_def completed_payout_def)
  then have pay: "payouts w' = map (\<lambda>x. if x = p then mock_completed ev x else x) (payouts w)"
    using tbl_set_map_if [OF k p, of "mock_completed ev"] by (simp add: mock_completed_def completed_payout_def)
  have "process_payout ev (po_id p) w = (Payout_completed, w')"
    using g st up m by (simp add: process_payout_def Let_def) (simp add: mock_create_payout_def)
  moreover have "payouts_sound w'"
  proof (rule payouts_sound_status [OF s(1) p])
    show "payouts w' = tbl_set po_id (mock_completed ev p) (payouts w)"
      using w'(1) unfolding r by (simp add: tbl_set_twice mock_completed_def completed_payout_def)
  qed (simp_all add: mock_completed_def completed_payout_def st w')
  moreover have "providers_ok w'"
    using s(2) pay w'(3) by (auto simp: providers_ok_def provider_get_def mock_completed_def completed_payout_def)
  ultimately show ?thesis using pay w'(2) by blast
qed

lemma process_loop_effect:
  assumes "payouts_sound w" "providers_ok w" and "set ps \<subseteq> set (payouts w)" and "distinct ps"
    and "\<forall>p \<in> set ps. po_status p = PO_PENDING"
  shows "\<exists>w'. process_loop ev ps c w =
      (c\<lparr>pc_processed := pc_processed c + int (length ps), pc_completed := pc_completed c + int (length ps)\<rparr>, w') \<and>
    payouts w' = map (\<lambda>x. if x \<in> set ps then mock_completed ev x else x) (payouts w) \<and>
    earnings w' = earnings w \<and> payouts_sound w' \<and> providers_ok w'"
  using assms
proof (induction ps arbitrary: w c)
  case Nil
  then show ?case by simp
next
  case (Cons p ps)
  then have p: "p \<in> set (payouts w)" "po_status p = PO_PENDING" by simp_all
  from process_payout_effect [OF Cons.prems(1,2) p, of ev] obtain w1 where
    e: "process_payout ev (po_id p) w = (Payout_completed, w1)"
    and w1: "payouts w1 = map (\<lambda>x. if x = p then mock_completed ev x else x) (payouts w)"
      "earnings w1 = earnings w" "payouts_sound w1" "providers_ok w1" by blast
  have sub: "set ps \<subseteq> set (payouts w1)"
    using Cons.prems(3,4) w1(1) by (auto simp: image_iff)
  let ?c = "c\<lparr>pc_processed := pc_processed c + 1, pc_completed := pc_completed c + 1\<rparr>"
  from Cons.IH [OF w1(3,4) sub, of ?c] Cons.prems obtain w' where
    l: "process_loop ev ps ?c w1 =
      (?c\<lparr>pc_processed := pc_processed ?c + int (length ps), pc_completed := pc_completed ?c + int (length ps)\<rparr>, w')"
    and w': "payouts w' = map (\<lambda>x. if x \<in> set ps then mock_completed ev x else x) (payouts w1)"
      "earnings w' = earnings w1" "payouts_sound w'" "providers_ok w'" by auto
  have "mock_completed ev p \<notin> set ps" using Cons.prems(5) by (auto simp: mock_completed_def completed_payout_def)
  then have "payouts w' = map (\<lambda>x. if x \<in> set (p # ps) then mock_completed ev x else x) (payouts w)"
    using w'(1) w1(1) by auto
  moreover have "process_loop ev (p # ps) c w =
      (c\<lparr>pc_processed := pc_processed c + int (length (p # ps)), pc_completed := pc_completed c + int (length (p # ps))\<rparr>, w')"
    using e l by (simp add: Let_def add.commute add.left_commute)
  ultimately show ?case using w' w1 by simp
qed

section \<open>Properties\<close>

lemma payout_leaves_nothing_ready:
  assumes "create_payout ev i actor ai w = Inr (p, w')" and "earnings_sound w"
  shows "collect_provider_earnings i w' = []"
proof -
  from create_payout_effect [OF assms] have
    e: "earnings w' = map (\<lambda>x. if x \<in> set (collect_provider_earnings i w) then pay_earning (po_id p) x else x) (earnings w)"
    by blast
  have False if x: "x \<in> set (collect_provider_earnings i w')" for x
  proof -
    from x obtain y where y: "y \<in> set (earnings w)"
      "x = (if y \<in> set (collect_provider_earnings i w) then pay_earning (po_id p) y else y)"
      using in_ready [of x i w'] by (auto simp: e)
    have "ern_status x = READY_FOR_PAYOUT" using x in_ready by blast
    then have "x = y" "y \<notin> set (collect_provider_earnings i w)"
      using y(2) by (auto simp: pay_earning_def split: if_splits)
    then show False using x y(1) in_ready by blast
  qed
  then show ?thesis by (metis last_in_set)
qed

text \<open>
  C26. A payout pays every ready earning of the provider, once: its total is positive and equals
  both the sum of the collected amounts and the sum of the earnings now linked to it, afterwards
  nothing of the provider is ready, so a second payout is refused, and the books of earnings and
  payouts stay sound (each payout that has not failed totals the earnings linked to it, and every
  earning is linked to at most one payout, of its own provider and currency).  The collected amounts
  are what the code sums, the provider's shares of the ready earnings.  Adjustments pending from
  refunds after an earlier payout are not subtracted and stay pending, although the README says they
  are netted against the next payout.
\<close>

theorem payout_pays_each_earning_once:
  assumes "create_payout ev i actor ai w = Inr (p, w')" and "earnings_sound w" and "payouts_sound w"
  shows "po_total_amount_minor p = sum_list (map ern_provider_amount_minor (collect_provider_earnings i w)) \<and>
    0 < po_total_amount_minor p \<and> po_total_amount_minor p = linked_total (po_id p) (earnings w') \<and>
    collect_provider_earnings i w' = [] \<and>
    map ern_adjustment_pending_minor (earnings w') = map ern_adjustment_pending_minor (earnings w) \<and>
    (\<exists>msg. create_payout ev i actor ai w' = Inl msg) \<and> earnings_sound w' \<and> payouts_sound w'"
proof -
  from create_payout_effect [OF assms(1,2)] have
    e: "po_total_amount_minor p = sum_list (map ern_provider_amount_minor (collect_provider_earnings i w))"
    "0 < po_total_amount_minor p" "po_status p = PO_PENDING" "payouts w' = payouts w @ [p]" "earnings_sound w'"
    and rows: "earnings w' = map (\<lambda>x. if x \<in> set (collect_provider_earnings i w) then pay_earning (po_id p) x else x) (earnings w)"
    by blast+
  have "map ern_adjustment_pending_minor (earnings w') = map ern_adjustment_pending_minor (earnings w)"
    by (simp add: rows pay_earning_def)
  moreover have ps: "payouts_sound w'" by (rule create_payout_sound [OF assms])
  moreover have "po_total_amount_minor p = linked_total (po_id p) (earnings w')"
    using ps e(3,4) unfolding payouts_sound_def by fastforce
  moreover have "collect_provider_earnings i w' = []" by (rule payout_leaves_nothing_ready [OF assms(1,2)])
  moreover from this have "\<exists>msg. create_payout ev i actor ai w' = Inl msg"
    by (auto simp: create_payout_def split: option.split)
  ultimately show ?thesis using e by blast
qed

lemma paid_world_payouts_sound: "payouts_sound paid_world"
  by (simp add: payouts_sound_def tbl_ok_def sample_defs)

lemma paid_world_payout: "\<exists>p w'. create_payout sample_env 1 ''user'' None paid_world = Inr (p, w')"
proof -
  have "(case create_payout sample_env 1 ''user'' None paid_world of Inl e \<Rightarrow> False | Inr x \<Rightarrow> True)" by code_simp
  then show ?thesis by (auto split: sum.splits)
qed

theorem payout_pays_each_earning_once_witness:
  "\<exists>p w'. create_payout sample_env 1 ''user'' None paid_world = Inr (p, w') \<and> po_total_amount_minor p = 900"
proof -
  from paid_world_payout obtain p w' where c: "create_payout sample_env 1 ''user'' None paid_world = Inr (p, w')" by blast
  have "sum_list (map ern_provider_amount_minor (collect_provider_earnings 1 paid_world)) = 900" by code_simp
  then show ?thesis
    using c payout_pays_each_earning_once [OF c sample_earnings_sound paid_world_payouts_sound] by simp
qed

text \<open>
  C40. A failed payout gives its earnings back.  Marking a payout failed that is not failed yet succeeds
  when the books are sound and the providers of payouts exist: every earning linked to it becomes
  ready again with its amounts unchanged and can be collected by the next payout, no earning stays
  linked to it, the other earnings are untouched, and the books stay sound.
\<close>

theorem failed_payout_releases_earnings:
  assumes "earnings_sound w" "payouts_sound w" "providers_ok w" and "payout_get i w = Some p" and "po_status p \<noteq> PO_FAILED"
  shows "\<exists>p' w'. mark_payout_failed ev i ref w = (Inr p', w') \<and> po_status p' = PO_FAILED \<and> payout_get i w' = Some p' \<and>
    earnings w' = map (\<lambda>e. if ern_payout_id e = Some i then release_earning e else e) (earnings w) \<and>
    (\<forall>e \<in> set (earnings w). ern_payout_id e = Some i \<longrightarrow>
       release_earning e \<in> set (collect_provider_earnings (ern_provider_id e) w')) \<and>
    earnings_sound w' \<and> payouts_sound w'"
proof -
  have p: "p \<in> set (payouts w)" "po_id p = i" using payout_get_mem [OF assms(4)] by simp_all
  have nn: "0 \<le> po_total_amount_minor p" by (rule payouts_sound_nonneg [OF assms(2) p(1)])
  have prov: "provider_get (po_provider_id p) w \<noteq> None" using assms(3) p by (simp add: providers_ok_def)
  from mark_payout_failed_effect [OF assms(1,4,5) nn prov, of ev ref] obtain w' where
    m: "mark_payout_failed ev i ref w = (Inr (failed_payout ev ref p), w')"
    and w': "payouts w' = tbl_set po_id (failed_payout ev ref p) (payouts w)"
      "earnings w' = map (\<lambda>e. if ern_payout_id e = Some i then release_earning e else e) (earnings w)" "earnings_sound w'"
    by blast
  have "payouts_sound w'"
    using mark_payout_failed_sound [OF assms(2) p(1) w'(1)] w'(2) p(2) by simp
  moreover have "payout_get i w' = Some (failed_payout ev ref p)"
    using p w'(1) by (auto simp: payout_get_def tbl_get_set failed_payout_def)
  moreover have "release_earning e \<in> set (collect_provider_earnings (ern_provider_id e) w')"
    if e: "e \<in> set (earnings w)" "ern_payout_id e = Some i" for e
  proof -
    have "earning_status_ok e" using assms(1) e(1) by (simp add: earnings_sound_def)
    then have "0 < ern_provider_amount_minor e" using e(2) by (auto simp: earning_status_ok_def)
    then show ?thesis using e w'(2) unfolding in_ready by (force simp: release_earning_def)
  qed
  ultimately show ?thesis
    using m w'(2,3) by (intro exI [of _ "failed_payout ev ref p"] exI [of _ w']) (simp add: failed_payout_def)
qed

definition paid_out_world :: world where
  "paid_out_world = paid_world
     \<lparr>earnings := [paid_out_earning],
      payouts := [\<lparr>po_id = 1, po_provider_id = 1, po_total_amount_minor = 900, po_currency = ''USD'',
                   po_status = PO_PENDING, po_provider_payout_reference = None, po_processed_at = None, po_created_at = 0\<rparr>]\<rparr>"

lemma paid_out_world_sound: "earnings_sound paid_out_world" "payouts_sound paid_out_world" "providers_ok paid_out_world"
  by (simp_all add: earnings_sound_def earning_balanced_def earning_status_ok_def payouts_sound_def linked_total_def
      providers_ok_def provider_get_def tbl_get_def tbl_ok_def sample_defs paid_out_world_def paid_out_earning_def)

theorem failed_payout_releases_earnings_witness:
  "\<exists>p' w'. mark_payout_failed sample_env 1 None paid_out_world = (Inr p', w') \<and> po_status p' = PO_FAILED \<and>
     earnings w' = [sample_earning]"
proof -
  have "\<exists>p. payout_get 1 paid_out_world = Some p \<and> po_status p \<noteq> PO_FAILED"
    by (simp add: payout_get_def tbl_get_def paid_out_world_def)
  then obtain p where "payout_get 1 paid_out_world = Some p" "po_status p \<noteq> PO_FAILED" by blast
  from failed_payout_releases_earnings [OF paid_out_world_sound this, of sample_env None]
  show ?thesis
    by (auto simp: paid_out_world_def paid_out_earning_def release_earning_def sample_defs)
qed

text \<open>
  C35. One pass of the payout worker settles everything that is pending: every pending payout
  becomes completed with the provider's reference, none fails, the counts say so, and neither the
  other payouts nor any earning changes.
\<close>

theorem worker_completes_pending_payouts:
  assumes "payouts_sound w" "providers_ok w"
  shows "\<exists>c w'. process_pending_payouts ev ''mock'' w = (Inr c, w') \<and>
    pc_processed c = int (length (payout_list_pending w)) \<and> pc_completed c = pc_processed c \<and> pc_failed c = 0 \<and>
    payouts w' = map (\<lambda>p. if po_status p = PO_PENDING then mock_completed ev p else p) (payouts w) \<and>
    payout_list_pending w' = [] \<and> earnings w' = earnings w \<and> payouts_sound w'"
proof -
  let ?ps = "payout_list_pending w"
  have set_ps: "set ?ps = {p \<in> set (payouts w). po_status p = PO_PENDING}" by (auto simp: payout_list_pending_def)
  let ?c = "\<lparr>pc_processed = 0, pc_completed = 0, pc_failed = 0\<rparr>"
  have dist: "distinct ?ps"
    using assms(1) by (simp add: payout_list_pending_def payouts_sound_def tbl_ok_def distinct_map)
  have sub: "set ?ps \<subseteq> set (payouts w)" "\<forall>p \<in> set ?ps. po_status p = PO_PENDING" by (simp_all add: set_ps)
  from process_loop_effect [OF assms sub(1) dist sub(2), of ev ?c] obtain w' where
    l: "process_loop ev ?ps ?c w =
      (?c\<lparr>pc_processed := pc_processed ?c + int (length ?ps), pc_completed := pc_completed ?c + int (length ?ps)\<rparr>, w')"
    and w': "payouts w' = map (\<lambda>x. if x \<in> set ?ps then mock_completed ev x else x) (payouts w)"
      "earnings w' = earnings w" "payouts_sound w'" by blast
  have pay: "payouts w' = map (\<lambda>p. if po_status p = PO_PENDING then mock_completed ev p else p) (payouts w)"
    using w'(1) set_ps by simp
  have "payout_list_pending w' = []"
  proof -
    have "[p \<leftarrow> payouts w'. po_status p = PO_PENDING] = []"
      by (auto simp: pay filter_empty_conv mock_completed_def completed_payout_def)
    then show ?thesis by (simp add: payout_list_pending_def)
  qed
  moreover have "process_pending_payouts ev ''mock'' w =
      (Inr \<lparr>pc_processed = int (length ?ps), pc_completed = int (length ?ps), pc_failed = 0\<rparr>, w')"
    unfolding process_pending_payouts_def l by simp
  ultimately show ?thesis using pay w'(2,3) by simp
qed

theorem worker_completes_pending_payouts_witness:
  "\<exists>c w'. process_pending_payouts sample_env ''mock'' paid_out_world = (Inr c, w') \<and> map po_status (payouts w') = [PO_COMPLETED]"
  using worker_completes_pending_payouts [OF paid_out_world_sound(2,3), of sample_env]
  by (force simp: paid_out_world_def mock_completed_def completed_payout_def)

definition adjusted_world :: world where
  "adjusted_world = paid_out_world
     \<lparr>earnings := [paid_out_earning\<lparr>ern_adjustment_pending_minor := 270\<rparr>,
                   sample_earning\<lparr>ern_id := 2, ern_payment_id := 2\<rparr>]\<rparr>"

text \<open>
  A pending adjustment is not netted: a provider with 270 pending from a refund after an
  earlier payout is paid the next earning of 900 in full, and the adjustment stays pending.
\<close>

theorem payout_ignores_pending_adjustment:
  "(case create_payout sample_env 1 ''user'' None adjusted_world of
      Inl e \<Rightarrow> False
    | Inr (p, w') \<Rightarrow> po_total_amount_minor p = 900 \<and> map ern_adjustment_pending_minor (earnings w') = [270, 0])"
  by code_simp

end
