(* ===== verification/Scheduling.thy ===== *)
theory Scheduling
  imports Sample_Data
begin

text \<open>
  \<^verbatim>\<open>services/scheduling_service.py\<close>: the timing of a service at a provider and a location,
  the interval an appointment blocks with its buffers, the overlap check of the booking code and
  the enumeration of free slots.  The \<^verbatim>\<open>while True\<close> of the enumeration is a partial
  function whose value is \<^verbatim>\<open>None\<close> when the loop does not end; it ends for every timing the
  CHECK constraints of the catalogue allow.
\<close>

section \<open>Slots and timings\<close>

record slot =
  slot_start_datetime :: instant
  slot_end_datetime :: instant

record service_timing =
  visible_duration_minutes :: int
  buffer_before_minutes :: int
  buffer_after_minutes :: int

definition total_block_minutes :: "service_timing \<Rightarrow> int" where
  "total_block_minutes t = visible_duration_minutes t + buffer_before_minutes t + buffer_after_minutes t"

definition overlaps :: "instant \<Rightarrow> instant \<Rightarrow> instant \<Rightarrow> instant \<Rightarrow> bool" where
  "overlaps start_a end_a start_b end_b \<longleftrightarrow> start_a < end_b \<and> end_a > start_b"

definition max_query_days :: int where "max_query_days = 31"

definition resolve_service_timing ::
  "int \<Rightarrow> int \<Rightarrow> int option \<Rightarrow> bool \<Rightarrow> bool \<Rightarrow> world \<Rightarrow> service_timing result" where
  "resolve_service_timing provider_id location_id service_id require_active_service
      require_active_location w =
     (case provider_get provider_id w of
        None \<Rightarrow> Inl (ValueError ''Provider not found.'')
      | Some provider \<Rightarrow>
      case location_get location_id w of
        None \<Rightarrow> Inl (ValueError ''Location not found.'')
      | Some location \<Rightarrow>
      if require_active_location \<and> \<not> loc_is_active location
      then Inl (ValueError ''Location not found or inactive.'')
      else if loc_organization_id location \<noteq> prov_organization_id provider
      then Inl (ValueError ''Provider and location organization mismatch.'')
      else if provider_location_get (prov_id provider) (loc_id location) w = None
      then Inl (ValueError ''Provider is not assigned to the selected location.'')
      else case service_id of
        None \<Rightarrow> Inr \<lparr>visible_duration_minutes = prov_appointment_duration_minutes provider,
                     buffer_before_minutes = 0, buffer_after_minutes = 0\<rparr>
      | Some service_id \<Rightarrow>
      case service_get service_id w of
        None \<Rightarrow> Inl (ValueError ''Service not found or inactive.'')
      | Some service \<Rightarrow>
      if require_active_service \<and> \<not> svc_is_active service
      then Inl (ValueError ''Service not found or inactive.'')
      else if svc_organization_id service \<noteq> prov_organization_id provider \<or>
              svc_organization_id service \<noteq> loc_organization_id location
      then Inl (ValueError ''Service, provider, and location organization mismatch.'')
      else case provider_service_get (prov_id provider) (svc_id service) w of
        None \<Rightarrow> Inl (ValueError ''Provider is not assigned to the selected service.'')
      | Some provider_service \<Rightarrow>
      case service_location_get (svc_id service) (loc_id location) w of
        None \<Rightarrow> Inl (ValueError ''Service is not available at the selected location.'')
      | Some service_location \<Rightarrow>
        Inr \<lparr>visible_duration_minutes =
               (case ps_duration_minutes_override provider_service of
                  None \<Rightarrow> svc_duration_minutes service
                | Some d \<Rightarrow> if d = 0 then svc_duration_minutes service else d),
             buffer_before_minutes = svc_buffer_before_minutes service,
             buffer_after_minutes = svc_buffer_after_minutes service\<rparr>)"

section \<open>Blocked intervals\<close>

definition max_provider_buffers :: "int \<Rightarrow> world \<Rightarrow> int \<times> int" where
  "max_provider_buffers provider_id w =
     (let services = service_list None (Some provider_id) True w in
      if services = [] then (0, 0)
      else (Max (set (map svc_buffer_before_minutes services)),
            Max (set (map svc_buffer_after_minutes services))))"

text \<open>A dictionary comprehension: of two entries with one key the later wins.\<close>

definition build_service_buffer_lookup ::
  "appointment list \<Rightarrow> world \<Rightarrow> int \<Rightarrow> (int \<times> int) option" where
  "build_service_buffer_lookup apts w =
     (let service_ids = sort (remdups (List.map_filter apt_service_id apts)) in
      if service_ids = [] then Map.empty
      else map_of (rev (map (\<lambda>s. (svc_id s, (svc_buffer_before_minutes s, svc_buffer_after_minutes s)))
                          (service_get_by_ids service_ids w))))"

definition compute_blocked_interval :: "instant \<Rightarrow> instant \<Rightarrow> int \<Rightarrow> int \<Rightarrow> instant \<times> instant" where
  "compute_blocked_interval visible_start visible_end before after =
     (visible_start - before * minute_us, visible_end + after * minute_us)"

definition appointment_blocked_interval ::
  "appointment \<Rightarrow> (int \<Rightarrow> (int \<times> int) option) \<Rightarrow> instant \<times> instant" where
  "appointment_blocked_interval a service_buffer_lookup =
     (let (before, after) =
            (case apt_service_id a of
               None \<Rightarrow> (0, 0)
             | Some sid \<Rightarrow> (case service_buffer_lookup sid of None \<Rightarrow> (0, 0) | Some b \<Rightarrow> b)) in
      compute_blocked_interval (apt_start_datetime a) (apt_end_datetime a) before after)"

definition list_relevant_blocking_appointments ::
  "int \<Rightarrow> instant \<Rightarrow> instant \<Rightarrow> int option \<Rightarrow> world \<Rightarrow> appointment list" where
  "list_relevant_blocking_appointments provider_id interval_start interval_end exclude_appointment_id w =
     (let (max_before, max_after) = max_provider_buffers provider_id w;
          query_start = interval_start - max_after * minute_us;
          query_end = interval_end + max_before * minute_us in
      appointment_list_blocking_for_provider provider_id (Some query_start) (Some query_end)
        exclude_appointment_id w)"

definition has_blocked_overlap ::
  "int \<Rightarrow> instant \<Rightarrow> instant \<Rightarrow> int option \<Rightarrow> world \<Rightarrow> bool" where
  "has_blocked_overlap provider_id blocked_start blocked_end exclude_appointment_id w =
     (let apts = list_relevant_blocking_appointments provider_id blocked_start blocked_end
                   exclude_appointment_id w;
          service_buffer_lookup = build_service_buffer_lookup apts w in
      \<exists>a \<in> set apts.
        (let (s, e) = appointment_blocked_interval a service_buffer_lookup in
         overlaps blocked_start blocked_end s e))"

section \<open>The slot search\<close>

partial_function (option) slot_loop ::
  "service_timing \<Rightarrow> instant \<Rightarrow> (instant \<times> instant) list \<Rightarrow> instant \<Rightarrow> slot list \<Rightarrow> slot list option" where
  "slot_loop timing window_end blocked_intervals cursor slots =
     (let candidate_start = cursor;
          candidate_end = candidate_start + visible_duration_minutes timing * minute_us;
          (blocked_start, blocked_end) =
            compute_blocked_interval candidate_start candidate_end
              (buffer_before_minutes timing) (buffer_after_minutes timing) in
      if blocked_end > window_end then Some slots
      else
       (let is_blocked = (\<exists>(s, e) \<in> set blocked_intervals. overlaps blocked_start blocked_end s e);
            slots' = (if is_blocked then slots
                      else slots @ [\<lparr>slot_start_datetime = candidate_start,
                                     slot_end_datetime = candidate_end\<rparr>]) in
        slot_loop timing window_end blocked_intervals candidate_end slots'))"

text \<open>The windows of a day: the overrides of the date when there are any, else the weekday's.\<close>

definition day_windows ::
  "availability list \<Rightarrow> date_override list \<Rightarrow> date \<Rightarrow> (time_of_day option \<times> time_of_day option) list" where
  "day_windows avs ovs day =
     (let override_windows = [o' \<leftarrow> ovs. ov_override_date o' = day] in
      if override_windows \<noteq> [] then
        (if \<exists>o' \<in> set override_windows. \<not> ov_is_available o' then []
         else map (\<lambda>o'. (ov_start_time o', ov_end_time o')) [o' \<leftarrow> override_windows. ov_is_available o'])
      else map (\<lambda>a. (Some (av_start_time a), Some (av_end_time a)))
             [a \<leftarrow> avs. av_weekday a = weekday day])"

fun windows_loop ::
  "zone \<Rightarrow> service_timing \<Rightarrow> (instant \<times> instant) list \<Rightarrow> date
    \<Rightarrow> (time_of_day option \<times> time_of_day option) list \<Rightarrow> slot list \<Rightarrow> slot list result option" where
  "windows_loop z timing blocked_intervals day [] slots = Some (Inr slots)"
| "windows_loop z timing blocked_intervals day ((start_time, end_time) # ws) slots =
     (case (start_time, end_time) of
        (Some start_time, Some end_time) \<Rightarrow>
          (let window_start = local_to_utc z day start_time;
               window_end = local_to_utc z day end_time;
               cursor = window_start + buffer_before_minutes timing * minute_us in
           case slot_loop timing window_end blocked_intervals cursor slots of
             None \<Rightarrow> None
           | Some slots' \<Rightarrow> windows_loop z timing blocked_intervals day ws slots')
      | _ \<Rightarrow> Some (Inl (TypeError ''combine() argument 2 must be datetime.time, not None'')))"

fun days_loop ::
  "zone \<Rightarrow> service_timing \<Rightarrow> (instant \<times> instant) list \<Rightarrow> availability list \<Rightarrow> date_override list
    \<Rightarrow> date list \<Rightarrow> slot list \<Rightarrow> slot list result option" where
  "days_loop z timing blocked_intervals avs ovs [] slots = Some (Inr slots)"
| "days_loop z timing blocked_intervals avs ovs (day # ds) slots =
     (case windows_loop z timing blocked_intervals day (day_windows avs ovs day) slots of
        None \<Rightarrow> None
      | Some (Inl e) \<Rightarrow> Some (Inl e)
      | Some (Inr slots') \<Rightarrow> days_loop z timing blocked_intervals avs ovs ds slots')"

definition search_blocked_intervals :: "int \<Rightarrow> instant \<Rightarrow> instant \<Rightarrow> world \<Rightarrow> (instant \<times> instant) list" where
  "search_blocked_intervals provider_id range_start_utc range_end_utc w =
     (let blocking_appointments =
            list_relevant_blocking_appointments provider_id range_start_utc range_end_utc None w;
          service_buffer_lookup = build_service_buffer_lookup blocking_appointments w in
      map (\<lambda>t. (off_start_datetime t, off_end_datetime t))
        (time_off_list_by_provider provider_id (Some range_start_utc) (Some range_end_utc) w) @
      map (\<lambda>a. appointment_blocked_interval a service_buffer_lookup) blocking_appointments)"

definition provider_timezone :: "provider \<Rightarrow> world \<Rightarrow> string result" where
  "provider_timezone provider w =
     (case organization_get (prov_organization_id provider) w of
        None \<Rightarrow> Inl (AttributeError ''timezone'')
      | Some o' \<Rightarrow> Inr (org_timezone o'))"

definition active_availabilities :: "int \<Rightarrow> world \<Rightarrow> availability list" where
  "active_availabilities provider_id w = [a \<leftarrow> availability_list_by_provider provider_id w. av_is_active a]"

definition active_overrides :: "int \<Rightarrow> date \<Rightarrow> date \<Rightarrow> world \<Rightarrow> date_override list" where
  "active_overrides provider_id start_date end_date w =
     [o' \<leftarrow> date_override_list_by_provider provider_id (Some start_date) (Some end_date) w. ov_is_active o']"

definition get_available_slots ::
  "env \<Rightarrow> int \<Rightarrow> int \<Rightarrow> date \<Rightarrow> date \<Rightarrow> int option \<Rightarrow> world \<Rightarrow> slot list result option" where
  "get_available_slots ev provider_id location_id start_date end_date service_id w =
     (if end_date < start_date
      then Some (Inl (ValueError ''end_date must be greater than or equal to start_date.''))
      else if max_query_days < (end_date - start_date) + 1
      then Some (Inl (ValueError ''Date range cannot exceed 31 days.''))
      else case provider_get provider_id w of
        None \<Rightarrow> Some (Inl (ValueError ''Provider not found.''))
      | Some provider \<Rightarrow>
      if \<not> prov_is_active provider then Some (Inr [])
      else case resolve_service_timing provider_id location_id service_id True True w of
        Inl e \<Rightarrow> Some (Inl e)
      | Inr timing \<Rightarrow>
      case provider_timezone provider w of
        Inl e \<Rightarrow> Some (Inl e)
      | Inr timezone_name \<Rightarrow>
      case zone_info (zone_table ev) timezone_name of
        Inl e \<Rightarrow> Some (Inl e)
      | Inr local_zone \<Rightarrow>
       (let avs = active_availabilities provider_id w;
            ovs = active_overrides provider_id start_date end_date w in
        if avs = [] \<and> ovs = [] then Some (Inr [])
        else
         (let range_start_utc = local_to_utc local_zone start_date 0;
              range_end_utc = local_to_utc local_zone (end_date + 1) 0;
              blocked_intervals = search_blocked_intervals provider_id range_start_utc range_end_utc w in
          case days_loop local_zone timing blocked_intervals avs ovs (daterange start_date end_date) [] of
            None \<Rightarrow> None
          | Some (Inl e) \<Rightarrow> Some (Inl e)
          | Some (Inr slots) \<Rightarrow> Some (Inr (sort_key slot_start_datetime slots)))))"

section \<open>Timings and buffers of a well-formed catalogue\<close>

definition timing_ok :: "service_timing \<Rightarrow> bool" where
  "timing_ok t \<longleftrightarrow> 0 < visible_duration_minutes t \<and> 0 \<le> buffer_before_minutes t \<and> 0 \<le> buffer_after_minutes t"

lemma find_mem: "find P xs = Some x \<Longrightarrow> x \<in> set xs \<and> P x"
  by (auto simp: find_Some_iff)

lemma resolve_service_timing_ok:
  assumes "catalogue_ok w" and "resolve_service_timing p l s rs rl w = Inr t"
  shows "timing_ok t"
  using assms
  by (fastforce simp: resolve_service_timing_def timing_ok_def catalogue_ok_def provider_service_get_def
      split: option.splits if_splits dest!: find_mem service_get_mem provider_get_mem)

lemma in_service_list: "s \<in> set (service_list None (Some p) True w) \<longleftrightarrow>
    s \<in> set (services w) \<and> (\<exists>x \<in> set (provider_services w). ps_service_id x = svc_id s \<and> ps_provider_id x = p)"
  by (auto simp: service_list_def)

lemma max_provider_buffers_nonneg:
  assumes "catalogue_ok w" and "max_provider_buffers p w = (b, a)"
  shows "0 \<le> b \<and> 0 \<le> a"
proof (cases "service_list None (Some p) True w = []")
  case True
  then show ?thesis using assms by (simp add: max_provider_buffers_def)
next
  case False
  then obtain s where s: "s \<in> set (service_list None (Some p) True w)" by (meson last_in_set)
  then have "0 \<le> svc_buffer_before_minutes s" "0 \<le> svc_buffer_after_minutes s"
    using assms(1) by (auto simp: in_service_list catalogue_ok_def)
  moreover have "svc_buffer_before_minutes s \<le> b" "svc_buffer_after_minutes s \<le> a"
    using assms(2) s False by (auto simp: max_provider_buffers_def Let_def intro!: Max_ge)
  ultimately show ?thesis by linarith
qed

lemma max_provider_buffers_ge:
  assumes "max_provider_buffers p w = (b, a)" and "s \<in> set (service_list None (Some p) True w)"
  shows "svc_buffer_before_minutes s \<le> b \<and> svc_buffer_after_minutes s \<le> a"
proof -
  have "service_list None (Some p) True w \<noteq> []" using assms(2) by auto
  with assms show ?thesis by (auto simp: max_provider_buffers_def Let_def intro!: Max_ge)
qed

section \<open>The interval an appointment blocks\<close>

text \<open>
  The specification: the visible interval widened by the buffers of the appointment's service,
  whatever else the world holds.
\<close>

definition service_buffers :: "world \<Rightarrow> appointment \<Rightarrow> int \<times> int" where
  "service_buffers w a =
     (case apt_service_id a of
        None \<Rightarrow> (0, 0)
      | Some sid \<Rightarrow>
         (case service_get sid w of
            None \<Rightarrow> (0, 0)
          | Some s \<Rightarrow> (svc_buffer_before_minutes s, svc_buffer_after_minutes s)))"

definition blocked_span :: "world \<Rightarrow> appointment \<Rightarrow> instant \<times> instant" where
  "blocked_span w a =
     (apt_start_datetime a - fst (service_buffers w a) * minute_us,
      apt_end_datetime a + snd (service_buffers w a) * minute_us)"

definition still_assigned :: "world \<Rightarrow> appointment \<Rightarrow> bool" where
  "still_assigned w a \<longleftrightarrow>
     (case apt_service_id a of
        None \<Rightarrow> True
      | Some sid \<Rightarrow> \<exists>x \<in> set (provider_services w). ps_service_id x = sid \<and> ps_provider_id x = apt_provider_id a)"

lemma service_get_by_ids_lookup:
  assumes "tbl_ok svc_id (services w)" and "service_ids \<noteq> []" and "sid \<in> set service_ids"
  shows "map_of (rev (map (\<lambda>s. (svc_id s, f s)) (service_get_by_ids service_ids w))) sid
           = map_option f (service_get sid w)"
proof (cases "service_get sid w")
  case None
  then have "sid \<notin> svc_id ` set (services w)" by (simp add: service_get_def tbl_get_None)
  then have "sid \<notin> fst ` set (map (\<lambda>s. (svc_id s, f s)) (service_get_by_ids service_ids w))"
    using assms(2) by (auto simp: service_get_by_ids_def)
  then show ?thesis using None by (simp add: map_of_eq_None_iff)
next
  case (Some s)
  then have s: "s \<in> set (services w)" "svc_id s = sid" by (auto dest: service_get_mem)
  have "distinct (map fst (rev (map (\<lambda>s. (svc_id s, f s)) (service_get_by_ids service_ids w))))"
    using assms(1,2)
    by (simp add: service_get_by_ids_def tbl_ok_def rev_map [symmetric] o_def distinct_map_filter)
  then show ?thesis
    using s assms(2,3) Some by (force simp: service_get_by_ids_def)
qed

lemma appointment_blocked_interval_lookup:
  assumes "tbl_ok svc_id (services w)" and a: "a \<in> set apts"
  shows "appointment_blocked_interval a (build_service_buffer_lookup apts w) = blocked_span w a"
proof (cases "apt_service_id a")
  case None
  then show ?thesis
    by (simp add: appointment_blocked_interval_def blocked_span_def service_buffers_def compute_blocked_interval_def)
next
  case (Some sid)
  let ?ids = "sort (remdups (List.map_filter apt_service_id apts))"
  have mem: "sid \<in> set ?ids"
    using a Some by (force simp: List.map_filter_def)
  then have ne: "?ids \<noteq> []" by force
  have "build_service_buffer_lookup apts w sid =
      map_option (\<lambda>s. (svc_buffer_before_minutes s, svc_buffer_after_minutes s)) (service_get sid w)"
    using service_get_by_ids_lookup [OF assms(1) ne mem] ne by (simp add: build_service_buffer_lookup_def)
  with Some show ?thesis
    by (auto simp: appointment_blocked_interval_def blocked_span_def service_buffers_def
        compute_blocked_interval_def split: option.splits)
qed

lemma service_buffers_nonneg:
  assumes "catalogue_ok w" shows "0 \<le> fst (service_buffers w a) \<and> 0 \<le> snd (service_buffers w a)"
  using assms by (auto simp: service_buffers_def catalogue_ok_def split: option.splits dest!: service_get_mem)

lemma blocked_span_visible:
  assumes "catalogue_ok w"
  shows "fst (blocked_span w a) \<le> apt_start_datetime a \<and> apt_end_datetime a \<le> snd (blocked_span w a)"
  using service_buffers_nonneg [OF assms] by (simp add: blocked_span_def minute_us_def)

lemma service_buffers_max:
  assumes "catalogue_ok w" and "still_assigned w a" and "max_provider_buffers (apt_provider_id a) w = (b, f)"
  shows "fst (service_buffers w a) \<le> b \<and> snd (service_buffers w a) \<le> f"
proof (cases "apt_service_id a")
  case None
  then show ?thesis using max_provider_buffers_nonneg [OF assms(1,3)] by (simp add: service_buffers_def)
next
  case (Some sid)
  show ?thesis
  proof (cases "service_get sid w")
    case None
    with Some show ?thesis using max_provider_buffers_nonneg [OF assms(1,3)] by (simp add: service_buffers_def)
  next
    case (Some s)
    with \<open>apt_service_id a = Some sid\<close> have "s \<in> set (service_list None (Some (apt_provider_id a)) True w)"
      using assms(2) service_get_mem [OF Some] by (auto simp: in_service_list still_assigned_def)
    then show ?thesis
      using max_provider_buffers_ge [OF assms(3)] Some \<open>apt_service_id a = Some sid\<close>
      by (simp add: service_buffers_def)
  qed
qed

section \<open>The query of the relevant appointments\<close>

text \<open>The live appointments of a provider that a check must consider.\<close>

definition competes :: "world \<Rightarrow> int \<Rightarrow> int option \<Rightarrow> appointment \<Rightarrow> bool" where
  "competes w provider_id exclude_appointment_id a \<longleftrightarrow>
     a \<in> set (appointments w) \<and> apt_provider_id a = provider_id \<and> is_blocking a \<and>
     exclude_appointment_id \<noteq> Some (apt_id a)"

lemma relevant_competes:
  "a \<in> set (list_relevant_blocking_appointments p s e ex w) \<Longrightarrow> competes w p ex a"
  by (auto simp: list_relevant_blocking_appointments_def appointment_list_blocking_for_provider_def
      competes_def split: prod.splits)

lemma relevant_intro:
  assumes "max_provider_buffers p w = (b, f)" and "competes w p ex a"
    and "s - f * minute_us < apt_end_datetime a" and "apt_start_datetime a < e + b * minute_us"
  shows "a \<in> set (list_relevant_blocking_appointments p s e ex w)"
  using assms
  by (auto simp: list_relevant_blocking_appointments_def appointment_list_blocking_for_provider_def competes_def)

lemma relevant_visible:
  assumes "catalogue_ok w" and "competes w p ex a"
    and "overlaps s e (apt_start_datetime a) (apt_end_datetime a)"
  shows "a \<in> set (list_relevant_blocking_appointments p s e ex w)"
proof -
  obtain b f where m: "max_provider_buffers p w = (b, f)" by fastforce
  then have "0 \<le> b * minute_us" "0 \<le> f * minute_us"
    using max_provider_buffers_nonneg [OF assms(1) m] by (simp_all add: minute_us_def)
  then show ?thesis
    using relevant_intro [OF m assms(2)] assms(3) by (auto simp: overlaps_def)
qed

lemma relevant_assigned:
  assumes "catalogue_ok w" and "competes w p ex a" and "still_assigned w a"
    and "overlaps s e (fst (blocked_span w a)) (snd (blocked_span w a))"
  shows "a \<in> set (list_relevant_blocking_appointments p s e ex w)"
proof -
  obtain b f where m: "max_provider_buffers p w = (b, f)" by fastforce
  have "apt_provider_id a = p" using assms(2) by (simp add: competes_def)
  then have "fst (service_buffers w a) * minute_us \<le> b * minute_us"
      "snd (service_buffers w a) * minute_us \<le> f * minute_us"
    using service_buffers_max [OF assms(1,3)] m by (simp_all add: minute_us_def)
  then show ?thesis
    using relevant_intro [OF m assms(2)] assms(4) by (auto simp: overlaps_def blocked_span_def)
qed

section \<open>The overlap check\<close>

lemma has_blocked_overlap_eq:
  assumes "tbl_ok svc_id (services w)"
  shows "has_blocked_overlap p s e ex w \<longleftrightarrow>
    (\<exists>a \<in> set (list_relevant_blocking_appointments p s e ex w).
       overlaps s e (fst (blocked_span w a)) (snd (blocked_span w a)))"
  using appointment_blocked_interval_lookup [OF assms]
  by (auto simp: has_blocked_overlap_def Let_def split_def)

lemma has_blocked_overlap_visible:
  assumes "catalogue_ok w" and "competes w p ex a"
    and "overlaps s e (apt_start_datetime a) (apt_end_datetime a)"
  shows "has_blocked_overlap p s e ex w"
proof -
  have "overlaps s e (fst (blocked_span w a)) (snd (blocked_span w a))"
    using blocked_span_visible [OF assms(1), of a] assms(3) by (auto simp: overlaps_def)
  then show ?thesis
    using relevant_visible [OF assms] assms(1) has_blocked_overlap_eq by (auto simp: catalogue_ok_def)
qed

section \<open>The slot search\<close>

definition free_of :: "(instant \<times> instant) list \<Rightarrow> instant \<Rightarrow> instant \<Rightarrow> bool" where
  "free_of blocked_intervals s e \<longleftrightarrow> (\<forall>(bs, be) \<in> set blocked_intervals. \<not> overlaps s e bs be)"

definition slot_at :: "service_timing \<Rightarrow> instant \<Rightarrow> slot" where
  "slot_at timing c =
     \<lparr>slot_start_datetime = c, slot_end_datetime = c + visible_duration_minutes timing * minute_us\<rparr>"

definition block_start :: "service_timing \<Rightarrow> slot \<Rightarrow> instant" where
  "block_start timing x = slot_start_datetime x - buffer_before_minutes timing * minute_us"

definition block_end :: "service_timing \<Rightarrow> slot \<Rightarrow> instant" where
  "block_end timing x = slot_end_datetime x + buffer_after_minutes timing * minute_us"

lemmas slot_simps = slot_at_def block_start_def block_end_def

text \<open>The grid of a window: starts are a whole number of durations after the first.\<close>

definition on_grid :: "service_timing \<Rightarrow> instant \<Rightarrow> slot \<Rightarrow> bool" where
  "on_grid timing first x \<longleftrightarrow>
     (\<exists>k::nat. x = slot_at timing (first + int k * (visible_duration_minutes timing * minute_us)))"

definition loop_slot :: "service_timing \<Rightarrow> instant \<Rightarrow> (instant \<times> instant) list \<Rightarrow> instant \<Rightarrow> slot \<Rightarrow> bool" where
  "loop_slot timing window_end bl first x \<longleftrightarrow>
     on_grid timing first x \<and> block_end timing x \<le> window_end \<and>
     free_of bl (block_start timing x) (block_end timing x)"

lemma on_grid_step:
  "on_grid timing c x \<longleftrightarrow>
     x = slot_at timing c \<or> on_grid timing (c + visible_duration_minutes timing * minute_us) x"
proof
  assume "on_grid timing c x"
  then obtain k where k: "x = slot_at timing (c + int k * (visible_duration_minutes timing * minute_us))"
    by (auto simp: on_grid_def)
  show "x = slot_at timing c \<or> on_grid timing (c + visible_duration_minutes timing * minute_us) x"
  proof (cases k)
    case 0
    with k show ?thesis by simp
  next
    case (Suc n)
    with k have "x = slot_at timing (c + visible_duration_minutes timing * minute_us +
        int n * (visible_duration_minutes timing * minute_us))"
      by (simp add: algebra_simps)
    then show ?thesis by (auto simp: on_grid_def)
  qed
next
  assume r: "x = slot_at timing c \<or> on_grid timing (c + visible_duration_minutes timing * minute_us) x"
  show "on_grid timing c x"
  proof (cases "x = slot_at timing c")
    case True
    then have "x = slot_at timing (c + int 0 * (visible_duration_minutes timing * minute_us))" by simp
    then show ?thesis unfolding on_grid_def by blast
  next
    case False
    with r obtain n where "x = slot_at timing (c + visible_duration_minutes timing * minute_us +
        int n * (visible_duration_minutes timing * minute_us))"
      by (auto simp: on_grid_def)
    then have "x = slot_at timing (c + int (Suc n) * (visible_duration_minutes timing * minute_us))"
      by (simp add: algebra_simps)
    then show ?thesis unfolding on_grid_def by blast
  qed
qed

lemma on_grid_start: "timing_ok timing \<Longrightarrow> on_grid timing c x \<Longrightarrow> c \<le> slot_start_datetime x"
  by (auto simp: on_grid_def slot_simps timing_ok_def minute_us_def)

lemma on_grid_end:
  "on_grid timing c x \<Longrightarrow>
     slot_end_datetime x = slot_start_datetime x + visible_duration_minutes timing * minute_us"
  by (auto simp: on_grid_def slot_simps)

lemma on_grid_block_end:
  assumes "timing_ok timing" and "on_grid timing c x"
  shows "block_end timing (slot_at timing c) \<le> block_end timing x"
  using on_grid_start [OF assms] on_grid_end [OF assms(2)] by (simp add: slot_simps)

lemma slot_loop_step:
  "slot_loop timing we bl c slots =
     (if block_end timing (slot_at timing c) > we then Some slots
      else slot_loop timing we bl (c + visible_duration_minutes timing * minute_us)
        (if free_of bl (block_start timing (slot_at timing c)) (block_end timing (slot_at timing c))
         then slots @ [slot_at timing c] else slots))"
  by (subst slot_loop.simps)
    (auto simp: compute_blocked_interval_def slot_simps free_of_def Let_def split_def)

lemma slot_loop_spec:
  assumes "timing_ok timing"
  shows "\<exists>ss. slot_loop timing we bl c slots = Some ss \<and> set ss = set slots \<union> Collect (loop_slot timing we bl c)"
proof (induction "nat (we + 1 - c)" arbitrary: c slots rule: less_induct)
  case less
  let ?c' = "c + visible_duration_minutes timing * minute_us"
  let ?s = "slot_at timing c"
  have d: "0 < visible_duration_minutes timing * minute_us" and f: "0 \<le> buffer_after_minutes timing * minute_us"
    using assms by (simp_all add: timing_ok_def minute_us_def)
  show ?case
  proof (cases "block_end timing ?s > we")
    case True
    have "\<not> loop_slot timing we bl c x" for x
      using on_grid_block_end [OF assms, of c x] True by (auto simp: loop_slot_def)
    with True show ?thesis by (subst slot_loop_step) auto
  next
    case False
    let ?slots = "if free_of bl (block_start timing ?s) (block_end timing ?s) then slots @ [?s] else slots"
    have "c < we + 1" using False d f by (simp add: slot_simps)
    then have "nat (we + 1 - ?c') < nat (we + 1 - c)" using d by linarith
    from less [OF this, of ?slots] obtain ss where
      ss: "slot_loop timing we bl ?c' ?slots = Some ss" "set ss = set ?slots \<union> Collect (loop_slot timing we bl ?c')"
      by blast
    have "loop_slot timing we bl c x \<longleftrightarrow> (x = ?s \<and> free_of bl (block_start timing ?s) (block_end timing ?s)) \<or>
        loop_slot timing we bl ?c' x" for x
      using False on_grid_step [of timing c x] by (auto simp: loop_slot_def)
    then have "set ss = set slots \<union> Collect (loop_slot timing we bl c)"
      using ss(2) by auto
    with False ss(1) show ?thesis by (subst slot_loop_step) simp
  qed
qed

text \<open>The slots of a working window of a day.\<close>

definition window_slot ::
  "zone \<Rightarrow> service_timing \<Rightarrow> (instant \<times> instant) list \<Rightarrow> date \<Rightarrow> time_of_day option \<times> time_of_day option \<Rightarrow> slot \<Rightarrow> bool" where
  "window_slot z timing bl day win x \<longleftrightarrow>
     (\<exists>s e. win = (Some s, Some e) \<and>
        loop_slot timing (local_to_utc z day e) bl
          (local_to_utc z day s + buffer_before_minutes timing * minute_us) x)"

lemma windows_loop_spec:
  assumes "timing_ok timing"
  shows "\<exists>r. windows_loop z timing bl day ws slots = Some r \<and>
           (\<forall>ss. r = Inr ss \<longrightarrow> set ss = set slots \<union> {x. \<exists>win \<in> set ws. window_slot z timing bl day win x})"
proof (induction ws arbitrary: slots)
  case Nil
  then show ?case by simp
next
  case (Cons win ws)
  show ?case
  proof (cases "\<exists>s e. win = (Some s, Some e)")
    case False
    then obtain a b where w: "win = (a, b)" and "a = None \<or> b = None"
      by (cases win) (metis option.exhaust)
    then show ?thesis by (auto split: option.splits)
  next
    case True
    then obtain s e where w: "win = (Some s, Some e)" by blast
    obtain ss where ss: "slot_loop timing (local_to_utc z day e) bl
        (local_to_utc z day s + buffer_before_minutes timing * minute_us) slots = Some ss"
      "set ss = set slots \<union> Collect (window_slot z timing bl day win)"
      using slot_loop_spec [OF assms] w by (fastforce simp: window_slot_def)
    then show ?thesis
      using Cons.IH [of ss] w by (auto simp: Let_def)
  qed
qed

lemma days_loop_spec:
  assumes "timing_ok timing"
  shows "\<exists>r. days_loop z timing bl avs ovs ds slots = Some r \<and>
           (\<forall>ss. r = Inr ss \<longrightarrow> set ss = set slots \<union>
              {x. \<exists>day \<in> set ds. \<exists>win \<in> set (day_windows avs ovs day). window_slot z timing bl day win x})"
proof (induction ds arbitrary: slots)
  case Nil
  then show ?case by simp
next
  case (Cons day ds)
  obtain r where r: "windows_loop z timing bl day (day_windows avs ovs day) slots = Some r"
    "\<forall>ss. r = Inr ss \<longrightarrow> set ss = set slots \<union> {x. \<exists>win \<in> set (day_windows avs ovs day). window_slot z timing bl day win x}"
    using windows_loop_spec [OF assms] by blast
  show ?case
  proof (cases r)
    case (Inl e)
    with r show ?thesis by simp
  next
    case (Inr ss)
    with r Cons.IH [of ss] show ?thesis by auto
  qed
qed

lemma get_available_slots_total:
  assumes "catalogue_ok w"
  shows "get_available_slots ev p l sd ed s w \<noteq> None"
proof -
  have days: False
    if "days_loop z timing bl avs ovs ds slots = None" and "resolve_service_timing p l s True True w = Inr timing"
    for z timing bl avs ovs ds slots
    using days_loop_spec [OF resolve_service_timing_ok [OF assms that(2)], of z bl avs ovs ds slots] that(1) by auto
  then show ?thesis
    unfolding get_available_slots_def Let_def
    by (auto split: option.split sum.split dest: days)
qed

lemma day_windows_empty [simp]: "day_windows [] [] day = []"
  by (simp add: day_windows_def)

lemma get_available_slots_set:
  assumes "catalogue_ok w" and "provider_get p w = Some prov" and "prov_is_active prov"
    and "resolve_service_timing p l s True True w = Inr timing"
    and "provider_timezone prov w = Inr tz" and "zone_table ev tz = Some z"
    and "get_available_slots ev p l sd ed s w = Some (Inr slots)"
  shows "sd \<le> ed \<and> set slots = {x. \<exists>day \<in> {sd..ed}.
     \<exists>win \<in> set (day_windows (active_availabilities p w) (active_overrides p sd ed w) day).
       window_slot z timing
         (search_blocked_intervals p (local_to_utc z sd 0) (local_to_utc z (ed + 1) 0) w) day win x}"
proof -
  let ?avs = "active_availabilities p w" and ?ovs = "active_overrides p sd ed w"
  let ?bl = "search_blocked_intervals p (local_to_utc z sd 0) (local_to_utc z (ed + 1) 0) w"
  have tok: "timing_ok timing" by (rule resolve_service_timing_ok [OF assms(1,4)])
  have le: "sd \<le> ed" using assms(7) by (simp add: get_available_slots_def split: if_splits)
  show ?thesis
  proof (cases "?avs = [] \<and> ?ovs = []")
    case True
    then have "slots = []"
      using assms by (simp add: get_available_slots_def zone_info_def Let_def split: if_splits)
    with True le show ?thesis by simp
  next
    case False
    obtain r where r: "days_loop z timing ?bl ?avs ?ovs (daterange sd ed) [] = Some r"
      "\<forall>ss. r = Inr ss \<longrightarrow> set ss = set [] \<union>
              {x. \<exists>day \<in> set (daterange sd ed). \<exists>win \<in> set (day_windows ?avs ?ovs day). window_slot z timing ?bl day win x}"
      using days_loop_spec [OF tok] by meson
    with assms False le obtain ss where "r = Inr ss" "slots = sort_key slot_start_datetime ss"
      by (auto simp: get_available_slots_def zone_info_def Let_def split: if_splits sum.splits)
    with r le show ?thesis by simp
  qed
qed

lemma get_available_slots_sorted:
  "get_available_slots ev p l sd ed s w = Some (Inr slots) \<Longrightarrow> sorted (map slot_start_datetime slots)"
  by (auto simp: get_available_slots_def Let_def split: if_splits option.splits sum.splits)

section \<open>What a free slot is\<close>

text \<open>
  The specification of the search, over the tables themselves: the working windows of a
  provider on a day, and freedom from every time off and every live appointment.
\<close>

definition provider_windows :: "world \<Rightarrow> int \<Rightarrow> date \<Rightarrow> (time_of_day option \<times> time_of_day option) set" where
  "provider_windows w p day =
     (let ovs = {o' \<in> set (date_overrides w). ov_provider_id o' = p \<and> ov_is_active o' \<and> ov_override_date o' = day} in
      if ovs = {} then
        {(Some (av_start_time a), Some (av_end_time a)) | a.
           a \<in> set (availabilities w) \<and> av_provider_id a = p \<and> av_is_active a \<and> av_weekday a = weekday day}
      else if \<exists>o' \<in> ovs. \<not> ov_is_available o' then {}
      else {(ov_start_time o', ov_end_time o') | o'. o' \<in> ovs})"

definition free_in_world :: "world \<Rightarrow> int \<Rightarrow> instant \<Rightarrow> instant \<Rightarrow> bool" where
  "free_in_world w p s e \<longleftrightarrow>
     (\<forall>a. competes w p None a \<longrightarrow> \<not> overlaps s e (fst (blocked_span w a)) (snd (blocked_span w a))) \<and>
     (\<forall>t \<in> set (time_offs w). off_provider_id t = p \<longrightarrow> \<not> overlaps s e (off_start_datetime t) (off_end_datetime t))"

definition bookable :: "world \<Rightarrow> int \<Rightarrow> zone \<Rightarrow> service_timing \<Rightarrow> date \<Rightarrow> slot \<Rightarrow> bool" where
  "bookable w p z timing day x \<longleftrightarrow>
     (\<exists>s e. (Some s, Some e) \<in> provider_windows w p day \<and>
        on_grid timing (local_to_utc z day s + buffer_before_minutes timing * minute_us) x \<and>
        block_end timing x \<le> local_to_utc z day e) \<and>
     free_in_world w p (block_start timing x) (block_end timing x)"

text \<open>
  What the theorem asks of its surroundings: times of day below midnight, appointments whose service
  is still assigned, and a zone that keeps the times of the days searched between their midnights.
  The last fails where clocks are set forward over midnight: a time that is skipped is read with
  the old offset and may come after the new midnight, and the search selects appointments by
  midnights.  In America/Nuuk and America/Scoresbysund this is so on the spring day of the change.
\<close>

definition time_ok :: "time_of_day option \<Rightarrow> bool" where
  "time_ok t \<longleftrightarrow> (case t of None \<Rightarrow> True | Some t \<Rightarrow> 0 \<le> t \<and> t < day_us)"

definition times_ok :: "world \<Rightarrow> bool" where
  "times_ok w \<longleftrightarrow>
     (\<forall>a \<in> set (availabilities w). time_ok (Some (av_start_time a)) \<and> time_ok (Some (av_end_time a))) \<and>
     (\<forall>o' \<in> set (date_overrides w). time_ok (ov_start_time o') \<and> time_ok (ov_end_time o'))"

definition zone_regular :: "zone \<Rightarrow> date \<Rightarrow> date \<Rightarrow> bool" where
  "zone_regular z sd ed \<longleftrightarrow>
     (\<forall>d \<in> {sd..ed}. \<forall>t. 0 \<le> t \<longrightarrow> t < day_us \<longrightarrow>
        local_to_utc z d 0 \<le> local_to_utc z d t \<and> local_to_utc z d t \<le> local_to_utc z (d + 1) 0)"

lemma midnight_step:
  "zone_regular z sd ed \<Longrightarrow> d \<in> {sd..ed} \<Longrightarrow> local_to_utc z d 0 \<le> local_to_utc z (d + 1) 0"
  unfolding zone_regular_def by (drule bspec [of _ _ d], simp, drule spec [of _ 0]) (simp add: day_us_def)

lemma midnight_mono:
  assumes "zone_regular z sd ed" and "sd \<le> a"
  shows "a \<le> b \<Longrightarrow> b \<le> ed + 1 \<Longrightarrow> local_to_utc z a 0 \<le> local_to_utc z b 0"
proof (induction b rule: int_ge_induct)
  case base
  then show ?case by simp
next
  case (step b)
  then show ?case using midnight_step [OF assms(1), of b] assms(2) by simp
qed

lemma day_windows_spec:
  assumes "day \<in> {sd..ed}"
  shows "set (day_windows (active_availabilities p w) (active_overrides p sd ed w) day) = provider_windows w p day"
proof -
  have "[o' \<leftarrow> active_overrides p sd ed w. ov_override_date o' = day] = [] \<longleftrightarrow>
      {o' \<in> set (date_overrides w). ov_provider_id o' = p \<and> ov_is_active o' \<and> ov_override_date o' = day} = {}"
    using assms by (auto simp: active_overrides_def date_override_list_by_provider_def filter_empty_conv)
  moreover have "set [o' \<leftarrow> active_overrides p sd ed w. ov_override_date o' = day] =
      {o' \<in> set (date_overrides w). ov_provider_id o' = p \<and> ov_is_active o' \<and> ov_override_date o' = day}"
    using assms by (auto simp: active_overrides_def date_override_list_by_provider_def)
  ultimately show ?thesis
    unfolding day_windows_def provider_windows_def Let_def
    by (auto simp: active_availabilities_def availability_list_by_provider_def)
qed

lemma free_of_search:
  assumes "catalogue_ok w" and "\<forall>a \<in> set (appointments w). still_assigned w a" and "r0 \<le> s" and "e \<le> r1"
  shows "free_of (search_blocked_intervals p r0 r1 w) s e \<longleftrightarrow> free_in_world w p s e"
proof -
  let ?apts = "list_relevant_blocking_appointments p r0 r1 None w"
  have tok: "tbl_ok svc_id (services w)" using assms(1) by (simp add: catalogue_ok_def)
  have span: "appointment_blocked_interval a (build_service_buffer_lookup ?apts w) = blocked_span w a"
    if "a \<in> set ?apts" for a
    by (rule appointment_blocked_interval_lookup [OF tok that])
  have wide: "overlaps r0 r1 bs be" if "overlaps s e bs be" for bs be
    using that assms(3,4) by (auto simp: overlaps_def)
  have rel: "a \<in> set ?apts"
    if "competes w p None a" and "overlaps s e (fst (blocked_span w a)) (snd (blocked_span w a))" for a
  proof (rule relevant_assigned [OF assms(1) that(1)])
    show "still_assigned w a" using that(1) assms(2) by (simp add: competes_def)
    show "overlaps r0 r1 (fst (blocked_span w a)) (snd (blocked_span w a))" by (rule wide [OF that(2)])
  qed
  have off: "t \<in> set (time_off_list_by_provider p (Some r0) (Some r1) w)"
    if "t \<in> set (time_offs w)" and "off_provider_id t = p"
      and "overlaps s e (off_start_datetime t) (off_end_datetime t)" for t
    using that wide [OF that(3)] by (auto simp: time_off_list_by_provider_def overlaps_def)
  have sub: "t \<in> set (time_offs w) \<and> off_provider_id t = p"
    if "t \<in> set (time_off_list_by_provider p (Some r0) (Some r1) w)" for t
    using that by (auto simp: time_off_list_by_provider_def)
  have "free_of (search_blocked_intervals p r0 r1 w) s e \<longleftrightarrow>
      (\<forall>t \<in> set (time_off_list_by_provider p (Some r0) (Some r1) w).
         \<not> overlaps s e (off_start_datetime t) (off_end_datetime t)) \<and>
      (\<forall>a \<in> set ?apts. \<not> overlaps s e (fst (blocked_span w a)) (snd (blocked_span w a)))"
    using span by (simp add: free_of_def search_blocked_intervals_def Let_def split_def ball_Un)
  then show ?thesis
    using rel off sub relevant_competes unfolding free_in_world_def by blast
qed

text \<open>The surroundings of a query for an active provider.\<close>

definition slot_query ::
  "env \<Rightarrow> world \<Rightarrow> int \<Rightarrow> int \<Rightarrow> int option \<Rightarrow> zone \<Rightarrow> service_timing \<Rightarrow> bool" where
  "slot_query ev w p l s z timing \<longleftrightarrow>
     (\<exists>prov tz. provider_get p w = Some prov \<and> prov_is_active prov \<and>
        provider_timezone prov w = Inr tz \<and> zone_table ev tz = Some z) \<and>
     resolve_service_timing p l s True True w = Inr timing"

definition schedule_ok :: "world \<Rightarrow> bool" where
  "schedule_ok w \<longleftrightarrow> catalogue_ok w \<and> times_ok w \<and> (\<forall>a \<in> set (appointments w). still_assigned w a)"


lemma provider_window_times:
  assumes "times_ok w" and "(s, e) \<in> provider_windows w p day"
  shows "time_ok s \<and> time_ok e"
proof -
  have "(\<exists>a \<in> set (availabilities w). s = Some (av_start_time a) \<and> e = Some (av_end_time a)) \<or>
      (\<exists>o' \<in> set (date_overrides w). s = ov_start_time o' \<and> e = ov_end_time o')"
    using assms(2) by (auto simp: provider_windows_def Let_def split: if_splits)
  then show ?thesis using assms(1) by (auto simp: times_ok_def)
qed

lemma window_bounds:
  assumes "times_ok w" and "zone_regular z sd ed" and "day \<in> {sd..ed}" and "(Some s, Some e) \<in> provider_windows w p day"
  shows "local_to_utc z sd 0 \<le> local_to_utc z day s \<and> local_to_utc z day e \<le> local_to_utc z (ed + 1) 0"
proof -
  have t: "0 \<le> s" "s < day_us" "0 \<le> e" "e < day_us"
    using provider_window_times [OF assms(1,4)] by (simp_all add: time_ok_def)
  have "local_to_utc z sd 0 \<le> local_to_utc z day 0" "local_to_utc z (day + 1) 0 \<le> local_to_utc z (ed + 1) 0"
    using assms(3) by (auto intro: midnight_mono [OF assms(2)])
  moreover have "local_to_utc z day 0 \<le> local_to_utc z day s" "local_to_utc z day e \<le> local_to_utc z (day + 1) 0"
    using assms(2,3) t by (simp_all add: zone_regular_def)
  ultimately show ?thesis by linarith
qed

lemma window_slot_bookable:
  assumes "schedule_ok w" and "zone_regular z sd ed" and "timing_ok timing" and "day \<in> {sd..ed}"
    and "(Some s, Some e) \<in> provider_windows w p day"
  shows "window_slot z timing (search_blocked_intervals p (local_to_utc z sd 0) (local_to_utc z (ed + 1) 0) w)
           day (Some s, Some e) x \<longleftrightarrow>
         on_grid timing (local_to_utc z day s + buffer_before_minutes timing * minute_us) x \<and>
         block_end timing x \<le> local_to_utc z day e \<and>
         free_in_world w p (block_start timing x) (block_end timing x)"
proof (cases "on_grid timing (local_to_utc z day s + buffer_before_minutes timing * minute_us) x \<and>
    block_end timing x \<le> local_to_utc z day e")
  case True
  have "local_to_utc z day s \<le> block_start timing x"
    using on_grid_start [OF assms(3)] True by (fastforce simp: slot_simps)
  then have "local_to_utc z sd 0 \<le> block_start timing x" "block_end timing x \<le> local_to_utc z (ed + 1) 0"
    using window_bounds [OF _ assms(2,4,5)] assms(1) True by (auto simp: schedule_ok_def)
  then have "free_of (search_blocked_intervals p (local_to_utc z sd 0) (local_to_utc z (ed + 1) 0) w)
      (block_start timing x) (block_end timing x) \<longleftrightarrow>
      free_in_world w p (block_start timing x) (block_end timing x)"
    using assms(1) by (intro free_of_search) (auto simp: schedule_ok_def)
  with True show ?thesis by (simp add: window_slot_def loop_slot_def)
next
  case False
  then show ?thesis by (auto simp: window_slot_def loop_slot_def)
qed

lemma get_available_slots_bookable:
  assumes ok: "schedule_ok w" and z: "zone_regular z sd ed" and q: "slot_query ev w p l s z timing"
    and g: "get_available_slots ev p l sd ed s w = Some (Inr slots)"
  shows "set slots = {x. \<exists>day \<in> {sd..ed}. bookable w p z timing day x}"
proof -
  from q obtain prov tz where pr: "provider_get p w = Some prov" "prov_is_active prov"
    "provider_timezone prov w = Inr tz" "zone_table ev tz = Some z"
    and r: "resolve_service_timing p l s True True w = Inr timing"
    by (auto simp: slot_query_def)
  have cat: "catalogue_ok w" using ok by (simp add: schedule_ok_def)
  have tok: "timing_ok timing" by (rule resolve_service_timing_ok [OF cat r])
  let ?bl = "search_blocked_intervals p (local_to_utc z sd 0) (local_to_utc z (ed + 1) 0) w"
  have "(\<exists>win \<in> provider_windows w p day. window_slot z timing ?bl day win x) \<longleftrightarrow> bookable w p z timing day x"
    if "day \<in> {sd..ed}" for day x
  proof -
    have "(\<exists>win \<in> provider_windows w p day. window_slot z timing ?bl day win x) \<longleftrightarrow>
        (\<exists>s e. (Some s, Some e) \<in> provider_windows w p day \<and> window_slot z timing ?bl day (Some s, Some e) x)"
      by (auto simp: window_slot_def)
    then show ?thesis
      using window_slot_bookable [OF ok z tok that] unfolding bookable_def by blast
  qed
  then show ?thesis
    using get_available_slots_set [OF cat pr(1,2) r pr(3,4) g] day_windows_spec [of _ sd ed p w] by auto
qed

section \<open>The sample salon\<close>

declare slot_loop.simps [code]

lemma sample_schedule_ok: "schedule_ok sample_world" "schedule_ok booked_world"
  by (simp_all add: schedule_ok_def catalogue_ok_def times_ok_def time_ok_def still_assigned_def
      tbl_ok_def sample_defs duration_defs)

lemma sample_zone_regular: "zone_regular sample_zone sd ed"
  by (simp add: zone_regular_def sample_defs local_to_utc_def combine_def algebra_simps Let_def)

definition sample_timing :: service_timing where
  "sample_timing = \<lparr>visible_duration_minutes = 60, buffer_before_minutes = 0, buffer_after_minutes = 10\<rparr>"

lemma sample_slot_query: "slot_query sample_env booked_world 1 1 (Some 1) sample_zone sample_timing"
  by (simp add: slot_query_def sample_timing_def sample_defs provider_get_def tbl_get_def
      provider_timezone_def organization_get_def resolve_service_timing_def location_get_def
      service_get_def provider_location_get_def service_location_get_def provider_service_get_def)

lemma sample_slots:
  "get_available_slots sample_env 1 1 0 1 (Some 1) booked_world =
     Some (Inr [slot_at sample_timing (9 * hour_us)])"
  by code_simp

section \<open>Properties\<close>

text \<open>
  C2. The slot search offers exactly the bookable slots of the requested dates: the positions of
  the duration grid of a working window of the day whose interval, widened by the service's
  buffers, ends within the window and meets neither a time off of the provider nor the blocked
  interval of one of its live appointments.  The search reads only the rows its queries select;
  the theorem is over all the rows of the tables.  It asks that the constraints of the catalogue
  hold, that times of day are below midnight, that the service of every appointment is still
  assigned to its provider (unassigning a service leaves its bookings in place, and then it can
  fail), and that on the requested days the provider's zone maps no local time before the day's
  midnight or after the next one (which fails where clocks are set forward over midnight).
\<close>

theorem slots_exactly_bookable:
  assumes "schedule_ok w" and "zone_regular z sd ed" and "slot_query ev w p l s z timing"
    and "get_available_slots ev p l sd ed s w = Some (Inr slots)"
  shows "set slots = {x. \<exists>day \<in> {sd..ed}. bookable w p z timing day x}"
  by (rule get_available_slots_bookable [OF assms])

theorem slots_exactly_bookable_witness:
  "{x. \<exists>day \<in> {0..1}. bookable booked_world 1 sample_zone sample_timing day x} =
     {slot_at sample_timing (9 * hour_us)}"
  using slots_exactly_bookable [OF sample_schedule_ok(2) sample_zone_regular sample_slot_query sample_slots]
  by simp

text \<open>
  C23. The slot search always ends, in spite of its unconditional loop, because the constraints of
  the catalogue make every duration positive; and a list it returns is in ascending order.
\<close>

theorem slot_search_returns_sorted:
  assumes "catalogue_ok w"
  shows "\<exists>r. get_available_slots ev p l sd ed s w = Some r \<and>
           (case r of Inl e \<Rightarrow> True | Inr slots \<Rightarrow> sorted (map slot_start_datetime slots))"
proof -
  obtain r where r: "get_available_slots ev p l sd ed s w = Some r"
    using get_available_slots_total [OF assms] by (meson not_None_eq)
  then show ?thesis
    by (auto dest: get_available_slots_sorted split: sum.split)
qed

theorem slot_search_returns_sorted_witness:
  "\<exists>r. get_available_slots sample_env 1 1 0 30 (Some 1) booked_world = Some r \<and>
     (case r of Inl e \<Rightarrow> True | Inr slots \<Rightarrow> sorted (map slot_start_datetime slots))"
  using slot_search_returns_sorted [of booked_world] sample_schedule_ok(2) by (simp add: schedule_ok_def)

text \<open>
  C10. The overlap check of the booking code is exact: when every appointment's service is still
  assigned to its provider, it answers yes precisely when the widened interval meets the widened
  interval of a live appointment of the provider other than the excluded one.
\<close>

theorem overlap_check_exact:
  assumes "catalogue_ok w" and "\<forall>a \<in> set (appointments w). still_assigned w a"
  shows "has_blocked_overlap p s e ex w \<longleftrightarrow>
    (\<exists>a. competes w p ex a \<and> overlaps s e (fst (blocked_span w a)) (snd (blocked_span w a)))"
proof -
  have "tbl_ok svc_id (services w)" using assms(1) by (simp add: catalogue_ok_def)
  moreover have "still_assigned w a" if "competes w p ex a" for a
    using that assms(2) by (simp add: competes_def)
  ultimately show ?thesis
    using has_blocked_overlap_eq relevant_competes relevant_assigned [OF assms(1)] by blast
qed

theorem overlap_check_exact_witness:
  "has_blocked_overlap 1 (12 * hour_us) (13 * hour_us) None booked_world \<longleftrightarrow>
    (\<exists>a. competes booked_world 1 None a \<and>
       overlaps (12 * hour_us) (13 * hour_us) (fst (blocked_span booked_world a)) (snd (blocked_span booked_world a)))"
  using overlap_check_exact [of booked_world] sample_schedule_ok(2) by (simp add: schedule_ok_def)

definition unassigned_world :: world where
  "unassigned_world =
     (case provider_service_get 1 1 booked_world of
        None \<Rightarrow> booked_world
      | Some r \<Rightarrow> provider_service_delete r booked_world)"

text \<open>
  The assignment hypothesis is needed.  Once the service is taken off the provider (deleting
  the assignment leaves the booking), the buffers of the booked appointment are no longer part of
  the query margin: a request inside its clean-up time, which the check refused before, passes.
\<close>

theorem unassigning_hides_buffer:
  "has_blocked_overlap 1 (12 * hour_us) (13 * hour_us) None booked_world \<and>
   \<not> has_blocked_overlap 1 (12 * hour_us) (13 * hour_us) None unassigned_world \<and>
   (\<exists>a. competes unassigned_world 1 None a \<and>
      overlaps (12 * hour_us) (13 * hour_us) (fst (blocked_span unassigned_world a)) (snd (blocked_span unassigned_world a)))"
proof (intro conjI)
  show "has_blocked_overlap 1 (12 * hour_us) (13 * hour_us) None booked_world" by code_simp
  show "\<not> has_blocked_overlap 1 (12 * hour_us) (13 * hour_us) None unassigned_world" by code_simp
  have "competes unassigned_world 1 None sample_appointment" by code_simp
  moreover have "overlaps (12 * hour_us) (13 * hour_us) (fst (blocked_span unassigned_world sample_appointment))
      (snd (blocked_span unassigned_world sample_appointment))" by code_simp
  ultimately show "\<exists>a. competes unassigned_world 1 None a \<and>
      overlaps (12 * hour_us) (13 * hour_us) (fst (blocked_span unassigned_world a)) (snd (blocked_span unassigned_world a))"
    by blast
qed

text \<open>
  What the search offers, the overlap check accepts: a customer who picks an offered slot is
  not turned away by the check unless the world has changed in between.
\<close>

lemma offered_slot_no_overlap:
  assumes "schedule_ok w" and "zone_regular z sd ed" and "slot_query ev w p l s z timing"
    and "get_available_slots ev p l sd ed s w = Some (Inr slots)" and "x \<in> set slots"
  shows "\<not> has_blocked_overlap p (block_start timing x) (block_end timing x) None w"
proof -
  have "free_in_world w p (block_start timing x) (block_end timing x)"
    using get_available_slots_bookable [OF assms(1-4)] assms(5) by (auto simp: bookable_def)
  moreover have "tbl_ok svc_id (services w)" using assms(1) by (simp add: schedule_ok_def catalogue_ok_def)
  ultimately show ?thesis
    using has_blocked_overlap_eq relevant_competes unfolding free_in_world_def by blast
qed

end
