(* ===== verification/Schedule_Admin.thy ===== *)
theory Schedule_Admin
  imports Scheduling
begin

text \<open>
  The administration of schedules: \<^verbatim>\<open>services/provider_availability_service.py\<close>,
  \<^verbatim>\<open>services/provider_date_override_service.py\<close> and
  \<^verbatim>\<open>services/provider_time_off_service.py\<close>.  An operation that raises rolls back, so its
  value is the exception alone.  A field of an update payload is \<^verbatim>\<open>None\<close> when it is not
  set, \<^verbatim>\<open>Some None\<close> when it is an explicit null, which the columns that are NOT NULL refuse
  at the flush.
\<close>

section \<open>Payloads\<close>

record availability_create_payload =
  avc_provider_id :: int
  avc_weekday :: int
  avc_start_time :: time_of_day
  avc_end_time :: time_of_day
  avc_is_active :: bool

record availability_update_payload =
  avu_weekday :: "int option option"
  avu_start_time :: "time_of_day option option"
  avu_end_time :: "time_of_day option option"
  avu_is_active :: "bool option option"

record override_create_payload =
  ovc_provider_id :: int
  ovc_override_date :: date
  ovc_start_time :: "time_of_day option"
  ovc_end_time :: "time_of_day option"
  ovc_is_available :: bool
  ovc_is_active :: bool

record override_update_payload =
  ovu_override_date :: "date option option"
  ovu_start_time :: "time_of_day option option"
  ovu_end_time :: "time_of_day option option"
  ovu_is_available :: "bool option option"
  ovu_is_active :: "bool option option"

record time_off_create_payload =
  toc_provider_id :: int
  toc_start_datetime :: py_datetime
  toc_end_datetime :: py_datetime
  toc_reason :: "string option"

record time_off_update_payload =
  tou_start_datetime :: "py_datetime option option"
  tou_end_datetime :: "py_datetime option option"
  tou_reason :: "string option option"

text \<open>\<^verbatim>\<open>updates.get(field, current)\<close>\<close>

definition target :: "'a option option \<Rightarrow> 'a option \<Rightarrow> 'a option" where
  "target u current = (case u of None \<Rightarrow> current | Some v \<Rightarrow> v)"

definition truthy :: "bool option \<Rightarrow> bool" where
  "truthy b = (b = Some True)"

section \<open>Weekly availability\<close>

definition create_availability ::
  "availability_create_payload \<Rightarrow> world \<Rightarrow> (availability \<times> world) result" where
  "create_availability payload w =
     (if provider_get (avc_provider_id payload) w = None then Inl (ValueError ''Provider not found.'')
      else if avc_start_time payload \<ge> avc_end_time payload
      then Inl (ValueError ''Availability start_time must be before end_time.'')
      else if avc_is_active payload \<and>
              availability_has_overlap (avc_provider_id payload) (avc_weekday payload)
                (avc_start_time payload) (avc_end_time payload) None w
      then Inl (ValueError ''Overlapping availability block exists for this provider and weekday.'')
      else availability_create
             \<lparr>av_id = 0, av_provider_id = avc_provider_id payload, av_weekday = avc_weekday payload,
              av_start_time = avc_start_time payload, av_end_time = avc_end_time payload,
              av_is_active = avc_is_active payload\<rparr> w)"

definition update_availability ::
  "int \<Rightarrow> availability_update_payload \<Rightarrow> world \<Rightarrow> (availability \<times> world) result" where
  "update_availability availability_id payload w =
     (case availability_get availability_id w of
        None \<Rightarrow> Inl (ValueError ''Availability block not found.'')
      | Some availability \<Rightarrow>
      if provider_get (av_provider_id availability) w = None then Inl (ValueError ''Provider not found.'')
      else
       (let target_weekday = target (avu_weekday payload) (Some (av_weekday availability));
            target_start_time = target (avu_start_time payload) (Some (av_start_time availability));
            target_end_time = target (avu_end_time payload) (Some (av_end_time availability));
            target_is_active = target (avu_is_active payload) (Some (av_is_active availability)) in
        case (target_start_time, target_end_time) of
          (Some start_time, Some end_time) \<Rightarrow>
            if start_time \<ge> end_time
            then Inl (ValueError ''Availability start_time must be before end_time.'')
            else if truthy target_is_active \<and>
                    (case target_weekday of
                       None \<Rightarrow> False
                     | Some d \<Rightarrow> availability_has_overlap (av_provider_id availability) d start_time end_time
                                   (Some (av_id availability)) w)
            then Inl (ValueError ''Overlapping availability block exists for this provider and weekday.'')
            else (case (target_weekday, target_is_active) of
                    (Some d, Some active) \<Rightarrow>
                      (let updated = availability\<lparr>av_weekday := d, av_start_time := start_time,
                                                  av_end_time := end_time, av_is_active := active\<rparr> in
                       case availability_update updated w of
                         Inl e \<Rightarrow> Inl e
                       | Inr w' \<Rightarrow> Inr (updated, w'))
                  | _ \<Rightarrow> Inl (IntegrityError ''NOT NULL provider_availability''))
        | _ \<Rightarrow> Inl (TypeError ''comparison with NoneType'')))"

section \<open>Date overrides\<close>

text \<open>A comparison with an explicit null date selects no row.\<close>

definition on_date :: "date option \<Rightarrow> (date \<Rightarrow> bool) \<Rightarrow> bool" where
  "on_date d query = (case d of None \<Rightarrow> False | Some d \<Rightarrow> query d)"

definition validate_override_payload ::
  "int \<Rightarrow> date option \<Rightarrow> bool option \<Rightarrow> time_of_day option \<Rightarrow> time_of_day option \<Rightarrow> bool option
    \<Rightarrow> int option \<Rightarrow> world \<Rightarrow> unit result" where
  "validate_override_payload provider_id override_date is_available start_time end_time is_active
      exclude_override_id w =
     (if truthy is_available then
       (case (start_time, end_time) of
          (Some s, Some e) \<Rightarrow>
            if s \<ge> e then Inl (ValueError ''Date override start_time must be before end_time.'')
            else if truthy is_active \<and>
                    on_date override_date (\<lambda>d. date_override_has_active_unavailable_day provider_id d exclude_override_id w)
            then Inl (ValueError ''Cannot add working-hours override because this date is marked unavailable.'')
            else if truthy is_active \<and>
                    on_date override_date (\<lambda>d. date_override_has_overlap provider_id d s e exclude_override_id w)
            then Inl (ValueError ''Overlapping date-override window exists for this provider and date.'')
            else Inr ()
        | _ \<Rightarrow> Inl (ValueError ''Available date override requires start_time and end_time.''))
      else if start_time \<noteq> None \<or> end_time \<noteq> None
      then Inl (ValueError ''Full-day unavailability override must not include start_time or end_time.'')
      else if truthy is_active \<and>
              on_date override_date (\<lambda>d. date_override_has_active_available_windows provider_id d exclude_override_id w)
      then Inl (ValueError ''Cannot mark date unavailable while active working-hour overrides exist for this date.'')
      else if truthy is_active \<and>
              on_date override_date (\<lambda>d. date_override_has_active_unavailable_day provider_id d exclude_override_id w)
      then Inl (ValueError ''Full-day unavailability override already exists for this date.'')
      else Inr ())"

definition create_override ::
  "override_create_payload \<Rightarrow> world \<Rightarrow> (date_override \<times> world) result" where
  "create_override payload w =
     (if provider_get (ovc_provider_id payload) w = None then Inl (ValueError ''Provider not found.'')
      else case validate_override_payload (ovc_provider_id payload) (Some (ovc_override_date payload))
                  (Some (ovc_is_available payload)) (ovc_start_time payload) (ovc_end_time payload)
                  (Some (ovc_is_active payload)) None w of
        Inl e \<Rightarrow> Inl e
      | Inr _ \<Rightarrow>
        date_override_create
          \<lparr>ov_id = 0, ov_provider_id = ovc_provider_id payload,
           ov_override_date = ovc_override_date payload, ov_start_time = ovc_start_time payload,
           ov_end_time = ovc_end_time payload, ov_is_available = ovc_is_available payload,
           ov_is_active = ovc_is_active payload\<rparr> w)"

definition update_override ::
  "int \<Rightarrow> override_update_payload \<Rightarrow> world \<Rightarrow> (date_override \<times> world) result" where
  "update_override override_id payload w =
     (case date_override_get override_id w of
        None \<Rightarrow> Inl (ValueError ''Date override not found.'')
      | Some row \<Rightarrow>
      if provider_get (ov_provider_id row) w = None then Inl (ValueError ''Provider not found.'')
      else
       (let target_date = target (ovu_override_date payload) (Some (ov_override_date row));
            target_is_available = target (ovu_is_available payload) (Some (ov_is_available row));
            target_start = target (ovu_start_time payload) (ov_start_time row);
            target_end = target (ovu_end_time payload) (ov_end_time row);
            target_is_active = target (ovu_is_active payload) (Some (ov_is_active row)) in
        case validate_override_payload (ov_provider_id row) target_date target_is_available
               target_start target_end target_is_active (Some (ov_id row)) w of
          Inl e \<Rightarrow> Inl e
        | Inr _ \<Rightarrow>
         (case (target_date, target_is_available, target_is_active) of
            (Some d, Some available, Some active) \<Rightarrow>
              (let updated = row\<lparr>ov_override_date := d, ov_is_available := available,
                                 ov_start_time := target_start, ov_end_time := target_end,
                                 ov_is_active := active\<rparr> in
               case date_override_update updated w of
                 Inl e \<Rightarrow> Inl e
               | Inr w' \<Rightarrow> Inr (updated, w'))
          | _ \<Rightarrow> Inl (IntegrityError ''NOT NULL provider_date_overrides''))))"

section \<open>Time off\<close>

text \<open>SQLite drops the offset of a stored datetime, so it reads back naive there.\<close>

definition stored_datetime :: "env \<Rightarrow> instant \<Rightarrow> py_datetime" where
  "stored_datetime ev i = (if is_postgres ev then Aware i 0 else Naive i)"

definition validate_datetimes ::
  "py_datetime option \<Rightarrow> py_datetime option \<Rightarrow> (instant \<times> instant) result" where
  "validate_datetimes start_datetime end_datetime =
     (case start_datetime of
        None \<Rightarrow> Inl (AttributeError ''tzinfo'')
      | Some s \<Rightarrow>
      case ensure_aware_utc s of
        Inl e \<Rightarrow> Inl e
      | Inr start \<Rightarrow>
      case end_datetime of
        None \<Rightarrow> Inl (AttributeError ''tzinfo'')
      | Some e \<Rightarrow>
      case ensure_aware_utc e of
        Inl e \<Rightarrow> Inl e
      | Inr end' \<Rightarrow>
      if start \<ge> end' then Inl (ValueError ''Time-off start_datetime must be before end_datetime.'')
      else Inr (start, end'))"

definition create_time_off :: "time_off_create_payload \<Rightarrow> world \<Rightarrow> (time_off \<times> world) result" where
  "create_time_off payload w =
     (if provider_get (toc_provider_id payload) w = None then Inl (ValueError ''Provider not found.'')
      else case validate_datetimes (Some (toc_start_datetime payload)) (Some (toc_end_datetime payload)) of
        Inl e \<Rightarrow> Inl e
      | Inr (start_datetime, end_datetime) \<Rightarrow>
        time_off_create
          \<lparr>off_id = 0, off_provider_id = toc_provider_id payload, off_start_datetime = start_datetime,
           off_end_datetime = end_datetime, off_reason = toc_reason payload\<rparr> w)"

definition update_time_off ::
  "env \<Rightarrow> int \<Rightarrow> time_off_update_payload \<Rightarrow> world \<Rightarrow> (time_off \<times> world) result" where
  "update_time_off ev time_off_id payload w =
     (case time_off_get time_off_id w of
        None \<Rightarrow> Inl (ValueError ''Time-off interval not found.'')
      | Some row \<Rightarrow>
      if provider_get (off_provider_id row) w = None then Inl (ValueError ''Provider not found.'')
      else
       (let target_start = target (tou_start_datetime payload) (Some (stored_datetime ev (off_start_datetime row)));
            target_end = target (tou_end_datetime payload) (Some (stored_datetime ev (off_end_datetime row))) in
        case validate_datetimes target_start target_end of
          Inl e \<Rightarrow> Inl e
        | Inr (start_datetime, end_datetime) \<Rightarrow>
           (let updated = row\<lparr>off_start_datetime := start_datetime, off_end_datetime := end_datetime,
                              off_reason := target (tou_reason payload) (off_reason row)\<rparr> in
            case time_off_update updated w of
              Inl e \<Rightarrow> Inl e
            | Inr w' \<Rightarrow> Inr (updated, w'))))"

section \<open>The overlap queries guard their tables\<close>

interpretation availability_guard: guarded_repository av_id availabilities availability_get
  availability_create availability_update
  "\<lambda>a. (av_provider_id a, av_weekday a)" av_start_time av_end_time av_is_active
  "\<lambda>w g a b ex. availability_has_overlap (fst g) (snd g) a b ex w"
  by unfold_locales (force simp: availability_has_overlap_def not_less)

text \<open>Only the available overrides with both times take part in the overlap check.\<close>

definition working_override :: "date_override \<Rightarrow> bool" where
  "working_override r \<longleftrightarrow> ov_is_active r \<and> ov_is_available r \<and> ov_start_time r \<noteq> None \<and> ov_end_time r \<noteq> None"

definition ov_lo :: "date_override \<Rightarrow> int" where
  "ov_lo r = (case ov_start_time r of None \<Rightarrow> 0 | Some t \<Rightarrow> t)"

definition ov_hi :: "date_override \<Rightarrow> int" where
  "ov_hi r = (case ov_end_time r of None \<Rightarrow> 0 | Some t \<Rightarrow> t)"

interpretation override_guard: guarded_repository ov_id date_overrides date_override_get
  date_override_create date_override_update
  "\<lambda>r. (ov_provider_id r, ov_override_date r)" ov_lo ov_hi working_override
  "\<lambda>w g a b ex. date_override_has_overlap (fst g) (snd g) a b ex w"
  by unfold_locales (force simp: date_override_has_overlap_def working_override_def ov_lo_def ov_hi_def not_less)

abbreviation availability_disjoint :: "world \<Rightarrow> bool" where
  "availability_disjoint w \<equiv>
     no_overlap av_id (\<lambda>a. (av_provider_id a, av_weekday a)) av_start_time av_end_time av_is_active (availabilities w)"

abbreviation override_disjoint :: "world \<Rightarrow> bool" where
  "override_disjoint w \<equiv>
     no_overlap ov_id (\<lambda>r. (ov_provider_id r, ov_override_date r)) ov_lo ov_hi working_override (date_overrides w)"

lemma availability_create_row: "availability_create r w = Inr (r', w') \<Longrightarrow> \<exists>i. r' = r\<lparr>av_id := i\<rparr>"
  by (auto simp: availability_create_def dest!: db_insert_row)

lemma date_override_create_row: "date_override_create r w = Inr (r', w') \<Longrightarrow> \<exists>i. r' = r\<lparr>ov_id := i\<rparr>"
  by (auto simp: date_override_create_def dest!: db_insert_row)

lemma time_off_create_row: "time_off_create r w = Inr (r', w') \<Longrightarrow> \<exists>i. r' = r\<lparr>off_id := i\<rparr>"
  by (auto simp: time_off_create_def dest!: db_insert_row)

lemma create_availability_disjoint:
  assumes "create_availability p w = Inr (r, w')" and "availability_disjoint w"
  shows "availability_disjoint w'"
proof -
  let ?r = "\<lparr>av_id = 0, av_provider_id = avc_provider_id p, av_weekday = avc_weekday p,
              av_start_time = avc_start_time p, av_end_time = avc_end_time p,
              av_is_active = avc_is_active p\<rparr>"
  have c: "availability_create ?r w = Inr (r, w')"
    and ok: "avc_is_active p \<Longrightarrow> \<not> availability_has_overlap (avc_provider_id p) (avc_weekday p)
                (avc_start_time p) (avc_end_time p) None w"
    using assms(1) by (auto simp: create_availability_def split: if_splits)
  from availability_create_row [OF c] obtain i where "r = ?r\<lparr>av_id := i\<rparr>" ..
  with ok show ?thesis
    by (intro availability_guard.create_no_overlap [OF assms(2) c]) simp
qed

lemma update_availability_disjoint:
  assumes "update_availability i p w = Inr (r, w')" and "availability_disjoint w"
  shows "availability_disjoint w'"
proof -
  obtain a where a: "availability_get i w = Some a"
    using assms(1) by (auto simp: update_availability_def split: option.splits)
  have u: "availability_update r w = Inr w'" and "av_id r = av_id a" "av_provider_id r = av_provider_id a"
    and "av_is_active r \<Longrightarrow> \<not> availability_has_overlap (av_provider_id a) (av_weekday r)
                (av_start_time r) (av_end_time r) (Some (av_id a)) w"
    using assms(1) a by (auto simp: update_availability_def truthy_def Let_def split: option.splits if_splits)
  then show ?thesis
    by (intro availability_guard.update_no_overlap [OF assms(2) u]) simp
qed

lemma availability_delete_disjoint: "availability_disjoint w \<Longrightarrow> availability_disjoint (availability_delete r w)"
  by (simp add: availability_delete_def no_overlap_del)

section \<open>Date overrides: one plan for each day\<close>

text \<open>
  An active day off excludes every other active override of its provider and date, and the
  active working windows of a date are disjoint.
\<close>

definition exclusive_day_off :: "date_override list \<Rightarrow> bool" where
  "exclusive_day_off t \<longleftrightarrow>
     (\<forall>x \<in> set t. \<forall>y \<in> set t. ov_id x \<noteq> ov_id y \<and> ov_provider_id x = ov_provider_id y \<and>
        ov_override_date x = ov_override_date y \<and> ov_is_active x \<and> ov_is_active y \<longrightarrow>
        ov_is_available x \<and> ov_is_available y)"

lemma validate_override_payload_ok:
  assumes "validate_override_payload p (Some d) (Some av) s e (Some ac) ex w = Inr ()"
    and "ac" and "x \<in> set (date_overrides w)" and "ov_provider_id x = p" and "ov_override_date x = d"
    and "ov_is_active x" and "ex \<noteq> Some (ov_id x)"
  shows "av \<and> ov_is_available x"
  using assms
  by (auto simp: validate_override_payload_def truthy_def on_date_def
      date_override_has_active_unavailable_day_def date_override_has_active_available_windows_def
      split: if_splits option.splits)

lemma validate_override_payload_disjoint:
  assumes "validate_override_payload p (Some d) (Some av) s e (Some ac) ex w = Inr ()"
    and "ac" "av" "s = Some s'" "e = Some e'"
  shows "\<not> date_override_has_overlap p d s' e' ex w"
  using assms by (auto simp: validate_override_payload_def truthy_def on_date_def split: if_splits)

lemma exclusive_day_off_append:
  assumes "exclusive_day_off t"
    and "\<And>x. \<lbrakk>x \<in> set t; ov_provider_id x = ov_provider_id r; ov_override_date x = ov_override_date r;
           ov_is_active x; ov_is_active r\<rbrakk> \<Longrightarrow> ov_is_available r \<and> ov_is_available x"
  shows "exclusive_day_off (t @ [r])"
  using assms unfolding exclusive_day_off_def by auto

lemma exclusive_day_off_set:
  assumes "exclusive_day_off t"
    and "\<And>x. \<lbrakk>x \<in> set t; ov_id x \<noteq> ov_id r; ov_provider_id x = ov_provider_id r;
           ov_override_date x = ov_override_date r; ov_is_active x; ov_is_active r\<rbrakk>
           \<Longrightarrow> ov_is_available r \<and> ov_is_available x"
  shows "exclusive_day_off (tbl_set ov_id r t)"
  using assms unfolding exclusive_day_off_def by (auto dest!: in_tbl_set)

lemma create_override_consistent:
  assumes "create_override p w = Inr (r, w')" and "override_disjoint w" and "exclusive_day_off (date_overrides w)"
  shows "override_disjoint w' \<and> exclusive_day_off (date_overrides w')"
proof -
  let ?r = "\<lparr>ov_id = 0, ov_provider_id = ovc_provider_id p, ov_override_date = ovc_override_date p,
             ov_start_time = ovc_start_time p, ov_end_time = ovc_end_time p,
             ov_is_available = ovc_is_available p, ov_is_active = ovc_is_active p\<rparr>"
  have c: "date_override_create ?r w = Inr (r, w')"
    and v: "validate_override_payload (ovc_provider_id p) (Some (ovc_override_date p))
                  (Some (ovc_is_available p)) (ovc_start_time p) (ovc_end_time p)
                  (Some (ovc_is_active p)) None w = Inr ()"
    using assms(1) by (auto simp: create_override_def split: if_splits)
  from date_override_create_row [OF c] obtain i where r: "r = ?r\<lparr>ov_id := i\<rparr>" ..
  have "override_disjoint w'"
    using validate_override_payload_disjoint [OF v] r
    by (intro override_guard.create_no_overlap [OF assms(2) c])
      (auto simp: working_override_def ov_lo_def ov_hi_def)
  moreover have "exclusive_day_off (date_overrides w @ [r])"
    using validate_override_payload_ok [OF v] r
    by (intro exclusive_day_off_append [OF assms(3)]) auto
  moreover have "date_overrides w' = date_overrides w @ [r]"
    using date_override_repo.create_rows [OF c] by simp
  ultimately show ?thesis by simp
qed

lemma update_override_consistent:
  assumes "update_override i p w = Inr (r, w')" and "override_disjoint w" and "exclusive_day_off (date_overrides w)"
  shows "override_disjoint w' \<and> exclusive_day_off (date_overrides w')"
proof -
  obtain a where a: "date_override_get i w = Some a"
    using assms(1) by (auto simp: update_override_def split: option.splits)
  have u: "date_override_update r w = Inr w'" and "ov_id r = ov_id a" and "ov_provider_id r = ov_provider_id a"
    and v: "validate_override_payload (ov_provider_id a) (Some (ov_override_date r)) (Some (ov_is_available r))
         (ov_start_time r) (ov_end_time r) (Some (ov_is_active r)) (Some (ov_id a)) w = Inr ()"
    using assms(1) a by (auto simp: update_override_def Let_def split: option.splits if_splits)
  have "override_disjoint w'"
    using validate_override_payload_disjoint [OF v] \<open>ov_id r = ov_id a\<close> \<open>ov_provider_id r = ov_provider_id a\<close>
    by (intro override_guard.update_no_overlap [OF assms(2) u])
      (auto simp: working_override_def ov_lo_def ov_hi_def)
  moreover have "exclusive_day_off (tbl_set ov_id r (date_overrides w))"
    using validate_override_payload_ok [OF v] \<open>ov_id r = ov_id a\<close> \<open>ov_provider_id r = ov_provider_id a\<close>
    by (intro exclusive_day_off_set [OF assms(3)]) auto
  ultimately show ?thesis
    using date_override_repo.update_rows [OF u] by simp
qed

lemma date_override_delete_consistent:
  "override_disjoint w \<Longrightarrow> exclusive_day_off (date_overrides w) \<Longrightarrow>
     override_disjoint (date_override_delete r w) \<and> exclusive_day_off (date_overrides (date_override_delete r w))"
  by (auto simp: date_override_delete_def no_overlap_del exclusive_day_off_def table_simps)

section \<open>Every history of administration keeps the schedules consistent\<close>

text \<open>An override that is available has a window that starts before it ends, a day off has none.\<close>

definition proper_window :: "date_override \<Rightarrow> bool" where
  "proper_window r \<longleftrightarrow>
     (if ov_is_available r then \<exists>s e. ov_start_time r = Some s \<and> ov_end_time r = Some e \<and> s < e
      else ov_start_time r = None \<and> ov_end_time r = None)"

lemma validate_override_payload_window:
  assumes "validate_override_payload (ov_provider_id r) (Some (ov_override_date r)) (Some (ov_is_available r))
    (ov_start_time r) (ov_end_time r) (Some (ov_is_active r)) ex w = Inr ()"
  shows "proper_window r"
  using assms
  by (auto simp: validate_override_payload_def truthy_def proper_window_def split: if_splits option.splits)

text \<open>A request for a window that is not proper, which the service turns down itself.\<close>

definition improper_request :: "override_create_payload \<Rightarrow> bool" where
  "improper_request p \<longleftrightarrow>
     ovc_is_available p \<and> \<not> (\<exists>s e. ovc_start_time p = Some s \<and> ovc_end_time p = Some e \<and> s < e)"

lemma improper_request_refused: "improper_request p \<Longrightarrow> \<exists>m. create_override p w = Inl (ValueError m)"
  by (auto simp: improper_request_def create_override_def validate_override_payload_def truthy_def not_less
      split: option.split)

definition proper_intervals :: "world \<Rightarrow> bool" where
  "proper_intervals w \<longleftrightarrow>
     (\<forall>a \<in> set (availabilities w). av_start_time a < av_end_time a) \<and>
     (\<forall>r \<in> set (date_overrides w). proper_window r) \<and>
     (\<forall>t \<in> set (time_offs w). off_start_datetime t < off_end_datetime t)"

definition schedule_consistent :: "world \<Rightarrow> bool" where
  "schedule_consistent w \<longleftrightarrow>
     availability_disjoint w \<and> override_disjoint w \<and> exclusive_day_off (date_overrides w) \<and> proper_intervals w"

inductive schedule_step :: "env \<Rightarrow> world \<Rightarrow> world \<Rightarrow> bool" for ev where
  create_availability: "create_availability p w = Inr (a, w') \<Longrightarrow> schedule_step ev w w'"
| update_availability: "update_availability i u w = Inr (a, w') \<Longrightarrow> schedule_step ev w w'"
| delete_availability: "availability_get i w = Some a \<Longrightarrow> schedule_step ev w (availability_delete a w)"
| create_override: "create_override op w = Inr (r, w') \<Longrightarrow> schedule_step ev w w'"
| update_override: "update_override i ou w = Inr (r, w') \<Longrightarrow> schedule_step ev w w'"
| delete_override: "date_override_get i w = Some r \<Longrightarrow> schedule_step ev w (date_override_delete r w)"
| create_time_off: "create_time_off tp w = Inr (t, w') \<Longrightarrow> schedule_step ev w w'"
| update_time_off: "update_time_off ev i tu w = Inr (t, w') \<Longrightarrow> schedule_step ev w w'"
| delete_time_off: "time_off_get i w = Some t \<Longrightarrow> schedule_step ev w (time_off_delete t w)"

lemma create_availability_effect:
  assumes "create_availability p w = Inr (a, w')"
  shows "w' = w\<lparr>availabilities := availabilities w @ [a]\<rparr> \<and> av_start_time a < av_end_time a"
  using assms
  by (auto simp: create_availability_def availability_create_def db_insert_def Let_def split: if_splits option.splits)

lemma update_availability_effect:
  assumes "update_availability i u w = Inr (a, w')"
  shows "w' = w\<lparr>availabilities := tbl_set av_id a (availabilities w)\<rparr> \<and> av_start_time a < av_end_time a"
  using assms
  by (auto simp: update_availability_def availability_update_def db_update_def Let_def
      split: if_splits option.splits)

lemma create_override_effect:
  "create_override p w = Inr (r, w') \<Longrightarrow> w' = w\<lparr>date_overrides := date_overrides w @ [r]\<rparr> \<and> proper_window r"
  by (auto simp: create_override_def date_override_create_def db_insert_def Let_def split: if_splits option.splits
      intro!: validate_override_payload_window)

lemma update_override_effect:
  "update_override i p w = Inr (r, w') \<Longrightarrow>
     w' = w\<lparr>date_overrides := tbl_set ov_id r (date_overrides w)\<rparr> \<and> proper_window r"
  by (auto simp: update_override_def date_override_update_def db_update_def Let_def split: if_splits option.splits
      intro!: validate_override_payload_window)

lemma create_time_off_effect:
  "create_time_off p w = Inr (t, w') \<Longrightarrow>
     w' = w\<lparr>time_offs := time_offs w @ [t]\<rparr> \<and> off_start_datetime t < off_end_datetime t"
  by (auto simp: create_time_off_def time_off_create_def db_insert_def time_off_violates_def Let_def
      split: if_splits option.splits)

lemma update_time_off_effect:
  "update_time_off ev i u w = Inr (t, w') \<Longrightarrow>
     w' = w\<lparr>time_offs := tbl_set off_id t (time_offs w)\<rparr> \<and> off_start_datetime t < off_end_datetime t"
  by (auto simp: update_time_off_def time_off_update_def db_update_def time_off_violates_def Let_def
      split: if_splits option.splits)

lemma schedule_step_consistent:
  "schedule_step ev w w' \<Longrightarrow> schedule_consistent w \<Longrightarrow> schedule_consistent w'"
proof (induction rule: schedule_step.induct)
  case (create_availability p w a w')
  then show ?case
    using create_availability_disjoint [of p w a w'] create_availability_effect [of p w a w']
    by (auto simp: schedule_consistent_def proper_intervals_def)
next
  case (update_availability i u w a w')
  then show ?case
    using update_availability_disjoint [of i u w a w'] update_availability_effect [of i u w a w']
    by (auto simp: schedule_consistent_def proper_intervals_def dest!: in_tbl_set)
next
  case (delete_availability i w a)
  then show ?case
    using availability_delete_disjoint [of w a]
    by (auto simp: schedule_consistent_def proper_intervals_def availability_delete_def table_simps)
next
  case (create_override op w r w')
  then show ?case
    using create_override_consistent [of op w r w'] create_override_effect [of op w r w']
    by (auto simp: schedule_consistent_def proper_intervals_def)
next
  case (update_override i ou w r w')
  then show ?case
    using update_override_consistent [of i ou w r w'] update_override_effect [of i ou w r w']
    by (auto simp: schedule_consistent_def proper_intervals_def dest!: in_tbl_set)
next
  case (delete_override i w r)
  then show ?case
    using date_override_delete_consistent [of w r]
    by (auto simp: schedule_consistent_def proper_intervals_def date_override_delete_def table_simps)
next
  case (create_time_off tp w t w')
  then show ?case
    using create_time_off_effect [of tp w t w'] by (auto simp: schedule_consistent_def proper_intervals_def)
next
  case (update_time_off i tu w t w')
  then show ?case
    using update_time_off_effect [of ev i tu w t w']
    by (auto simp: schedule_consistent_def proper_intervals_def dest!: in_tbl_set)
next
  case (delete_time_off i w t)
  then show ?case
    by (auto simp: schedule_consistent_def proper_intervals_def time_off_delete_def table_simps)
qed

section \<open>Properties\<close>

text \<open>
  C32. No history of creating, changing and deleting availability blocks, date overrides and time
  off ever makes a schedule ambiguous: the active weekly blocks of a provider stay disjoint on
  each weekday, so do the active working windows of each overridden date, an active day off
  stays the only active override of its date, and every interval (weekly block, window of an available
  override, time off) starts before it ends.  In particular the service itself turns down
  every request for an available override without a window that starts before it ends.
\<close>

theorem schedules_stay_consistent:
  assumes "(schedule_step ev)\<^sup>*\<^sup>* w w'" and "schedule_consistent w"
  shows "schedule_consistent w' \<and> (\<forall>p. improper_request p \<longrightarrow> (\<exists>m. create_override p w' = Inl (ValueError m)))"
proof -
  have "schedule_consistent w'"
    using assms by (induction rule: rtranclp_induct) (auto intro: schedule_step_consistent)
  then show ?thesis using improper_request_refused by blast
qed

definition sample_block :: availability_create_payload where
  "sample_block = \<lparr>avc_provider_id = 1, avc_weekday = 3, avc_start_time = 14 * hour_us,
                   avc_end_time = 18 * hour_us, avc_is_active = True\<rparr>"

definition sample_backwards :: override_create_payload where
  "sample_backwards = \<lparr>ovc_provider_id = 1, ovc_override_date = 0, ovc_start_time = Some (18 * hour_us),
     ovc_end_time = Some (9 * hour_us), ovc_is_available = True, ovc_is_active = True\<rparr>"

theorem schedules_stay_consistent_witness:
  "\<exists>a w'. create_availability sample_block sample_world = Inr (a, w') \<and> schedule_consistent w' \<and>
     (\<exists>m. create_override sample_backwards w' = Inl (ValueError m))"
proof -
  have "\<exists>a w'. create_availability sample_block sample_world = Inr (a, w')"
    by (simp add: create_availability_def sample_block_def sample_defs provider_get_def tbl_get_def
        availability_has_overlap_def availability_create_def db_insert_def availability_violates_def
        duration_defs Let_def)
  then obtain a w' where c: "create_availability sample_block sample_world = Inr (a, w')" by blast
  have "schedule_consistent sample_world"
    by (simp add: schedule_consistent_def no_overlap_def exclusive_day_off_def proper_intervals_def
        sample_defs duration_defs)
  moreover have "improper_request sample_backwards"
    by (simp add: improper_request_def sample_backwards_def duration_defs)
  ultimately show ?thesis
    using c schedules_stay_consistent [OF r_into_rtranclp [where r = "schedule_step sample_env"]]
      schedule_step.create_availability by blast
qed

text \<open>
  An overlapping weekly block is refused and nothing else is: for a known provider, a proper
  interval within the week and a window that no inactive block already has, creating an active
  block succeeds exactly when no active block of the provider and weekday meets it.
\<close>

theorem create_availability_succeeds_iff:
  assumes "provider_get (avc_provider_id p) w \<noteq> None" and "avc_start_time p < avc_end_time p"
    and "0 \<le> avc_weekday p" "avc_weekday p \<le> 6" and "avc_is_active p"
    and "\<forall>a \<in> set (availabilities w). \<not> av_is_active a \<longrightarrow>
           (av_provider_id a, av_weekday a, av_start_time a, av_end_time a) \<noteq>
             (avc_provider_id p, avc_weekday p, avc_start_time p, avc_end_time p)"
  shows "(\<exists>r. create_availability p w = Inr r) \<longleftrightarrow>
    (\<forall>a \<in> set (availabilities w).
       av_provider_id a = avc_provider_id p \<and> av_weekday a = avc_weekday p \<and> av_is_active a \<longrightarrow>
       \<not> overlaps (avc_start_time p) (avc_end_time p) (av_start_time a) (av_end_time a))"
    (is "?created \<longleftrightarrow> ?free")
proof
  assume ?created
  then show ?free
    using assms by (auto simp: create_availability_def availability_has_overlap_def overlaps_def split: if_splits)
next
  assume free: ?free
  then have no: "\<not> availability_has_overlap (avc_provider_id p) (avc_weekday p) (avc_start_time p) (avc_end_time p) None w"
    by (auto simp: availability_has_overlap_def overlaps_def)
  have "\<not> (av_provider_id a = avc_provider_id p \<and> av_weekday a = avc_weekday p \<and>
      av_start_time a = avc_start_time p \<and> av_end_time a = avc_end_time p)" if "a \<in> set (availabilities w)" for a
    using that free assms(2,6) by (cases "av_is_active a") (auto simp: overlaps_def)
  with no assms(1-5) show ?created
    by (auto simp: create_availability_def availability_create_def db_insert_def availability_violates_def Let_def)
qed

theorem create_availability_succeeds_iff_witness:
  "(\<exists>r. create_availability sample_block sample_world = Inr r) \<longleftrightarrow>
    (\<forall>a \<in> set (availabilities sample_world). av_provider_id a = 1 \<and> av_weekday a = 3 \<and> av_is_active a \<longrightarrow>
       \<not> overlaps (14 * hour_us) (18 * hour_us) (av_start_time a) (av_end_time a))"
  using create_availability_succeeds_iff [of sample_block sample_world]
  by (simp add: sample_block_def sample_defs provider_get_def tbl_get_def duration_defs)

end
