(* ===== verification/Appointments.thy ===== *)
theory Appointments
  imports Schedule_Admin Payouts
begin

text \<open>
  \<^verbatim>\<open>services/appointment_service.py\<close>: booking, cancelling and rescheduling an appointment.
  Booking and rescheduling are one transaction and may, through the slot search, not return;
  their value is \<^verbatim>\<open>None\<close> then.  Cancelling commits before the refund is tried, and a failing
  refund is swallowed.
\<close>

definition RESCHEDULABLE_STATUSES :: "appointment_status list" where
  "RESCHEDULABLE_STATUSES = [APT_PENDING, APT_PENDING_PAYMENT, APT_CONFIRMED]"

definition is_overlap_constraint_error :: "string \<Rightarrow> bool" where
  "is_overlap_constraint_error message = contains ''ex_appointments_provider_no_overlap'' (lower message)"

text \<open>The handlers around the transaction: an exclusion violation becomes a booking conflict.\<close>

definition booking_error :: "exn \<Rightarrow> exn" where
  "booking_error e =
     (case e of
        IntegrityError message \<Rightarrow>
          if is_overlap_constraint_error message
          then ValueError ''Provider already has an overlapping appointment.'' else e
      | _ \<Rightarrow> e)"

record appointment_create_payload =
  apc_organization_id :: "int option"
  apc_location_id :: int
  apc_provider_id :: int
  apc_service_id :: "int option"
  apc_customer_id :: int
  apc_start_datetime :: py_datetime
  apc_status :: appointment_status
  apc_booking_channel :: booking_channel
  apc_notes :: "string option"

definition assert_slot_is_available ::
  "env \<Rightarrow> int \<Rightarrow> int \<Rightarrow> instant \<Rightarrow> instant \<Rightarrow> int option \<Rightarrow> world \<Rightarrow> unit result option" where
  "assert_slot_is_available ev provider_id location_id start_datetime end_datetime service_id w =
     (case provider_get provider_id w of
        None \<Rightarrow> Some (Inl (ValueError ''Provider not found.''))
      | Some provider \<Rightarrow>
      case provider_timezone provider w of
        Inl e \<Rightarrow> Some (Inl e)
      | Inr timezone_name \<Rightarrow>
      case zone_info (zone_table ev) timezone_name of
        Inl e \<Rightarrow> Some (Inl e)
      | Inr z \<Rightarrow>
       (let slot_date = local_date z start_datetime in
        case get_available_slots ev provider_id location_id slot_date slot_date service_id w of
          None \<Rightarrow> None
        | Some (Inl e) \<Rightarrow> Some (Inl e)
        | Some (Inr slots) \<Rightarrow>
            if \<exists>x \<in> set slots. slot_start_datetime x = start_datetime \<and> slot_end_datetime x = end_datetime
            then Some (Inr ())
            else Some (Inl (ValueError ''Requested time does not fit provider availability.''))))"

definition opt_int_json :: "int option \<Rightarrow> json" where
  "opt_int_json v = (case v of None \<Rightarrow> JNull | Some n \<Rightarrow> JInt n)"

definition booking_event :: "string \<Rightarrow> string \<Rightarrow> int option \<Rightarrow> appointment \<Rightarrow> (string \<times> json) list \<Rightarrow> domain_event" where
  "booking_event event_type actor_type actor_id a payload =
     (event_defaults event_type)
       \<lparr>ev_entity_type := Some ''appointment'', ev_entity_id := Some (apt_id a),
        ev_organization_id := Some (apt_organization_id a), ev_actor_type := actor_type, ev_actor_id := actor_id,
        ev_related_appointment_id := Some (apt_id a), ev_status := ''success'',
        ev_payload_json := JObj ([(''provider_id'', JInt (apt_provider_id a)),
          (''customer_id'', JInt (apt_customer_id a)), (''service_id'', opt_int_json (apt_service_id a))] @ payload)\<rparr>"

text \<open>
  The two checks of a booking, in the order of the code: the conflict check and the slot check.
  They yield the end of the appointment.
\<close>

definition check_booking_time ::
  "env \<Rightarrow> int \<Rightarrow> int \<Rightarrow> int option \<Rightarrow> instant \<Rightarrow> int option \<Rightarrow> world \<Rightarrow> instant result option" where
  "check_booking_time ev provider_id location_id service_id start_datetime exclude_appointment_id w =
     (case resolve_service_timing provider_id location_id service_id True True w of
        Inl e \<Rightarrow> Some (Inl e)
      | Inr timing \<Rightarrow>
       (let end_datetime = start_datetime + visible_duration_minutes timing * minute_us;
            (blocked_start, blocked_end) =
              compute_blocked_interval start_datetime end_datetime
                (buffer_before_minutes timing) (buffer_after_minutes timing) in
        if has_blocked_overlap provider_id blocked_start blocked_end exclude_appointment_id w
        then Some (Inl (ValueError ''Provider already has an overlapping appointment.''))
        else case assert_slot_is_available ev provider_id location_id start_datetime end_datetime service_id w of
          None \<Rightarrow> None
        | Some (Inl e) \<Rightarrow> Some (Inl e)
        | Some (Inr _) \<Rightarrow> Some (Inr end_datetime)))"

text \<open>The checks of the entities a booking names; they yield the provider's organization.\<close>

definition check_booking_entities :: "appointment_create_payload \<Rightarrow> world \<Rightarrow> int result" where
  "check_booking_entities payload w =
     (case provider_get (apc_provider_id payload) w of
        None \<Rightarrow> Inl (ValueError ''Provider not found or inactive.'')
      | Some provider \<Rightarrow>
      if \<not> prov_is_active provider then Inl (ValueError ''Provider not found or inactive.'')
      else if apc_status payload \<notin> set RESCHEDULABLE_STATUSES
      then Inl (ValueError ''New appointments must be pending or confirmed.'')
      else
       (let organization_id = prov_organization_id provider in
        if apc_organization_id payload \<noteq> None \<and> apc_organization_id payload \<noteq> Some organization_id
        then Inl (ValueError ''organization_id does not match provider organization.'')
        else case organization_get organization_id w of
          None \<Rightarrow> Inl (ValueError ''Organization not found or inactive.'')
        | Some organization \<Rightarrow>
        if \<not> org_is_active organization then Inl (ValueError ''Organization not found or inactive.'')
        else case location_get (apc_location_id payload) w of
          None \<Rightarrow> Inl (ValueError ''Location not found or inactive.'')
        | Some location \<Rightarrow>
        if \<not> loc_is_active location then Inl (ValueError ''Location not found or inactive.'')
        else if loc_organization_id location \<noteq> organization_id
        then Inl (ValueError ''Provider and location organization mismatch.'')
        else if provider_location_get (prov_id provider) (loc_id location) w = None
        then Inl (ValueError ''Provider is not assigned to the selected location.'')
        else if customer_get (apc_customer_id payload) w = None then Inl (ValueError ''Customer not found.'')
        else case apc_service_id payload of
          None \<Rightarrow> Inr organization_id
        | Some service_id \<Rightarrow>
        case service_get service_id w of
          None \<Rightarrow> Inl (ValueError ''Service not found or inactive.'')
        | Some service \<Rightarrow>
        if \<not> svc_is_active service then Inl (ValueError ''Service not found or inactive.'')
        else if svc_organization_id service \<noteq> organization_id
        then Inl (ValueError ''Service and provider organization mismatch.'')
        else if service_location_get (svc_id service) (loc_id location) w = None
        then Inl (ValueError ''Service is not available at the selected location.'')
        else Inr organization_id))"

definition create_appointment ::
  "env \<Rightarrow> appointment_create_payload \<Rightarrow> string \<Rightarrow> int option \<Rightarrow> world \<Rightarrow> (appointment \<times> world) result option" where
  "create_appointment ev payload actor_type actor_id w =
     (case ensure_aware_utc (apc_start_datetime payload) of
        Inl e \<Rightarrow> Some (Inl e)
      | Inr start_datetime \<Rightarrow>
      case check_booking_entities payload w of
        Inl e \<Rightarrow> Some (Inl (booking_error e))
      | Inr organization_id \<Rightarrow>
      case check_booking_time ev (apc_provider_id payload) (apc_location_id payload) (apc_service_id payload)
             start_datetime None w of
        None \<Rightarrow> None
      | Some (Inl e) \<Rightarrow> Some (Inl (booking_error e))
      | Some (Inr end_datetime) \<Rightarrow>
      case appointment_create ev
             \<lparr>apt_id = 0, apt_booking_reference = [], apt_booking_access_token = [],
              apt_organization_id = organization_id, apt_location_id = apc_location_id payload,
              apt_provider_id = apc_provider_id payload, apt_service_id = apc_service_id payload,
              apt_customer_id = apc_customer_id payload, apt_start_datetime = start_datetime,
              apt_end_datetime = end_datetime, apt_status = apc_status payload,
              apt_booking_channel = apc_booking_channel payload, apt_notes = apc_notes payload\<rparr> w of
        Inl e \<Rightarrow> Some (Inl (booking_error e))
      | Inr (a, w') \<Rightarrow>
        Some (Inr (a,
          record_event ev
            (booking_event ''booking_created'' actor_type actor_id a
               [(''location_id'', JInt (apt_location_id a)),
                (''booking_channel'', JStr (booking_channel_value (apt_booking_channel a)))])
            (increment_counter ''bookings_created_total''
              (enqueue ev TASK_APPOINTMENT_CREATED (apt_id a) w')))))"

definition cancel_appointment ::
  "env \<Rightarrow> int \<Rightarrow> string option \<Rightarrow> string \<Rightarrow> int option \<Rightarrow> world \<Rightarrow> (exn + appointment) \<times> world" where
  "cancel_appointment ev appointment_id notes actor_type actor_id w =
     (case appointment_get appointment_id w of
        None \<Rightarrow> (Inl (ValueError ''Appointment not found.''), w)
      | Some appointment \<Rightarrow>
      if provider_get (apt_provider_id appointment) w = None then (Inl (ValueError ''Provider not found.''), w)
      else if apt_status appointment = APT_CANCELLED then (Inr appointment, w)
      else if apt_status appointment \<in> {APT_COMPLETED, APT_NO_SHOW}
      then (Inl (ValueError ''Completed or no-show appointments cannot be cancelled.''), w)
      else
       (let merged_notes = or_else notes (apt_notes appointment);
            updated = appointment\<lparr>apt_status := APT_CANCELLED, apt_notes := merged_notes\<rparr> in
        case appointment_update ev updated w of
          Inl e \<Rightarrow> (Inl e, w)
        | Inr w1 \<Rightarrow>
         (let w2 = record_event ev
                     (booking_event ''booking_canceled'' actor_type actor_id updated
                        [(''notes'', JBool (or_else (apt_notes updated) None \<noteq> None))])
                     (increment_counter ''bookings_canceled_total''
                       (enqueue ev TASK_APPOINTMENT_CANCELLED (apt_id updated) w1)) in
          (Inr updated, snd (process_refund_for_cancellation ev updated w2)))))"

definition reschedule_appointment ::
  "env \<Rightarrow> int \<Rightarrow> py_datetime \<Rightarrow> string \<Rightarrow> int option \<Rightarrow> world \<Rightarrow> (appointment \<times> world) result option" where
  "reschedule_appointment ev appointment_id new_start_datetime actor_type actor_id w =
     (case ensure_aware_utc new_start_datetime of
        Inl e \<Rightarrow> Some (Inl e)
      | Inr start_datetime \<Rightarrow>
      case appointment_get appointment_id w of
        None \<Rightarrow> Some (Inl (ValueError ''Appointment not found.''))
      | Some appointment \<Rightarrow>
      if apt_status appointment \<notin> set RESCHEDULABLE_STATUSES
      then Some (Inl (ValueError ''Only pending or confirmed appointments can be rescheduled.''))
      else case provider_get (apt_provider_id appointment) w of
        None \<Rightarrow> Some (Inl (ValueError ''Provider not found or inactive.''))
      | Some provider \<Rightarrow>
      if \<not> prov_is_active provider then Some (Inl (ValueError ''Provider not found or inactive.''))
      else case check_booking_time ev (apt_provider_id appointment) (apt_location_id appointment)
                  (apt_service_id appointment) start_datetime (Some (apt_id appointment)) w of
        None \<Rightarrow> None
      | Some (Inl e) \<Rightarrow> Some (Inl (booking_error e))
      | Some (Inr end_datetime) \<Rightarrow>
       (let updated = appointment\<lparr>apt_start_datetime := start_datetime, apt_end_datetime := end_datetime\<rparr> in
        case appointment_update ev updated w of
          Inl e \<Rightarrow> Some (Inl (booking_error e))
        | Inr w' \<Rightarrow>
          Some (Inr (updated,
            record_event ev
              (booking_event ''booking_rescheduled'' actor_type actor_id updated
                 [(''new_start_datetime'', JStr (isoformat_utc start_datetime)),
                  (''new_end_datetime'', JStr (isoformat_utc end_datetime))])
              (increment_counter ''bookings_rescheduled_total''
                (enqueue ev TASK_APPOINTMENT_RESCHEDULED (apt_id updated) w'))))))"

section \<open>The overlap check guards the appointments\<close>

lemma relevant_mono:
  assumes "a \<in> set (list_relevant_blocking_appointments p s e ex w)" and "s' \<le> s" "e \<le> e'"
  shows "a \<in> set (list_relevant_blocking_appointments p s' e' ex w)"
proof -
  obtain b f where m: "max_provider_buffers p w = (b, f)" by fastforce
  show ?thesis
    using assms by (auto simp: list_relevant_blocking_appointments_def appointment_list_blocking_for_provider_def m)
qed

lemma has_blocked_overlap_mono:
  assumes "tbl_ok svc_id (services w)" and "has_blocked_overlap p s e ex w" and "s' \<le> s" "e \<le> e'"
  shows "has_blocked_overlap p s' e' ex w"
  using assms(2-4) relevant_mono unfolding has_blocked_overlap_eq [OF assms(1)] overlaps_def
  by (meson order_le_less_trans order_less_le_trans)

definition booking_clash :: "world \<Rightarrow> int \<Rightarrow> instant \<Rightarrow> instant \<Rightarrow> int option \<Rightarrow> bool" where
  "booking_clash w p s e ex \<longleftrightarrow> \<not> catalogue_ok w \<or> has_blocked_overlap p s e ex w"

lemma booking_clash_complete:
  assumes "\<not> booking_clash w p s e ex" and "a \<in> set (appointments w)" and "is_blocking a"
    and "apt_provider_id a = p" and "ex \<noteq> Some (apt_id a)"
  shows "apt_end_datetime a \<le> s \<or> e \<le> apt_start_datetime a"
proof (rule ccontr)
  assume "\<not> ?thesis"
  then have "overlaps s e (apt_start_datetime a) (apt_end_datetime a)" by (simp add: overlaps_def not_le)
  moreover have "competes w p ex a" using assms(2-5) by (simp add: competes_def)
  ultimately show False
    using has_blocked_overlap_visible assms(1) by (auto simp: booking_clash_def)
qed

interpretation booking_guard: guarded_repository apt_id appointments appointment_get
  "appointment_create ev" "appointment_update ev" apt_provider_id apt_start_datetime apt_end_datetime is_blocking
  booking_clash for ev
  by unfold_locales (rule booking_clash_complete)

section \<open>What a booking writes\<close>

lemma appointment_create_eq:
  assumes "appointment_create ev r w = Inr (a, w')"
  shows "\<exists>i ref tok. a = r\<lparr>apt_id := i, apt_booking_reference := ref, apt_booking_access_token := tok\<rparr> \<and>
    w' = w\<lparr>appointments := appointments w @ [a]\<rparr> \<and> apt_id a \<notin> apt_id ` set (appointments w) \<and>
    apt_booking_reference a \<notin> apt_booking_reference ` set (appointments w) \<and>
    apt_booking_access_token a \<notin> apt_booking_access_token ` set (appointments w) \<and>
    apt_start_datetime a < apt_end_datetime a"
proof -
  have "apt_id a \<notin> apt_id ` set (appointments w)" using appointment_repo.create_rows [OF assms] by simp
  then show ?thesis
    using assms
    by (auto simp: appointment_create_def db_insert_def appointment_violates_def Let_def split: option.splits if_splits)
qed

lemma check_booking_time_ok:
  assumes c: "check_booking_time ev p l s start ex w = Some (Inr e)" and cat: "catalogue_ok w"
  shows "\<exists>timing. resolve_service_timing p l s True True w = Inr timing \<and>
    e = start + visible_duration_minutes timing * minute_us \<and> start < e \<and> \<not> booking_clash w p start e ex"
proof -
  from c obtain timing where t: "resolve_service_timing p l s True True w = Inr timing"
    and e: "e = start + visible_duration_minutes timing * minute_us"
    and no: "\<not> has_blocked_overlap p (start - buffer_before_minutes timing * minute_us)
        (e + buffer_after_minutes timing * minute_us) ex w"
    by (auto simp: check_booking_time_def compute_blocked_interval_def Let_def split: sum.splits if_splits option.splits)
  have tok: "timing_ok timing" by (rule resolve_service_timing_ok [OF cat t])
  have "\<not> has_blocked_overlap p start e ex w"
    using no cat tok has_blocked_overlap_mono [of w p start e ex "start - buffer_before_minutes timing * minute_us"
        "e + buffer_after_minutes timing * minute_us"]
    by (auto simp: catalogue_ok_def timing_ok_def minute_us_def)
  with t e tok cat show ?thesis by (auto simp: booking_clash_def timing_ok_def minute_us_def)
qed

lemma check_booking_time_returns:
  assumes "catalogue_ok w" shows "check_booking_time ev p l s start ex w \<noteq> None"
proof -
  have g: False if "get_available_slots ev' p' l' sd ed s' w = None" for ev' p' l' sd ed s'
    using get_available_slots_total [OF assms] that by blast
  show ?thesis
    by (auto simp: check_booking_time_def assert_slot_is_available_def Let_def split_def
        split: sum.split option.split dest: g)
qed

lemma create_appointment_Inr:
  assumes "create_appointment ev payload actor i w = Some (Inr (a, w'))" and "catalogue_ok w"
  shows "\<exists>r w1 timing. appointment_create ev r w = Inr (a, w1) \<and> business w' = business w1 \<and>
    apt_provider_id r = apc_provider_id payload \<and> apt_location_id r = apc_location_id payload \<and>
    apt_service_id r = apc_service_id payload \<and> apt_customer_id r = apc_customer_id payload \<and>
    apt_status r = apc_status payload \<and> is_blocking r \<and>
    ensure_aware_utc (apc_start_datetime payload) = Inr (apt_start_datetime r) \<and>
    resolve_service_timing (apc_provider_id payload) (apc_location_id payload) (apc_service_id payload) True True w = Inr timing \<and>
    apt_end_datetime r = apt_start_datetime r + visible_duration_minutes timing * minute_us \<and>
    \<not> booking_clash w (apt_provider_id r) (apt_start_datetime r) (apt_end_datetime r) None \<and>
    (\<exists>org. organization_get (apt_organization_id r) w = Some org)"
proof -
  from assms(1) obtain start org_id' e r w1 where
    st: "ensure_aware_utc (apc_start_datetime payload) = Inr start"
    and en: "check_booking_entities payload w = Inr org_id'"
    and ct: "check_booking_time ev (apc_provider_id payload) (apc_location_id payload) (apc_service_id payload) start None w = Some (Inr e)"
    and cr: "appointment_create ev r w = Inr (a, w1)" and b: "business w' = business w1"
    and r: "r = \<lparr>apt_id = 0, apt_booking_reference = [], apt_booking_access_token = [],
              apt_organization_id = org_id', apt_location_id = apc_location_id payload,
              apt_provider_id = apc_provider_id payload, apt_service_id = apc_service_id payload,
              apt_customer_id = apc_customer_id payload, apt_start_datetime = start,
              apt_end_datetime = e, apt_status = apc_status payload,
              apt_booking_channel = apc_booking_channel payload, apt_notes = apc_notes payload\<rparr>"
    by (fastforce simp: create_appointment_def split: sum.splits option.splits)
  have "is_blocking r"
    using en r by (auto simp: check_booking_entities_def Let_def RESCHEDULABLE_STATUSES_def is_blocking_iff
        split: option.splits if_splits)
  moreover have "\<exists>org. organization_get org_id' w = Some org"
    using en by (auto simp: check_booking_entities_def Let_def split: option.splits if_splits)
  moreover from check_booking_time_ok [OF ct assms(2)] obtain timing where
    "resolve_service_timing (apc_provider_id payload) (apc_location_id payload) (apc_service_id payload) True True w = Inr timing"
    "e = start + visible_duration_minutes timing * minute_us"
    "\<not> booking_clash w (apc_provider_id payload) start e None" by blast
  ultimately show ?thesis
    using st cr b by (intro exI [of _ r] exI [of _ w1] exI [of _ timing]) (simp add: r)
qed

lemma appointments_sound_tables: "appointments w = appointments w' \<Longrightarrow> appointments_sound w = appointments_sound w'"
  by (simp add: appointments_sound_def)

lemma create_appointment_effect:
  assumes c: "create_appointment ev payload actor i w = Some (Inr (a, w'))" and cat: "catalogue_ok w" and s: "appointments_sound w"
  shows "business w' = business (w\<lparr>appointments := appointments w @ [a]\<rparr>) \<and> appointments_sound w' \<and>
    apt_id a \<notin> apt_id ` set (appointments w) \<and> is_blocking a \<and> apt_status a = apc_status payload \<and>
    apt_provider_id a = apc_provider_id payload \<and> apt_service_id a = apc_service_id payload \<and>
    apt_customer_id a = apc_customer_id payload \<and>
    ensure_aware_utc (apc_start_datetime payload) = Inr (apt_start_datetime a) \<and>
    (\<exists>timing. resolve_service_timing (apc_provider_id payload) (apc_location_id payload) (apc_service_id payload) True True w = Inr timing \<and>
       apt_end_datetime a = apt_start_datetime a + visible_duration_minutes timing * minute_us) \<and>
    (\<exists>org. organization_get (apt_organization_id a) w = Some org)"
proof -
  from create_appointment_Inr [OF c cat] obtain r w1 timing where
    cr: "appointment_create ev r w = Inr (a, w1)" and b: "business w' = business w1"
    and r: "apt_provider_id r = apc_provider_id payload" "apt_service_id r = apc_service_id payload"
      "apt_customer_id r = apc_customer_id payload" "apt_status r = apc_status payload" "is_blocking r"
      "ensure_aware_utc (apc_start_datetime payload) = Inr (apt_start_datetime r)"
    and t: "resolve_service_timing (apc_provider_id payload) (apc_location_id payload) (apc_service_id payload) True True w = Inr timing"
      "apt_end_datetime r = apt_start_datetime r + visible_duration_minutes timing * minute_us"
    and no: "\<not> booking_clash w (apt_provider_id r) (apt_start_datetime r) (apt_end_datetime r) None"
    and org: "\<exists>org. organization_get (apt_organization_id r) w = Some org" by blast
  from appointment_create_eq [OF cr] obtain j ref tok where
    a: "a = r\<lparr>apt_id := j, apt_booking_reference := ref, apt_booking_access_token := tok\<rparr>"
    and w1: "w1 = w\<lparr>appointments := appointments w @ [a]\<rparr>"
    and fresh: "apt_id a \<notin> apt_id ` set (appointments w)"
      "apt_booking_reference a \<notin> apt_booking_reference ` set (appointments w)"
      "apt_booking_access_token a \<notin> apt_booking_access_token ` set (appointments w)"
      "apt_start_datetime a < apt_end_datetime a" by blast
  have "no_double_booking (appointments w1)"
    using s no a by (intro booking_guard.create_no_overlap [OF _ cr]) (simp_all add: appointments_sound_def)
  then have "appointments_sound w1"
    using s fresh w1 by (simp add: appointments_sound_def tbl_ok_append)
  then have "appointments_sound w'" using business_eqD [OF b] by (simp add: appointments_sound_def)
  moreover have "is_blocking a" using r(5) a by (simp add: is_blocking_iff)
  ultimately show ?thesis using a r t org fresh(1) b w1 by auto
qed

section \<open>Properties\<close>

text \<open>
  C1. Booking never double books: on any catalogue that keeps its constraints, a request that is
  accepted adds exactly one live appointment, with the visible duration of its service and the
  requested start, changes no other row of any table, and leaves every two live appointments of a
  provider disjoint, on a database with or without the exclusion constraint.
\<close>

theorem booking_never_double_books:
  assumes "create_appointment ev payload actor i w = Some (Inr (a, w'))" and "catalogue_ok w" and "appointments_sound w"
  shows "appointments_sound w' \<and> business w' = business (w\<lparr>appointments := appointments w @ [a]\<rparr>) \<and> is_blocking a \<and>
    ensure_aware_utc (apc_start_datetime payload) = Inr (apt_start_datetime a) \<and>
    (\<exists>timing. resolve_service_timing (apc_provider_id payload) (apc_location_id payload) (apc_service_id payload) True True w = Inr timing \<and>
       apt_end_datetime a = apt_start_datetime a + visible_duration_minutes timing * minute_us)"
  using create_appointment_effect [OF assms] by blast

definition sample_request :: appointment_create_payload where
  "sample_request =
     \<lparr>apc_organization_id = Some 1, apc_location_id = 1, apc_provider_id = 1, apc_service_id = Some 1,
      apc_customer_id = 1, apc_start_datetime = Aware (9 * hour_us) 0, apc_status = APT_CONFIRMED,
      apc_booking_channel = BC_WEB, apc_notes = None\<rparr>"

lemma booked_world_ok: "catalogue_ok booked_world" "appointments_sound booked_world"
  using sample_schedule_ok(2) booked_world_sound by (simp_all add: schedule_ok_def books_sound_def)

lemma sample_request_accepted: "\<exists>a w'. create_appointment sample_env sample_request ''user'' None booked_world = Some (Inr (a, w'))"
proof -
  have "(case create_appointment sample_env sample_request ''user'' None booked_world of Some (Inr x) \<Rightarrow> True | _ \<Rightarrow> False)"
    by code_simp
  then show ?thesis by (auto split: option.splits sum.splits)
qed

theorem booking_never_double_books_witness:
  "\<exists>a w'. create_appointment sample_env sample_request ''user'' None booked_world = Some (Inr (a, w')) \<and>
     appointments_sound w' \<and> apt_start_datetime a = 9 * hour_us"
proof -
  from sample_request_accepted obtain a w' where
    c: "create_appointment sample_env sample_request ''user'' None booked_world = Some (Inr (a, w'))" by blast
  from booking_never_double_books [OF c booked_world_ok] c show ?thesis
    by (auto simp: sample_request_def ensure_aware_utc_def)
qed

text \<open>
  C3. A request over a live appointment is always answered with an error: when the requested visible
  interval meets the visible interval of a live appointment of the provider, booking returns an
  exception (and so writes nothing), whatever buffers and assignments have become.
\<close>

theorem conflicting_booking_refused:
  assumes "catalogue_ok w" and "ensure_aware_utc (apc_start_datetime payload) = Inr s"
    and "resolve_service_timing (apc_provider_id payload) (apc_location_id payload) (apc_service_id payload) True True w = Inr timing"
    and "competes w (apc_provider_id payload) None a"
    and "overlaps s (s + visible_duration_minutes timing * minute_us) (apt_start_datetime a) (apt_end_datetime a)"
  shows "\<exists>e. create_appointment ev payload actor i w = Some (Inl e)"
proof (cases "create_appointment ev payload actor i w")
  case None
  then have "\<exists>p l sv st. check_booking_time ev p l sv st None w = None"
    by (auto simp: create_appointment_def split: sum.splits option.splits)
  then show ?thesis using check_booking_time_returns [OF assms(1)] by blast
next
  case (Some r)
  show ?thesis
  proof (cases r)
    case (Inl e)
    with Some show ?thesis by simp
  next
    case (Inr x)
    obtain b w' where "create_appointment ev payload actor i w = Some (Inr (b, w'))" using Some Inr by (cases x) simp
    from create_appointment_Inr [OF this assms(1)] assms(2,3)
    have no: "\<not> booking_clash w (apc_provider_id payload) s (s + visible_duration_minutes timing * minute_us) None"
      by auto
    from assms(4) have "apt_end_datetime a \<le> s \<or> s + visible_duration_minutes timing * minute_us \<le> apt_start_datetime a"
      by (intro booking_clash_complete [OF no]) (auto simp: competes_def)
    with assms(5) show ?thesis by (auto simp: overlaps_def)
  qed
qed

theorem conflicting_booking_refused_witness:
  "\<exists>e. create_appointment sample_env (sample_request\<lparr>apc_start_datetime := Aware (11 * hour_us) 0\<rparr>) ''user'' None booked_world = Some (Inl e)"
proof (rule conflicting_booking_refused [OF booked_world_ok(1)])
  let ?p = "sample_request\<lparr>apc_start_datetime := Aware (11 * hour_us) 0\<rparr>"
  show "ensure_aware_utc (apc_start_datetime ?p) = Inr (11 * hour_us)" by (simp add: ensure_aware_utc_def)
  show "resolve_service_timing (apc_provider_id ?p) (apc_location_id ?p) (apc_service_id ?p) True True booked_world = Inr sample_timing"
    using sample_slot_query by (simp add: slot_query_def sample_request_def)
  show "competes booked_world (apc_provider_id ?p) None sample_appointment" by code_simp
  show "overlaps (11 * hour_us) (11 * hour_us + visible_duration_minutes sample_timing * minute_us)
      (apt_start_datetime sample_appointment) (apt_end_datetime sample_appointment)" by code_simp
qed

lemma get_available_slots_postgres [simp]: "get_available_slots (ev\<lparr>is_postgres := b\<rparr>) = get_available_slots ev"
proof -
  have z: "zone_table (ev\<lparr>is_postgres := b\<rparr>) = zone_table ev" by simp
  show ?thesis by (intro ext) (simp only: get_available_slots_def z)
qed

lemma assert_slot_is_available_postgres [simp]:
  "assert_slot_is_available (ev\<lparr>is_postgres := b\<rparr>) = assert_slot_is_available ev"
proof -
  have z: "zone_table (ev\<lparr>is_postgres := b\<rparr>) = zone_table ev" by simp
  show ?thesis by (intro ext) (simp only: assert_slot_is_available_def z get_available_slots_postgres)
qed

lemma check_booking_time_postgres [simp]: "check_booking_time (ev\<lparr>is_postgres := b\<rparr>) = check_booking_time ev"
  by (intro ext) (simp only: check_booking_time_def assert_slot_is_available_postgres)

lemma side_effects_postgres [simp]:
  "record_domain_event (ev\<lparr>is_postgres := b\<rparr>) = record_domain_event ev"
  "enqueue_task (ev\<lparr>is_postgres := b\<rparr>) = enqueue_task ev"
proof -
  have f: "current_request_id (ev\<lparr>is_postgres := b\<rparr>) = current_request_id ev"
    "event_store_ok (ev\<lparr>is_postgres := b\<rparr>) = event_store_ok ev" "now (ev\<lparr>is_postgres := b\<rparr>) = now ev"
    "broker_accepts (ev\<lparr>is_postgres := b\<rparr>) = broker_accepts ev" by simp_all
  show "record_domain_event (ev\<lparr>is_postgres := b\<rparr>) = record_domain_event ev"
    by (intro ext) (simp only: record_domain_event_def domain_event_create_def f)
  show "enqueue_task (ev\<lparr>is_postgres := b\<rparr>) = enqueue_task ev"
    by (intro ext) (simp only: enqueue_task_def f)
qed

lemma appointment_violates_postgres:
  assumes "\<not> (\<exists>x \<in> set others. excluded_by r x)"
  shows "appointment_violates (ev\<lparr>is_postgres := b\<rparr>) others r = appointment_violates ev others r"
  using assms by (simp add: appointment_violates_def)

lemma appointment_create_postgres:
  assumes "\<not> booking_clash w (apt_provider_id r) (apt_start_datetime r) (apt_end_datetime r) None"
  shows "appointment_create (ev\<lparr>is_postgres := b\<rparr>) r w = appointment_create ev r w"
proof -
  have "\<not> (\<exists>x \<in> set (appointments w). excluded_by r' x)"
    if "apt_provider_id r' = apt_provider_id r" "apt_start_datetime r' = apt_start_datetime r" "apt_end_datetime r' = apt_end_datetime r" for r'
    using booking_clash_complete [OF assms] that by (fastforce simp: excluded_by_def)
  then show ?thesis
    by (simp add: appointment_create_def db_insert_def Let_def appointment_violates_postgres)
qed

text \<open>
  The exclusion constraint is a safety net only: run one after the other, every booking request
  has the same outcome on PostgreSQL and on a database without the constraint, because the check
  before the insert already refuses whatever the constraint would.
\<close>

theorem exclusion_constraint_redundant:
  assumes "catalogue_ok w"
  shows "create_appointment (ev\<lparr>is_postgres := b\<rparr>) payload actor i w = create_appointment ev payload actor i w"
proof -
  have "appointment_create (ev\<lparr>is_postgres := b\<rparr>) r w = appointment_create ev r w"
    if "check_booking_time ev (apt_provider_id r) l s (apt_start_datetime r) None w = Some (Inr (apt_end_datetime r))" for r l s
    using check_booking_time_ok [OF that assms] by (intro appointment_create_postgres) blast
  then show ?thesis
    by (auto simp: create_appointment_def split: sum.split option.split)
qed

theorem exclusion_constraint_redundant_witness:
  "create_appointment (sample_env\<lparr>is_postgres := False\<rparr>) sample_request ''user'' None booked_world =
     create_appointment sample_env sample_request ''user'' None booked_world"
  by (rule exclusion_constraint_redundant [OF booked_world_ok(1)])

definition fresh_tokens :: "env \<Rightarrow> world \<Rightarrow> bool" where
  "fresh_tokens ev w \<longleftrightarrow>
     ''BKP-'' @ upper (token_hex ev ''booking_reference'' (tbl_fresh apt_id (appointments w))) \<notin>
       apt_booking_reference ` set (appointments w) \<and>
     token_hex ev ''booking_access_token'' (tbl_fresh apt_id (appointments w)) \<notin>
       apt_booking_access_token ` set (appointments w)"

lemma appointment_create_ok:
  assumes "fresh_tokens ev w" and "apt_start_datetime r < apt_end_datetime r"
    and no: "\<not> booking_clash w (apt_provider_id r) (apt_start_datetime r) (apt_end_datetime r) None"
  shows "\<exists>a w'. appointment_create ev r w = Inr (a, w') \<and>
    apt_start_datetime a = apt_start_datetime r \<and> apt_end_datetime a = apt_end_datetime r"
proof -
  have "\<not> (\<exists>x \<in> set (appointments w). excluded_by r' x)"
    if "apt_provider_id r' = apt_provider_id r" "apt_start_datetime r' = apt_start_datetime r" "apt_end_datetime r' = apt_end_datetime r" for r'
    using booking_clash_complete [OF no] that by (fastforce simp: excluded_by_def)
  then show ?thesis
    using assms(1,2) by (simp add: appointment_create_def db_insert_def Let_def appointment_violates_def fresh_tokens_def)
qed

lemma offered_slot_booking:
  assumes "schedule_ok w" and "zone_regular z d d" and "slot_query ev w p l s z timing"
    and "get_available_slots ev p l d d s w = Some (Inr slots)" and "x \<in> set slots"
    and "local_date z (slot_start_datetime x) = d"
    and "check_booking_entities payload w = Inr org" and "apc_provider_id payload = p"
    and "apc_location_id payload = l" and "apc_service_id payload = s"
    and "ensure_aware_utc (apc_start_datetime payload) = Inr (slot_start_datetime x)" and "fresh_tokens ev w"
  shows "\<exists>a w'. create_appointment ev payload actor i w = Some (Inr (a, w')) \<and>
    apt_start_datetime a = slot_start_datetime x \<and> apt_end_datetime a = slot_end_datetime x"
proof -
  from assms(3) obtain prov tz where q: "provider_get p w = Some prov" "provider_timezone prov w = Inr tz"
    "zone_table ev tz = Some z" "resolve_service_timing p l s True True w = Inr timing"
    by (auto simp: slot_query_def)
  have cat: "catalogue_ok w" using assms(1) by (simp add: schedule_ok_def)
  have "bookable w p z timing d x"
    using get_available_slots_bookable [OF assms(1-4)] assms(5) by auto
  then have e: "slot_end_datetime x = slot_start_datetime x + visible_duration_minutes timing * minute_us"
    using on_grid_end by (auto simp: bookable_def)
  have no: "\<not> has_blocked_overlap p (block_start timing x) (block_end timing x) None w"
    by (rule offered_slot_no_overlap [OF assms(1-5)])
  have "assert_slot_is_available ev p l (slot_start_datetime x) (slot_end_datetime x) s w = Some (Inr ())"
    using q assms(4-6) by (auto simp: assert_slot_is_available_def zone_info_def)
  then have ct: "check_booking_time ev p l s (slot_start_datetime x) None w = Some (Inr (slot_end_datetime x))"
    using q(4) no e by (simp add: check_booking_time_def compute_blocked_interval_def block_start_def block_end_def Let_def)
  from check_booking_time_ok [OF this cat] have
    ok: "slot_start_datetime x < slot_end_datetime x" "\<not> booking_clash w p (slot_start_datetime x) (slot_end_datetime x) None"
    by blast+
  let ?r = "\<lparr>apt_id = 0, apt_booking_reference = [], apt_booking_access_token = [],
              apt_organization_id = org, apt_location_id = l, apt_provider_id = p, apt_service_id = s,
              apt_customer_id = apc_customer_id payload, apt_start_datetime = slot_start_datetime x,
              apt_end_datetime = slot_end_datetime x, apt_status = apc_status payload,
              apt_booking_channel = apc_booking_channel payload, apt_notes = apc_notes payload\<rparr>"
  from appointment_create_ok [OF assms(12), of ?r] ok obtain a w' where
    c: "appointment_create ev ?r w = Inr (a, w')" "apt_start_datetime a = slot_start_datetime x"
      "apt_end_datetime a = slot_end_datetime x" by auto
  then show ?thesis
    using ct assms(7-11) by (simp add: create_appointment_def)
qed

text \<open>
  C9. An offered slot can be booked: if the search for a day offers a slot that lies on that day in
  the provider's zone, then a request for its start by a known customer, for entities that pass
  the checks and with unused random tokens, is accepted and occupies exactly that slot.  As for the
  search itself, the constraints of the catalogue hold, the service of every appointment is still
  assigned to its provider, and the zone maps no local time of that day before its midnight or after
  the next one: where clocks are set forward over midnight an offered slot can be refused.
\<close>

theorem offered_slot_is_bookable:
  assumes "schedule_ok w" and "zone_regular z d d" and "slot_query ev w p l s z timing"
    and "get_available_slots ev p l d d s w = Some (Inr slots)" and "x \<in> set slots"
    and "local_date z (slot_start_datetime x) = d"
    and "check_booking_entities payload w = Inr org" and "apc_provider_id payload = p"
    and "apc_location_id payload = l" and "apc_service_id payload = s"
    and "ensure_aware_utc (apc_start_datetime payload) = Inr (slot_start_datetime x)" and "fresh_tokens ev w"
  shows "\<exists>a w'. create_appointment ev payload actor i w = Some (Inr (a, w')) \<and>
    apt_start_datetime a = slot_start_datetime x \<and> apt_end_datetime a = slot_end_datetime x"
  by (rule offered_slot_booking [OF assms])

theorem offered_slot_is_bookable_witness:
  "\<exists>a w'. create_appointment sample_env sample_request ''user'' None booked_world = Some (Inr (a, w')) \<and>
     apt_start_datetime a = 9 * hour_us \<and> apt_end_datetime a = 10 * hour_us"
proof -
  have sl: "get_available_slots sample_env 1 1 0 0 (Some 1) booked_world = Some (Inr [slot_at sample_timing (9 * hour_us)])"
    by code_simp
  have "\<exists>a w'. create_appointment sample_env sample_request ''user'' None booked_world = Some (Inr (a, w')) \<and>
     apt_start_datetime a = slot_start_datetime (slot_at sample_timing (9 * hour_us)) \<and>
     apt_end_datetime a = slot_end_datetime (slot_at sample_timing (9 * hour_us))"
  proof (rule offered_slot_is_bookable [OF sample_schedule_ok(2) sample_zone_regular sample_slot_query sl])
    show "local_date sample_zone (slot_start_datetime (slot_at sample_timing (9 * hour_us))) = 0" by code_simp
    show "check_booking_entities sample_request booked_world = Inr 1" by code_simp
    show "ensure_aware_utc (apc_start_datetime sample_request) = Inr (slot_start_datetime (slot_at sample_timing (9 * hour_us)))"
      by code_simp
    show "fresh_tokens sample_env booked_world" by code_simp
  qed (simp_all add: sample_request_def)
  then show ?thesis by (simp add: slot_at_def sample_timing_def hour_us_def minute_us_def)
qed

lemma reschedule_appointment_Inr:
  assumes "reschedule_appointment ev i new actor ai w = Some (Inr (a', w'))"
  shows "\<exists>a s e. appointment_get i w = Some a \<and> is_blocking a \<and> ensure_aware_utc new = Inr s \<and>
    check_booking_time ev (apt_provider_id a) (apt_location_id a) (apt_service_id a) s (Some (apt_id a)) w = Some (Inr e) \<and>
    a' = a\<lparr>apt_start_datetime := s, apt_end_datetime := e\<rparr> \<and>
    (\<exists>w1. appointment_update ev a' w = Inr w1 \<and> business w' = business w1)"
  using assms
  by (auto simp: reschedule_appointment_def RESCHEDULABLE_STATUSES_def is_blocking_iff Let_def
      split: sum.splits option.splits if_splits)

text \<open>
  C31. Rescheduling moves one appointment and nothing else: an accepted request keeps the row's
  identity, status, provider and service, gives it the requested start and its service's duration,
  changes no other row of any table, and again leaves no two live appointments of a provider
  overlapping.
\<close>

theorem reschedule_moves_one_appointment:
  assumes "reschedule_appointment ev i new actor ai w = Some (Inr (a', w'))" and "catalogue_ok w" and "appointments_sound w"
  shows "\<exists>a s timing. appointment_get i w = Some a \<and> ensure_aware_utc new = Inr s \<and>
    resolve_service_timing (apt_provider_id a) (apt_location_id a) (apt_service_id a) True True w = Inr timing \<and>
    a' = a\<lparr>apt_start_datetime := s, apt_end_datetime := s + visible_duration_minutes timing * minute_us\<rparr> \<and>
    business w' = business (w\<lparr>appointments := tbl_set apt_id a' (appointments w)\<rparr>) \<and> appointments_sound w'"
proof -
  from reschedule_appointment_Inr [OF assms(1)] obtain a s e w1 where
    a: "appointment_get i w = Some a" "ensure_aware_utc new = Inr s"
    and ct: "check_booking_time ev (apt_provider_id a) (apt_location_id a) (apt_service_id a) s (Some (apt_id a)) w = Some (Inr e)"
    and a': "a' = a\<lparr>apt_start_datetime := s, apt_end_datetime := e\<rparr>"
    and u: "appointment_update ev a' w = Inr w1" and b: "business w' = business w1" by blast
  from check_booking_time_ok [OF ct assms(2)] obtain timing where
    t: "resolve_service_timing (apt_provider_id a) (apt_location_id a) (apt_service_id a) True True w = Inr timing"
    "e = s + visible_duration_minutes timing * minute_us" "s < e"
    and no: "\<not> booking_clash w (apt_provider_id a) s e (Some (apt_id a))" by blast
  have am: "a \<in> set (appointments w)" using appointment_get_mem [OF a(1)] by simp
  have k: "tbl_ok apt_id (appointments w)" using assms(3) by (simp add: appointments_sound_def)
  have w1: "w1 = w\<lparr>appointments := tbl_set apt_id a' (appointments w)\<rparr>"
    using u by (auto simp: appointment_update_def db_update_def split: option.splits)
  have "no_double_booking (appointments w1)"
    using assms(3) no a' by (intro booking_guard.update_no_overlap [OF _ u]) (simp_all add: appointments_sound_def)
  moreover have "map apt_booking_reference (tbl_set apt_id a' (appointments w)) = map apt_booking_reference (appointments w)"
    "map apt_booking_access_token (tbl_set apt_id a' (appointments w)) = map apt_booking_access_token (appointments w)"
    using a' by (auto intro!: map_tbl_set_same [OF k am])
  ultimately have "appointments_sound w1"
    using assms(3) w1 t(3) a' by (auto simp: appointments_sound_def tbl_ok_set dest!: in_tbl_set)
  then have "appointments_sound w'" using business_eqD [OF b] by (simp add: appointments_sound_def)
  then show ?thesis using a a' t b w1 by auto
qed

lemma sample_reschedule: "\<exists>a w'. reschedule_appointment sample_env 1 (Aware (9 * hour_us) 0) ''user'' None booked_world = Some (Inr (a, w'))"
proof -
  have "(case reschedule_appointment sample_env 1 (Aware (9 * hour_us) 0) ''user'' None booked_world of Some (Inr x) \<Rightarrow> True | _ \<Rightarrow> False)"
    by code_simp
  then show ?thesis by (auto split: option.splits sum.splits)
qed

theorem reschedule_moves_one_appointment_witness:
  "\<exists>a w'. reschedule_appointment sample_env 1 (Aware (9 * hour_us) 0) ''user'' None booked_world = Some (Inr (a, w')) \<and>
     apt_start_datetime a = 9 * hour_us \<and> appointments_sound w'"
proof -
  from sample_reschedule obtain a w' where
    c: "reschedule_appointment sample_env 1 (Aware (9 * hour_us) 0) ''user'' None booked_world = Some (Inr (a, w'))" by blast
  from reschedule_moves_one_appointment [OF c booked_world_ok] c show ?thesis
    by (auto simp: ensure_aware_utc_def)
qed

text \<open>
  An appointment stands in its own way: although the conflict check leaves it out, the slot
  check does not, so a reschedule is accepted only for a time whose widened interval keeps clear of
  the interval the appointment blocks now.  Moving a booking by less than its own length, or
  changing nothing, is refused.
\<close>

theorem reschedule_avoids_own_interval:
  assumes "schedule_ok w" and "zone_regular z (local_date z (apt_start_datetime a')) (local_date z (apt_start_datetime a'))"
    and "appointment_get i w = Some a"
    and "slot_query ev w (apt_provider_id a) (apt_location_id a) (apt_service_id a) z timing"
    and "reschedule_appointment ev i new actor ai w = Some (Inr (a', w'))"
  shows "\<not> overlaps (block_start timing (slot_at timing (apt_start_datetime a')))
           (block_end timing (slot_at timing (apt_start_datetime a'))) (fst (blocked_span w a)) (snd (blocked_span w a))"
proof -
  from reschedule_appointment_Inr [OF assms(5)] assms(3) obtain s e where live: "is_blocking a"
    and ct: "check_booking_time ev (apt_provider_id a) (apt_location_id a) (apt_service_id a) s (Some (apt_id a)) w = Some (Inr e)"
    and a': "apt_start_datetime a' = s" by auto
  let ?d = "local_date z s"
  from assms(4) have q: "resolve_service_timing (apt_provider_id a) (apt_location_id a) (apt_service_id a) True True w = Inr timing"
    by (simp add: slot_query_def)
  from ct have "assert_slot_is_available ev (apt_provider_id a) (apt_location_id a) s e (apt_service_id a) w = Some (Inr ())"
    and e: "e = s + visible_duration_minutes timing * minute_us"
    using q by (auto simp: check_booking_time_def compute_blocked_interval_def Let_def split: if_splits option.splits sum.splits)
  then obtain slots x where sl: "get_available_slots ev (apt_provider_id a) (apt_location_id a) ?d ?d (apt_service_id a) w = Some (Inr slots)"
    and x: "x \<in> set slots" "slot_start_datetime x = s" "slot_end_datetime x = e"
    using assms(4) by (auto simp: assert_slot_is_available_def slot_query_def zone_info_def Let_def
        split: option.splits sum.splits if_splits)
  have "x = slot_at timing s" by (intro slot.equality) (simp_all add: slot_at_def x(2,3) e)
  then have "free_in_world w (apt_provider_id a) (block_start timing (slot_at timing s)) (block_end timing (slot_at timing s))"
    using get_available_slots_bookable [OF assms(1) assms(2) [unfolded a'] assms(4) sl] x(1) by (auto simp: bookable_def)
  moreover have "competes w (apt_provider_id a) None a"
    using live appointment_get_mem [OF assms(3)] by (simp add: competes_def)
  ultimately show ?thesis by (simp add: free_in_world_def a')
qed

theorem reschedule_avoids_own_interval_witness:
  "(\<exists>a' w'. reschedule_appointment sample_env 1 (Aware (9 * hour_us) 0) ''user'' None booked_world = Some (Inr (a', w')) \<and>
      \<not> overlaps (block_start sample_timing (slot_at sample_timing (apt_start_datetime a')))
         (block_end sample_timing (slot_at sample_timing (apt_start_datetime a')))
         (fst (blocked_span booked_world sample_appointment)) (snd (blocked_span booked_world sample_appointment))) \<and>
   reschedule_appointment sample_env 1 (Aware (10 * hour_us) 0) ''user'' None booked_world =
     Some (Inl (ValueError ''Requested time does not fit provider availability.''))"
proof
  from sample_reschedule obtain a' w' where
    c: "reschedule_appointment sample_env 1 (Aware (9 * hour_us) 0) ''user'' None booked_world = Some (Inr (a', w'))" by blast
  have g: "appointment_get 1 booked_world = Some sample_appointment"
    by (simp add: appointment_get_def tbl_get_def sample_defs)
  have "slot_query sample_env booked_world (apt_provider_id sample_appointment) (apt_location_id sample_appointment)
      (apt_service_id sample_appointment) sample_zone sample_timing"
    using sample_slot_query by (simp add: sample_appointment_def)
  from reschedule_avoids_own_interval [OF sample_schedule_ok(2) sample_zone_regular g this c] c
  show "\<exists>a' w'. reschedule_appointment sample_env 1 (Aware (9 * hour_us) 0) ''user'' None booked_world = Some (Inr (a', w')) \<and>
      \<not> overlaps (block_start sample_timing (slot_at sample_timing (apt_start_datetime a')))
         (block_end sample_timing (slot_at sample_timing (apt_start_datetime a')))
         (fst (blocked_span booked_world sample_appointment)) (snd (blocked_span booked_world sample_appointment))" by blast
  show "reschedule_appointment sample_env 1 (Aware (10 * hour_us) 0) ''user'' None booked_world =
     Some (Inl (ValueError ''Requested time does not fit provider availability.''))" by code_simp
qed

lemma refund_frame_eqD: "refund_frame w = refund_frame w' \<Longrightarrow>
    organizations w = organizations w' \<and> providers w = providers w' \<and> services w = services w' \<and>
    appointments w = appointments w' \<and> payouts w = payouts w' \<and> customers w = customers w'"
  by (cases w; cases w') (simp add: refund_frame_def business_def)

lemma refunded_payments_rows:
  "x \<in> set (refunded_payments p n t) \<Longrightarrow> x \<in> set t \<or> x = p\<lparr>pay_status := PAY_REFUNDED\<rparr>"
  by (auto simp: refunded_payments_def split: if_splits dest!: in_tbl_set)

lemma books_sound_refund:
  assumes s: "books_sound w" and p: "p \<in> set (payments w)" and r: "rf_id r \<notin> rf_id ` set (refunds w)" "0 \<le> rf_amount_minor r"
    and w': "refunds w' = refunds w @ [r]" "payments w' = refunded_payments p n (payments w)" "earnings_sound w'"
      "refund_frame w' = refund_frame w"
  shows "books_sound w'"
proof -
  note f = refund_frame_eqD [OF w'(4)]
  have k: "tbl_ok pay_id (payments w')" using s w'(2) by (simp add: books_sound_def amounts_ok_def refunded_payments_def tbl_ok_set)
  have a: "amounts_ok w'"
    using s k r p w'(1,2) by (auto simp: books_sound_def amounts_ok_def tbl_ok_append dest!: refunded_payments_rows)
  have "references_ok w'"
  proof (rule references_ok_update)
    show "references_ok w" using s by (simp add: books_sound_def)
    show "\<exists>q \<in> set (payments w). pay_appointment_id q = pay_appointment_id x" if "x \<in> set (payments w')" for x
      using that w'(2) p by (auto dest!: refunded_payments_rows)
  qed (use f in auto)
  with a w'(3) f s show ?thesis by (simp add: books_sound_def appointments_sound_def)
qed

lemma books_sound_appointment:
  assumes s: "books_sound w" and a: "a \<in> set (appointments w)" and r: "same_place r a" "apt_organization_id r = apt_organization_id a"
  shows "appointment_update ev r w = Inr (w\<lparr>appointments := tbl_set apt_id r (appointments w)\<rparr>) \<and>
     books_sound (w\<lparr>appointments := tbl_set apt_id r (appointments w)\<rparr>)"
proof -
  let ?w = "w\<lparr>appointments := tbl_set apt_id r (appointments w)\<rparr>"
  have keep: "appointment_update ev r w = Inr ?w" "appointments_sound ?w"
    using appointment_update_keeps [OF _ a r(1)] s by (simp_all add: books_sound_def)
  have "references_ok ?w"
  proof (rule references_ok_update)
    show "references_ok w" using s by (simp add: books_sound_def)
    show "\<exists>b \<in> set (appointments w). apt_organization_id b = apt_organization_id x" if "x \<in> set (appointments ?w)" for x
      using that a r(2) by (fastforce dest!: in_tbl_set)
  qed (auto simp: map_ident_tbl_set)
  with keep s show ?thesis by (simp add: books_sound_def amounts_ok_def)
qed

lemma process_refund_effect:
  assumes s: "books_sound w" and g: "payment_get_latest_for_appointment (apt_id a) w = Some p"
    and st: "pay_status p \<in> {PAY_SUCCEEDED, PAY_REFUNDED}" and mock: "pay_provider_name p = ''mock''"
  shows "\<exists>r w'. process_refund_for_cancellation ev a w = (Inr r, w') \<and>
    refund_sum_succeeded (pay_id p) w' = refund_sum_succeeded (pay_id p) w + calculate_refund_amount a p (now ev) w \<and>
    books_sound w' \<and> appointments w' = appointments w \<and> providers w' = providers w"
proof -
  let ?n = "calculate_refund_amount a p (now ev) w"
  have p: "p \<in> set (payments w)" using g by (auto simp: payment_get_latest_for_appointment_def dest: latest_by_Some)
  have ok: "amounts_ok w" "earnings_sound w" using s by (simp_all add: books_sound_def)
  have pg: "payment_get (pay_id p) w = Some p" using ok(1) p by (simp add: payment_get_def amounts_ok_def tbl_get_mem)
  show ?thesis
  proof (cases "?n \<le> 0")
    case True
    then have "?n = 0" using calculate_refund_amount_bounds [of a p "now ev" w] by simp
    then show ?thesis using g st s by (simp add: process_refund_for_cancellation_def)
  next
    case False
    then have n: "0 < ?n" "?n \<le> get_refundable_remaining_minor p w"
      using calculate_refund_amount_bounds [of a p "now ev" w] by simp_all
    from create_refund_effect [OF ok pg mock st n, of ev "''system''" None] obtain r w' where
      c: "create_refund ev p ?n ''system'' None w = (Inr (Some r), w')"
      and r: "rf_id r \<notin> rf_id ` set (refunds w)" "rf_payment_id r = pay_id p" "rf_amount_minor r = ?n" "rf_status r = RF_SUCCEEDED"
      and w': "refunds w' = refunds w @ [r]" "payments w' = refunded_payments p (refund_sum_succeeded (pay_id p) w + ?n) (payments w)"
        "earnings_sound w'" "refund_frame w' = refund_frame w" by blast
    have "books_sound w'" using books_sound_refund [OF s p r(1) _ w'] r(3) n(1) by simp
    moreover have "refund_sum_succeeded (pay_id p) w' = refund_sum_succeeded (pay_id p) w + ?n"
      using r w'(1) by (simp add: refund_sum_succeeded_def)
    moreover have "process_refund_for_cancellation ev a w = (Inr (Some r), w')"
      using g st False c by (simp add: process_refund_for_cancellation_def Let_def)
    ultimately show ?thesis using refund_frame_eqD [OF w'(4)] by simp
  qed
qed

lemma calculate_refund_amount_cong:
  assumes "services w' = services w" "refunds w' = refunds w" "apt_service_id a' = apt_service_id a"
    "apt_start_datetime a' = apt_start_datetime a"
  shows "calculate_refund_amount a' p t w' = calculate_refund_amount a p t w"
proof -
  have "appointment_service a' w' = appointment_service a w"
    using assms by (simp add: appointment_service_def service_get_def)
  moreover have "get_refundable_remaining_minor p w' = get_refundable_remaining_minor p w"
    using assms by (simp add: get_refundable_remaining_minor_def refund_sum_succeeded_def)
  ultimately show ?thesis using assms(4) by (simp only: calculate_refund_amount_def)
qed

text \<open>The part of a cancellation before the refund.\<close>

lemma cancel_appointment_step:
  assumes s: "books_sound w" and a: "appointment_get i w = Some a" and live: "is_blocking a"
    and prov: "provider_get (apt_provider_id a) w \<noteq> None"
  shows "\<exists>a' w2. a' = a\<lparr>apt_status := APT_CANCELLED, apt_notes := or_else notes (apt_notes a)\<rparr> \<and>
    cancel_appointment ev i notes actor ai w = (Inr a', snd (process_refund_for_cancellation ev a' w2)) \<and>
    business w2 = business (w\<lparr>appointments := tbl_set apt_id a' (appointments w)\<rparr>) \<and> books_sound w2"
proof -
  let ?a = "a\<lparr>apt_status := APT_CANCELLED, apt_notes := or_else notes (apt_notes a)\<rparr>"
  let ?w1 = "w\<lparr>appointments := tbl_set apt_id ?a (appointments w)\<rparr>"
  have am: "a \<in> set (appointments w)" using appointment_get_mem [OF a] by simp
  have u: "appointment_update ev ?a w = Inr ?w1" "books_sound ?w1"
    using books_sound_appointment [OF s am same_place_status(2)] by simp_all
  let ?w2 = "record_event ev
      (booking_event ''booking_canceled'' actor ai ?a [(''notes'', JBool (or_else (apt_notes ?a) None \<noteq> None))])
      (increment_counter ''bookings_canceled_total'' (enqueue ev TASK_APPOINTMENT_CANCELLED (apt_id ?a) ?w1))"
  have b: "business ?w2 = business ?w1" by simp
  have st: "(apt_status a = APT_CANCELLED) = False" "(apt_status a \<in> {APT_COMPLETED, APT_NO_SHOW}) = False"
    "(provider_get (apt_provider_id a) w = None) = False"
    using live prov by (auto simp: is_blocking_iff)
  have "cancel_appointment ev i notes actor ai w = (Inr ?a, snd (process_refund_for_cancellation ev ?a ?w2))"
    by (simp only: cancel_appointment_def a option.case st if_False Let_def u(1) sum.case)
  moreover have "books_sound ?w2" using books_sound_business [OF b] u(2) by simp
  ultimately show ?thesis using b by (intro exI [of _ ?a] exI [of _ ?w2]) simp
qed

text \<open>
  C30. Cancelling a paid booking pays back what the policy says, once: the booking becomes cancelled,
  the succeeded refunds of its latest payment grow by exactly the amount the cancellation policy
  computes at that moment, the books stay sound, and cancelling again changes nothing.
\<close>

theorem cancel_refunds_policy_amount:
  assumes s: "books_sound w" and a: "appointment_get i w = Some a" and live: "is_blocking a"
    and prov: "provider_get (apt_provider_id a) w \<noteq> None"
    and g: "payment_get_latest_for_appointment i w = Some p"
    and st: "pay_status p \<in> {PAY_SUCCEEDED, PAY_REFUNDED}" and mock: "pay_provider_name p = ''mock''"
  shows "\<exists>a' w'. cancel_appointment ev i notes actor ai w = (Inr a', w') \<and> apt_status a' = APT_CANCELLED \<and>
    appointment_get i w' = Some a' \<and>
    refund_sum_succeeded (pay_id p) w' = refund_sum_succeeded (pay_id p) w + calculate_refund_amount a p (now ev) w \<and>
    books_sound w' \<and> cancel_appointment ev i notes actor ai w' = (Inr a', w')"
proof -
  from cancel_appointment_step [OF s a live prov, of "notes" ev actor ai] obtain a' w2 where
    a': "a' = a\<lparr>apt_status := APT_CANCELLED, apt_notes := or_else notes (apt_notes a)\<rparr>"
    and c: "cancel_appointment ev i notes actor ai w = (Inr a', snd (process_refund_for_cancellation ev a' w2))"
    and b: "business w2 = business (w\<lparr>appointments := tbl_set apt_id a' (appointments w)\<rparr>)" and s2: "books_sound w2" by blast
  note t = business_eqD [OF b]
  have i: "apt_id a = i" "a \<in> set (appointments w)" using appointment_get_mem [OF a] by simp_all
  have g2: "payment_get_latest_for_appointment (apt_id a') w2 = Some p"
    using g t i a' by (simp add: payment_get_latest_for_appointment_def)
  from process_refund_effect [OF s2 g2 st mock, of ev] obtain r w' where
    pr: "process_refund_for_cancellation ev a' w2 = (Inr r, w')"
    and w': "refund_sum_succeeded (pay_id p) w' = refund_sum_succeeded (pay_id p) w2 + calculate_refund_amount a' p (now ev) w2"
      "books_sound w'" "appointments w' = appointments w2" "providers w' = providers w2" by blast
  have "calculate_refund_amount a' p (now ev) w2 = calculate_refund_amount a p (now ev) w"
    using t a' by (intro calculate_refund_amount_cong) simp_all
  moreover have "refund_sum_succeeded (pay_id p) w2 = refund_sum_succeeded (pay_id p) w"
    using t by (simp add: refund_sum_succeeded_def)
  moreover have ag: "appointment_get i w' = Some a'"
    using appointment_get_update [of a w a'] a i a' w'(3) t by (simp add: appointment_get_def)
  moreover have "cancel_appointment ev i notes actor ai w' = (Inr a', w')"
    using ag prov a' w'(4) t by (simp add: cancel_appointment_def provider_get_def)
  ultimately show ?thesis using c pr w'(1,2) a' by (intro exI [of _ a'] exI [of _ w']) simp
qed

lemma paid_world_sound: "books_sound paid_world"
  using paid_world_amounts_ok sample_earnings_sound
  by (simp add: books_sound_def appointments_sound_def references_ok_def tbl_ok_def no_overlap_def sample_defs
      appointment_get_def organization_get_def tbl_get_def commission_config_ok_def hour_us_def)

theorem cancel_refunds_policy_amount_witness:
  "\<exists>a' w'. cancel_appointment sample_env 1 None ''user'' None paid_world = (Inr a', w') \<and> apt_status a' = APT_CANCELLED \<and>
     refund_sum_succeeded 1 w' = 1000"
proof -
  let ?a = "sample_appointment\<lparr>apt_status := APT_CONFIRMED\<rparr>"
  have pre: "appointment_get 1 paid_world = Some ?a" "is_blocking ?a" "provider_get (apt_provider_id ?a) paid_world \<noteq> None"
    "pay_status sample_paid_payment \<in> {PAY_SUCCEEDED, PAY_REFUNDED}" "pay_provider_name sample_paid_payment = ''mock''"
    "refund_sum_succeeded (pay_id sample_paid_payment) paid_world = 0" "pay_id sample_paid_payment = 1"
    by (simp_all add: sample_defs appointment_get_def provider_get_def tbl_get_def is_blocking_iff
        sample_paid_payment_def refund_sum_succeeded_def)
  have g: "payment_get_latest_for_appointment 1 paid_world = Some sample_paid_payment" by code_simp
  have "calculate_refund_amount ?a sample_paid_payment (now sample_env) paid_world = 1000" by code_simp
  then show ?thesis
    using cancel_refunds_policy_amount [OF paid_world_sound pre(1-3) g pre(4,5), of sample_env None "''user''" None] pre(6,7)
    by auto
qed

end
