(* ===== verification/Discovery.thy ===== *)
theory Discovery
  imports Appointments
begin

text \<open>
  \<^verbatim>\<open>services/discovery_service.py\<close>: what a customer without an account sees (the visible
  organizations, locations, services, providers and slots), how a contact becomes a customer
  row, and the public booking, which validates the entities, resolves the customer, books and
  opens the checkout.  The booking and the checkout commit separately, so the result comes with
  the world it leaves behind, also when it is an error.
\<close>

section \<open>Visible entities\<close>

definition list_visible_organizations :: "world \<Rightarrow> organization list" where
  "list_visible_organizations w =
     sort_key org_id
       [o' \<leftarrow> organizations w. org_is_active o' \<and>
          (\<exists>l \<in> set (locations w). loc_organization_id l = org_id o' \<and> loc_is_active l)]"

definition get_visible_organization :: "int \<Rightarrow> world \<Rightarrow> organization option" where
  "get_visible_organization organization_id w =
     find (\<lambda>o'. org_id o' = organization_id \<and> org_is_active o') (organizations w)"

definition list_visible_locations :: "int \<Rightarrow> world \<Rightarrow> location list result" where
  "list_visible_locations organization_id w =
     (if get_visible_organization organization_id w = None then Inl (LookupError ''Organization not found'')
      else Inr (location_list_by_organization organization_id False w))"

definition get_visible_location :: "int \<Rightarrow> world \<Rightarrow> location result" where
  "get_visible_location location_id w =
     (case location_get location_id w of
        None \<Rightarrow> Inl (LookupError ''Location not found'')
      | Some location \<Rightarrow>
      if \<not> loc_is_active location then Inl (LookupError ''Location not found'')
      else if get_visible_organization (loc_organization_id location) w = None
      then Inl (LookupError ''Location not found'')
      else Inr location)"

definition get_visible_service :: "int \<Rightarrow> world \<Rightarrow> service result" where
  "get_visible_service service_id w =
     (case service_get service_id w of
        None \<Rightarrow> Inl (LookupError ''Service not found'')
      | Some service \<Rightarrow>
      if \<not> svc_is_active service then Inl (LookupError ''Service not found'')
      else if get_visible_organization (svc_organization_id service) w = None
      then Inl (LookupError ''Service not found'')
      else Inr service)"

definition get_visible_provider :: "int \<Rightarrow> world \<Rightarrow> provider result" where
  "get_visible_provider provider_id w =
     (case provider_get provider_id w of
        None \<Rightarrow> Inl (LookupError ''Provider not found'')
      | Some provider \<Rightarrow>
      if \<not> prov_is_active provider then Inl (LookupError ''Provider not found'')
      else if get_visible_organization (prov_organization_id provider) w = None
      then Inl (LookupError ''Provider not found'')
      else Inr provider)"

definition list_visible_services_for_location :: "int \<Rightarrow> world \<Rightarrow> service list result" where
  "list_visible_services_for_location location_id w =
     (case get_visible_location location_id w of
        Inl e \<Rightarrow> Inl e
      | Inr location \<Rightarrow>
        Inr (sort_key svc_id
          [s \<leftarrow> services w.
             \<exists>sl \<in> set (service_locations w). sl_service_id sl = svc_id s \<and>
             (\<exists>ps \<in> set (provider_services w). ps_service_id ps = svc_id s \<and>
             (\<exists>p \<in> set (providers w). prov_id p = ps_provider_id ps \<and>
             (\<exists>pl \<in> set (provider_locations w). pl_provider_id pl = prov_id p \<and>
                pl_location_id pl = sl_location_id sl \<and>
                sl_location_id sl = loc_id location \<and> svc_is_active s \<and> prov_is_active p \<and>
                svc_organization_id s = loc_organization_id location \<and>
                prov_organization_id p = loc_organization_id location)))]))"

definition list_visible_providers_for_service_at_location ::
  "int \<Rightarrow> int \<Rightarrow> world \<Rightarrow> provider list result" where
  "list_visible_providers_for_service_at_location location_id service_id w =
     (case get_visible_location location_id w of
        Inl e \<Rightarrow> Inl e
      | Inr location \<Rightarrow>
      case get_visible_service service_id w of
        Inl e \<Rightarrow> Inl e
      | Inr service \<Rightarrow>
      if svc_organization_id service \<noteq> loc_organization_id location then Inr []
      else if service_location_get (svc_id service) (loc_id location) w = None then Inr []
      else
        Inr (sort_key prov_id
          [p \<leftarrow> providers w.
             \<exists>ps \<in> set (provider_services w). ps_provider_id ps = prov_id p \<and>
             (\<exists>pl \<in> set (provider_locations w). pl_provider_id pl = prov_id p \<and>
                pl_location_id pl = loc_id location \<and>
                ps_service_id ps = svc_id service \<and>
                prov_organization_id p = loc_organization_id location \<and> prov_is_active p)]))"

definition list_visible_slots ::
  "env \<Rightarrow> int \<Rightarrow> int \<Rightarrow> int \<Rightarrow> date \<Rightarrow> world \<Rightarrow> slot list result option" where
  "list_visible_slots ev provider_id service_id location_id slot_date w =
     (case get_available_slots ev provider_id location_id slot_date slot_date (Some service_id) w of
        None \<Rightarrow> None
      | Some (Inl e) \<Rightarrow> Some (Inl e)
      | Some (Inr slots) \<Rightarrow> Some (Inr [x \<leftarrow> slots. now ev < slot_start_datetime x]))"

section \<open>The public booking\<close>

record discovery_booking_payload =
  dbp_organization_id :: int
  dbp_location_id :: int
  dbp_provider_id :: int
  dbp_service_id :: int
  dbp_scheduled_start :: py_datetime
  dbp_customer_name :: string
  dbp_customer_phone :: string
  dbp_customer_email :: "string option"
  dbp_preferred_language :: "string option"

definition validate_booking_entities :: "discovery_booking_payload \<Rightarrow> world \<Rightarrow> service result" where
  "validate_booking_entities payload w =
     (case organization_get (dbp_organization_id payload) w of
        None \<Rightarrow> Inl (LookupError ''Organization not found'')
      | Some organization \<Rightarrow>
      if \<not> org_is_active organization then Inl (LookupError ''Organization not found'')
      else case location_get (dbp_location_id payload) w of
        None \<Rightarrow> Inl (LookupError ''Location not found'')
      | Some location \<Rightarrow>
      if \<not> loc_is_active location then Inl (LookupError ''Location not found'')
      else case provider_get (dbp_provider_id payload) w of
        None \<Rightarrow> Inl (LookupError ''Provider not found'')
      | Some provider \<Rightarrow>
      if \<not> prov_is_active provider then Inl (LookupError ''Provider not found'')
      else case service_get (dbp_service_id payload) w of
        None \<Rightarrow> Inl (LookupError ''Service not found'')
      | Some service \<Rightarrow>
      if \<not> svc_is_active service then Inl (LookupError ''Service not found'')
      else if loc_organization_id location \<noteq> org_id organization
      then Inl (ValueError ''Location does not belong to organization.'')
      else if prov_organization_id provider \<noteq> org_id organization
      then Inl (ValueError ''Provider does not belong to organization.'')
      else if svc_organization_id service \<noteq> org_id organization
      then Inl (ValueError ''Service does not belong to organization.'')
      else if provider_location_get (prov_id provider) (loc_id location) w = None
      then Inl (ValueError ''Provider is not assigned to the selected location.'')
      else if provider_service_get (prov_id provider) (svc_id service) w = None
      then Inl (ValueError ''Provider is not assigned to the selected service.'')
      else if service_location_get (svc_id service) (loc_id location) w = None
      then Inl (ValueError ''Service is not available at the selected location.'')
      else Inr service)"

definition candidate_customers_for_contact :: "string \<Rightarrow> string option \<Rightarrow> world \<Rightarrow> customer list" where
  "candidate_customers_for_contact phone_number_normalized email w =
     (let from_phone = (case customer_get_by_phone_normalized phone_number_normalized w of
                          None \<Rightarrow> [] | Some c \<Rightarrow> [c]) in
      case email of
        None \<Rightarrow> from_phone
      | Some m \<Rightarrow>
        foldl (\<lambda>candidates c. if \<forall>existing \<in> set candidates. cust_id existing \<noteq> cust_id c
                              then candidates @ [c] else candidates)
          from_phone (customer_list_by_email m w))"

definition select_customer_for_organization :: "customer list \<Rightarrow> int \<Rightarrow> world \<Rightarrow> customer" where
  "select_customer_for_organization candidates organization_id w =
     (case find (\<lambda>c. customer_has_appointment_in_organization (cust_id c) organization_id w) candidates of
        Some c \<Rightarrow> c
      | None \<Rightarrow> hd candidates)"

text \<open>The fields that differ are written; with none the row is not touched.\<close>

definition contact_updates :: "string \<Rightarrow> string option \<Rightarrow> string option \<Rightarrow> customer \<Rightarrow> customer" where
  "contact_updates clean_name normalized_email preferred_language c =
     c\<lparr>cust_full_name := clean_name,
       cust_email := (if normalized_email = None then cust_email c else normalized_email),
       cust_preferred_language :=
         (if preferred_language = None then cust_preferred_language c else preferred_language)\<rparr>"

definition resolve_or_create_customer ::
  "int \<Rightarrow> string \<Rightarrow> string \<Rightarrow> string option \<Rightarrow> string option \<Rightarrow> world \<Rightarrow> (customer \<times> world) result" where
  "resolve_or_create_customer organization_id full_name phone_number email preferred_language w =
     (let clean_name = strip full_name in
      if clean_name = [] then Inl (ValueError ''customer_name is required.'')
      else case normalize_phone_number phone_number of
        Inl e \<Rightarrow> Inl e
      | Inr normalized_phone \<Rightarrow>
       (let normalized_email = normalize_email email;
            candidates = candidate_customers_for_contact normalized_phone normalized_email w in
        if candidates \<noteq> [] then
         (let customer = select_customer_for_organization candidates organization_id w;
              updated = contact_updates clean_name normalized_email preferred_language customer in
          if updated = customer then Inr (customer, w)
          else case customer_update updated w of
            Inl e \<Rightarrow> Inl e
          | Inr w' \<Rightarrow> Inr (updated, w'))
        else case customer_create
                    \<lparr>cust_id = 0, cust_full_name = clean_name, cust_phone_number = phone_number,
                     cust_phone_number_normalized = [], cust_email = normalized_email,
                     cust_preferred_language = preferred_language\<rparr> w of
          Inr r \<Rightarrow> Inr r
        | Inl (IntegrityError m) \<Rightarrow>
           (case customer_get_by_phone_normalized normalized_phone w of
              Some existing \<Rightarrow> Inr (existing, w)
            | None \<Rightarrow> Inl (IntegrityError m))
        | Inl e \<Rightarrow> Inl e))"

definition appointment_request ::
  "discovery_booking_payload \<Rightarrow> service \<Rightarrow> customer \<Rightarrow> instant \<Rightarrow> booking_channel \<Rightarrow> appointment_create_payload" where
  "appointment_request payload service customer scheduled_start_utc channel =
     \<lparr>apc_organization_id = Some (dbp_organization_id payload), apc_location_id = dbp_location_id payload,
      apc_provider_id = dbp_provider_id payload, apc_service_id = Some (dbp_service_id payload),
      apc_customer_id = cust_id customer, apc_start_datetime = Aware scheduled_start_utc 0,
      apc_status = (if svc_requires_payment service then APT_PENDING_PAYMENT else APT_CONFIRMED),
      apc_booking_channel = channel, apc_notes = None\<rparr>"

text \<open>What follows the committed booking: the checkout of a paid service, then the summary.\<close>

definition finish_booking ::
  "env \<Rightarrow> service \<Rightarrow> customer \<Rightarrow> appointment \<Rightarrow> world \<Rightarrow> (exn + (appointment \<times> customer \<times> payment_summary)) \<times> world" where
  "finish_booking ev service customer appointment w =
     (case (if svc_requires_payment service
            then create_checkout_session_for_appointment ev appointment ''mock'' w else Inr (None, w)) of
        Inl e \<Rightarrow> (Inl e, w)
      | Inr (_, w') \<Rightarrow>
      case get_customer_payment_summary ev appointment w' of
        Inl e \<Rightarrow> (Inl e, w')
      | Inr payment_summary \<Rightarrow> (Inr (appointment, customer, payment_summary), w'))"

definition create_public_booking ::
  "env \<Rightarrow> discovery_booking_payload \<Rightarrow> booking_channel \<Rightarrow> world
    \<Rightarrow> ((exn + (appointment \<times> customer \<times> payment_summary)) \<times> world) option" where
  "create_public_booking ev payload channel w =
     (case validate_booking_entities payload w of
        Inl e \<Rightarrow> Some (Inl e, w)
      | Inr service \<Rightarrow>
      case ensure_aware_utc (dbp_scheduled_start payload) of
        Inl e \<Rightarrow> Some (Inl e, w)
      | Inr scheduled_start_utc \<Rightarrow>
      if scheduled_start_utc \<le> now ev
      then Some (Inl (ValueError ''Scheduled time must be in the future.''), w)
      else case resolve_or_create_customer (dbp_organization_id payload) (dbp_customer_name payload)
                  (dbp_customer_phone payload) (dbp_customer_email payload) (dbp_preferred_language payload) w of
        Inl e \<Rightarrow> Some (Inl e, w)
      | Inr (customer, w1) \<Rightarrow>
      case create_appointment ev (appointment_request payload service customer scheduled_start_utc channel)
             ''customer'' None w1 of
        None \<Rightarrow> None
      | Some (Inl e) \<Rightarrow> Some (Inl e, w1)
      | Some (Inr (appointment, w2)) \<Rightarrow> Some (finish_booking ev service customer appointment w2))"

section \<open>Contacts become customers\<close>

definition customers_ok :: "world \<Rightarrow> bool" where
  "customers_ok w \<longleftrightarrow>
     tbl_ok cust_id (customers w) \<and> distinct (map cust_phone_number_normalized (customers w))"

lemma sort_key_map: "sort_key k (map g xs) = map g (sort_key (\<lambda>x. k (g x)) xs)"
proof (induction xs)
  case (Cons x xs)
  have "insort_key k (g x) (map g ys) = map g (insort_key (\<lambda>x. k (g x)) x ys)" for ys
    by (induction ys) auto
  with Cons show ?case by simp
qed simp

text \<open>The candidates are the owner of the number, then the owners of the address by age.\<close>

definition email_matches :: "string option \<Rightarrow> customer \<Rightarrow> bool" where
  "email_matches email c \<longleftrightarrow>
     (case (email, cust_email c) of (Some m, Some m') \<Rightarrow> lower m' = lower m | _ \<Rightarrow> False)"

definition phone_owner :: "string \<Rightarrow> world \<Rightarrow> customer list" where
  "phone_owner p w = [c \<leftarrow> customers w. cust_phone_number_normalized c = p]"

lemma filter_unique:
  assumes "distinct (map f xs)"
  shows "[x \<leftarrow> xs. f x = k] = (case find (\<lambda>x. f x = k) xs of None \<Rightarrow> [] | Some x \<Rightarrow> [x])"
  using assms
proof (induction xs)
  case (Cons x xs)
  have "[y \<leftarrow> xs. f y = k] = []" if "f x = k"
    using that Cons.prems by (auto simp: filter_empty_conv image_iff)
  with Cons show ?case by auto
qed simp

lemma foldl_new_rows:
  assumes "distinct (map f ys)"
  shows "foldl (\<lambda>acc y. if \<forall>x \<in> set acc. f x \<noteq> f y then acc @ [y] else acc) xs ys =
    xs @ [y \<leftarrow> ys. \<forall>x \<in> set xs. f x \<noteq> f y]"
  using assms
proof (induction ys arbitrary: xs)
  case (Cons y ys)
  have "[z \<leftarrow> ys. \<forall>x \<in> set (xs @ [y]). f x \<noteq> f z] = [z \<leftarrow> ys. \<forall>x \<in> set xs. f x \<noteq> f z]"
    using Cons.prems by (intro filter_cong) (auto simp: image_iff)
  with Cons show ?case by auto
qed simp

lemma candidates_eq:
  assumes "customers_ok w"
  shows "candidate_customers_for_contact p email w = phone_owner p w @
    sort_key cust_id [c \<leftarrow> customers w. email_matches email c \<and> cust_phone_number_normalized c \<noteq> p]"
proof (cases email)
  case None
  then show ?thesis
    using assms by (simp add: candidate_customers_for_contact_def customer_get_by_phone_normalized_def
        phone_owner_def filter_unique customers_ok_def email_matches_def)
next
  case (Some m)
  have own: "phone_owner p w = (case customer_get_by_phone_normalized p w of None \<Rightarrow> [] | Some c \<Rightarrow> [c])"
    using assms by (simp add: customer_get_by_phone_normalized_def phone_owner_def filter_unique customers_ok_def)
  have em: "(case cust_email c of None \<Rightarrow> False | Some m' \<Rightarrow> lower m' = lower m) = email_matches email c" for c
    by (simp add: Some email_matches_def split: option.split)
  have "distinct (map cust_id (customer_list_by_email m w))"
    using assms by (simp add: customer_list_by_email_def customers_ok_def tbl_ok_def distinct_map inj_on_def)
  from foldl_new_rows [OF this] have "candidate_customers_for_contact p email w = phone_owner p w @
      [c \<leftarrow> customer_list_by_email m w. \<forall>x \<in> set (phone_owner p w). cust_id x \<noteq> cust_id c]"
    by (simp add: candidate_customers_for_contact_def Some own Let_def)
  also have "[c \<leftarrow> customer_list_by_email m w. \<forall>x \<in> set (phone_owner p w). cust_id x \<noteq> cust_id c] =
      [c \<leftarrow> customer_list_by_email m w. cust_phone_number_normalized c \<noteq> p]"
    using assms by (intro filter_cong)
      (auto simp: phone_owner_def customer_list_by_email_def customers_ok_def dest: tbl_ok_inj)
  finally show ?thesis
    by (simp add: customer_list_by_email_def em filter_sort conj_commute)
qed

lemma contact_updates_simps [simp]:
  "cust_id (contact_updates n em lang c) = cust_id c"
  "cust_phone_number_normalized (contact_updates n em lang c) = cust_phone_number_normalized c"
  "contact_updates n em lang (contact_updates n em lang c) = contact_updates n em lang c"
  "cust_full_name (contact_updates n em lang c) = n"
  by (simp_all add: contact_updates_def)

lemma email_matches_updated: "email_matches em (contact_updates n em lang c) \<longleftrightarrow> em \<noteq> None"
  by (simp add: contact_updates_def email_matches_def split: option.split)

lemma select_mem: "cs \<noteq> [] \<Longrightarrow> select_customer_for_organization cs org w \<in> set cs"
  by (auto simp: select_customer_for_organization_def find_Some_iff split: option.split)

lemma find_map: "find P (map g xs) = map_option g (find (\<lambda>x. P (g x)) xs)"
  by (induction xs) auto

lemma select_map:
  assumes "cs \<noteq> []" and "\<And>x. cust_id (g x) = cust_id x" and "appointments w' = appointments w"
  shows "select_customer_for_organization (map g cs) org w' = g (select_customer_for_organization cs org w)"
  using assms by (simp add: select_customer_for_organization_def find_map customer_has_appointment_in_organization_def
      hd_map split: option.split)

lemma candidates_map:
  assumes ok: "customers_ok w" and ok': "customers_ok w'" and w': "customers w' = map g (customers w)"
    and g: "\<And>x. cust_id (g x) = cust_id x" "\<And>x. cust_phone_number_normalized (g x) = cust_phone_number_normalized x"
    and m: "\<And>x. x \<in> set (customers w) \<Longrightarrow> cust_phone_number_normalized x \<noteq> p \<Longrightarrow>
      email_matches em (g x) = email_matches em x"
  shows "candidate_customers_for_contact p em w' = map g (candidate_customers_for_contact p em w)"
proof -
  have "[x \<leftarrow> customers w. email_matches em (g x) \<and> cust_phone_number_normalized x \<noteq> p] =
      [x \<leftarrow> customers w. email_matches em x \<and> cust_phone_number_normalized x \<noteq> p]"
    by (intro filter_cong) (auto simp: m)
  then show ?thesis
    by (simp add: candidates_eq [OF ok] candidates_eq [OF ok'] w' phone_owner_def filter_map o_def g sort_key_map)
qed

lemma customer_update_ok:
  assumes ok: "customers_ok w" and c: "c \<in> set (customers w)" and r: "cust_id r = cust_id c"
    "cust_phone_number_normalized r = cust_phone_number_normalized c"
  shows "customer_update r w = Inr (w\<lparr>customers := tbl_set cust_id r (customers w)\<rparr>)"
proof -
  have "cust_phone_number_normalized r \<notin> cust_phone_number_normalized ` set (tbl_del cust_id (cust_id r) (customers w))"
    using ok c r by (auto simp: customers_ok_def table_simps distinct_map dest: inj_onD)
  then show ?thesis by (simp add: customer_update_def db_update_ok customer_violates_def)
qed

lemma customers_ok_set:
  assumes "customers_ok w" and "c \<in> set (customers w)" and "cust_id r = cust_id c"
    and "cust_phone_number_normalized r = cust_phone_number_normalized c"
  shows "customers_ok (w\<lparr>customers := tbl_set cust_id r (customers w)\<rparr>)"
proof -
  have "map cust_phone_number_normalized (tbl_set cust_id r (customers w)) = map cust_phone_number_normalized (customers w)"
    using assms by (intro map_tbl_set_same [of _ _ c]) (auto simp: customers_ok_def)
  then show ?thesis using assms(1) by (simp add: customers_ok_def tbl_ok_set)
qed

text \<open>A contact resolves to a row that is stored as returned; only the customers table changes.\<close>

lemma candidates_mem:
  assumes "customers_ok w" and "c \<in> set (candidate_customers_for_contact p em w)"
  shows "c \<in> set (customers w) \<and> (cust_phone_number_normalized c = p \<or> email_matches em c)"
  using assms(2) by (auto simp: candidates_eq [OF assms(1)] phone_owner_def)

lemma candidates_Nil:
  assumes "customers_ok w" and "candidate_customers_for_contact p em w = []" and "c \<in> set (customers w)"
  shows "cust_phone_number_normalized c \<noteq> p \<and> \<not> email_matches em c"
  using assms set_sort [of cust_id "[c \<leftarrow> customers w. email_matches em c \<and> cust_phone_number_normalized c \<noteq> p]"]
  by (auto simp: candidates_eq phone_owner_def filter_empty_conv simp del: set_sort)

definition new_customer :: "string \<Rightarrow> string \<Rightarrow> string \<Rightarrow> string option \<Rightarrow> string option \<Rightarrow> world \<Rightarrow> customer" where
  "new_customer n ph p em lang w =
     \<lparr>cust_id = tbl_fresh cust_id (customers w), cust_full_name = n, cust_phone_number = ph,
      cust_phone_number_normalized = p, cust_email = em, cust_preferred_language = lang\<rparr>"

lemma resolve_cases:
  fixes em :: "string option"
  assumes ok: "customers_ok w" and name: "strip n \<noteq> []" and ph: "normalize_phone_number ph = Inr p"
  defines "cs \<equiv> candidate_customers_for_contact p (normalize_email em) w"
  shows "resolve_or_create_customer org n ph em lang w =
    (if cs = [] then
       (let r = new_customer (strip n) ph p (normalize_email em) lang w in
        Inr (r, w\<lparr>customers := customers w @ [r]\<rparr>))
     else
       (let r = contact_updates (strip n) (normalize_email em) lang (select_customer_for_organization cs org w) in
        Inr (r, w\<lparr>customers := tbl_set cust_id r (customers w)\<rparr>)))"
proof (cases "cs = []")
  case True
  have "p \<notin> cust_phone_number_normalized ` set (customers w)"
    using candidates_Nil [OF ok True [unfolded cs_def]] by blast
  then show ?thesis
    using True name ph by (simp add: resolve_or_create_customer_def Let_def cs_def customer_create_def db_insert_def
        customer_violates_def new_customer_def)
next
  case False
  let ?c = "select_customer_for_organization cs org w"
  let ?r = "contact_updates (strip n) (normalize_email em) lang ?c"
  have mem: "?c \<in> set (customers w)"
    using select_mem [OF False] candidates_mem [OF ok] unfolding cs_def by blast
  have up: "customer_update ?r w = Inr (w\<lparr>customers := tbl_set cust_id ?r (customers w)\<rparr>)"
    by (rule customer_update_ok [OF ok mem]) simp_all
  have same: "w\<lparr>customers := tbl_set cust_id ?r (customers w)\<rparr> = w" if "?r = ?c"
  proof -
    have "tbl_set cust_id ?c (customers w) = customers w"
      using mem ok unfolding tbl_set_def by (intro map_idI) (auto simp: customers_ok_def dest: tbl_ok_inj)
    then show ?thesis using that by simp
  qed
  show ?thesis
  proof (cases "?r = ?c")
    case True
    then show ?thesis
      using False name ph same [OF True] by (simp add: resolve_or_create_customer_def Let_def flip: cs_def)
  next
    case ne: False
    then show ?thesis
      using False name ph up by (simp add: resolve_or_create_customer_def Let_def flip: cs_def)
  qed
qed

lemma resolve_Inr:
  assumes "resolve_or_create_customer org n ph em lang w = Inr (c, w')"
  shows "strip n \<noteq> [] \<and> (\<exists>p. normalize_phone_number ph = Inr p)"
  using assms by (auto simp: resolve_or_create_customer_def Let_def split: if_splits sum.splits)

lemma new_customer_ok:
  assumes "customers_ok w" and "candidate_customers_for_contact p em w = []"
  shows "customers_ok (w\<lparr>customers := customers w @ [new_customer n ph p em lang w]\<rparr>)"
proof -
  have "p \<notin> cust_phone_number_normalized ` set (customers w)" using candidates_Nil [OF assms] by blast
  then show ?thesis using assms(1) by (simp add: customers_ok_def tbl_ok_append new_customer_def)
qed

lemma resolve_effect:
  assumes ok: "customers_ok w" and r: "resolve_or_create_customer org n ph em lang w = Inr (c, w')"
  shows "customers_ok w' \<and> w' = w\<lparr>customers := customers w'\<rparr> \<and> customer_get (cust_id c) w' = Some c \<and>
    (\<forall>x \<in> set (customers w). cust_id x \<noteq> cust_id c \<longrightarrow> x \<in> set (customers w')) \<and>
    (\<exists>new. map cust_phone_number_normalized (customers w') = map cust_phone_number_normalized (customers w) @ new) \<and>
    cust_full_name c = strip n \<and>
    (\<exists>p. normalize_phone_number ph = Inr p \<and>
       (cust_phone_number_normalized c = p \<or> (normalize_email em \<noteq> None \<and> cust_email c = normalize_email em)))"
proof -
  from resolve_Inr [OF r] obtain p where name: "strip n \<noteq> []" and ph: "normalize_phone_number ph = Inr p" by blast
  let ?cs = "candidate_customers_for_contact p (normalize_email em) w"
  note rc = resolve_cases [OF ok name ph, of org em lang]
  show ?thesis
  proof (cases "?cs = []")
    case True
    have c: "c = new_customer (strip n) ph p (normalize_email em) lang w" and w': "w' = w\<lparr>customers := customers w @ [c]\<rparr>"
      using r rc True by (auto simp: Let_def)
    have "customers_ok w'" using new_customer_ok [OF ok True] by (simp add: w' c)
    moreover have "customer_get (cust_id c) w' = Some c"
      using tbl_get_mem [of cust_id "customers w'" c] \<open>customers_ok w'\<close> by (simp add: customer_get_def customers_ok_def w')
    ultimately show ?thesis using ph by (simp add: w') (simp add: c new_customer_def)
  next
    case False
    let ?s = "select_customer_for_organization ?cs org w"
    have c: "c = contact_updates (strip n) (normalize_email em) lang ?s"
      and w': "w' = w\<lparr>customers := tbl_set cust_id c (customers w)\<rparr>"
      using r rc False by (auto simp: Let_def)
    have mem: "?s \<in> set (customers w)" and m: "cust_phone_number_normalized ?s = p \<or> email_matches (normalize_email em) ?s"
      using select_mem [OF False] candidates_mem [OF ok] by blast+
    have "customers_ok w'" unfolding w' by (rule customers_ok_set [OF ok mem]) (simp_all add: c)
    moreover have "c \<in> set (customers w')" using mem by (auto simp: w' set_tbl_set c image_iff)
    then have "customer_get (cust_id c) w' = Some c"
      using \<open>customers_ok w'\<close> by (simp add: customer_get_def customers_ok_def tbl_get_mem)
    moreover have "map cust_phone_number_normalized (customers w') = map cust_phone_number_normalized (customers w)"
      unfolding w' using ok mem by (simp add: map_tbl_set_same [of _ _ ?s] customers_ok_def c)
    moreover have "x \<in> set (customers w')" if "x \<in> set (customers w)" "cust_id x \<noteq> cust_id c" for x
      using that by (auto simp: w' set_tbl_set)
    moreover have "cust_phone_number_normalized c = p \<or> (normalize_email em \<noteq> None \<and> cust_email c = normalize_email em)"
      using m by (auto simp: c contact_updates_def email_matches_def split: option.splits)
    ultimately show ?thesis using ph by (simp add: w') (simp add: c)
  qed
qed

lemma email_matches_Some: "email_matches em c \<Longrightarrow> \<exists>m. em = Some m"
  by (cases em) (simp_all add: email_matches_def)

lemma resolve_stable:
  assumes ok: "customers_ok w" and r: "resolve_or_create_customer org n ph em lang w = Inr (c, w')"
  shows "resolve_or_create_customer org n ph em lang w' = Inr (c, w')"
proof -
  from resolve_Inr [OF r] obtain p where name: "strip n \<noteq> []" and ph: "normalize_phone_number ph = Inr p" by blast
  let ?em = "normalize_email em" and ?f = "contact_updates (strip n) (normalize_email em) lang"
  let ?cs = "candidate_customers_for_contact p ?em w"
  have ok': "customers_ok w'" using resolve_effect [OF ok r] by blast
  note rc = resolve_cases [OF ok name ph, of org em lang] and rc' = resolve_cases [OF ok' name ph, of org em lang]
  have idem: "tbl_set cust_id c (customers w') = customers w'" if "c \<in> set (customers w')"
    using that ok' unfolding tbl_set_def by (intro map_idI) (auto simp: customers_ok_def dest: tbl_ok_inj)
  have stored: "c \<in> set (customers w')"
    using resolve_effect [OF ok r] by (auto simp: customer_get_def dest: tbl_get_Some)
  have "\<exists>cs. cs \<noteq> [] \<and> candidate_customers_for_contact p ?em w' = cs \<and> ?f (select_customer_for_organization cs org w') = c"
  proof (cases "?cs = []")
    case True
    have c: "c = new_customer (strip n) ph p ?em lang w" and w': "w' = w\<lparr>customers := customers w @ [c]\<rparr>"
      using r rc True by (auto simp: Let_def)
    have "phone_owner p w' = [c]" and
      "[x \<leftarrow> customers w'. email_matches ?em x \<and> cust_phone_number_normalized x \<noteq> p] = []"
      using candidates_Nil [OF ok True] by (auto simp: phone_owner_def w' filter_empty_conv) (auto simp: c new_customer_def)
    then have "candidate_customers_for_contact p ?em w' = [c]" by (simp add: candidates_eq [OF ok'])
    moreover have "?f (select_customer_for_organization [c] org w') = c"
      by (simp add: select_customer_for_organization_def c new_customer_def contact_updates_def)
    ultimately show ?thesis by blast
  next
    case False
    let ?s = "select_customer_for_organization ?cs org w"
    have c: "c = ?f ?s" and w': "w' = w\<lparr>customers := tbl_set cust_id c (customers w)\<rparr>"
      using r rc False by (auto simp: Let_def)
    have mem: "?s \<in> set (customers w)" and m: "cust_phone_number_normalized ?s = p \<or> email_matches ?em ?s"
      using select_mem [OF False] candidates_mem [OF ok] by blast+
    define g where "g = (\<lambda>x. if x = ?s then c else x)"
    have g: "cust_id (g x) = cust_id x" "cust_phone_number_normalized (g x) = cust_phone_number_normalized x" for x
      by (simp_all add: g_def c)
    have rows: "customers w' = map g (customers w)"
      using ok mem by (auto simp: w' tbl_set_def g_def c customers_ok_def dest: tbl_ok_inj)
    have em: "email_matches ?em (g x) = email_matches ?em x"
      if "x \<in> set (customers w)" "cust_phone_number_normalized x \<noteq> p" for x
      using m that by (auto simp: g_def c email_matches_updated dest: email_matches_Some)
    have "candidate_customers_for_contact p ?em w' = map g ?cs"
      by (rule candidates_map [OF ok ok' rows g em])
    moreover have "select_customer_for_organization (map g ?cs) org w' = g ?s"
      by (rule select_map [OF False g(1)]) (simp add: w')
    moreover have "?f (g ?s) = c" by (simp add: g_def c)
    ultimately show ?thesis using False by (intro exI [of _ "map g ?cs"]) simp
  qed
  then show ?thesis using rc' idem [OF stored] by (auto simp: Let_def)
qed

section \<open>The checkout of a paid booking\<close>

definition checkout_payment :: "env \<Rightarrow> appointment \<Rightarrow> service \<Rightarrow> int \<Rightarrow> string \<Rightarrow> world \<Rightarrow> payment" where
  "checkout_payment ev a s amount currency w =
     (let i = tbl_fresh pay_id (payments w); session = mock_create_checkout_session ev i in
      \<lparr>pay_id = i, pay_appointment_id = apt_id a, pay_organization_id = apt_organization_id a,
       pay_amount_minor = amount, pay_currency = currency, pay_provider_name = ''mock'',
       pay_provider_payment_intent_id = Some (cs_payment_intent_id session),
       pay_provider_checkout_session_id = Some (cs_checkout_session_id session),
       pay_provider_checkout_url = Some (cs_checkout_url session), pay_status = PAY_REQUIRES_ACTION,
       pay_payment_type = svc_payment_type s, pay_paid_at = None, pay_created_at = now ev\<rparr>)"

lemma tbl_set_append_fresh:
  "ident r0 = ident r \<Longrightarrow> ident r \<notin> ident ` set t \<Longrightarrow> tbl_set ident r (t @ [r0]) = t @ [r]"
  by (auto simp: tbl_set_def image_iff intro!: map_idI)

lemma open_checkout_eq:
  assumes "0 \<le> amount"
  shows "\<exists>session. open_checkout ev a s amount currency w =
    Inr ((checkout_payment ev a s amount currency w, session),
         w\<lparr>payments := payments w @ [checkout_payment ev a s amount currency w]\<rparr>)"
  using assms
  by (simp add: open_checkout_def payment_create_def payment_update_def db_insert_def db_update_def payment_violates_def
      checkout_payment_def mock_create_checkout_session_def payment_status_of_value_def Let_def tbl_set_append_fresh)

lemma open_checkout_Inr:
  assumes "open_checkout ev a s amount currency w = Inr (r, w')"
  shows "0 \<le> amount"
  using assms by (auto simp: open_checkout_def payment_create_def db_insert_def payment_violates_def
      split: sum.splits if_splits)

lemma create_checkout_eq:
  fixes ev :: env
  assumes s: "appointment_service a w = Some s" "svc_requires_payment s" and amt: "required_amount_minor s = Inr amount" "0 \<le> amount"
    and cur: "svc_currency s = Some c" "c \<noteq> []"
  defines "p \<equiv> checkout_payment ev a s amount (upper c) w"
  shows "\<exists>session w'. create_checkout_session_for_appointment ev a ''mock'' w = Inr (Some (p, session), w') \<and>
    business w' = business (w\<lparr>payments := payments w @ [p]\<rparr>)"
proof -
  from open_checkout_eq [OF amt(2)] obtain session where
    "open_checkout ev a s amount (upper c) w = Inr ((p, session), w\<lparr>payments := payments w @ [p]\<rparr>)"
    unfolding p_def by blast
  then show ?thesis
    using assms by (simp add: create_checkout_session_for_appointment_def Let_def upper_def)
qed

section \<open>The schedule does not read the customers\<close>

lemma customers_fields:
  "provider_services (w\<lparr>customers := cs\<rparr>) = provider_services w" "services (w\<lparr>customers := cs\<rparr>) = services w"
  "providers (w\<lparr>customers := cs\<rparr>) = providers w" "appointments (w\<lparr>customers := cs\<rparr>) = appointments w"
  "availabilities (w\<lparr>customers := cs\<rparr>) = availabilities w" "date_overrides (w\<lparr>customers := cs\<rparr>) = date_overrides w"
  by simp_all

lemma readers_customers [simp]:
  "service_list a b c (w\<lparr>customers := cs\<rparr>) = service_list a b c w"
  "service_get_by_ids ids (w\<lparr>customers := cs\<rparr>) = service_get_by_ids ids w"
  "service_get sid (w\<lparr>customers := cs\<rparr>) = service_get sid w"
  "provider_get p (w\<lparr>customers := cs\<rparr>) = provider_get p w"
  "location_get l (w\<lparr>customers := cs\<rparr>) = location_get l w"
  "organization_get o' (w\<lparr>customers := cs\<rparr>) = organization_get o' w"
  "provider_location_get p l (w\<lparr>customers := cs\<rparr>) = provider_location_get p l w"
  "provider_service_get p sid (w\<lparr>customers := cs\<rparr>) = provider_service_get p sid w"
  "service_location_get sid l (w\<lparr>customers := cs\<rparr>) = service_location_get sid l w"
  "active_availabilities p (w\<lparr>customers := cs\<rparr>) = active_availabilities p w"
  "active_overrides p sd ed (w\<lparr>customers := cs\<rparr>) = active_overrides p sd ed w"
  "time_off_list_by_provider p r r' (w\<lparr>customers := cs\<rparr>) = time_off_list_by_provider p r r' w"
  "appointment_list_blocking_for_provider p r r' ex (w\<lparr>customers := cs\<rparr>) = appointment_list_blocking_for_provider p r r' ex w"
  by (simp_all only: service_list_def customers_fields) (simp_all add: service_get_by_ids_def service_get_def provider_get_def location_get_def
      organization_get_def provider_location_get_def provider_service_get_def service_location_get_def
      active_availabilities_def availability_list_by_provider_def active_overrides_def
      date_override_list_by_provider_def time_off_list_by_provider_def appointment_list_blocking_for_provider_def)

lemma searches_customers [simp]:
  "resolve_service_timing p l s b b' (w\<lparr>customers := cs\<rparr>) = resolve_service_timing p l s b b' w"
  "provider_timezone prov (w\<lparr>customers := cs\<rparr>) = provider_timezone prov w"
  "search_blocked_intervals p r0 r1 (w\<lparr>customers := cs\<rparr>) = search_blocked_intervals p r0 r1 w"
  by (simp_all only: resolve_service_timing_def provider_timezone_def search_blocked_intervals_def
      list_relevant_blocking_appointments_def max_provider_buffers_def build_service_buffer_lookup_def readers_customers)

lemma get_available_slots_customers [simp]:
  "get_available_slots ev p l sd ed s (w\<lparr>customers := cs\<rparr>) = get_available_slots ev p l sd ed s w"
  by (simp only: get_available_slots_def readers_customers searches_customers)

lemma customers_frame [simp]:
  "schedule_ok (w\<lparr>customers := cs\<rparr>) = schedule_ok w" "fresh_tokens ev (w\<lparr>customers := cs\<rparr>) = fresh_tokens ev w"
  "slot_query ev (w\<lparr>customers := cs\<rparr>) p l s z timing = slot_query ev w p l s z timing"
  "catalogue_ok (w\<lparr>customers := cs\<rparr>) = catalogue_ok w"
  "appointments_sound (w\<lparr>customers := cs\<rparr>) = appointments_sound w"
  by (simp_all only: schedule_ok_def times_ok_def still_assigned_def fresh_tokens_def slot_query_def catalogue_ok_def
      appointments_sound_def customers_fields readers_customers searches_customers)

section \<open>What discovery lists passes validation\<close>

definition catalogue_keys :: "world \<Rightarrow> bool" where
  "catalogue_keys w \<longleftrightarrow>
     tbl_ok org_id (organizations w) \<and> tbl_ok loc_id (locations w) \<and> tbl_ok prov_id (providers w)"

lemma visible_organization:
  assumes "catalogue_keys w"
  shows "get_visible_organization i w = (case organization_get i w of None \<Rightarrow> None | Some o' \<Rightarrow> if org_is_active o' then Some o' else None)"
proof (cases "organization_get i w")
  case None
  then show ?thesis by (auto simp: get_visible_organization_def organization_get_def tbl_get_None find_None_iff
        split: option.split dest!: tbl_get_Some)
next
  case (Some o')
  then have m: "o' \<in> set (organizations w)" "org_id o' = i" by (auto simp: organization_get_def dest: tbl_get_Some)
  have u: "x = o'" if "x \<in> set (organizations w)" "org_id x = i" for x
    using assms that m by (auto simp: catalogue_keys_def dest: tbl_ok_inj)
  show ?thesis
  proof (cases "find (\<lambda>x. org_id x = i \<and> org_is_active x) (organizations w)")
    case None
    then show ?thesis using m Some by (auto simp: get_visible_organization_def find_None_iff)
  next
    case s: (Some y)
    then have "y \<in> set (organizations w)" "org_id y = i" "org_is_active y" by (auto simp: find_Some_iff)
    with u have "y = o'" by blast
    then show ?thesis using s Some \<open>org_is_active y\<close> by (simp add: get_visible_organization_def)
  qed
qed

lemma get_visible_location_Inr:
  "catalogue_keys w \<Longrightarrow> get_visible_location i w = Inr l \<longleftrightarrow>
     location_get i w = Some l \<and> loc_is_active l \<and>
     (\<exists>o'. organization_get (loc_organization_id l) w = Some o' \<and> org_is_active o')"
  by (auto simp: get_visible_location_def visible_organization split: option.splits if_splits)

lemma get_visible_service_Inr:
  "catalogue_keys w \<Longrightarrow> get_visible_service i w = Inr s \<longleftrightarrow>
     service_get i w = Some s \<and> svc_is_active s \<and>
     (\<exists>o'. organization_get (svc_organization_id s) w = Some o' \<and> org_is_active o')"
  by (auto simp: get_visible_service_def visible_organization split: option.splits if_splits)

lemma validate_booking_entities_Inr:
  "validate_booking_entities payload w = Inr s \<longleftrightarrow>
    (\<exists>o' l p. organization_get (dbp_organization_id payload) w = Some o' \<and> org_is_active o' \<and>
       location_get (dbp_location_id payload) w = Some l \<and> loc_is_active l \<and> loc_organization_id l = org_id o' \<and>
       provider_get (dbp_provider_id payload) w = Some p \<and> prov_is_active p \<and> prov_organization_id p = org_id o' \<and>
       service_get (dbp_service_id payload) w = Some s \<and> svc_is_active s \<and> svc_organization_id s = org_id o' \<and>
       provider_location_get (prov_id p) (loc_id l) w \<noteq> None \<and> provider_service_get (prov_id p) (svc_id s) w \<noteq> None \<and>
       service_location_get (svc_id s) (loc_id l) w \<noteq> None)"
  by (auto simp: validate_booking_entities_def split: option.splits if_splits)

lemma assigned_get:
  "provider_service_get p s w \<noteq> None \<longleftrightarrow> (\<exists>x \<in> set (provider_services w). ps_provider_id x = p \<and> ps_service_id x = s)"
  "provider_location_get p l w \<noteq> None \<longleftrightarrow> (\<exists>x \<in> set (provider_locations w). pl_provider_id x = p \<and> pl_location_id x = l)"
  "service_location_get s l w \<noteq> None \<longleftrightarrow> (\<exists>x \<in> set (service_locations w). sl_service_id x = s \<and> sl_location_id x = l)"
  by (auto simp: provider_service_get_def provider_location_get_def service_location_get_def find_None_iff)

lemma listed_provider_validates:
  assumes k: "catalogue_keys w"
    and ps: "list_visible_providers_for_service_at_location l s w = Inr ps" "p \<in> set ps"
    and f: "dbp_location_id payload = l" "dbp_service_id payload = s" "dbp_provider_id payload = prov_id p"
      "dbp_organization_id payload = prov_organization_id p"
  shows "\<exists>svc. service_get s w = Some svc \<and> validate_booking_entities payload w = Inr svc"
proof -
  from ps(1) obtain loc svc where lv: "get_visible_location l w = Inr loc" and sv: "get_visible_service s w = Inr svc"
    by (auto simp: list_visible_providers_for_service_at_location_def split: sum.splits)
  from lv obtain o' where loc: "location_get l w = Some loc" "loc_is_active loc"
    "organization_get (loc_organization_id loc) w = Some o'" "org_is_active o'"
    by (auto simp: get_visible_location_Inr [OF k])
  have svc: "service_get s w = Some svc" "svc_is_active svc" using sv by (auto simp: get_visible_service_Inr [OF k])
  have "ps \<noteq> []" using ps(2) by auto
  with ps(1) have sl: "svc_organization_id svc = loc_organization_id loc" "service_location_get (svc_id svc) (loc_id loc) w \<noteq> None"
    by (auto simp: list_visible_providers_for_service_at_location_def lv sv split: if_splits)
  have pe: "ps = sort_key prov_id [p \<leftarrow> providers w.
             \<exists>ps \<in> set (provider_services w). ps_provider_id ps = prov_id p \<and>
             (\<exists>pl \<in> set (provider_locations w). pl_provider_id pl = prov_id p \<and>
                pl_location_id pl = loc_id loc \<and> ps_service_id ps = svc_id svc \<and>
                prov_organization_id p = loc_organization_id loc \<and> prov_is_active p)]"
    using ps(1) sl by (simp add: list_visible_providers_for_service_at_location_def lv sv)
  have p: "p \<in> set (providers w)" "prov_organization_id p = loc_organization_id loc" "prov_is_active p"
      "\<exists>x \<in> set (provider_services w). ps_provider_id x = prov_id p \<and> ps_service_id x = svc_id svc"
      "\<exists>x \<in> set (provider_locations w). pl_provider_id x = prov_id p \<and> pl_location_id x = loc_id loc"
    using ps(2) unfolding pe by (simp_all, blast+)
  have "provider_get (prov_id p) w = Some p"
    using k p(1) by (simp add: provider_get_def catalogue_keys_def tbl_get_mem)
  moreover have "org_id o' = loc_organization_id loc"
    using loc(3) by (auto simp: organization_get_def dest: tbl_get_Some)
  ultimately have "validate_booking_entities payload w = Inr svc"
    using loc svc sl p(1-3) f p(4,5) [folded assigned_get] unfolding validate_booking_entities_Inr
    by (intro exI [of _ o'] exI [of _ loc] exI [of _ p]) simp
  with svc(1) show ?thesis by blast
qed

section \<open>The booking\<close>

lemma validated_timing:
  assumes "validate_booking_entities payload w = Inr s"
  shows "\<exists>t. resolve_service_timing (dbp_provider_id payload) (dbp_location_id payload) (Some (dbp_service_id payload)) True True w = Inr t"
proof -
  from assms obtain o' l p where v: "organization_get (dbp_organization_id payload) w = Some o'"
    "location_get (dbp_location_id payload) w = Some l" "loc_is_active l" "loc_organization_id l = org_id o'"
    "provider_get (dbp_provider_id payload) w = Some p" "prov_organization_id p = org_id o'"
    "service_get (dbp_service_id payload) w = Some s" "svc_is_active s" "svc_organization_id s = org_id o'"
    "provider_location_get (prov_id p) (loc_id l) w \<noteq> None" "provider_service_get (prov_id p) (svc_id s) w \<noteq> None"
    "service_location_get (svc_id s) (loc_id l) w \<noteq> None"
    by (auto simp: validate_booking_entities_Inr)
  then show ?thesis by (auto simp: resolve_service_timing_def)
qed

lemma validated_entities:
  assumes "validate_booking_entities payload w = Inr s" and "customer_get (cust_id c) w = Some c'"
  shows "check_booking_entities (appointment_request payload s c t ch) w = Inr (dbp_organization_id payload)"
proof -
  from assms(1) obtain o' l p where v: "organization_get (dbp_organization_id payload) w = Some o'" "org_is_active o'"
    "location_get (dbp_location_id payload) w = Some l" "loc_is_active l" "loc_organization_id l = org_id o'"
    "provider_get (dbp_provider_id payload) w = Some p" "prov_is_active p" "prov_organization_id p = org_id o'"
    "service_get (dbp_service_id payload) w = Some s" "svc_is_active s" "svc_organization_id s = org_id o'"
    "provider_location_get (prov_id p) (loc_id l) w \<noteq> None" "service_location_get (svc_id s) (loc_id l) w \<noteq> None"
    by (auto simp: validate_booking_entities_Inr)
  have "org_id o' = dbp_organization_id payload"
    using v(1) by (auto simp: organization_get_def dest: tbl_get_Some)
  with v assms(2) show ?thesis
    by (auto simp: check_booking_entities_def appointment_request_def RESCHEDULABLE_STATUSES_def Let_def)
qed

definition unreferenced :: "appointment \<Rightarrow> world \<Rightarrow> bool" where
  "unreferenced a w \<longleftrightarrow> (\<forall>p \<in> set (payments w). pay_appointment_id p \<noteq> apt_id a)"

text \<open>The summary of a booking whose checkout was opened just now.\<close>

definition checkout_summary :: "env \<Rightarrow> payment \<Rightarrow> world \<Rightarrow> payment_summary" where
  "checkout_summary ev p w =
     (let latest_refund = refund_get_latest_for_payment (pay_id p) w in
      \<lparr>psm_payment_required = True, psm_payment_status = Some PAY_REQUIRES_ACTION,
       psm_amount_due_minor = Some (pay_amount_minor p), psm_currency = Some (pay_currency p),
       psm_checkout_url = pay_provider_checkout_url p,
       psm_checkout_session_id = pay_provider_checkout_session_id p,
       psm_provider_name = Some (pay_provider_name p), psm_expires_at = Some (pending_expires_at ev p),
       psm_refund_status = map_option rf_status latest_refund,
       psm_refund_amount_minor = map_option rf_amount_minor latest_refund,
       psm_refund_processed_at = Option.bind latest_refund rf_processed_at\<rparr>)"

lemma latest_single: "latest_by k [x] = Some x"
  by (simp add: latest_by_def)

lemma finish_paid:
  assumes s: "appointment_service a w = Some s" "svc_requires_payment s" and amt: "required_amount_minor s = Inr amount" "0 \<le> amount"
    and cur: "svc_currency s = Some c" "c \<noteq> []" and u: "unreferenced a w"
  shows "\<exists>p w'. finish_booking ev s cu a w = (Inr (a, cu, checkout_summary ev p w'), w') \<and>
    business w' = business (w\<lparr>payments := payments w @ [p]\<rparr>) \<and> pay_appointment_id p = apt_id a \<and>
    pay_amount_minor p = amount \<and> pay_status p = PAY_REQUIRES_ACTION \<and>
    pay_organization_id p = apt_organization_id a \<and> pay_currency p = upper c"
proof -
  let ?p = "checkout_payment ev a s amount (upper c) w"
  from create_checkout_eq [OF s amt cur] obtain session w' where
    ck: "create_checkout_session_for_appointment ev a ''mock'' w = Inr (Some (?p, session), w')"
    and b: "business w' = business (w\<lparr>payments := payments w @ [?p]\<rparr>)" by blast
  have p: "pay_appointment_id ?p = apt_id a" "pay_amount_minor ?p = amount" "pay_status ?p = PAY_REQUIRES_ACTION"
    "pay_organization_id ?p = apt_organization_id a" "pay_currency ?p = upper c"
    by (simp_all add: checkout_payment_def Let_def)
  have "[q \<leftarrow> payments w'. pay_appointment_id q = apt_id a] = [?p]"
    using business_eqD [OF b] u p(1) by (auto simp: unreferenced_def filter_empty_conv)
  then have "payment_get_latest_for_appointment (apt_id a) w' = Some ?p"
    by (simp add: payment_get_latest_for_appointment_def latest_single)
  moreover have "appointment_service a w' = Some s"
    using s(1) business_eqD [OF b] by (simp add: appointment_service_def service_get_def split: option.splits)
  ultimately have "get_customer_payment_summary ev a w' = Inr (checkout_summary ev ?p w')"
    using s(2) amt(1) p(3) by (simp add: get_customer_payment_summary_def checkout_summary_def Let_def)
  then have "finish_booking ev s cu a w = (Inr (a, cu, checkout_summary ev ?p w'), w')"
    using ck s(2) by (simp add: finish_booking_def)
  with b p show ?thesis by blast
qed

lemma finish_free:
  assumes "appointment_service a w = Some s" "\<not> svc_requires_payment s"
  shows "finish_booking ev s cu a w = (Inr (a, cu, no_summary), w)"
  using assms by (simp add: finish_booking_def get_customer_payment_summary_def)

lemma create_checkout_Inr:
  assumes "create_checkout_session_for_appointment ev a ''mock'' w = Inr r" and "appointment_service a w = Some s"
    and "svc_requires_payment s"
  shows "\<exists>amount c. required_amount_minor s = Inr amount \<and> 0 \<le> amount \<and> svc_currency s = Some c \<and> c \<noteq> []"
proof -
  obtain amount where amt: "required_amount_minor s = Inr amount"
    using assms by (auto simp: create_checkout_session_for_appointment_def split: sum.splits)
  have "upper (case svc_currency s of None \<Rightarrow> [] | Some c \<Rightarrow> c) \<noteq> []"
    using assms amt by (auto simp: create_checkout_session_for_appointment_def Let_def)
  then obtain c where cur: "svc_currency s = Some c" "c \<noteq> []"
    by (auto simp: upper_def split: option.splits)
  have "\<exists>r' w2. open_checkout ev a s amount (upper c) w = Inr (r', w2)"
    using assms amt cur by (auto simp: create_checkout_session_for_appointment_def Let_def upper_def split: sum.splits)
  with open_checkout_Inr amt cur show ?thesis by blast
qed

lemma finish_Inr:
  assumes "finish_booking ev s cu a w = (Inr r, w')" and "appointment_service a w = Some s" and "svc_requires_payment s"
  shows "\<exists>amount c. required_amount_minor s = Inr amount \<and> 0 \<le> amount \<and> svc_currency s = Some c \<and> c \<noteq> []"
proof -
  from assms obtain ck w1 where "create_checkout_session_for_appointment ev a ''mock'' w = Inr (ck, w1)"
    by (auto simp: finish_booking_def split: sum.splits prod.splits)
  then show ?thesis using create_checkout_Inr [OF _ assms(2,3)] by blast
qed

lemma create_appointment_places:
  assumes "create_appointment ev payload actor i w = Some (Inr (a, w'))"
  shows "check_booking_entities payload w = Inr (apt_organization_id a) \<and> apt_location_id a = apc_location_id payload \<and>
    apt_booking_channel a = apc_booking_channel payload"
proof -
  from assms obtain org s e w1 where en: "check_booking_entities payload w = Inr org"
    and cr: "appointment_create ev \<lparr>apt_id = 0, apt_booking_reference = [], apt_booking_access_token = [],
              apt_organization_id = org, apt_location_id = apc_location_id payload,
              apt_provider_id = apc_provider_id payload, apt_service_id = apc_service_id payload,
              apt_customer_id = apc_customer_id payload, apt_start_datetime = s,
              apt_end_datetime = e, apt_status = apc_status payload,
              apt_booking_channel = apc_booking_channel payload, apt_notes = apc_notes payload\<rparr> w = Inr (a, w1)"
    by (fastforce simp: create_appointment_def split: sum.splits option.splits)
  with appointment_create_eq [OF cr] show ?thesis by auto
qed

text \<open>The rows a booking names all belong to its organization.\<close>

definition one_tenant :: "appointment \<Rightarrow> world \<Rightarrow> bool" where
  "one_tenant a w \<longleftrightarrow>
     map_option loc_organization_id (location_get (apt_location_id a) w) = Some (apt_organization_id a) \<and>
     map_option prov_organization_id (provider_get (apt_provider_id a) w) = Some (apt_organization_id a) \<and>
     map_option svc_organization_id (appointment_service a w) = Some (apt_organization_id a)"

lemma public_booking_steps:
  assumes b: "create_public_booking ev payload ch w = Some (Inr r, w')"
    and cat: "catalogue_ok w" and s: "appointments_sound w" and cu: "customers_ok w"
  shows "\<exists>svc start c w1 a w2. validate_booking_entities payload w = Inr svc \<and>
    ensure_aware_utc (dbp_scheduled_start payload) = Inr start \<and> now ev < start \<and>
    resolve_or_create_customer (dbp_organization_id payload) (dbp_customer_name payload)
      (dbp_customer_phone payload) (dbp_customer_email payload) (dbp_preferred_language payload) w = Inr (c, w1) \<and>
    w1 = w\<lparr>customers := customers w1\<rparr> \<and> customers_ok w1 \<and>
    create_appointment ev (appointment_request payload svc c start ch) ''customer'' None w1 = Some (Inr (a, w2)) \<and>
    business w2 = business (w1\<lparr>appointments := appointments w @ [a]\<rparr>) \<and> appointments_sound w2 \<and>
    apt_id a \<notin> apt_id ` set (appointments w) \<and> apt_start_datetime a = start \<and> apt_customer_id a = cust_id c \<and>
    apt_status a = (if svc_requires_payment svc then APT_PENDING_PAYMENT else APT_CONFIRMED) \<and>
    apt_organization_id a = dbp_organization_id payload \<and> one_tenant a w2 \<and> appointment_service a w2 = Some svc \<and>
    finish_booking ev svc c a w2 = (Inr r, w')"
proof -
  from b obtain svc start c w1 a w2 where v: "validate_booking_entities payload w = Inr svc"
    and t: "ensure_aware_utc (dbp_scheduled_start payload) = Inr start" "now ev < start"
    and rc: "resolve_or_create_customer (dbp_organization_id payload) (dbp_customer_name payload)
      (dbp_customer_phone payload) (dbp_customer_email payload) (dbp_preferred_language payload) w = Inr (c, w1)"
    and ca: "create_appointment ev (appointment_request payload svc c start ch) ''customer'' None w1 = Some (Inr (a, w2))"
    and f: "finish_booking ev svc c a w2 = (Inr r, w')"
    by (auto simp: create_public_booking_def split: sum.splits if_splits option.splits)
  have rs: "customers_ok w1" "w1 = w\<lparr>customers := customers w1\<rparr>" "customer_get (cust_id c) w1 = Some c"
    using resolve_effect [OF cu rc] by blast+
  define cs where "cs = customers w1"
  have w1: "w1 = w\<lparr>customers := cs\<rparr>" using rs(2) by (simp add: cs_def)
  have ok: "catalogue_ok w1" "appointments_sound w1" using cat s by (simp_all add: w1)
  note e = create_appointment_effect [OF ca ok]
  have v1: "validate_booking_entities payload w1 = Inr svc"
    using v by (simp add: w1 validate_booking_entities_Inr)
  from v1 obtain o' l p where ent: "organization_get (dbp_organization_id payload) w1 = Some o'"
    "location_get (dbp_location_id payload) w1 = Some l" "loc_organization_id l = org_id o'"
    "provider_get (dbp_provider_id payload) w1 = Some p" "prov_organization_id p = org_id o'"
    "service_get (dbp_service_id payload) w1 = Some svc" "svc_organization_id svc = org_id o'"
    by (auto simp: validate_booking_entities_Inr)
  have o': "org_id o' = dbp_organization_id payload"
    using ent(1) by (auto simp: organization_get_def dest: tbl_get_Some)
  have pl: "apt_organization_id a = dbp_organization_id payload" "apt_location_id a = dbp_location_id payload"
    using create_appointment_places [OF ca] validated_entities [OF v1 rs(3)] by (auto simp: appointment_request_def)
  have row: "apt_provider_id a = dbp_provider_id payload" "apt_service_id a = Some (dbp_service_id payload)"
    "apt_customer_id a = cust_id c" "apt_start_datetime a = start"
    "apt_status a = (if svc_requires_payment svc then APT_PENDING_PAYMENT else APT_CONFIRMED)"
    using e by (auto simp: appointment_request_def ensure_aware_utc_def)
  have bz: "business w2 = business (w1\<lparr>appointments := appointments w1 @ [a]\<rparr>)" using e by blast
  have same: "locations w2 = locations w1" "providers w2 = providers w1" "services w2 = services w1"
    using business_eqD [OF bz] by simp_all
  have "one_tenant a w2" "appointment_service a w2 = Some svc"
    using ent pl o' row same by (simp_all add: one_tenant_def location_get_def provider_get_def appointment_service_def service_get_def)
  moreover have "appointments w1 = appointments w" by (simp add: w1)
  ultimately show ?thesis using v t rc rs ca bz e row pl f
    by (intro exI [of _ svc] exI [of _ start] exI [of _ c] exI [of _ w1] exI [of _ a] exI [of _ w2]) simp
qed

lemma fresh_unreferenced:
  assumes "references_ok w" and "apt_id a \<notin> apt_id ` set (appointments w)" and "payments w2 = payments w"
  shows "unreferenced a w2"
  unfolding unreferenced_def
proof
  fix p assume "p \<in> set (payments w2)"
  then have "appointment_get (pay_appointment_id p) w \<noteq> None" using assms(1,3) by (simp add: references_ok_def)
  then have "pay_appointment_id p \<in> apt_id ` set (appointments w)" by (force dest: appointment_get_mem)
  then show "pay_appointment_id p \<noteq> apt_id a" using assms(2) by auto
qed

text \<open>What a finished booking leaves of payments, and the summary it returns.\<close>

definition booking_paid_up :: "env \<Rightarrow> service \<Rightarrow> appointment \<Rightarrow> payment_summary \<Rightarrow> world \<Rightarrow> world \<Rightarrow> bool" where
  "booking_paid_up ev svc a summary w w' \<longleftrightarrow>
     (if svc_requires_payment svc
      then \<exists>p. payments w' = payments w @ [p] \<and> pay_appointment_id p = apt_id a \<and> pay_status p = PAY_REQUIRES_ACTION \<and>
             required_amount_minor svc = Inr (pay_amount_minor p) \<and> pay_organization_id p = apt_organization_id a \<and>
             summary = checkout_summary ev p w'
      else payments w' = payments w \<and> summary = no_summary)"

lemma finish_booking_paid_up:
  assumes "appointment_service a w2 = Some svc" and "unreferenced a w2" and "payments w2 = payments w"
    and "svc_requires_payment svc \<Longrightarrow> \<exists>amount c. required_amount_minor svc = Inr amount \<and> 0 \<le> amount \<and> svc_currency svc = Some c \<and> c \<noteq> []"
  shows "\<exists>summary w'. finish_booking ev svc c a w2 = (Inr (a, c, summary), w') \<and> booking_paid_up ev svc a summary w w' \<and>
    business w' = business (w2\<lparr>payments := payments w'\<rparr>)"
proof (cases "svc_requires_payment svc")
  case True
  with assms(4) obtain amount cur where amt: "required_amount_minor svc = Inr amount" and
    "0 \<le> amount" "svc_currency svc = Some cur" "cur \<noteq> []" by blast
  from finish_paid [OF assms(1) True this assms(2), of ev c] obtain p w' where
    f: "finish_booking ev svc c a w2 = (Inr (a, c, checkout_summary ev p w'), w')"
    and b: "business w' = business (w2\<lparr>payments := payments w2 @ [p]\<rparr>)" and p: "pay_appointment_id p = apt_id a"
    "pay_amount_minor p = amount" "pay_status p = PAY_REQUIRES_ACTION"
    "pay_organization_id p = apt_organization_id a" by blast
  have pw: "payments w' = payments w2 @ [p]" using business_eqD [OF b] by simp
  then have "booking_paid_up ev svc a (checkout_summary ev p w') w w'"
    using True p amt assms(3) by (auto simp: booking_paid_up_def)
  with f b pw show ?thesis by metis
next
  case False
  then show ?thesis using finish_free [OF assms(1)] by (auto simp: booking_paid_up_def assms(3) [symmetric])
qed

section \<open>Properties\<close>

text \<open>
  C39. A contact resolves to one customer: when the resolution of a public request succeeds, on a table
  without repeated keys and phone numbers, the row returned carries the normalised phone
  number of the request or the same e-mail address, it is stored with the cleaned name, no phone
  number changes hands and no other row changes, and resolving the same contact again at once, as a
  retried or a second booking does, returns the same row and writes nothing.
\<close>

theorem contact_resolution_stable:
  assumes "customers_ok w" and "resolve_or_create_customer org n ph em lang w = Inr (c, w')"
  shows "customers_ok w' \<and> resolve_or_create_customer org n ph em lang w' = Inr (c, w') \<and>
    customer_get (cust_id c) w' = Some c \<and> cust_full_name c = strip n \<and>
    (\<forall>x \<in> set (customers w). cust_id x \<noteq> cust_id c \<longrightarrow> x \<in> set (customers w')) \<and>
    (\<exists>new. map cust_phone_number_normalized (customers w') = map cust_phone_number_normalized (customers w) @ new) \<and>
    (\<exists>p. normalize_phone_number ph = Inr p \<and>
       (cust_phone_number_normalized c = p \<or> (normalize_email em \<noteq> None \<and> cust_email c = normalize_email em)))"
  using resolve_effect [OF assms] resolve_stable [OF assms] by blast

definition sample_public_payload :: discovery_booking_payload where
  "sample_public_payload =
     \<lparr>dbp_organization_id = 1, dbp_location_id = 1, dbp_provider_id = 1, dbp_service_id = 1,
      dbp_scheduled_start = Aware (9 * hour_us) 0, dbp_customer_name = '' Ada L '', dbp_customer_phone = ''+994 50 777 8899'',
      dbp_customer_email = Some ''Ada@x.az'', dbp_preferred_language = Some ''en''\<rparr>"

theorem contact_resolution_stable_witness:
  "\<exists>c w'. resolve_or_create_customer 1 '' Ada L '' ''+994 50 777 8899'' (Some ''Ada@x.az'') None booked_world = Inr (c, w') \<and>
     resolve_or_create_customer 1 '' Ada L '' ''+994 50 777 8899'' (Some ''Ada@x.az'') None w' = Inr (c, w')"
proof -
  have ok: "customers_ok booked_world" by code_simp
  have "\<exists>r. resolve_or_create_customer 1 '' Ada L '' ''+994 50 777 8899'' (Some ''Ada@x.az'') None booked_world = Inr r"
    by (rule exI [of _ "projr (resolve_or_create_customer 1 '' Ada L '' ''+994 50 777 8899'' (Some ''Ada@x.az'') None booked_world)"]) code_simp
  then obtain c w' where r: "resolve_or_create_customer 1 '' Ada L '' ''+994 50 777 8899'' (Some ''Ada@x.az'') None booked_world = Inr (c, w')"
    by auto
  from contact_resolution_stable [OF ok this] r show ?thesis by blast
qed

text \<open>
  C8. A public booking stays within one organization and asks for the right money: an accepted
  request adds one appointment in the future for the resolved customer, whose location, provider
  and service all belong to the requested organization; it waits for payment exactly when the
  service requires one, and then exactly one payment of the amount the service requires is open
  and reported in the summary; live appointments of a provider still never overlap.
\<close>

theorem public_booking_one_tenant:
  assumes "create_public_booking ev payload ch w = Some (Inr (a, c, summary), w')"
    and "catalogue_ok w" "appointments_sound w" "customers_ok w" "references_ok w"
  shows "appointments w' = appointments w @ [a] \<and> appointments_sound w' \<and> customers_ok w' \<and>
    ensure_aware_utc (dbp_scheduled_start payload) = Inr (apt_start_datetime a) \<and> now ev < apt_start_datetime a \<and>
    customer_get (apt_customer_id a) w' = Some c \<and>
    apt_organization_id a = dbp_organization_id payload \<and> one_tenant a w' \<and>
    (\<exists>svc. appointment_service a w' = Some svc \<and>
       apt_status a = (if svc_requires_payment svc then APT_PENDING_PAYMENT else APT_CONFIRMED) \<and>
       booking_paid_up ev svc a summary w w')"
proof -
  from public_booking_steps [OF assms(1-4)] obtain svc start c' w1 a' w2 where
    st: "ensure_aware_utc (dbp_scheduled_start payload) = Inr start" "now ev < start"
    and rc: "resolve_or_create_customer (dbp_organization_id payload) (dbp_customer_name payload)
      (dbp_customer_phone payload) (dbp_customer_email payload) (dbp_preferred_language payload) w = Inr (c', w1)"
    and w1: "w1 = w\<lparr>customers := customers w1\<rparr>" "customers_ok w1"
    and b: "business w2 = business (w1\<lparr>appointments := appointments w @ [a']\<rparr>)" and s: "appointments_sound w2"
    and a: "apt_id a' \<notin> apt_id ` set (appointments w)" "apt_start_datetime a' = start" "apt_customer_id a' = cust_id c'"
      "apt_status a' = (if svc_requires_payment svc then APT_PENDING_PAYMENT else APT_CONFIRMED)"
      "apt_organization_id a' = dbp_organization_id payload" "one_tenant a' w2" "appointment_service a' w2 = Some svc"
    and f: "finish_booking ev svc c' a' w2 = (Inr (a, c, summary), w')" by blast
  have pw: "payments w1 = payments w" by (subst w1) simp
  have w2: "payments w2 = payments w" "customers w2 = customers w1" "appointments w2 = appointments w @ [a']"
    using business_eqD [OF b] pw by simp_all
  have u: "unreferenced a' w2" by (rule fresh_unreferenced [OF assms(5) a(1) w2(1)])
  from finish_booking_paid_up [OF a(7) u w2(1), of ev c'] finish_Inr [OF f a(7)] f
  have r: "a = a'" "c = c'" "booking_paid_up ev svc a summary w w'" and bz: "business w' = business (w2\<lparr>payments := payments w'\<rparr>)"
    by auto
  have t: "appointments w' = appointments w2" "customers w' = customers w2" "locations w' = locations w2"
    "providers w' = providers w2" "services w' = services w2"
    using business_eqD [OF bz] by simp_all
  have "appointments_sound w'" "customers_ok w'"
    using s w1(2) w2(2) t by (simp_all add: appointments_sound_def customers_ok_def)
  moreover have "customer_get (cust_id c) w' = Some c"
    using resolve_effect [OF assms(4) rc] r(2) t(2) w2(2) by (simp add: customer_get_def)
  moreover have "one_tenant a w'" "appointment_service a w' = Some svc"
    using a(6,7) r(1) t by (simp_all add: one_tenant_def location_get_def provider_get_def appointment_service_def service_get_def)
  ultimately show ?thesis using st a r t w2 by auto
qed

lemma customer_request_resolves:
  assumes "customers_ok w" and "strip n \<noteq> []" and "normalize_phone_number ph = Inr p"
  shows "\<exists>c cs. resolve_or_create_customer org n ph em lang w = Inr (c, w\<lparr>customers := cs\<rparr>) \<and>
    customer_get (cust_id c) (w\<lparr>customers := cs\<rparr>) = Some c"
proof -
  from resolve_cases [OF assms, of org em lang] obtain c cs where
    r: "resolve_or_create_customer org n ph em lang w = Inr (c, w\<lparr>customers := cs\<rparr>)"
    by (auto simp: Let_def split: if_splits)
  from resolve_effect [OF assms(1) this] r show ?thesis by blast
qed

text \<open>Services that ask for money can name their price.\<close>

definition priced :: "service \<Rightarrow> bool" where
  "priced svc \<longleftrightarrow> (svc_requires_payment svc \<longrightarrow>
     (\<exists>amount c. required_amount_minor svc = Inr amount \<and> 0 \<le> amount \<and> svc_currency svc = Some c \<and> c \<noteq> []))"

lemma validated_slot_booking:
  assumes ok: "schedule_ok w" "customers_ok w" "references_ok w" "fresh_tokens ev w"
    and v: "validate_booking_entities payload w = Inr svc" and priced: "priced svc"
    and q: "slot_query ev w (dbp_provider_id payload) (dbp_location_id payload) (Some (dbp_service_id payload)) z timing"
    and g: "get_available_slots ev (dbp_provider_id payload) (dbp_location_id payload) d d (Some (dbp_service_id payload)) w = Some (Inr all)"
    and x: "x \<in> set all" "now ev < slot_start_datetime x" and zone: "zone_regular z d d"
    and day: "local_date z (slot_start_datetime x) = d"
    and f: "ensure_aware_utc (dbp_scheduled_start payload) = Inr (slot_start_datetime x)"
    and who: "strip (dbp_customer_name payload) \<noteq> []" "normalize_phone_number (dbp_customer_phone payload) = Inr ph"
  shows "\<exists>a c summary w'. create_public_booking ev payload ch w = Some (Inr (a, c, summary), w') \<and>
    apt_start_datetime a = slot_start_datetime x \<and> apt_end_datetime a = slot_end_datetime x \<and>
    booking_paid_up ev svc a summary w w'"
proof -
  from customer_request_resolves [OF ok(2) who] obtain c cs where
    rc: "resolve_or_create_customer (dbp_organization_id payload) (dbp_customer_name payload)
      (dbp_customer_phone payload) (dbp_customer_email payload) (dbp_preferred_language payload) w = Inr (c, w\<lparr>customers := cs\<rparr>)"
    and c: "customer_get (cust_id c) (w\<lparr>customers := cs\<rparr>) = Some c" by blast
  let ?w1 = "w\<lparr>customers := cs\<rparr>" and ?req = "appointment_request payload svc c (slot_start_datetime x) ch"
  have v1: "validate_booking_entities payload ?w1 = Inr svc" using v by (simp add: validate_booking_entities_Inr)
  have "\<exists>a w2. create_appointment ev ?req ''customer'' None ?w1 = Some (Inr (a, w2)) \<and>
      apt_start_datetime a = slot_start_datetime x \<and> apt_end_datetime a = slot_end_datetime x"
  proof (rule offered_slot_booking)
    show "check_booking_entities ?req ?w1 = Inr (dbp_organization_id payload)" by (rule validated_entities [OF v1 c])
    show "get_available_slots ev (dbp_provider_id payload) (dbp_location_id payload) d d (Some (dbp_service_id payload)) ?w1 = Some (Inr all)" using g by simp
  qed (use ok zone q x day f in \<open>simp_all add: appointment_request_def ensure_aware_utc_def\<close>)
  then obtain a w2 where ca: "create_appointment ev ?req ''customer'' None ?w1 = Some (Inr (a, w2))"
    and a: "apt_start_datetime a = slot_start_datetime x" "apt_end_datetime a = slot_end_datetime x" by blast
  have cat: "catalogue_ok ?w1" using ok(1) by (simp add: schedule_ok_def)
  obtain r w1' timing' where cr: "appointment_create ev r ?w1 = Inr (a, w1')" and bz: "business w2 = business w1'"
    and sv: "apt_service_id r = Some (dbp_service_id payload)"
    using create_appointment_Inr [OF ca cat] by (auto simp: appointment_request_def)
  from appointment_create_eq [OF cr] obtain i ref tok where a': "a = r\<lparr>apt_id := i, apt_booking_reference := ref, apt_booking_access_token := tok\<rparr>"
    and w1': "w1' = ?w1\<lparr>appointments := appointments ?w1 @ [a]\<rparr>" and new: "apt_id a \<notin> apt_id ` set (appointments w)" by auto
  have t2: "payments w2 = payments w" "services w2 = services w" using business_eqD [OF bz] w1' by simp_all
  have svc: "service_get (dbp_service_id payload) w = Some svc" using v by (auto simp: validate_booking_entities_Inr)
  have as: "appointment_service a w2 = Some svc" using svc sv a' t2(2) by (simp add: appointment_service_def service_get_def)
  have "unreferenced a w2" by (rule fresh_unreferenced [OF ok(3) new t2(1)])
  from finish_booking_paid_up [OF as this t2(1), of ev c] priced obtain summary w' where
    "finish_booking ev svc c a w2 = (Inr (a, c, summary), w')" "booking_paid_up ev svc a summary w w'"
    unfolding priced_def by blast
  then show ?thesis
    using v f x(2) rc ca a by (simp add: create_public_booking_def)
qed

text \<open>
  C7. What discovery shows can be booked: for a provider listed for a service at a location and a
  slot listed for them on its day, a well-formed public request for its start is accepted; it
  books exactly that slot and leaves a payment to make when the service requires one.  The request
  needs a name, a phone number that normalises, and random tokens that are not used yet; the service
  a price if it requires payment.  The constraints of the tables hold, rows refer to rows that exist,
  the slot's day in the provider's zone is the day it is listed on, the service of every appointment
  is still assigned to its provider, and the zone maps no local time of that day before its midnight
  or after the next one.  Without the last two a listed slot can be refused (a service unassigned
  from its bookings' provider; a day on which clocks are set forward over midnight).
\<close>

theorem listed_slot_public_booking:
  assumes ok: "schedule_ok w" "customers_ok w" "references_ok w" "catalogue_keys w" "fresh_tokens ev w"
    and ps: "list_visible_providers_for_service_at_location l s w = Inr ps" "p \<in> set ps"
    and slots: "list_visible_slots ev (prov_id p) s l d w = Some (Inr slots)" "x \<in> set slots"
    and zone: "provider_timezone p w = Inr tz" "zone_table ev tz = Some z" "zone_regular z d d"
    and day: "local_date z (slot_start_datetime x) = d"
    and priced: "\<forall>svc. service_get s w = Some svc \<longrightarrow> priced svc"
    and f: "dbp_location_id payload = l" "dbp_service_id payload = s" "dbp_provider_id payload = prov_id p"
      "dbp_organization_id payload = prov_organization_id p"
      "ensure_aware_utc (dbp_scheduled_start payload) = Inr (slot_start_datetime x)"
    and who: "strip (dbp_customer_name payload) \<noteq> []" "normalize_phone_number (dbp_customer_phone payload) = Inr ph"
  shows "\<exists>a c summary w'. create_public_booking ev payload ch w = Some (Inr (a, c, summary), w') \<and>
    apt_start_datetime a = slot_start_datetime x \<and> apt_end_datetime a = slot_end_datetime x \<and>
    (\<exists>svc. service_get s w = Some svc \<and> booking_paid_up ev svc a summary w w')"
proof -
  from listed_provider_validates [OF ok(4) ps f(1-4)] obtain svc where
    svc: "service_get s w = Some svc" and v: "validate_booking_entities payload w = Inr svc" by blast
  from validated_timing [OF v] obtain timing where
    t: "resolve_service_timing (prov_id p) l (Some s) True True w = Inr timing" using f by auto
  from v f(3) obtain p' where p': "provider_get (prov_id p) w = Some p'" "prov_is_active p'"
    by (auto simp: validate_booking_entities_Inr)
  have "p' = p" using p'(1) ps ok(4) tbl_get_mem [of prov_id "providers w" p]
    by (auto simp: provider_get_def catalogue_keys_def list_visible_providers_for_service_at_location_def
        split: sum.splits if_splits)
  then have q: "slot_query ev w (prov_id p) l (Some s) z timing" using p' zone t by (simp add: slot_query_def)
  from slots obtain all where g: "get_available_slots ev (prov_id p) l d d (Some s) w = Some (Inr all)"
    and x: "x \<in> set all" "now ev < slot_start_datetime x"
    by (auto simp: list_visible_slots_def split: option.splits sum.splits)
  have "\<exists>a c summary w'. create_public_booking ev payload ch w = Some (Inr (a, c, summary), w') \<and>
      apt_start_datetime a = slot_start_datetime x \<and> apt_end_datetime a = slot_end_datetime x \<and>
      booking_paid_up ev svc a summary w w'"
    using q g priced svc f
    by (intro validated_slot_booking [OF ok(1-3,5) v _ _ _ x zone(3) day f(5) who, of timing]) auto
  then show ?thesis using svc by blast
qed

theorem listed_slot_public_booking_witness:
  "\<exists>a c summary w'. create_public_booking sample_env sample_public_payload BC_WEB booked_world = Some (Inr (a, c, summary), w') \<and>
     apt_start_datetime a = 9 * hour_us"
proof -
  let ?x = "slot_at sample_timing (9 * hour_us)"
  have "\<exists>a c summary w'. create_public_booking sample_env sample_public_payload BC_WEB booked_world = Some (Inr (a, c, summary), w') \<and>
      apt_start_datetime a = slot_start_datetime ?x \<and> apt_end_datetime a = slot_end_datetime ?x \<and>
      (\<exists>svc. service_get 1 booked_world = Some svc \<and> booking_paid_up sample_env svc a summary booked_world w')"
  proof (rule listed_slot_public_booking [where p = sample_provider and l = 1 and d = 0 and tz = "''UTC''" and z = sample_zone])
    show "list_visible_providers_for_service_at_location 1 1 booked_world = Inr [sample_provider]" by code_simp
    show "list_visible_slots sample_env (prov_id sample_provider) 1 1 0 booked_world = Some (Inr [?x])" by code_simp
    show "customers_ok booked_world" "catalogue_keys booked_world" "fresh_tokens sample_env booked_world" by code_simp+
    show "references_ok booked_world" using booked_world_sound by (simp add: books_sound_def)
    show "provider_timezone sample_provider booked_world = Inr ''UTC''" "zone_table sample_env ''UTC'' = Some sample_zone"
      by (code_simp, simp add: sample_env_def)
    show "local_date sample_zone (slot_start_datetime ?x) = 0" by code_simp
    have "priced sample_service"
      unfolding priced_def by (intro impI exI [of _ 1000] exI [of _ "''USD''"] conjI; code_simp)
    moreover have "service_get 1 booked_world = Some sample_service" by code_simp
    ultimately show "\<forall>svc. service_get 1 booked_world = Some svc \<longrightarrow> priced svc" by simp
    show "ensure_aware_utc (dbp_scheduled_start sample_public_payload) = Inr (slot_start_datetime ?x)" by code_simp
    show "strip (dbp_customer_name sample_public_payload) \<noteq> []" by code_simp
    show "normalize_phone_number (dbp_customer_phone sample_public_payload) = Inr ''+994507778899''" by code_simp
  qed (simp_all add: sample_schedule_ok sample_zone_regular sample_public_payload_def sample_provider_def)
  then show ?thesis by (auto simp: slot_at_def)
qed

theorem public_booking_one_tenant_witness:
  "\<exists>a c summary w'. create_public_booking sample_env sample_public_payload BC_WEB booked_world = Some (Inr (a, c, summary), w') \<and>
     one_tenant a w' \<and> appointments_sound w'"
proof -
  have "(case create_public_booking sample_env sample_public_payload BC_WEB booked_world of Some (Inr r, w') \<Rightarrow> True | _ \<Rightarrow> False)"
    by code_simp
  then obtain a c summary w' where
    b: "create_public_booking sample_env sample_public_payload BC_WEB booked_world = Some (Inr (a, c, summary), w')"
    by (auto split: option.splits prod.splits sum.splits)
  have "customers_ok booked_world" by code_simp
  moreover have "references_ok booked_world" using booked_world_sound by (simp add: books_sound_def)
  ultimately have "customers_ok booked_world" "references_ok booked_world" by blast+
  from public_booking_one_tenant [OF b booked_world_ok this] b show ?thesis by blast
qed

end
