(* ===== verification/Money_Routes.thy ===== *)
theory Money_Routes
  imports Idempotency Access Payouts Discovery
begin

text \<open>
  The endpoints that take an idempotency key: \<^verbatim>\<open>routers/payments.py\<close> (the payment webhook
  and the manual refund), \<^verbatim>\<open>routers/payouts.py\<close> and the public booking of
  \<^verbatim>\<open>routers/discovery.py\<close>.  A response is its status code and JSON body; \<^verbatim>\<open>updated_at\<close>
  is not among the columns of the model and so not in the bodies.  The request bodies are
  dumped to JSON in the order of their fields.  Errors that no handler of the endpoint catches
  come out as the exception itself.
\<close>

section \<open>JSON of the bodies\<close>

definition json_opt :: "('a \<Rightarrow> json) \<Rightarrow> 'a option \<Rightarrow> json" where
  "json_opt f value = (case value of None \<Rightarrow> JNull | Some v \<Rightarrow> f v)"

definition json_instant :: "env \<Rightarrow> instant \<Rightarrow> json" where
  "json_instant ev i = JStr (json_datetime ev (Aware i 0))"

section \<open>The payment webhook\<close>

record payment_confirm_request =
  pcr_provider_name :: string
  pcr_provider_checkout_session_id :: "string option"
  pcr_provider_payment_intent_id :: "string option"
  pcr_status :: payment_status

definition require_webhook_secret :: "env \<Rightarrow> string option \<Rightarrow> unit result" where
  "require_webhook_secret ev webhook_secret =
     (let expected = str_or (cfg_payment_webhook_secret (config ev)) (cfg_secret_key (config ev)) in
      if webhook_secret \<noteq> Some expected then Inl (HTTPException 403 ''Invalid webhook secret'') else Inr ())"

definition payment_confirm_json :: "payment_confirm_request \<Rightarrow> json" where
  "payment_confirm_json payload = JObj
     [(''provider_name'', JStr (pcr_provider_name payload)),
      (''provider_checkout_session_id'', json_opt JStr (pcr_provider_checkout_session_id payload)),
      (''provider_payment_intent_id'', json_opt JStr (pcr_provider_payment_intent_id payload)),
      (''status'', JStr (payment_status_value (pcr_status payload)))]"

definition payment_confirm_response :: "env \<Rightarrow> payment \<Rightarrow> json" where
  "payment_confirm_response ev payment = JObj
     [(''payment_id'', JInt (pay_id payment)), (''appointment_id'', JInt (pay_appointment_id payment)),
      (''provider_name'', JStr (pay_provider_name payment)),
      (''status'', JStr (payment_status_value (pay_status payment))),
      (''paid_at'', json_opt (json_instant ev) (pay_paid_at payment))]"

definition confirm_limits ::
  "env \<Rightarrow> http_request \<Rightarrow> payment_confirm_request \<Rightarrow> world \<Rightarrow> (exn + unit) \<times> world" where
  "confirm_limits ev request payload w =
     (let identifier = str_or (pcr_provider_checkout_session_id payload)
                         (str_or (pcr_provider_payment_intent_id payload) ''unknown'') in
      enforce_rate_limit ev request ''payment_confirm''
        (build_identity_key [''ip:'' @ get_client_ip request, ''identifier:'' @ identifier])
        default_rate_limit_message ((event_defaults [])\<lparr>ev_actor_type := ''webhook''\<rparr>) w)"

definition confirm_handler ::
  "env \<Rightarrow> payment_confirm_request \<Rightarrow> world \<Rightarrow> ((exn + handled) \<times> world) option" where
  "confirm_handler ev payload w =
     (case mark_payment_status ev (pcr_provider_name payload) (pcr_status payload)
             (pcr_provider_checkout_session_id payload) (pcr_provider_payment_intent_id payload) w of
        Inl (LookupError m) \<Rightarrow> Some (Inl (HTTPException 404 m), w)
      | Inl (ValueError m) \<Rightarrow> Some (Inl (HTTPException 400 m), w)
      | Inl e \<Rightarrow> Some (Inl e, w)
      | Inr (payment, w') \<Rightarrow>
          Some (Inr \<lparr>hd_status_code = 200, hd_body = payment_confirm_response ev payment,
                     hd_resource_type = ''payment'', hd_resource_id = pay_id payment\<rparr>, w'))"

definition confirm_payment_status ::
  "env \<Rightarrow> (world \<Rightarrow> world) \<Rightarrow> http_request \<Rightarrow> string option \<Rightarrow> string option \<Rightarrow> payment_confirm_request
    \<Rightarrow> world \<Rightarrow> ((exn + http_response) \<times> world) option" where
  "confirm_payment_status ev race request webhook_secret idempotency_key payload w =
     (if pcr_provider_checkout_session_id payload = None \<and> pcr_provider_payment_intent_id payload = None
      then Some (Inl (HTTPException 422
             ''provider_checkout_session_id or provider_payment_intent_id is required.''), w)
      else case require_webhook_secret ev webhook_secret of
        Inl e \<Rightarrow> Some (Inl e, w)
      | Inr _ \<Rightarrow>
          idempotent_request ev race idempotency_key ''payments:confirm'' (payment_confirm_json payload)
            (confirm_limits ev request payload) (confirm_handler ev payload) w)"

section \<open>Manual refunds\<close>

definition refund_read :: "env \<Rightarrow> refund \<Rightarrow> json" where
  "refund_read ev refund = JObj
     [(''id'', JInt (rf_id refund)), (''payment_id'', JInt (rf_payment_id refund)),
      (''amount_minor'', JInt (rf_amount_minor refund)), (''currency'', JStr (rf_currency refund)),
      (''provider_refund_id'', json_opt JStr (rf_provider_refund_id refund)),
      (''status'', JStr (refund_status_value (rf_status refund))),
      (''created_at'', json_instant ev (rf_created_at refund)),
      (''processed_at'', json_opt (json_instant ev) (rf_processed_at refund))]"

definition refund_limits :: "env \<Rightarrow> http_request \<Rightarrow> user \<Rightarrow> int \<Rightarrow> world \<Rightarrow> (exn + unit) \<times> world" where
  "refund_limits ev request current_user payment_id w =
     enforce_rate_limit ev request ''manual_refund''
       (build_identity_key [''user:'' @ int_str (usr_id current_user), ''payment:'' @ int_str payment_id])
       default_rate_limit_message
       ((event_defaults [])\<lparr>ev_actor_type := ''user'', ev_actor_id := Some (usr_id current_user)\<rparr>) w"

definition refund_handler ::
  "env \<Rightarrow> user \<Rightarrow> int \<Rightarrow> int option \<Rightarrow> world \<Rightarrow> ((exn + handled) \<times> world) option" where
  "refund_handler ev current_user payment_id amount_minor w =
     (case payment_get payment_id w of
        None \<Rightarrow> Some (Inl (HTTPException 404 ''Payment not found''), w)
      | Some payment \<Rightarrow>
      case require_org_membership (pay_organization_id payment) current_user (Some [OWNER, ADMIN, STAFF]) w of
        Inl e \<Rightarrow> Some (Inl e, w)
      | Inr _ \<Rightarrow>
       (let amount = (case amount_minor of None \<Rightarrow> get_refundable_remaining_minor payment w | Some a \<Rightarrow> a) in
        case create_refund ev payment amount ''user'' (Some (usr_id current_user)) w of
          (Inl (ValueError m), w') \<Rightarrow> Some (Inl (HTTPException 400 m), w')
        | (Inl e, w') \<Rightarrow> Some (Inl e, w')
        | (Inr None, w') \<Rightarrow> Some (Inl (HTTPException 400 ''No refundable amount remaining''), w')
        | (Inr (Some refund), w') \<Rightarrow>
            Some (Inr \<lparr>hd_status_code = 200, hd_body = refund_read ev refund,
                       hd_resource_type = ''refund'', hd_resource_id = rf_id refund\<rparr>, w')))"

definition manual_refund_json :: "int \<Rightarrow> int option \<Rightarrow> json" where
  "manual_refund_json payment_id amount_minor =
     JObj [(''payment_id'', JInt payment_id), (''amount_minor'', json_opt JInt amount_minor)]"

definition refund_scope :: "int \<Rightarrow> user \<Rightarrow> string" where
  "refund_scope payment_id current_user =
     ''payments:'' @ int_str payment_id @ '':manual_refund:user:'' @ int_str (usr_id current_user)"

definition create_manual_refund ::
  "env \<Rightarrow> (world \<Rightarrow> world) \<Rightarrow> http_request \<Rightarrow> string \<Rightarrow> string option \<Rightarrow> int \<Rightarrow> int option
    \<Rightarrow> world \<Rightarrow> ((exn + http_response) \<times> world) option" where
  "create_manual_refund ev race request token idempotency_key payment_id amount_minor w =
     (if (case amount_minor of None \<Rightarrow> False | Some a \<Rightarrow> a < 0)
      then Some (Inl (HTTPException 422 ''Input should be greater than or equal to 0''), w)
      else case get_current_active_user ev token w of
        Inl e \<Rightarrow> Some (Inl e, w)
      | Inr current_user \<Rightarrow>
          idempotent_request ev race idempotency_key (refund_scope payment_id current_user)
            (manual_refund_json payment_id amount_minor)
            (refund_limits ev request current_user payment_id)
            (refund_handler ev current_user payment_id amount_minor) w)"

section \<open>Payouts\<close>

definition payout_read :: "env \<Rightarrow> payout \<Rightarrow> int \<Rightarrow> json" where
  "payout_read ev payout earning_count = JObj
     [(''id'', JInt (po_id payout)), (''provider_id'', JInt (po_provider_id payout)),
      (''total_amount_minor'', JInt (po_total_amount_minor payout)), (''currency'', JStr (po_currency payout)),
      (''status'', JStr (payout_status_value (po_status payout))),
      (''provider_payout_reference'', json_opt JStr (po_provider_payout_reference payout)),
      (''processed_at'', json_opt (json_instant ev) (po_processed_at payout)),
      (''created_at'', json_instant ev (po_created_at payout)),
      (''earning_count'', JInt earning_count)]"

definition payout_limits :: "env \<Rightarrow> http_request \<Rightarrow> user \<Rightarrow> int \<Rightarrow> world \<Rightarrow> (exn + unit) \<times> world" where
  "payout_limits ev request current_user provider_id w =
     enforce_rate_limit ev request ''payout_create''
       (build_identity_key [''user:'' @ int_str (usr_id current_user), ''provider:'' @ int_str provider_id])
       default_rate_limit_message
       ((event_defaults [])\<lparr>ev_actor_type := ''user'', ev_actor_id := Some (usr_id current_user)\<rparr>) w"

definition payout_handler :: "env \<Rightarrow> user \<Rightarrow> int \<Rightarrow> world \<Rightarrow> ((exn + handled) \<times> world) option" where
  "payout_handler ev current_user provider_id w =
     (case provider_get provider_id w of
        None \<Rightarrow> Some (Inl (HTTPException 404 ''Provider not found''), w)
      | Some provider \<Rightarrow>
      case require_org_membership (prov_organization_id provider) current_user (Some [OWNER, ADMIN, STAFF]) w of
        Inl e \<Rightarrow> Some (Inl e, w)
      | Inr _ \<Rightarrow>
      case create_payout ev provider_id ''user'' (Some (usr_id current_user)) w of
        Inl (LookupError m) \<Rightarrow> Some (Inl (HTTPException 404 m), w)
      | Inl (ValueError m) \<Rightarrow> Some (Inl (HTTPException 400 m), w)
      | Inl e \<Rightarrow> Some (Inl e, w)
      | Inr (payout, w') \<Rightarrow>
          Some (Inr \<lparr>hd_status_code = 201,
                     hd_body = payout_read ev payout (int (length (earning_list_by_payout (po_id payout) w'))),
                     hd_resource_type = ''payout'', hd_resource_id = po_id payout\<rparr>, w'))"

definition payout_scope :: "int \<Rightarrow> user \<Rightarrow> string" where
  "payout_scope provider_id current_user =
     ''payouts:'' @ int_str provider_id @ '':create:user:'' @ int_str (usr_id current_user)"

definition create_provider_payout ::
  "env \<Rightarrow> (world \<Rightarrow> world) \<Rightarrow> http_request \<Rightarrow> string \<Rightarrow> string option \<Rightarrow> int
    \<Rightarrow> world \<Rightarrow> ((exn + http_response) \<times> world) option" where
  "create_provider_payout ev race request token idempotency_key provider_id w =
     (case get_current_active_user ev token w of
        Inl e \<Rightarrow> Some (Inl e, w)
      | Inr current_user \<Rightarrow>
          idempotent_request ev race idempotency_key (payout_scope provider_id current_user)
            (JObj [(''provider_id'', JInt provider_id)])
            (payout_limits ev request current_user provider_id)
            (payout_handler ev current_user provider_id) w)"

section \<open>The tables outside the booking core\<close>

definition outside :: "world \<Rightarrow> world" where
  "outside w = (business w)
     \<lparr>customers := [], appointments := [], payments := [], refunds := [], earnings := [], payouts := []\<rparr>"

lemma outside_fields [simp]:
  "outside (w\<lparr>payments := a\<rparr>) = outside w" "outside (w\<lparr>appointments := b\<rparr>) = outside w"
  "outside (w\<lparr>earnings := c\<rparr>) = outside w" "outside (w\<lparr>refunds := d\<rparr>) = outside w"
  "outside (w\<lparr>customers := e\<rparr>) = outside w" "outside (w\<lparr>payouts := f\<rparr>) = outside w"
  by (simp_all add: outside_def business_def)

lemma outside_business: "business w' = business w \<Longrightarrow> outside w' = outside w"
  by (simp add: outside_def)

lemma outside_eqD: "outside w' = outside w \<Longrightarrow>
    organizations w' = organizations w \<and> locations w' = locations w \<and> providers w' = providers w \<and>
    services w' = services w \<and> provider_services w' = provider_services w \<and>
    provider_locations w' = provider_locations w \<and> service_locations w' = service_locations w \<and>
    availabilities w' = availabilities w \<and> date_overrides w' = date_overrides w \<and>
    time_offs w' = time_offs w \<and> idempotency_keys w' = idempotency_keys w \<and> users w' = users w \<and>
    organization_members w' = organization_members w \<and> channel_identities w' = channel_identities w \<and>
    notifications w' = notifications w \<and> message_logs w' = message_logs w \<and>
    conversation_states w' = conversation_states w"
  by (cases w; cases w') (simp add: outside_def business_def)

lemma outside_announced [simp]:
  "outside (increment_counter n w) = outside w" "outside (snd (record_domain_event ev e w)) = outside w"
  "outside (snd (enqueue_task ev t i w)) = outside w" 
  "outside (snd (enforce_rate_limit ev rq n k m ab w)) = outside w"
  by (rule outside_business, simp)+

lemma outside_writes:
  "payment_update p w = Inr w' \<Longrightarrow> outside w' = outside w"
  "appointment_update ev a w = Inr w' \<Longrightarrow> outside w' = outside w"
  "earning_update n w = Inr w' \<Longrightarrow> outside w' = outside w"
  "refund_update f w = Inr w' \<Longrightarrow> outside w' = outside w"
  "customer_update c w = Inr w' \<Longrightarrow> outside w' = outside w"
  "payment_create ev p w = Inr (p', w') \<Longrightarrow> outside w' = outside w"
  "appointment_create ev a w = Inr (a', w') \<Longrightarrow> outside w' = outside w"
  "earning_create ev n w = Inr (n', w') \<Longrightarrow> outside w' = outside w"
  "refund_create ev f w = Inr (f', w') \<Longrightarrow> outside w' = outside w"
  "payout_create ev q w = Inr (q', w') \<Longrightarrow> outside w' = outside w"
  "customer_create c w = Inr (c', w') \<Longrightarrow> outside w' = outside w"
  by (auto simp: write_defs split: sum.splits)

lemma outside_earning:
  "ensure_earning_for_payment ev p a w = Inr (r, w') \<Longrightarrow> outside w' = outside w"
  "apply_refund_adjustment_for_payment i m w = Inr (s, w') \<Longrightarrow> outside w' = outside w"
  by (auto simp: ensure_earning_for_payment_def apply_refund_adjustment_for_payment_def Let_def dest!: outside_writes
      split: option.splits sum.splits prod.splits if_splits)


lemma outside_payments:
  "cancel_pending_payment_appointment ev a n w = Inr (b, w') \<Longrightarrow> outside w' = outside w"
  "open_checkout ev a s m c w = Inr (pc, w') \<Longrightarrow> outside w' = outside w"
  by (auto simp: cancel_pending_payment_appointment_def open_checkout_def Let_def dest!: outside_writes
      split: option.splits sum.splits prod.splits if_splits)

lemma outside_checkout:
  "create_checkout_session_for_appointment ev a n w = Inr (pc, w') \<Longrightarrow> outside w' = outside w"
  by (auto simp: create_checkout_session_for_appointment_def Let_def dest!: outside_payments
      split: option.splits sum.splits prod.splits if_splits)

lemma outside_apply_status:
  assumes "apply_payment_status ev p st w = Inr (r, w')"
  shows "outside w' = outside w"
proof -
  obtain w1 a where u: "payment_update p w = Inr w1" and a: "appointment_get (pay_appointment_id p) w1 = Some a"
    using assms by (auto simp: apply_payment_status_def split: option.splits)
  have c: "(if b then appointment_update ev a' w1 else Inr w1) = Inr w2 \<Longrightarrow> outside w2 = outside w1" for b a' w2
    by (auto dest: outside_writes split: if_splits)
  have "outside w' = outside w1"
    using assms u a
    by (auto simp: apply_payment_status_def Let_def dest!: c outside_earning(1) outside_payments(1) outside_writes(2)
        split: if_split_asm)
  with outside_writes(1) [OF u] show ?thesis by simp
qed

lemma outside_mark_payment:
  assumes "mark_payment_status ev n st c i w = Inr (p, w')"
  shows "outside w' = outside w"
proof -
  have "outside (announce_payment_status ev q st e x v) = outside v" for q e x v
    by (simp add: announce_payment_status_def Let_def)
  with assms show ?thesis
    by (auto simp: mark_payment_status_def Let_def dest!: outside_apply_status split: if_split_asm)
qed

lemma outside_settle:
  "settle_refund ev r f w = Inr (r', w') \<Longrightarrow> outside w' = outside w"
  by (auto simp: settle_refund_def Let_def dest!: outside_writes outside_earning
      split: option.splits sum.splits prod.splits if_splits)

lemma outside_mark_refund [simp]:
  "outside (snd (announce_refund ev t c ty st ak ai r w)) = outside w"
  "outside (snd (mark_refund_succeeded ev i f ak ai w)) = outside w"
  "outside (snd (mark_refund_failed ev i ak ai w)) = outside w"
  by (auto simp: announce_refund_def mark_refund_succeeded_def mark_refund_failed_def Let_def
      dest!: outside_writes outside_settle split: option.splits sum.splits prod.splits if_splits)

lemma outside_create_refund: "outside (snd (create_refund ev p m ak ai w)) = outside w"
proof -
  have s: "outside w' = outside w0" if "mark_refund_succeeded ev i f ak ai w0 = (x, w')" for i f w0 x w'
    using outside_mark_refund(2) [of ev i f ak ai w0] that by simp
  have f: "outside w' = outside w0" if "mark_refund_failed ev i ak ai w0 = (x, w')" for i w0 x w'
    using outside_mark_refund(3) [of ev i ak ai w0] that by simp
  show ?thesis
    by (auto simp: create_refund_def Let_def dest!: outside_writes s f
      split: option.splits sum.splits prod.splits if_splits)
qed

lemma outside_create_payout:
  "create_payout ev i t a w = Inr (p, w') \<Longrightarrow> outside w' = outside w"
proof -
  have e: "update_each earning_update f es w0 = Inr w1 \<Longrightarrow> outside w1 = outside w0" for f es w0 w1
    by (rule update_each_frame) (rule outside_writes)
  show "create_payout ev i t a w = Inr (p, w') \<Longrightarrow> outside w' = outside w"
    by (auto simp: create_payout_def Let_def dest!: outside_writes e
      split: option.splits sum.splits prod.splits if_splits)
qed

lemma outside_create_appointment:
  "create_appointment ev payload ak ai w = Some (Inr (a, w')) \<Longrightarrow> outside w' = outside w"
  by (auto simp: create_appointment_def Let_def dest!: outside_writes
      split: option.splits sum.splits prod.splits if_splits)

lemma outside_resolve:
  "resolve_or_create_customer i n ph em l w = Inr (c, w') \<Longrightarrow> outside w' = outside w"
  by (auto simp: resolve_or_create_customer_def Let_def dest!: outside_writes
      split: option.splits sum.splits prod.splits if_splits list.splits exn.splits)

lemma outside_finish: "finish_booking ev s c a w = (r, w') \<Longrightarrow> outside w' = outside w"
  by (auto simp: finish_booking_def Let_def dest!: outside_checkout
      split: option.splits sum.splits prod.splits if_splits)

lemma outside_public_booking:
  "create_public_booking ev payload ch w = Some (r, w') \<Longrightarrow> outside w' = outside w"
  by (auto simp: create_public_booking_def Let_def dest!: outside_resolve outside_create_appointment outside_finish
      split: option.splits sum.splits prod.splits if_splits)

section \<open>The endpoints keep the contract of keyed handlers\<close>

lemma outside_keys: "outside w' = outside w \<Longrightarrow> idempotency_keys w' = idempotency_keys w"
  by (drule outside_eqD) simp

lemma confirm_handler_outside: "confirm_handler ev payload w = Some (r, w') \<Longrightarrow> outside w' = outside w"
  by (auto simp: confirm_handler_def dest: outside_mark_payment split: sum.splits exn.splits)

lemma refund_handler_outside:
  assumes "refund_handler ev u i m w = Some (r, w')"
  shows "outside w' = outside w"
proof -
  have c: "outside w1 = outside w" if "create_refund ev p a ak ai w = (x, w1)" for p a ak ai x w1
    using outside_create_refund [of ev p a ak ai w] that by simp
  from assms show ?thesis
    by (auto simp: refund_handler_def Let_def dest!: c split: option.splits sum.splits prod.splits exn.splits)
qed

lemma payout_handler_outside: "payout_handler ev u i w = Some (r, w') \<Longrightarrow> outside w' = outside w"
  by (auto simp: payout_handler_def dest: outside_create_payout split: option.splits sum.splits exn.splits)

interpretation confirm_endpoint: keyed_handler "confirm_limits ev rq payload" "confirm_handler ev payload"
  for ev rq payload
  by unfold_locales
    (simp add: confirm_limits_def Let_def outside_keys [OF outside_announced(4)], rule outside_keys, rule confirm_handler_outside)

interpretation refund_endpoint: keyed_handler "refund_limits ev rq u i" "refund_handler ev u i m" for ev rq u i m
  by unfold_locales
    (simp add: refund_limits_def Let_def outside_keys [OF outside_announced(4)], rule outside_keys, rule refund_handler_outside)

interpretation payout_endpoint: keyed_handler "payout_limits ev rq u i" "payout_handler ev u i" for ev rq u i
  by unfold_locales
    (simp add: payout_limits_def Let_def outside_keys [OF outside_announced(4)], rule outside_keys, rule payout_handler_outside)

section \<open>The public booking\<close>

text \<open>\<^verbatim>\<open>datetime.isoformat()\<close>: a naive datetime has no offset, an aware one ends with it.\<close>

definition isoformat_wall_clock :: "int \<Rightarrow> string" where
  "isoformat_wall_clock l =
     (let t = l mod day_us; us = t mod second_us in
      isoformat_date (l div day_us) @ ''T'' @ padded 2 (t div hour_us) @ '':'' @
      padded 2 (t div minute_us mod 60) @ '':'' @ padded 2 (t div second_us mod 60) @
      (if us = 0 then [] else ''.'' @ padded 6 us))"

definition isoformat_offset :: "int \<Rightarrow> string" where
  "isoformat_offset o' =
     (let a = \<bar>o'\<bar>; s = a div second_us mod 60; us = a mod second_us in
      (if o' < 0 then ''-'' else ''+'') @ padded 2 (a div hour_us) @ '':'' @ padded 2 (a div minute_us mod 60) @
      (if s = 0 \<and> us = 0 then [] else '':'' @ padded 2 s @ (if us = 0 then [] else ''.'' @ padded 6 us)))"

definition py_isoformat :: "py_datetime \<Rightarrow> string" where
  "py_isoformat d =
     (case d of Naive l \<Rightarrow> isoformat_wall_clock l | Aware l offset \<Rightarrow> isoformat_wall_clock l @ isoformat_offset offset)"

lemma py_isoformat_utc: "py_isoformat (Aware i 0) = isoformat_utc i"
proof -
  have "padded 2 0 = ''00''" by code_simp
  then show ?thesis
    by (simp add: py_isoformat_def isoformat_wall_clock_def isoformat_offset_def isoformat_utc_def
        isoformat_date_def Let_def second_us_def minute_us_def hour_us_def split: prod.split)
qed

definition booking_create_json :: "env \<Rightarrow> discovery_booking_payload \<Rightarrow> json" where
  "booking_create_json ev payload = JObj
     [(''organization_id'', JInt (dbp_organization_id payload)), (''location_id'', JInt (dbp_location_id payload)),
      (''provider_id'', JInt (dbp_provider_id payload)), (''service_id'', JInt (dbp_service_id payload)),
      (''scheduled_start'', JStr (json_datetime ev (dbp_scheduled_start payload))),
      (''customer_name'', JStr (dbp_customer_name payload)), (''customer_phone'', JStr (dbp_customer_phone payload)),
      (''customer_email'', json_opt JStr (dbp_customer_email payload)),
      (''preferred_language'', json_opt JStr (dbp_preferred_language payload))]"

definition booking_signature :: "discovery_booking_payload \<Rightarrow> string" where
  "booking_signature payload =
     int_str (dbp_organization_id payload) @ '':'' @ int_str (dbp_location_id payload) @ '':'' @
     int_str (dbp_provider_id payload) @ '':'' @ int_str (dbp_service_id payload) @ '':'' @
     py_isoformat (dbp_scheduled_start payload) @ '':'' @
     dbp_customer_phone payload @ '':'' @ lower (strip (str_or (dbp_customer_email payload) []))"

definition duplicate_booking_message :: string where
  "duplicate_booking_message = ''Duplicate booking attempt detected. Please retry shortly.''"

definition booking_limits ::
  "env \<Rightarrow> http_request \<Rightarrow> discovery_booking_payload \<Rightarrow> world \<Rightarrow> (exn + unit) \<times> world" where
  "booking_limits ev request payload w =
     (let ip = get_client_ip request; about = (event_defaults [])\<lparr>ev_actor_type := ''customer''\<rparr> in
      case enforce_rate_limit ev request ''public_booking'' (build_identity_key [''ip:'' @ ip])
             default_rate_limit_message about w of
        (Inl e, w1) \<Rightarrow> (Inl e, w1)
      | (Inr _, w1) \<Rightarrow>
          enforce_rate_limit ev request ''public_booking_duplicate''
            (build_identity_key [''ip:'' @ ip, ''sig:'' @ hash_key_part ev (booking_signature payload)])
            duplicate_booking_message about w1)"

definition discovery_error :: "exn \<Rightarrow> exn" where
  "discovery_error e =
     (case e of
        LookupError m \<Rightarrow> HTTPException 404 m
      | ValueError m \<Rightarrow> HTTPException 400 m
      | IntegrityError m \<Rightarrow> HTTPException 409 ''Booking conflict''
      | e' \<Rightarrow> e')"

definition payment_summary_json :: "env \<Rightarrow> payment_summary \<Rightarrow> json" where
  "payment_summary_json ev s = JObj
     [(''payment_required'', JBool (psm_payment_required s)),
      (''payment_status'', json_opt (\<lambda>x. JStr (payment_status_value x)) (psm_payment_status s)),
      (''amount_due_minor'', json_opt JInt (psm_amount_due_minor s)),
      (''currency'', json_opt JStr (psm_currency s)),
      (''checkout_url'', json_opt JStr (psm_checkout_url s)),
      (''checkout_session_id'', json_opt JStr (psm_checkout_session_id s)),
      (''provider_name'', json_opt JStr (psm_provider_name s)),
      (''expires_at'', json_opt (json_instant ev) (psm_expires_at s)),
      (''refund_status'', json_opt (\<lambda>x. JStr (refund_status_value x)) (psm_refund_status s)),
      (''refund_amount_minor'', json_opt JInt (psm_refund_amount_minor s)),
      (''refund_processed_at'', json_opt (json_instant ev) (psm_refund_processed_at s))]"

definition booking_confirmation_json :: "env \<Rightarrow> appointment \<Rightarrow> customer \<Rightarrow> payment_summary \<Rightarrow> world \<Rightarrow> json" where
  "booking_confirmation_json ev a c s w = JObj
     [(''appointment_id'', JInt (apt_id a)), (''booking_reference'', JStr (apt_booking_reference a)),
      (''booking_access_token'', JStr (apt_booking_access_token a)),
      (''organization_id'', JInt (apt_organization_id a)),
      (''organization_name'', json_opt (\<lambda>x. JStr (org_name x)) (organization_get (apt_organization_id a) w)),
      (''location_id'', JInt (apt_location_id a)),
      (''location_name'', json_opt (\<lambda>x. JStr (loc_name x)) (location_get (apt_location_id a) w)),
      (''provider_id'', JInt (apt_provider_id a)),
      (''provider_name'', json_opt (\<lambda>x. JStr (prov_display_name x)) (provider_get (apt_provider_id a) w)),
      (''service_id'', json_opt JInt (apt_service_id a)),
      (''service_name'', json_opt (\<lambda>x. JStr (svc_name x)) (Option.bind (apt_service_id a) (\<lambda>i. service_get i w))),
      (''customer_id'', JInt (cust_id c)),
      (''scheduled_start'', json_instant ev (apt_start_datetime a)),
      (''scheduled_end'', json_instant ev (apt_end_datetime a)),
      (''status'', JStr (appointment_status_value (apt_status a))),
      (''payment'', payment_summary_json ev s)]"

definition booking_handler ::
  "env \<Rightarrow> discovery_booking_payload \<Rightarrow> world \<Rightarrow> ((exn + handled) \<times> world) option" where
  "booking_handler ev payload w =
     (case create_public_booking ev payload BC_WEB w of
        None \<Rightarrow> None
      | Some (Inl e, w') \<Rightarrow> Some (Inl (discovery_error e), w')
      | Some (Inr (appointment, customer, payment_summary), w') \<Rightarrow>
          Some (Inr \<lparr>hd_status_code = 201,
                     hd_body = booking_confirmation_json ev appointment customer payment_summary w',
                     hd_resource_type = ''appointment'', hd_resource_id = apt_id appointment\<rparr>, w'))"

definition create_discovery_booking ::
  "env \<Rightarrow> (world \<Rightarrow> world) \<Rightarrow> http_request \<Rightarrow> string option \<Rightarrow> discovery_booking_payload
    \<Rightarrow> world \<Rightarrow> ((exn + http_response) \<times> world) option" where
  "create_discovery_booking ev race request idempotency_key payload w =
     idempotent_request ev race idempotency_key ''discovery:create_booking'' (booking_create_json ev payload)
       (booking_limits ev request payload) (booking_handler ev payload) w"

lemma booking_limits_business [simp]: "business (snd (booking_limits ev rq payload w)) = business w"
proof -
  have "business w1 = business w" if "enforce_rate_limit ev rq n k m ab w = (x, w1)" for n k m ab x w1
    using business_enforce [of ev rq n k m ab w] that by simp
  then show ?thesis by (auto simp: booking_limits_def Let_def split: prod.splits sum.splits)
qed

lemma booking_handler_outside: "booking_handler ev payload w = Some (r, w') \<Longrightarrow> outside w' = outside w"
  by (auto simp: booking_handler_def dest: outside_public_booking split: option.splits prod.splits sum.splits)

interpretation booking_endpoint: keyed_handler "booking_limits ev rq payload" "booking_handler ev payload"
  for ev rq payload
  by unfold_locales
    (rule outside_keys, rule outside_business, simp, rule outside_keys, rule booking_handler_outside)


section \<open>Properties\<close>

text \<open>
  C18. A manual refund that is retried moves money once.  After a keyed refund request has
  returned, the same request by the same user, at any later time and in any state of the other
  tables as long as the row of the key is still there, returns the same status and body, marked
  as a replay, and changes no business table.
\<close>

theorem refund_retry_replays:
  assumes "create_manual_refund ev race rq token key i m w = Some (Inr response, w')"
    and "get_current_active_user ev token w = Inr u" and "normalize_key key = Inr (Some k)"
    and "keys_ok w" and "keys_ok (race w)"
    and "get_current_active_user ev2 token w2 = Inr u" and "sha256_hex ev2 = sha256_hex ev"
    and "idempotency_get_by_scope_and_key (refund_scope i u) k w2 =
      idempotency_get_by_scope_and_key (refund_scope i u) k w'"
  shows "\<exists>w3. create_manual_refund ev2 race2 rq2 token key i m w2 = Some (Inr (response\<lparr>hr_replayed := True\<rparr>), w3) \<and>
    business w3 = business w2"
proof -
  have valid: "\<not> (case m of None \<Rightarrow> False | Some a \<Rightarrow> a < 0)"
    using assms(1) by (auto simp: create_manual_refund_def split: if_splits)
  with assms(1,2) have first: "idempotent_request ev race key (refund_scope i u) (manual_refund_json i m)
      (refund_limits ev rq u i) (refund_handler ev u i m) w = Some (Inr response, w')"
    by (simp add: create_manual_refund_def)
  obtain row where row: "idempotency_get_by_scope_and_key (refund_scope i u) k w2 = Some row"
    "idk_request_hash row = hash_payload ev2 (manual_refund_json i m)"
    "answered row = Some (response\<lparr>hr_replayed := True\<rparr>)"
    using refund_endpoint.success_recorded [OF first assms(3,4,5)] assms(7,8) by (auto simp: hash_payload_def)
  have "\<exists>w3. idempotent_request ev2 race2 key (refund_scope i u) (manual_refund_json i m)
      (refund_limits ev2 rq2 u i) (refund_handler ev2 u i m) w2 = Some (Inr (response\<lparr>hr_replayed := True\<rparr>), w3) \<and>
      business w3 = business w2"
    by (rule refund_endpoint.replay [OF assms(3) row(1,3,2)])
  then show ?thesis
    using valid assms(6) by (simp add: create_manual_refund_def)
qed

text \<open>
  C33. A payment webhook that the rate limit stops cannot be retried under its key: the row of
  the key stays without an answer, and as long as it is there every delivery of the same event
  is refused with 409, whatever has happened since.
\<close>

theorem throttled_webhook_locks_key:
  assumes "pcr_provider_checkout_session_id payload \<noteq> None \<or> pcr_provider_payment_intent_id payload \<noteq> None"
    and "require_webhook_secret ev secret = Inr ()" and "normalize_key key = Inr (Some k)" and "keys_ok (race w)"
    and "start_request ev race key ''payments:confirm'' (payment_confirm_json payload) w = (Inr (Proceed claimed), w1)"
    and "confirm_limits ev rq payload w1 = (Inl e, w2)"
    and "idempotency_get_by_scope_and_key ''payments:confirm'' k w3 = idempotency_get_by_scope_and_key ''payments:confirm'' k w2"
    and "sha256_hex ev3 = sha256_hex ev" and "config ev3 = config ev"
  shows "confirm_payment_status ev race rq secret key payload w = Some (Inl e, w2) \<and>
    confirm_payment_status ev3 race3 rq3 secret key payload w3 =
      Some (Inl (HTTPException 409 ''Idempotency key is already being processed.''), w3)"
proof (rule conjI)
  have ids: "\<not> (pcr_provider_checkout_session_id payload = None \<and> pcr_provider_payment_intent_id payload = None)"
    using assms(1) by simp
  note throttled = confirm_endpoint.throttled_keeps_key [OF assms(5,3,4,6)]
  show "confirm_payment_status ev race rq secret key payload w = Some (Inl e, w2)"
    using assms(2) throttled(1) unfolding confirm_payment_status_def if_not_P [OF ids] by simp
  obtain row where row: "idempotency_get_by_scope_and_key ''payments:confirm'' k w3 = Some row" "answered row = None"
    "idk_request_hash row = hash_payload ev3 (payment_confirm_json payload)"
    using throttled(2) assms(7,8) by (auto simp: hash_payload_def)
  have "require_webhook_secret ev3 secret = Inr ()"
    using assms(2,9) by (simp add: require_webhook_secret_def)
  moreover have "idempotent_request ev3 race3 key ''payments:confirm'' (payment_confirm_json payload)
      (confirm_limits ev3 rq3 payload) (confirm_handler ev3 payload) w3 =
      Some (Inl (HTTPException 409 ''Idempotency key is already being processed.''), w3)"
    by (rule confirm_endpoint.in_flight_conflict [OF assms(3) row])
  ultimately show "confirm_payment_status ev3 race3 rq3 secret key payload w3 =
      Some (Inl (HTTPException 409 ''Idempotency key is already being processed.''), w3)"
    unfolding confirm_payment_status_def if_not_P [OF ids] by simp
qed


text \<open>An administrator refunds part of the paid booking, twice with one key.\<close>

definition sample_admin :: user where
  "sample_admin =
     \<lparr>usr_id = 7, usr_email = ''root'', usr_hashed_password = ''pw'', usr_full_name = ''Root'',
      usr_phone_number = None, usr_is_active = True, usr_is_platform_admin = True\<rparr>"

definition staffed_world :: world where
  "staffed_world = paid_world\<lparr>users := [sample_admin]\<rparr>"

definition sample_http :: http_request where
  "sample_http = \<lparr>rq_forwarded_for = None, rq_client_host = None, rq_path = ''/'', rq_method = ''POST''\<rparr>"

lemma sample_refund_request:
  "case create_manual_refund sample_env (\<lambda>w. w) sample_http ''7'' (Some '' k '') 1 (Some 300) staffed_world of
     Some (Inr response, w') \<Rightarrow>
       get_current_active_user sample_env ''7'' w' = Inr sample_admin \<and> map rf_amount_minor (refunds w') = [300]
   | _ \<Rightarrow> False"
  by code_simp

lemma staffed_world_facts:
  "get_current_active_user sample_env ''7'' staffed_world = Inr sample_admin"
  "normalize_key (Some '' k '') = Inr (Some ''k'')" "keys_ok staffed_world"
  by code_simp+

theorem refund_retry_replays_witness:
  "case create_manual_refund sample_env (\<lambda>w. w) sample_http ''7'' (Some '' k '') 1 (Some 300) staffed_world of
     Some (Inr response, w') \<Rightarrow>
       map rf_amount_minor (refunds w') = [300] \<and>
       (\<exists>w3. create_manual_refund sample_env (\<lambda>w. w) sample_http ''7'' (Some '' k '') 1 (Some 300) w' =
          Some (Inr (response\<lparr>hr_replayed := True\<rparr>), w3) \<and> business w3 = business w')
   | _ \<Rightarrow> False"
proof -
  obtain response w' where
    first: "create_manual_refund sample_env (\<lambda>w. w) sample_http ''7'' (Some '' k '') 1 (Some 300) staffed_world =
      Some (Inr response, w')"
    and u: "get_current_active_user sample_env ''7'' w' = Inr sample_admin" and "map rf_amount_minor (refunds w') = [300]"
    using sample_refund_request by (auto split: option.splits prod.splits sum.splits)
  then show ?thesis
    using refund_retry_replays [OF first staffed_world_facts(1,2,3,3) u refl refl] by simp
qed

text \<open>A webhook arrives when its source has used up the limit, and again a day later.\<close>

definition sample_webhook :: payment_confirm_request where
  "sample_webhook =
     \<lparr>pcr_provider_name = ''mock'', pcr_provider_checkout_session_id = Some ''cs'',
      pcr_provider_payment_intent_id = None, pcr_status = PAY_SUCCEEDED\<rparr>"

definition busy_world :: world where
  "busy_world = booked_world
     \<lparr>rate_entries := [(storage_key sample_env
                        \<lparr>rlp_name = ''payment_confirm'', rlp_limit = 60, rlp_window_seconds = 60\<rparr>
                        ''ip:unknown|identifier:cs'',
                      \<lparr>re_count = 60, re_expires_at = 9 * hour_us\<rparr>)]\<rparr>"

lemma busy_webhook:
  "case start_request sample_env (\<lambda>w. w) (Some ''k'') ''payments:confirm'' (payment_confirm_json sample_webhook) busy_world of
     (Inr (Proceed claimed), w1) \<Rightarrow>
       (case confirm_limits sample_env sample_http sample_webhook w1 of (Inl _, w2) \<Rightarrow> True | _ \<Rightarrow> False)
   | _ \<Rightarrow> False"
  by code_simp

lemma busy_world_facts:
  "require_webhook_secret sample_env (Some ''change-me-in-production'') = Inr ()"
  "normalize_key (Some ''k'') = Inr (Some ''k'')" "keys_ok busy_world"
  by code_simp+

theorem throttled_webhook_locks_key_witness:
  "\<exists>e w2. confirm_payment_status sample_env (\<lambda>w. w) sample_http (Some ''change-me-in-production'') (Some ''k'')
       sample_webhook busy_world = Some (Inl e, w2) \<and>
     confirm_payment_status (sample_env\<lparr>now := 32 * hour_us\<rparr>) (\<lambda>w. w) sample_http
       (Some ''change-me-in-production'') (Some ''k'') sample_webhook w2 =
     Some (Inl (HTTPException 409 ''Idempotency key is already being processed.''), w2)"
proof -
  obtain claimed w1 e w2 where
    start: "start_request sample_env (\<lambda>w. w) (Some ''k'') ''payments:confirm'' (payment_confirm_json sample_webhook) busy_world =
      (Inr (Proceed claimed), w1)"
    and lim: "confirm_limits sample_env sample_http sample_webhook w1 = (Inl e, w2)"
    using busy_webhook by (auto split: option.splits prod.splits sum.splits start_result.splits)
  have ids: "pcr_provider_checkout_session_id sample_webhook \<noteq> None \<or> pcr_provider_payment_intent_id sample_webhook \<noteq> None"
    by (simp add: sample_webhook_def)
  show ?thesis
    using throttled_webhook_locks_key [OF ids busy_world_facts start lim refl,
        where ?ev3.0 = "sample_env\<lparr>now := 32 * hour_us\<rparr>" and ?race3.0 = "\<lambda>w. w" and ?rq3.0 = sample_http]
    by auto
qed

end
