(* ===== verification/Self_Service.thy ===== *)
theory Self_Service
  imports Money_Routes
begin

text \<open>
  \<^verbatim>\<open>services/customer_self_service_booking_service.py\<close> and
  \<^verbatim>\<open>routers/customer_bookings.py\<close>: a customer without an account reads, cancels and moves
  the booking whose access token they hold.  The token is compared with
  \<^verbatim>\<open>secrets.compare_digest\<close>, which raises on text that is not ASCII.
\<close>

section \<open>The service\<close>

record booking_summary =
  bks_appointment_id :: int
  bks_booking_reference :: string
  bks_status :: appointment_status
  bks_scheduled_start :: instant
  bks_scheduled_end :: instant
  bks_organization_name :: string
  bks_location_name :: string
  bks_provider_name :: string
  bks_service_name :: "string option"
  bks_payment :: payment_summary

definition build_summary :: "env \<Rightarrow> appointment \<Rightarrow> world \<Rightarrow> booking_summary result" where
  "build_summary ev appointment w =
     (case (organization_get (apt_organization_id appointment) w, location_get (apt_location_id appointment) w,
            provider_get (apt_provider_id appointment) w) of
        (Some organization, Some location, Some provider) \<Rightarrow>
         (case get_customer_payment_summary ev appointment w of
            Inl e \<Rightarrow> Inl e
          | Inr payment \<Rightarrow>
              Inr \<lparr>bks_appointment_id = apt_id appointment, bks_booking_reference = apt_booking_reference appointment,
                   bks_status = apt_status appointment, bks_scheduled_start = apt_start_datetime appointment,
                   bks_scheduled_end = apt_end_datetime appointment, bks_organization_name = org_name organization,
                   bks_location_name = loc_name location, bks_provider_name = prov_display_name provider,
                   bks_service_name = map_option svc_name (appointment_service appointment w),
                   bks_payment = payment\<rparr>)
      | _ \<Rightarrow> Inl (AttributeError ''name''))"

definition compare_digest :: "string \<Rightarrow> string \<Rightarrow> bool result" where
  "compare_digest a b =
     (if \<exists>c \<in> set (a @ b). 127 < code c
      then Inl (TypeError ''comparing strings with non-ASCII characters is not supported'')
      else Inr (a = b))"

definition get_booking_or_404 :: "int \<Rightarrow> string \<Rightarrow> world \<Rightarrow> appointment result" where
  "get_booking_or_404 booking_id access_token w =
     (if strip access_token = [] then Inl (LookupError ''Booking not found'')
      else case appointment_get booking_id w of
        None \<Rightarrow> Inl (LookupError ''Booking not found'')
      | Some appointment \<Rightarrow>
      case compare_digest (apt_booking_access_token appointment) access_token of
        Inl e \<Rightarrow> Inl e
      | Inr same \<Rightarrow> if \<not> same then Inl (LookupError ''Booking not found'') else Inr appointment)"

definition get_booking :: "env \<Rightarrow> int \<Rightarrow> string \<Rightarrow> world \<Rightarrow> booking_summary result" where
  "get_booking ev booking_id access_token w =
     (case get_booking_or_404 booking_id access_token w of
        Inl e \<Rightarrow> Inl e
      | Inr appointment \<Rightarrow> build_summary ev appointment w)"

definition cancel_booking :: "env \<Rightarrow> int \<Rightarrow> string \<Rightarrow> world \<Rightarrow> (exn + booking_summary) \<times> world" where
  "cancel_booking ev booking_id access_token w =
     (case get_booking_or_404 booking_id access_token w of
        Inl e \<Rightarrow> (Inl e, w)
      | Inr appointment \<Rightarrow>
      if apt_status appointment = APT_CANCELLED then (Inl (ValueError ''Booking is already cancelled.''), w)
      else case cancel_appointment ev (apt_id appointment) None ''customer'' None w of
        (Inl e, w') \<Rightarrow> (Inl e, w')
      | (Inr updated, w') \<Rightarrow> (build_summary ev updated w', w'))"

definition reschedule_booking ::
  "env \<Rightarrow> int \<Rightarrow> string \<Rightarrow> py_datetime \<Rightarrow> world \<Rightarrow> ((exn + booking_summary) \<times> world) option" where
  "reschedule_booking ev booking_id access_token scheduled_start w =
     (case get_booking_or_404 booking_id access_token w of
        Inl e \<Rightarrow> Some (Inl e, w)
      | Inr appointment \<Rightarrow>
      case ensure_aware_utc scheduled_start of
        Inl e \<Rightarrow> Some (Inl e, w)
      | Inr scheduled_start_utc \<Rightarrow>
      if scheduled_start_utc \<le> now ev then Some (Inl (ValueError ''Scheduled time must be in the future.''), w)
      else case reschedule_appointment ev (apt_id appointment) (Aware scheduled_start_utc 0) ''customer'' None w of
        None \<Rightarrow> None
      | Some (Inl e) \<Rightarrow> Some (Inl e, w)
      | Some (Inr (updated, w')) \<Rightarrow> Some (build_summary ev updated w', w'))"

section \<open>The endpoints\<close>

definition resolve_access_token :: "string option \<Rightarrow> string option \<Rightarrow> string result" where
  "resolve_access_token query_token header_token =
     (case or_else header_token query_token of
        None \<Rightarrow> Inl (HTTPException 400 ''Booking access token is required'')
      | Some token \<Rightarrow>
        if strip token = [] then Inl (HTTPException 400 ''Booking access token is required'')
        else Inr (strip token))"

definition booking_identity :: "env \<Rightarrow> http_request \<Rightarrow> int \<Rightarrow> string \<Rightarrow> string list \<Rightarrow> string" where
  "booking_identity ev request booking_id access_token extra =
     build_identity_key
       ([''ip:'' @ get_client_ip request, ''booking:'' @ int_str booking_id,
         ''token:'' @ hash_key_part ev access_token] @ extra)"

definition booking_about :: "int \<Rightarrow> domain_event" where
  "booking_about booking_id =
     (event_defaults [])\<lparr>ev_actor_type := ''customer'', ev_entity_type := Some ''appointment'',
                         ev_entity_id := Some booking_id\<rparr>"

definition invalid_token_message :: string where
  "invalid_token_message = ''Too many invalid booking token attempts. Please retry later.''"

text \<open>What the endpoints do with the errors of the service: a failed look-up counts against the address.\<close>

definition booking_lookup_failed ::
  "env \<Rightarrow> http_request \<Rightarrow> int \<Rightarrow> string \<Rightarrow> world \<Rightarrow> (exn + booking_summary) \<times> world" where
  "booking_lookup_failed ev request booking_id detail w =
     (case enforce_rate_limit ev request ''customer_invalid_token''
             (build_identity_key [''ip:'' @ get_client_ip request]) invalid_token_message
             (booking_about booking_id) w of
        (Inl e, w') \<Rightarrow> (Inl e, w')
      | (Inr _, w') \<Rightarrow> (Inl (HTTPException 404 detail), w'))"

definition get_customer_booking ::
  "env \<Rightarrow> http_request \<Rightarrow> int \<Rightarrow> string option \<Rightarrow> string option \<Rightarrow> world \<Rightarrow> (exn + booking_summary) \<times> world" where
  "get_customer_booking ev request booking_id query_token header_token w =
     (case resolve_access_token query_token header_token of
        Inl e \<Rightarrow> (Inl e, w)
      | Inr access_token \<Rightarrow>
      case enforce_rate_limit ev request ''customer_booking_get''
             (booking_identity ev request booking_id access_token []) default_rate_limit_message
             (booking_about booking_id) w of
        (Inl e, w1) \<Rightarrow> (Inl e, w1)
      | (Inr _, w1) \<Rightarrow>
      case get_booking ev booking_id access_token w1 of
        Inl (LookupError m) \<Rightarrow> booking_lookup_failed ev request booking_id m w1
      | Inl e \<Rightarrow> (Inl e, w1)
      | Inr payload \<Rightarrow> (Inr payload, w1))"

definition cancel_customer_booking ::
  "env \<Rightarrow> http_request \<Rightarrow> int \<Rightarrow> string option \<Rightarrow> string option \<Rightarrow> world \<Rightarrow> (exn + booking_summary) \<times> world" where
  "cancel_customer_booking ev request booking_id query_token header_token w =
     (case resolve_access_token query_token header_token of
        Inl e \<Rightarrow> (Inl e, w)
      | Inr access_token \<Rightarrow>
      case enforce_rate_limit ev request ''customer_booking_action''
             (booking_identity ev request booking_id access_token [''action:cancel'']) default_rate_limit_message
             (booking_about booking_id) w of
        (Inl e, w1) \<Rightarrow> (Inl e, w1)
      | (Inr _, w1) \<Rightarrow>
      case cancel_booking ev booking_id access_token w1 of
        (Inl (LookupError m), w2) \<Rightarrow> booking_lookup_failed ev request booking_id m w2
      | (Inl (ValueError m), w2) \<Rightarrow> (Inl (HTTPException 400 m), w2)
      | (Inl e, w2) \<Rightarrow> (Inl e, w2)
      | (Inr payload, w2) \<Rightarrow> (Inr payload, w2))"

definition reschedule_customer_booking ::
  "env \<Rightarrow> http_request \<Rightarrow> int \<Rightarrow> string option \<Rightarrow> string option \<Rightarrow> py_datetime \<Rightarrow> world
    \<Rightarrow> ((exn + booking_summary) \<times> world) option" where
  "reschedule_customer_booking ev request booking_id query_token header_token scheduled_start w =
     (case resolve_access_token query_token header_token of
        Inl e \<Rightarrow> Some (Inl e, w)
      | Inr access_token \<Rightarrow>
      case enforce_rate_limit ev request ''customer_booking_action''
             (booking_identity ev request booking_id access_token [''action:reschedule'']) default_rate_limit_message
             (booking_about booking_id) w of
        (Inl e, w1) \<Rightarrow> Some (Inl e, w1)
      | (Inr _, w1) \<Rightarrow>
      case reschedule_booking ev booking_id access_token scheduled_start w1 of
        None \<Rightarrow> None
      | Some (Inl (LookupError m), w2) \<Rightarrow> Some (booking_lookup_failed ev request booking_id m w2)
      | Some (Inl (ValueError m), w2) \<Rightarrow> Some (Inl (HTTPException 400 m), w2)
      | Some (Inl e, w2) \<Rightarrow> Some (Inl e, w2)
      | Some (Inr payload, w2) \<Rightarrow> Some (Inr payload, w2))"

section \<open>Only the holder of a booking's token reaches it\<close>

lemma get_booking_or_404_Inr:
  "get_booking_or_404 i token w = Inr a \<Longrightarrow>
     appointment_get i w = Some a \<and> apt_booking_access_token a = token \<and> strip token \<noteq> []"
  by (auto simp: get_booking_or_404_def compare_digest_def split: option.splits if_splits)

lemma appointments_announced [simp]:
  "appointments (increment_counter n w) = appointments w"
  "appointments (snd (record_domain_event ev e w)) = appointments w"
  "appointments (snd (enqueue_task ev t i w)) = appointments w"
  by simp_all

lemma appointments_refund_writes:
  "payment_update p w = Inr w' \<Longrightarrow> appointments w' = appointments w"
  "earning_update n w = Inr w' \<Longrightarrow> appointments w' = appointments w"
  "refund_update f w = Inr w' \<Longrightarrow> appointments w' = appointments w"
  "refund_create ev f w = Inr (f', w') \<Longrightarrow> appointments w' = appointments w"
  by (auto simp: write_defs split: sum.splits)

lemma appointments_adjustment:
  "apply_refund_adjustment_for_payment i m w = Inr (s, w') \<Longrightarrow> appointments w' = appointments w"
  by (auto simp: apply_refund_adjustment_for_payment_def Let_def dest!: appointments_refund_writes
      split: option.splits sum.splits prod.splits if_splits)

lemma appointments_settle:
  "settle_refund ev r f w = Inr (r', w') \<Longrightarrow> appointments w' = appointments w"
  by (auto simp: settle_refund_def Let_def dest!: appointments_refund_writes appointments_adjustment
      split: option.splits sum.splits prod.splits if_splits)

lemma appointments_mark_refund [simp]:
  "appointments (snd (announce_refund ev t c ty st ak ai r w)) = appointments w"
  "appointments (snd (mark_refund_succeeded ev i f ak ai w)) = appointments w"
  "appointments (snd (mark_refund_failed ev i ak ai w)) = appointments w"
  by (auto simp: announce_refund_def mark_refund_succeeded_def mark_refund_failed_def Let_def
      dest!: appointments_refund_writes appointments_settle split: option.splits sum.splits prod.splits if_splits)

lemma appointments_create_refund: "appointments (snd (create_refund ev p m ak ai w)) = appointments w"
proof -
  have s: "appointments w' = appointments w0" if "mark_refund_succeeded ev i f ak ai w0 = (x, w')" for i f w0 x w'
    using appointments_mark_refund(2) [of ev i f ak ai w0] that by simp
  have f: "appointments w' = appointments w0" if "mark_refund_failed ev i ak ai w0 = (x, w')" for i w0 x w'
    using appointments_mark_refund(3) [of ev i ak ai w0] that by simp
  show ?thesis
    by (auto simp: create_refund_def Let_def dest!: appointments_refund_writes s f
      split: option.splits sum.splits prod.splits if_splits)
qed

text \<open>A cancellation or a move writes the one row it is asked for.\<close>

lemma appointment_update_other:
  "appointment_update ev r w = Inr w' \<Longrightarrow> a \<in> set (appointments w) \<Longrightarrow> apt_id a \<noteq> apt_id r \<Longrightarrow> a \<in> set (appointments w')"
  by (drule appointment_repo.update_rows) (auto simp: tbl_set_def)

lemma cancel_appointment_other:
  assumes "cancel_appointment ev i notes ak ai w = (r, w')" and "a \<in> set (appointments w)" and "apt_id a \<noteq> i"
  shows "a \<in> set (appointments w')"
proof (cases "w' = w")
  case False
  let ?u = "\<lambda>x. x\<lparr>apt_status := APT_CANCELLED, apt_notes := or_else notes (apt_notes x)\<rparr>"
  from False assms(1) have "\<exists>x w1 v. appointment_get i w = Some x \<and> appointment_update ev (?u x) w = Inr w1 \<and>
      business v = business w1 \<and> w' = snd (process_refund_for_cancellation ev (?u x) v)"
    by (auto simp: cancel_appointment_def Let_def split: option.splits if_splits sum.splits)
      (rule exI, rule conjI [OF _ refl], simp)
  then obtain x w1 v where x: "appointment_get i w = Some x" and u: "appointment_update ev (?u x) w = Inr w1"
    and v: "business v = business w1" and w': "w' = snd (process_refund_for_cancellation ev (?u x) v)"
    by blast
  have "appointments (snd (process_refund_for_cancellation ev p v)) = appointments v" for p
    by (auto simp: process_refund_for_cancellation_def Let_def appointments_create_refund split: option.splits)
  with w' v have "appointments w' = appointments w1" by (auto dest: business_eqD)
  moreover have "apt_id x = i" using appointment_get_mem [OF x] by simp
  ultimately show ?thesis
    using appointment_update_other [OF u assms(2)] assms(3) by simp
qed (use assms in simp)

lemma reschedule_appointment_other:
  assumes "reschedule_appointment ev i t ak ai w = Some (Inr (x, w'))" and "a \<in> set (appointments w)" and "apt_id a \<noteq> i"
  shows "a \<in> set (appointments w')"
proof -
  obtain y s e w1 where y: "appointment_get i w = Some y" and x: "x = y\<lparr>apt_start_datetime := s, apt_end_datetime := e\<rparr>"
    and u: "appointment_update ev x w = Inr w1" and b: "business w' = business w1"
    using reschedule_appointment_Inr [OF assms(1)] by blast
  have "apt_id x = i" using appointment_get_mem [OF y] by (simp add: x)
  then show ?thesis
    using appointment_update_other [OF u assms(2)] assms(3) business_eqD [OF b] by simp
qed

section \<open>Properties\<close>

text \<open>
  C20. Only the holder of a booking's access token reaches it.  Whoever calls the self-service
  without the token of a booking neither reads it nor changes its row, whichever booking they
  name, whatever they ask for and whatever the outcome.
\<close>

theorem self_service_needs_token:
  assumes "a \<in> set (appointments w)" and "apt_booking_access_token a \<noteq> token" and "tbl_ok apt_id (appointments w)"
    and "cancel_booking ev i token w = (r, w1)" and "reschedule_booking ev i token t w = Some (r', w2)"
  shows "get_booking ev (apt_id a) token w \<noteq> Inr s \<and> a \<in> set (appointments w1) \<and> a \<in> set (appointments w2)"
proof (intro conjI)
  have get: "appointment_get (apt_id a) w = Some a"
    using appointment_repo.mem_get [OF assms(3,1)] .
  then have other: "apt_id a \<noteq> i" if "get_booking_or_404 i token w = Inr b" for b
    using get_booking_or_404_Inr [OF that] assms(2) by auto
  show "get_booking ev (apt_id a) token w \<noteq> Inr s"
    using get_booking_or_404_Inr [of "apt_id a" token w] get assms(2) by (auto simp: get_booking_def)
  show "a \<in> set (appointments w1)"
  proof (cases "get_booking_or_404 i token w")
    case (Inr b)
    have "apt_id b = i" using get_booking_or_404_Inr [OF Inr] appointment_get_mem by blast
    then show ?thesis
      using assms(1,4) cancel_appointment_other [OF _ assms(1) other [OF Inr]] Inr
      by (auto simp: cancel_booking_def split: if_splits sum.splits prod.splits)
  qed (use assms(1,4) in \<open>simp add: cancel_booking_def\<close>)
  show "a \<in> set (appointments w2)"
  proof (cases "get_booking_or_404 i token w")
    case (Inr b)
    have "apt_id b = i" using get_booking_or_404_Inr [OF Inr] appointment_get_mem by blast
    then show ?thesis
      using assms(1,5) reschedule_appointment_other [OF _ assms(1) other [OF Inr]] Inr
      by (auto simp: reschedule_booking_def split: if_splits sum.splits prod.splits option.splits)
  qed (use assms(1,5) in \<open>simp add: reschedule_booking_def\<close>)
qed

text \<open>Two bookings; the token of the second is used on it.\<close>

definition two_bookings :: world where
  "two_bookings = booked_world
     \<lparr>appointments := [sample_appointment,
        sample_appointment\<lparr>apt_id := 2, apt_booking_reference := ''BKP-2'', apt_booking_access_token := ''t2'',
          apt_start_datetime := 9 * hour_us, apt_end_datetime := 10 * hour_us\<rparr>]\<rparr>"

lemma two_bookings_calls:
  "case (cancel_booking sample_env 2 ''t2'' two_bookings,
         reschedule_booking sample_env 2 ''t2'' (Aware (9 * hour_us + 30 * minute_us) 0) two_bookings) of
     ((Inr _, w1), Some (r, w2)) \<Rightarrow> True | _ \<Rightarrow> False"
  by code_simp

theorem self_service_needs_token_witness:
  "sample_appointment \<in> set (appointments (snd (cancel_booking sample_env 2 ''t2'' two_bookings))) \<and>
   (\<forall>s. get_booking sample_env 1 ''t2'' two_bookings \<noteq> Inr s)"
proof -
  obtain r w1 r' w2 where c: "cancel_booking sample_env 2 ''t2'' two_bookings = (r, w1)"
    and m: "reschedule_booking sample_env 2 ''t2'' (Aware (9 * hour_us + 30 * minute_us) 0) two_bookings = Some (r', w2)"
    using two_bookings_calls by (auto split: option.splits prod.splits sum.splits)
  have "sample_appointment \<in> set (appointments two_bookings)" "apt_booking_access_token sample_appointment \<noteq> ''t2''"
    "tbl_ok apt_id (appointments two_bookings)" "apt_id sample_appointment = 1"
    by (simp_all add: two_bookings_def sample_appointment_def tbl_ok_def)
  with self_service_needs_token [OF this(1-3) c m] c show ?thesis by simp
qed

end
