(* ===== verification/Whatsapp_Io.thy ===== *)
theory Whatsapp_Io
  imports Self_Service
begin

text \<open>
  The edges of the WhatsApp channel: the messages of \<^verbatim>\<open>schemas/whatsapp.py\<close>, the parser of
  webhook payloads (\<^verbatim>\<open>services/whatsapp/parser.py\<close>) and the client of the provider
  (\<^verbatim>\<open>services/whatsapp/gateway.py\<close>) with its retries.  The network and the JSON parser are
  fields of the environment; sleeping between attempts is left out.
\<close>

section \<open>Messages\<close>

datatype inbound_type =
    IN_TEXT
  | IN_BUTTON_REPLY
  | IN_LIST_REPLY
  | IN_INTERACTIVE_UNKNOWN
  | IN_UNSUPPORTED

record inbound_message =
  inb_external_message_id :: string
  inb_external_user_id :: string
  inb_external_chat_id :: "string option"
  inb_message_type :: inbound_type
  inb_text_body :: "string option"
  inb_action_id :: "string option"
  inb_action_title :: "string option"
  inb_timestamp :: "instant option"
  inb_raw_payload :: json

record list_row =
  lrw_id :: string
  lrw_title :: string
  lrw_description :: "string option"

record list_section =
  lsc_title :: string
  lsc_rows :: "list_row list"

record button_option =
  btn_id :: string
  btn_title :: string

datatype outbound_type = OUT_TEXT | OUT_BUTTONS | OUT_LIST

record outbound_message =
  obm_message_type :: outbound_type
  obm_body :: string
  obm_buttons :: "button_option list"
  obm_list_button_text :: "string option"
  obm_list_sections :: "list_section list"
  obm_header_text :: "string option"
  obm_footer_text :: "string option"

definition validate_message_shape :: "outbound_message \<Rightarrow> outbound_message result" where
  "validate_message_shape m =
     (if obm_message_type m = OUT_BUTTONS \<and> obm_buttons m = []
      then Inl (ValueError ''buttons message requires at least one button.'')
      else if obm_message_type m = OUT_BUTTONS \<and> 3 < length (obm_buttons m)
      then Inl (ValueError ''buttons message supports at most three buttons.'')
      else if obm_message_type m = OUT_LIST \<and> or_else (obm_list_button_text m) None = None
      then Inl (ValueError ''list message requires list_button_text.'')
      else if obm_message_type m = OUT_LIST \<and> obm_list_sections m = []
      then Inl (ValueError ''list message requires at least one list section.'')
      else Inr m)"

definition inbound_type_value :: "inbound_type \<Rightarrow> string" where
  "inbound_type_value t =
     (case t of IN_TEXT \<Rightarrow> ''text'' | IN_BUTTON_REPLY \<Rightarrow> ''button_reply'' | IN_LIST_REPLY \<Rightarrow> ''list_reply''
      | IN_INTERACTIVE_UNKNOWN \<Rightarrow> ''interactive_unknown'' | IN_UNSUPPORTED \<Rightarrow> ''unsupported'')"

definition outbound_type_value :: "outbound_type \<Rightarrow> string" where
  "outbound_type_value t = (case t of OUT_TEXT \<Rightarrow> ''text'' | OUT_BUTTONS \<Rightarrow> ''buttons'' | OUT_LIST \<Rightarrow> ''list'')"

text \<open>\<^verbatim>\<open>model_dump(mode="json")\<close> of the two kinds of message.\<close>

definition inbound_json :: "env \<Rightarrow> inbound_message \<Rightarrow> json" where
  "inbound_json ev m = JObj
     [(''channel'', JStr (channel_type_value CH_WHATSAPP)),
      (''external_message_id'', JStr (inb_external_message_id m)),
      (''external_user_id'', JStr (inb_external_user_id m)),
      (''external_chat_id'', json_opt JStr (inb_external_chat_id m)),
      (''message_type'', JStr (inbound_type_value (inb_message_type m))),
      (''text_body'', json_opt JStr (inb_text_body m)),
      (''action_id'', json_opt JStr (inb_action_id m)),
      (''action_title'', json_opt JStr (inb_action_title m)),
      (''timestamp'', json_opt (json_instant ev) (inb_timestamp m)),
      (''raw_payload'', inb_raw_payload m)]"

definition row_json :: "list_row \<Rightarrow> json" where
  "row_json r = JObj [(''id'', JStr (lrw_id r)), (''title'', JStr (lrw_title r)),
                      (''description'', json_opt JStr (lrw_description r))]"

definition section_json :: "list_section \<Rightarrow> json" where
  "section_json s = JObj [(''title'', JStr (lsc_title s)), (''rows'', JList (map row_json (lsc_rows s)))]"

definition button_json :: "button_option \<Rightarrow> json" where
  "button_json b = JObj [(''id'', JStr (btn_id b)), (''title'', JStr (btn_title b))]"

definition outbound_json :: "outbound_message \<Rightarrow> json" where
  "outbound_json m = JObj
     [(''message_type'', JStr (outbound_type_value (obm_message_type m))),
      (''body'', JStr (obm_body m)), (''buttons'', JList (map button_json (obm_buttons m))),
      (''list_button_text'', json_opt JStr (obm_list_button_text m)),
      (''list_sections'', JList (map section_json (obm_list_sections m))),
      (''header_text'', json_opt JStr (obm_header_text m)), (''footer_text'', json_opt JStr (obm_footer_text m))]"

section \<open>The parser of webhook payloads\<close>

definition as_dict :: "json option \<Rightarrow> (string \<times> json) list" where
  "as_dict value = (case value of Some (JObj kvs) \<Rightarrow> kvs | _ \<Rightarrow> [])"

definition as_str :: "json option \<Rightarrow> string option" where
  "as_str value =
     (case value of
        Some (JStr s) \<Rightarrow> (let normalized = strip s in if normalized = [] then None else Some normalized)
      | _ \<Rightarrow> None)"

text \<open>What a \<^verbatim>\<open>for\<close> loop sees of a value; a list in the code's own test is a \<^verbatim>\<open>JList\<close>.\<close>

definition iterate :: "json \<Rightarrow> json list result" where
  "iterate value =
     (case value of
        JList items \<Rightarrow> Inr items
      | JObj kvs \<Rightarrow> Inr (map (JStr \<circ> fst) kvs)
      | JStr s \<Rightarrow> Inr (map (\<lambda>c. JStr [c]) s)
      | _ \<Rightarrow> Inl (TypeError ''object is not iterable''))"

text \<open>
  A number of seconds since 1970 must name an instant before the year 10000; the code does not
  catch the error.  Other texts go to the ISO parser, which knows the suffix Z since Python 3.11.
\<close>

definition parse_timestamp :: "env \<Rightarrow> json option \<Rightarrow> instant option result" where
  "parse_timestamp ev value =
     (case as_str value of
        None \<Rightarrow> Inr None
      | Some text \<Rightarrow>
        if \<forall>c \<in> set text. is_digit c then
         (let seconds = digits_value 0 text in
          if 253402300799 < seconds then Inl (ValueError ''year is out of range'')
          else Inr (Some (seconds * second_us)))
        else Inr (map_option as_utc
          (datetime_fromisoformat ev (concat (map (\<lambda>c. if c = CHR ''Z'' then ''+00:00'' else [c]) text)))))"

text \<open>The fields the parser reads from the typed part of a message.\<close>

definition message_content ::
  "string \<Rightarrow> (string \<times> json) list \<Rightarrow> inbound_type \<times> string option \<times> string option \<times> string option" where
  "message_content message_type message =
     (if message_type = ''text'' then
        (IN_TEXT, as_str (map_of (as_dict (map_of message ''text'')) ''body''), None, None)
      else if message_type = ''interactive'' then
       (let interactive = as_dict (map_of message ''interactive'');
            interactive_type = as_str (map_of interactive ''type'') in
        if interactive_type = Some ''button_reply'' then
         (let button = as_dict (map_of interactive ''button_reply'') in
          (IN_BUTTON_REPLY, None, as_str (map_of button ''id''), as_str (map_of button ''title'')))
        else if interactive_type = Some ''list_reply'' then
         (let reply = as_dict (map_of interactive ''list_reply'') in
          (IN_LIST_REPLY, None, as_str (map_of reply ''id''), as_str (map_of reply ''title'')))
        else (IN_INTERACTIVE_UNKNOWN, None, None, None))
      else if message_type = ''button'' then
       (let button = as_dict (map_of message ''button'') in
        (IN_BUTTON_REPLY, None, as_str (map_of button ''payload''), as_str (map_of button ''text'')))
      else (IN_UNSUPPORTED, None, None, None))"

definition normalize_message ::
  "env \<Rightarrow> (string \<times> string) list \<Rightarrow> json \<Rightarrow> inbound_message option result" where
  "normalize_message ev wa_name_by_id message =
     (let message_obj = as_dict (Some message) in
      case (as_str (map_of message_obj ''id''), as_str (map_of message_obj ''from'')) of
        (Some external_message_id, Some external_user_id) \<Rightarrow>
         (let message_type = str_or (as_str (map_of message_obj ''type'')) ''unsupported'' in
          case parse_timestamp ev (map_of message_obj ''timestamp'') of
            Inl e \<Rightarrow> Inl e
          | Inr timestamp \<Rightarrow>
             (let (normalized_type, text_body, action_id, action_title) = message_content message_type message_obj in
              Inr (Some \<lparr>inb_external_message_id = external_message_id, inb_external_user_id = external_user_id,
                         inb_external_chat_id = map_of (rev wa_name_by_id) external_user_id,
                         inb_message_type = normalized_type, inb_text_body = text_body,
                         inb_action_id = action_id, inb_action_title = action_title,
                         inb_timestamp = timestamp, inb_raw_payload = JObj message_obj\<rparr>)))
      | _ \<Rightarrow> Inr None)"

definition contact_name :: "json \<Rightarrow> (string \<times> string) option" where
  "contact_name contact =
     (let contact_obj = as_dict (Some contact) in
      case (as_str (map_of contact_obj ''wa_id''), as_str (map_of (as_dict (map_of contact_obj ''profile'')) ''name'')) of
        (Some wa_id, Some profile_name) \<Rightarrow> Some (wa_id, profile_name)
      | _ \<Rightarrow> None)"

definition normalize_change :: "env \<Rightarrow> json \<Rightarrow> inbound_message list result" where
  "normalize_change ev change =
     (let value = as_dict (map_of (as_dict (Some change)) ''value'');
          wa_name_by_id = (case map_of value ''contacts'' of
                             Some (JList contacts) \<Rightarrow> List.map_filter contact_name contacts
                           | _ \<Rightarrow> []) in
      case map_of value ''messages'' of
        Some (JList messages) \<Rightarrow>
          (case map_result (normalize_message ev wa_name_by_id) messages of
             Inl e \<Rightarrow> Inl e
           | Inr ms \<Rightarrow> Inr (List.map_filter (\<lambda>m. m) ms))
      | _ \<Rightarrow> Inr [])"

definition normalize_entry :: "env \<Rightarrow> json \<Rightarrow> inbound_message list result" where
  "normalize_entry ev entry =
     (case iterate (case map_of (as_dict (Some entry)) ''changes'' of None \<Rightarrow> JList [] | Some v \<Rightarrow> v) of
        Inl e \<Rightarrow> Inl e
      | Inr changes \<Rightarrow>
          (case map_result (normalize_change ev) changes of Inl e \<Rightarrow> Inl e | Inr mss \<Rightarrow> Inr (concat mss)))"

definition normalize_whatsapp_messages :: "env \<Rightarrow> (string \<times> json) list \<Rightarrow> inbound_message list result" where
  "normalize_whatsapp_messages ev payload =
     (case iterate (case map_of payload ''entry'' of None \<Rightarrow> JList [] | Some v \<Rightarrow> v) of
        Inl e \<Rightarrow> Inl e
      | Inr entries \<Rightarrow>
          (case map_result (normalize_entry ev) entries of Inl e \<Rightarrow> Inl e | Inr mss \<Rightarrow> Inr (concat mss)))"

section \<open>The gateway\<close>

record gateway_config =
  gwc_phone_number_id :: string
  gwc_access_token :: string
  gwc_max_retries :: nat

definition gateway_configuration :: "settings \<Rightarrow> gateway_config" where
  "gateway_configuration s =
     \<lparr>gwc_phone_number_id = strip (str_or (cfg_whatsapp_phone_number_id s) []),
      gwc_access_token = strip (str_or (cfg_whatsapp_access_token s) []),
      gwc_max_retries = nat (cfg_whatsapp_outbound_max_retries s)\<rparr>"

text \<open>The attempts that are left, and the number of those made.\<close>

fun post_with_retries :: "env \<Rightarrow> nat \<Rightarrow> json \<Rightarrow> nat \<Rightarrow> nat \<Rightarrow> (string \<times> json) list result" where
  "post_with_retries ev n payload 0 attempt = Inl (GatewayError ''WhatsApp Cloud API request failed.'')"
| "post_with_retries ev n payload (Suc left) attempt =
     (case http_post ev n payload attempt of
        HttpBody body \<Rightarrow>
          if body = [] then Inr []
          else (case json_loads ev body of
                  Inl e \<Rightarrow> Inl e
                | Inr (JObj parsed) \<Rightarrow> Inr parsed
                | Inr _ \<Rightarrow> Inl (GatewayError ''WhatsApp Cloud API returned a non-object response.''))
      | HttpStatus status_code _ \<Rightarrow>
          if \<not> 500 \<le> status_code \<or> left = 0
          then Inl (GatewayError (''WhatsApp Cloud API request failed with status '' @ int_str status_code @ ''.''))
          else post_with_retries ev n payload left (Suc attempt)
      | NetworkError reason \<Rightarrow>
          if left = 0 then Inl (GatewayError (''WhatsApp Cloud API network error: '' @ reason))
          else post_with_retries ev n payload left (Suc attempt)
      | HttpRaises e \<Rightarrow> Inl e)"

definition post_messages :: "env \<Rightarrow> nat \<Rightarrow> json \<Rightarrow> (string option \<times> json) result" where
  "post_messages ev n payload =
     (let gateway = gateway_configuration (config ev) in
      if gwc_phone_number_id gateway = [] \<or> gwc_access_token gateway = []
      then Inl (GatewayError ''WhatsApp Cloud API credentials are not configured.'')
      else case post_with_retries ev n payload (gwc_max_retries gateway + 1) 0 of
        Inl e \<Rightarrow> Inl e
      | Inr response_payload \<Rightarrow>
          Inr ((case map_of response_payload ''messages'' of
                  Some (JList (JObj first # _)) \<Rightarrow> as_str (map_of first ''id'')
                | _ \<Rightarrow> None),
               JObj response_payload))"

definition send_text :: "env \<Rightarrow> nat \<Rightarrow> string \<Rightarrow> string \<Rightarrow> (string option \<times> json) result" where
  "send_text ev n to body =
     post_messages ev n (JObj
       [(''messaging_product'', JStr ''whatsapp''), (''to'', JStr to), (''type'', JStr ''text''),
        (''text'', JObj [(''preview_url'', JBool False), (''body'', JStr body)])])"

definition send_buttons ::
  "env \<Rightarrow> nat \<Rightarrow> string \<Rightarrow> string \<Rightarrow> button_option list \<Rightarrow> (string option \<times> json) result" where
  "send_buttons ev n to body buttons =
     post_messages ev n (JObj
       [(''messaging_product'', JStr ''whatsapp''), (''to'', JStr to), (''type'', JStr ''interactive''),
        (''interactive'', JObj
           [(''type'', JStr ''button''), (''body'', JObj [(''text'', JStr body)]),
            (''action'', JObj
               [(''buttons'', JList (map (\<lambda>option.
                   JObj [(''type'', JStr ''reply''),
                         (''reply'', JObj [(''id'', JStr (btn_id option)), (''title'', JStr (btn_title option))])])
                 buttons))])])])"

definition send_list ::
  "env \<Rightarrow> nat \<Rightarrow> string \<Rightarrow> string \<Rightarrow> string \<Rightarrow> list_section list \<Rightarrow> string option \<Rightarrow> string option
    \<Rightarrow> (string option \<times> json) result" where
  "send_list ev n to body list_button_text sections header_text footer_text =
     (let interactive_payload =
        [(''type'', JStr ''list''), (''body'', JObj [(''text'', JStr body)]),
         (''action'', JObj
            [(''button'', JStr list_button_text), (''sections'', JList (map section_json sections))])] @
        (case or_else header_text None of
           None \<Rightarrow> [] | Some h \<Rightarrow> [(''header'', JObj [(''type'', JStr ''text''), (''text'', JStr h)])]) @
        (case or_else footer_text None of None \<Rightarrow> [] | Some f \<Rightarrow> [(''footer'', JObj [(''text'', JStr f)])]) in
      post_messages ev n (JObj
        [(''messaging_product'', JStr ''whatsapp''), (''to'', JStr to), (''type'', JStr ''interactive''),
         (''interactive'', JObj interactive_payload)]))"

section \<open>Retries\<close>

text \<open>A reply after which another attempt is made, as long as attempts are left.\<close>

definition retryable :: "http_reply \<Rightarrow> bool" where
  "retryable reply = (case reply of HttpStatus s _ \<Rightarrow> 500 \<le> s | NetworkError _ \<Rightarrow> True | _ \<Rightarrow> False)"

lemma post_retries_skip:
  "(\<And>k. k < m \<Longrightarrow> retryable (http_post ev n payload (attempt + k))) \<Longrightarrow> m \<le> left \<Longrightarrow>
   post_with_retries ev n payload (Suc left) attempt = post_with_retries ev n payload (Suc (left - m)) (attempt + m)"
proof (induction m arbitrary: attempt left)
  case (Suc m)
  have r: "retryable (http_post ev n payload attempt)" using Suc.prems(1) [of 0] by simp
  from Suc.prems(2) obtain l where l: "left = Suc l" by (cases left) auto
  have "post_with_retries ev n payload (Suc left) attempt = post_with_retries ev n payload (Suc l) (Suc attempt)"
    using r by (simp add: l retryable_def split: http_reply.splits if_splits)
  also have "\<dots> = post_with_retries ev n payload (Suc (l - m)) (Suc attempt + m)"
    using Suc.prems(1) [of "Suc _"] Suc.prems(2) l by (intro Suc.IH) auto
  finally show ?case by (simp add: l)
qed simp

end
