(* ===== verification/Workers.thy ===== *)
theory Workers
  imports Self_Service
begin

text \<open>
  The worker process: the tasks of \<^verbatim>\<open>workers/tasks.py\<close>, the payloads of
  \<^verbatim>\<open>services/notifications/service.py\<close> they record and the clean-up of
  \<^verbatim>\<open>services/operations/cleanup_service.py\<close>.  A task answers a dictionary, here a \<^verbatim>\<open>json\<close>
  object, or raises; what it committed before raising stays.  The correlation identifier and
  the log lines are left out.
\<close>

section \<open>Notification payloads\<close>

definition build_payload :: "env \<Rightarrow> string \<Rightarrow> appointment \<Rightarrow> json" where
  "build_payload ev event appointment = JObj
     [(''event'', JStr event), (''appointment_id'', JInt (apt_id appointment)),
      (''provider_id'', JInt (apt_provider_id appointment)),
      (''customer_id'', JInt (apt_customer_id appointment)),
      (''scheduled_start'', JStr (isoformat_utc (apt_start_datetime appointment))),
      (''scheduled_end'', JStr (isoformat_utc (apt_end_datetime appointment))),
      (''timestamp'', JStr (isoformat_utc (now ev)))]"

definition send_booking_confirmation :: "env \<Rightarrow> appointment \<Rightarrow> json" where
  "send_booking_confirmation ev appointment = build_payload ev ''appointment_created'' appointment"
definition send_booking_cancellation :: "env \<Rightarrow> appointment \<Rightarrow> json" where
  "send_booking_cancellation ev appointment = build_payload ev ''appointment_cancelled'' appointment"
definition send_booking_reschedule :: "env \<Rightarrow> appointment \<Rightarrow> json" where
  "send_booking_reschedule ev appointment = build_payload ev ''appointment_rescheduled'' appointment"
definition send_booking_reminder :: "env \<Rightarrow> appointment \<Rightarrow> json" where
  "send_booking_reminder ev appointment = build_payload ev ''appointment_reminder'' appointment"
definition send_payment_succeeded :: "env \<Rightarrow> appointment \<Rightarrow> json" where
  "send_payment_succeeded ev appointment = build_payload ev ''payment_succeeded'' appointment"
definition send_payment_failed :: "env \<Rightarrow> appointment \<Rightarrow> json" where
  "send_payment_failed ev appointment = build_payload ev ''payment_failed'' appointment"
definition send_payment_required :: "env \<Rightarrow> appointment \<Rightarrow> json" where
  "send_payment_required ev appointment = build_payload ev ''payment_required'' appointment"
definition send_booking_auto_canceled_payment_timeout :: "env \<Rightarrow> appointment \<Rightarrow> json" where
  "send_booking_auto_canceled_payment_timeout ev appointment =
     build_payload ev ''booking_auto_canceled_due_to_payment_timeout'' appointment"
definition send_refund_initiated :: "env \<Rightarrow> appointment \<Rightarrow> json" where
  "send_refund_initiated ev appointment = build_payload ev ''refund_initiated'' appointment"
definition send_refund_succeeded :: "env \<Rightarrow> appointment \<Rightarrow> json" where
  "send_refund_succeeded ev appointment = build_payload ev ''refund_succeeded'' appointment"
definition send_refund_failed :: "env \<Rightarrow> appointment \<Rightarrow> json" where
  "send_refund_failed ev appointment = build_payload ev ''refund_failed'' appointment"
definition send_earning_created :: "env \<Rightarrow> appointment \<Rightarrow> json" where
  "send_earning_created ev appointment = build_payload ev ''earning_created'' appointment"

definition build_payout_payload :: "env \<Rightarrow> string \<Rightarrow> payout \<Rightarrow> json" where
  "build_payout_payload ev event payout = JObj
     ([(''event'', JStr event), (''payout_id'', JInt (po_id payout)),
       (''provider_id'', JInt (po_provider_id payout)),
       (''total_amount_minor'', JInt (po_total_amount_minor payout)),
       (''currency'', JStr (po_currency payout)), (''timestamp'', JStr (isoformat_utc (now ev)))] @
      (case po_provider_payout_reference payout of
         None \<Rightarrow> []
       | Some r \<Rightarrow> if r = [] then [] else [(''provider_payout_reference'', JStr r)]))"

definition send_payout_created :: "env \<Rightarrow> payout \<Rightarrow> json" where
  "send_payout_created ev payout = build_payout_payload ev ''payout_created'' payout"
definition send_payout_completed :: "env \<Rightarrow> payout \<Rightarrow> json" where
  "send_payout_completed ev payout = build_payout_payload ev ''payout_completed'' payout"
definition send_payout_failed :: "env \<Rightarrow> payout \<Rightarrow> json" where
  "send_payout_failed ev payout = build_payout_payload ev ''payout_failed'' payout"

section \<open>Status updates\<close>

definition REMINDER_TASK_NAME :: string where
  "REMINDER_TASK_NAME = ''bookpoint.notifications.appointment_reminder''"
definition PAYMENT_EXPIRATION_TASK_NAME :: string where
  "PAYMENT_EXPIRATION_TASK_NAME = ''bookpoint.payments.expire_pending''"
definition PAYOUT_PROCESSING_TASK_NAME :: string where
  "PAYOUT_PROCESSING_TASK_NAME = ''bookpoint.payouts.process_pending''"
definition OPS_CLEANUP_TASK_NAME :: string where
  "OPS_CLEANUP_TASK_NAME = ''bookpoint.ops.cleanup_operational_data''"

definition new_notification ::
  "int \<Rightarrow> notification_type \<Rightarrow> notification_status \<Rightarrow> instant \<Rightarrow> instant option \<Rightarrow> json \<Rightarrow> notification" where
  "new_notification appointment_id kind status scheduled_for sent_at payload =
     \<lparr>ntf_id = 0, ntf_appointment_id = appointment_id, ntf_type = kind, ntf_status = status,
      ntf_scheduled_for = scheduled_for, ntf_sent_at = sent_at, ntf_payload_json = Some payload\<rparr>"

definition execute_status_update_task ::
  "env \<Rightarrow> int \<Rightarrow> string \<Rightarrow> (appointment \<Rightarrow> json) \<Rightarrow> world \<Rightarrow> (exn + json) \<times> world" where
  "execute_status_update_task ev appointment_id event_type sender w =
     (case appointment_get appointment_id w of
        None \<Rightarrow>
          (Inr (JObj [(''event'', JStr event_type), (''appointment_id'', JInt appointment_id),
                      (''status'', JStr ''appointment_not_found'')]), w)
      | Some appointment \<Rightarrow>
          (case notification_create
                  (new_notification (apt_id appointment) STATUS_UPDATE NTF_SENT (apt_start_datetime appointment)
                     (Some (now ev)) (sender appointment)) w of
             Inl e \<Rightarrow> (Inl e, w)
           | Inr (notification, w') \<Rightarrow>
               (Inr (JObj [(''event'', JStr event_type), (''appointment_id'', JInt (apt_id appointment)),
                           (''notification_id'', JInt (ntf_id notification)), (''status'', JStr ''sent'')]), w')))"

definition execute_payout_notification_task ::
  "int \<Rightarrow> string \<Rightarrow> (payout \<Rightarrow> json) \<Rightarrow> world \<Rightarrow> (exn + json) \<times> world" where
  "execute_payout_notification_task payout_id event_type sender w =
     (case payout_get payout_id w of
        None \<Rightarrow>
          (Inr (JObj [(''event'', JStr event_type), (''payout_id'', JInt payout_id),
                      (''status'', JStr ''payout_not_found'')]), w)
      | Some payout \<Rightarrow>
          (Inr (JObj [(''event'', JStr event_type), (''payout_id'', JInt (po_id payout)),
                      (''status'', JStr ''sent'')]), w))"

definition ping :: string where
  "ping = ''pong''"

definition send_notification_placeholder :: "int \<Rightarrow> json" where
  "send_notification_placeholder notification_id =
     JObj [(''notification_id'', JInt notification_id), (''status'', JStr ''placeholder_not_sent'')]"

definition notify_appointment_created :: "env \<Rightarrow> int \<Rightarrow> world \<Rightarrow> (exn + json) \<times> world" where
  "notify_appointment_created ev appointment_id =
     execute_status_update_task ev appointment_id ''appointment_created'' (send_booking_confirmation ev)"
definition notify_appointment_cancelled :: "env \<Rightarrow> int \<Rightarrow> world \<Rightarrow> (exn + json) \<times> world" where
  "notify_appointment_cancelled ev appointment_id =
     execute_status_update_task ev appointment_id ''appointment_cancelled'' (send_booking_cancellation ev)"
definition notify_appointment_rescheduled :: "env \<Rightarrow> int \<Rightarrow> world \<Rightarrow> (exn + json) \<times> world" where
  "notify_appointment_rescheduled ev appointment_id =
     execute_status_update_task ev appointment_id ''appointment_rescheduled'' (send_booking_reschedule ev)"
definition notify_payment_succeeded :: "env \<Rightarrow> int \<Rightarrow> world \<Rightarrow> (exn + json) \<times> world" where
  "notify_payment_succeeded ev appointment_id =
     execute_status_update_task ev appointment_id ''payment_succeeded'' (send_payment_succeeded ev)"
definition notify_payment_required :: "env \<Rightarrow> int \<Rightarrow> world \<Rightarrow> (exn + json) \<times> world" where
  "notify_payment_required ev appointment_id =
     execute_status_update_task ev appointment_id ''payment_required'' (send_payment_required ev)"
definition notify_payment_failed :: "env \<Rightarrow> int \<Rightarrow> world \<Rightarrow> (exn + json) \<times> world" where
  "notify_payment_failed ev appointment_id =
     execute_status_update_task ev appointment_id ''payment_failed'' (send_payment_failed ev)"
definition notify_booking_auto_canceled_payment_timeout :: "env \<Rightarrow> int \<Rightarrow> world \<Rightarrow> (exn + json) \<times> world" where
  "notify_booking_auto_canceled_payment_timeout ev appointment_id =
     execute_status_update_task ev appointment_id ''booking_auto_canceled_due_to_payment_timeout''
       (send_booking_auto_canceled_payment_timeout ev)"
definition notify_refund_initiated :: "env \<Rightarrow> int \<Rightarrow> world \<Rightarrow> (exn + json) \<times> world" where
  "notify_refund_initiated ev appointment_id =
     execute_status_update_task ev appointment_id ''refund_initiated'' (send_refund_initiated ev)"
definition notify_refund_succeeded :: "env \<Rightarrow> int \<Rightarrow> world \<Rightarrow> (exn + json) \<times> world" where
  "notify_refund_succeeded ev appointment_id =
     execute_status_update_task ev appointment_id ''refund_succeeded'' (send_refund_succeeded ev)"
definition notify_refund_failed :: "env \<Rightarrow> int \<Rightarrow> world \<Rightarrow> (exn + json) \<times> world" where
  "notify_refund_failed ev appointment_id =
     execute_status_update_task ev appointment_id ''refund_failed'' (send_refund_failed ev)"
definition notify_earning_created :: "env \<Rightarrow> int \<Rightarrow> world \<Rightarrow> (exn + json) \<times> world" where
  "notify_earning_created ev appointment_id =
     execute_status_update_task ev appointment_id ''earning_created'' (send_earning_created ev)"
definition notify_payout_created :: "env \<Rightarrow> int \<Rightarrow> world \<Rightarrow> (exn + json) \<times> world" where
  "notify_payout_created ev payout_id =
     execute_payout_notification_task payout_id ''payout_created'' (send_payout_created ev)"
definition notify_payout_completed :: "env \<Rightarrow> int \<Rightarrow> world \<Rightarrow> (exn + json) \<times> world" where
  "notify_payout_completed ev payout_id =
     execute_payout_notification_task payout_id ''payout_completed'' (send_payout_completed ev)"
definition notify_payout_failed :: "env \<Rightarrow> int \<Rightarrow> world \<Rightarrow> (exn + json) \<times> world" where
  "notify_payout_failed ev payout_id =
     execute_payout_notification_task payout_id ''payout_failed'' (send_payout_failed ev)"

section \<open>Reminders\<close>

definition notify_appointment_reminder :: "env \<Rightarrow> int \<Rightarrow> world \<Rightarrow> (exn + json) \<times> world" where
  "notify_appointment_reminder ev appointment_id w =
     (case appointment_get appointment_id w of
        None \<Rightarrow>
          (Inr (JObj [(''event'', JStr ''appointment_reminder''), (''appointment_id'', JInt appointment_id),
                      (''status'', JStr ''appointment_not_found'')]), w)
      | Some appointment \<Rightarrow>
       (let payload = send_booking_reminder ev appointment;
            written =
              (case notification_get_latest_pending_for_appointment (apt_id appointment) REMINDER w of
                 None \<Rightarrow>
                   notification_create
                     (new_notification (apt_id appointment) REMINDER NTF_SENT (apt_start_datetime appointment)
                        (Some (now ev)) payload) w
               | Some pending \<Rightarrow>
                  (let sent = pending\<lparr>ntf_status := NTF_SENT, ntf_sent_at := Some (now ev),
                                      ntf_payload_json := Some payload\<rparr> in
                   case notification_update sent w of Inl e \<Rightarrow> Inl e | Inr w' \<Rightarrow> Inr (sent, w'))) in
        case written of
          Inl e \<Rightarrow> (Inl e, increment_counter ''worker_failures_total'' w)
        | Inr (notification, w1) \<Rightarrow>
            (Inr (JObj [(''event'', JStr ''appointment_reminder''), (''appointment_id'', JInt (apt_id appointment)),
                        (''notification_id'', JInt (ntf_id notification)), (''status'', JStr ''sent'')]),
             record_event ev
               ((event_defaults ''reminder_sent'')
                  \<lparr>ev_entity_type := Some ''appointment'', ev_entity_id := Some (apt_id appointment),
                   ev_organization_id := Some (apt_organization_id appointment), ev_actor_type := ''worker'',
                   ev_related_appointment_id := Some (apt_id appointment), ev_status := ''success'',
                   ev_payload_json := JObj [(''notification_id'', JInt (ntf_id notification))]\<rparr>)
               (increment_counter ''reminders_sent_total'' w1))))"

record reminder_counts =
  rmc_checked :: int
  rmc_queued :: int
  rmc_skipped :: int
  rmc_failed :: int

definition reminder_queued_payload :: "env \<Rightarrow> appointment \<Rightarrow> json" where
  "reminder_queued_payload ev appointment = build_payload ev ''appointment_reminder_queued'' appointment"

definition reminder_scheduled_event :: "appointment \<Rightarrow> string \<Rightarrow> json \<Rightarrow> domain_event" where
  "reminder_scheduled_event appointment status payload =
     (event_defaults ''reminder_scheduled'')
       \<lparr>ev_entity_type := Some ''appointment'', ev_entity_id := Some (apt_id appointment),
        ev_organization_id := Some (apt_organization_id appointment), ev_actor_type := ''worker'',
        ev_related_appointment_id := Some (apt_id appointment), ev_status := status,
        ev_payload_json := payload\<rparr>"

datatype reminder_outcome = Reminder_queued | Reminder_skipped | Reminder_failed

text \<open>
  One turn of the scheduler's loop.  The pending row is committed before the task is handed
  over; when the broker refuses it the row is marked failed.
\<close>

definition queue_reminder :: "env \<Rightarrow> appointment \<Rightarrow> world \<Rightarrow> reminder_outcome \<times> world" where
  "queue_reminder ev appointment w =
     (if notification_exists_for_appointment (apt_id appointment) REMINDER [NTF_PENDING, NTF_SENT] w
      then (Reminder_skipped, w)
      else case notification_create
              (new_notification (apt_id appointment) REMINDER NTF_PENDING (apt_start_datetime appointment)
                 None (reminder_queued_payload ev appointment)) w of
        Inl e \<Rightarrow> (Reminder_failed, increment_counter ''worker_failures_total'' w)
      | Inr (pending, w1) \<Rightarrow>
       (let (accepted, w2) = enqueue_task ev REMINDER_TASK_NAME (apt_id appointment) w1 in
        if accepted then
          (Reminder_queued,
           record_event ev
             (reminder_scheduled_event appointment ''success'' (JObj [(''notification_id'', JInt (ntf_id pending))]))
             (increment_counter ''reminders_scheduled_total'' w2))
        else
         (case notification_update
                 (pending\<lparr>ntf_status := NTF_FAILED,
                    ntf_payload_json := Some (JObj
                      [(''event'', JStr ''appointment_reminder_queue_failed''),
                       (''appointment_id'', JInt (apt_id appointment)),
                       (''timestamp'', JStr (isoformat_utc (now ev)))])\<rparr>) w2 of
            Inl e \<Rightarrow> (Reminder_failed, increment_counter ''worker_failures_total'' w2)
          | Inr w3 \<Rightarrow>
              (Reminder_failed,
               record_event ev
                 (reminder_scheduled_event appointment ''failure'' (JObj [(''reason'', JStr ''enqueue_failed'')]))
                 (increment_counter ''worker_failures_total'' w3)))))"

definition count_reminder :: "reminder_outcome \<Rightarrow> reminder_counts \<Rightarrow> reminder_counts" where
  "count_reminder outcome c =
     (let c1 = c\<lparr>rmc_checked := rmc_checked c + 1\<rparr> in
      case outcome of
        Reminder_queued \<Rightarrow> c1\<lparr>rmc_queued := rmc_queued c1 + 1\<rparr>
      | Reminder_skipped \<Rightarrow> c1\<lparr>rmc_skipped := rmc_skipped c1 + 1\<rparr>
      | Reminder_failed \<Rightarrow> c1\<lparr>rmc_failed := rmc_failed c1 + 1\<rparr>)"

fun reminder_loop :: "env \<Rightarrow> appointment list \<Rightarrow> reminder_counts \<Rightarrow> world \<Rightarrow> reminder_counts \<times> world" where
  "reminder_loop ev [] c w = (c, w)"
| "reminder_loop ev (appointment # rest) c w =
     (let (outcome, w1) = queue_reminder ev appointment w in
      reminder_loop ev rest (count_reminder outcome c) w1)"

definition due_reminders :: "env \<Rightarrow> int \<Rightarrow> world \<Rightarrow> appointment list" where
  "due_reminders ev lookahead_minutes w =
     appointment_list_starting_between (now ev) (now ev + lookahead_minutes * minute_us)
       [APT_PENDING, APT_CONFIRMED] w"

definition schedule_upcoming_reminders :: "env \<Rightarrow> int \<Rightarrow> world \<Rightarrow> reminder_counts \<times> world" where
  "schedule_upcoming_reminders ev lookahead_minutes w =
     (let w1 = increment_counter ''worker_runs_total'' w in
      reminder_loop ev (due_reminders ev lookahead_minutes w1)
        \<lparr>rmc_checked = 0, rmc_queued = 0, rmc_skipped = 0, rmc_failed = 0\<rparr> w1)"

section \<open>Periodic tasks over the services\<close>

definition worker_expire_pending_payments :: "env \<Rightarrow> int option \<Rightarrow> world \<Rightarrow> expiry_counts \<times> world" where
  "worker_expire_pending_payments ev expiration_minutes w =
     (let minutes = (case expiration_minutes of None \<Rightarrow> pending_expiration_minutes ev | Some m \<Rightarrow> m) in
      expire_pending_payments ev (Some minutes) None (increment_counter ''worker_runs_total'' w))"

definition worker_process_pending_payouts :: "env \<Rightarrow> string \<Rightarrow> world \<Rightarrow> (exn + payout_counts) \<times> world" where
  "worker_process_pending_payouts ev provider_name w =
     (case process_pending_payouts ev provider_name (increment_counter ''worker_runs_total'' w) of
        (Inl e, w') \<Rightarrow> (Inl e, increment_counter ''worker_failures_total'' w')
      | (Inr result, w') \<Rightarrow> (Inr result, w'))"

text \<open>\<^verbatim>\<open>days or settings.days\<close>: a retention of 0 days means the configured one.\<close>

definition retention_or :: "int option \<Rightarrow> int \<Rightarrow> int" where
  "retention_or days configured = (case days of None \<Rightarrow> configured | Some d \<Rightarrow> if d = 0 then configured else d)"

record cleanup_result =
  cl_domain_events_deleted :: int
  cl_idempotency_keys_deleted :: int
  cl_domain_events_cutoff :: instant
  cl_idempotency_keys_cutoff :: instant

definition cleanup_operational_data ::
  "env \<Rightarrow> int option \<Rightarrow> int option \<Rightarrow> instant option \<Rightarrow> world \<Rightarrow> cleanup_result \<times> world" where
  "cleanup_operational_data ev domain_events_retention_days idempotency_keys_retention_days now_utc w =
     (let now_value = (case now_utc of None \<Rightarrow> now ev | Some t \<Rightarrow> t);
          domain_days = retention_or domain_events_retention_days (cfg_domain_events_retention_days (config ev));
          idempotency_days = retention_or idempotency_keys_retention_days (cfg_idempotency_keys_retention_days (config ev));
          domain_cutoff = now_value - domain_days * day_us;
          idempotency_cutoff = now_value - idempotency_days * day_us;
          (deleted_domain_events, w1) = domain_event_delete_older_than domain_cutoff w;
          (deleted_idempotency_keys, w2) = idempotency_delete_older_than idempotency_cutoff w1 in
      (\<lparr>cl_domain_events_deleted = deleted_domain_events, cl_idempotency_keys_deleted = deleted_idempotency_keys,
        cl_domain_events_cutoff = domain_cutoff, cl_idempotency_keys_cutoff = idempotency_cutoff\<rparr>, w2))"

definition worker_cleanup_operational_data ::
  "env \<Rightarrow> int option \<Rightarrow> int option \<Rightarrow> world \<Rightarrow> cleanup_result \<times> world" where
  "worker_cleanup_operational_data ev domain_events_retention_days idempotency_keys_retention_days w =
     cleanup_operational_data ev domain_events_retention_days idempotency_keys_retention_days None
       (increment_counter ''worker_runs_total'' w)"

section \<open>The task table of the worker\<close>

text \<open>The tasks by the name they are registered under, for those that carry one identifier.\<close>

definition run_task :: "env \<Rightarrow> string \<Rightarrow> int \<Rightarrow> world \<Rightarrow> ((exn + json) \<times> world) option" where
  "run_task ev task_name entity_id w = map_option (\<lambda>task. task entity_id w)
     (map_of
       [(TASK_APPOINTMENT_CREATED, notify_appointment_created ev),
        (TASK_APPOINTMENT_CANCELLED, notify_appointment_cancelled ev),
        (TASK_APPOINTMENT_RESCHEDULED, notify_appointment_rescheduled ev),
        (TASK_PAYMENT_SUCCEEDED, notify_payment_succeeded ev),
        (TASK_PAYMENT_REQUIRED, notify_payment_required ev),
        (TASK_PAYMENT_FAILED, notify_payment_failed ev),
        (TASK_BOOKING_AUTO_CANCELED_PAYMENT_TIMEOUT, notify_booking_auto_canceled_payment_timeout ev),
        (TASK_REFUND_INITIATED, notify_refund_initiated ev),
        (TASK_REFUND_SUCCEEDED, notify_refund_succeeded ev),
        (TASK_REFUND_FAILED, notify_refund_failed ev),
        (TASK_EARNING_CREATED, notify_earning_created ev),
        (TASK_PAYOUT_CREATED, notify_payout_created ev),
        (TASK_PAYOUT_COMPLETED, notify_payout_completed ev),
        (TASK_PAYOUT_FAILED, notify_payout_failed ev),
        (REMINDER_TASK_NAME, notify_appointment_reminder ev)] task_name)"

section \<open>One reminder per booking\<close>

text \<open>A reminder of the appointment is waiting or was sent.\<close>

definition reminded :: "world \<Rightarrow> int \<Rightarrow> bool" where
  "reminded w i \<longleftrightarrow> notification_exists_for_appointment i REMINDER [NTF_PENDING, NTF_SENT] w"

lemma sent_tasks_announced [simp]:
  "sent_tasks (increment_counter n w) = sent_tasks w"
  "sent_tasks (snd (record_domain_event ev e w)) = sent_tasks w"
  by (simp_all add: increment_counter_def record_domain_event_def domain_event_create_def Let_def)

lemma reminded_business: "business w = business w' \<Longrightarrow> reminded w i = reminded w' i"
  by (auto dest!: business_eqD simp: reminded_def notification_exists_for_appointment_def)

lemma notification_writes:
  "notification_create r w = Inr (r', w') \<Longrightarrow>
     w' = w\<lparr>notifications := notifications w @ [r']\<rparr> \<and> r' = r\<lparr>ntf_id := tbl_fresh ntf_id (notifications w)\<rparr>"
  "notification_update r w = Inr w' \<Longrightarrow> w' = w\<lparr>notifications := tbl_set ntf_id r (notifications w)\<rparr>"
  by (auto simp: notification_create_def notification_update_def db_insert_def db_update_def notification_violates_def
      Let_def split: sum.splits if_splits)

lemma notification_writes_total:
  "notification_create r w = Inr (r\<lparr>ntf_id := tbl_fresh ntf_id (notifications w)\<rparr>,
     w\<lparr>notifications := notifications w @ [r\<lparr>ntf_id := tbl_fresh ntf_id (notifications w)\<rparr>]\<rparr>)"
  "r \<in> set (notifications w) \<Longrightarrow> ntf_id r' = ntf_id r \<Longrightarrow>
     notification_update r' w = Inr (w\<lparr>notifications := tbl_set ntf_id r' (notifications w)\<rparr>)"
  by (auto simp: notification_create_def notification_update_def db_insert_def db_update_def notification_violates_def
      Let_def)

lemma reminded_rows: "reminded w i \<longleftrightarrow>
    (\<exists>n \<in> set (notifications w). ntf_appointment_id n = i \<and> ntf_type n = REMINDER \<and> ntf_status n \<noteq> NTF_FAILED)"
proof -
  have "s \<in> set [NTF_PENDING, NTF_SENT] \<longleftrightarrow> s \<noteq> NTF_FAILED" for s by (cases s) auto
  then show ?thesis by (simp add: reminded_def notification_exists_for_appointment_def)
qed

definition reminder_outcome_of :: "env \<Rightarrow> world \<Rightarrow> appointment \<Rightarrow> reminder_outcome" where
  "reminder_outcome_of ev w a =
     (if reminded w (apt_id a) then Reminder_skipped
      else if broker_accepts ev REMINDER_TASK_NAME (apt_id a) then Reminder_queued else Reminder_failed)"

lemma queue_reminder_effect:
  assumes k: "tbl_ok ntf_id (notifications w)" and q: "queue_reminder ev a w = (out, w')"
  shows "out = reminder_outcome_of ev w a \<and> tbl_ok ntf_id (notifications w') \<and> appointments w' = appointments w \<and>
    sent_tasks w' = sent_tasks w @ (if out = Reminder_queued then [(REMINDER_TASK_NAME, apt_id a)] else []) \<and>
    (\<forall>i. reminded w' i \<longleftrightarrow> reminded w i \<or> (out = Reminder_queued \<and> i = apt_id a))"
proof (cases "reminded w (apt_id a)")
  case True
  then show ?thesis using q k by (simp add: queue_reminder_def reminded_def reminder_outcome_of_def)
next
  case False
  let ?r = "new_notification (apt_id a) REMINDER NTF_PENDING (apt_start_datetime a) None (reminder_queued_payload ev a)"
  let ?p = "?r\<lparr>ntf_id := tbl_fresh ntf_id (notifications w)\<rparr>"
  let ?w1 = "w\<lparr>notifications := notifications w @ [?p]\<rparr>"
  have c: "notification_create ?r w = Inr (?p, ?w1)" by (rule notification_writes_total(1))
  have k1: "tbl_ok ntf_id (notifications ?w1)" using k by (simp add: tbl_ok_append)
  show ?thesis
  proof (cases "broker_accepts ev REMINDER_TASK_NAME (apt_id a)")
    case True
    then have "out = Reminder_queued" "business w' = business ?w1"
      "sent_tasks w' = sent_tasks w @ [(REMINDER_TASK_NAME, apt_id a)]"
      using q False c by (auto simp: queue_reminder_def reminded_def enqueue_task_def business_def)
    moreover have "reminded ?w1 i \<longleftrightarrow> reminded w i \<or> i = apt_id a" for i
      by (auto simp: reminded_rows new_notification_def)
    ultimately show ?thesis
      using k1 False True reminded_business [of w' ?w1] business_eqD [of w' ?w1] by (simp add: reminder_outcome_of_def)
  next
    case no: False
    let ?f = "?p\<lparr>ntf_status := NTF_FAILED, ntf_payload_json := Some (JObj
                [(''event'', JStr ''appointment_reminder_queue_failed''), (''appointment_id'', JInt (apt_id a)),
                 (''timestamp'', JStr (isoformat_utc (now ev)))])\<rparr>"
    let ?w2 = "?w1\<lparr>notifications := tbl_set ntf_id ?f (notifications ?w1)\<rparr>"
    have u: "notification_update ?f ?w1 = Inr ?w2" by (rule notification_writes_total(2) [of ?p]) simp_all
    from no have "out = Reminder_failed" "business w' = business ?w2" "sent_tasks w' = sent_tasks w"
      using q False c u by (auto simp: queue_reminder_def reminded_def enqueue_task_def)
    moreover have notifications_set: "set (notifications ?w2) = insert ?f (set (notifications w))"
      using tbl_fresh_notin [of ntf_id "notifications w"] by (auto simp: set_tbl_set image_iff)
    moreover have "reminded ?w2 i \<longleftrightarrow> reminded w i" for i
      unfolding reminded_rows notifications_set by auto
    moreover have "tbl_ok ntf_id (notifications ?w2)" using k1 by (simp add: tbl_ok_set)
    ultimately show ?thesis
      using False no reminded_business [of w' ?w2] business_eqD [of w' ?w2] by (simp add: reminder_outcome_of_def)
  qed
qed

text \<open>The appointments of a run whose reminder is handed to the broker.\<close>

definition newly_reminded :: "env \<Rightarrow> world \<Rightarrow> appointment list \<Rightarrow> appointment list" where
  "newly_reminded ev w as =
     [a \<leftarrow> as. \<not> reminded w (apt_id a) \<and> broker_accepts ev REMINDER_TASK_NAME (apt_id a)]"

lemma reminder_loop_effect:
  assumes "tbl_ok ntf_id (notifications w)" and "distinct (map apt_id as)" and "reminder_loop ev as c w = (c', w')"
  shows "tbl_ok ntf_id (notifications w') \<and> appointments w' = appointments w \<and>
    sent_tasks w' = sent_tasks w @ map (\<lambda>a. (REMINDER_TASK_NAME, apt_id a)) (newly_reminded ev w as) \<and>
    (\<forall>i. reminded w' i \<longleftrightarrow> reminded w i \<or> i \<in> apt_id ` set (newly_reminded ev w as)) \<and>
    rmc_checked c' = rmc_checked c + int (length as) \<and>
    rmc_queued c' = rmc_queued c + int (length (newly_reminded ev w as)) \<and>
    rmc_skipped c' = rmc_skipped c + int (length [a \<leftarrow> as. reminded w (apt_id a)]) \<and>
    rmc_checked c' - rmc_checked c =
      (rmc_queued c' - rmc_queued c) + (rmc_skipped c' - rmc_skipped c) + (rmc_failed c' - rmc_failed c)"
  using assms
proof (induction as arbitrary: c w)
  case Nil
  then show ?case by (simp add: newly_reminded_def)
next
  case (Cons a as)
  obtain out w1 where q: "queue_reminder ev a w = (out, w1)" by fastforce
  note eff = queue_reminder_effect [OF Cons.prems(1) q]
  have rest: "reminder_loop ev as (count_reminder out c) w1 = (c', w')" using Cons.prems(3) q by simp
  have fresh: "reminded w1 (apt_id x) = reminded w (apt_id x)" if "x \<in> set as" for x
  proof -
    have "apt_id a \<notin> apt_id ` set as" using Cons.prems(2) by simp
    with that have "apt_id x \<noteq> apt_id a" by (metis imageI)
    with eff show ?thesis by auto
  qed
  then have same: "newly_reminded ev w1 as = newly_reminded ev w as"
    "[x \<leftarrow> as. reminded w1 (apt_id x)] = [x \<leftarrow> as. reminded w (apt_id x)]"
    by (auto simp: newly_reminded_def intro!: filter_cong)
  note IH = Cons.IH [of w1 "count_reminder out c", unfolded same] 
  from IH eff rest Cons.prems(2) show ?case
    by (auto simp: newly_reminded_def reminder_outcome_of_def count_reminder_def Let_def split: if_splits)
qed


lemma due_reminders_appointments: "appointments w = appointments w' \<Longrightarrow> due_reminders ev m w = due_reminders ev m w'"
  by (simp add: due_reminders_def appointment_list_starting_between_def)

lemma due_distinct: "tbl_ok apt_id (appointments w) \<Longrightarrow> distinct (map apt_id (due_reminders ev m w))"
  by (auto simp: due_reminders_def appointment_list_starting_between_def distinct_map tbl_ok_def intro: inj_on_subset)

lemma reminded_increment [simp]: "reminded (increment_counter n w) = reminded w"
  by (rule ext) (simp add: reminded_def notification_exists_for_appointment_def)

lemma schedule_run:
  assumes k: "tbl_ok ntf_id (notifications w)" and a: "tbl_ok apt_id (appointments w)"
    and r: "schedule_upcoming_reminders ev m w = (c, w')"
  shows "tbl_ok ntf_id (notifications w') \<and> appointments w' = appointments w \<and>
    sent_tasks w' = sent_tasks w @
      map (\<lambda>a. (REMINDER_TASK_NAME, apt_id a)) (newly_reminded ev w (due_reminders ev m w)) \<and>
    (\<forall>i. reminded w' i \<longleftrightarrow> reminded w i \<or> i \<in> apt_id ` set (newly_reminded ev w (due_reminders ev m w))) \<and>
    rmc_checked c = int (length (due_reminders ev m w)) \<and>
    rmc_queued c = int (length (newly_reminded ev w (due_reminders ev m w))) \<and>
    rmc_checked c = rmc_queued c + rmc_skipped c + rmc_failed c"
proof -
  let ?w1 = "increment_counter ''worker_runs_total'' w"
  have d: "due_reminders ev m ?w1 = due_reminders ev m w" by (rule due_reminders_appointments) simp
  have n: "newly_reminded ev ?w1 as = newly_reminded ev w as" for as
    by (simp add: newly_reminded_def)
  have l: "reminder_loop ev (due_reminders ev m w) \<lparr>rmc_checked = 0, rmc_queued = 0, rmc_skipped = 0, rmc_failed = 0\<rparr> ?w1 = (c, w')"
    using r by (simp add: schedule_upcoming_reminders_def d)
  have k1: "tbl_ok ntf_id (notifications ?w1)" using k by simp
  from reminder_loop_effect [OF k1 due_distinct [OF a] l] show ?thesis by (simp add: n)
qed

text \<open>
  C21. A reminder run announces every booking once.  It hands over exactly the waiting and confirmed
  bookings that start within the look-ahead and have no live reminder, in the order of their
  start, and accounts for every row it looked at.  A later run over the same bookings, whatever
  its clock and its broker, sends a reminder only for a booking whose hand-over had failed or
  that the first run had not looked at.
\<close>

theorem reminder_runs_announce_once:
  assumes "tbl_ok ntf_id (notifications w)" and "tbl_ok apt_id (appointments w)"
    and "schedule_upcoming_reminders ev m w = (c, w')"
    and "schedule_upcoming_reminders ev2 m2 w' = (c2, w2)"
  shows "sent_tasks w' = sent_tasks w @ map (\<lambda>a. (REMINDER_TASK_NAME, apt_id a))
      [a \<leftarrow> due_reminders ev m w. \<not> reminded w (apt_id a) \<and> broker_accepts ev REMINDER_TASK_NAME (apt_id a)] \<and>
    rmc_checked c = int (length (due_reminders ev m w)) \<and> rmc_checked c = rmc_queued c + rmc_skipped c + rmc_failed c \<and>
    sent_tasks w2 = sent_tasks w' @ map (\<lambda>a. (REMINDER_TASK_NAME, apt_id a))
      [a \<leftarrow> due_reminders ev2 m2 w. \<not> reminded w (apt_id a) \<and>
         \<not> (a \<in> set (due_reminders ev m w) \<and> broker_accepts ev REMINDER_TASK_NAME (apt_id a)) \<and>
         broker_accepts ev2 REMINDER_TASK_NAME (apt_id a)]"
proof -
  note first = schedule_run [OF assms(1-3)]
  then have again: "tbl_ok ntf_id (notifications w')" "tbl_ok apt_id (appointments w')"
    using assms(2) by simp_all
  from first have same: "due_reminders ev2 m2 w' = due_reminders ev2 m2 w" by (intro due_reminders_appointments) simp
  note second = schedule_run [OF again assms(4)]
  have mem: "apt_id a \<in> apt_id ` set (newly_reminded ev w (due_reminders ev m w)) \<longleftrightarrow>
      \<not> reminded w (apt_id a) \<and> a \<in> set (due_reminders ev m w) \<and> broker_accepts ev REMINDER_TASK_NAME (apt_id a)"
    if a: "a \<in> set (due_reminders ev2 m2 w)" for a
  proof -
    have "b = a" if b: "b \<in> set (due_reminders ev m w)" "apt_id b = apt_id a" for b
    proof (rule tbl_ok_inj [OF assms(2) _ _ b(2)])
      show "b \<in> set (appointments w)" "a \<in> set (appointments w)"
        using a b(1) by (simp_all add: due_reminders_def appointment_list_starting_between_def)
    qed
    then show ?thesis by (auto simp: newly_reminded_def)
  qed
  have "newly_reminded ev2 w' (due_reminders ev2 m2 w) =
      [a \<leftarrow> due_reminders ev2 m2 w. \<not> reminded w (apt_id a) \<and>
         \<not> (a \<in> set (due_reminders ev m w) \<and> broker_accepts ev REMINDER_TASK_NAME (apt_id a)) \<and>
         broker_accepts ev2 REMINDER_TASK_NAME (apt_id a)]"
    unfolding newly_reminded_def
  proof (rule filter_cong [OF refl])
    fix a assume "a \<in> set (due_reminders ev2 m2 w)"
    from mem [OF this] first show "(\<not> reminded w' (apt_id a) \<and> broker_accepts ev2 REMINDER_TASK_NAME (apt_id a)) =
        (\<not> reminded w (apt_id a) \<and>
         \<not> (a \<in> set (due_reminders ev m w) \<and> broker_accepts ev REMINDER_TASK_NAME (apt_id a)) \<and>
         broker_accepts ev2 REMINDER_TASK_NAME (apt_id a))" by blast
  qed
  with first second same show ?thesis by (simp add: newly_reminded_def)
qed

theorem reminder_runs_announce_once_witness:
  "\<exists>c w' c2 w2. schedule_upcoming_reminders sample_env 240 paid_world = (c, w') \<and>
     schedule_upcoming_reminders sample_env 480 w' = (c2, w2) \<and>
     sent_tasks w' = [(REMINDER_TASK_NAME, 1)] \<and> rmc_checked c = 1 \<and> sent_tasks w2 = sent_tasks w'"
proof -
  obtain c w' where r1: "schedule_upcoming_reminders sample_env 240 paid_world = (c, w')" by fastforce
  obtain c2 w2 where r2: "schedule_upcoming_reminders sample_env 480 w' = (c2, w2)" by fastforce
  have k: "tbl_ok ntf_id (notifications paid_world)" "tbl_ok apt_id (appointments paid_world)"
    by (simp_all add: tbl_ok_def sample_defs)
  have due: "due_reminders sample_env 240 paid_world = appointments paid_world"
    "due_reminders sample_env 480 paid_world = appointments paid_world" by code_simp+
  have rows: "appointments paid_world = [sample_appointment\<lparr>apt_status := APT_CONFIRMED\<rparr>]" "sent_tasks paid_world = []"
    "\<not> reminded paid_world 1" "broker_accepts sample_env REMINDER_TASK_NAME 1" "apt_id sample_appointment = 1"
    by code_simp+
  from reminder_runs_announce_once [OF k r1 r2] have
    "sent_tasks w' = [(REMINDER_TASK_NAME, 1)] \<and> rmc_checked c = 1 \<and> sent_tasks w2 = sent_tasks w'"
    by (simp add: due rows)
  with r1 r2 show ?thesis by blast
qed

text \<open>
  A booking that was moved is not announced again: once a reminder is waiting or was sent, no
  later run sends one for the new time, even if the booking was moved to another day and the new
  start comes into the look-ahead.
\<close>

theorem moved_booking_not_reminded:
  assumes "reschedule_appointment ev i new actor ai w = Some (Inr (a', w'))" and "reminded w i"
    and "tbl_ok ntf_id (notifications w)" and "tbl_ok apt_id (appointments w)"
    and "schedule_upcoming_reminders ev2 m w' = (c, w2)"
  shows "reminded w' (apt_id a') \<and> (\<exists>new. sent_tasks w2 = sent_tasks w' @ new \<and> (REMINDER_TASK_NAME, apt_id a') \<notin> set new)"
proof -
  from reschedule_appointment_Inr [OF assms(1)] obtain a w1 where
    a: "appointment_get i w = Some a" "apt_id a' = apt_id a" and u: "appointment_update ev a' w = Inr w1"
    and b: "business w' = business w1" by auto
  have i: "apt_id a' = i" using appointment_get_mem [OF a(1)] a(2) by simp
  have w1: "w1 = w\<lparr>appointments := tbl_set apt_id a' (appointments w)\<rparr>"
    using u by (auto simp: appointment_update_def db_update_def split: option.splits)
  have k: "tbl_ok ntf_id (notifications w')" "tbl_ok apt_id (appointments w')"
    using assms(3,4) business_eqD [OF b] w1 by (simp_all add: tbl_ok_set)
  have "reminded w1 i" using assms(2) by (simp add: w1 reminded_def notification_exists_for_appointment_def)
  then have r: "reminded w' i" using reminded_business [OF b] by simp
  then show ?thesis using schedule_run [OF k assms(5)] i by (auto simp: newly_reminded_def)
qed

definition reminded_world :: world where
  "reminded_world = booked_world
     \<lparr>notifications := [(new_notification 1 REMINDER NTF_SENT (11 * hour_us) (Some 0) (JObj []))\<lparr>ntf_id := 1\<rparr>]\<rparr>"

theorem moved_booking_not_reminded_witness:
  "\<exists>a' w'. reschedule_appointment sample_env 1 (Aware (9 * hour_us) 0) ''user'' None reminded_world = Some (Inr (a', w')) \<and>
     (\<forall>c w2. schedule_upcoming_reminders sample_env 240 w' = (c, w2) \<longrightarrow>
       (\<exists>new. sent_tasks w2 = sent_tasks w' @ new \<and> (REMINDER_TASK_NAME, 1) \<notin> set new))"
proof -
  have "(case reschedule_appointment sample_env 1 (Aware (9 * hour_us) 0) ''user'' None reminded_world of
           Some (Inr (a', w')) \<Rightarrow> apt_id a' = 1 | _ \<Rightarrow> False)" by code_simp
  then obtain a' w' where r: "reschedule_appointment sample_env 1 (Aware (9 * hour_us) 0) ''user'' None reminded_world = Some (Inr (a', w'))"
    "apt_id a' = 1" by (auto split: option.splits sum.splits)
  have k: "reminded reminded_world 1" by code_simp
  have t: "tbl_ok ntf_id (notifications reminded_world)" "tbl_ok apt_id (appointments reminded_world)"
    by (simp_all add: tbl_ok_def reminded_world_def sample_defs)
  from moved_booking_not_reminded [OF r(1) k t] r show ?thesis by auto
qed

end
