(* ===== verification/Whatsapp.thy ===== *)
theory Whatsapp
  imports Whatsapp_Io Workers
begin

text \<open>
  The conversation of \<^verbatim>\<open>services/whatsapp/service.py\<close>: a customer books, cancels and moves
  appointments by choosing from menus.  The conversation row is the state of the machine; every
  handler takes the row and the world and answers the messages to send (or an exception), the row
  and the world, as everything is committed along the way.  A handler that searches slots may
  diverge, as the search does, hence the option.  \<^verbatim>\<open>handle_action_id\<close> turns look-up and value
  errors into a fresh menu; other exceptions end the request.
\<close>

section \<open>Building messages\<close>

type_synonym chat = "(exn + outbound_message list) \<times> conversation_state \<times> world"

definition START_KEYWORDS :: "string list" where
  "START_KEYWORDS = [''start'', ''restart'', ''hi'', ''hello'']"
definition MENU_KEYWORDS :: "string list" where
  "MENU_KEYWORDS = [''menu'']"
definition BUTTON_TITLE_LIMIT :: nat where "BUTTON_TITLE_LIMIT = 20"
definition LIST_TITLE_LIMIT :: nat where "LIST_TITLE_LIMIT = 24"
definition LIST_DESC_LIMIT :: nat where "LIST_DESC_LIMIT = 72"

definition truncate_text :: "string option \<Rightarrow> nat \<Rightarrow> string" where
  "truncate_text value limit = (let source = strip (str_or value []) in if source = [] then ''-'' else take limit source)"

definition text_message :: "string \<Rightarrow> outbound_message" where
  "text_message body =
     \<lparr>obm_message_type = OUT_TEXT, obm_body = body, obm_buttons = [], obm_list_button_text = None,
      obm_list_sections = [], obm_header_text = None, obm_footer_text = None\<rparr>"

definition buttons_message :: "string \<Rightarrow> button_option list \<Rightarrow> outbound_message" where
  "buttons_message body buttons =
     (text_message body)\<lparr>obm_message_type := OUT_BUTTONS,
        obm_buttons := map (\<lambda>b. b\<lparr>btn_title := take BUTTON_TITLE_LIMIT (btn_title b)\<rparr>) (take 3 buttons)\<rparr>"

definition clamp_row :: "list_row \<Rightarrow> list_row" where
  "clamp_row r = r\<lparr>lrw_title := take LIST_TITLE_LIMIT (lrw_title r),
                   lrw_description := or_else (Some (take LIST_DESC_LIMIT (str_or (lrw_description r) []))) None\<rparr>"

definition list_message :: "string \<Rightarrow> string \<Rightarrow> list_section list \<Rightarrow> outbound_message" where
  "list_message body list_button_text sections =
     (text_message body)\<lparr>obm_message_type := OUT_LIST,
        obm_list_button_text := Some (str_or (Some (take BUTTON_TITLE_LIMIT list_button_text)) ''Options''),
        obm_list_sections :=
          map (\<lambda>s. \<lparr>lsc_title = take LIST_TITLE_LIMIT (lsc_title s), lsc_rows = map clamp_row (take 10 (lsc_rows s))\<rparr>)
            (take 10 sections)\<rparr>"

definition menu_of :: "string \<Rightarrow> string \<Rightarrow> string \<Rightarrow> list_row list \<Rightarrow> outbound_message" where
  "menu_of body list_button_text title rows =
     list_message body list_button_text [\<lparr>lsc_title = title, lsc_rows = rows\<rparr>]"

definition list_choice :: "string \<Rightarrow> string \<Rightarrow> string \<Rightarrow> list_row" where
  "list_choice i title description = \<lparr>lrw_id = i, lrw_title = title, lrw_description = Some description\<rparr>"

definition button :: "string \<Rightarrow> string \<Rightarrow> button_option" where
  "button i title = \<lparr>btn_id = i, btn_title = title\<rparr>"

section \<open>Keeping the conversation\<close>

text \<open>\<^verbatim>\<open>conversation_repo.update\<close>, then the messages.\<close>

definition saved :: "env \<Rightarrow> conversation_state \<Rightarrow> conversation_state \<Rightarrow> world \<Rightarrow> outbound_message list \<Rightarrow> chat" where
  "saved ev old new w messages =
     (case conversation_update ev new w of
        Inl e \<Rightarrow> (Inl e, old, w)
      | Inr (state, w') \<Rightarrow> (Inr messages, state, w'))"

definition prefixed :: "outbound_message list \<Rightarrow> chat \<Rightarrow> chat" where
  "prefixed messages result =
     (case result of (Inl e, r) \<Rightarrow> (Inl e, r) | (Inr follow_up, r) \<Rightarrow> (Inr (messages @ follow_up), r))"

definition chat_then :: "chat \<Rightarrow> (conversation_state \<Rightarrow> world \<Rightarrow> chat) \<Rightarrow> chat" where
  "chat_then result k =
     (case result of
        (Inl e, r) \<Rightarrow> (Inl e, r)
      | (Inr messages, state, w) \<Rightarrow> prefixed messages (k state w))"

definition raises :: "exn \<Rightarrow> conversation_state \<Rightarrow> world \<Rightarrow> chat" where
  "raises e state w = (Inl e, state, w)"

definition no_selection :: "conversation_state \<Rightarrow> conversation_state" where
  "no_selection state =
     state\<lparr>cst_selected_provider_id := None, cst_selected_service_id := None,
           cst_selected_location_id := None, cst_selected_slot_start := None\<rparr>"

definition at_step :: "string \<Rightarrow> string \<Rightarrow> json \<Rightarrow> conversation_state \<Rightarrow> conversation_state" where
  "at_step flow step context state =
     state\<lparr>cst_current_flow := Some flow, cst_current_step := Some step, cst_context_json := context\<rparr>"

definition get_selected_visible_organization :: "conversation_state \<Rightarrow> world \<Rightarrow> organization option" where
  "get_selected_visible_organization state w =
     Option.bind (cst_selected_organization_id state) (\<lambda>i. get_visible_organization i w)"

section \<open>Menus\<close>

definition organization_row :: "organization \<Rightarrow> list_row" where
  "organization_row org =
     list_choice (''org:'' @ int_str (org_id org)) (truncate_text (Some (org_name org)) LIST_TITLE_LIMIT)
       (truncate_text (or_else (Some (org_city org)) (Some (org_business_type org))) LIST_DESC_LIMIT)"

definition render_organization_selection :: "env \<Rightarrow> conversation_state \<Rightarrow> world \<Rightarrow> chat" where
  "render_organization_selection ev state w =
     (let organizations = list_visible_organizations w in
      if organizations = [] then (Inr [text_message ''No organizations are currently available.''], state, w)
      else
       (let response = menu_of ''Choose an organization to continue.'' ''Organizations'' ''Organizations''
                         (map organization_row (take 10 organizations)) in
        saved ev state
          (at_step ''menu'' ''select_organization'' (JObj [])
             (no_selection (state\<lparr>cst_selected_organization_id := None\<rparr>))) w
          (if 10 < length organizations
           then [text_message ''Showing first 10 organizations. Type menu to restart.'', response] else [response])))"

definition render_main_menu :: "env \<Rightarrow> string \<Rightarrow> conversation_state \<Rightarrow> world \<Rightarrow> chat" where
  "render_main_menu ev organization_name state w =
     saved ev state (at_step ''menu'' ''select_action'' (JObj []) state) w
       [buttons_message (organization_name @ '': choose an action.'')
          [button ''menu:book'' ''Book'', button ''menu:upcoming'' ''My Bookings'',
           button ''menu:change_org'' ''Change Org'']]"

definition show_menu_or_org_selection :: "env \<Rightarrow> conversation_state \<Rightarrow> world \<Rightarrow> chat" where
  "show_menu_or_org_selection ev state w =
     (case get_selected_visible_organization state w of
        None \<Rightarrow> render_organization_selection ev state w
      | Some organization \<Rightarrow> render_main_menu ev (org_name organization) state w)"

definition show_menu_hint :: "env \<Rightarrow> conversation_state \<Rightarrow> world \<Rightarrow> chat" where
  "show_menu_hint ev state w =
     prefixed [text_message ''Please use the menu buttons or list options.''] (show_menu_or_org_selection ev state w)"

definition stale_action_response :: "env \<Rightarrow> conversation_state \<Rightarrow> world \<Rightarrow> chat" where
  "stale_action_response ev state w =
     prefixed [text_message ''That option is no longer valid. Please choose again.'']
       (show_menu_or_org_selection ev state w)"

definition customer_event :: "string \<Rightarrow> customer \<Rightarrow> domain_event" where
  "customer_event event_type customer =
     (event_defaults event_type)
       \<lparr>ev_actor_type := ''customer'', ev_actor_id := Some (cust_id customer), ev_status := ''success'',
        ev_payload_json := JObj [(''channel'', JStr (channel_type_value CH_WHATSAPP))]\<rparr>"

definition start_flow :: "env \<Rightarrow> customer \<Rightarrow> conversation_state \<Rightarrow> world \<Rightarrow> chat" where
  "start_flow ev customer state w =
     chat_then
       (saved ev state
          (at_step ''menu'' ''select_organization'' (JObj [])
             (no_selection (state\<lparr>cst_selected_organization_id := None\<rparr>))) w [])
       (\<lambda>state1 w1.
          prefixed [text_message ''Welcome to BookPoint on WhatsApp.'']
            (render_organization_selection ev state1
               (record_event ev
                  ((customer_event ''whatsapp_conversation_started'' customer)
                     \<lparr>ev_entity_type := Some ''customer'', ev_entity_id := Some (cust_id customer)\<rparr>)
                  (increment_counter ''whatsapp_conversation_started_total'' w1))))"

definition handle_organization_selection :: "env \<Rightarrow> int \<Rightarrow> conversation_state \<Rightarrow> world \<Rightarrow> chat" where
  "handle_organization_selection ev organization_id state w =
     (case get_visible_organization organization_id w of
        None \<Rightarrow> stale_action_response ev state w
      | Some organization \<Rightarrow>
          chat_then
            (saved ev state
               (at_step ''menu'' ''select_action'' (JObj [])
                  (no_selection (state\<lparr>cst_selected_organization_id := Some (org_id organization)\<rparr>))) w
               [text_message (''Organization selected: '' @ org_name organization @ ''.'')])
            (render_main_menu ev (org_name organization)))"

section \<open>Choosing what to book\<close>

definition service_row :: "service \<Rightarrow> list_row" where
  "service_row s =
     list_choice (''svc:'' @ int_str (svc_id s)) (truncate_text (Some (svc_name s)) LIST_TITLE_LIMIT)
       (truncate_text (Some (int_str (svc_duration_minutes s) @ '' min'')) LIST_DESC_LIMIT)"

definition free_services :: "int \<Rightarrow> world \<Rightarrow> service list result" where
  "free_services location_id w =
     (case list_visible_services_for_location location_id w of
        Inl e \<Rightarrow> Inl e
      | Inr offered \<Rightarrow> Inr [s \<leftarrow> offered. \<not> svc_requires_payment s])"

definition render_service_selection :: "env \<Rightarrow> int \<Rightarrow> string \<Rightarrow> conversation_state \<Rightarrow> world \<Rightarrow> chat" where
  "render_service_selection ev location_id location_name state w =
     (case free_services location_id w of
        Inl e \<Rightarrow> raises e state w
      | Inr offered \<Rightarrow>
        if offered = [] then
          prefixed [text_message ''No WhatsApp-eligible services found at this location.'']
            (show_menu_or_org_selection ev state w)
        else
          saved ev state
            (at_step ''booking'' ''select_service'' (JObj [])
               ((no_selection state)\<lparr>cst_selected_location_id := Some location_id\<rparr>)) w
            [text_message (''Location selected: '' @ location_name @ ''.''),
             menu_of ''Choose a service.'' ''Services'' ''Services'' (map service_row (take 10 offered))])"

definition location_row :: "location \<Rightarrow> list_row" where
  "location_row l =
     list_choice (''loc:'' @ int_str (loc_id l)) (truncate_text (Some (loc_name l)) LIST_TITLE_LIMIT)
       (truncate_text (Some (str_or (loc_city l) (str_or (loc_address_line_1 l) ''Location''))) LIST_DESC_LIMIT)"

definition begin_booking_flow :: "env \<Rightarrow> conversation_state \<Rightarrow> world \<Rightarrow> chat" where
  "begin_booking_flow ev state w =
     (case get_selected_visible_organization state w of
        None \<Rightarrow> render_organization_selection ev state w
      | Some organization \<Rightarrow>
      case list_visible_locations (org_id organization) w of
        Inl e \<Rightarrow> raises e state w
      | Inr [] \<Rightarrow>
          prefixed [text_message ''No active locations are available for this organization.'']
            (render_main_menu ev (org_name organization) state w)
      | Inr [location] \<Rightarrow> render_service_selection ev (loc_id location) (loc_name location) state w
      | Inr open_locations \<Rightarrow>
          saved ev state (at_step ''booking'' ''select_location'' (JObj []) (no_selection state)) w
            [menu_of ''Choose a location.'' ''Locations'' ''Locations'' (map location_row (take 10 open_locations))])"

definition handle_location_selection :: "env \<Rightarrow> int \<Rightarrow> conversation_state \<Rightarrow> world \<Rightarrow> chat" where
  "handle_location_selection ev location_id state w =
     (case get_selected_visible_organization state w of
        None \<Rightarrow> render_organization_selection ev state w
      | Some organization \<Rightarrow>
      case get_visible_location location_id w of
        Inl e \<Rightarrow> raises e state w
      | Inr location \<Rightarrow>
          if loc_organization_id location \<noteq> org_id organization then stale_action_response ev state w
          else render_service_selection ev (loc_id location) (loc_name location) state w)"

definition provider_row :: "provider \<Rightarrow> list_row" where
  "provider_row p =
     list_choice (''prov:'' @ int_str (prov_id p)) (truncate_text (Some (prov_display_name p)) LIST_TITLE_LIMIT)
       (truncate_text (Some (str_or (prov_title p) ''Provider'')) LIST_DESC_LIMIT)"

definition handle_service_selection :: "env \<Rightarrow> int \<Rightarrow> conversation_state \<Rightarrow> world \<Rightarrow> chat" where
  "handle_service_selection ev service_id state w =
     (case cst_selected_location_id state of
        None \<Rightarrow> begin_booking_flow ev state w
      | Some location_id \<Rightarrow>
      case free_services location_id w of
        Inl e \<Rightarrow> raises e state w
      | Inr offered \<Rightarrow>
      if \<not> (\<exists>s \<in> set offered. svc_id s = service_id) then stale_action_response ev state w
      else case list_visible_providers_for_service_at_location location_id service_id w of
        Inl e \<Rightarrow> raises e state w
      | Inr available \<Rightarrow>
          if available = []
          then (Inr [text_message ''No providers are currently available for that service.''], state, w)
          else
            saved ev state
              (at_step ''booking'' ''select_provider'' (JObj [])
                 (state\<lparr>cst_selected_service_id := Some service_id, cst_selected_provider_id := None,
                        cst_selected_slot_start := None\<rparr>)) w
              [menu_of ''Choose a provider.'' ''Providers'' ''Providers'' (map provider_row (take 10 available))])"

definition build_next_dates :: "env \<Rightarrow> string \<Rightarrow> nat \<Rightarrow> date list" where
  "build_next_dates ev timezone_name days =
     (let start_date = (case zone_table ev timezone_name of
                          None \<Rightarrow> now ev div day_us | Some z \<Rightarrow> local_date z (now ev)) in
      map (\<lambda>offset. start_date + int offset) [0..<days])"

definition date_row :: "string \<Rightarrow> date \<Rightarrow> list_row" where
  "date_row prefix slot_date =
     list_choice (prefix @ isoformat_date slot_date) (strftime_a_b_d slot_date) (isoformat_date slot_date)"

definition render_booking_dates :: "env \<Rightarrow> conversation_state \<Rightarrow> world \<Rightarrow> chat" where
  "render_booking_dates ev state w =
     (case get_selected_visible_organization state w of
        None \<Rightarrow> render_organization_selection ev state w
      | Some organization \<Rightarrow>
          saved ev state
            (at_step ''booking'' ''select_date'' (JObj []) (state\<lparr>cst_selected_slot_start := None\<rparr>)) w
            [menu_of ''Choose a date.'' ''Dates'' ''Available dates''
               (map (date_row ''date:'') (build_next_dates ev (org_timezone organization) 7))])"

definition handle_provider_selection :: "env \<Rightarrow> int \<Rightarrow> conversation_state \<Rightarrow> world \<Rightarrow> chat" where
  "handle_provider_selection ev provider_id state w =
     (case (cst_selected_location_id state, cst_selected_service_id state) of
        (Some location_id, Some service_id) \<Rightarrow>
         (case list_visible_providers_for_service_at_location location_id service_id w of
            Inl e \<Rightarrow> raises e state w
          | Inr available \<Rightarrow>
              if \<not> (\<exists>p \<in> set available. prov_id p = provider_id) then stale_action_response ev state w
              else
                chat_then
                  (saved ev state
                     (at_step ''booking'' ''select_date'' (JObj [])
                        (state\<lparr>cst_selected_provider_id := Some provider_id, cst_selected_slot_start := None\<rparr>)) w [])
                  (render_booking_dates ev))
      | _ \<Rightarrow> begin_booking_flow ev state w)"

section \<open>Slots\<close>

definition slot_row :: "string \<Rightarrow> slot \<Rightarrow> list_row" where
  "slot_row prefix slot =
     list_choice (prefix @ int_str (int_timestamp (slot_start_datetime slot)))
       (strftime_H_M_UTC (slot_start_datetime slot)) (isoformat_utc (slot_start_datetime slot))"

definition handle_booking_date_selection :: "env \<Rightarrow> date \<Rightarrow> conversation_state \<Rightarrow> world \<Rightarrow> chat option" where
  "handle_booking_date_selection ev slot_date state w =
     (case (cst_selected_provider_id state, cst_selected_service_id state, cst_selected_location_id state) of
        (Some provider_id, Some service_id, Some location_id) \<Rightarrow>
         (case list_visible_slots ev provider_id service_id location_id slot_date w of
            None \<Rightarrow> None
          | Some (Inl e) \<Rightarrow> Some (raises e state w)
          | Some (Inr slots) \<Rightarrow>
              if slots = [] then
                Some (prefixed [text_message ''No slots available on that date. Please pick another date.'']
                        (render_booking_dates ev state w))
              else
                Some (saved ev state
                  (at_step ''booking'' ''select_slot'' (JObj [(''selected_date'', JStr (isoformat_date slot_date))])
                     (state\<lparr>cst_selected_slot_start := None\<rparr>)) w
                  [menu_of ''Choose a time slot.'' ''Slots'' (isoformat_date slot_date)
                     (map (slot_row ''slot:'') (take 10 slots))]))
      | _ \<Rightarrow> Some (begin_booking_flow ev state w))"

text \<open>The date the customer chose before, if the context holds one.\<close>

definition selected_date :: "conversation_state \<Rightarrow> date option" where
  "selected_date state =
     (case map_of (as_dict (Some (cst_context_json state))) ''selected_date'' of
        Some (JStr text) \<Rightarrow> (case date_fromisoformat text of Inl _ \<Rightarrow> None | Inr d \<Rightarrow> Some d)
      | _ \<Rightarrow> None)"

definition find_slot ::
  "env \<Rightarrow> int \<Rightarrow> int \<Rightarrow> int \<Rightarrow> date \<Rightarrow> int \<Rightarrow> world \<Rightarrow> slot option result option" where
  "find_slot ev provider_id service_id location_id slot_date slot_timestamp w =
     (case list_visible_slots ev provider_id service_id location_id slot_date w of
        None \<Rightarrow> None
      | Some (Inl e) \<Rightarrow> Some (Inl e)
      | Some (Inr slots) \<Rightarrow> Some (Inr (find (\<lambda>x. int_timestamp (slot_start_datetime x) = slot_timestamp) slots)))"

definition resolve_slot_from_state ::
  "env \<Rightarrow> conversation_state \<Rightarrow> int \<Rightarrow> world \<Rightarrow> slot option result option" where
  "resolve_slot_from_state ev state slot_timestamp w =
     (case selected_date state of
        None \<Rightarrow> Some (Inr None)
      | Some slot_date \<Rightarrow>
         (case (cst_selected_provider_id state, cst_selected_service_id state, cst_selected_location_id state) of
            (Some provider_id, Some service_id, Some location_id) \<Rightarrow>
              find_slot ev provider_id service_id location_id slot_date slot_timestamp w
          | _ \<Rightarrow> Some (Inr None)))"

definition resolve_reschedule_slot ::
  "env \<Rightarrow> conversation_state \<Rightarrow> appointment \<Rightarrow> int \<Rightarrow> int \<Rightarrow> world \<Rightarrow> slot option result option" where
  "resolve_reschedule_slot ev state appointment service_id slot_timestamp w =
     (case selected_date state of
        None \<Rightarrow> Some (Inr None)
      | Some slot_date \<Rightarrow>
          find_slot ev (apt_provider_id appointment) service_id (apt_location_id appointment) slot_date
            slot_timestamp w)"

text \<open>The slot's own date is a UTC date, whatever the zone of the date the customer chose.\<close>

definition slot_date_context :: "slot \<Rightarrow> string \<times> json" where
  "slot_date_context slot = (''selected_date'', JStr (isoformat_date (slot_start_datetime slot div day_us)))"

definition handle_booking_slot_selection :: "env \<Rightarrow> int \<Rightarrow> conversation_state \<Rightarrow> world \<Rightarrow> chat option" where
  "handle_booking_slot_selection ev slot_timestamp state w =
     (case resolve_slot_from_state ev state slot_timestamp w of
        None \<Rightarrow> None
      | Some (Inl e) \<Rightarrow> Some (raises e state w)
      | Some (Inr None) \<Rightarrow> Some (stale_action_response ev state w)
      | Some (Inr (Some slot)) \<Rightarrow>
          Some (saved ev state
            (at_step ''booking'' ''confirm_booking'' (JObj [slot_date_context slot])
               (state\<lparr>cst_selected_slot_start := Some (slot_start_datetime slot)\<rparr>)) w
            [buttons_message (''Confirm booking for '' @ strftime_Y_m_d_H_M_UTC (slot_start_datetime slot) @ ''?'')
               [button (''confirm_book:yes:'' @ int_str slot_timestamp) ''Confirm'',
                button ''confirm_book:no'' ''Change Date'']]))"

text \<open>The length limits of \<^verbatim>\<open>DiscoveryBookingCreate\<close>, whose violation is a \<^verbatim>\<open>ValueError\<close>.\<close>

definition booking_fields_ok :: "discovery_booking_payload \<Rightarrow> bool" where
  "booking_fields_ok payload \<longleftrightarrow>
     2 \<le> length (dbp_customer_name payload) \<and> length (dbp_customer_name payload) \<le> 255 \<and>
     7 \<le> length (dbp_customer_phone payload) \<and> length (dbp_customer_phone payload) \<le> 32 \<and>
     (\<forall>m. dbp_customer_email payload = Some m \<longrightarrow> length m \<le> 255) \<and>
     (\<forall>l. dbp_preferred_language payload = Some l \<longrightarrow> length l \<le> 16)"

lemma booking_fields_ok_code [code]:
  "booking_fields_ok payload \<longleftrightarrow>
     2 \<le> length (dbp_customer_name payload) \<and> length (dbp_customer_name payload) \<le> 255 \<and>
     7 \<le> length (dbp_customer_phone payload) \<and> length (dbp_customer_phone payload) \<le> 32 \<and>
     (case dbp_customer_email payload of None \<Rightarrow> True | Some m \<Rightarrow> length m \<le> 255) \<and>
     (case dbp_preferred_language payload of None \<Rightarrow> True | Some l \<Rightarrow> length l \<le> 16)"
  by (auto simp: booking_fields_ok_def split: option.splits)

definition chat_booking ::
  "int \<Rightarrow> int \<Rightarrow> int \<Rightarrow> int \<Rightarrow> customer \<Rightarrow> slot \<Rightarrow> discovery_booking_payload" where
  "chat_booking organization_id location_id provider_id service_id customer slot =
     \<lparr>dbp_organization_id = organization_id, dbp_location_id = location_id, dbp_provider_id = provider_id,
      dbp_service_id = service_id, dbp_scheduled_start = Aware (slot_start_datetime slot) 0,
      dbp_customer_name = (if strip (cust_full_name customer) \<noteq> [] then strip (cust_full_name customer)
                           else ''WhatsApp '' @ int_str (cust_id customer)),
      dbp_customer_phone = cust_phone_number customer, dbp_customer_email = cust_email customer,
      dbp_preferred_language = Some (str_or (cust_preferred_language customer) ''en'')\<rparr>"

definition appointment_event :: "string \<Rightarrow> customer \<Rightarrow> appointment \<Rightarrow> domain_event" where
  "appointment_event event_type customer appointment =
     (customer_event event_type customer)
       \<lparr>ev_entity_type := Some ''appointment'', ev_entity_id := Some (apt_id appointment),
        ev_organization_id := Some (apt_organization_id appointment),
        ev_related_appointment_id := Some (apt_id appointment)\<rparr>"

definition booking_completed ::
  "env \<Rightarrow> customer \<Rightarrow> int \<Rightarrow> appointment \<Rightarrow> conversation_state \<Rightarrow> world \<Rightarrow> chat" where
  "booking_completed ev customer organization_id appointment state w =
     (let w1 = record_event ev (appointment_event ''whatsapp_booking_completed'' customer appointment)
                 (increment_counter ''whatsapp_bookings_completed_total'' w);
          organization_name = (case get_visible_organization organization_id w1 of
                                 None \<Rightarrow> ''Organization'' | Some organization \<Rightarrow> org_name organization) in
      chat_then
        (saved ev state (at_step ''menu'' ''select_action'' (JObj []) (no_selection state)) w1
           [text_message (''Booking confirmed. Reference: '' @ apt_booking_reference appointment @ '' at '' @
              strftime_Y_m_d_H_M_UTC (apt_start_datetime appointment) @ ''.'')])
        (render_main_menu ev organization_name))"

definition confirm_booking :: "env \<Rightarrow> customer \<Rightarrow> int \<Rightarrow> conversation_state \<Rightarrow> world \<Rightarrow> chat option" where
  "confirm_booking ev customer slot_timestamp state w =
     (case resolve_slot_from_state ev state slot_timestamp w of
        None \<Rightarrow> None
      | Some (Inl e) \<Rightarrow> Some (raises e state w)
      | Some (Inr None) \<Rightarrow> Some (stale_action_response ev state w)
      | Some (Inr (Some slot)) \<Rightarrow>
         (case (cst_selected_provider_id state, cst_selected_service_id state,
                cst_selected_location_id state, cst_selected_organization_id state) of
            (Some provider_id, Some service_id, Some location_id, Some organization_id) \<Rightarrow>
             (let payload = chat_booking organization_id location_id provider_id service_id customer slot in
              if \<not> booking_fields_ok payload then Some (raises (ValueError ''validation error'') state w)
              else case create_public_booking ev payload BC_WHATSAPP w of
                None \<Rightarrow> None
              | Some (Inl e, w1) \<Rightarrow>
                  (case e of
                     LookupError _ \<Rightarrow> Some (stale_action_response ev state w1)
                   | KeyError _ \<Rightarrow> Some (stale_action_response ev state w1)
                   | ValueError _ \<Rightarrow> Some (stale_action_response ev state w1)
                   | _ \<Rightarrow> Some (raises e state w1))
              | Some (Inr (appointment, _), w1) \<Rightarrow>
                  Some (booking_completed ev customer organization_id appointment state w1))
          | _ \<Rightarrow> Some (begin_booking_flow ev state w)))"

section \<open>Managing bookings\<close>

definition get_manageable_appointment ::
  "env \<Rightarrow> customer \<Rightarrow> int \<Rightarrow> conversation_state \<Rightarrow> world \<Rightarrow> appointment option" where
  "get_manageable_appointment ev customer appointment_id state w =
     (case appointment_get appointment_id w of
        None \<Rightarrow> None
      | Some appointment \<Rightarrow>
          if apt_customer_id appointment \<noteq> cust_id customer then None
          else if cst_selected_organization_id state \<noteq> None \<and>
                  cst_selected_organization_id state \<noteq> Some (apt_organization_id appointment) then None
          else if apt_status appointment \<notin> {APT_PENDING, APT_PENDING_PAYMENT, APT_CONFIRMED} then None
          else if apt_start_datetime appointment < now ev then None
          else Some appointment)"

definition booking_row :: "world \<Rightarrow> appointment \<Rightarrow> list_row result" where
  "booking_row w appointment =
     (case provider_get (apt_provider_id appointment) w of
        None \<Rightarrow> Inl (AttributeError ''display_name'')
      | Some provider \<Rightarrow>
          Inr (list_choice (''booking:'' @ int_str (apt_id appointment))
                 (strftime_b_d_H_M_UTC (apt_start_datetime appointment))
                 (truncate_text
                    (Some (prov_display_name provider @ '' - '' @
                       (case appointment_service appointment w of None \<Rightarrow> ''Service'' | Some s \<Rightarrow> svc_name s)))
                    LIST_DESC_LIMIT)))"

definition show_upcoming_bookings :: "env \<Rightarrow> customer \<Rightarrow> conversation_state \<Rightarrow> world \<Rightarrow> chat" where
  "show_upcoming_bookings ev customer state w =
     (case get_selected_visible_organization state w of
        None \<Rightarrow> render_organization_selection ev state w
      | Some organization \<Rightarrow>
       (let upcoming = appointment_list_upcoming_for_customer (cust_id customer) (Some (org_id organization)) (now ev) 10 w in
        if upcoming = [] then
          prefixed [text_message ''You have no upcoming bookings in this organization.'']
            (render_main_menu ev (org_name organization) state w)
        else case map_result (booking_row w) upcoming of
          Inl e \<Rightarrow> raises e state w
        | Inr rows \<Rightarrow>
            saved ev state (at_step ''upcoming'' ''select_booking'' (JObj []) state) w
              [menu_of ''Select a booking to manage.'' ''Bookings'' ''Upcoming bookings'' rows]))"

definition appointment_context :: "appointment \<Rightarrow> string \<times> json" where
  "appointment_context appointment = (''appointment_id'', JInt (apt_id appointment))"

definition show_booking_actions :: "env \<Rightarrow> customer \<Rightarrow> int \<Rightarrow> conversation_state \<Rightarrow> world \<Rightarrow> chat" where
  "show_booking_actions ev customer appointment_id state w =
     (case get_manageable_appointment ev customer appointment_id state w of
        None \<Rightarrow> stale_action_response ev state w
      | Some appointment \<Rightarrow>
          saved ev state
            (at_step ''upcoming'' ''select_booking_action'' (JObj [appointment_context appointment]) state) w
            [buttons_message (strftime_Y_m_d_H_M_UTC (apt_start_datetime appointment) @ ''. Choose action.'')
               [button (''booking_action:cancel:'' @ int_str (apt_id appointment)) ''Cancel'',
                button (''booking_action:reschedule:'' @ int_str (apt_id appointment)) ''Reschedule'',
                button ''menu:upcoming'' ''Back'']])"

definition confirm_cancel_prompt :: "env \<Rightarrow> customer \<Rightarrow> int \<Rightarrow> conversation_state \<Rightarrow> world \<Rightarrow> chat" where
  "confirm_cancel_prompt ev customer appointment_id state w =
     (case get_manageable_appointment ev customer appointment_id state w of
        None \<Rightarrow> stale_action_response ev state w
      | Some appointment \<Rightarrow>
          saved ev state
            (at_step ''cancel'' ''confirm_cancel'' (JObj [appointment_context appointment]) state) w
            [buttons_message ''Are you sure you want to cancel this booking?''
               [button (''confirm_cancel:yes:'' @ int_str (apt_id appointment)) ''Yes, Cancel'',
                button (''confirm_cancel:no:'' @ int_str (apt_id appointment)) ''Keep'']])"

text \<open>What follows a committed cancellation or move: the counter, the event and the main menu.\<close>

definition action_completed ::
  "env \<Rightarrow> string \<Rightarrow> string \<Rightarrow> string \<Rightarrow> customer \<Rightarrow> appointment \<Rightarrow> conversation_state \<Rightarrow> conversation_state
    \<Rightarrow> world \<Rightarrow> chat" where
  "action_completed ev counter event_type body customer updated state new_state w =
     (let w1 = record_event ev (appointment_event event_type customer updated) (increment_counter counter w);
          organization_name = (case get_selected_visible_organization state w1 of
                                 None \<Rightarrow> ''Organization'' | Some organization \<Rightarrow> org_name organization) in
      chat_then (saved ev state (at_step ''menu'' ''select_action'' (JObj []) new_state) w1 [text_message body])
        (render_main_menu ev organization_name))"

definition confirm_cancel :: "env \<Rightarrow> customer \<Rightarrow> int \<Rightarrow> conversation_state \<Rightarrow> world \<Rightarrow> chat" where
  "confirm_cancel ev customer appointment_id state w =
     (case get_manageable_appointment ev customer appointment_id state w of
        None \<Rightarrow> stale_action_response ev state w
      | Some appointment \<Rightarrow>
          if apt_status appointment = APT_CANCELLED
          then (Inr [text_message ''This booking is already cancelled.''], state, w)
          else case cancel_appointment ev (apt_id appointment) None ''customer'' (Some (cust_id customer)) w of
            (Inl (ValueError _), w1) \<Rightarrow>
              (Inr [text_message ''This booking can no longer be cancelled.''], state, w1)
          | (Inl e, w1) \<Rightarrow> raises e state w1
          | (Inr updated, w1) \<Rightarrow>
              action_completed ev ''whatsapp_cancellations_completed_total'' ''whatsapp_cancel_completed''
                ''Booking cancelled successfully.'' customer updated state state w1)"

definition render_reschedule_dates :: "env \<Rightarrow> customer \<Rightarrow> int \<Rightarrow> conversation_state \<Rightarrow> world \<Rightarrow> chat" where
  "render_reschedule_dates ev customer appointment_id state w =
     (case get_manageable_appointment ev customer appointment_id state w of
        None \<Rightarrow> stale_action_response ev state w
      | Some appointment \<Rightarrow>
          if apt_service_id appointment = None
          then (Inr [text_message ''This booking cannot be rescheduled from WhatsApp.''], state, w)
          else
           (let timezone_name = (case get_selected_visible_organization state w of
                                   None \<Rightarrow> ''UTC'' | Some organization \<Rightarrow> org_timezone organization) in
            saved ev state
              (at_step ''reschedule'' ''select_reschedule_date'' (JObj [appointment_context appointment]) state) w
              [menu_of ''Choose a new date.'' ''Dates'' ''Reschedule dates''
                 (map (date_row (''resched_date:'' @ int_str (apt_id appointment) @ '':''))
                    (build_next_dates ev timezone_name 7))]))"

definition handle_reschedule_date_selection ::
  "env \<Rightarrow> customer \<Rightarrow> int \<Rightarrow> date \<Rightarrow> conversation_state \<Rightarrow> world \<Rightarrow> chat option" where
  "handle_reschedule_date_selection ev customer appointment_id slot_date state w =
     (case get_manageable_appointment ev customer appointment_id state w of
        None \<Rightarrow> Some (stale_action_response ev state w)
      | Some appointment \<Rightarrow>
      case apt_service_id appointment of
        None \<Rightarrow> Some (stale_action_response ev state w)
      | Some service_id \<Rightarrow>
      case list_visible_slots ev (apt_provider_id appointment) service_id (apt_location_id appointment) slot_date w of
        None \<Rightarrow> None
      | Some (Inl e) \<Rightarrow> Some (raises e state w)
      | Some (Inr slots) \<Rightarrow>
          if slots = [] then
            Some (prefixed [text_message ''No slots available on that date. Please choose another date.'']
                    (render_reschedule_dates ev customer appointment_id state w))
          else
            Some (saved ev state
              (at_step ''reschedule'' ''select_reschedule_slot''
                 (JObj [appointment_context appointment, (''selected_date'', JStr (isoformat_date slot_date))]) state) w
              [menu_of ''Choose a new slot.'' ''Slots'' (isoformat_date slot_date)
                 (map (slot_row (''resched_slot:'' @ int_str (apt_id appointment) @ '':'')) (take 10 slots))]))"

definition handle_reschedule_slot_selection ::
  "env \<Rightarrow> customer \<Rightarrow> int \<Rightarrow> int \<Rightarrow> conversation_state \<Rightarrow> world \<Rightarrow> chat option" where
  "handle_reschedule_slot_selection ev customer appointment_id slot_timestamp state w =
     (case get_manageable_appointment ev customer appointment_id state w of
        None \<Rightarrow> Some (stale_action_response ev state w)
      | Some appointment \<Rightarrow>
      case apt_service_id appointment of
        None \<Rightarrow> Some (stale_action_response ev state w)
      | Some service_id \<Rightarrow>
      case resolve_reschedule_slot ev state appointment service_id slot_timestamp w of
        None \<Rightarrow> None
      | Some (Inl e) \<Rightarrow> Some (raises e state w)
      | Some (Inr None) \<Rightarrow> Some (stale_action_response ev state w)
      | Some (Inr (Some slot)) \<Rightarrow>
         (let choice = int_str (apt_id appointment) @ '':'' @ int_str slot_timestamp in
          Some (saved ev state
            (at_step ''reschedule'' ''confirm_reschedule'' (JObj [appointment_context appointment, slot_date_context slot])
               (state\<lparr>cst_selected_slot_start := Some (slot_start_datetime slot)\<rparr>)) w
            [buttons_message (''Confirm new slot: '' @ strftime_Y_m_d_H_M_UTC (slot_start_datetime slot) @ ''?'')
               [button (''confirm_reschedule:yes:'' @ choice) ''Confirm'',
                button (''confirm_reschedule:no:'' @ choice) ''Change Date'']])))"

definition confirm_reschedule ::
  "env \<Rightarrow> customer \<Rightarrow> int \<Rightarrow> int \<Rightarrow> conversation_state \<Rightarrow> world \<Rightarrow> chat option" where
  "confirm_reschedule ev customer appointment_id slot_timestamp state w =
     (case get_manageable_appointment ev customer appointment_id state w of
        None \<Rightarrow> Some (stale_action_response ev state w)
      | Some appointment \<Rightarrow>
      case apt_service_id appointment of
        None \<Rightarrow> Some (stale_action_response ev state w)
      | Some service_id \<Rightarrow>
      case resolve_reschedule_slot ev state appointment service_id slot_timestamp w of
        None \<Rightarrow> None
      | Some (Inl e) \<Rightarrow> Some (raises e state w)
      | Some (Inr None) \<Rightarrow> Some (stale_action_response ev state w)
      | Some (Inr (Some slot)) \<Rightarrow>
          (case reschedule_appointment ev (apt_id appointment) (Aware (slot_start_datetime slot) 0) ''customer''
                  (Some (cust_id customer)) w of
             None \<Rightarrow> None
           | Some (Inl (ValueError _)) \<Rightarrow>
               Some (Inr [text_message ''That slot is no longer available. Please choose again.''], state, w)
           | Some (Inl e) \<Rightarrow> Some (raises e state w)
           | Some (Inr (updated, w1)) \<Rightarrow>
               Some (action_completed ev ''whatsapp_reschedules_completed_total'' ''whatsapp_reschedule_completed''
                       ''Booking rescheduled successfully.'' customer updated state
                       (state\<lparr>cst_selected_slot_start := None\<rparr>) w1)))"

section \<open>Actions\<close>

text \<open>\<^verbatim>\<open>a.split(":", n)\<close> unpacked into exactly \<^verbatim>\<open>n + 1\<close> names.\<close>

definition unpack :: "nat \<Rightarrow> string \<Rightarrow> string list result" where
  "unpack n s =
     (let parts = split_max n CHR '':'' s in
      if length parts = Suc n then Inr parts else Inl (ValueError ''not enough values to unpack''))"

definition part :: "nat \<Rightarrow> string \<Rightarrow> string" where
  "part i s = split_all CHR '':'' s ! i"

definition after_colon :: "string \<Rightarrow> string" where
  "after_colon s = split_max 1 CHR '':'' s ! 1"

definition with_int :: "string \<Rightarrow> (int \<Rightarrow> conversation_state \<Rightarrow> world \<Rightarrow> chat option) \<Rightarrow>
    conversation_state \<Rightarrow> world \<Rightarrow> chat option" where
  "with_int text k state w = (case py_int text of Inl e \<Rightarrow> Some (raises e state w) | Inr i \<Rightarrow> k i state w)"

definition with_date :: "string \<Rightarrow> (date \<Rightarrow> conversation_state \<Rightarrow> world \<Rightarrow> chat option) \<Rightarrow>
    conversation_state \<Rightarrow> world \<Rightarrow> chat option" where
  "with_date text k state w = (case date_fromisoformat text of Inl e \<Rightarrow> Some (raises e state w) | Inr d \<Rightarrow> k d state w)"

definition with_parts :: "nat \<Rightarrow> string \<Rightarrow> (string list \<Rightarrow> conversation_state \<Rightarrow> world \<Rightarrow> chat option) \<Rightarrow>
    conversation_state \<Rightarrow> world \<Rightarrow> chat option" where
  "with_parts n text k state w = (case unpack n text of Inl e \<Rightarrow> Some (raises e state w) | Inr ps \<Rightarrow> k ps state w)"

definition done_with :: "(conversation_state \<Rightarrow> world \<Rightarrow> chat) \<Rightarrow> conversation_state \<Rightarrow> world \<Rightarrow> chat option" where
  "done_with k state w = Some (k state w)"

text \<open>The body of the \<^verbatim>\<open>try\<close> in \<^verbatim>\<open>_handle_action_id\<close>; None when no branch applies.\<close>

definition dispatch_action ::
  "env \<Rightarrow> customer \<Rightarrow> string \<Rightarrow> (conversation_state \<Rightarrow> world \<Rightarrow> chat option) option" where
  "dispatch_action ev customer a =
     (if startswith ''org:'' a then
        Some (with_int (after_colon a) (\<lambda>i. done_with (handle_organization_selection ev i)))
      else if a = ''menu:change_org'' then Some (done_with (render_organization_selection ev))
      else if a = ''menu:book'' then Some (done_with (begin_booking_flow ev))
      else if a = ''menu:upcoming'' then Some (done_with (show_upcoming_bookings ev customer))
      else if startswith ''loc:'' a then
        Some (with_int (after_colon a) (\<lambda>i. done_with (handle_location_selection ev i)))
      else if startswith ''svc:'' a then
        Some (with_int (after_colon a) (\<lambda>i. done_with (handle_service_selection ev i)))
      else if startswith ''prov:'' a then
        Some (with_int (after_colon a) (\<lambda>i. done_with (handle_provider_selection ev i)))
      else if startswith ''date:'' a then
        Some (with_date (after_colon a) (handle_booking_date_selection ev))
      else if startswith ''slot:'' a then
        Some (with_int (after_colon a) (handle_booking_slot_selection ev))
      else if startswith ''confirm_book:yes:'' a then
        Some (with_int (part 2 a) (confirm_booking ev customer))
      else if a = ''confirm_book:no'' then Some (done_with (render_booking_dates ev))
      else if startswith ''booking:'' a then
        Some (with_int (after_colon a) (\<lambda>i. done_with (show_booking_actions ev customer i)))
      else if startswith ''booking_action:cancel:'' a then
        Some (with_int (part 2 a) (\<lambda>i. done_with (confirm_cancel_prompt ev customer i)))
      else if startswith ''confirm_cancel:yes:'' a then
        Some (with_int (part 2 a) (\<lambda>i. done_with (confirm_cancel ev customer i)))
      else if startswith ''confirm_cancel:no:'' a then
        Some (with_int (part 2 a) (\<lambda>i. done_with (show_booking_actions ev customer i)))
      else if startswith ''booking_action:reschedule:'' a then
        Some (with_int (part 2 a) (\<lambda>i. done_with (render_reschedule_dates ev customer i)))
      else if startswith ''resched_date:'' a then
        Some (with_parts 2 a (\<lambda>ps. with_int (ps ! 1) (\<lambda>i. with_date (ps ! 2)
          (handle_reschedule_date_selection ev customer i))))
      else if startswith ''resched_slot:'' a then
        Some (with_parts 2 a (\<lambda>ps. with_int (ps ! 1) (\<lambda>i. with_int (ps ! 2)
          (handle_reschedule_slot_selection ev customer i))))
      else if startswith ''confirm_reschedule:yes:'' a then
        Some (with_parts 3 a (\<lambda>ps. with_int (ps ! 2) (\<lambda>i. with_int (ps ! 3) (confirm_reschedule ev customer i))))
      else if startswith ''confirm_reschedule:no:'' a then
        Some (with_parts 3 a (\<lambda>ps. with_int (ps ! 2) (\<lambda>i. done_with (render_reschedule_dates ev customer i))))
      else None)"

definition is_lookup_or_value_error :: "exn \<Rightarrow> bool" where
  "is_lookup_or_value_error e = (case e of LookupError _ \<Rightarrow> True | KeyError _ \<Rightarrow> True | ValueError _ \<Rightarrow> True | _ \<Rightarrow> False)"

definition handle_action_id ::
  "env \<Rightarrow> customer \<Rightarrow> string \<Rightarrow> conversation_state \<Rightarrow> world \<Rightarrow> chat option" where
  "handle_action_id ev customer action_id state w =
     (case dispatch_action ev customer action_id of
        None \<Rightarrow> Some (stale_action_response ev state w)
      | Some handler \<Rightarrow>
          (case handler state w of
             Some (Inl e, state1, w1) \<Rightarrow>
               if is_lookup_or_value_error e then Some (stale_action_response ev state1 w1)
               else Some (Inl e, state1, w1)
           | r \<Rightarrow> r))"

definition route_message ::
  "env \<Rightarrow> customer \<Rightarrow> inbound_message \<Rightarrow> conversation_state \<Rightarrow> world \<Rightarrow> chat option" where
  "route_message ev customer message state w =
     (let text_value = lower (strip (str_or (inb_text_body message) []));
          action_id = strip (str_or (inb_action_id message) []) in
      if text_value \<in> set START_KEYWORDS then Some (start_flow ev customer state w)
      else if text_value \<in> set MENU_KEYWORDS then Some (show_menu_or_org_selection ev state w)
      else if action_id \<noteq> [] then handle_action_id ev customer action_id state w
      else if inb_message_type message = IN_TEXT then Some (show_menu_hint ev state w)
      else Some (stale_action_response ev state w))"

section \<open>Answering\<close>

definition exn_text :: "exn \<Rightarrow> string" where
  "exn_text e =
     (case e of ValueError m \<Rightarrow> m | LookupError m \<Rightarrow> m | IntegrityError m \<Rightarrow> m | DataError m \<Rightarrow> m | TypeError m \<Rightarrow> m
      | KeyError m \<Rightarrow> m | AttributeError m \<Rightarrow> m | HTTPException _ m \<Rightarrow> m | RateLimited m _ \<Rightarrow> m
      | GatewayError m \<Rightarrow> m | IdempotencyValidationError m \<Rightarrow> m | IdempotencyConflictError m \<Rightarrow> m)"

definition send_message :: "env \<Rightarrow> nat \<Rightarrow> string \<Rightarrow> outbound_message \<Rightarrow> (string option \<times> json) result" where
  "send_message ev n external_user_id response =
     (case obm_message_type response of
        OUT_TEXT \<Rightarrow> send_text ev n external_user_id (obm_body response)
      | OUT_BUTTONS \<Rightarrow> send_buttons ev n external_user_id (obm_body response) (obm_buttons response)
      | OUT_LIST \<Rightarrow>
          send_list ev n external_user_id (obm_body response) (str_or (obm_list_button_text response) ''Options'')
            (obm_list_sections response) (obm_header_text response) (obm_footer_text response))"

definition outbound_log ::
  "int option \<Rightarrow> int option \<Rightarrow> int option \<Rightarrow> string option \<Rightarrow> json \<Rightarrow> message_log" where
  "outbound_log customer_id organization_id provider_id external_message_id payload =
     \<lparr>msg_id = 0, msg_customer_id = customer_id, msg_organization_id = organization_id,
      msg_provider_id = provider_id, msg_direction = MSG_OUTBOUND, msg_channel = CH_WHATSAPP,
      msg_external_message_id = external_message_id, msg_payload_json = payload, msg_created_at = 0\<rparr>"

text \<open>One response: whether it was sent and logged, and the world with the log or the failure.\<close>

definition send_outbound ::
  "env \<Rightarrow> string \<Rightarrow> int option \<Rightarrow> int option \<Rightarrow> int option \<Rightarrow> outbound_message \<Rightarrow> world \<Rightarrow> bool \<times> world" where
  "send_outbound ev external_user_id customer_id organization_id provider_id response w =
     (case (case send_message ev (length (message_logs w)) external_user_id response of
              Inl e \<Rightarrow> Inl e
            | Inr (external_message_id, provider_payload) \<Rightarrow>
                message_log_create ev
                  (outbound_log customer_id organization_id provider_id external_message_id
                     (JObj [(''request'', outbound_json response), (''provider_response'', provider_payload)])) w) of
        Inr (_, w1) \<Rightarrow> (True, increment_counter ''whatsapp_outbound_sent_total'' w1)
      | Inl e \<Rightarrow>
         (let w1 = record_event ev
                     ((event_defaults ''whatsapp_outbound_failed'')
                        \<lparr>ev_entity_type := (if customer_id \<noteq> None then Some ''customer'' else None),
                         ev_entity_id := customer_id, ev_organization_id := organization_id,
                         ev_status := ''failure'',
                         ev_payload_json := JObj
                           [(''error'', JStr (exn_text e)), (''channel'', JStr (channel_type_value CH_WHATSAPP)),
                            (''message_type'', JStr (outbound_type_value (obm_message_type response)))]\<rparr>)
                     (increment_counter ''whatsapp_outbound_failed_total'' w) in
          (False,
           case message_log_create ev
                  (outbound_log customer_id organization_id provider_id None
                     (JObj [(''request'', outbound_json response), (''error'', JStr (exn_text e))])) w1 of
             Inl _ \<Rightarrow> w1
           | Inr (_, w2) \<Rightarrow> w2)))"

fun send_outbound_messages ::
  "env \<Rightarrow> string \<Rightarrow> int option \<Rightarrow> int option \<Rightarrow> int option \<Rightarrow> outbound_message list \<Rightarrow> world
    \<Rightarrow> (int \<times> int) \<times> world" where
  "send_outbound_messages ev external_user_id customer_id organization_id provider_id [] w = ((0, 0), w)"
| "send_outbound_messages ev external_user_id customer_id organization_id provider_id (response # responses) w =
     (let (ok, w1) = send_outbound ev external_user_id customer_id organization_id provider_id response w;
          ((sent, failed), w2) =
            send_outbound_messages ev external_user_id customer_id organization_id provider_id responses w1 in
      ((if ok then (sent + 1, failed) else (sent, failed + 1)), w2))"

section \<open>Inbound messages\<close>

definition record_inbound_if_new :: "env \<Rightarrow> inbound_message \<Rightarrow> world \<Rightarrow> bool \<times> world" where
  "record_inbound_if_new ev message w =
     (case message_log_create ev
             \<lparr>msg_id = 0, msg_customer_id = None, msg_organization_id = None, msg_provider_id = None,
              msg_direction = MSG_INBOUND, msg_channel = CH_WHATSAPP,
              msg_external_message_id = Some (inb_external_message_id message),
              msg_payload_json = inbound_json ev message, msg_created_at = 0\<rparr> w of
        Inl _ \<Rightarrow> (False, w)
      | Inr (_, w') \<Rightarrow> (True, w'))"

definition resolve_customer :: "string \<Rightarrow> world \<Rightarrow> (exn + customer option) \<times> world" where
  "resolve_customer external_user_id w =
     (case Option.bind (identity_get_by_channel_external_user CH_WHATSAPP external_user_id w)
             (\<lambda>i. customer_get (cci_customer_id i) w) of
        Some customer \<Rightarrow> (Inr (Some customer), w)
      | None \<Rightarrow>
      case normalize_phone_number external_user_id of
        Inl _ \<Rightarrow> (Inr None, w)
      | Inr normalized_phone \<Rightarrow>
      case customer_get_by_phone_normalized normalized_phone w of
        Some customer \<Rightarrow> (Inr (Some customer), w)
      | None \<Rightarrow>
          (case customer_create
                  \<lparr>cust_id = 0,
                   cust_full_name = ''WhatsApp '' @ drop (length normalized_phone - 4) normalized_phone,
                   cust_phone_number = normalized_phone, cust_phone_number_normalized = [],
                   cust_email = None, cust_preferred_language = Some ''en''\<rparr> w of
             Inl e \<Rightarrow> (Inl e, w)
           | Inr (customer, w') \<Rightarrow> (Inr (Some customer), w')))"

definition ensure_identity :: "customer \<Rightarrow> string \<Rightarrow> world \<Rightarrow> world" where
  "ensure_identity customer external_user_id w =
     (case identity_get_by_channel_external_user CH_WHATSAPP external_user_id w of
        Some _ \<Rightarrow> w
      | None \<Rightarrow>
          (case identity_create
                  \<lparr>cci_id = 0, cci_customer_id = cust_id customer, cci_channel = CH_WHATSAPP,
                   cci_external_user_id = external_user_id, cci_external_chat_id = Some external_user_id\<rparr> w of
             Inl _ \<Rightarrow> w
           | Inr (_, w') \<Rightarrow> w'))"

definition get_or_create_state :: "env \<Rightarrow> customer \<Rightarrow> string \<Rightarrow> world \<Rightarrow> (conversation_state \<times> world) result" where
  "get_or_create_state ev customer external_user_id w =
     (case conversation_get_by_customer_and_channel (cust_id customer) CH_WHATSAPP w of
        None \<Rightarrow>
          conversation_create ev
            \<lparr>cst_id = 0, cst_customer_id = cust_id customer, cst_channel = CH_WHATSAPP,
             cst_external_user_id = Some external_user_id, cst_current_flow = Some ''menu'',
             cst_current_step = Some ''select_organization'', cst_selected_organization_id = None,
             cst_selected_provider_id = None, cst_selected_service_id = None, cst_selected_location_id = None,
             cst_selected_slot_start = None, cst_context_json = JObj [], cst_last_interaction_at = 0\<rparr> w
      | Some state \<Rightarrow> conversation_update ev (state\<lparr>cst_external_user_id := Some external_user_id\<rparr>) w)"

definition is_rate_limit_allowed :: "env \<Rightarrow> customer \<Rightarrow> string \<Rightarrow> world \<Rightarrow> (exn + bool) \<times> world" where
  "is_rate_limit_allowed ev customer external_user_id w =
     (case get_rate_limit_policy ev ''whatsapp_inbound'' of
        Inl e \<Rightarrow> (Inl e, w)
      | Inr policy \<Rightarrow>
       (let (decision, w1) = check ev policy (build_identity_key [''wa:'' @ external_user_id]) w in
        if rld_allowed decision then (Inr True, w1)
        else
          (Inr False,
           record_event ev
             ((event_defaults ''rate_limit_exceeded'')
                \<lparr>ev_entity_type := Some ''customer'', ev_entity_id := Some (cust_id customer),
                 ev_actor_type := ''customer'', ev_actor_id := Some (cust_id customer), ev_status := ''failure'',
                 ev_payload_json := JObj
                   [(''policy'', JStr (rld_policy_name decision)),
                    (''retry_after_seconds'', JInt (rld_retry_after_seconds decision)),
                    (''backend'', JStr (rld_backend decision)),
                    (''key_fingerprint'', JStr (rld_key_fingerprint decision)),
                    (''channel'', JStr (channel_type_value CH_WHATSAPP))]\<rparr>) w1)))"

record process_result =
  wpr_processed_messages :: int
  wpr_duplicate_messages :: int
  wpr_outbound_sent :: int
  wpr_outbound_failed :: int

text \<open>A known customer's message: the identity, the conversation, the rate limit and the handler.\<close>

definition answer_customer ::
  "env \<Rightarrow> customer \<Rightarrow> inbound_message \<Rightarrow> world \<Rightarrow> ((exn + (conversation_state \<times> outbound_message list)) \<times> world) option" where
  "answer_customer ev customer message w =
     (let user = inb_external_user_id message; w1 = ensure_identity customer user w in
      case get_or_create_state ev customer user w1 of
        Inl e \<Rightarrow> Some (Inl e, w1)
      | Inr (state, w2) \<Rightarrow>
      case is_rate_limit_allowed ev customer user w2 of
        (Inl e, w3) \<Rightarrow> Some (Inl e, w3)
      | (Inr False, w3) \<Rightarrow>
          Some (Inr (state, [text_message ''Too many requests. Please wait a moment and try again.'']), w3)
      | (Inr True, w3) \<Rightarrow>
          map_option (\<lambda>(r, state', w4).
              (case r of Inl e \<Rightarrow> (Inl e, w4) | Inr responses \<Rightarrow> (Inr (state', responses), w4)))
            (route_message ev customer message state w3))"

definition process_message ::
  "env \<Rightarrow> inbound_message \<Rightarrow> process_result \<Rightarrow> world \<Rightarrow> ((exn + process_result) \<times> world) option" where
  "process_message ev message summary w =
     (case record_inbound_if_new ev message w of
        (False, w1) \<Rightarrow>
          Some (Inr (summary\<lparr>wpr_duplicate_messages := wpr_duplicate_messages summary + 1\<rparr>), w1)
      | (True, w1) \<Rightarrow>
       (let summary1 = summary\<lparr>wpr_processed_messages := wpr_processed_messages summary + 1\<rparr>;
            user = inb_external_user_id message;
            deliver = (\<lambda>customer_id organization_id provider_id responses w'.
              (let ((sent, failed), w'') =
                     send_outbound_messages ev user customer_id organization_id provider_id responses w' in
               Some (Inr (summary1\<lparr>wpr_outbound_sent := wpr_outbound_sent summary1 + sent,
                                   wpr_outbound_failed := wpr_outbound_failed summary1 + failed\<rparr>), w''))) in
        case resolve_customer user w1 of
          (Inl e, w2) \<Rightarrow> Some (Inl e, w2)
        | (Inr None, w2) \<Rightarrow>
            deliver None None None
              [text_message ''We could not verify your number for booking. Please contact support.''] w2
        | (Inr (Some customer), w2) \<Rightarrow>
            (case answer_customer ev customer message w2 of
               None \<Rightarrow> None
             | Some (Inl e, w3) \<Rightarrow> Some (Inl e, w3)
             | Some (Inr (state, responses), w3) \<Rightarrow>
                 deliver (Some (cust_id customer)) (cst_selected_organization_id state)
                   (cst_selected_provider_id state) responses w3)))"

fun process_messages ::
  "env \<Rightarrow> inbound_message list \<Rightarrow> process_result \<Rightarrow> world \<Rightarrow> ((exn + process_result) \<times> world) option" where
  "process_messages ev [] summary w = Some (Inr summary, w)"
| "process_messages ev (message # messages) summary w =
     (case process_message ev message summary w of
        None \<Rightarrow> None
      | Some (Inl e, w1) \<Rightarrow> Some (Inl e, w1)
      | Some (Inr summary1, w1) \<Rightarrow> process_messages ev messages summary1 w1)"

section \<open>The webhook endpoints\<close>

definition validate_signature :: "env \<Rightarrow> string \<Rightarrow> string option \<Rightarrow> bool result" where
  "validate_signature ev body provided_signature =
     (let app_secret = strip (str_or (cfg_whatsapp_app_secret (config ev)) []) in
      if app_secret = [] then Inr True
      else case provided_signature of
        None \<Rightarrow> Inr False
      | Some signature \<Rightarrow> compare_digest (strip signature) (''sha256='' @ hmac_sha256_hex ev app_secret body))"

definition verify_whatsapp_webhook ::
  "env \<Rightarrow> string option \<Rightarrow> string option \<Rightarrow> string option \<Rightarrow> string result" where
  "verify_whatsapp_webhook ev mode verify_token challenge =
     (let expected_token = strip (str_or (cfg_whatsapp_verify_token (config ev)) []) in
      if expected_token = [] then Inl (HTTPException 503 ''Webhook verify token is not configured'')
      else if mode = Some ''subscribe'' \<and> verify_token = Some expected_token \<and> str_or challenge [] \<noteq> []
      then Inr (str_or challenge [])
      else Inl (HTTPException 403 ''Webhook verification failed''))"

definition no_messages :: process_result where
  "no_messages = \<lparr>wpr_processed_messages = 0, wpr_duplicate_messages = 0, wpr_outbound_sent = 0, wpr_outbound_failed = 0\<rparr>"

definition result_fields :: "process_result \<Rightarrow> (string \<times> json) list" where
  "result_fields result =
     [(''processed_messages'', JInt (wpr_processed_messages result)),
      (''duplicate_messages'', JInt (wpr_duplicate_messages result)),
      (''outbound_sent'', JInt (wpr_outbound_sent result)), (''outbound_failed'', JInt (wpr_outbound_failed result))]"

definition receive_whatsapp_webhook ::
  "env \<Rightarrow> string \<Rightarrow> string option \<Rightarrow> world \<Rightarrow> ((exn + json) \<times> world) option" where
  "receive_whatsapp_webhook ev raw_body signature w =
     (case validate_signature ev raw_body signature of
        Inl e \<Rightarrow> Some (Inl e, w)
      | Inr False \<Rightarrow> Some (Inl (HTTPException 401 ''Invalid webhook signature''), w)
      | Inr True \<Rightarrow>
      case (if raw_body = [] then Inr (JObj []) else json_loads ev raw_body) of
        Inl _ \<Rightarrow> Some (Inl (HTTPException 400 ''Malformed webhook payload''), w)
      | Inr payload \<Rightarrow>
      case payload of
        JObj kvs \<Rightarrow>
         (let w1 = increment_counter ''whatsapp_webhook_received_total'' w in
          case normalize_whatsapp_messages ev kvs of
            Inl e \<Rightarrow> Some (Inl e, w1)
          | Inr messages \<Rightarrow>
          case process_messages ev messages no_messages w1 of
            None \<Rightarrow> None
          | Some (Inl e, w2) \<Rightarrow> Some (Inl e, w2)
          | Some (Inr result, w2) \<Rightarrow>
              Some (Inr (JObj ((''status'', JStr ''accepted'') # result_fields result)),
                    record_event ev
                      ((event_defaults ''whatsapp_webhook_received'')
                         \<lparr>ev_status := ''success'',
                          ev_payload_json :=
                            JObj ((''message_count'', JInt (int (length messages))) # result_fields result)\<rparr>) w2))
      | _ \<Rightarrow> Some (Inl (HTTPException 400 ''Malformed webhook payload''), w))"

end
