(* ===== verification/Conversation.thy ===== *)
theory Conversation
  imports Whatsapp
begin

text \<open>
  What the WhatsApp conversation guarantees, whatever the customer sends: the messages it answers
  with are ones the provider accepts, the log of messages only grows, and no booking but the
  sender's own live and future ones is touched.  One predicate, \<^verbatim>\<open>chat_safe\<close>, carries the
  three through every handler.
\<close>

section \<open>Messages the provider accepts\<close>

definition row_ok :: "list_row \<Rightarrow> bool" where
  "row_ok r \<longleftrightarrow> length (lrw_title r) \<le> LIST_TITLE_LIMIT \<and>
     (case lrw_description r of None \<Rightarrow> True | Some d \<Rightarrow> d \<noteq> [] \<and> length d \<le> LIST_DESC_LIMIT)"

definition section_ok :: "list_section \<Rightarrow> bool" where
  "section_ok s \<longleftrightarrow> length (lsc_title s) \<le> LIST_TITLE_LIMIT \<and> lsc_rows s \<noteq> [] \<and> length (lsc_rows s) \<le> 10 \<and>
     (\<forall>r \<in> set (lsc_rows s). row_ok r)"

definition message_ok :: "outbound_message \<Rightarrow> bool" where
  "message_ok m \<longleftrightarrow> validate_message_shape m = Inr m \<and>
     (\<forall>b \<in> set (obm_buttons m). length (btn_title b) \<le> BUTTON_TITLE_LIMIT) \<and>
     (case obm_list_button_text m of None \<Rightarrow> True | Some t \<Rightarrow> length t \<le> BUTTON_TITLE_LIMIT) \<and>
     length (obm_list_sections m) \<le> 10 \<and> (\<forall>s \<in> set (obm_list_sections m). section_ok s)"

named_theorems chat_intros

lemma text_message_ok [chat_intros]: "message_ok (text_message body)"
  by (simp add: message_ok_def text_message_def validate_message_shape_def)

lemma buttons_message_ok [chat_intros]: "buttons \<noteq> [] \<Longrightarrow> message_ok (buttons_message body buttons)"
  by (auto simp: message_ok_def buttons_message_def text_message_def validate_message_shape_def)

lemma clamp_row_ok: "row_ok (clamp_row r)"
  by (auto simp: row_ok_def clamp_row_def or_else_def str_or_def LIST_TITLE_LIMIT_def LIST_DESC_LIMIT_def split: option.splits)

lemma menu_of_ok [chat_intros]: "rows \<noteq> [] \<Longrightarrow> message_ok (menu_of body t title rows)"
  by (auto simp: message_ok_def menu_of_def list_message_def text_message_def validate_message_shape_def section_ok_def
      clamp_row_ok str_or_def or_else_def BUTTON_TITLE_LIMIT_def split: option.splits)

section \<open>What a handler keeps\<close>

text \<open>The bookings a customer may manage now.\<close>

definition manageable :: "env \<Rightarrow> customer \<Rightarrow> appointment \<Rightarrow> bool" where
  "manageable ev c a \<longleftrightarrow> apt_customer_id a = cust_id c \<and> is_blocking a \<and> now ev \<le> apt_start_datetime a"

definition leaves_others :: "env \<Rightarrow> customer \<Rightarrow> world \<Rightarrow> world \<Rightarrow> bool" where
  "leaves_others ev c w w' \<longleftrightarrow> set (message_logs w) \<subseteq> set (message_logs w') \<and>
     (tbl_ok apt_id (appointments w) \<longrightarrow> tbl_ok apt_id (appointments w') \<and>
       (\<forall>a \<in> set (appointments w). a \<in> set (appointments w') \<or> manageable ev c a))"

lemma leaves_others_refl [simp]: "leaves_others ev c w w"
  by (simp add: leaves_others_def)

lemma leaves_others_trans: "leaves_others ev c w w1 \<Longrightarrow> leaves_others ev c w1 w2 \<Longrightarrow> leaves_others ev c w w2"
  by (auto simp: leaves_others_def)

lemma leaves_others_announced [simp]:
  "leaves_others ev c w (increment_counter n w') = leaves_others ev c w w'"
  "leaves_others ev c w (snd (record_domain_event ev2 e w')) = leaves_others ev c w w'"
  "leaves_others ev c (increment_counter n w) w' = leaves_others ev c w w'"
  "leaves_others ev c (snd (record_domain_event ev2 e w)) w' = leaves_others ev c w w'"
  by (simp_all add: leaves_others_def)

definition chat_safe :: "env \<Rightarrow> customer \<Rightarrow> world \<Rightarrow> chat \<Rightarrow> bool" where
  "chat_safe ev c w r \<longleftrightarrow>
     (case r of (out, state, w') \<Rightarrow>
        leaves_others ev c w w' \<and> (case out of Inl _ \<Rightarrow> True | Inr ms \<Rightarrow> \<forall>m \<in> set ms. message_ok m))"

lemma conversation_update_rows:
  "conversation_update ev s w = Inr (s', w') \<Longrightarrow> appointments w' = appointments w \<and> message_logs w' = message_logs w"
  by (auto simp: conversation_update_def Let_def split: sum.splits)

lemma chat_safe_simps [chat_intros]:
  "\<forall>m \<in> set ms. message_ok m \<Longrightarrow> leaves_others ev c w w' \<Longrightarrow> chat_safe ev c w (Inr ms, s, w')"
  "leaves_others ev c w w' \<Longrightarrow> chat_safe ev c w (Inl e, s, w')"
  "leaves_others ev c w w' \<Longrightarrow> chat_safe ev c w (raises e s w')"
  by (simp_all add: chat_safe_def raises_def)

lemma saved_safe [chat_intros]:
  "leaves_others ev c w w1 \<Longrightarrow> \<forall>m \<in> set ms. message_ok m \<Longrightarrow> chat_safe ev c w (saved ev2 s s' w1 ms)"
  by (auto simp: chat_safe_def saved_def leaves_others_def dest!: conversation_update_rows split: sum.splits)

lemma prefixed_safe [chat_intros]:
  "\<forall>m \<in> set ms. message_ok m \<Longrightarrow> chat_safe ev c w r \<Longrightarrow> chat_safe ev c w (prefixed ms r)"
  by (auto simp: chat_safe_def prefixed_def split: sum.splits prod.splits)

lemma chat_then_safe [chat_intros]:
  assumes "chat_safe ev c w r" and "\<And>s w1. leaves_others ev c w w1 \<Longrightarrow> chat_safe ev c w (k s w1)"
  shows "chat_safe ev c w (chat_then r k)"
proof -
  obtain out s w1 where r: "r = (out, s, w1)" by (cases r)
  show ?thesis
  proof (cases out)
    case (Inl e)
    then show ?thesis using assms(1) by (simp add: r chat_safe_def chat_then_def)
  next
    case (Inr ms)
    from assms(1) have "leaves_others ev c w w1" and m: "\<forall>m \<in> set ms. message_ok m"
      by (simp_all add: r Inr chat_safe_def)
    from prefixed_safe [OF m assms(2) [OF this(1)]] show ?thesis by (simp add: r Inr chat_then_def)
  qed
qed

section \<open>The menus\<close>

lemma render_organization_selection_safe [chat_intros]:
  "leaves_others ev c w w1 \<Longrightarrow> chat_safe ev c w (render_organization_selection ev2 s w1)"
  by (auto simp: render_organization_selection_def Let_def intro!: chat_intros)

lemma render_main_menu_safe [chat_intros]:
  "leaves_others ev c w w1 \<Longrightarrow> chat_safe ev c w (render_main_menu ev2 n s w1)"
  by (auto simp: render_main_menu_def intro!: chat_intros)

lemma show_menu_safe [chat_intros]:
  "leaves_others ev c w w1 \<Longrightarrow> chat_safe ev c w (show_menu_or_org_selection ev2 s w1)"
  by (auto simp: show_menu_or_org_selection_def intro!: chat_intros split: option.splits)

lemma stale_action_response_safe [chat_intros]:
  "leaves_others ev c w w1 \<Longrightarrow> chat_safe ev c w (stale_action_response ev2 s w1)"
  "leaves_others ev c w w1 \<Longrightarrow> chat_safe ev c w (show_menu_hint ev2 s w1)"
  by (auto simp: stale_action_response_def show_menu_hint_def intro!: chat_intros)

lemma start_flow_safe [chat_intros]:
  "leaves_others ev c w w1 \<Longrightarrow> chat_safe ev c w (start_flow ev2 c2 s w1)"
  by (auto simp: start_flow_def intro!: chat_intros)

lemma handle_organization_selection_safe [chat_intros]:
  "leaves_others ev c w w1 \<Longrightarrow> chat_safe ev c w (handle_organization_selection ev2 i s w1)"
  by (auto simp: handle_organization_selection_def intro!: chat_intros split: option.splits)

lemma render_service_selection_safe [chat_intros]:
  "leaves_others ev c w w1 \<Longrightarrow> chat_safe ev c w (render_service_selection ev2 i n s w1)"
  by (auto simp: render_service_selection_def intro!: chat_intros split: sum.splits)

lemma begin_booking_flow_safe [chat_intros]:
  "leaves_others ev c w w1 \<Longrightarrow> chat_safe ev c w (begin_booking_flow ev2 s w1)"
  by (auto simp: begin_booking_flow_def intro!: chat_intros split: option.splits sum.splits list.splits)

lemma handle_location_selection_safe [chat_intros]:
  "leaves_others ev c w w1 \<Longrightarrow> chat_safe ev c w (handle_location_selection ev2 i s w1)"
  by (auto simp: handle_location_selection_def intro!: chat_intros split: option.splits sum.splits)

lemma handle_service_selection_safe [chat_intros]:
  "leaves_others ev c w w1 \<Longrightarrow> chat_safe ev c w (handle_service_selection ev2 i s w1)"
  by (auto simp: handle_service_selection_def intro!: chat_intros split: option.splits sum.splits)

lemma build_next_dates_not_empty [simp]: "build_next_dates ev tz 7 \<noteq> []"
  by (simp add: build_next_dates_def)

lemma render_booking_dates_safe [chat_intros]:
  "leaves_others ev c w w1 \<Longrightarrow> chat_safe ev c w (render_booking_dates ev2 s w1)"
  by (auto simp: render_booking_dates_def intro!: chat_intros split: option.splits)

lemma handle_provider_selection_safe [chat_intros]:
  "leaves_others ev c w w1 \<Longrightarrow> chat_safe ev c w (handle_provider_selection ev2 i s w1)"
  by (auto simp: handle_provider_selection_def intro!: chat_intros split: option.splits sum.splits)

section \<open>Bookings and moves\<close>

definition run_safe :: "env \<Rightarrow> customer \<Rightarrow> world \<Rightarrow> chat option \<Rightarrow> bool" where
  "run_safe ev c w r = pred_option (chat_safe ev c w) r"

lemma run_safe_simps [simp]: "run_safe ev c w None" "run_safe ev c w (Some r) = chat_safe ev c w r"
  by (simp_all add: run_safe_def)

lemma handle_booking_date_selection_safe [chat_intros]:
  "run_safe ev c w (handle_booking_date_selection ev2 d s w)"
  by (auto simp: handle_booking_date_selection_def intro!: chat_intros split: option.splits sum.splits)

lemma handle_booking_slot_selection_safe [chat_intros]:
  "run_safe ev c w (handle_booking_slot_selection ev2 t s w)"
  by (auto simp: handle_booking_slot_selection_def intro!: chat_intros split: option.splits sum.splits)

text \<open>The bookings stay, and their keys stay unique.\<close>

definition keeps_bookings :: "world \<Rightarrow> world \<Rightarrow> bool" where
  "keeps_bookings w w' \<longleftrightarrow> set (appointments w) \<subseteq> set (appointments w') \<and>
     (tbl_ok apt_id (appointments w) \<longrightarrow> tbl_ok apt_id (appointments w'))"

lemma keeps_bookings_same [simp]: "appointments w' = appointments w \<Longrightarrow> keeps_bookings w w'"
  by (simp add: keeps_bookings_def)

lemma create_appointment_keeps:
  "create_appointment ev payload ak ai w = Some (Inr (a, w')) \<Longrightarrow> keeps_bookings w w'"
  by (auto simp: keeps_bookings_def create_appointment_def Let_def dest: appointment_repo.create_rows appointment_repo.create_unique
      split: option.splits sum.splits prod.splits if_splits)

lemma resolve_keeps:
  "resolve_or_create_customer i n ph em l w = Inr (c, w') \<Longrightarrow> appointments w' = appointments w"
  by (auto simp: resolve_or_create_customer_def Let_def write_defs
      split: option.splits sum.splits prod.splits if_splits list.splits exn.splits)

lemma finish_booking_keeps:
  "finish_booking ev s c a w = (r, w') \<Longrightarrow> appointments w' = appointments w"
  by (auto simp: finish_booking_def create_checkout_session_for_appointment_def open_checkout_def Let_def write_defs
      split: option.splits sum.splits prod.splits if_splits)

lemma public_booking_keeps:
  assumes "create_public_booking ev payload ch w = Some (r, w')"
  shows "keeps_bookings w w'"
proof -
  have trans: "keeps_bookings w w2 \<Longrightarrow> appointments w' = appointments w2 \<Longrightarrow> keeps_bookings w w'" for w2
    by (simp add: keeps_bookings_def)
  have start: "keeps_bookings w1 w2 \<Longrightarrow> appointments w1 = appointments w \<Longrightarrow> keeps_bookings w w2" for w1 w2
    by (simp add: keeps_bookings_def)
  show ?thesis
    using assms
    by (auto simp: create_public_booking_def Let_def dest: resolve_keeps
      intro: trans [OF start [OF create_appointment_keeps resolve_keeps] finish_booking_keeps]
      split: option.splits sum.splits prod.splits if_splits)
qed

lemma public_booking_leaves:
  "create_public_booking ev payload ch w = Some (r, w') \<Longrightarrow> leaves_others ev2 c w w'"
  using public_booking_keeps outside_eqD [OF outside_public_booking] by (fastforce simp: leaves_others_def keeps_bookings_def)

lemma booking_completed_safe [chat_intros]:
  "leaves_others ev c w w1 \<Longrightarrow> chat_safe ev c w (booking_completed ev2 c2 o2 a s w1)"
  by (auto simp: booking_completed_def Let_def intro!: chat_intros)

lemma confirm_booking_safe [chat_intros]:
  "run_safe ev c w (confirm_booking ev2 c2 t s w)"
  by (auto simp: confirm_booking_def Let_def intro!: chat_intros dest: public_booking_leaves
      split: option.splits sum.splits exn.splits)

section \<open>Managing a booking\<close>

lemma get_manageable_appointment_Some:
  "get_manageable_appointment ev c i s w = Some a \<Longrightarrow> appointment_get i w = Some a \<and> manageable ev c a \<and> apt_id a = i"
  using appointment_get_mem [of i w]
  by (auto simp: get_manageable_appointment_def manageable_def is_blocking_def blocking_statuses_def not_less
      split: option.splits if_splits)

lemma map_result_length: "map_result f xs = Inr ys \<Longrightarrow> length ys = length xs"
  by (induction xs arbitrary: ys) (auto split: sum.splits)

lemma show_upcoming_bookings_safe [chat_intros]:
  assumes "leaves_others ev c w w1"
  shows "chat_safe ev c w (show_upcoming_bookings ev2 c2 s w1)"
proof -
  have "message_ok (menu_of b t n rows)" if "map_result f xs = Inr rows" "xs \<noteq> []" for b t n rows f and xs :: "appointment list"
    using map_result_length [OF that(1)] that(2) by (intro menu_of_ok) auto
  with assms show ?thesis
    by (auto simp: show_upcoming_bookings_def Let_def intro!: chat_intros split: option.splits sum.splits)
qed

lemma show_booking_actions_safe [chat_intros]:
  "leaves_others ev c w w1 \<Longrightarrow> chat_safe ev c w (show_booking_actions ev2 c2 i s w1)"
  by (auto simp: show_booking_actions_def intro!: chat_intros split: option.splits)

lemma confirm_cancel_prompt_safe [chat_intros]:
  "leaves_others ev c w w1 \<Longrightarrow> chat_safe ev c w (confirm_cancel_prompt ev2 c2 i s w1)"
  by (auto simp: confirm_cancel_prompt_def intro!: chat_intros split: option.splits)

lemma action_completed_safe [chat_intros]:
  "leaves_others ev c w w1 \<Longrightarrow> chat_safe ev c w (action_completed ev2 n t b c2 a s s' w1)"
  by (auto simp: action_completed_def Let_def intro!: chat_intros split: option.splits)

lemma outside_cancel: "cancel_appointment ev i notes ak ai w = (r, w') \<Longrightarrow> outside w' = outside w"
  by (auto simp: cancel_appointment_def process_refund_for_cancellation_def Let_def outside_create_refund
      dest!: outside_writes split: option.splits sum.splits if_splits)

lemma outside_reschedule: "reschedule_appointment ev i t ak ai w = Some (Inr (a, w')) \<Longrightarrow> outside w' = outside w"
  by (auto simp: reschedule_appointment_def Let_def dest!: outside_writes split: option.splits sum.splits if_splits)

lemma one_row_leaves_others:
  assumes "outside w' = outside w" and "manageable ev c x" and "appointment_get (apt_id x) w = Some x"
    and "\<And>a. a \<in> set (appointments w) \<Longrightarrow> apt_id a \<noteq> apt_id x \<Longrightarrow> a \<in> set (appointments w')"
    and "tbl_ok apt_id (appointments w) \<Longrightarrow> tbl_ok apt_id (appointments w')"
  shows "leaves_others ev c w w'"
proof -
  have "a \<in> set (appointments w') \<or> manageable ev c a" if k: "tbl_ok apt_id (appointments w)" and a: "a \<in> set (appointments w)" for a
  proof (cases "apt_id a = apt_id x")
    case True
    have "Some a = Some x" using appointment_repo.mem_get [OF k a] assms(3) unfolding True by (rule trans [OF sym])
    with assms(2) show ?thesis by simp
  next
    case False
    with assms(4) [OF a] show ?thesis by blast
  qed
  moreover from assms(1) have "message_logs w' = message_logs w" using outside_eqD by blast
  ultimately show ?thesis using assms(5) by (simp add: leaves_others_def)
qed

lemma cancel_appointment_keys:
  assumes "cancel_appointment ev i notes ak ai w = (r, w')" and "tbl_ok apt_id (appointments w)"
  shows "tbl_ok apt_id (appointments w')"
proof -
  have p: "appointments (snd (process_refund_for_cancellation ev x v)) = appointments v" for x v
    by (auto simp: process_refund_for_cancellation_def Let_def appointments_create_refund split: option.splits)
  show ?thesis
    using assms
    by (auto simp: cancel_appointment_def Let_def p dest: appointment_repo.update_unique
        split: option.splits sum.splits if_splits)
qed

lemma reschedule_appointment_keys:
  "reschedule_appointment ev i t ak ai w = Some (Inr (a, w')) \<Longrightarrow> tbl_ok apt_id (appointments w) \<Longrightarrow>
     tbl_ok apt_id (appointments w')"
  by (auto simp: reschedule_appointment_def Let_def dest: appointment_repo.update_unique
      split: option.splits sum.splits if_splits)

lemma confirm_cancel_safe [chat_intros]:
  "chat_safe ev c w (confirm_cancel ev c i s w)"
proof (cases "get_manageable_appointment ev c i s w")
  case (Some x)
  note m = get_manageable_appointment_Some [OF Some]
  have leaves: "leaves_others ev c w w'" if "cancel_appointment ev (apt_id x) None ak ai w = (r, w')" for ak ai r w'
    using one_row_leaves_others [OF outside_cancel [OF that]] cancel_appointment_other [OF that]
      cancel_appointment_keys [OF that] m by blast
  obtain r w1 where r: "cancel_appointment ev (apt_id x) None ''customer'' (Some (cust_id c)) w = (r, w1)" by fastforce
  have l: "leaves_others ev c w w1" by (rule leaves [OF r])
  show ?thesis
  proof (cases r)
    case (Inl e)
    with l show ?thesis
      by (cases e) (simp_all add: confirm_cancel_def Some r chat_safe_def raises_def text_message_ok)
  next
    case (Inr u)
    with l show ?thesis by (auto simp: confirm_cancel_def Some r intro!: chat_intros)
  qed
qed (auto simp: confirm_cancel_def intro!: chat_intros)

lemma render_reschedule_dates_safe [chat_intros]:
  "leaves_others ev c w w1 \<Longrightarrow> chat_safe ev c w (render_reschedule_dates ev2 c2 i s w1)"
  by (auto simp: render_reschedule_dates_def Let_def intro!: chat_intros split: option.splits)

lemma handle_reschedule_date_selection_safe [chat_intros]:
  "run_safe ev c w (handle_reschedule_date_selection ev2 c2 i d s w)"
  by (auto simp: handle_reschedule_date_selection_def intro!: chat_intros split: option.splits sum.splits)

lemma handle_reschedule_slot_selection_safe [chat_intros]:
  "run_safe ev c w (handle_reschedule_slot_selection ev2 c2 i t s w)"
  by (auto simp: handle_reschedule_slot_selection_def Let_def intro!: chat_intros split: option.splits sum.splits)

lemma confirm_reschedule_safe [chat_intros]:
  "run_safe ev c w (confirm_reschedule ev c i t s w)"
proof (cases "get_manageable_appointment ev c i s w")
  case (Some x)
  note m = get_manageable_appointment_Some [OF Some]
  have "leaves_others ev c w w'" if "reschedule_appointment ev (apt_id x) d ak ai w = Some (Inr (a, w'))" for d ak ai a w'
    using one_row_leaves_others [OF outside_reschedule [OF that]] reschedule_appointment_other [OF that]
      reschedule_appointment_keys [OF that] m by blast
  then show ?thesis
    by (auto simp: confirm_reschedule_def Some intro!: chat_intros split: option.splits sum.splits exn.splits)
qed (auto simp: confirm_reschedule_def intro!: chat_intros)

section \<open>Every action\<close>

lemma plumbing_safe [chat_intros]:
  "(\<And>i. run_safe ev c w (k i s w)) \<Longrightarrow> run_safe ev c w (with_int text k s w)"
  "(\<And>d. run_safe ev c w (h d s w)) \<Longrightarrow> run_safe ev c w (with_date text h s w)"
  "(\<And>ps. run_safe ev c w (g ps s w)) \<Longrightarrow> run_safe ev c w (with_parts n text g s w)"
  "chat_safe ev c w (f s w) \<Longrightarrow> run_safe ev c w (done_with f s w)"
  by (auto simp: with_int_def with_date_def with_parts_def done_with_def intro!: chat_intros split: sum.splits)

lemma dispatch_action_safe:
  assumes "dispatch_action ev c a = Some handler"
  shows "run_safe ev c w (handler s w)"
  using assms unfolding dispatch_action_def
  by (simp split: if_split_asm; clarify; intro chat_intros leaves_others_refl)

lemma handle_action_id_safe [chat_intros]:
  "run_safe ev c w (handle_action_id ev c a s w)"
proof (cases "dispatch_action ev c a")
  case (Some handler)
  have "run_safe ev c w (handler s w)" by (rule dispatch_action_safe [OF Some])
  then show ?thesis
    by (cases "handler s w") (auto simp: handle_action_id_def Some chat_safe_def
        intro!: stale_action_response_safe [unfolded chat_safe_def] split: sum.splits)
qed (auto simp: handle_action_id_def intro!: chat_intros)

lemma route_message_safe:
  "run_safe ev c w (route_message ev c m s w)"
  by (auto simp: route_message_def Let_def intro!: chat_intros)

section \<open>A message, from the log to the answers\<close>

text \<open>A message of this id has been logged.\<close>

definition received :: "string \<Rightarrow> world \<Rightarrow> bool" where
  "received external_id w \<longleftrightarrow> message_log_get_by_external_id CH_WHATSAPP MSG_INBOUND external_id w \<noteq> None"

lemma received_iff:
  "received x w \<longleftrightarrow> (\<exists>l \<in> set (message_logs w). msg_channel l = CH_WHATSAPP \<and> msg_direction l = MSG_INBOUND \<and>
     msg_external_message_id l = Some x)"
  by (auto simp: received_def message_log_get_by_external_id_def find_None_iff)

lemma log_inbound:
  assumes "msg_channel l = CH_WHATSAPP" "msg_direction l = MSG_INBOUND" "msg_external_message_id l = Some x"
  shows "message_log_create ev l w =
    (if received x w then Inl (IntegrityError ''uq_message_logs_channel_direction_external'')
     else let l' = l\<lparr>msg_id := tbl_fresh msg_id (message_logs w), msg_created_at := now ev\<rparr> in
       Inr (l', w\<lparr>message_logs := message_logs w @ [l']\<rparr>))"
proof -
  have "message_log_violates (message_logs w) (l\<lparr>msg_id := i, msg_created_at := t\<rparr>) =
      (if received x w then Some ''uq_message_logs_channel_direction_external'' else None)" for i t
    unfolding message_log_violates_def received_iff using assms by simp
  then show ?thesis by (simp add: message_log_create_def db_insert_def Let_def)
qed

lemma record_inbound_if_new_iff:
  assumes "record_inbound_if_new ev m w = (b, w1)"
  shows "b = (\<not> received (inb_external_message_id m) w) \<and> received (inb_external_message_id m) w1 \<and>
     (\<not> b \<longrightarrow> w1 = w) \<and> (\<exists>t. w1 = w\<lparr>message_logs := t\<rparr> \<and> set (message_logs w) \<subseteq> set t)"
proof (cases "received (inb_external_message_id m) w")
  case True
  then have "b = False \<and> w1 = w"
    using assms log_inbound [of _ "inb_external_message_id m" ev w] by (simp add: record_inbound_if_new_def)
  with True show ?thesis by (intro conjI exI [of _ "message_logs w"]) simp_all
next
  case False
  with assms log_inbound [of _ "inb_external_message_id m" ev w]
  have "b \<and> (\<exists>l. w1 = w\<lparr>message_logs := message_logs w @ [l]\<rparr> \<and> msg_channel l = CH_WHATSAPP \<and>
      msg_direction l = MSG_INBOUND \<and> msg_external_message_id l = Some (inb_external_message_id m))"
    by (auto simp: record_inbound_if_new_def Let_def split: sum.splits)
  then obtain l where l: "b" "msg_channel l = CH_WHATSAPP" "msg_direction l = MSG_INBOUND"
      "msg_external_message_id l = Some (inb_external_message_id m)" and w1: "w1 = w\<lparr>message_logs := message_logs w @ [l]\<rparr>"
    by blast
  have "received (inb_external_message_id m) w1" using l unfolding received_iff by (auto simp: w1)
  with False l(1) show ?thesis by (intro conjI exI [of _ "message_logs w @ [l]"]) (auto simp: w1)
qed

text \<open>What happens around a handler: no booking changes, and the log only grows.\<close>

definition logs_more :: "world \<Rightarrow> world \<Rightarrow> bool" where
  "logs_more w w' \<longleftrightarrow> set (message_logs w) \<subseteq> set (message_logs w') \<and> appointments w' = appointments w"

lemma logs_more_refl [simp]: "logs_more w w"
  by (simp add: logs_more_def)

lemma logs_more_trans: "logs_more w w1 \<Longrightarrow> logs_more w1 w2 \<Longrightarrow> logs_more w w2"
  by (auto simp: logs_more_def)

lemma logs_more_business: "business w' = business w \<Longrightarrow> logs_more w w'"
  by (drule business_eqD) (simp add: logs_more_def)

lemma message_log_create_logs: "message_log_create ev l w = Inr (l', w') \<Longrightarrow> logs_more w w'"
  by (auto simp: message_log_create_def db_insert_def logs_more_def Let_def split: sum.splits option.splits)

lemma send_outbound_logs: "send_outbound ev u c i p r w = (b, w') \<Longrightarrow> logs_more w w'"
proof -
  have "logs_more w w1 \<Longrightarrow> logs_more w (increment_counter n w1)" for w1 n
    by (simp add: logs_more_def)
  moreover have "message_log_create ev l (record_event ev e (increment_counter n w)) = Inr (l', w1) \<Longrightarrow> logs_more w w1" for l e n l' w1
    by (drule message_log_create_logs) (simp add: logs_more_def)
  moreover have "logs_more w (record_event ev e (increment_counter n w))" for e n
    by (simp add: logs_more_def)
  moreover assume "send_outbound ev u c i p r w = (b, w')"
  ultimately show ?thesis
    by (auto simp: send_outbound_def Let_def dest: message_log_create_logs split: sum.splits)
qed

lemma send_outbound_messages_logs:
  "send_outbound_messages ev u c i p rs w = (n, w') \<Longrightarrow> logs_more w w'"
  by (induction rs arbitrary: n w)
    (auto simp: Let_def dest!: send_outbound_logs intro: logs_more_trans split: prod.splits if_splits)

lemma resolve_customer_logs: "resolve_customer u w = (r, w') \<Longrightarrow> logs_more w w'"
  by (auto simp: resolve_customer_def logs_more_def write_defs split: option.splits sum.splits)

lemma resolve_customer_unlogged: "fst (resolve_customer u (w\<lparr>message_logs := t\<rparr>)) = fst (resolve_customer u w)"
  by (simp add: resolve_customer_def identity_get_by_channel_external_user_def customer_get_def
      customer_get_by_phone_normalized_def write_defs split: option.split sum.split)

lemma ensure_identity_logs: "logs_more w (ensure_identity c u w)"
  by (auto simp: ensure_identity_def logs_more_def identity_create_def split: option.splits sum.splits)

lemma get_or_create_state_logs: "get_or_create_state ev c u w = Inr (s, w') \<Longrightarrow> logs_more w w'"
  by (auto simp: get_or_create_state_def logs_more_def write_defs Let_def split: option.splits sum.splits)

lemma is_rate_limit_allowed_logs: "is_rate_limit_allowed ev c u w = (r, w') \<Longrightarrow> logs_more w w'"
proof (rule logs_more_business)
  have c: "check ev policy key w = (d, w1) \<Longrightarrow> business w1 = business w" for policy key d w1
    using business_check [of ev policy key w] by simp
  show "is_rate_limit_allowed ev c u w = (r, w') \<Longrightarrow> business w' = business w"
    by (auto simp: is_rate_limit_allowed_def Let_def dest!: c split: sum.splits prod.splits if_splits)
qed

lemma logs_more_leaves: "logs_more w w' \<Longrightarrow> leaves_others ev c w w'"
  by (simp add: logs_more_def leaves_others_def)

lemma answer_customer_effect:
  assumes "answer_customer ev c m w = Some (r, w')"
  shows "leaves_others ev c w w' \<and> (\<forall>s ms. r = Inr (s, ms) \<longrightarrow> (\<forall>x \<in> set ms. message_ok x))"
proof -
  let ?u = "inb_external_user_id m"
  let ?w1 = "ensure_identity c ?u w"
  have w1: "logs_more w ?w1" by (rule ensure_identity_logs)
  show ?thesis
  proof (cases "get_or_create_state ev c ?u ?w1")
    case (Inl e)
    then have "w' = ?w1 \<and> r = Inl e" using assms by (auto simp: answer_customer_def Let_def)
    then show ?thesis using logs_more_leaves [OF w1] by simp
  next
    case (Inr p)
    then obtain s w2 where s: "get_or_create_state ev c ?u ?w1 = Inr (s, w2)" by (cases p) simp
    obtain b w3 where b: "is_rate_limit_allowed ev c ?u w2 = (b, w3)" by fastforce
    have w3: "leaves_others ev c w w3"
      using logs_more_trans [OF logs_more_trans [OF w1 get_or_create_state_logs [OF s]] is_rate_limit_allowed_logs [OF b]]
      by (rule logs_more_leaves)
    show ?thesis
    proof (cases "b = Inr True")
      case True
      obtain out s' where rt: "route_message ev c m s w3 = Some (out, s', w')" 
        and r: "r = (case out of Inl e \<Rightarrow> Inl e | Inr ms \<Rightarrow> Inr (s', ms))"
        using assms s b True by (fastforce simp: answer_customer_def Let_def split: sum.splits)
      have "chat_safe ev c w3 (out, s', w')" using route_message_safe [of ev c w3 m s] by (simp add: rt)
      then have "leaves_others ev c w3 w'" and "out = Inr ms \<Longrightarrow> \<forall>x \<in> set ms. message_ok x" for ms
        by (auto simp: chat_safe_def)
      with leaves_others_trans [OF w3] show ?thesis by (cases out) (auto simp: r)
    next
      case False
      then show ?thesis
        using assms s b w3 by (auto simp: answer_customer_def Let_def text_message_ok split: sum.splits if_splits bool.splits)
    qed
  qed
qed

text \<open>The customer a message is answered for.\<close>

definition sender :: "inbound_message \<Rightarrow> world \<Rightarrow> customer option" where
  "sender m w = (case fst (resolve_customer (inb_external_user_id m) w) of Inr r \<Rightarrow> r | Inl _ \<Rightarrow> None)"

lemma process_message_effect:
  assumes "process_message ev m s w = Some (r, w')"
  shows "received (inb_external_message_id m) w' \<and>
    (logs_more w w' \<or> (\<exists>c. sender m w = Some c \<and> leaves_others ev c w w'))"
proof -
  let ?u = "inb_external_user_id m" and ?x = "inb_external_message_id m"
  obtain b w1 where b: "record_inbound_if_new ev m w = (b, w1)" by fastforce
  from record_inbound_if_new_iff [OF b] obtain t where rec: "received ?x w1" and same: "\<not> b \<Longrightarrow> w1 = w"
    and t: "w1 = w\<lparr>message_logs := t\<rparr>" "set (message_logs w) \<subseteq> set t" by blast
  have w1: "logs_more w w1" using t by (simp add: logs_more_def)
  have keep: "received ?x v" if "set (message_logs w1) \<subseteq> set (message_logs v)" for v
    using rec that unfolding received_iff by blast
  obtain q w2 where q: "resolve_customer ?u w1 = (q, w2)" by fastforce
  have w2: "logs_more w1 w2" by (rule resolve_customer_logs [OF q])
  have who: "fst (resolve_customer ?u w) = q" using resolve_customer_unlogged [of ?u t w] q t(1) by simp
  show ?thesis
  proof (cases b)
    case False
    then have "w' = w1" using assms b by (auto simp: process_message_def)
    with rec w1 show ?thesis by simp
  next
    case True
    show ?thesis
    proof (cases "\<exists>c. q = Inr (Some c)")
      case False
      then have "logs_more w2 w'"
        using assms b True q
        by (auto simp: process_message_def Let_def dest: send_outbound_logs split: sum.splits option.splits prod.splits)
      then have "logs_more w1 w'" using logs_more_trans w2 by blast
      then show ?thesis using keep logs_more_trans [OF w1] by (auto simp: logs_more_def)
    next
      case Cust: True
      then obtain c where c: "q = Inr (Some c)" by blast
      obtain a w3 where a: "answer_customer ev c m w2 = Some (a, w3)" and w': "logs_more w3 w'"
        using assms b True q c
        by (auto simp: process_message_def Let_def dest: send_outbound_messages_logs split: option.splits sum.splits prod.splits)
      have l: "leaves_others ev c w1 w'"
        using leaves_others_trans [OF logs_more_leaves [OF w2]
            leaves_others_trans [OF conjunct1 [OF answer_customer_effect [OF a]] logs_more_leaves [OF w']]] .
      then have "received ?x w'" by (intro keep) (simp add: leaves_others_def)
      moreover have "sender m w = Some c" by (simp add: sender_def who c)
      moreover have "leaves_others ev c w w'" by (rule leaves_others_trans [OF logs_more_leaves [OF w1] l])
      ultimately show ?thesis by blast
    qed
  qed
qed

lemma process_messages_effect:
  assumes "process_messages ev ms s w = Some (Inr s', w')"
  shows "set (message_logs w) \<subseteq> set (message_logs w') \<and> (\<forall>m \<in> set ms. received (inb_external_message_id m) w')"
  using assms
proof (induction ms arbitrary: s w)
  case (Cons m ms)
  then obtain s1 w1 where one: "process_message ev m s w = Some (Inr s1, w1)"
    and rest: "process_messages ev ms s1 w1 = Some (Inr s', w')"
    by (auto split: option.splits sum.splits)
  have "set (message_logs w) \<subseteq> set (message_logs w1)" "received (inb_external_message_id m) w1"
    using process_message_effect [OF one] by (auto simp: logs_more_def leaves_others_def)
  moreover note Cons.IH [OF rest]
  ultimately show ?case unfolding received_iff by auto
qed simp

lemma received_is_duplicate:
  "received (inb_external_message_id m) w \<Longrightarrow>
     process_message ev m s w = Some (Inr (s\<lparr>wpr_duplicate_messages := wpr_duplicate_messages s + 1\<rparr>), w)"
proof -
  assume r: "received (inb_external_message_id m) w"
  obtain b w1 where b: "record_inbound_if_new ev m w = (b, w1)" by fastforce
  have "b = False" "w1 = w" using record_inbound_if_new_iff [OF b] r by blast+
  with b show ?thesis by (simp add: process_message_def)
qed

section \<open>Properties\<close>

text \<open>
  C15. A delivery that the provider repeats has no effect: when a batch of messages was processed,
  processing it again, in whatever order, with whatever gateway answers, counts duplicates and leaves
  the whole world as it was, so that no booking is made, cancelled or moved twice.
\<close>

theorem redelivery_ignored:
  assumes "process_messages ev ms s w = Some (Inr s', w')" and "set again \<subseteq> set ms"
  shows "process_messages ev' again s2 w' =
    Some (Inr (s2\<lparr>wpr_duplicate_messages := wpr_duplicate_messages s2 + int (length again)\<rparr>), w')"
proof -
  have "\<forall>m \<in> set again. received (inb_external_message_id m) w'"
    using process_messages_effect [OF assms(1)] assms(2) by blast
  then show ?thesis
    by (induction again arbitrary: s2) (simp_all add: received_is_duplicate algebra_simps)
qed

text \<open>A customer who greets, and one who confirms a cancellation.\<close>

definition sample_message :: "string \<Rightarrow> string option \<Rightarrow> string option \<Rightarrow> inbound_message" where
  "sample_message i body action =
     \<lparr>inb_external_message_id = i, inb_external_user_id = ''994501112233'', inb_external_chat_id = None,
      inb_message_type = (if action = None then IN_TEXT else IN_BUTTON_REPLY),
      inb_text_body = body, inb_action_id = action, inb_action_title = None,
      inb_timestamp = None, inb_raw_payload = JObj []\<rparr>"

theorem redelivery_ignored_witness:
  "\<exists>s' w'. process_messages sample_env [sample_message ''m1'' (Some ''hi'') None] no_messages sample_world = Some (Inr s', w') \<and>
     process_messages sample_env [sample_message ''m1'' (Some ''hi'') None, sample_message ''m1'' (Some ''hi'') None]
       no_messages w' = Some (Inr (no_messages\<lparr>wpr_duplicate_messages := 2\<rparr>), w')"
proof -
  let ?m = "sample_message ''m1'' (Some ''hi'') None"
  have "case process_messages sample_env [?m] no_messages sample_world of Some (Inr s', w') \<Rightarrow> True | _ \<Rightarrow> False"
    by code_simp
  then obtain s' w' where "process_messages sample_env [?m] no_messages sample_world = Some (Inr s', w')"
    by (auto split: option.splits sum.splits)
  with redelivery_ignored [OF this, of "[?m, ?m]" sample_env no_messages] show ?thesis
    by (simp add: no_messages_def)
qed

text \<open>
  C11. A message touches no booking but its sender's own: a row that is no longer as it was belonged
  to the customer the sending number resolves to, held a slot, and lay in the future, whatever the
  message asks for and however its processing ends.
\<close>

theorem message_touches_own_bookings:
  assumes "process_message ev m s w = Some (r, w')" and "tbl_ok apt_id (appointments w)"
    and "a \<in> set (appointments w)" and "a \<notin> set (appointments w')"
  shows "\<exists>c. sender m w = Some c \<and> apt_customer_id a = cust_id c \<and> is_blocking a \<and> now ev \<le> apt_start_datetime a"
  using process_message_effect [OF assms(1)] assms(2-4)
  by (auto simp: logs_more_def leaves_others_def manageable_def)

theorem message_touches_own_bookings_witness:
  "\<exists>c. sender (sample_message ''m2'' None (Some ''confirm_cancel:yes:1'')) booked_world = Some c \<and>
     apt_customer_id sample_appointment = cust_id c \<and> is_blocking sample_appointment \<and> now sample_env \<le> apt_start_datetime sample_appointment"
proof -
  let ?m = "sample_message ''m2'' None (Some ''confirm_cancel:yes:1'')"
  have "case process_message sample_env ?m no_messages booked_world of
      Some (r, w') \<Rightarrow> sample_appointment \<notin> set (appointments w') | None \<Rightarrow> False"
    by code_simp
  then obtain r w' where "process_message sample_env ?m no_messages booked_world = Some (r, w')"
    and "sample_appointment \<notin> set (appointments w')"
    by (auto split: option.splits)
  then show ?thesis
    by (intro message_touches_own_bookings [of sample_env ?m no_messages booked_world r w'])
      (simp_all add: booked_world_def tbl_ok_def)
qed

text \<open>
  C22. Every answer the conversation gives is one the provider accepts: at most three buttons, at most
  ten sections of at most ten rows and never an empty one, every title and description within its
  limit, whatever the names in the catalogue are.
\<close>

theorem answers_well_formed:
  "pred_option (\<lambda>(out, state, w'). case out of Inl e \<Rightarrow> True | Inr ms \<Rightarrow> list_all message_ok ms) (route_message ev c m state w)"
  using route_message_safe [of ev c w m state]
  by (cases "route_message ev c m state w") (auto simp: chat_safe_def list_all_iff split: sum.splits)

end
