(* ===== verification/Chat_Booking.thy ===== *)
theory Chat_Booking
  imports Conversation
begin

text \<open>
  A booking over the conversation: the customer chooses one of the offered slots and confirms it.
  The confirmation looks the slot up again under the date in the context, which the choice has
  replaced by the slot's UTC date.  Where that is the date the slot was listed under the booking
  is made; where it is not, the slot is never found again.
\<close>

section \<open>The schedule does not read the conversations\<close>

lemma conversations_fields:
  "provider_services (w\<lparr>conversation_states := cs\<rparr>) = provider_services w" "services (w\<lparr>conversation_states := cs\<rparr>) = services w"
  "providers (w\<lparr>conversation_states := cs\<rparr>) = providers w" "appointments (w\<lparr>conversation_states := cs\<rparr>) = appointments w"
  "availabilities (w\<lparr>conversation_states := cs\<rparr>) = availabilities w"
  "date_overrides (w\<lparr>conversation_states := cs\<rparr>) = date_overrides w"
  "payments (w\<lparr>conversation_states := cs\<rparr>) = payments w" "customers (w\<lparr>conversation_states := cs\<rparr>) = customers w"
  by simp_all

lemma readers_conversations [simp]:
  "service_list a b c (w\<lparr>conversation_states := cs\<rparr>) = service_list a b c w"
  "service_get_by_ids ids (w\<lparr>conversation_states := cs\<rparr>) = service_get_by_ids ids w"
  "service_get sid (w\<lparr>conversation_states := cs\<rparr>) = service_get sid w"
  "provider_get p (w\<lparr>conversation_states := cs\<rparr>) = provider_get p w"
  "location_get l (w\<lparr>conversation_states := cs\<rparr>) = location_get l w"
  "organization_get o' (w\<lparr>conversation_states := cs\<rparr>) = organization_get o' w"
  "appointment_get i (w\<lparr>conversation_states := cs\<rparr>) = appointment_get i w"
  "provider_location_get p l (w\<lparr>conversation_states := cs\<rparr>) = provider_location_get p l w"
  "provider_service_get p sid (w\<lparr>conversation_states := cs\<rparr>) = provider_service_get p sid w"
  "service_location_get sid l (w\<lparr>conversation_states := cs\<rparr>) = service_location_get sid l w"
  "active_availabilities p (w\<lparr>conversation_states := cs\<rparr>) = active_availabilities p w"
  "active_overrides p sd ed (w\<lparr>conversation_states := cs\<rparr>) = active_overrides p sd ed w"
  "time_off_list_by_provider p r r' (w\<lparr>conversation_states := cs\<rparr>) = time_off_list_by_provider p r r' w"
  "appointment_list_blocking_for_provider p r r' ex (w\<lparr>conversation_states := cs\<rparr>) = appointment_list_blocking_for_provider p r r' ex w"
  by (simp_all only: service_list_def conversations_fields) (simp_all add: service_get_by_ids_def service_get_def
      provider_get_def location_get_def organization_get_def appointment_get_def provider_location_get_def
      provider_service_get_def service_location_get_def active_availabilities_def availability_list_by_provider_def
      active_overrides_def date_override_list_by_provider_def time_off_list_by_provider_def
      appointment_list_blocking_for_provider_def)

lemma searches_conversations [simp]:
  "resolve_service_timing p l s b b' (w\<lparr>conversation_states := cs\<rparr>) = resolve_service_timing p l s b b' w"
  "provider_timezone prov (w\<lparr>conversation_states := cs\<rparr>) = provider_timezone prov w"
  "search_blocked_intervals p r0 r1 (w\<lparr>conversation_states := cs\<rparr>) = search_blocked_intervals p r0 r1 w"
  by (simp_all only: resolve_service_timing_def provider_timezone_def search_blocked_intervals_def
      list_relevant_blocking_appointments_def max_provider_buffers_def build_service_buffer_lookup_def readers_conversations)

lemma slots_conversations [simp]:
  "get_available_slots ev p l sd ed s (w\<lparr>conversation_states := cs\<rparr>) = get_available_slots ev p l sd ed s w"
  "list_visible_slots ev p sid l d (w\<lparr>conversation_states := cs\<rparr>) = list_visible_slots ev p sid l d w"
  by (simp_all only: list_visible_slots_def get_available_slots_def readers_conversations searches_conversations)

lemma conversations_frame [simp]:
  "schedule_ok (w\<lparr>conversation_states := cs\<rparr>) = schedule_ok w" "fresh_tokens ev (w\<lparr>conversation_states := cs\<rparr>) = fresh_tokens ev w"
  "slot_query ev (w\<lparr>conversation_states := cs\<rparr>) p l s z timing = slot_query ev w p l s z timing"
  "customers_ok (w\<lparr>conversation_states := cs\<rparr>) = customers_ok w" "references_ok (w\<lparr>conversation_states := cs\<rparr>) = references_ok w"
  "validate_booking_entities payload (w\<lparr>conversation_states := cs\<rparr>) = validate_booking_entities payload w"
  by (simp_all only: schedule_ok_def times_ok_def still_assigned_def fresh_tokens_def slot_query_def catalogue_ok_def
      customers_ok_def references_ok_def validate_booking_entities_def conversations_fields readers_conversations searches_conversations)

section \<open>Choosing a slot\<close>

text \<open>A zone of a fixed offset of whole seconds.\<close>

definition fixed_zone :: "int \<Rightarrow> zone" where
  "fixed_zone k = \<lparr>offset_of_local = (\<lambda>_. k), offset_of_instant = (\<lambda>_. k)\<rparr>"

lemma fixed_zone_regular: "zone_regular (fixed_zone k) sd ed"
  by (simp add: zone_regular_def fixed_zone_def local_to_utc_def combine_def algebra_simps Let_def)

lemma bookable_local_date:
  assumes "schedule_ok w" and "timing_ok timing" and "bookable w p (fixed_zone k) timing d x"
  shows "local_date (fixed_zone k) (slot_start_datetime x) = d"
proof -
  from assms(3) obtain s e where win: "(Some s, Some e) \<in> provider_windows w p d"
    and g: "on_grid timing (local_to_utc (fixed_zone k) d s + buffer_before_minutes timing * minute_us) x"
    and b: "block_end timing x \<le> local_to_utc (fixed_zone k) d e"
    by (auto simp: bookable_def)
  have t: "0 \<le> s" "e < day_us"
    using provider_window_times [OF _ win] assms(1) by (simp_all add: schedule_ok_def time_ok_def)
  have "local_to_utc (fixed_zone k) d s \<le> slot_start_datetime x"
    using on_grid_start [OF assms(2) g] assms(2) by (simp add: timing_ok_def minute_us_def)
  moreover have "slot_start_datetime x \<le> local_to_utc (fixed_zone k) d e"
    using b on_grid_end [OF g] assms(2) by (simp add: block_end_def timing_ok_def minute_us_def)
  ultimately have "d * day_us \<le> slot_start_datetime x + k" "slot_start_datetime x + k < (d + 1) * day_us"
    using t by (simp_all add: local_to_utc_def fixed_zone_def combine_def algebra_simps)
  then show ?thesis by (simp add: local_date_def fixed_zone_def day_us_def)
qed

lemma listed_local_date:
  assumes ok: "schedule_ok w" and q: "slot_query ev w p l (Some s) (fixed_zone k) timing"
    and v: "list_visible_slots ev p s l d w = Some (Inr slots)" "x \<in> set slots"
  shows "local_date (fixed_zone k) (slot_start_datetime x) = d \<and> now ev < slot_start_datetime x"
proof -
  from v obtain all where g: "get_available_slots ev p l d d (Some s) w = Some (Inr all)" and x: "x \<in> set all" "now ev < slot_start_datetime x"
    by (auto simp: list_visible_slots_def split: option.splits sum.splits)
  have "timing_ok timing" using q ok resolve_service_timing_ok by (auto simp: slot_query_def schedule_ok_def)
  moreover have "bookable w p (fixed_zone k) timing d x"
    using get_available_slots_bookable [OF ok fixed_zone_regular q g] x by auto
  ultimately show ?thesis using bookable_local_date [OF ok] x by blast
qed

lemma saved_Inr:
  "saved ev s s' w ms = (Inr ms', s1, w1) \<Longrightarrow>
     ms' = ms \<and> s1 = s'\<lparr>cst_last_interaction_at := now ev\<rparr> \<and> (\<exists>t. w1 = w\<lparr>conversation_states := t\<rparr>)"
  by (auto simp: saved_def conversation_update_def Let_def split: sum.splits)

definition utc_date :: "slot \<Rightarrow> date" where
  "utc_date x = slot_start_datetime x div day_us"

text \<open>The choice keeps the selection and puts the slot's UTC date in the place of the chosen date.\<close>

lemma slot_selection_state:
  assumes "resolve_slot_from_state ev s ts w = Some (Inr (Some x))"
    and "handle_booking_slot_selection ev ts s w = Some (Inr ms, s1, w1)"
    and "- 719162 \<le> utc_date x" "utc_date x \<le> 2932896"
  shows "selected_date s1 = Some (utc_date x) \<and> (\<exists>t. w1 = w\<lparr>conversation_states := t\<rparr>) \<and>
    cst_selected_provider_id s1 = cst_selected_provider_id s \<and> cst_selected_service_id s1 = cst_selected_service_id s \<and>
    cst_selected_location_id s1 = cst_selected_location_id s \<and> cst_selected_organization_id s1 = cst_selected_organization_id s"
  using assms(2) date_fromisoformat_isoformat [OF assms(3,4)]
  by (auto simp: handle_booking_slot_selection_def assms(1) selected_date_def at_step_def as_dict_def slot_date_context_def
      utc_date_def dest!: saved_Inr)

lemma resolve_slot_Some:
  assumes "resolve_slot_from_state ev s ts w = Some (Inr (Some x))"
  shows "\<exists>d p sv l slots. selected_date s = Some d \<and> cst_selected_provider_id s = Some p \<and>
    cst_selected_service_id s = Some sv \<and> cst_selected_location_id s = Some l \<and>
    list_visible_slots ev p sv l d w = Some (Inr slots) \<and> x \<in> set slots \<and> int_timestamp (slot_start_datetime x) = ts"
  using assms
  by (auto simp: resolve_slot_from_state_def find_slot_def dest!: find_mem split: option.splits sum.splits prod.splits)

lemma same_second_same_date:
  assumes "int_timestamp i = int_timestamp j" and "0 < i" and "0 < j" and "k mod second_us = 0"
  shows "local_date (fixed_zone k) i = local_date (fixed_zone k) j"
proof -
  obtain n where k: "k = second_us * n" using assms(4) by auto
  have "(i + k) div day_us = (i div second_us + n) div 86400" for i
  proof -
    have "(i + k) div day_us = (i + second_us * n) div second_us div 86400"
      by (simp add: k day_us_def second_us_def zdiv_zmult2_eq [symmetric])
    then show ?thesis by (simp add: second_us_def)
  qed
  with assms(1-3) show ?thesis by (simp add: local_date_def fixed_zone_def int_timestamp_def)
qed

lemma list_visible_slots_total: "catalogue_ok w \<Longrightarrow> list_visible_slots ev p s l d w \<noteq> None"
  using get_available_slots_total by (fastforce simp: list_visible_slots_def split: option.splits sum.splits)

text \<open>What only answers changes no booking.\<close>

lemma answer_bookings [simp]:
  "appointments (snd (snd (saved ev s s' w ms))) = appointments w"
  "appointments (snd (snd (prefixed ms r))) = appointments (snd (snd r))"
  "appointments (snd (snd (render_main_menu ev n s w))) = appointments w"
  using conversation_update_rows
  by (auto simp: saved_def prefixed_def render_main_menu_def split: sum.splits prod.splits)

lemma chat_then_bookings [simp]:
  "(\<And>s w. appointments (snd (snd (k s w))) = appointments w) \<Longrightarrow>
     appointments (snd (snd (chat_then r k))) = appointments (snd (snd r))"
  by (auto simp: chat_then_def split: sum.splits prod.splits)

lemma stale_answer_bookings [simp]: "appointments (snd (snd (stale_action_response ev s w))) = appointments w"
  by (simp add: stale_action_response_def show_menu_or_org_selection_def render_organization_selection_def Let_def
      split: option.splits)

lemma booking_completed_bookings [simp]:
  "appointments (snd (snd (booking_completed ev c o' a s w))) = appointments w"
  by (simp add: booking_completed_def Let_def)

text \<open>After the choice, a confirmation searches the slot's UTC date.\<close>

lemma confirm_after_choice:
  assumes ok: "schedule_ok w" and r: "resolve_slot_from_state ev s ts w = Some (Inr (Some x))"
    and h: "handle_booking_slot_selection ev ts s w = Some (Inr ms, s1, w1)"
    and range: "- 719162 \<le> utc_date x" "utc_date x \<le> 2932896"
    and sel: "cst_selected_provider_id s = Some p" "cst_selected_service_id s = Some sv" "cst_selected_location_id s = Some l"
    and q: "slot_query ev w p l (Some sv) (fixed_zone k) timing"
    and k: "k mod second_us = 0" and now: "0 \<le> now ev"
    and r1: "resolve_slot_from_state ev s1 ts w1 = Some (Inr (Some y))" and d: "selected_date s = Some d"
  shows "utc_date x = d"
proof -
  note c = slot_selection_state [OF r h range]
  from resolve_slot_Some [OF r] sel d obtain slots where
    x: "list_visible_slots ev p sv l d w = Some (Inr slots)" "x \<in> set slots" "int_timestamp (slot_start_datetime x) = ts"
    by auto
  from c obtain t where w1: "w1 = w\<lparr>conversation_states := t\<rparr>" by blast
  from resolve_slot_Some [OF r1] c sel obtain slots1 where
    y: "list_visible_slots ev p sv l (utc_date x) w = Some (Inr slots1)" "y \<in> set slots1" "int_timestamp (slot_start_datetime y) = ts"
    by (auto simp: w1)
  have "local_date (fixed_zone k) (slot_start_datetime x) = local_date (fixed_zone k) (slot_start_datetime y)"
    using x(3) y(3) listed_local_date [OF ok q x(1,2)] listed_local_date [OF ok q y(1,2)] now k
    by (intro same_second_same_date) auto
  then show ?thesis using listed_local_date [OF ok q x(1,2)] listed_local_date [OF ok q y(1,2)] by simp
qed

text \<open>Before a choice under its own date, and after it, the same slot is found.\<close>

lemma choice_keeps_slot:
  assumes "resolve_slot_from_state ev s ts w = Some (Inr (Some x))"
    and "handle_booking_slot_selection ev ts s w = Some (Inr ms, s1, w1)"
    and "- 719162 \<le> utc_date x" "utc_date x \<le> 2932896" and "selected_date s = Some (utc_date x)"
  shows "resolve_slot_from_state ev s1 ts w1 = Some (Inr (Some x))"
  using slot_selection_state [OF assms(1-4)] assms(1,5)
  by (auto simp: resolve_slot_from_state_def find_slot_def split: option.splits)

lemma choice_is_saved:
  assumes "resolve_slot_from_state ev s ts w = Some (Inr (Some x))" and "conversation_states w = [s]"
  shows "\<exists>ms s1 w1. handle_booking_slot_selection ev ts s w = Some (Inr ms, s1, w1)"
  by (simp add: handle_booking_slot_selection_def assms saved_def conversation_update_def db_update_def tbl_del_def
      conversation_state_violates_def at_step_def Let_def)

lemma strip_is_empty: "strip s = [] \<longleftrightarrow> (\<forall>c \<in> set s. is_space c)"
proof -
  have "set s = set (takeWhile is_space s) \<union> set (dropWhile is_space s)"
    using set_append [of "takeWhile is_space s" "dropWhile is_space s"] by simp
  then show ?thesis by (auto simp: strip_def dest: set_takeWhileD)
qed

lemma chat_booking_name: "strip (dbp_customer_name (chat_booking org l p sv c x)) \<noteq> []"
proof -
  have "\<not> is_space CHR ''W''" by code_simp
  then have "strip (''WhatsApp '' @ t) \<noteq> []" for t by (simp add: strip_is_empty)
  then show ?thesis by (simp add: chat_booking_def)
qed

lemma public_booking_row:
  assumes b: "create_public_booking ev payload ch w = Some (Inr (a, c, sm), w')"
    and ok: "catalogue_ok w" "appointments_sound w" "customers_ok w"
  shows "appointments w' = appointments w @ [a] \<and> a \<notin> set (appointments w) \<and> is_blocking a \<and>
    apt_provider_id a = dbp_provider_id payload \<and> apt_location_id a = dbp_location_id payload \<and>
    apt_service_id a = Some (dbp_service_id payload) \<and> apt_booking_channel a = ch"
proof -
  from public_booking_steps [OF b ok] obtain svc start c' w1 a' w2 where
    w1: "w1 = w\<lparr>customers := customers w1\<rparr>"
    and ca: "create_appointment ev (appointment_request payload svc c' start ch) ''customer'' None w1 = Some (Inr (a', w2))"
    and w2: "business w2 = business (w1\<lparr>appointments := appointments w @ [a']\<rparr>)"
    and new: "apt_id a' \<notin> apt_id ` set (appointments w)" and f: "finish_booking ev svc c' a' w2 = (Inr (a, c, sm), w')"
    by blast
  define cs where "cs = customers w1"
  have w1': "w1 = w\<lparr>customers := cs\<rparr>" using w1 by (simp add: cs_def)
  have "catalogue_ok w1" "appointments_sound w1" using ok by (simp_all add: w1')
  note e = create_appointment_effect [OF ca this] create_appointment_places [OF ca]
  have "a = a'" using f by (auto simp: finish_booking_def split: sum.splits prod.splits)
  moreover have "appointments w' = appointments w @ [a']"
    using finish_booking_keeps [OF f] business_eqD [OF w2] by simp
  ultimately show ?thesis using e new by (auto simp: appointment_request_def)
qed

section \<open>Properties\<close>

text \<open>
  A slot whose UTC date is not the date it was listed under cannot be booked over the
  conversation: once the customer has chosen it, the confirmation searches the slots of the UTC
  date, does not find it, and makes no booking.  West of Greenwich these are evening slots.
\<close>

theorem evening_slot_never_confirms:
  assumes "schedule_ok w" and "resolve_slot_from_state ev s ts w = Some (Inr (Some x))"
    and "handle_booking_slot_selection ev ts s w = Some (Inr ms, s1, w1)"
    and "- 719162 \<le> utc_date x" "utc_date x \<le> 2932896"
    and "cst_selected_provider_id s = Some p" "cst_selected_service_id s = Some sv" "cst_selected_location_id s = Some l"
    and "slot_query ev w p l (Some sv) (fixed_zone k) timing" and "k mod second_us = 0" and "0 \<le> now ev"
    and "selected_date s = Some d" and "utc_date x \<noteq> d"
  shows "\<exists>out s2 w2. confirm_booking ev c ts s1 w1 = Some (out, s2, w2) \<and> appointments w2 = appointments w"
proof -
  note ch = slot_selection_state [OF assms(2-5)]
  from ch obtain t where w1: "w1 = w\<lparr>conversation_states := t\<rparr>" by blast
  have "list_visible_slots ev p sv l (utc_date x) w1 \<noteq> None"
    using list_visible_slots_total assms(1) by (simp add: w1 schedule_ok_def)
  then have "resolve_slot_from_state ev s1 ts w1 \<noteq> None"
    using ch assms(6-8) by (auto simp: resolve_slot_from_state_def find_slot_def split: sum.splits)
  moreover have "resolve_slot_from_state ev s1 ts w1 \<noteq> Some (Inr (Some y))" for y
    using confirm_after_choice [OF assms(1-11) _ assms(12)] assms(13) by blast
  ultimately obtain r where r: "resolve_slot_from_state ev s1 ts w1 = Some r" "\<forall>y. r \<noteq> Inr (Some y)" by auto
  moreover have "appointments w1 = appointments w" by (simp add: w1)
  moreover have "\<exists>out s2 w2. stale_action_response ev s1 w1 = (out, s2, w2) \<and> appointments w2 = appointments w1"
    using stale_answer_bookings [of ev s1 w1] by (cases "stale_action_response ev s1 w1") simp
  ultimately show ?thesis
    by (cases r) (auto simp: confirm_booking_def raises_def split: option.splits)
qed

text \<open>The salon in New York, open from 19:00 to 21:00; the slot at 19:00 is midnight in UTC.\<close>

definition sample_choice :: conversation_state where
  "sample_choice =
     \<lparr>cst_id = 1, cst_customer_id = 1, cst_channel = CH_WHATSAPP, cst_external_user_id = Some ''994501112233'',
      cst_current_flow = Some ''booking'', cst_current_step = Some ''select_slot'', cst_selected_organization_id = Some 1,
      cst_selected_provider_id = Some 1, cst_selected_service_id = Some 1, cst_selected_location_id = Some 1,
      cst_selected_slot_start = None, cst_context_json = JObj [(''selected_date'', JStr ''1970-01-01'')],
      cst_last_interaction_at = 0\<rparr>"

definition evening_env :: env where
  "evening_env = sample_env\<lparr>zone_table := (\<lambda>_. Some (fixed_zone (- 5 * hour_us)))\<rparr>"

definition evening_world :: world where
  "evening_world = sample_world\<lparr>availabilities := [\<lparr>av_id = 1, av_provider_id = 1, av_weekday = 3,
     av_start_time = 19 * hour_us, av_end_time = 21 * hour_us, av_is_active = True\<rparr>],
     conversation_states := [sample_choice]\<rparr>"

theorem evening_slot_never_confirms_witness:
  "\<exists>ms s1 w1 out s2 w2. handle_booking_slot_selection evening_env 86400 sample_choice evening_world = Some (Inr ms, s1, w1) \<and>
     confirm_booking evening_env sample_customer 86400 s1 w1 = Some (out, s2, w2) \<and> appointments w2 = []"
proof -
  let ?x = "slot_at sample_timing (24 * hour_us)"
  have r: "resolve_slot_from_state evening_env sample_choice 86400 evening_world = Some (Inr (Some ?x))" by code_simp
  have "conversation_states evening_world = [sample_choice]" by (simp add: evening_world_def)
  from choice_is_saved [OF r this] obtain ms s1 w1 where
    h: "handle_booking_slot_selection evening_env 86400 sample_choice evening_world = Some (Inr ms, s1, w1)" by blast
  have "\<exists>out s2 w2. confirm_booking evening_env sample_customer 86400 s1 w1 = Some (out, s2, w2) \<and>
      appointments w2 = appointments evening_world"
  proof (rule evening_slot_never_confirms [OF _ _ h])
    show "resolve_slot_from_state evening_env sample_choice 86400 evening_world = Some (Inr (Some ?x))" by (rule r)
    show "schedule_ok evening_world"
      by (simp add: schedule_ok_def catalogue_ok_def times_ok_def time_ok_def still_assigned_def tbl_ok_def sample_defs
          evening_world_def duration_defs)
    show "selected_date sample_choice = Some 0" by code_simp
    show "slot_query evening_env evening_world 1 1 (Some 1) (fixed_zone (- 5 * hour_us)) sample_timing"
      by (simp add: slot_query_def sample_timing_def sample_defs evening_env_def evening_world_def provider_get_def tbl_get_def
          provider_timezone_def organization_get_def resolve_service_timing_def location_get_def
          service_get_def provider_location_get_def service_location_get_def provider_service_get_def)
  qed (simp_all add: utc_date_def slot_at_def duration_defs sample_choice_def evening_env_def sample_env_def)
  moreover have "appointments evening_world = []" by (simp add: evening_world_def sample_world_def empty_world_def)
  ultimately show ?thesis using h by auto
qed

text \<open>
  C16. A slot offered over the conversation can be booked there: if the chosen slot is listed under
  its own UTC date, which is also its date in the provider's zone, the selection belongs to a
  provider listed for the service, and the customer has a usable number, then choosing it and
  confirming it makes the booking, at that time, for the selected location, provider and service, and
  its record stays in the world that results.  The zone may have summer time, but maps no local time
  of that day before its midnight or after the next one; as for the search, the constraints of the
  tables hold, rows refer to rows that exist, the service of every appointment is still assigned to its
  provider, the random tokens are unused, and a service that requires payment has a price; the date is one Python can represent, and the
  booking's name and number have the lengths that its schema asks for.
\<close>

theorem chosen_slot_gets_booked:
  assumes ok: "schedule_ok w" "customers_ok w" "references_ok w" "fresh_tokens ev w" "appointments_sound w"
    and r: "resolve_slot_from_state ev s ts w = Some (Inr (Some x))"
    and h: "handle_booking_slot_selection ev ts s w = Some (Inr ms, s1, w1)"
    and range: "- 719162 \<le> utc_date x" "utc_date x \<le> 2932896" and d: "selected_date s = Some (utc_date x)"
    and sel: "cst_selected_provider_id s = Some p" "cst_selected_service_id s = Some sv" "cst_selected_location_id s = Some l"
      "cst_selected_organization_id s = Some org"
    and q: "slot_query ev w p l (Some sv) z timing"
    and zone: "zone_regular z (utc_date x) (utc_date x)" "local_date z (slot_start_datetime x) = utc_date x"
    and v: "validate_booking_entities (chat_booking org l p sv c x) w = Inr svc" and priced: "priced svc"
    and fields: "booking_fields_ok (chat_booking org l p sv c x)" and ph: "normalize_phone_number (cust_phone_number c) = Inr ph"
  shows "\<exists>out s2 w2 a. confirm_booking ev c ts s1 w1 = Some (out, s2, w2) \<and> appointments w2 = appointments w @ [a] \<and>
    a \<notin> set (appointments w) \<and> apt_start_datetime a = slot_start_datetime x \<and> apt_provider_id a = p \<and>
    apt_location_id a = l \<and> apt_service_id a = Some sv \<and> apt_booking_channel a = BC_WHATSAPP \<and> is_blocking a"
proof -
  let ?payload = "chat_booking org l p sv c x"
  note st = slot_selection_state [OF r h range]
  from st obtain t where w1: "w1 = w\<lparr>conversation_states := t\<rparr>" by blast
  have r1: "resolve_slot_from_state ev s1 ts w1 = Some (Inr (Some x))" by (rule choice_keeps_slot [OF r h range d])
  from resolve_slot_Some [OF r] d sel obtain slots where
    ls: "list_visible_slots ev p sv l (utc_date x) w = Some (Inr slots)" "x \<in> set slots" by auto
  then obtain all where g: "get_available_slots ev p l (utc_date x) (utc_date x) (Some sv) w = Some (Inr all)"
    and x: "x \<in> set all" "now ev < slot_start_datetime x"
    by (auto simp: list_visible_slots_def split: option.splits sum.splits)
  have sound: "schedule_ok w1" "customers_ok w1" "references_ok w1" "fresh_tokens ev w1" "appointments_sound w1"
    using ok by (simp_all add: w1 appointments_sound_def)
  have "\<exists>a c' summary w'. create_public_booking ev ?payload BC_WHATSAPP w1 = Some (Inr (a, c', summary), w') \<and>
    apt_start_datetime a = slot_start_datetime x \<and> apt_end_datetime a = slot_end_datetime x \<and>
    booking_paid_up ev svc a summary w1 w'"
    by (rule validated_slot_booking [OF sound(1-4) _ priced _ _ x zone(1,2) _ chat_booking_name, where timing = timing])
      (use v q g ph in \<open>simp_all add: w1 chat_booking_def ensure_aware_utc_def\<close>)
  then obtain a c' summary w' where b: "create_public_booking ev ?payload BC_WHATSAPP w1 = Some (Inr (a, c', summary), w')"
    and a: "apt_start_datetime a = slot_start_datetime x" by blast
  have "catalogue_ok w1" using sound(1) by (simp add: schedule_ok_def)
  note row = public_booking_row [OF b this sound(5,2)]
  obtain out s2 w2 where bc: "booking_completed ev c org a s1 w' = (out, s2, w2)" by (metis prod_cases3)
  then have "appointments w2 = appointments w'" using booking_completed_bookings [of ev c org a s1 w'] by simp
  moreover have "confirm_booking ev c ts s1 w1 = Some (out, s2, w2)"
    using st sel fields by (simp add: confirm_booking_def r1 b bc)
  ultimately show ?thesis using row a by (auto simp: w1 chat_booking_def)
qed

text \<open>The salon, where the slot at 9:00 is still free.\<close>

definition choosing_world :: world where
  "choosing_world = booked_world\<lparr>conversation_states := [sample_choice]\<rparr>"

theorem chosen_slot_gets_booked_witness:
  "\<exists>ms s1 w1 out s2 w2 a. handle_booking_slot_selection sample_env 32400 sample_choice choosing_world = Some (Inr ms, s1, w1) \<and>
     confirm_booking sample_env sample_customer 32400 s1 w1 = Some (out, s2, w2) \<and>
     appointments w2 = appointments choosing_world @ [a] \<and> apt_start_datetime a = 9 * hour_us"
proof -
  let ?x = "slot_at sample_timing (9 * hour_us)"
  let ?payload = "chat_booking 1 1 1 1 sample_customer ?x"
  have r: "resolve_slot_from_state sample_env sample_choice 32400 choosing_world = Some (Inr (Some ?x))" by code_simp
  have "conversation_states choosing_world = [sample_choice]" by (simp add: choosing_world_def)
  from choice_is_saved [OF r this] obtain ms s1 w1 where
    h: "handle_booking_slot_selection sample_env 32400 sample_choice choosing_world = Some (Inr ms, s1, w1)" by blast
  have "\<exists>out s2 w2 a. confirm_booking sample_env sample_customer 32400 s1 w1 = Some (out, s2, w2) \<and>
      appointments w2 = appointments choosing_world @ [a] \<and> a \<notin> set (appointments choosing_world) \<and>
      apt_start_datetime a = slot_start_datetime ?x \<and> apt_provider_id a = 1 \<and> apt_location_id a = 1 \<and>
      apt_service_id a = Some 1 \<and> apt_booking_channel a = BC_WHATSAPP \<and> is_blocking a"
  proof (rule chosen_slot_gets_booked [OF _ _ _ _ _ _ h])
    show "resolve_slot_from_state sample_env sample_choice 32400 choosing_world = Some (Inr (Some ?x))" by (rule r)
    show "schedule_ok choosing_world" "references_ok choosing_world"
      using sample_schedule_ok booked_world_sound by (simp_all add: choosing_world_def books_sound_def)
    show "appointments_sound choosing_world"
      using booked_world_sound by (simp add: choosing_world_def books_sound_def appointments_sound_def)
    show "customers_ok choosing_world" "fresh_tokens sample_env choosing_world" by code_simp+
    show "selected_date sample_choice = Some (utc_date ?x)" by code_simp
    show "slot_query sample_env choosing_world 1 1 (Some 1) sample_zone sample_timing"
      using sample_slot_query by (simp add: choosing_world_def)
    show "zone_regular sample_zone (utc_date ?x) (utc_date ?x)" by (rule sample_zone_regular)
    show "local_date sample_zone (slot_start_datetime ?x) = utc_date ?x" by code_simp
    show "validate_booking_entities ?payload choosing_world = Inr sample_service" by code_simp
    show "priced sample_service"
      unfolding priced_def by (intro impI exI [of _ 1000] exI [of _ "''USD''"] conjI; code_simp)
    show "booking_fields_ok ?payload" by code_simp
    show "normalize_phone_number (cust_phone_number sample_customer) = Inr ''+994501112233''" by code_simp
  qed (simp_all add: utc_date_def slot_at_def duration_defs sample_choice_def)
  then show ?thesis using h by (auto simp: slot_at_def)
qed

end
