(* ===== verification/Catalogue.thy ===== *)
theory Catalogue
  imports Schedule_Admin Access
begin

text \<open>
  The catalogue a salon's staff keeps: organizations, members, locations, providers, services and
  the assignments between them, as written by \<^verbatim>\<open>api/routers/organizations.py\<close>,
  \<^verbatim>\<open>organization_members.py\<close>, \<^verbatim>\<open>locations.py\<close>, \<^verbatim>\<open>providers.py\<close> and
  \<^verbatim>\<open>services.py\<close> through their repositories.  An endpoint takes the caller (an active user)
  and the world, and answers a row or an exception with the world that was committed, as most of
  them commit more than once.  A field of a PATCH body is absent, null or a value.
\<close>

section \<open>Requests that commit along the way\<close>

type_synonym 'a outcome = "(exn + 'a) \<times> world"

definition require :: "'b result \<Rightarrow> world \<Rightarrow> ('b \<Rightarrow> 'a outcome) \<Rightarrow> 'a outcome" where
  "require r w k = (case r of Inl e \<Rightarrow> (Inl e, w) | Inr b \<Rightarrow> k b)"

definition commit :: "('b \<times> world) result \<Rightarrow> world \<Rightarrow> ('b \<Rightarrow> world \<Rightarrow> 'a outcome) \<Rightarrow> 'a outcome" where
  "commit r w k = (case r of Inl e \<Rightarrow> (Inl e, w) | Inr (x, w') \<Rightarrow> k x w')"

definition and_then :: "'b outcome \<Rightarrow> ('b \<Rightarrow> world \<Rightarrow> 'a outcome) \<Rightarrow> 'a outcome" where
  "and_then r k = (case r of (Inl e, w) \<Rightarrow> (Inl e, w) | (Inr x, w) \<Rightarrow> k x w)"

definition respond :: "'a \<Rightarrow> world \<Rightarrow> 'a outcome" where
  "respond x w = (Inr x, w)"

text \<open>\<^verbatim>\<open>except IntegrityError: raise HTTPException(code, detail)\<close>\<close>

definition integrity_as :: "int \<Rightarrow> string \<Rightarrow> 'a outcome \<Rightarrow> 'a outcome" where
  "integrity_as status_code detail r =
     (case r of (Inl (IntegrityError _), w) \<Rightarrow> (Inl (HTTPException status_code detail), w) | _ \<Rightarrow> r)"

definition value_error_as :: "int \<Rightarrow> 'b result \<Rightarrow> 'b result" where
  "value_error_as status_code r = (case r of Inl (ValueError m) \<Rightarrow> Inl (HTTPException status_code m) | _ \<Rightarrow> r)"

definition or_404 :: "string \<Rightarrow> 'a option \<Rightarrow> 'a result" where
  "or_404 detail x = (case x of None \<Rightarrow> Inl (HTTPException 404 detail) | Some a \<Rightarrow> Inr a)"

definition check_that :: "bool \<Rightarrow> int \<Rightarrow> string \<Rightarrow> unit result" where
  "check_that b status_code detail = (if b then Inr () else Inl (HTTPException status_code detail))"

text \<open>The value of a column that is not nullable after a PATCH; null is caught by the database.\<close>

definition patched :: "'a option option \<Rightarrow> 'a \<Rightarrow> 'a" where
  "patched u current = (case u of Some (Some v) \<Rightarrow> v | _ \<Rightarrow> current)"

definition is_null :: "'a option option \<Rightarrow> bool" where
  "is_null u = (case u of Some None \<Rightarrow> True | _ \<Rightarrow> False)"

section \<open>Slugs\<close>

definition is_slug_char :: "char \<Rightarrow> bool" where
  "is_slug_char c \<longleftrightarrow> is_digit c \<or> (97 \<le> code c \<and> code c \<le> 122)"

text \<open>\<^verbatim>\<open>re.sub("[^a-z0-9]+", "-", s)\<close>; the flag tells that the last character was replaced.\<close>

fun dashed :: "bool \<Rightarrow> string \<Rightarrow> string" where
  "dashed replaced [] = []"
| "dashed replaced (c # cs) =
     (if is_slug_char c then c # dashed False cs
      else if replaced then dashed True cs else CHR ''-'' # dashed True cs)"

fun single_dashes :: "string \<Rightarrow> string" where
  "single_dashes (c # d # cs) =
     (if c = CHR ''-'' \<and> d = CHR ''-'' then single_dashes (d # cs) else c # single_dashes (d # cs))"
| "single_dashes cs = cs"

definition strip_dashes :: "string \<Rightarrow> string" where
  "strip_dashes s = rev (dropWhile (\<lambda>c. c = CHR ''-'') (rev (dropWhile (\<lambda>c. c = CHR ''-'') s)))"

definition slugify :: "string \<Rightarrow> string" where
  "slugify text =
     (let slug = single_dashes (strip_dashes (dashed False (strip (lower text)))) in
      if slug = [] then ''organization'' else slug)"

lemma slugify_examples:
  "slugify ''  The Salon & Spa! '' = ''the-salon-spa''" "slugify ''***'' = ''organization''"
  by code_simp+

definition numbered :: "string \<Rightarrow> nat \<Rightarrow> string" where
  "numbered base n = base @ ''-'' @ int_str (int n)"

lemma numbered_inj: "numbered base m = numbered base n \<longleftrightarrow> m = n"
proof
  assume "numbered base m = numbered base n"
  then have "nat_digits m = nat_digits n" by (simp add: numbered_def int_str_def)
  then have "digits_value 0 (nat_digits m) = digits_value 0 (nat_digits n)" by simp
  then show "m = n" by simp
qed simp

text \<open>
  The loop of \<^verbatim>\<open>generate_unique_slug\<close>: it tries the base, then numbered variants from 2 on,
  until one is free.  It ends as there are only finitely many slugs.
\<close>

definition taken_from :: "string list \<Rightarrow> string \<Rightarrow> nat \<Rightarrow> nat set" where
  "taken_from taken base n = {i. n \<le> i \<and> numbered base i \<in> set taken}"

lemma taken_from_finite: "finite (taken_from taken base n)"
proof (rule finite_imageD)
  show "finite (numbered base ` taken_from taken base n)"
    by (rule finite_subset [of _ "set taken"]) (auto simp: taken_from_def)
  show "inj_on (numbered base) (taken_from taken base n)" by (simp add: inj_on_def numbered_inj)
qed

lemma taken_from_Suc:
  "card (taken_from taken base n) =
     card (taken_from taken base (Suc n)) + (if numbered base n \<in> set taken then 1 else 0)"
proof -
  have "taken_from taken base n =
      (if numbered base n \<in> set taken then insert n (taken_from taken base (Suc n)) else taken_from taken base (Suc n))"
    by (auto simp: taken_from_def le_eq_less_or_eq less_Suc_eq_le Suc_le_eq)
  moreover have "n \<notin> taken_from taken base (Suc n)" by (simp add: taken_from_def)
  ultimately show ?thesis using taken_from_finite by simp
qed

function free_slug :: "string list \<Rightarrow> string \<Rightarrow> nat \<Rightarrow> string \<Rightarrow> string" where
  "free_slug taken base suffix candidate =
     (if candidate \<in> set taken then free_slug taken base (Suc suffix) (numbered base suffix) else candidate)"
  by pat_completeness auto
termination
proof (relation "measure (\<lambda>(taken, base, suffix, candidate).
      card (taken_from taken base suffix) + (if candidate \<in> set taken then 1 else 0))")
  fix taken :: "string list" and base :: string and suffix :: nat and candidate :: string
  assume "candidate \<in> set taken"
  then show "((taken, base, Suc suffix, numbered base suffix), taken, base, suffix, candidate) \<in>
      measure (\<lambda>(taken, base, suffix, candidate).
        card (taken_from taken base suffix) + (if candidate \<in> set taken then 1 else 0))"
    using taken_from_Suc [of taken base suffix] by simp
qed simp

declare free_slug.simps [simp del]

lemma free_slug_fresh: "free_slug taken base suffix candidate \<notin> set taken"
proof (induction taken base suffix candidate rule: free_slug.induct)
  case (1 taken base suffix candidate)
  then show ?case by (subst free_slug.simps) simp
qed

definition organization_generate_unique_slug :: "string \<Rightarrow> int option \<Rightarrow> world \<Rightarrow> string" where
  "organization_generate_unique_slug source exclude_organization_id w =
     (let base_slug = slugify source;
          taken = map org_slug [x \<leftarrow> organizations w. exclude_organization_id \<noteq> Some (org_id x)] in
      free_slug taken base_slug 2 base_slug)"

definition location_generate_unique_slug :: "int \<Rightarrow> string \<Rightarrow> int option \<Rightarrow> world \<Rightarrow> string" where
  "location_generate_unique_slug organization_id source exclude_location_id w =
     (let base_slug = slugify source;
          taken = map loc_slug [x \<leftarrow> locations w. loc_organization_id x = organization_id \<and>
                                                  exclude_location_id \<noteq> Some (loc_id x)] in
      free_slug taken base_slug 2 base_slug)"

section \<open>Writes of the catalogue\<close>

text \<open>A repository's \<^verbatim>\<open>update\<close> returns the row it was given.\<close>

definition saving :: "'r \<Rightarrow> world result \<Rightarrow> ('r \<times> world) result" where
  "saving r x = (case x of Inl e \<Rightarrow> Inl e | Inr w \<Rightarrow> Inr (r, w))"


definition organization_create :: "organization \<Rightarrow> string option \<Rightarrow> world \<Rightarrow> (organization \<times> world) result" where
  "organization_create r slug w =
     (let r' = r\<lparr>org_slug := organization_generate_unique_slug (str_or slug (org_name r)) None w\<rparr> in
      if \<not> organization_fits r' then Inl (DataError ''organizations'')
      else case db_insert (\<lambda>i r. r\<lparr>org_id := i\<rparr>) org_id organization_violates (organizations w) r' of
        Inl e \<Rightarrow> Inl e | Inr (r', t) \<Rightarrow> Inr (r', w\<lparr>organizations := t\<rparr>))"

definition organization_save :: "organization \<Rightarrow> world \<Rightarrow> world result" where
  "organization_save r w =
     (if \<not> organization_fits r then Inl (DataError ''organizations'')
      else case db_update org_id organization_violates (organizations w) r of
        Inl e \<Rightarrow> Inl e | Inr t \<Rightarrow> Inr (w\<lparr>organizations := t\<rparr>))"

definition organization_update :: "organization \<Rightarrow> string option option \<Rightarrow> world \<Rightarrow> (organization \<times> world) result" where
  "organization_update r slug w =
     (let r' = (case slug of
                  Some (Some s) \<Rightarrow> r\<lparr>org_slug := organization_generate_unique_slug s (Some (org_id r)) w\<rparr>
                | _ \<Rightarrow> r) in
      saving r' (organization_save r' w))"

definition location_create :: "location \<Rightarrow> string option \<Rightarrow> world \<Rightarrow> (location \<times> world) result" where
  "location_create r slug w =
     (case db_insert (\<lambda>i r. r\<lparr>loc_id := i\<rparr>) loc_id location_violates (locations w)
             (r\<lparr>loc_slug := location_generate_unique_slug (loc_organization_id r) (str_or slug (loc_name r)) None w\<rparr>) of
        Inl e \<Rightarrow> Inl e | Inr (r', t) \<Rightarrow> Inr (r', w\<lparr>locations := t\<rparr>))"

definition location_save :: "location \<Rightarrow> world \<Rightarrow> world result" where
  "location_save r w =
     (case db_update loc_id location_violates (locations w) r of
        Inl e \<Rightarrow> Inl e | Inr t \<Rightarrow> Inr (w\<lparr>locations := t\<rparr>))"

definition location_update :: "location \<Rightarrow> string option option \<Rightarrow> world \<Rightarrow> (location \<times> world) result" where
  "location_update r slug w =
     (let r' = (case slug of
                  Some (Some s) \<Rightarrow>
                    r\<lparr>loc_slug := location_generate_unique_slug (loc_organization_id r) s (Some (loc_id r)) w\<rparr>
                | _ \<Rightarrow> r) in
      saving r' (location_save r' w))"

definition provider_create :: "provider \<Rightarrow> world \<Rightarrow> (provider \<times> world) result" where
  "provider_create r w =
     (case db_insert (\<lambda>i r. r\<lparr>prov_id := i\<rparr>) prov_id provider_violates (providers w) r of
        Inl e \<Rightarrow> Inl e | Inr (r', t) \<Rightarrow> Inr (r', w\<lparr>providers := t\<rparr>))"

definition provider_update :: "provider \<Rightarrow> world \<Rightarrow> world result" where
  "provider_update r w =
     (case db_update prov_id provider_violates (providers w) r of
        Inl e \<Rightarrow> Inl e | Inr t \<Rightarrow> Inr (w\<lparr>providers := t\<rparr>))"

definition service_create :: "service \<Rightarrow> world \<Rightarrow> (service \<times> world) result" where
  "service_create r w =
     (case db_insert (\<lambda>i r. r\<lparr>svc_id := i\<rparr>) svc_id service_violates (services w) r of
        Inl e \<Rightarrow> Inl e | Inr (r', t) \<Rightarrow> Inr (r', w\<lparr>services := t\<rparr>))"

definition service_update :: "service \<Rightarrow> world \<Rightarrow> world result" where
  "service_update r w =
     (case db_update svc_id service_violates (services w) r of
        Inl e \<Rightarrow> Inl e | Inr t \<Rightarrow> Inr (w\<lparr>services := t\<rparr>))"

definition provider_service_create :: "provider_service \<Rightarrow> world \<Rightarrow> (provider_service \<times> world) result" where
  "provider_service_create r w =
     (case db_insert (\<lambda>i r. r\<lparr>ps_id := i\<rparr>) ps_id provider_service_violates (provider_services w) r of
        Inl e \<Rightarrow> Inl e | Inr (r', t) \<Rightarrow> Inr (r', w\<lparr>provider_services := t\<rparr>))"

definition provider_location_create :: "provider_location \<Rightarrow> world \<Rightarrow> (provider_location \<times> world) result" where
  "provider_location_create r w =
     (case db_insert (\<lambda>i r. r\<lparr>pl_id := i\<rparr>) pl_id provider_location_violates (provider_locations w) r of
        Inl e \<Rightarrow> Inl e | Inr (r', t) \<Rightarrow> Inr (r', w\<lparr>provider_locations := t\<rparr>))"

definition provider_location_delete :: "provider_location \<Rightarrow> world \<Rightarrow> world" where
  "provider_location_delete r w = w\<lparr>provider_locations := tbl_del pl_id (pl_id r) (provider_locations w)\<rparr>"

definition service_location_create :: "service_location \<Rightarrow> world \<Rightarrow> (service_location \<times> world) result" where
  "service_location_create r w =
     (case db_insert (\<lambda>i r. r\<lparr>sl_id := i\<rparr>) sl_id service_location_violates (service_locations w) r of
        Inl e \<Rightarrow> Inl e | Inr (r', t) \<Rightarrow> Inr (r', w\<lparr>service_locations := t\<rparr>))"

definition service_location_delete :: "service_location \<Rightarrow> world \<Rightarrow> world" where
  "service_location_delete r w = w\<lparr>service_locations := tbl_del sl_id (sl_id r) (service_locations w)\<rparr>"

definition provider_list :: "int option \<Rightarrow> world \<Rightarrow> provider list" where
  "provider_list organization_id w =
     sort_key prov_id [p \<leftarrow> providers w. case organization_id of None \<Rightarrow> True | Some i \<Rightarrow> prov_organization_id p = i]"

definition location_get_by_org_and_id :: "int \<Rightarrow> int \<Rightarrow> world \<Rightarrow> location option" where
  "location_get_by_org_and_id organization_id location_id w =
     find (\<lambda>l. loc_id l = location_id \<and> loc_organization_id l = organization_id) (locations w)"

text \<open>An assignment joined with its location; a row without one is not selected.\<close>

definition assigned_locations :: "bool \<Rightarrow> int list \<Rightarrow> world \<Rightarrow> location list" where
  "assigned_locations include_inactive ids w =
     [l \<leftarrow> List.map_filter (\<lambda>i. location_get i w) ids. include_inactive \<or> loc_is_active l]"

definition provider_location_list_by_provider :: "int \<Rightarrow> bool \<Rightarrow> world \<Rightarrow> location list" where
  "provider_location_list_by_provider provider_id include_inactive w =
     assigned_locations include_inactive
       (map pl_location_id (sort_key pl_id [x \<leftarrow> provider_locations w. pl_provider_id x = provider_id])) w"

definition service_location_list_by_service :: "int \<Rightarrow> bool \<Rightarrow> world \<Rightarrow> location list" where
  "service_location_list_by_service service_id include_inactive w =
     assigned_locations include_inactive
       (map sl_location_id (sort_key sl_id [x \<leftarrow> service_locations w. sl_service_id x = service_id])) w"

section \<open>Every table of the catalogue keeps the repository contract\<close>

lemmas catalogue_write_defs =
  organization_create_def organization_save_def location_create_def location_save_def
  provider_create_def provider_update_def service_create_def service_update_def
  provider_service_create_def provider_location_create_def service_location_create_def

interpretation organization_repo: repository org_id organizations organization_get
  "\<lambda>r. organization_create r slug" organization_save for slug
  by unfold_locales
    (auto simp: organization_get_def catalogue_write_defs Let_def split: sum.splits if_splits dest!: db_insert_rows db_update_rows)

interpretation location_repo: repository loc_id locations location_get "\<lambda>r. location_create r slug" location_save
  for slug
  by unfold_locales
    (auto simp: location_get_def catalogue_write_defs split: sum.splits dest!: db_insert_rows db_update_rows)

interpretation provider_repo: repository prov_id providers provider_get provider_create provider_update
  by unfold_locales
    (auto simp: provider_get_def catalogue_write_defs split: sum.splits dest!: db_insert_rows db_update_rows)

interpretation service_repo: repository svc_id services service_get service_create service_update
  by unfold_locales
    (auto simp: service_get_def catalogue_write_defs split: sum.splits dest!: db_insert_rows db_update_rows)

end
