(* ===== verification/Staff_Routes.thy ===== *)
theory Staff_Routes
  imports Catalogue Money
begin

text \<open>
  The endpoints with which a salon's staff keeps its catalogue: \<^verbatim>\<open>routers/organizations.py\<close>,
  \<^verbatim>\<open>organization_members.py\<close>, \<^verbatim>\<open>locations.py\<close>, \<^verbatim>\<open>providers.py\<close> and
  \<^verbatim>\<open>services.py\<close>.  \<^verbatim>\<open>current_user\<close> is what \<^verbatim>\<open>get_current_active_user\<close> returned.  The body of a
  create is the row with the columns the database fills in left unread; a body that its schema
  rejects ends in a 422.
\<close>

definition unprocessable :: "bool \<Rightarrow> unit result" where
  "unprocessable ok = check_that ok 422 ''Unprocessable entity''"

definition sized :: "nat \<Rightarrow> nat \<Rightarrow> string \<Rightarrow> bool" where
  "sized min_length max_length s \<longleftrightarrow> min_length \<le> length s \<and> length s \<le> max_length"

definition optional :: "('a \<Rightarrow> bool) \<Rightarrow> 'a option \<Rightarrow> bool" where
  "optional P x = (case x of None \<Rightarrow> True | Some v \<Rightarrow> P v)"

text \<open>A constrained field of a PATCH body: absent and null pass.\<close>

definition patch_ok :: "('a \<Rightarrow> bool) \<Rightarrow> 'a option option \<Rightarrow> bool" where
  "patch_ok P u = (case u of Some (Some v) \<Rightarrow> P v | _ \<Rightarrow> True)"

definition get_organization_or_404 :: "int \<Rightarrow> world \<Rightarrow> organization result" where
  "get_organization_or_404 organization_id w = or_404 ''Organization not found'' (organization_get organization_id w)"

definition get_provider_or_404 :: "int \<Rightarrow> world \<Rightarrow> provider result" where
  "get_provider_or_404 provider_id w = or_404 ''Provider not found'' (provider_get provider_id w)"

definition get_service_or_404 :: "int \<Rightarrow> world \<Rightarrow> service result" where
  "get_service_or_404 service_id w = or_404 ''Service not found'' (service_get service_id w)"

definition ensure_user_exists :: "int \<Rightarrow> world \<Rightarrow> user result" where
  "ensure_user_exists user_id w = or_404 ''User not found'' (user_get user_id w)"

section \<open>Organizations\<close>

record organization_update_payload =
  ogu_name :: "string option option"
  ogu_slug :: "string option option"
  ogu_business_type :: "string option option"
  ogu_city :: "string option option"
  ogu_address :: "string option option"
  ogu_timezone :: "string option option"
  ogu_is_active :: "bool option option"
  ogu_commission_type :: "commission_type option option"
  ogu_commission_percentage :: "rat option option"
  ogu_commission_fixed_minor :: "int option option"

definition organization_payload_ok :: "organization \<Rightarrow> string option \<Rightarrow> bool" where
  "organization_payload_ok r slug \<longleftrightarrow>
     sized 2 255 (org_name r) \<and> optional (sized 2 255) slug \<and> sized 2 100 (org_business_type r) \<and>
     sized 0 100 (org_city r) \<and> optional (sized 0 255) (org_address r) \<and> sized 0 64 (org_timezone r) \<and>
     0 \<le> org_commission_percentage r \<and> org_commission_percentage r \<le> 1 \<and> 0 \<le> org_commission_fixed_minor r \<and>
     validate_organization_commission_config (org_commission_type r) (Some (org_commission_percentage r))
       (Some (org_commission_fixed_minor r)) = Inr ()"

definition organization_update_payload_ok :: "organization_update_payload \<Rightarrow> bool" where
  "organization_update_payload_ok p \<longleftrightarrow>
     patch_ok (sized 2 255) (ogu_name p) \<and> patch_ok (sized 2 255) (ogu_slug p) \<and>
     patch_ok (sized 2 100) (ogu_business_type p) \<and> patch_ok (sized 0 100) (ogu_city p) \<and>
     patch_ok (sized 0 255) (ogu_address p) \<and> patch_ok (sized 0 64) (ogu_timezone p) \<and>
     patch_ok (\<lambda>p. 0 \<le> p \<and> p \<le> 1) (ogu_commission_percentage p) \<and>
     patch_ok (\<lambda>f. 0 \<le> f) (ogu_commission_fixed_minor p)"

definition create_organization :: "user \<Rightarrow> organization \<Rightarrow> string option \<Rightarrow> world \<Rightarrow> organization outcome" where
  "create_organization current_user payload slug w =
     require (unprocessable (organization_payload_ok payload slug)) w (\<lambda>_.
     commit (organization_create payload slug w) w (\<lambda>organization w1.
     commit (location_create
        \<lparr>loc_id = 0, loc_organization_id = org_id organization, loc_name = ''Main Location'', loc_slug = [],
         loc_address_line_1 = org_address organization, loc_address_line_2 = None,
         loc_city = Some (org_city organization), loc_region = None, loc_postal_code = None, loc_country = None,
         loc_timezone = Some (org_timezone organization), loc_is_active = True\<rparr>
        (Some ''main-location'') w1) w1 (\<lambda>_ w2.
     case organization_member_get_by_org_and_user (org_id organization) (usr_id current_user) w2 of
       None \<Rightarrow>
         commit (organization_member_add
           \<lparr>mem_id = 0, mem_organization_id = org_id organization, mem_user_id = usr_id current_user,
            mem_role = OWNER, mem_is_active = True\<rparr> w2) w2 (\<lambda>_ w3. respond organization w3)
     | Some existing \<Rightarrow> respond organization w2)))"

definition list_organizations :: "user \<Rightarrow> world \<Rightarrow> organization list" where
  "list_organizations current_user w =
     (if usr_is_platform_admin current_user then sort_key org_id (organizations w)
      else
       (let org_ids = organization_member_list_active_org_ids_for_user (usr_id current_user) w in
        if org_ids = [] then []
        else sort_key org_id [x \<leftarrow> organizations w. org_id x \<in> set org_ids]))"

definition get_organization :: "user \<Rightarrow> int \<Rightarrow> world \<Rightarrow> organization result" where
  "get_organization current_user organization_id w =
     (case get_organization_or_404 organization_id w of
        Inl e \<Rightarrow> Inl e
      | Inr organization \<Rightarrow>
        case require_org_membership organization_id current_user None w of
          Inl e \<Rightarrow> Inl e | Inr _ \<Rightarrow> Inr organization)"

text \<open>An explicit null type fails the validation last.\<close>

definition validate_merged_commission ::
  "commission_type option \<Rightarrow> rat option \<Rightarrow> int option \<Rightarrow> unit result" where
  "validate_merged_commission commission_type commission_percentage commission_fixed_minor =
     (case validate_organization_commission_config
             (case commission_type of None \<Rightarrow> PERCENTAGE | Some t \<Rightarrow> t) commission_percentage commission_fixed_minor of
        Inl e \<Rightarrow> Inl e
      | Inr _ \<Rightarrow> if commission_type = None then Inl (ValueError ''Unsupported commission_type.'') else Inr ())"

definition organization_patched :: "organization_update_payload \<Rightarrow> organization \<Rightarrow> organization" where
  "organization_patched p r = r
     \<lparr>org_name := patched (ogu_name p) (org_name r),
      org_business_type := patched (ogu_business_type p) (org_business_type r),
      org_city := patched (ogu_city p) (org_city r),
      org_address := target (ogu_address p) (org_address r),
      org_timezone := patched (ogu_timezone p) (org_timezone r),
      org_is_active := patched (ogu_is_active p) (org_is_active r),
      org_commission_type := patched (ogu_commission_type p) (org_commission_type r),
      org_commission_percentage := patched (ogu_commission_percentage p) (org_commission_percentage r),
      org_commission_fixed_minor := patched (ogu_commission_fixed_minor p) (org_commission_fixed_minor r)\<rparr>"

definition update_organization ::
  "user \<Rightarrow> int \<Rightarrow> organization_update_payload \<Rightarrow> world \<Rightarrow> organization outcome" where
  "update_organization current_user organization_id payload w =
     require (unprocessable (organization_update_payload_ok payload)) w (\<lambda>_.
     require (get_organization_or_404 organization_id w) w (\<lambda>organization.
     require (require_org_admin_membership organization_id current_user w) w (\<lambda>_.
     require (value_error_as 400 (validate_merged_commission
        (target (ogu_commission_type payload) (Some (org_commission_type organization)))
        (target (ogu_commission_percentage payload) (Some (org_commission_percentage organization)))
        (target (ogu_commission_fixed_minor payload) (Some (org_commission_fixed_minor organization))))) w (\<lambda>_.
     if is_null (ogu_name payload) \<or> is_null (ogu_business_type payload) \<or> is_null (ogu_city payload) \<or>
        is_null (ogu_timezone payload) \<or> is_null (ogu_is_active payload)
     then (Inl (IntegrityError ''NOT NULL organizations''), w)
     else commit (organization_update (organization_patched payload organization) (ogu_slug payload) w) w respond))))"

text \<open>
  Deleting an organization: the session deletes its members, locations, providers, services,
  appointments and payments with what hangs on them, and clears the references of the rows that
  stay, which fails where such a reference must not be null; the foreign keys of the database
  clear the rest.
\<close>

definition cleared :: "int set \<Rightarrow> int option \<Rightarrow> int option" where
  "cleared gone i = (case i of None \<Rightarrow> None | Some k \<Rightarrow> if k \<in> gone then None else Some k)"

definition organization_delete :: "organization \<Rightarrow> world \<Rightarrow> world result" where
  "organization_delete organization w =
     (let oid = org_id organization;
          locs = loc_id ` set [l \<leftarrow> locations w. loc_organization_id l = oid];
          provs = prov_id ` set [p \<leftarrow> providers w. prov_organization_id p = oid];
          svcs = svc_id ` set [s \<leftarrow> services w. svc_organization_id s = oid];
          apts = apt_id ` set [a \<leftarrow> appointments w. apt_organization_id a = oid];
          pays = pay_id ` set [p \<leftarrow> payments w. pay_organization_id p = oid \<or> pay_appointment_id p \<in> apts];
          pos = po_id ` set [p \<leftarrow> payouts w. po_provider_id p \<in> provs];
          appointments' = [a \<leftarrow> appointments w. apt_id a \<notin> apts];
          earnings' = [e \<leftarrow> earnings w. ern_provider_id e \<notin> provs \<and> ern_appointment_id e \<notin> apts] in
      if \<exists>a \<in> set appointments'. apt_location_id a \<in> locs then Inl (IntegrityError ''NOT NULL appointments.location_id'')
      else if \<exists>a \<in> set appointments'. apt_provider_id a \<in> provs then Inl (IntegrityError ''NOT NULL appointments.provider_id'')
      else if \<exists>s \<in> set (services w). svc_id s \<notin> svcs \<and> svc_provider_id s \<in> provs
      then Inl (IntegrityError ''NOT NULL services.provider_id'')
      else if \<exists>e \<in> set earnings'. ern_payment_id e \<in> pays then Inl (IntegrityError ''NOT NULL provider_earnings.payment_id'')
      else Inr (w
       \<lparr>organizations := tbl_del org_id oid (organizations w),
        organization_members := [m \<leftarrow> organization_members w. mem_organization_id m \<noteq> oid],
        locations := [l \<leftarrow> locations w. loc_id l \<notin> locs],
        providers := [p \<leftarrow> providers w. prov_id p \<notin> provs],
        services := [s \<leftarrow> services w. svc_id s \<notin> svcs],
        provider_services := [x \<leftarrow> provider_services w. ps_provider_id x \<notin> provs \<and> ps_service_id x \<notin> svcs],
        provider_locations := [x \<leftarrow> provider_locations w. pl_provider_id x \<notin> provs \<and> pl_location_id x \<notin> locs],
        service_locations := [x \<leftarrow> service_locations w. sl_service_id x \<notin> svcs \<and> sl_location_id x \<notin> locs],
        availabilities := [x \<leftarrow> availabilities w. av_provider_id x \<notin> provs],
        date_overrides := [x \<leftarrow> date_overrides w. ov_provider_id x \<notin> provs],
        time_offs := [x \<leftarrow> time_offs w. off_provider_id x \<notin> provs],
        appointments := map (\<lambda>a. a\<lparr>apt_service_id := cleared svcs (apt_service_id a)\<rparr>) appointments',
        payments := [p \<leftarrow> payments w. pay_id p \<notin> pays],
        refunds := [r \<leftarrow> refunds w. rf_payment_id r \<notin> pays],
        earnings := map (\<lambda>e. e\<lparr>ern_payout_id := cleared pos (ern_payout_id e)\<rparr>) earnings',
        payouts := [p \<leftarrow> payouts w. po_id p \<notin> pos],
        notifications := [n \<leftarrow> notifications w. ntf_appointment_id n \<notin> apts],
        message_logs := map (\<lambda>m. m\<lparr>msg_organization_id := cleared {oid} (msg_organization_id m),
                                   msg_provider_id := cleared provs (msg_provider_id m)\<rparr>) (message_logs w),
        conversation_states := map (\<lambda>c. c\<lparr>cst_selected_organization_id := cleared {oid} (cst_selected_organization_id c),
                                          cst_selected_provider_id := cleared provs (cst_selected_provider_id c),
                                          cst_selected_service_id := cleared svcs (cst_selected_service_id c),
                                          cst_selected_location_id := cleared locs (cst_selected_location_id c)\<rparr>)
                                  (conversation_states w),
        domain_events := map (\<lambda>e. e\<lparr>ev_organization_id := cleared {oid} (ev_organization_id e),
                                    ev_related_payment_id := cleared pays (ev_related_payment_id e),
                                    ev_related_appointment_id := cleared apts (ev_related_appointment_id e),
                                    ev_related_payout_id := cleared pos (ev_related_payout_id e)\<rparr>)
                            (domain_events w)\<rparr>))"

definition delete_organization :: "user \<Rightarrow> int \<Rightarrow> world \<Rightarrow> unit outcome" where
  "delete_organization current_user organization_id w =
     require (get_organization_or_404 organization_id w) w (\<lambda>organization.
     require (require_org_admin_membership organization_id current_user w) w (\<lambda>_.
     commit (saving () (organization_delete organization w)) w respond))"

section \<open>Members\<close>

record member_update_payload =
  mbu_role :: "membership_role option option"
  mbu_is_active :: "bool option option"

definition add_or_reactivate_member :: "int \<Rightarrow> int \<Rightarrow> membership_role \<Rightarrow> world \<Rightarrow> organization_member outcome" where
  "add_or_reactivate_member organization_id user_id role w =
     (case organization_member_add
             \<lparr>mem_id = 0, mem_organization_id = organization_id, mem_user_id = user_id, mem_role = role,
              mem_is_active = True\<rparr> w of
        Inr (member, w') \<Rightarrow> respond member w'
      | Inl (IntegrityError _) \<Rightarrow>
        (case organization_member_get_by_org_and_user organization_id user_id w of
           None \<Rightarrow> (Inl (HTTPException 400 ''Could not add member''), w)
         | Some existing \<Rightarrow>
           (let member = existing\<lparr>mem_role := role, mem_is_active := True\<rparr> in
            commit (saving member (organization_member_update member w)) w respond))
      | Inl e \<Rightarrow> (Inl e, w))"

definition add_member_legacy ::
  "user \<Rightarrow> int \<Rightarrow> int \<Rightarrow> membership_role \<Rightarrow> world \<Rightarrow> organization_member outcome" where
  "add_member_legacy current_user organization_id user_id role w =
     require (get_organization_or_404 organization_id w) w (\<lambda>_.
     require (ensure_user_exists user_id w) w (\<lambda>_.
     require (require_org_admin_membership organization_id current_user w) w (\<lambda>_.
     add_or_reactivate_member organization_id user_id role w)))"

definition add_member :: "user \<Rightarrow> int \<Rightarrow> int \<Rightarrow> membership_role \<Rightarrow> world \<Rightarrow> organization_member outcome" where
  "add_member current_user organization_id user_id role w =
     require (get_organization_or_404 organization_id w) w (\<lambda>_.
     require (ensure_user_exists user_id w) w (\<lambda>_.
     require (require_org_admin_membership organization_id current_user w) w (\<lambda>_.
     add_or_reactivate_member organization_id user_id role w)))"

definition list_members :: "user \<Rightarrow> int \<Rightarrow> world \<Rightarrow> organization_member list result" where
  "list_members current_user organization_id w =
     (case require_org_membership organization_id current_user None w of
        Inl e \<Rightarrow> Inl e
      | Inr _ \<Rightarrow> Inr (organization_member_list_by_organization organization_id w))"

definition member_update :: "organization_member \<Rightarrow> member_update_payload \<Rightarrow> world \<Rightarrow> organization_member outcome" where
  "member_update member payload w =
     (if is_null (mbu_role payload) \<or> is_null (mbu_is_active payload)
      then (Inl (IntegrityError ''NOT NULL organization_memberships''), w)
      else
       (let member' = member\<lparr>mem_role := patched (mbu_role payload) (mem_role member),
                             mem_is_active := patched (mbu_is_active payload) (mem_is_active member)\<rparr> in
        commit (saving member' (organization_member_update member' w)) w respond))"

definition update_member_legacy ::
  "user \<Rightarrow> int \<Rightarrow> member_update_payload \<Rightarrow> world \<Rightarrow> organization_member outcome" where
  "update_member_legacy current_user member_id payload w =
     require (or_404 ''Member not found'' (organization_member_get member_id w)) w (\<lambda>member.
     require (require_org_admin_membership (mem_organization_id member) current_user w) w (\<lambda>_.
     member_update member payload w))"

definition get_member_of :: "int \<Rightarrow> int \<Rightarrow> world \<Rightarrow> organization_member result" where
  "get_member_of organization_id member_id w =
     (case organization_member_get member_id w of
        None \<Rightarrow> Inl (HTTPException 404 ''Member not found'')
      | Some member \<Rightarrow>
        if mem_organization_id member \<noteq> organization_id then Inl (HTTPException 404 ''Member not found'')
        else Inr member)"

definition update_member ::
  "user \<Rightarrow> int \<Rightarrow> int \<Rightarrow> member_update_payload \<Rightarrow> world \<Rightarrow> organization_member outcome" where
  "update_member current_user organization_id member_id payload w =
     require (get_member_of organization_id member_id w) w (\<lambda>member.
     require (require_org_admin_membership organization_id current_user w) w (\<lambda>_.
     member_update member payload w))"

definition member_deactivate :: "organization_member \<Rightarrow> world \<Rightarrow> organization_member outcome" where
  "member_deactivate member w =
     (let member' = member\<lparr>mem_is_active := False\<rparr> in
      commit (saving member' (organization_member_update member' w)) w respond)"

definition deactivate_member_legacy :: "user \<Rightarrow> int \<Rightarrow> world \<Rightarrow> organization_member outcome" where
  "deactivate_member_legacy current_user member_id w =
     require (or_404 ''Member not found'' (organization_member_get member_id w)) w (\<lambda>member.
     require (require_org_admin_membership (mem_organization_id member) current_user w) w (\<lambda>_.
     member_deactivate member w))"

definition deactivate_member :: "user \<Rightarrow> int \<Rightarrow> int \<Rightarrow> world \<Rightarrow> organization_member outcome" where
  "deactivate_member current_user organization_id member_id w =
     require (get_member_of organization_id member_id w) w (\<lambda>member.
     require (require_org_admin_membership organization_id current_user w) w (\<lambda>_.
     member_deactivate member w))"

section \<open>Locations\<close>

record location_update_payload =
  lou_name :: "string option option"
  lou_slug :: "string option option"
  lou_address_line_1 :: "string option option"
  lou_address_line_2 :: "string option option"
  lou_city :: "string option option"
  lou_region :: "string option option"
  lou_postal_code :: "string option option"
  lou_country :: "string option option"
  lou_timezone :: "string option option"
  lou_is_active :: "bool option option"

definition location_payload_ok :: "location \<Rightarrow> string option \<Rightarrow> bool" where
  "location_payload_ok r slug \<longleftrightarrow>
     sized 2 255 (loc_name r) \<and> optional (sized 2 255) slug \<and> optional (sized 0 255) (loc_address_line_1 r) \<and>
     optional (sized 0 255) (loc_address_line_2 r) \<and> optional (sized 0 100) (loc_city r) \<and>
     optional (sized 0 100) (loc_region r) \<and> optional (sized 0 32) (loc_postal_code r) \<and>
     optional (sized 0 100) (loc_country r) \<and> optional (sized 0 64) (loc_timezone r)"

definition location_update_payload_ok :: "location_update_payload \<Rightarrow> bool" where
  "location_update_payload_ok p \<longleftrightarrow>
     patch_ok (sized 2 255) (lou_name p) \<and> patch_ok (sized 2 255) (lou_slug p) \<and>
     patch_ok (sized 0 255) (lou_address_line_1 p) \<and> patch_ok (sized 0 255) (lou_address_line_2 p) \<and>
     patch_ok (sized 0 100) (lou_city p) \<and> patch_ok (sized 0 100) (lou_region p) \<and>
     patch_ok (sized 0 32) (lou_postal_code p) \<and> patch_ok (sized 0 100) (lou_country p) \<and>
     patch_ok (sized 0 64) (lou_timezone p)"

definition require_provider_location_read_access :: "provider \<Rightarrow> user \<Rightarrow> world \<Rightarrow> unit result" where
  "require_provider_location_read_access provider user w =
     (case require_org_membership (prov_organization_id provider) user None w of
        Inl e \<Rightarrow> Inl e
      | Inr membership \<Rightarrow>
        if usr_is_platform_admin user then Inr ()
        else if mem_role membership = PROVIDER \<and> prov_user_id provider \<noteq> Some (usr_id user)
        then Inl (HTTPException 403 ''Insufficient organization role'')
        else Inr ())"

definition create_organization_location ::
  "user \<Rightarrow> int \<Rightarrow> location \<Rightarrow> string option \<Rightarrow> world \<Rightarrow> location outcome" where
  "create_organization_location current_user organization_id payload slug w =
     require (unprocessable (location_payload_ok payload slug)) w (\<lambda>_.
     require (get_organization_or_404 organization_id w) w (\<lambda>_.
     require (require_org_admin_membership organization_id current_user w) w (\<lambda>_.
     commit (location_create (payload\<lparr>loc_organization_id := organization_id\<rparr>) slug w) w respond)))"

definition list_organization_locations :: "user \<Rightarrow> int \<Rightarrow> bool \<Rightarrow> world \<Rightarrow> location list result" where
  "list_organization_locations current_user organization_id include_inactive w =
     (case get_organization_or_404 organization_id w of
        Inl e \<Rightarrow> Inl e
      | Inr _ \<Rightarrow>
        case require_org_membership organization_id current_user None w of
          Inl e \<Rightarrow> Inl e | Inr _ \<Rightarrow> Inr (location_list_by_organization organization_id include_inactive w))"

definition get_organization_location :: "user \<Rightarrow> int \<Rightarrow> int \<Rightarrow> world \<Rightarrow> location result" where
  "get_organization_location current_user organization_id location_id w =
     (case get_organization_or_404 organization_id w of
        Inl e \<Rightarrow> Inl e
      | Inr _ \<Rightarrow>
        case require_org_membership organization_id current_user None w of
          Inl e \<Rightarrow> Inl e
        | Inr _ \<Rightarrow> or_404 ''Location not found'' (location_get_by_org_and_id organization_id location_id w))"

definition location_patched :: "location_update_payload \<Rightarrow> location \<Rightarrow> location" where
  "location_patched p r = r
     \<lparr>loc_name := patched (lou_name p) (loc_name r),
      loc_address_line_1 := target (lou_address_line_1 p) (loc_address_line_1 r),
      loc_address_line_2 := target (lou_address_line_2 p) (loc_address_line_2 r),
      loc_city := target (lou_city p) (loc_city r),
      loc_region := target (lou_region p) (loc_region r),
      loc_postal_code := target (lou_postal_code p) (loc_postal_code r),
      loc_country := target (lou_country p) (loc_country r),
      loc_timezone := target (lou_timezone p) (loc_timezone r),
      loc_is_active := patched (lou_is_active p) (loc_is_active r)\<rparr>"

definition update_organization_location ::
  "user \<Rightarrow> int \<Rightarrow> int \<Rightarrow> location_update_payload \<Rightarrow> world \<Rightarrow> location outcome" where
  "update_organization_location current_user organization_id location_id payload w =
     require (unprocessable (location_update_payload_ok payload)) w (\<lambda>_.
     require (get_organization_or_404 organization_id w) w (\<lambda>_.
     require (require_org_admin_membership organization_id current_user w) w (\<lambda>_.
     require (or_404 ''Location not found'' (location_get_by_org_and_id organization_id location_id w)) w (\<lambda>location.
     if is_null (lou_name payload) \<or> is_null (lou_is_active payload)
     then (Inl (IntegrityError ''NOT NULL organization_locations''), w)
     else commit (location_update (location_patched payload location) (lou_slug payload) w) w respond))))"

definition deactivate_organization_location :: "user \<Rightarrow> int \<Rightarrow> int \<Rightarrow> world \<Rightarrow> unit outcome" where
  "deactivate_organization_location current_user organization_id location_id w =
     require (get_organization_or_404 organization_id w) w (\<lambda>_.
     require (require_org_admin_membership organization_id current_user w) w (\<lambda>_.
     require (or_404 ''Location not found'' (location_get_by_org_and_id organization_id location_id w)) w (\<lambda>location.
     if loc_is_active location
     then commit (location_update (location\<lparr>loc_is_active := False\<rparr>) None w) w (\<lambda>_ w'. respond () w')
     else respond () w)))"

definition assign_provider_location :: "user \<Rightarrow> int \<Rightarrow> int \<Rightarrow> world \<Rightarrow> location outcome" where
  "assign_provider_location current_user provider_id location_id w =
     require (get_provider_or_404 provider_id w) w (\<lambda>provider.
     require (require_org_admin_membership (prov_organization_id provider) current_user w) w (\<lambda>_.
     require (or_404 ''Location not found'' (location_get location_id w)) w (\<lambda>location.
     require (check_that (loc_is_active location) 400 ''Location not found or inactive'') w (\<lambda>_.
     require (check_that (loc_organization_id location = prov_organization_id provider) 400
                ''Provider and location organization mismatch'') w (\<lambda>_.
     require (check_that (provider_location_get (prov_id provider) (loc_id location) w = None) 409
                ''Provider already assigned to this location'') w (\<lambda>_.
     commit (provider_location_create
        \<lparr>pl_id = 0, pl_provider_id = prov_id provider, pl_location_id = loc_id location\<rparr> w) w
       (\<lambda>_ w'. respond location w')))))))"

definition list_provider_locations :: "user \<Rightarrow> int \<Rightarrow> bool \<Rightarrow> world \<Rightarrow> location list result" where
  "list_provider_locations current_user provider_id include_inactive w =
     (case get_provider_or_404 provider_id w of
        Inl e \<Rightarrow> Inl e
      | Inr provider \<Rightarrow>
        case require_provider_location_read_access provider current_user w of
          Inl e \<Rightarrow> Inl e
        | Inr _ \<Rightarrow> Inr (provider_location_list_by_provider provider_id include_inactive w))"

definition unassign_provider_location :: "user \<Rightarrow> int \<Rightarrow> int \<Rightarrow> world \<Rightarrow> unit outcome" where
  "unassign_provider_location current_user provider_id location_id w =
     require (get_provider_or_404 provider_id w) w (\<lambda>provider.
     require (require_org_admin_membership (prov_organization_id provider) current_user w) w (\<lambda>_.
     require (or_404 ''Provider-location assignment not found'' (provider_location_get provider_id location_id w)) w
       (\<lambda>assignment. respond () (provider_location_delete assignment w))))"

definition assign_service_location :: "user \<Rightarrow> int \<Rightarrow> int \<Rightarrow> world \<Rightarrow> location outcome" where
  "assign_service_location current_user service_id location_id w =
     require (get_service_or_404 service_id w) w (\<lambda>service.
     require (require_org_admin_membership (svc_organization_id service) current_user w) w (\<lambda>_.
     require (or_404 ''Location not found'' (location_get location_id w)) w (\<lambda>location.
     require (check_that (loc_is_active location) 400 ''Location not found or inactive'') w (\<lambda>_.
     require (check_that (loc_organization_id location = svc_organization_id service) 400
                ''Service and location organization mismatch'') w (\<lambda>_.
     require (check_that (service_location_get (svc_id service) (loc_id location) w = None) 409
                ''Service already assigned to this location'') w (\<lambda>_.
     commit (service_location_create
        \<lparr>sl_id = 0, sl_service_id = svc_id service, sl_location_id = loc_id location\<rparr> w) w
       (\<lambda>_ w'. respond location w')))))))"

definition list_service_locations :: "user \<Rightarrow> int \<Rightarrow> bool \<Rightarrow> world \<Rightarrow> location list result" where
  "list_service_locations current_user service_id include_inactive w =
     (case get_service_or_404 service_id w of
        Inl e \<Rightarrow> Inl e
      | Inr service \<Rightarrow>
        case require_org_membership (svc_organization_id service) current_user None w of
          Inl e \<Rightarrow> Inl e
        | Inr _ \<Rightarrow> Inr (service_location_list_by_service service_id include_inactive w))"

definition unassign_service_location :: "user \<Rightarrow> int \<Rightarrow> int \<Rightarrow> world \<Rightarrow> unit outcome" where
  "unassign_service_location current_user service_id location_id w =
     require (get_service_or_404 service_id w) w (\<lambda>service.
     require (require_org_admin_membership (svc_organization_id service) current_user w) w (\<lambda>_.
     require (or_404 ''Service-location assignment not found'' (service_location_get service_id location_id w)) w
       (\<lambda>assignment. respond () (service_location_delete assignment w))))"

end
