(* ===== verification/Provider_Routes.thy ===== *)
theory Provider_Routes
  imports Staff_Routes
begin

text \<open>
  The endpoints of \<^verbatim>\<open>routers/providers.py\<close> and \<^verbatim>\<open>routers/services.py\<close>.  A new provider is
  assigned to every active location of its organization and its user becomes a member; a new or
  newly assigned service is offered at every active location.  Each of these rows is committed
  on its own.
\<close>

section \<open>Assignments to the active locations\<close>

fun assign_provider_to :: "int \<Rightarrow> location list \<Rightarrow> world \<Rightarrow> unit outcome" where
  "assign_provider_to provider_id [] w = respond () w"
| "assign_provider_to provider_id (location # rest) w =
     (case provider_location_get provider_id (loc_id location) w of
        Some _ \<Rightarrow> assign_provider_to provider_id rest w
      | None \<Rightarrow>
        commit (provider_location_create
           \<lparr>pl_id = 0, pl_provider_id = provider_id, pl_location_id = loc_id location\<rparr> w) w
          (\<lambda>_ w'. assign_provider_to provider_id rest w'))"

fun offer_service_at :: "int \<Rightarrow> location list \<Rightarrow> world \<Rightarrow> unit outcome" where
  "offer_service_at service_id [] w = respond () w"
| "offer_service_at service_id (location # rest) w =
     (case service_location_get service_id (loc_id location) w of
        Some _ \<Rightarrow> offer_service_at service_id rest w
      | None \<Rightarrow>
        commit (service_location_create
           \<lparr>sl_id = 0, sl_service_id = service_id, sl_location_id = loc_id location\<rparr> w) w
          (\<lambda>_ w'. offer_service_at service_id rest w'))"

section \<open>Providers\<close>

record provider_update_payload =
  pru_display_name :: "string option option"
  pru_title :: "string option option"
  pru_bio :: "string option option"
  pru_appointment_duration_minutes :: "int option option"
  pru_is_active :: "bool option option"

definition EARNING_VIEW_ROLES :: "membership_role list" where
  "EARNING_VIEW_ROLES = [OWNER, ADMIN, STAFF]"

definition require_provider_earnings_access :: "provider \<Rightarrow> user \<Rightarrow> world \<Rightarrow> unit result" where
  "require_provider_earnings_access provider user w =
     (case require_org_membership (prov_organization_id provider) user None w of
        Inl e \<Rightarrow> Inl e
      | Inr membership \<Rightarrow>
        if usr_is_platform_admin user then Inr ()
        else if mem_role membership \<in> set EARNING_VIEW_ROLES then Inr ()
        else if mem_role membership = PROVIDER \<and> prov_user_id provider = Some (usr_id user) then Inr ()
        else Inl (HTTPException 403 ''Insufficient organization role''))"

definition link_provider_user :: "int \<Rightarrow> int option \<Rightarrow> world \<Rightarrow> unit outcome" where
  "link_provider_user organization_id user_id w =
     (case user_id of
        None \<Rightarrow> respond () w
      | Some uid \<Rightarrow>
        case organization_member_get_by_org_and_user organization_id uid w of
          None \<Rightarrow>
            commit (organization_member_add
              \<lparr>mem_id = 0, mem_organization_id = organization_id, mem_user_id = uid, mem_role = PROVIDER,
               mem_is_active = True\<rparr> w) w (\<lambda>_ w'. respond () w')
        | Some existing \<Rightarrow>
          if \<not> mem_is_active existing
          then commit (saving () (organization_member_update (existing\<lparr>mem_is_active := True\<rparr>) w)) w respond
          else respond () w)"

definition create_provider :: "user \<Rightarrow> provider \<Rightarrow> world \<Rightarrow> provider outcome" where
  "create_provider current_user payload w =
     require (unprocessable (0 < prov_appointment_duration_minutes payload)) w (\<lambda>_.
     require (get_organization_or_404 (prov_organization_id payload) w) w (\<lambda>organization.
     require (case prov_user_id payload of
                None \<Rightarrow> Inr ()
              | Some uid \<Rightarrow> check_that (user_get uid w \<noteq> None) 404 ''Linked user not found'') w (\<lambda>_.
     require (require_org_admin_membership (prov_organization_id payload) current_user w) w (\<lambda>_.
     and_then (integrity_as 409 ''Provider user is already linked'' (commit (provider_create payload w) w respond))
       (\<lambda>provider w1.
     and_then (assign_provider_to (prov_id provider)
                 (location_list_by_organization (prov_organization_id payload) False w1) w1) (\<lambda>_ w2.
     and_then (link_provider_user (prov_organization_id payload) (prov_user_id payload) w2) (\<lambda>_ w3.
     respond provider w3)))))))"

definition list_providers :: "user \<Rightarrow> int option \<Rightarrow> world \<Rightarrow> provider list result" where
  "list_providers current_user organization_id w =
     (case organization_id of
        Some oid \<Rightarrow>
          (case require_org_membership oid current_user None w of
             Inl e \<Rightarrow> Inl e | Inr _ \<Rightarrow> Inr (provider_list (Some oid) w))
      | None \<Rightarrow>
        if usr_is_platform_admin current_user then Inr (provider_list None w)
        else
         (let org_ids = organization_member_list_active_org_ids_for_user (usr_id current_user) w in
          if org_ids = [] then Inr []
          else Inr [p \<leftarrow> provider_list None w. prov_organization_id p \<in> set org_ids]))"

definition get_provider :: "user \<Rightarrow> int \<Rightarrow> world \<Rightarrow> provider result" where
  "get_provider current_user provider_id w =
     (case get_provider_or_404 provider_id w of
        Inl e \<Rightarrow> Inl e
      | Inr provider \<Rightarrow>
        case require_org_membership (prov_organization_id provider) current_user None w of
          Inl e \<Rightarrow> Inl e | Inr _ \<Rightarrow> Inr provider)"

definition list_provider_earnings :: "user \<Rightarrow> int \<Rightarrow> world \<Rightarrow> earning list result" where
  "list_provider_earnings current_user provider_id w =
     (case get_provider_or_404 provider_id w of
        Inl e \<Rightarrow> Inl e
      | Inr provider \<Rightarrow>
        case require_provider_earnings_access provider current_user w of
          Inl e \<Rightarrow> Inl e | Inr _ \<Rightarrow> Inr (earning_list_by_provider provider_id w))"

definition provider_patched :: "provider_update_payload \<Rightarrow> provider \<Rightarrow> provider" where
  "provider_patched p r = r
     \<lparr>prov_display_name := patched (pru_display_name p) (prov_display_name r),
      prov_title := target (pru_title p) (prov_title r),
      prov_bio := target (pru_bio p) (prov_bio r),
      prov_appointment_duration_minutes :=
        patched (pru_appointment_duration_minutes p) (prov_appointment_duration_minutes r),
      prov_is_active := patched (pru_is_active p) (prov_is_active r)\<rparr>"

definition update_provider :: "user \<Rightarrow> int \<Rightarrow> provider_update_payload \<Rightarrow> world \<Rightarrow> provider outcome" where
  "update_provider current_user provider_id payload w =
     require (unprocessable (patch_ok (\<lambda>d. 0 < d) (pru_appointment_duration_minutes payload))) w (\<lambda>_.
     require (get_provider_or_404 provider_id w) w (\<lambda>provider.
     require (require_org_admin_membership (prov_organization_id provider) current_user w) w (\<lambda>_.
     integrity_as 409 ''Provider user is already linked''
       (if is_null (pru_display_name payload) \<or> is_null (pru_appointment_duration_minutes payload) \<or>
           is_null (pru_is_active payload)
        then (Inl (IntegrityError ''NOT NULL providers''), w)
        else (let updated = provider_patched payload provider in
              commit (saving updated (provider_update updated w)) w respond)))))"

definition activate_provider :: "user \<Rightarrow> int \<Rightarrow> world \<Rightarrow> provider outcome" where
  "activate_provider current_user provider_id w =
     require (get_provider_or_404 provider_id w) w (\<lambda>provider.
     require (require_org_admin_membership (prov_organization_id provider) current_user w) w (\<lambda>_.
     (let updated = provider\<lparr>prov_is_active := True\<rparr> in
      commit (saving updated (provider_update updated w)) w respond)))"

definition deactivate_provider :: "user \<Rightarrow> int \<Rightarrow> world \<Rightarrow> provider outcome" where
  "deactivate_provider current_user provider_id w =
     require (get_provider_or_404 provider_id w) w (\<lambda>provider.
     require (require_org_admin_membership (prov_organization_id provider) current_user w) w (\<lambda>_.
     (let updated = provider\<lparr>prov_is_active := False\<rparr> in
      commit (saving updated (provider_update updated w)) w respond)))"

section \<open>Services\<close>

record service_update_payload =
  sru_provider_id :: "int option option"
  sru_name :: "string option option"
  sru_description :: "string option option"
  sru_duration_minutes :: "int option option"
  sru_price :: "rat option option"
  sru_currency :: "string option option"
  sru_requires_payment :: "bool option option"
  sru_payment_type :: "payment_type option option"
  sru_deposit_amount_minor :: "int option option"
  sru_cancellation_policy_type :: "cancellation_policy_type option option"
  sru_cancellation_window_hours :: "int option option"
  sru_buffer_before_minutes :: "int option option"
  sru_buffer_after_minutes :: "int option option"
  sru_is_active :: "bool option option"

text \<open>The body of \<^verbatim>\<open>POST /providers/{id}/services\<close>: an existing service, or a new one.\<close>

datatype provider_service_payload =
    AssignService int "int option"
  | NewService service

record assigned_service =
  asv_service :: service
  asv_provider_id :: int
  asv_duration_minutes_override :: "int option"
  asv_effective_duration_minutes :: int

definition build_assigned_service_read :: "service \<Rightarrow> provider_service \<Rightarrow> assigned_service" where
  "build_assigned_service_read service assignment =
     \<lparr>asv_service = service, asv_provider_id = ps_provider_id assignment,
      asv_duration_minutes_override = ps_duration_minutes_override assignment,
      asv_effective_duration_minutes =
        (case ps_duration_minutes_override assignment of
           None \<Rightarrow> svc_duration_minutes service
         | Some d \<Rightarrow> if d = 0 then svc_duration_minutes service else d)\<rparr>"

definition service_payload_ok :: "service \<Rightarrow> bool" where
  "service_payload_ok s \<longleftrightarrow>
     0 < svc_duration_minutes s \<and> (case svc_price s of None \<Rightarrow> True | Some p \<Rightarrow> 0 \<le> p) \<and>
     (case svc_currency s of None \<Rightarrow> True | Some c \<Rightarrow> length c = 3) \<and>
     (case svc_deposit_amount_minor s of None \<Rightarrow> True | Some d \<Rightarrow> 0 < d) \<and>
     0 \<le> svc_cancellation_window_hours s \<and> 0 \<le> svc_buffer_before_minutes s \<and> 0 \<le> svc_buffer_after_minutes s \<and>
     validate_service_payment_policy (svc_requires_payment s) (svc_payment_type s) (svc_price s) (svc_currency s)
       (svc_deposit_amount_minor s) = Inr ()"

definition require_provider_service_read_access :: "provider \<Rightarrow> user \<Rightarrow> world \<Rightarrow> unit result" where
  "require_provider_service_read_access provider user w =
     (case require_org_membership (prov_organization_id provider) user None w of
        Inl e \<Rightarrow> Inl e
      | Inr membership \<Rightarrow>
        if usr_is_platform_admin user then Inr ()
        else if mem_role membership = PROVIDER \<and> prov_user_id provider \<noteq> Some (usr_id user)
        then Inl (HTTPException 403 ''Insufficient organization role'')
        else Inr ())"

definition assign_existing_service :: "provider \<Rightarrow> int \<Rightarrow> int option \<Rightarrow> world \<Rightarrow> assigned_service outcome" where
  "assign_existing_service provider service_id duration_minutes_override w =
     require (get_service_or_404 service_id w) w (\<lambda>service.
     require (check_that (svc_organization_id service = prov_organization_id provider) 400
                ''Provider and service organization mismatch'') w (\<lambda>_.
     require (check_that (provider_service_get (prov_id provider) (svc_id service) w = None) 409
                ''Provider already assigned to this service'') w (\<lambda>_.
     commit (provider_service_create
        \<lparr>ps_id = 0, ps_provider_id = prov_id provider, ps_service_id = svc_id service,
         ps_duration_minutes_override = duration_minutes_override\<rparr> w) w (\<lambda>assignment w1.
     and_then (offer_service_at (svc_id service)
                 (location_list_by_organization (prov_organization_id provider) False w1) w1) (\<lambda>_ w2.
     respond (build_assigned_service_read service assignment) w2)))))"

definition create_assigned_service :: "provider \<Rightarrow> service \<Rightarrow> world \<Rightarrow> assigned_service outcome" where
  "create_assigned_service provider create_data w =
     integrity_as 400 ''Service failed integrity checks''
      (commit (service_create (create_data
         \<lparr>svc_organization_id := prov_organization_id provider, svc_provider_id := prov_id provider\<rparr>) w) w
         (\<lambda>service w1.
       commit (provider_service_create
         \<lparr>ps_id = 0, ps_provider_id = prov_id provider, ps_service_id = svc_id service,
          ps_duration_minutes_override = None\<rparr> w1) w1 (\<lambda>assignment w2.
       and_then (offer_service_at (svc_id service)
                   (location_list_by_organization (prov_organization_id provider) False w2) w2) (\<lambda>_ w3.
       respond (build_assigned_service_read service assignment) w3))))"

definition create_provider_service ::
  "user \<Rightarrow> int \<Rightarrow> provider_service_payload \<Rightarrow> world \<Rightarrow> assigned_service outcome" where
  "create_provider_service current_user provider_id payload w =
     require (unprocessable (case payload of
                AssignService _ d \<Rightarrow> (case d of None \<Rightarrow> True | Some d \<Rightarrow> 0 < d)
              | NewService s \<Rightarrow> service_payload_ok s)) w (\<lambda>_.
     require (get_provider_or_404 provider_id w) w (\<lambda>provider.
     require (require_org_admin_membership (prov_organization_id provider) current_user w) w (\<lambda>_.
     case payload of
       AssignService service_id duration_minutes_override \<Rightarrow>
         assign_existing_service provider service_id duration_minutes_override w
     | NewService create_data \<Rightarrow> create_assigned_service provider create_data w)))"

definition provider_service_list_by_provider :: "int \<Rightarrow> bool \<Rightarrow> world \<Rightarrow> (service \<times> provider_service) list" where
  "provider_service_list_by_provider provider_id include_inactive w =
     [(s, x). x \<leftarrow> sort_key ps_id [x \<leftarrow> provider_services w. ps_provider_id x = provider_id],
              s \<leftarrow> [s \<leftarrow> services w. svc_id s = ps_service_id x \<and> (include_inactive \<or> svc_is_active s)]]"

definition list_provider_services :: "user \<Rightarrow> int \<Rightarrow> bool \<Rightarrow> world \<Rightarrow> assigned_service list result" where
  "list_provider_services current_user provider_id include_inactive w =
     (case get_provider_or_404 provider_id w of
        Inl e \<Rightarrow> Inl e
      | Inr provider \<Rightarrow>
        case require_provider_service_read_access provider current_user w of
          Inl e \<Rightarrow> Inl e
        | Inr _ \<Rightarrow> Inr (map (\<lambda>(s, x). build_assigned_service_read s x)
                         (provider_service_list_by_provider provider_id include_inactive w)))"

definition unassign_provider_service :: "user \<Rightarrow> int \<Rightarrow> int \<Rightarrow> world \<Rightarrow> unit outcome" where
  "unassign_provider_service current_user provider_id service_id w =
     require (get_provider_or_404 provider_id w) w (\<lambda>provider.
     require (require_org_admin_membership (prov_organization_id provider) current_user w) w (\<lambda>_.
     require (or_404 ''Provider-service assignment not found'' (provider_service_get provider_id service_id w)) w
       (\<lambda>assignment. respond () (provider_service_delete assignment w))))"

text \<open>The provider of a service is assigned to it, unless that assignment exists.\<close>

definition ensure_assigned :: "int \<Rightarrow> int \<Rightarrow> world \<Rightarrow> unit outcome" where
  "ensure_assigned provider_id service_id w =
     (case provider_service_get provider_id service_id w of
        Some _ \<Rightarrow> respond () w
      | None \<Rightarrow>
        commit (provider_service_create
          \<lparr>ps_id = 0, ps_provider_id = provider_id, ps_service_id = service_id,
           ps_duration_minutes_override = None\<rparr> w) w (\<lambda>_ w'. respond () w'))"

definition create_service :: "user \<Rightarrow> service \<Rightarrow> world \<Rightarrow> service outcome" where
  "create_service current_user payload w =
     require (unprocessable (service_payload_ok payload)) w (\<lambda>_.
     require (get_provider_or_404 (svc_provider_id payload) w) w (\<lambda>provider.
     require (check_that (prov_organization_id provider = svc_organization_id payload) 400 ''Provider org mismatch'') w (\<lambda>_.
     require (require_org_admin_membership (svc_organization_id payload) current_user w) w (\<lambda>_.
     integrity_as 400 ''Service failed integrity checks''
      (commit (service_create payload w) w (\<lambda>service w1.
       and_then (ensure_assigned (prov_id provider) (svc_id service) w1) (\<lambda>_ w2.
       and_then (offer_service_at (svc_id service)
                   (location_list_by_organization (svc_organization_id payload) False w2) w2) (\<lambda>_ w3.
       respond service w3))))))))"

definition list_services :: "user \<Rightarrow> int option \<Rightarrow> int option \<Rightarrow> bool \<Rightarrow> world \<Rightarrow> service list result" where
  "list_services current_user organization_id provider_id include_inactive w =
     (case organization_id of
        Some oid \<Rightarrow>
          (case require_org_membership oid current_user None w of
             Inl e \<Rightarrow> Inl e | Inr _ \<Rightarrow> Inr (service_list (Some oid) provider_id include_inactive w))
      | None \<Rightarrow>
        if usr_is_platform_admin current_user then Inr (service_list None provider_id include_inactive w)
        else
         (let org_ids = organization_member_list_active_org_ids_for_user (usr_id current_user) w in
          if org_ids = [] then Inr []
          else Inr [s \<leftarrow> service_list None provider_id include_inactive w. svc_organization_id s \<in> set org_ids]))"

definition get_service :: "user \<Rightarrow> int \<Rightarrow> world \<Rightarrow> service result" where
  "get_service current_user service_id w =
     (case get_service_or_404 service_id w of
        Inl e \<Rightarrow> Inl e
      | Inr service \<Rightarrow>
        case require_org_membership (svc_organization_id service) current_user None w of
          Inl e \<Rightarrow> Inl e | Inr _ \<Rightarrow> Inr service)"

definition service_update_payload_ok :: "service_update_payload \<Rightarrow> bool" where
  "service_update_payload_ok p \<longleftrightarrow>
     patch_ok (\<lambda>d. 0 < d) (sru_duration_minutes p) \<and> patch_ok (\<lambda>a. 0 \<le> a) (sru_price p) \<and>
     patch_ok (\<lambda>c. length c = 3) (sru_currency p) \<and> patch_ok (\<lambda>d. 0 < d) (sru_deposit_amount_minor p) \<and>
     patch_ok (\<lambda>h. 0 \<le> h) (sru_cancellation_window_hours p) \<and>
     patch_ok (\<lambda>b. 0 \<le> b) (sru_buffer_before_minutes p) \<and> patch_ok (\<lambda>b. 0 \<le> b) (sru_buffer_after_minutes p)"

definition service_patched :: "service_update_payload \<Rightarrow> service \<Rightarrow> service" where
  "service_patched p r = r
     \<lparr>svc_provider_id := patched (sru_provider_id p) (svc_provider_id r),
      svc_name := patched (sru_name p) (svc_name r),
      svc_description := target (sru_description p) (svc_description r),
      svc_duration_minutes := patched (sru_duration_minutes p) (svc_duration_minutes r),
      svc_price := target (sru_price p) (svc_price r),
      svc_currency := target (sru_currency p) (svc_currency r),
      svc_requires_payment := patched (sru_requires_payment p) (svc_requires_payment r),
      svc_payment_type := patched (sru_payment_type p) (svc_payment_type r),
      svc_deposit_amount_minor := target (sru_deposit_amount_minor p) (svc_deposit_amount_minor r),
      svc_cancellation_policy_type := patched (sru_cancellation_policy_type p) (svc_cancellation_policy_type r),
      svc_cancellation_window_hours := patched (sru_cancellation_window_hours p) (svc_cancellation_window_hours r),
      svc_buffer_before_minutes := patched (sru_buffer_before_minutes p) (svc_buffer_before_minutes r),
      svc_buffer_after_minutes := patched (sru_buffer_after_minutes p) (svc_buffer_after_minutes r),
      svc_is_active := patched (sru_is_active p) (svc_is_active r)\<rparr>"

definition service_update_nulls :: "service_update_payload \<Rightarrow> bool" where
  "service_update_nulls p \<longleftrightarrow>
     is_null (sru_name p) \<or> is_null (sru_duration_minutes p) \<or> is_null (sru_requires_payment p) \<or>
     is_null (sru_payment_type p) \<or> is_null (sru_cancellation_policy_type p) \<or>
     is_null (sru_cancellation_window_hours p) \<or> is_null (sru_buffer_before_minutes p) \<or>
     is_null (sru_buffer_after_minutes p) \<or> is_null (sru_is_active p)"

definition check_provider_change :: "int option option \<Rightarrow> service \<Rightarrow> world \<Rightarrow> unit result" where
  "check_provider_change provider_id service w =
     (case provider_id of
        None \<Rightarrow> Inr ()
      | Some None \<Rightarrow> Inl (HTTPException 400 ''provider_id cannot be null'')
      | Some (Some pid) \<Rightarrow>
        case provider_get pid w of
          None \<Rightarrow> Inl (HTTPException 400 ''Invalid provider assignment'')
        | Some provider \<Rightarrow>
          check_that (prov_organization_id provider = svc_organization_id service) 400 ''Invalid provider assignment'')"

text \<open>
  The merged payment policy: an explicit null \<^verbatim>\<open>requires_payment\<close> counts as false and a null
  \<^verbatim>\<open>payment_type\<close> as not a deposit, before the database refuses them.
\<close>

definition update_service :: "user \<Rightarrow> int \<Rightarrow> service_update_payload \<Rightarrow> world \<Rightarrow> service outcome" where
  "update_service current_user service_id payload w =
     require (unprocessable (service_update_payload_ok payload)) w (\<lambda>_.
     require (get_service_or_404 service_id w) w (\<lambda>service.
     require (require_org_admin_membership (svc_organization_id service) current_user w) w (\<lambda>_.
     require (check_provider_change (sru_provider_id payload) service w) w (\<lambda>_.
     require (value_error_as 400 (validate_service_payment_policy
        (truthy (target (sru_requires_payment payload) (Some (svc_requires_payment service))))
        (case target (sru_payment_type payload) (Some (svc_payment_type service)) of None \<Rightarrow> FULL | Some t \<Rightarrow> t)
        (target (sru_price payload) (svc_price service))
        (target (sru_currency payload) (svc_currency service))
        (target (sru_deposit_amount_minor payload) (svc_deposit_amount_minor service)))) w (\<lambda>_.
     integrity_as 400 ''Service failed integrity checks''
      (if service_update_nulls payload then (Inl (IntegrityError ''NOT NULL services''), w)
       else commit (saving (service_patched payload service) (service_update (service_patched payload service) w)) w (\<lambda>updated w1.
         if sru_provider_id payload = None then respond updated w1
         else and_then (ensure_assigned (svc_provider_id updated) (svc_id updated) w1) (\<lambda>_ w2. respond updated w2))))))))"

definition activate_service :: "user \<Rightarrow> int \<Rightarrow> world \<Rightarrow> service outcome" where
  "activate_service current_user service_id w =
     require (get_service_or_404 service_id w) w (\<lambda>service.
     require (require_org_admin_membership (svc_organization_id service) current_user w) w (\<lambda>_.
     (let updated = service\<lparr>svc_is_active := True\<rparr> in
      commit (saving updated (service_update updated w)) w respond)))"

definition deactivate_service :: "user \<Rightarrow> int \<Rightarrow> world \<Rightarrow> service outcome" where
  "deactivate_service current_user service_id w =
     require (get_service_or_404 service_id w) w (\<lambda>service.
     require (require_org_admin_membership (svc_organization_id service) current_user w) w (\<lambda>_.
     (let updated = service\<lparr>svc_is_active := False\<rparr> in
      commit (saving updated (service_update updated w)) w respond)))"

definition delete_service :: "user \<Rightarrow> int \<Rightarrow> world \<Rightarrow> service outcome" where
  "delete_service current_user service_id w =
     require (get_service_or_404 service_id w) w (\<lambda>service.
     require (require_org_admin_membership (svc_organization_id service) current_user w) w (\<lambda>_.
     (let updated = service\<lparr>svc_is_active := False\<rparr> in
      commit (saving updated (service_update updated w)) w respond)))"

end
