(* ===== verification/Calendar_Routes.thy ===== *)
theory Calendar_Routes
  imports Staff_Routes Appointments
begin

text \<open>
  The endpoints with which staff keep calendars and bookings: \<^verbatim>\<open>routers/provider_availability.py\<close>,
  \<^verbatim>\<open>provider_date_overrides.py\<close>, \<^verbatim>\<open>provider_time_off.py\<close>, \<^verbatim>\<open>appointments.py\<close> and
  \<^verbatim>\<open>scheduling.py\<close>.  Each commits at most once, so it is a result: with an error the database
  is as it was.  The service operations they wrap are those of the theories imported.
\<close>

text \<open>The handlers around a service call; \<^verbatim>\<open>conflict\<close> is the answer to an \<^verbatim>\<open>IntegrityError\<close>, if it is caught.\<close>

definition http_error :: "string option \<Rightarrow> exn \<Rightarrow> exn" where
  "http_error conflict e =
     (case e of
        ValueError m \<Rightarrow> HTTPException 400 m
      | IntegrityError m \<Rightarrow> (case conflict of None \<Rightarrow> e | Some detail \<Rightarrow> HTTPException 409 detail)
      | _ \<Rightarrow> e)"

definition handled_by :: "string option \<Rightarrow> 'a result \<Rightarrow> 'a result" where
  "handled_by conflict r = (case r of Inl e \<Rightarrow> Inl (http_error conflict e) | Inr x \<Rightarrow> Inr x)"

text \<open>
  The opening of each endpoint: the provider exists and the caller may change its schedule, or
  read it.
\<close>

definition writable_provider :: "user \<Rightarrow> int \<Rightarrow> world \<Rightarrow> provider result" where
  "writable_provider current_user provider_id w =
     (case get_provider_or_404 provider_id w of
        Inl e \<Rightarrow> Inl e
      | Inr provider \<Rightarrow>
        case require_provider_schedule_access provider current_user w of
          Inl e \<Rightarrow> Inl e | Inr _ \<Rightarrow> Inr provider)"

definition readable_provider :: "user \<Rightarrow> int \<Rightarrow> world \<Rightarrow> provider result" where
  "readable_provider current_user provider_id w =
     (case get_provider_or_404 provider_id w of
        Inl e \<Rightarrow> Inl e
      | Inr provider \<Rightarrow>
        case require_org_membership (prov_organization_id provider) current_user None w of
          Inl e \<Rightarrow> Inl e | Inr _ \<Rightarrow> Inr provider)"

definition row_of_provider :: "('r \<Rightarrow> int) \<Rightarrow> int \<Rightarrow> string \<Rightarrow> 'r option \<Rightarrow> 'r result" where
  "row_of_provider owner provider_id detail x =
     (case x of
        None \<Rightarrow> Inl (HTTPException 404 detail)
      | Some r \<Rightarrow> if owner r \<noteq> provider_id then Inl (HTTPException 404 detail) else Inr r)"

section \<open>Weekly availability\<close>

definition create_availability_route :: "user \<Rightarrow> availability_create_payload \<Rightarrow> world \<Rightarrow> (availability \<times> world) result" where
  "create_availability_route current_user payload w =
     (case writable_provider current_user (avc_provider_id payload) w of
        Inl e \<Rightarrow> Inl e
      | Inr _ \<Rightarrow> handled_by (Some ''Availability block already exists'') (create_availability payload w))"

definition update_availability_route ::
  "user \<Rightarrow> int \<Rightarrow> availability_update_payload \<Rightarrow> world \<Rightarrow> (availability \<times> world) result" where
  "update_availability_route current_user row_id payload w =
     (case or_404 ''Availability block not found'' (availability_get row_id w) of
        Inl e \<Rightarrow> Inl e
      | Inr row \<Rightarrow>
      case writable_provider current_user (av_provider_id row) w of
        Inl e \<Rightarrow> Inl e
      | Inr _ \<Rightarrow> handled_by (Some ''Availability block already exists'') (update_availability row_id payload w))"

definition delete_availability_route :: "user \<Rightarrow> int \<Rightarrow> world \<Rightarrow> world result" where
  "delete_availability_route current_user row_id w =
     (case or_404 ''Availability block not found'' (availability_get row_id w) of
        Inl e \<Rightarrow> Inl e
      | Inr row \<Rightarrow>
      case writable_provider current_user (av_provider_id row) w of
        Inl e \<Rightarrow> Inl e
      | Inr _ \<Rightarrow> Inr (availability_delete row w))"

definition create_availability_for_provider ::
  "user \<Rightarrow> int \<Rightarrow> availability_create_payload \<Rightarrow> world \<Rightarrow> (availability \<times> world) result" where
  "create_availability_for_provider current_user provider_id payload w =
     (case writable_provider current_user provider_id w of
        Inl e \<Rightarrow> Inl e
      | Inr _ \<Rightarrow> handled_by (Some ''Availability block already exists'') (create_availability (payload\<lparr>avc_provider_id := provider_id\<rparr>) w))"

definition update_availability_for_provider ::
  "user \<Rightarrow> int \<Rightarrow> int \<Rightarrow> availability_update_payload \<Rightarrow> world \<Rightarrow> (availability \<times> world) result" where
  "update_availability_for_provider current_user provider_id row_id payload w =
     (case writable_provider current_user provider_id w of
        Inl e \<Rightarrow> Inl e
      | Inr _ \<Rightarrow>
      case row_of_provider av_provider_id provider_id ''Availability block not found'' (availability_get row_id w) of
        Inl e \<Rightarrow> Inl e
      | Inr _ \<Rightarrow> handled_by (Some ''Availability block already exists'') (update_availability row_id payload w))"

definition delete_availability_for_provider :: "user \<Rightarrow> int \<Rightarrow> int \<Rightarrow> world \<Rightarrow> world result" where
  "delete_availability_for_provider current_user provider_id row_id w =
     (case writable_provider current_user provider_id w of
        Inl e \<Rightarrow> Inl e
      | Inr _ \<Rightarrow>
      case row_of_provider av_provider_id provider_id ''Availability block not found'' (availability_get row_id w) of
        Inl e \<Rightarrow> Inl e
      | Inr row \<Rightarrow> Inr (availability_delete row w))"

definition list_availability :: "user \<Rightarrow> int \<Rightarrow> world \<Rightarrow> availability list result" where
  "list_availability current_user provider_id w =
     (case readable_provider current_user provider_id w of
        Inl e \<Rightarrow> Inl e | Inr _ \<Rightarrow> Inr (availability_list_by_provider provider_id w))"

section \<open>Date overrides\<close>

definition create_date_override_route :: "user \<Rightarrow> override_create_payload \<Rightarrow> world \<Rightarrow> (date_override \<times> world) result" where
  "create_date_override_route current_user payload w =
     (case writable_provider current_user (ovc_provider_id payload) w of
        Inl e \<Rightarrow> Inl e
      | Inr _ \<Rightarrow> handled_by (Some ''Date override failed integrity checks'') (create_override payload w))"

definition update_date_override_route ::
  "user \<Rightarrow> int \<Rightarrow> override_update_payload \<Rightarrow> world \<Rightarrow> (date_override \<times> world) result" where
  "update_date_override_route current_user row_id payload w =
     (case or_404 ''Date override not found'' (date_override_get row_id w) of
        Inl e \<Rightarrow> Inl e
      | Inr row \<Rightarrow>
      case writable_provider current_user (ov_provider_id row) w of
        Inl e \<Rightarrow> Inl e
      | Inr _ \<Rightarrow> handled_by (Some ''Date override failed integrity checks'') (update_override row_id payload w))"

definition delete_date_override_route :: "user \<Rightarrow> int \<Rightarrow> world \<Rightarrow> world result" where
  "delete_date_override_route current_user row_id w =
     (case or_404 ''Date override not found'' (date_override_get row_id w) of
        Inl e \<Rightarrow> Inl e
      | Inr row \<Rightarrow>
      case writable_provider current_user (ov_provider_id row) w of
        Inl e \<Rightarrow> Inl e
      | Inr _ \<Rightarrow> Inr (date_override_delete row w))"

definition create_date_override_for_provider ::
  "user \<Rightarrow> int \<Rightarrow> override_create_payload \<Rightarrow> world \<Rightarrow> (date_override \<times> world) result" where
  "create_date_override_for_provider current_user provider_id payload w =
     (case writable_provider current_user provider_id w of
        Inl e \<Rightarrow> Inl e
      | Inr _ \<Rightarrow> handled_by (Some ''Date override failed integrity checks'') (create_override (payload\<lparr>ovc_provider_id := provider_id\<rparr>) w))"

definition update_date_override_for_provider ::
  "user \<Rightarrow> int \<Rightarrow> int \<Rightarrow> override_update_payload \<Rightarrow> world \<Rightarrow> (date_override \<times> world) result" where
  "update_date_override_for_provider current_user provider_id row_id payload w =
     (case writable_provider current_user provider_id w of
        Inl e \<Rightarrow> Inl e
      | Inr _ \<Rightarrow>
      case row_of_provider ov_provider_id provider_id ''Date override not found'' (date_override_get row_id w) of
        Inl e \<Rightarrow> Inl e
      | Inr _ \<Rightarrow> handled_by (Some ''Date override failed integrity checks'') (update_override row_id payload w))"

definition delete_date_override_for_provider :: "user \<Rightarrow> int \<Rightarrow> int \<Rightarrow> world \<Rightarrow> world result" where
  "delete_date_override_for_provider current_user provider_id row_id w =
     (case writable_provider current_user provider_id w of
        Inl e \<Rightarrow> Inl e
      | Inr _ \<Rightarrow>
      case row_of_provider ov_provider_id provider_id ''Date override not found'' (date_override_get row_id w) of
        Inl e \<Rightarrow> Inl e
      | Inr row \<Rightarrow> Inr (date_override_delete row w))"

definition list_date_overrides ::
  "user \<Rightarrow> int \<Rightarrow> date option \<Rightarrow> date option \<Rightarrow> world \<Rightarrow> date_override list result" where
  "list_date_overrides current_user provider_id start_date end_date w =
     (case readable_provider current_user provider_id w of
        Inl e \<Rightarrow> Inl e | Inr _ \<Rightarrow> Inr (date_override_list_by_provider provider_id start_date end_date w))"

section \<open>Time off\<close>

definition create_time_off_route :: "user \<Rightarrow> time_off_create_payload \<Rightarrow> world \<Rightarrow> (time_off \<times> world) result" where
  "create_time_off_route current_user payload w =
     (case writable_provider current_user (toc_provider_id payload) w of
        Inl e \<Rightarrow> Inl e
      | Inr _ \<Rightarrow> handled_by None (create_time_off payload w))"

definition update_time_off_route ::
  "env \<Rightarrow> user \<Rightarrow> int \<Rightarrow> time_off_update_payload \<Rightarrow> world \<Rightarrow> (time_off \<times> world) result" where
  "update_time_off_route ev current_user row_id payload w =
     (case or_404 ''Time-off interval not found'' (time_off_get row_id w) of
        Inl e \<Rightarrow> Inl e
      | Inr row \<Rightarrow>
      case writable_provider current_user (off_provider_id row) w of
        Inl e \<Rightarrow> Inl e
      | Inr _ \<Rightarrow> handled_by None (update_time_off ev row_id payload w))"

definition delete_time_off_route :: "user \<Rightarrow> int \<Rightarrow> world \<Rightarrow> world result" where
  "delete_time_off_route current_user row_id w =
     (case or_404 ''Time-off interval not found'' (time_off_get row_id w) of
        Inl e \<Rightarrow> Inl e
      | Inr row \<Rightarrow>
      case writable_provider current_user (off_provider_id row) w of
        Inl e \<Rightarrow> Inl e
      | Inr _ \<Rightarrow> Inr (time_off_delete row w))"

definition create_time_off_for_provider ::
  "user \<Rightarrow> int \<Rightarrow> time_off_create_payload \<Rightarrow> world \<Rightarrow> (time_off \<times> world) result" where
  "create_time_off_for_provider current_user provider_id payload w =
     (case writable_provider current_user provider_id w of
        Inl e \<Rightarrow> Inl e
      | Inr _ \<Rightarrow> handled_by None (create_time_off (payload\<lparr>toc_provider_id := provider_id\<rparr>) w))"

definition update_time_off_for_provider ::
  "env \<Rightarrow> user \<Rightarrow> int \<Rightarrow> int \<Rightarrow> time_off_update_payload \<Rightarrow> world \<Rightarrow> (time_off \<times> world) result" where
  "update_time_off_for_provider ev current_user provider_id row_id payload w =
     (case writable_provider current_user provider_id w of
        Inl e \<Rightarrow> Inl e
      | Inr _ \<Rightarrow>
      case row_of_provider off_provider_id provider_id ''Time-off interval not found'' (time_off_get row_id w) of
        Inl e \<Rightarrow> Inl e
      | Inr _ \<Rightarrow> handled_by None (update_time_off ev row_id payload w))"

definition delete_time_off_for_provider :: "user \<Rightarrow> int \<Rightarrow> int \<Rightarrow> world \<Rightarrow> world result" where
  "delete_time_off_for_provider current_user provider_id row_id w =
     (case writable_provider current_user provider_id w of
        Inl e \<Rightarrow> Inl e
      | Inr _ \<Rightarrow>
      case row_of_provider off_provider_id provider_id ''Time-off interval not found'' (time_off_get row_id w) of
        Inl e \<Rightarrow> Inl e
      | Inr row \<Rightarrow> Inr (time_off_delete row w))"

definition list_time_off ::
  "user \<Rightarrow> int \<Rightarrow> instant option \<Rightarrow> instant option \<Rightarrow> world \<Rightarrow> time_off list result" where
  "list_time_off current_user provider_id start_datetime end_datetime w =
     (case readable_provider current_user provider_id w of
        Inl e \<Rightarrow> Inl e | Inr _ \<Rightarrow> Inr (time_off_list_by_provider provider_id start_datetime end_datetime w))"

section \<open>Bookings made by staff\<close>

definition appointment_list :: "int option \<Rightarrow> int option \<Rightarrow> int option \<Rightarrow> world \<Rightarrow> appointment list" where
  "appointment_list organization_id provider_id customer_id w =
     sort_key apt_start_datetime
       [a \<leftarrow> appointments w.
          (case organization_id of None \<Rightarrow> True | Some i \<Rightarrow> apt_organization_id a = i) \<and>
          (case provider_id of None \<Rightarrow> True | Some p \<Rightarrow> apt_provider_id a = p) \<and>
          (case customer_id of None \<Rightarrow> True | Some c \<Rightarrow> apt_customer_id a = c)]"

definition appointment_list_by_organization_ids :: "int list \<Rightarrow> world \<Rightarrow> appointment list" where
  "appointment_list_by_organization_ids organization_ids w =
     (if organization_ids = [] then []
      else sort_key apt_start_datetime [a \<leftarrow> appointments w. apt_organization_id a \<in> set organization_ids])"

definition appointment_conflict :: "string option" where
  "appointment_conflict = Some ''Appointment constraint conflict''"

definition create_appointment_route ::
  "env \<Rightarrow> user \<Rightarrow> appointment_create_payload \<Rightarrow> world \<Rightarrow> (appointment \<times> world) result option" where
  "create_appointment_route ev current_user payload w =
     (case readable_provider current_user (apc_provider_id payload) w of
        Inl e \<Rightarrow> Some (Inl e)
      | Inr _ \<Rightarrow>
        map_option (handled_by appointment_conflict)
          (create_appointment ev payload ''user'' (Some (usr_id current_user)) w))"

definition list_appointments ::
  "user \<Rightarrow> int option \<Rightarrow> int option \<Rightarrow> int option \<Rightarrow> world \<Rightarrow> appointment list result" where
  "list_appointments current_user organization_id provider_id customer_id w =
     (case organization_id of
        Some oid \<Rightarrow>
          (case require_org_membership oid current_user None w of
             Inl e \<Rightarrow> Inl e | Inr _ \<Rightarrow> Inr (appointment_list (Some oid) provider_id customer_id w))
      | None \<Rightarrow>
        if usr_is_platform_admin current_user then Inr (appointment_list None provider_id customer_id w)
        else
         (let org_ids = organization_member_list_active_org_ids_for_user (usr_id current_user) w in
          Inr [a \<leftarrow> appointment_list_by_organization_ids org_ids w.
                (case provider_id of None \<Rightarrow> True | Some p \<Rightarrow> apt_provider_id a = p) \<and>
                (case customer_id of None \<Rightarrow> True | Some c \<Rightarrow> apt_customer_id a = c)]))"

definition readable_appointment :: "user \<Rightarrow> int \<Rightarrow> world \<Rightarrow> appointment result" where
  "readable_appointment current_user appointment_id w =
     (case or_404 ''Appointment not found'' (appointment_get appointment_id w) of
        Inl e \<Rightarrow> Inl e
      | Inr existing \<Rightarrow>
        case require_org_membership (apt_organization_id existing) current_user None w of
          Inl e \<Rightarrow> Inl e | Inr _ \<Rightarrow> Inr existing)"

definition get_appointment :: "user \<Rightarrow> int \<Rightarrow> world \<Rightarrow> appointment result" where
  "get_appointment current_user appointment_id w = readable_appointment current_user appointment_id w"

text \<open>A cancellation commits before the refund is tried, so it answers with the world it left.\<close>

definition cancel_appointment_route ::
  "env \<Rightarrow> user \<Rightarrow> int \<Rightarrow> string option \<Rightarrow> world \<Rightarrow> appointment outcome" where
  "cancel_appointment_route ev current_user appointment_id notes w =
     require (readable_appointment current_user appointment_id w) w (\<lambda>_.
     (case cancel_appointment ev appointment_id notes ''user'' (Some (usr_id current_user)) w of
        (r, w') \<Rightarrow> (handled_by None r, w')))"

definition reschedule_appointment_route ::
  "env \<Rightarrow> user \<Rightarrow> int \<Rightarrow> py_datetime \<Rightarrow> world \<Rightarrow> (appointment \<times> world) result option" where
  "reschedule_appointment_route ev current_user appointment_id start_datetime w =
     (case readable_appointment current_user appointment_id w of
        Inl e \<Rightarrow> Some (Inl e)
      | Inr _ \<Rightarrow>
        map_option (handled_by appointment_conflict)
          (reschedule_appointment ev appointment_id start_datetime ''user'' (Some (usr_id current_user)) w))"

definition available_slots_route ::
  "env \<Rightarrow> user \<Rightarrow> int \<Rightarrow> date \<Rightarrow> date \<Rightarrow> int \<Rightarrow> int \<Rightarrow> world \<Rightarrow> slot list result option" where
  "available_slots_route ev current_user provider_id start_date end_date service_id location_id w =
     (case readable_provider current_user provider_id w of
        Inl e \<Rightarrow> Some (Inl e)
      | Inr _ \<Rightarrow>
        map_option (handled_by None)
          (get_available_slots ev provider_id location_id start_date end_date (Some service_id) w))"

end
