(* ===== verification/Tenancy.thy ===== *)
theory Tenancy
  imports Provider_Routes Calendar_Routes Conversation
begin

text \<open>
  What the staff endpoints keep between them: every row of the catalogue belongs to one
  organization, assignments and bookings stay within it (\<^verbatim>\<open>tenants_ok\<close>), and a request touches
  the rows of no other organization than the one its caller acts for (\<^verbatim>\<open>keeps\<close>).
\<close>

section \<open>Owners\<close>

definition owner_of :: "('r \<Rightarrow> int) \<Rightarrow> ('r \<Rightarrow> int) \<Rightarrow> 'r list \<Rightarrow> int \<Rightarrow> int option" where
  "owner_of ident owner t i = map_option owner (tbl_get ident i t)"

lemma owner_of_append:
  "ident r \<notin> ident ` set t \<Longrightarrow>
     owner_of ident owner (t @ [r]) i = (if i = ident r then Some (owner r) else owner_of ident owner t i)"
  by (auto simp: owner_of_def tbl_get_append split: option.splits dest: tbl_get_key)

lemma owner_of_set:
  "tbl_get ident (ident r) t = Some r0 \<Longrightarrow> owner r = owner r0 \<Longrightarrow>
     owner_of ident owner (tbl_set ident r t) i = owner_of ident owner t i"
  by (auto simp: owner_of_def tbl_get_set split: option.splits dest: tbl_get_key)

lemma owner_of_fresh: "i \<notin> ident ` set t \<Longrightarrow> owner_of ident owner t i = None"
  by (simp add: owner_of_def table_simps)

lemma owner_of_mem: "tbl_ok ident t \<Longrightarrow> r \<in> set t \<Longrightarrow> owner_of ident owner t (ident r) = Some (owner r)"
  by (simp add: owner_of_def tbl_get_mem)

lemma owner_of_Some: "owner_of ident owner t i = Some k \<Longrightarrow> \<exists>r \<in> set t. ident r = i \<and> owner r = k"
  by (auto simp: owner_of_def dest: tbl_get_Some)

lemma owner_of_left:
  assumes "tbl_ok ident t"
  shows "owner_of ident owner [x \<leftarrow> t. ident x \<notin> ident ` {y \<in> set t. owner y = k}] i =
    (if owner_of ident owner t i = Some k then None else owner_of ident owner t i)"
proof (cases "\<exists>r \<in> set t. ident r = i")
  case True
  then obtain r where r: "r \<in> set t" "ident r = i" by blast
  let ?t = "[x \<leftarrow> t. ident x \<notin> ident ` {y \<in> set t. owner y = k}]"
  have ok: "tbl_ok ident ?t" using assms by (simp add: tbl_ok_def distinct_map_filter)
  have in_t: "r \<in> set ?t \<longleftrightarrow> owner r \<noteq> k" using r tbl_ok_inj [OF assms] by (auto simp: image_iff)
  have t: "owner_of ident owner t i = Some (owner r)" using owner_of_mem [OF assms r(1)] r(2) by simp
  show ?thesis
  proof (cases "owner r = k")
    case True
    then have "i \<notin> ident ` set ?t" using r by (force simp: image_iff)
    with t True show ?thesis by (simp add: owner_of_fresh)
  next
    case False
    with in_t have "r \<in> set ?t" by blast
    with owner_of_mem [OF ok this, of owner] r(2) t False show ?thesis by simp
  qed
next
  case False
  then have "i \<notin> ident ` set t" "i \<notin> ident ` set [x \<leftarrow> t. ident x \<notin> ident ` {y \<in> set t. owner y = k}]" by auto
  then show ?thesis by (simp add: owner_of_fresh)
qed

text \<open>A repository whose rows have an owner: a write leaves the rows of the other owners alone.\<close>

locale owned_repository = repository ident rows get create update
  for ident :: "'r \<Rightarrow> int" and rows :: "'w \<Rightarrow> 'r list"
    and get :: "int \<Rightarrow> 'w \<Rightarrow> 'r option"
    and create :: "'r \<Rightarrow> 'w \<Rightarrow> ('r \<times> 'w) result"
    and update :: "'r \<Rightarrow> 'w \<Rightarrow> 'w result" +
  fixes owner :: "'r \<Rightarrow> int"
begin

lemma owner_create:
  "create r w = Inr (r', w') \<Longrightarrow>
     owner_of ident owner (rows w') i = (if i = ident r' then Some (owner r') else owner_of ident owner (rows w) i)"
  by (drule create_rows) (simp add: owner_of_append)

lemma owner_update:
  "update r w = Inr w' \<Longrightarrow> get (ident r) w = Some r0 \<Longrightarrow> owner r = owner r0 \<Longrightarrow>
     owner_of ident owner (rows w') i = owner_of ident owner (rows w) i"
  by (drule update_rows) (simp add: owner_of_set get_rows)

lemma others_create:
  "create r w = Inr (r', w') \<Longrightarrow> \<not> P (owner r') \<Longrightarrow> [x \<leftarrow> rows w'. P (owner x)] = [x \<leftarrow> rows w. P (owner x)]"
  by (drule create_rows) simp

lemma others_update:
  assumes "update r w = Inr w'" and "get (ident r) w = Some r0" and "owner r = owner r0" and "tbl_ok ident (rows w)"
    and "\<not> P (owner r)"
  shows "[x \<leftarrow> rows w'. P (owner x)] = [x \<leftarrow> rows w. P (owner x)]"
proof -
  have "x = r0" if "x \<in> set (rows w)" "ident x = ident r" for x
    using that mem_get [OF assms(4) that(1)] assms(2) by simp
  then have "filter (\<lambda>x. P (owner x)) (tbl_set ident r t) = filter (\<lambda>x. P (owner x)) t" if "set t \<subseteq> set (rows w)" for t
    using that assms(3,5) by (induction t) (auto simp: tbl_set_def)
  with update_rows [OF assms(1)] show ?thesis by simp
qed

end

interpretation organization_owned: owned_repository org_id organizations organization_get
  "\<lambda>r. organization_create r slug" organization_save org_id for slug
  by unfold_locales

interpretation location_owned: owned_repository loc_id locations location_get
  "\<lambda>r. location_create r slug" location_save loc_organization_id for slug
  by unfold_locales

interpretation provider_owned: owned_repository prov_id providers provider_get
  provider_create provider_update prov_organization_id
  by unfold_locales

interpretation service_owned: owned_repository svc_id services service_get
  service_create service_update svc_organization_id
  by unfold_locales

interpretation member_owned: owned_repository mem_id organization_members organization_member_get
  organization_member_add organization_member_update mem_organization_id
  by unfold_locales

interpretation appointment_owned: owned_repository apt_id appointments appointment_get
  "appointment_create ev" "appointment_update ev" apt_organization_id for ev
  by unfold_locales

interpretation availability_owned: owned_repository av_id availabilities availability_get
  availability_create availability_update av_provider_id
  by unfold_locales

interpretation date_override_owned: owned_repository ov_id date_overrides date_override_get
  date_override_create date_override_update ov_provider_id
  by unfold_locales

interpretation time_off_owned: owned_repository off_id time_offs time_off_get
  time_off_create time_off_update off_provider_id
  by unfold_locales

section \<open>Tenants\<close>

abbreviation provider_org :: "world \<Rightarrow> int \<Rightarrow> int option" where
  "provider_org w \<equiv> owner_of prov_id prov_organization_id (providers w)"

abbreviation service_org :: "world \<Rightarrow> int \<Rightarrow> int option" where
  "service_org w \<equiv> owner_of svc_id svc_organization_id (services w)"

abbreviation location_org :: "world \<Rightarrow> int \<Rightarrow> int option" where
  "location_org w \<equiv> owner_of loc_id loc_organization_id (locations w)"

text \<open>The part of the database that belongs to one organization.\<close>

definition tenant_view :: "int \<Rightarrow> world \<Rightarrow> world" where
  "tenant_view tid w = empty_world
     \<lparr>organizations := [x \<leftarrow> organizations w. org_id x = tid],
      locations := [x \<leftarrow> locations w. loc_organization_id x = tid],
      providers := [x \<leftarrow> providers w. prov_organization_id x = tid],
      services := [x \<leftarrow> services w. svc_organization_id x = tid],
      provider_services := [x \<leftarrow> provider_services w. provider_org w (ps_provider_id x) = Some tid],
      provider_locations := [x \<leftarrow> provider_locations w. provider_org w (pl_provider_id x) = Some tid],
      service_locations := [x \<leftarrow> service_locations w. service_org w (sl_service_id x) = Some tid],
      availabilities := [x \<leftarrow> availabilities w. provider_org w (av_provider_id x) = Some tid],
      date_overrides := [x \<leftarrow> date_overrides w. provider_org w (ov_provider_id x) = Some tid],
      time_offs := [x \<leftarrow> time_offs w. provider_org w (off_provider_id x) = Some tid],
      organization_members := [x \<leftarrow> organization_members w. mem_organization_id x = tid],
      appointments := [x \<leftarrow> appointments w. apt_organization_id x = tid]\<rparr>"

text \<open>
  Keys are unique, a service and its provider, the two ends of an assignment, and a booking and
  its service belong to the same organization.
\<close>

definition tenant_keys :: "world \<Rightarrow> bool" where
  "tenant_keys w \<longleftrightarrow>
     tbl_ok org_id (organizations w) \<and> tbl_ok loc_id (locations w) \<and> tbl_ok prov_id (providers w) \<and>
     tbl_ok svc_id (services w) \<and> tbl_ok ps_id (provider_services w) \<and> tbl_ok pl_id (provider_locations w) \<and>
     tbl_ok sl_id (service_locations w) \<and> tbl_ok mem_id (organization_members w) \<and>
     tbl_ok av_id (availabilities w) \<and> tbl_ok ov_id (date_overrides w) \<and> tbl_ok off_id (time_offs w) \<and>
     tbl_ok apt_id (appointments w)"

definition linked :: "int option \<Rightarrow> int option \<Rightarrow> bool" where
  "linked a b \<longleftrightarrow> a \<noteq> None \<and> a = b"

definition tenant_links :: "world \<Rightarrow> bool" where
  "tenant_links w \<longleftrightarrow>
     (\<forall>s \<in> set (services w). provider_org w (svc_provider_id s) = Some (svc_organization_id s)) \<and>
     (\<forall>x \<in> set (provider_services w). linked (service_org w (ps_service_id x)) (provider_org w (ps_provider_id x))) \<and>
     (\<forall>x \<in> set (provider_locations w). linked (location_org w (pl_location_id x)) (provider_org w (pl_provider_id x))) \<and>
     (\<forall>x \<in> set (service_locations w). linked (location_org w (sl_location_id x)) (service_org w (sl_service_id x))) \<and>
     (\<forall>a \<in> set (appointments w). \<forall>i. apt_service_id a = Some i \<longrightarrow> service_org w i = Some (apt_organization_id a))"

definition tenants_ok :: "world \<Rightarrow> bool" where
  "tenants_ok w \<longleftrightarrow> tenant_keys w \<and> tenant_links w"

text \<open>A change within one organization.\<close>

definition keeps :: "int \<Rightarrow> world \<Rightarrow> world \<Rightarrow> bool" where
  "keeps tid w w' \<longleftrightarrow>
     (tenants_ok w \<longrightarrow> tenants_ok w' \<and> (\<forall>t. t \<noteq> tid \<longrightarrow> tenant_view t w' = tenant_view t w))"

lemma keeps_refl [simp]: "keeps tid w w"
  by (simp add: keeps_def)

lemma keeps_trans: "keeps tid w w1 \<Longrightarrow> keeps tid w1 w2 \<Longrightarrow> keeps tid w w2"
  by (simp add: keeps_def)

text \<open>How a change shows that it stays within one organization.\<close>

lemma keepsI:
  assumes "tenants_ok w \<Longrightarrow> tenant_keys w'" and "tenants_ok w \<Longrightarrow> tenant_links w'"
    and "\<And>t. tenants_ok w \<Longrightarrow> t \<noteq> tid \<Longrightarrow> tenant_view t w' = tenant_view t w"
  shows "keeps tid w w'"
  using assms by (simp add: keeps_def tenants_ok_def)

lemma linked_grow:
  "linked a b \<Longrightarrow> (\<And>k. a = Some k \<Longrightarrow> a' = Some k) \<Longrightarrow> (\<And>k. b = Some k \<Longrightarrow> b' = Some k) \<Longrightarrow> linked a' b'"
  by (auto simp: linked_def)

text \<open>
  A change that adds or updates rows: owners stay, new rows are linked within one organization,
  and the rows of the other organizations are the same.
\<close>

lemma keeps_growI:
  assumes keys: "tenant_keys w \<Longrightarrow> tenant_keys w'"
    and p: "\<And>i k. provider_org w i = Some k \<Longrightarrow> provider_org w' i = Some k"
    and s: "\<And>i k. service_org w i = Some k \<Longrightarrow> service_org w' i = Some k"
    and l: "\<And>i k. location_org w i = Some k \<Longrightarrow> location_org w' i = Some k"
    and sv: "\<And>x. x \<in> set (services w') \<Longrightarrow> x \<in> set (services w) \<or>
      provider_org w' (svc_provider_id x) = Some (svc_organization_id x)"
    and ps: "\<And>x. x \<in> set (provider_services w') \<Longrightarrow> x \<in> set (provider_services w) \<or>
      linked (service_org w' (ps_service_id x)) (provider_org w' (ps_provider_id x))"
    and pl: "\<And>x. x \<in> set (provider_locations w') \<Longrightarrow> x \<in> set (provider_locations w) \<or>
      linked (location_org w' (pl_location_id x)) (provider_org w' (pl_provider_id x))"
    and sl: "\<And>x. x \<in> set (service_locations w') \<Longrightarrow> x \<in> set (service_locations w) \<or>
      linked (location_org w' (sl_location_id x)) (service_org w' (sl_service_id x))"
    and ap: "\<And>a i. tenant_links w \<Longrightarrow> a \<in> set (appointments w') \<Longrightarrow> apt_service_id a = Some i \<Longrightarrow> a \<in> set (appointments w) \<or>
      service_org w' i = Some (apt_organization_id a)"
    and vp: "\<And>i t. t \<noteq> tid \<Longrightarrow> (provider_org w' i = Some t) = (provider_org w i = Some t)"
    and vs: "\<And>i t. t \<noteq> tid \<Longrightarrow> (service_org w' i = Some t) = (service_org w i = Some t)"
    and "\<And>t. tenant_keys w \<Longrightarrow> t \<noteq> tid \<Longrightarrow> [x \<leftarrow> organizations w'. org_id x = t] = [x \<leftarrow> organizations w. org_id x = t]"
    and "\<And>t. tenant_keys w \<Longrightarrow> t \<noteq> tid \<Longrightarrow> [x \<leftarrow> locations w'. loc_organization_id x = t] =
      [x \<leftarrow> locations w. loc_organization_id x = t]"
    and "\<And>t. tenant_keys w \<Longrightarrow> t \<noteq> tid \<Longrightarrow> [x \<leftarrow> providers w'. prov_organization_id x = t] =
      [x \<leftarrow> providers w. prov_organization_id x = t]"
    and "\<And>t. tenant_keys w \<Longrightarrow> t \<noteq> tid \<Longrightarrow> [x \<leftarrow> services w'. svc_organization_id x = t] =
      [x \<leftarrow> services w. svc_organization_id x = t]"
    and "\<And>t. tenant_keys w \<Longrightarrow> t \<noteq> tid \<Longrightarrow> [x \<leftarrow> provider_services w'. provider_org w (ps_provider_id x) = Some t] =
      [x \<leftarrow> provider_services w. provider_org w (ps_provider_id x) = Some t]"
    and "\<And>t. tenant_keys w \<Longrightarrow> t \<noteq> tid \<Longrightarrow> [x \<leftarrow> provider_locations w'. provider_org w (pl_provider_id x) = Some t] =
      [x \<leftarrow> provider_locations w. provider_org w (pl_provider_id x) = Some t]"
    and "\<And>t. tenant_keys w \<Longrightarrow> t \<noteq> tid \<Longrightarrow> [x \<leftarrow> service_locations w'. service_org w (sl_service_id x) = Some t] =
      [x \<leftarrow> service_locations w. service_org w (sl_service_id x) = Some t]"
    and "\<And>t. tenant_keys w \<Longrightarrow> t \<noteq> tid \<Longrightarrow> [x \<leftarrow> availabilities w'. provider_org w (av_provider_id x) = Some t] =
      [x \<leftarrow> availabilities w. provider_org w (av_provider_id x) = Some t]"
    and "\<And>t. tenant_keys w \<Longrightarrow> t \<noteq> tid \<Longrightarrow> [x \<leftarrow> date_overrides w'. provider_org w (ov_provider_id x) = Some t] =
      [x \<leftarrow> date_overrides w. provider_org w (ov_provider_id x) = Some t]"
    and "\<And>t. tenant_keys w \<Longrightarrow> t \<noteq> tid \<Longrightarrow> [x \<leftarrow> time_offs w'. provider_org w (off_provider_id x) = Some t] =
      [x \<leftarrow> time_offs w. provider_org w (off_provider_id x) = Some t]"
    and "\<And>t. tenant_keys w \<Longrightarrow> t \<noteq> tid \<Longrightarrow> [x \<leftarrow> organization_members w'. mem_organization_id x = t] =
      [x \<leftarrow> organization_members w. mem_organization_id x = t]"
    and "\<And>t. tenant_keys w \<Longrightarrow> t \<noteq> tid \<Longrightarrow> [x \<leftarrow> appointments w'. apt_organization_id x = t] =
      [x \<leftarrow> appointments w. apt_organization_id x = t]"
  shows "keeps tid w w'"
proof (rule keepsI)
  assume ok: "tenants_ok w"
  then show "tenant_keys w'" using keys by (simp add: tenants_ok_def)
  from ok have old: "tenant_links w" by (simp add: tenants_ok_def)
  have "provider_org w' (svc_provider_id x) = Some (svc_organization_id x)" if "x \<in> set (services w')" for x
    using old sv [OF that] p by (auto simp: tenant_links_def)
  moreover have "linked (service_org w' (ps_service_id x)) (provider_org w' (ps_provider_id x))"
    if "x \<in> set (provider_services w')" for x
    using old ps [OF that] p s by (auto simp: tenant_links_def intro: linked_grow)
  moreover have "linked (location_org w' (pl_location_id x)) (provider_org w' (pl_provider_id x))"
    if "x \<in> set (provider_locations w')" for x
    using old pl [OF that] p l by (auto simp: tenant_links_def intro: linked_grow)
  moreover have "linked (location_org w' (sl_location_id x)) (service_org w' (sl_service_id x))"
    if "x \<in> set (service_locations w')" for x
    using old sl [OF that] s l by (auto simp: tenant_links_def intro: linked_grow)
  moreover have "service_org w' i = Some (apt_organization_id a)"
    if "a \<in> set (appointments w')" "apt_service_id a = Some i" for a i
    using old ap [OF old that] that(2) s by (auto simp: tenant_links_def)
  ultimately show "tenant_links w'" by (simp add: tenant_links_def)
next
  fix t assume "tenants_ok w" and t: "t \<noteq> tid"
  then have "tenant_keys w" by (simp add: tenants_ok_def)
  then show "tenant_view t w' = tenant_view t w"
    unfolding tenant_view_def vp [OF t] vs [OF t] by (simp only: assms(12-) t not_False_eq_True)
qed

section \<open>Writes stay within the organization of the row\<close>

lemma db_insert_full:
  assumes "db_insert set_ident ident violates t r = Inr (r', t')" and "\<And>i x. ident (set_ident i x) = i"
  shows "t' = t @ [r'] \<and> ident r' \<notin> ident ` set t \<and> r' = set_ident (ident r') r"
  using db_insert_rows [OF assms] db_insert_row [OF assms(1)] assms(2) by simp

lemma organization_create_eq:
  "organization_create r slug w = Inr (r', w') \<Longrightarrow>
     w' = w\<lparr>organizations := organizations w @ [r']\<rparr> \<and> org_id r' \<notin> org_id ` set (organizations w)"
  by (auto simp: organization_create_def Let_def split: sum.splits if_splits dest!: db_insert_rows)

lemma organization_save_eq:
  "organization_save r w = Inr w' \<Longrightarrow> w' = w\<lparr>organizations := tbl_set org_id r (organizations w)\<rparr>"
  by (auto simp: organization_save_def split: sum.splits if_splits dest!: db_update_rows)

lemma location_create_eq:
  "location_create r slug w = Inr (r', w') \<Longrightarrow>
     w' = w\<lparr>locations := locations w @ [r']\<rparr> \<and> loc_id r' \<notin> loc_id ` set (locations w) \<and>
     loc_organization_id r' = loc_organization_id r"
  by (auto simp: location_create_def split: sum.splits dest!: db_insert_full) (metis location.select_convs(2) location.surjective location.update_convs(1,4))

lemma location_save_eq: "location_save r w = Inr w' \<Longrightarrow> w' = w\<lparr>locations := tbl_set loc_id r (locations w)\<rparr>"
  by (auto simp: location_save_def split: sum.splits dest!: db_update_rows)

lemma provider_create_eq:
  "provider_create r w = Inr (r', w') \<Longrightarrow>
     w' = w\<lparr>providers := providers w @ [r']\<rparr> \<and> prov_id r' \<notin> prov_id ` set (providers w) \<and>
     r' = r\<lparr>prov_id := prov_id r'\<rparr>"
  by (auto simp: provider_create_def split: sum.splits dest!: db_insert_full)

lemma provider_update_eq: "provider_update r w = Inr w' \<Longrightarrow> w' = w\<lparr>providers := tbl_set prov_id r (providers w)\<rparr>"
  by (auto simp: provider_update_def split: sum.splits dest!: db_update_rows)

lemma service_create_eq:
  "service_create r w = Inr (r', w') \<Longrightarrow>
     w' = w\<lparr>services := services w @ [r']\<rparr> \<and> svc_id r' \<notin> svc_id ` set (services w) \<and>
     r' = r\<lparr>svc_id := svc_id r'\<rparr>"
  by (auto simp: service_create_def split: sum.splits dest!: db_insert_full)

lemma service_update_eq: "service_update r w = Inr w' \<Longrightarrow> w' = w\<lparr>services := tbl_set svc_id r (services w)\<rparr>"
  by (auto simp: service_update_def split: sum.splits dest!: db_update_rows)

lemma provider_service_create_eq:
  "provider_service_create r w = Inr (r', w') \<Longrightarrow>
     w' = w\<lparr>provider_services := provider_services w @ [r']\<rparr> \<and> ps_id r' \<notin> ps_id ` set (provider_services w) \<and>
     r' = r\<lparr>ps_id := ps_id r'\<rparr>"
  by (auto simp: provider_service_create_def split: sum.splits dest!: db_insert_full)

lemma provider_location_create_eq:
  "provider_location_create r w = Inr (r', w') \<Longrightarrow>
     w' = w\<lparr>provider_locations := provider_locations w @ [r']\<rparr> \<and> pl_id r' \<notin> pl_id ` set (provider_locations w) \<and>
     r' = r\<lparr>pl_id := pl_id r'\<rparr>"
  by (auto simp: provider_location_create_def split: sum.splits dest!: db_insert_full)

lemma service_location_create_eq:
  "service_location_create r w = Inr (r', w') \<Longrightarrow>
     w' = w\<lparr>service_locations := service_locations w @ [r']\<rparr> \<and> sl_id r' \<notin> sl_id ` set (service_locations w) \<and>
     r' = r\<lparr>sl_id := sl_id r'\<rparr>"
  by (auto simp: service_location_create_def split: sum.splits dest!: db_insert_full)

lemma member_add_eq:
  "organization_member_add r w = Inr (r', w') \<Longrightarrow>
     w' = w\<lparr>organization_members := organization_members w @ [r']\<rparr> \<and>
     mem_id r' \<notin> mem_id ` set (organization_members w) \<and> r' = r\<lparr>mem_id := mem_id r'\<rparr>"
  by (auto simp: organization_member_add_def split: sum.splits dest!: db_insert_full)

lemma member_update_eq:
  "organization_member_update r w = Inr w' \<Longrightarrow>
     w' = w\<lparr>organization_members := tbl_set mem_id r (organization_members w)\<rparr>"
  by (auto simp: organization_member_update_def split: sum.splits dest!: db_update_rows)

lemma organization_create_keeps:
  assumes "organization_create r slug w = Inr (r', w')"
  shows "keeps (org_id r') w w'"
  by (rule keeps_growI) (use organization_create_eq [OF assms] in \<open>simp_all add: tenant_keys_def tbl_ok_append\<close>)

lemma organization_save_keeps:
  assumes "organization_save r w = Inr w'" and "organization_get (org_id r) w = Some r0" and "org_id r = org_id r0"
  shows "keeps (org_id r) w w'"
  by (rule keeps_growI)
    (use organization_save_eq [OF assms(1)] organization_owned.others_update [OF assms, of "\<lambda>k. k = t" for t]
      in \<open>simp_all add: tenant_keys_def table_simps\<close>)

lemma location_create_keeps:
  assumes "location_create r slug w = Inr (r', w')"
  shows "keeps (loc_organization_id r) w w'"
  by (rule keeps_growI)
    (use location_create_eq [OF assms] in \<open>auto simp: tenant_keys_def tbl_ok_append owner_of_append owner_of_fresh\<close>)

lemma location_save_keeps:
  assumes "location_save r w = Inr w'" and "location_get (loc_id r) w = Some r0"
    and "loc_organization_id r = loc_organization_id r0"
  shows "keeps (loc_organization_id r) w w'"
  by (rule keeps_growI)
    (use location_save_eq [OF assms(1)] location_owned.others_update [OF assms, of "\<lambda>k. k = t" for t]
      location_owned.owner_update [OF assms] in \<open>simp_all add: tenant_keys_def table_simps\<close>)

lemma provider_create_keeps:
  assumes "provider_create r w = Inr (r', w')"
  shows "keeps (prov_organization_id r) w w'"
proof -
  note e = provider_create_eq [OF assms]
  then have o': "prov_organization_id r' = prov_organization_id r"
    by (metis provider.select_convs(2) provider.surjective provider.update_convs(1))
  from e have f: "provider_org w (prov_id r') = None" by (simp add: owner_of_fresh)
  show ?thesis
    by (rule keeps_growI) (use e o' f in \<open>auto simp: tenant_keys_def tbl_ok_append owner_of_append\<close>)
qed

lemma provider_update_keeps:
  assumes "provider_update r w = Inr w'" and "provider_get (prov_id r) w = Some r0"
    and "prov_organization_id r = prov_organization_id r0"
  shows "keeps (prov_organization_id r) w w'"
  by (rule keeps_growI)
    (use provider_update_eq [OF assms(1)] provider_owned.others_update [OF assms, of "\<lambda>k. k = t" for t]
      provider_owned.owner_update [OF assms] in \<open>simp_all add: tenant_keys_def table_simps\<close>)

lemma service_create_keeps:
  assumes "service_create r w = Inr (r', w')" and "provider_org w (svc_provider_id r) = Some (svc_organization_id r)"
  shows "keeps (svc_organization_id r) w w'"
proof -
  note e = service_create_eq [OF assms(1)]
  then have o': "svc_organization_id r' = svc_organization_id r" "svc_provider_id r' = svc_provider_id r"
    by (metis service.select_convs(2,3) service.surjective service.update_convs(1))+
  from e have f: "service_org w (svc_id r') = None" by (simp add: owner_of_fresh)
  show ?thesis
    by (rule keeps_growI) (use e o' f assms(2) in \<open>auto simp: tenant_keys_def tbl_ok_append owner_of_append\<close>)
qed

lemma service_update_keeps:
  assumes "service_update r w = Inr w'" and "service_get (svc_id r) w = Some r0"
    and "svc_organization_id r = svc_organization_id r0"
    and "provider_org w (svc_provider_id r) = Some (svc_organization_id r)"
  shows "keeps (svc_organization_id r) w w'"
  by (rule keeps_growI)
    (use service_update_eq [OF assms(1)] service_owned.others_update [OF assms(1-3), of "\<lambda>k. k = t" for t]
      service_owned.owner_update [OF assms(1-3)] assms(4)
      in \<open>auto simp: tenant_keys_def table_simps dest: in_tbl_set\<close>)

lemma provider_service_create_keeps:
  assumes "provider_service_create r w = Inr (r', w')"
    and "provider_org w (ps_provider_id r) = Some tid" and "service_org w (ps_service_id r) = Some tid"
  shows "keeps tid w w'"
proof -
  note e = provider_service_create_eq [OF assms(1)]
  then have o': "ps_provider_id r' = ps_provider_id r" "ps_service_id r' = ps_service_id r"
    by (metis provider_service.select_convs(2,3) provider_service.surjective provider_service.update_convs(1))+
  show ?thesis
    by (rule keeps_growI) (use e o' assms in \<open>auto simp: tenant_keys_def tbl_ok_append linked_def\<close>)
qed

lemma provider_location_create_keeps:
  assumes "provider_location_create r w = Inr (r', w')"
    and "provider_org w (pl_provider_id r) = Some tid" and "location_org w (pl_location_id r) = Some tid"
  shows "keeps tid w w'"
proof -
  note e = provider_location_create_eq [OF assms(1)]
  then have o': "pl_provider_id r' = pl_provider_id r" "pl_location_id r' = pl_location_id r"
    by (metis provider_location.select_convs(2,3) provider_location.surjective provider_location.update_convs(1))+
  show ?thesis
    by (rule keeps_growI) (use e o' assms in \<open>auto simp: tenant_keys_def tbl_ok_append linked_def\<close>)
qed

lemma service_location_create_keeps:
  assumes "service_location_create r w = Inr (r', w')"
    and "service_org w (sl_service_id r) = Some tid" and "location_org w (sl_location_id r) = Some tid"
  shows "keeps tid w w'"
proof -
  note e = service_location_create_eq [OF assms(1)]
  then have o': "sl_service_id r' = sl_service_id r" "sl_location_id r' = sl_location_id r"
    by (metis service_location.select_convs(2,3) service_location.surjective service_location.update_convs(1))+
  show ?thesis
    by (rule keeps_growI) (use e o' assms in \<open>auto simp: tenant_keys_def tbl_ok_append linked_def\<close>)
qed

lemma filter_tbl_del:
  assumes "tbl_ok ident t" and "r \<in> set t" and "\<not> P r"
  shows "filter P (tbl_del ident (ident r) t) = filter P t"
proof -
  have "x = r" if "x \<in> set t" "ident x = ident r" for x
    using tbl_ok_inj [OF assms(1)] that assms(2) by blast
  then show ?thesis using assms(3) by (auto simp: tbl_del_def intro!: filter_cong)
qed

lemma provider_service_delete_keeps:
  assumes "provider_service_get i j w = Some r" and "provider_org w i = Some tid"
  shows "keeps tid w (provider_service_delete r w)"
proof -
  from assms(1) have r: "r \<in> set (provider_services w)" "ps_provider_id r = i"
    by (auto simp: provider_service_get_def find_Some_iff)
  show ?thesis
    by (rule keeps_growI)
      (use r assms(2) in \<open>auto simp: provider_service_delete_def tenant_keys_def tbl_ok_del table_simps filter_tbl_del\<close>)
qed

lemma provider_location_delete_keeps:
  assumes "provider_location_get i j w = Some r" and "provider_org w i = Some tid"
  shows "keeps tid w (provider_location_delete r w)"
proof -
  from assms(1) have r: "r \<in> set (provider_locations w)" "pl_provider_id r = i"
    by (auto simp: provider_location_get_def find_Some_iff)
  show ?thesis
    by (rule keeps_growI)
      (use r assms(2) in \<open>auto simp: provider_location_delete_def tenant_keys_def tbl_ok_del table_simps filter_tbl_del\<close>)
qed

lemma service_location_delete_keeps:
  assumes "service_location_get i j w = Some r" and "service_org w i = Some tid"
  shows "keeps tid w (service_location_delete r w)"
proof -
  from assms(1) have r: "r \<in> set (service_locations w)" "sl_service_id r = i"
    by (auto simp: service_location_get_def find_Some_iff)
  show ?thesis
    by (rule keeps_growI)
      (use r assms(2) in \<open>auto simp: service_location_delete_def tenant_keys_def tbl_ok_del table_simps filter_tbl_del\<close>)
qed

lemma member_add_keeps:
  assumes "organization_member_add r w = Inr (r', w')"
  shows "keeps (mem_organization_id r) w w'"
proof -
  note e = member_add_eq [OF assms]
  then have o': "mem_organization_id r' = mem_organization_id r"
    by (metis organization_member.select_convs(2) organization_member.surjective organization_member.update_convs(1))
  show ?thesis by (rule keeps_growI) (use e o' in \<open>auto simp: tenant_keys_def tbl_ok_append\<close>)
qed

lemma member_update_keeps:
  assumes "organization_member_update r w = Inr w'" and "organization_member_get (mem_id r) w = Some r0"
    and "mem_organization_id r = mem_organization_id r0"
  shows "keeps (mem_organization_id r) w w'"
  by (rule keeps_growI)
    (use member_update_eq [OF assms(1)] member_owned.others_update [OF assms, of "\<lambda>k. k = t" for t]
      in \<open>simp_all add: tenant_keys_def table_simps\<close>)

section \<open>Calendars and bookings\<close>

text \<open>A write to a table whose rows belong to a provider.\<close>

lemma provider_row_keys:
  "availability_create a w = Inr (a', w') \<Longrightarrow> w' = w\<lparr>availabilities := availabilities w @ [a']\<rparr> \<and>
     av_provider_id a' = av_provider_id a \<and> av_id a' \<notin> av_id ` set (availabilities w)"
  "date_override_create d w = Inr (d', w') \<Longrightarrow> w' = w\<lparr>date_overrides := date_overrides w @ [d']\<rparr> \<and>
     ov_provider_id d' = ov_provider_id d \<and> ov_id d' \<notin> ov_id ` set (date_overrides w)"
  "time_off_create f w = Inr (f', w') \<Longrightarrow> w' = w\<lparr>time_offs := time_offs w @ [f']\<rparr> \<and>
     off_provider_id f' = off_provider_id f \<and> off_id f' \<notin> off_id ` set (time_offs w)"
proof -
  show "availability_create a w = Inr (a', w') \<Longrightarrow> w' = w\<lparr>availabilities := availabilities w @ [a']\<rparr> \<and>
     av_provider_id a' = av_provider_id a \<and> av_id a' \<notin> av_id ` set (availabilities w)"
    using availability_repo.create_rows [of a w a' w'] by (auto simp: write_defs db_insert_def Let_def split: option.splits)
  show "date_override_create d w = Inr (d', w') \<Longrightarrow> w' = w\<lparr>date_overrides := date_overrides w @ [d']\<rparr> \<and>
     ov_provider_id d' = ov_provider_id d \<and> ov_id d' \<notin> ov_id ` set (date_overrides w)"
    using date_override_repo.create_rows [of d w d' w'] by (auto simp: write_defs db_insert_def Let_def split: option.splits)
  show "time_off_create f w = Inr (f', w') \<Longrightarrow> w' = w\<lparr>time_offs := time_offs w @ [f']\<rparr> \<and>
     off_provider_id f' = off_provider_id f \<and> off_id f' \<notin> off_id ` set (time_offs w)"
    using time_off_repo.create_rows [of f w f' w'] by (auto simp: write_defs db_insert_def Let_def split: option.splits)
qed

lemma provider_row_updates:
  "availability_update a w = Inr w' \<Longrightarrow> w' = w\<lparr>availabilities := tbl_set av_id a (availabilities w)\<rparr>"
  "date_override_update d w = Inr w' \<Longrightarrow> w' = w\<lparr>date_overrides := tbl_set ov_id d (date_overrides w)\<rparr>"
  "time_off_update f w = Inr w' \<Longrightarrow> w' = w\<lparr>time_offs := tbl_set off_id f (time_offs w)\<rparr>"
  by (auto simp: write_defs split: sum.splits dest!: db_update_rows)

lemma provider_row_create_keeps:
  "availability_create a w = Inr (a', w') \<Longrightarrow> provider_org w (av_provider_id a) = Some tid \<Longrightarrow> keeps tid w w'"
  "date_override_create d w = Inr (d', w') \<Longrightarrow> provider_org w (ov_provider_id d) = Some tid \<Longrightarrow> keeps tid w w'"
  "time_off_create f w = Inr (f', w') \<Longrightarrow> provider_org w (off_provider_id f) = Some tid \<Longrightarrow> keeps tid w w'"
  by (rule keeps_growI; auto simp: tenant_keys_def tbl_ok_append dest!: provider_row_keys)+

lemma availability_update_keeps:
  assumes "availability_update r w = Inr w'" and "availability_get (av_id r) w = Some r0"
    and "av_provider_id r = av_provider_id r0" and "provider_org w (av_provider_id r) = Some tid"
  shows "keeps tid w w'"
  by (rule keeps_growI)
    (use provider_row_updates(1) [OF assms(1)] assms(4)
      availability_owned.others_update [OF assms(1-3), of "\<lambda>k. provider_org w k = Some t" for t]
      in \<open>simp_all add: tenant_keys_def table_simps\<close>)

lemma date_override_update_keeps:
  assumes "date_override_update r w = Inr w'" and "date_override_get (ov_id r) w = Some r0"
    and "ov_provider_id r = ov_provider_id r0" and "provider_org w (ov_provider_id r) = Some tid"
  shows "keeps tid w w'"
  by (rule keeps_growI)
    (use provider_row_updates(2) [OF assms(1)] assms(4)
      date_override_owned.others_update [OF assms(1-3), of "\<lambda>k. provider_org w k = Some t" for t]
      in \<open>simp_all add: tenant_keys_def table_simps\<close>)

lemma time_off_update_keeps:
  assumes "time_off_update r w = Inr w'" and "time_off_get (off_id r) w = Some r0"
    and "off_provider_id r = off_provider_id r0" and "provider_org w (off_provider_id r) = Some tid"
  shows "keeps tid w w'"
  by (rule keeps_growI)
    (use provider_row_updates(3) [OF assms(1)] assms(4)
      time_off_owned.others_update [OF assms(1-3), of "\<lambda>k. provider_org w k = Some t" for t]
      in \<open>simp_all add: tenant_keys_def table_simps\<close>)

lemma provider_row_delete_keeps:
  "availability_get i w = Some a \<Longrightarrow> provider_org w (av_provider_id a) = Some tid \<Longrightarrow> keeps tid w (availability_delete a w)"
  "date_override_get i w = Some d \<Longrightarrow> provider_org w (ov_provider_id d) = Some tid \<Longrightarrow> keeps tid w (date_override_delete d w)"
  "time_off_get i w = Some f \<Longrightarrow> provider_org w (off_provider_id f) = Some tid \<Longrightarrow> keeps tid w (time_off_delete f w)"
  by (rule keeps_growI; auto simp: tenant_keys_def tbl_ok_del filter_tbl_del availability_get_def availability_delete_def
      date_override_get_def date_override_delete_def time_off_get_def time_off_delete_def dest!: tbl_get_Some)+

lemma schedule_create_rows:
  "create_availability p w = Inr (a, w') \<Longrightarrow> \<exists>r. availability_create r w = Inr (a, w') \<and> av_provider_id r = avc_provider_id p"
  "create_override q w = Inr (d, w') \<Longrightarrow> \<exists>r. date_override_create r w = Inr (d, w') \<and> ov_provider_id r = ovc_provider_id q"
  "create_time_off t w = Inr (f, w') \<Longrightarrow> \<exists>r. time_off_create r w = Inr (f, w') \<and> off_provider_id r = toc_provider_id t"
  by (fastforce simp: create_availability_def create_override_def create_time_off_def split: if_splits)+

lemma schedule_update_rows:
  "update_availability i p w = Inr (a, w') \<Longrightarrow> \<exists>r. availability_get i w = Some r \<and> availability_update a w = Inr w' \<and>
     av_id a = av_id r \<and> av_provider_id a = av_provider_id r"
  "update_override i q w = Inr (d, w') \<Longrightarrow> \<exists>r. date_override_get i w = Some r \<and> date_override_update d w = Inr w' \<and>
     ov_id d = ov_id r \<and> ov_provider_id d = ov_provider_id r"
  "update_time_off ev i t w = Inr (f, w') \<Longrightarrow> \<exists>r. time_off_get i w = Some r \<and> time_off_update f w = Inr w' \<and>
     off_id f = off_id r \<and> off_provider_id f = off_provider_id r"
  by (auto simp: update_availability_def update_override_def update_time_off_def Let_def
      split: option.splits if_splits sum.splits)

lemma schedule_get_key:
  "availability_get i w = Some a \<Longrightarrow> av_id a = i" "date_override_get i w = Some d \<Longrightarrow> ov_id d = i"
  "time_off_get i w = Some f \<Longrightarrow> off_id f = i"
  by (auto simp: availability_get_def date_override_get_def time_off_get_def dest: tbl_get_Some)

lemma schedule_create_keeps:
  "create_availability p w = Inr (a, w') \<Longrightarrow> provider_org w (avc_provider_id p) = Some tid \<Longrightarrow> keeps tid w w'"
  "create_override q w = Inr (d, w') \<Longrightarrow> provider_org w (ovc_provider_id q) = Some tid \<Longrightarrow> keeps tid w w'"
  "create_time_off t w = Inr (f, w') \<Longrightarrow> provider_org w (toc_provider_id t) = Some tid \<Longrightarrow> keeps tid w w'"
  using provider_row_create_keeps by (fastforce dest!: schedule_create_rows)+

lemma schedule_update_keeps:
  "update_availability i p w = Inr (a, w') \<Longrightarrow> availability_get i w = Some r \<Longrightarrow>
     provider_org w (av_provider_id r) = Some tid \<Longrightarrow> keeps tid w w'"
  "update_override i q w = Inr (d, w') \<Longrightarrow> date_override_get i w = Some r' \<Longrightarrow>
     provider_org w (ov_provider_id r') = Some tid \<Longrightarrow> keeps tid w w'"
  "update_time_off ev i t w = Inr (f, w') \<Longrightarrow> time_off_get i w = Some r'' \<Longrightarrow>
     provider_org w (off_provider_id r'') = Some tid \<Longrightarrow> keeps tid w w'"
  using availability_update_keeps date_override_update_keeps time_off_update_keeps schedule_get_key
  by (fastforce dest!: schedule_update_rows)+

lemma keeps_bookingI:
  assumes out: "outside w' = outside w" and k: "tenant_keys w \<Longrightarrow> tbl_ok apt_id (appointments w')"
    and ap: "\<And>a i. tenant_links w \<Longrightarrow> a \<in> set (appointments w') \<Longrightarrow> apt_service_id a = Some i \<Longrightarrow> a \<in> set (appointments w) \<or>
      service_org w i = Some (apt_organization_id a)"
    and f: "\<And>t. tenant_keys w \<Longrightarrow> t \<noteq> tid \<Longrightarrow>
      [x \<leftarrow> appointments w'. apt_organization_id x = t] = [x \<leftarrow> appointments w. apt_organization_id x = t]"
  shows "keeps tid w w'"
  by (rule keeps_growI) (use outside_eqD [OF out] k ap f in \<open>simp_all add: tenant_keys_def\<close>)

lemma create_appointment_keeps_tenants:
  assumes c: "create_appointment ev payload actor i w = Some (Inr (a, w'))"
    and p: "provider_org w (apc_provider_id payload) = Some tid"
  shows "keeps tid w w'"
proof -
  from create_appointment_places [OF c] have en: "check_booking_entities payload w = Inr (apt_organization_id a)" by simp
  from c obtain r w1 where cr: "appointment_create ev r w = Inr (a, w1)" and b: "business w' = business w1"
    and r: "apt_service_id r = apc_service_id payload"
    by (auto simp: create_appointment_def split: option.splits sum.splits)
  note e = appointment_create_eq [OF cr]
  have t: "apt_organization_id a = tid"
    using en p by (auto simp: check_booking_entities_def Let_def owner_of_def provider_get_def split: option.splits if_splits)
  have sv: "service_org w j = Some tid" if "apc_service_id payload = Some j" for j
    using en t that by (auto simp: check_booking_entities_def Let_def owner_of_def service_get_def split: option.splits if_splits)
  have aps: "appointments w' = appointments w @ [a]" "apt_service_id a = apc_service_id payload"
      "apt_id a \<notin> apt_id ` set (appointments w)"
    using e b r by (auto dest!: business_eqD)
  have out: "outside w' = outside w" using outside_writes(7) [OF cr] outside_business [OF b] by simp
  show ?thesis
    by (rule keeps_bookingI [OF out]) (use aps t sv in \<open>auto simp: tenant_keys_def tbl_ok_append\<close>)
qed

lemma appointment_update_keeps_tenants:
  assumes u: "appointment_update ev b w = Inr w1" and g: "appointment_get (apt_id b) w = Some a"
    and b: "apt_organization_id b = apt_organization_id a" "apt_service_id b = apt_service_id a"
    and out: "outside w' = outside w" and ap: "appointments w' = appointments w1"
  shows "keeps (apt_organization_id a) w w'"
proof (rule keeps_bookingI [OF out])
  show "tenant_keys w \<Longrightarrow> tbl_ok apt_id (appointments w')"
    using appointment_repo.update_unique [OF u] by (simp add: ap tenant_keys_def)
  show "tenant_keys w \<Longrightarrow> t \<noteq> apt_organization_id a \<Longrightarrow>
      [x \<leftarrow> appointments w'. apt_organization_id x = t] = [x \<leftarrow> appointments w. apt_organization_id x = t]" for t
    using appointment_owned.others_update [OF u g b(1), of "\<lambda>k. k = t"] b(1) by (simp add: ap tenant_keys_def)
next
  fix x i assume old: "tenant_links w" and x: "x \<in> set (appointments w')" "apt_service_id x = Some i"
  have "a \<in> set (appointments w)" using appointment_get_mem [OF g] by simp
  with old have "service_org w j = Some (apt_organization_id a)" if "apt_service_id a = Some j" for j
    using that by (simp add: tenant_links_def)
  moreover have "x = b \<or> x \<in> set (appointments w)"
    using in_tbl_set [of x apt_id b] appointment_repo.update_rows [OF u] x(1) by (auto simp: ap)
  ultimately show "x \<in> set (appointments w) \<or> service_org w i = Some (apt_organization_id x)"
    using x(2) b by auto
qed

lemma cancel_appointment_keeps_tenants:
  assumes c: "cancel_appointment ev i notes ak ai w = (r, w')" and g: "appointment_get i w = Some a"
  shows "keeps (apt_organization_id a) w w'"
proof -
  have p: "appointments (snd (process_refund_for_cancellation ev x v)) = appointments v" for x v
    by (auto simp: process_refund_for_cancellation_def Let_def appointments_create_refund split: option.splits)
  have i: "apt_id a = i" using appointment_get_mem [OF g] by simp
  consider "w' = w" | b w1 where "appointment_update ev b w = Inr w1" "apt_id b = apt_id a"
      "apt_organization_id b = apt_organization_id a" "apt_service_id b = apt_service_id a"
      "appointments w' = appointments w1"
    using c g by (fastforce simp: cancel_appointment_def Let_def p split: if_splits sum.splits option.splits)
  then show ?thesis
  proof cases
    case 2
    then show ?thesis using appointment_update_keeps_tenants [of ev b w w1 a w'] g i outside_cancel [OF c] by simp
  qed simp
qed

lemma reschedule_appointment_keeps_tenants:
  assumes c: "reschedule_appointment ev i new ak ai w = Some (Inr (x, w'))" and g: "appointment_get i w = Some a"
  shows "keeps (apt_organization_id a) w w'"
proof -
  have i: "apt_id a = i" using appointment_get_mem [OF g] by simp
  from reschedule_appointment_Inr [OF c] g obtain b w1 where "appointment_update ev b w = Inr w1" "apt_id b = apt_id a"
      "apt_organization_id b = apt_organization_id a" "apt_service_id b = apt_service_id a" "business w' = business w1"
    by auto
  then show ?thesis
    using appointment_update_keeps_tenants [of ev b w w1 a w'] g i outside_reschedule [OF c] business_eqD by metis
qed

section \<open>Every request of the staff endpoints\<close>

text \<open>
  A request is made on behalf of an organization its caller acts for, in one of the given roles
  if any are given, or of one that does not exist yet.
\<close>

definition on_behalf :: "user \<Rightarrow> membership_role list \<Rightarrow> world \<Rightarrow> world \<Rightarrow> bool" where
  "on_behalf user roles w w' \<longleftrightarrow>
     (\<exists>tid. (acts_for w user tid roles \<or> tid \<notin> org_id ` set (organizations w)) \<and> keeps tid w w')"

definition settles :: "int \<Rightarrow> world \<Rightarrow> 'a outcome \<Rightarrow> bool" where
  "settles tid w r \<longleftrightarrow> keeps tid w (snd r)"

lemma on_behalf_refl [simp]: "on_behalf user roles w w"
  unfolding on_behalf_def by (rule exI [of _ "tbl_fresh org_id (organizations w)"]) simp

lemma on_behalf_settles: "acts_for w user tid roles \<Longrightarrow> settles tid w r \<Longrightarrow> on_behalf user roles w (snd r)"
  by (auto simp: on_behalf_def settles_def)

lemma on_behalf_require:
  "(\<And>b. r = Inr b \<Longrightarrow> on_behalf user roles w (snd (k b))) \<Longrightarrow> on_behalf user roles w (snd (require r w k))"
  by (auto simp: require_def split: sum.splits)

lemma on_behalf_admin:
  assumes "usr_is_active user" and "\<And>m. settles tid w (k m)"
  shows "on_behalf user ORG_ADMIN_ROLES w (snd (require (require_org_admin_membership tid user w) w k))"
proof (rule on_behalf_require)
  fix m assume "require_org_admin_membership tid user w = Inr m"
  then have "acts_for w user tid ORG_ADMIN_ROLES"
    using membership_acts_for [OF _ assms(1)] by (fastforce simp: require_org_admin_membership_def)
  then show "on_behalf user ORG_ADMIN_ROLES w (snd (k m))" using assms(2) by (rule on_behalf_settles)
qed

lemma settles_simps [simp]: "settles tid w (respond x w)" "settles tid w (Inl e, w)"
  by (simp_all add: settles_def respond_def)

lemma settles_require: "(\<And>b. r = Inr b \<Longrightarrow> settles tid w (k b)) \<Longrightarrow> settles tid w (require r w k)"
  by (auto simp: require_def split: sum.splits)

lemma settles_commit:
  "(\<And>x w'. r = Inr (x, w') \<Longrightarrow> keeps tid w w') \<Longrightarrow> (\<And>x w'. r = Inr (x, w') \<Longrightarrow> settles tid w' (k x w')) \<Longrightarrow>
     settles tid w (commit r w k)"
  by (auto simp: commit_def settles_def split: sum.splits prod.splits intro: keeps_trans)

lemma settles_and_then:
  "settles tid w r \<Longrightarrow> (\<And>x w'. r = (Inr x, w') \<Longrightarrow> settles tid w' (k x w')) \<Longrightarrow> settles tid w (and_then r k)"
  by (auto simp: and_then_def settles_def split: sum.splits prod.splits intro: keeps_trans)

lemma settles_integrity: "settles tid w r \<Longrightarrow> settles tid w (integrity_as c d r)"
  by (auto simp: integrity_as_def settles_def split: sum.splits prod.splits exn.splits)

lemmas settles_intros = settles_require settles_commit settles_and_then settles_integrity

lemma guard_Inr [simp]:
  "get_organization_or_404 i w = Inr x1 \<longleftrightarrow> organization_get i w = Some x1"
  "get_provider_or_404 i w = Inr x2 \<longleftrightarrow> provider_get i w = Some x2"
  "get_service_or_404 i w = Inr x3 \<longleftrightarrow> service_get i w = Some x3"
  "check_that b c d = Inr () \<longleftrightarrow> b" "or_404 d y = Inr z \<longleftrightarrow> y = Some z"
  "saving r u = Inr (r', w') \<longleftrightarrow> r' = r \<and> u = Inr w'"
  by (auto simp: get_organization_or_404_def get_provider_or_404_def get_service_or_404_def or_404_def check_that_def
      saving_def split: option.splits sum.splits)

lemma get_keys:
  "organization_get i w = Some x1 \<Longrightarrow> org_id x1 = i" "location_get i w = Some x2 \<Longrightarrow> loc_id x2 = i"
  "provider_get i w = Some x3 \<Longrightarrow> prov_id x3 = i" "service_get i w = Some x4 \<Longrightarrow> svc_id x4 = i"
  "organization_member_get i w = Some x5 \<Longrightarrow> mem_id x5 = i"
  by (auto simp: organization_get_def location_get_def provider_get_def service_get_def organization_member_get_def
      dest: tbl_get_Some)

lemma organization_update_keeps:
  "organization_update r slug w = Inr (x, w') \<Longrightarrow> organization_get i w = Some r0 \<Longrightarrow> org_id r = i \<Longrightarrow> keeps i w w'"
  using organization_save_keeps get_keys(1)
  by (fastforce simp: organization_update_def Let_def split: option.splits)

lemma location_update_keeps:
  "location_update r slug w = Inr (x, w') \<Longrightarrow> location_get i w = Some r0 \<Longrightarrow> loc_id r = i \<Longrightarrow>
     loc_organization_id r = loc_organization_id r0 \<Longrightarrow> keeps (loc_organization_id r0) w w'"
  using location_save_keeps get_keys(2)
  by (fastforce simp: location_update_def Let_def split: option.splits)

lemma patched_keys [simp]:
  "org_id (organization_patched p r) = org_id r" "loc_id (location_patched q l) = loc_id l"
  "loc_organization_id (location_patched q l) = loc_organization_id l"
  "prov_id (provider_patched u v) = prov_id v"
  "prov_organization_id (provider_patched u v) = prov_organization_id v"
  "svc_id (service_patched y z) = svc_id z" "svc_organization_id (service_patched y z) = svc_organization_id z"
  by (simp_all add: organization_patched_def location_patched_def provider_patched_def service_patched_def)

lemma update_organization_tenant:
  assumes a: "usr_is_active user"
  shows "on_behalf user ORG_ADMIN_ROLES w (snd (update_organization user i p w))"
  unfolding update_organization_def
  by (rule on_behalf_admin [OF a] on_behalf_require |
      auto simp: get_keys intro!: settles_intros intro: organization_update_keeps)+

lemma on_behalf_new:
  assumes "\<And>r w1. organization_create payload slug w = Inr (r, w1) \<Longrightarrow> settles (org_id r) w1 (k r w1)"
  shows "on_behalf user roles w (snd (commit (organization_create payload slug w) w k))"
proof (cases "organization_create payload slug w")
  case (Inr x)
  then obtain r w1 where c: "organization_create payload slug w = Inr (r, w1)" by (cases x) simp
  from organization_create_keeps [OF c] assms [OF c] have "keeps (org_id r) w (snd (k r w1))"
    by (auto simp: settles_def intro: keeps_trans)
  moreover have "org_id r \<notin> org_id ` set (organizations w)" using organization_create_eq [OF c] by simp
  ultimately show ?thesis by (auto simp: c commit_def on_behalf_def)
qed (simp add: commit_def)

lemma create_organization_tenant:
  "on_behalf user roles w (snd (create_organization user payload slug w))"
  unfolding create_organization_def
proof (rule on_behalf_require, rule on_behalf_new, rule settles_commit, goal_cases)
  case (1 u r w1 l w2)
  then show ?case
    by (fastforce dest: location_create_keeps)
next
  case (2 u r w1 l w2)
  show ?case
    by (auto split: option.split intro!: settles_commit dest: member_add_keeps)
qed

section \<open>Deleting an organization\<close>

lemma owned_ids:
  "tbl_ok ident t \<Longrightarrow> i \<in> ident ` {y \<in> set t. owner y = k} \<longleftrightarrow> owner_of ident owner t i = Some k"
  by (auto simp: owner_of_mem dest: owner_of_Some)

lemma owner_of_rest:
  "tbl_ok ident t \<Longrightarrow> owner_of ident owner [x \<leftarrow> t. owner_of ident owner t (ident x) \<noteq> Some k] i =
    (if owner_of ident owner t i = Some k then None else owner_of ident owner t i)"
  using owner_of_left [of ident t owner k i] by (simp add: owned_ids)

lemma filter_rest:
  assumes "tbl_ok ident t" and "k' \<noteq> k"
  shows "[x \<leftarrow> t. owner_of ident owner t (ident x) \<noteq> Some k \<and> owner x = k'] = [x \<leftarrow> t. owner x = k']"
  using assms by (intro filter_cong) (auto simp: owner_of_mem)

abbreviation appointment_org :: "world \<Rightarrow> int \<Rightarrow> int option" where
  "appointment_org w \<equiv> owner_of apt_id apt_organization_id (appointments w)"

text \<open>What is left, told by owners.\<close>

lemma organization_delete_rows:
  assumes "organization_delete r w = Inr w'" and "tenant_keys w"
  defines "gone \<equiv> \<lambda>owner i. owner i = Some (org_id r)"
  shows "organizations w' = [x \<leftarrow> organizations w. org_id x \<noteq> org_id r]"
    "organization_members w' = [x \<leftarrow> organization_members w. mem_organization_id x \<noteq> org_id r]"
    "locations w' = [x \<leftarrow> locations w. \<not> gone (location_org w) (loc_id x)]"
    "providers w' = [x \<leftarrow> providers w. \<not> gone (provider_org w) (prov_id x)]"
    "services w' = [x \<leftarrow> services w. \<not> gone (service_org w) (svc_id x)]"
    "provider_services w' = [x \<leftarrow> provider_services w.
       \<not> gone (provider_org w) (ps_provider_id x) \<and> \<not> gone (service_org w) (ps_service_id x)]"
    "provider_locations w' = [x \<leftarrow> provider_locations w.
       \<not> gone (provider_org w) (pl_provider_id x) \<and> \<not> gone (location_org w) (pl_location_id x)]"
    "service_locations w' = [x \<leftarrow> service_locations w.
       \<not> gone (service_org w) (sl_service_id x) \<and> \<not> gone (location_org w) (sl_location_id x)]"
    "availabilities w' = [x \<leftarrow> availabilities w. \<not> gone (provider_org w) (av_provider_id x)]"
    "date_overrides w' = [x \<leftarrow> date_overrides w. \<not> gone (provider_org w) (ov_provider_id x)]"
    "time_offs w' = [x \<leftarrow> time_offs w. \<not> gone (provider_org w) (off_provider_id x)]"
    "appointments w' = map (\<lambda>a. a\<lparr>apt_service_id := cleared {i. gone (service_org w) i} (apt_service_id a)\<rparr>)
       [a \<leftarrow> appointments w. \<not> gone (appointment_org w) (apt_id a)]"
proof -
  have k: "tbl_ok loc_id (locations w)" "tbl_ok prov_id (providers w)" "tbl_ok svc_id (services w)"
      "tbl_ok apt_id (appointments w)" using assms(2) by (simp_all add: tenant_keys_def)
  have ids: "svc_id ` {y \<in> set (services w). svc_organization_id y = org_id r} = {i. service_org w i = Some (org_id r)}"
    using owned_ids [OF k(3)] by blast
  show "organizations w' = [x \<leftarrow> organizations w. org_id x \<noteq> org_id r]"
    "organization_members w' = [x \<leftarrow> organization_members w. mem_organization_id x \<noteq> org_id r]"
    "locations w' = [x \<leftarrow> locations w. \<not> gone (location_org w) (loc_id x)]"
    "providers w' = [x \<leftarrow> providers w. \<not> gone (provider_org w) (prov_id x)]"
    "services w' = [x \<leftarrow> services w. \<not> gone (service_org w) (svc_id x)]"
    "provider_services w' = [x \<leftarrow> provider_services w.
       \<not> gone (provider_org w) (ps_provider_id x) \<and> \<not> gone (service_org w) (ps_service_id x)]"
    "provider_locations w' = [x \<leftarrow> provider_locations w.
       \<not> gone (provider_org w) (pl_provider_id x) \<and> \<not> gone (location_org w) (pl_location_id x)]"
    "service_locations w' = [x \<leftarrow> service_locations w.
       \<not> gone (service_org w) (sl_service_id x) \<and> \<not> gone (location_org w) (sl_location_id x)]"
    "availabilities w' = [x \<leftarrow> availabilities w. \<not> gone (provider_org w) (av_provider_id x)]"
    "date_overrides w' = [x \<leftarrow> date_overrides w. \<not> gone (provider_org w) (ov_provider_id x)]"
    "time_offs w' = [x \<leftarrow> time_offs w. \<not> gone (provider_org w) (off_provider_id x)]"
    "appointments w' = map (\<lambda>a. a\<lparr>apt_service_id := cleared {i. gone (service_org w) i} (apt_service_id a)\<rparr>)
       [a \<leftarrow> appointments w. \<not> gone (appointment_org w) (apt_id a)]"
    using assms(1) by (auto simp: organization_delete_def Let_def tbl_del_def gone_def ids
        owned_ids [OF k(1)] owned_ids [OF k(2)] owned_ids [OF k(4)] split: if_split_asm)
qed

lemma filter_implied: "(\<And>x. x \<in> set xs \<Longrightarrow> P x \<Longrightarrow> Q x) \<Longrightarrow> [x \<leftarrow> xs. Q x \<and> P x] = [x \<leftarrow> xs. P x]"
  by (induction xs) auto

lemma organization_delete_keeps:
  assumes d: "organization_delete r w = Inr w'"
  shows "keeps (org_id r) w w'"
proof (rule keepsI)
  assume ok: "tenants_ok w"
  then have k: "tenant_keys w" and old: "tenant_links w" by (simp_all add: tenants_ok_def)
  note rows = organization_delete_rows [OF d k]
  have p: "provider_org w' i = (if provider_org w i = Some (org_id r) then None else provider_org w i)"
    and s: "service_org w' i = (if service_org w i = Some (org_id r) then None else service_org w i)"
    and l: "location_org w' i = (if location_org w i = Some (org_id r) then None else location_org w i)" for i
    using k by (simp_all add: rows owner_of_rest tenant_keys_def)
  show "tenant_keys w'"
    using k by (simp add: rows tenant_keys_def tbl_ok_def distinct_map_filter comp_def)
  have "linked a b \<Longrightarrow> a \<noteq> Some i \<Longrightarrow> linked (if a = Some i then None else a) (if b = Some i then None else b)" for a b i
    by (auto simp: linked_def)
  then show "tenant_links w'"
    using old k unfolding tenant_links_def p s l
    by (auto simp: rows tenant_keys_def owner_of_mem cleared_def split: option.splits if_splits)
next
  fix t assume ok: "tenants_ok w" and t: "t \<noteq> org_id r"
  then have k: "tenant_keys w" and old: "tenant_links w" by (simp_all add: tenants_ok_def)
  note rows = organization_delete_rows [OF d k]
  have p: "(provider_org w' i = Some t) = (provider_org w i = Some t)"
    and s: "(service_org w' i = Some t) = (service_org w i = Some t)" for i
    using k t by (auto simp: rows owner_of_rest tenant_keys_def)
  have l: "linked a b \<Longrightarrow> b = Some t \<Longrightarrow> a = Some t" for a b by (simp add: linked_def)
  have k': "tbl_ok loc_id (locations w)" "tbl_ok prov_id (providers w)" "tbl_ok svc_id (services w)"
      "tbl_ok apt_id (appointments w)" using k by (simp_all add: tenant_keys_def)
  have links: "x \<in> set (provider_services w) \<Longrightarrow> linked (service_org w (ps_service_id x)) (provider_org w (ps_provider_id x))"
    "y \<in> set (provider_locations w) \<Longrightarrow> linked (location_org w (pl_location_id y)) (provider_org w (pl_provider_id y))"
    "z \<in> set (service_locations w) \<Longrightarrow> linked (location_org w (sl_location_id z)) (service_org w (sl_service_id z))" for x y z
    using old by (simp_all add: tenant_links_def)
  have "[x \<leftarrow> organizations w'. org_id x = t] = [x \<leftarrow> organizations w. org_id x = t]"
    "[x \<leftarrow> organization_members w'. mem_organization_id x = t] = [x \<leftarrow> organization_members w. mem_organization_id x = t]"
    "[x \<leftarrow> locations w'. loc_organization_id x = t] = [x \<leftarrow> locations w. loc_organization_id x = t]"
    "[x \<leftarrow> providers w'. prov_organization_id x = t] = [x \<leftarrow> providers w. prov_organization_id x = t]"
    "[x \<leftarrow> services w'. svc_organization_id x = t] = [x \<leftarrow> services w. svc_organization_id x = t]"
    using t by (auto simp: rows owner_of_mem k' intro!: filter_implied)
  moreover have "[x \<leftarrow> provider_services w'. provider_org w (ps_provider_id x) = Some t] =
      [x \<leftarrow> provider_services w. provider_org w (ps_provider_id x) = Some t]"
    "[x \<leftarrow> provider_locations w'. provider_org w (pl_provider_id x) = Some t] =
      [x \<leftarrow> provider_locations w. provider_org w (pl_provider_id x) = Some t]"
    "[x \<leftarrow> service_locations w'. service_org w (sl_service_id x) = Some t] =
      [x \<leftarrow> service_locations w. service_org w (sl_service_id x) = Some t]"
    using t links l unfolding rows filter_filter by (fastforce intro!: filter_implied)+
  moreover have "[x \<leftarrow> availabilities w'. provider_org w (av_provider_id x) = Some t] =
      [x \<leftarrow> availabilities w. provider_org w (av_provider_id x) = Some t]"
    "[x \<leftarrow> date_overrides w'. provider_org w (ov_provider_id x) = Some t] =
      [x \<leftarrow> date_overrides w. provider_org w (ov_provider_id x) = Some t]"
    "[x \<leftarrow> time_offs w'. provider_org w (off_provider_id x) = Some t] =
      [x \<leftarrow> time_offs w. provider_org w (off_provider_id x) = Some t]"
    using t by (auto simp: rows intro!: filter_implied)
  moreover have "[a \<leftarrow> appointments w'. apt_organization_id a = t] = [a \<leftarrow> appointments w. apt_organization_id a = t]"
  proof -
    have keep: "a\<lparr>apt_service_id := cleared {i. service_org w i = Some (org_id r)} (apt_service_id a)\<rparr> = a"
      if "a \<in> set (appointments w)" "apt_organization_id a = t" for a
      using old that t by (cases "apt_service_id a") (auto simp: tenant_links_def cleared_def)
    have "[a \<leftarrow> appointments w'. apt_organization_id a = t] =
      map (\<lambda>a. a\<lparr>apt_service_id := cleared {i. service_org w i = Some (org_id r)} (apt_service_id a)\<rparr>)
        [a \<leftarrow> [a \<leftarrow> appointments w. appointment_org w (apt_id a) \<noteq> Some (org_id r)]. apt_organization_id a = t]"
      unfolding rows by (simp add: filter_map comp_def)
    also have "[a \<leftarrow> [a \<leftarrow> appointments w. appointment_org w (apt_id a) \<noteq> Some (org_id r)]. apt_organization_id a = t] =
      [a \<leftarrow> appointments w. apt_organization_id a = t]"
      using t by (auto simp: owner_of_mem k' intro!: filter_implied)
    finally show ?thesis by (rule trans) (rule map_idI, use keep in simp)
  qed
  ultimately show "tenant_view t w' = tenant_view t w"
    unfolding tenant_view_def p s by simp
qed

lemma delete_organization_tenant:
  assumes a: "usr_is_active user"
  shows "on_behalf user ORG_ADMIN_ROLES w (snd (delete_organization user i w))"
  unfolding delete_organization_def
  by (rule on_behalf_admin [OF a] on_behalf_require settles_commit | auto simp: get_keys dest: organization_delete_keeps)+

section \<open>Members and locations\<close>

lemma settles_ok: "(tenants_ok w \<Longrightarrow> settles tid w r) \<Longrightarrow> settles tid w r"
  by (auto simp: settles_def keeps_def)

lemma add_or_reactivate_member_settles: "settles tid w (add_or_reactivate_member tid uid role w)"
proof (rule settles_ok)
  assume ok: "tenants_ok w"
  have get: "organization_member_get (mem_id m) w = Some m \<and> mem_organization_id m = tid"
    if "organization_member_get_by_org_and_user tid uid w = Some m" for m
    using that ok tbl_get_mem [of mem_id "organization_members w" m]
    by (auto simp: organization_member_get_by_org_and_user_def organization_member_get_def find_Some_iff
        tenants_ok_def tenant_keys_def)
  have up: "keeps tid w w'" if "organization_member_get_by_org_and_user tid uid w = Some m"
    "organization_member_update (m\<lparr>mem_role := role, mem_is_active := True\<rparr>) w = Inr w'" for m w'
    using member_update_keeps [OF that(2)] get [OF that(1)] by simp
  show "settles tid w (add_or_reactivate_member tid uid role w)"
  proof (cases "organization_member_add \<lparr>mem_id = 0, mem_organization_id = tid, mem_user_id = uid, mem_role = role,
      mem_is_active = True\<rparr> w")
    case (Inl e)
    then show ?thesis
      by (cases e) (auto simp: add_or_reactivate_member_def Let_def up split: option.split intro!: settles_commit)
  next
    case (Inr x)
    then show ?thesis
      using member_add_keeps [of "\<lparr>mem_id = 0, mem_organization_id = tid, mem_user_id = uid, mem_role = role,
        mem_is_active = True\<rparr>" w]
      by (cases x) (auto simp: add_or_reactivate_member_def settles_def respond_def)
  qed
qed

lemma add_member_tenant:
  assumes a: "usr_is_active user"
  shows "on_behalf user ORG_ADMIN_ROLES w (snd (add_member user i u role w))"
    "on_behalf user ORG_ADMIN_ROLES w (snd (add_member_legacy user i u role w))"
  unfolding add_member_def add_member_legacy_def
  by (rule on_behalf_admin [OF a] on_behalf_require add_or_reactivate_member_settles)+

lemma get_member_of_Inr [simp]:
  "get_member_of i j w = Inr m \<longleftrightarrow> organization_member_get j w = Some m \<and> mem_organization_id m = i"
  by (auto simp: get_member_of_def split: option.splits)

lemma member_settles:
  assumes "organization_member_get i w = Some m"
  shows "settles (mem_organization_id m) w (member_update m p w)" "settles (mem_organization_id m) w (member_deactivate m w)"
  using assms member_update_keeps [of "m\<lparr>mem_role := r, mem_is_active := b\<rparr>" w _ m for r b]
    member_update_keeps [of "m\<lparr>mem_is_active := b\<rparr>" w _ m for b]
  by (auto simp: member_update_def member_deactivate_def Let_def get_keys intro!: settles_commit)

lemma update_member_tenant:
  assumes a: "usr_is_active user"
  shows "on_behalf user ORG_ADMIN_ROLES w (snd (update_member user i j p w))"
    "on_behalf user ORG_ADMIN_ROLES w (snd (update_member_legacy user j p w))"
    "on_behalf user ORG_ADMIN_ROLES w (snd (deactivate_member user i j w))"
    "on_behalf user ORG_ADMIN_ROLES w (snd (deactivate_member_legacy user j w))"
  unfolding update_member_def update_member_legacy_def deactivate_member_def deactivate_member_legacy_def
  by (rule on_behalf_admin [OF a] on_behalf_require | auto intro: member_settles)+

lemma location_by_org:
  "location_get_by_org_and_id i j w = Some l \<Longrightarrow> tbl_ok loc_id (locations w) \<Longrightarrow>
     location_get j w = Some l \<and> loc_organization_id l = i"
  using tbl_get_mem [of loc_id "locations w" l]
  by (auto simp: location_get_by_org_and_id_def location_get_def find_Some_iff)

lemma get_owner:
  "provider_get i w = Some p \<Longrightarrow> provider_org w i = Some (prov_organization_id p)"
  "service_get i w = Some s \<Longrightarrow> service_org w i = Some (svc_organization_id s)"
  "location_get i w = Some l \<Longrightarrow> location_org w i = Some (loc_organization_id l)"
  by (simp_all add: owner_of_def provider_get_def service_get_def location_get_def)

lemma location_change_settles:
  assumes "location_get_by_org_and_id i j w = Some l" and "loc_id r = loc_id l" and "loc_organization_id r = loc_organization_id l"
  shows "settles i w (commit (location_update r slug w) w (\<lambda>x. respond (g x)))"
proof (rule settles_ok)
  assume "tenants_ok w"
  then have "location_get j w = Some l" "loc_organization_id l = i"
    using location_by_org [OF assms(1)] by (simp_all add: tenants_ok_def tenant_keys_def)
  then show "settles i w (commit (location_update r slug w) w (\<lambda>x. respond (g x)))"
    using location_update_keeps [of r slug w _ _ j l] assms(2,3) by (auto simp: get_keys intro!: settles_commit)
qed

lemma location_tenant:
  assumes a: "usr_is_active user"
  shows "on_behalf user ORG_ADMIN_ROLES w (snd (create_organization_location user i payload slug w))"
    "on_behalf user ORG_ADMIN_ROLES w (snd (update_organization_location user i j p w))"
    "on_behalf user ORG_ADMIN_ROLES w (snd (deactivate_organization_location user i j w))"
proof -
  show "on_behalf user ORG_ADMIN_ROLES w (snd (create_organization_location user i payload slug w))"
    unfolding create_organization_location_def
    by (rule on_behalf_admin [OF a] on_behalf_require settles_commit | fastforce dest: location_create_keeps)+
  show "on_behalf user ORG_ADMIN_ROLES w (snd (update_organization_location user i j p w))"
    unfolding update_organization_location_def
    by (rule on_behalf_admin [OF a] on_behalf_require settles_require |
        auto intro: location_change_settles [where g = "\<lambda>x. x"])+
  show "on_behalf user ORG_ADMIN_ROLES w (snd (deactivate_organization_location user i j w))"
    unfolding deactivate_organization_location_def
    by (rule on_behalf_admin [OF a] on_behalf_require settles_require |
        auto intro: location_change_settles [where g = "\<lambda>_. ()"])+
qed

lemma assignment_tenant:
  assumes a: "usr_is_active user"
  shows "on_behalf user ORG_ADMIN_ROLES w (snd (assign_provider_location user i j w))"
    "on_behalf user ORG_ADMIN_ROLES w (snd (unassign_provider_location user i j w))"
    "on_behalf user ORG_ADMIN_ROLES w (snd (assign_service_location user i j w))"
    "on_behalf user ORG_ADMIN_ROLES w (snd (unassign_service_location user i j w))"
    "on_behalf user ORG_ADMIN_ROLES w (snd (unassign_provider_service user i j w))"
proof -
  show "on_behalf user ORG_ADMIN_ROLES w (snd (assign_provider_location user i j w))"
    unfolding assign_provider_location_def
    by (rule on_behalf_admin [OF a] on_behalf_require settles_require settles_commit |
        auto simp: get_keys get_owner intro: provider_location_create_keeps)+
  show "on_behalf user ORG_ADMIN_ROLES w (snd (assign_service_location user i j w))"
    unfolding assign_service_location_def
    by (rule on_behalf_admin [OF a] on_behalf_require settles_require settles_commit |
        auto simp: get_keys get_owner intro: service_location_create_keeps)+
  show "on_behalf user ORG_ADMIN_ROLES w (snd (unassign_provider_location user i j w))"
    unfolding unassign_provider_location_def
    by (rule on_behalf_admin [OF a] on_behalf_require settles_require |
        auto simp: settles_def respond_def get_owner intro: provider_location_delete_keeps)+
  show "on_behalf user ORG_ADMIN_ROLES w (snd (unassign_service_location user i j w))"
    unfolding unassign_service_location_def
    by (rule on_behalf_admin [OF a] on_behalf_require settles_require |
        auto simp: settles_def respond_def get_owner intro: service_location_delete_keeps)+
  show "on_behalf user ORG_ADMIN_ROLES w (snd (unassign_provider_service user i j w))"
    unfolding unassign_provider_service_def
    by (rule on_behalf_admin [OF a] on_behalf_require settles_require |
        auto simp: settles_def respond_def get_owner intro: provider_service_delete_keeps)+
qed

section \<open>Providers and services\<close>

lemma assign_provider_settles:
  "provider_org w i = Some tid \<Longrightarrow> \<forall>l \<in> set ls. location_org w (loc_id l) = Some tid \<Longrightarrow>
     settles tid w (assign_provider_to i ls w)"
proof (induction i ls w rule: assign_provider_to.induct)
  case (2 i l ls w)
  have "settles tid w' (assign_provider_to i ls w')"
    if "provider_location_get i (loc_id l) w = None"
      "provider_location_create \<lparr>pl_id = 0, pl_provider_id = i, pl_location_id = loc_id l\<rparr> w = Inr (x, w')" for x w'
    using 2(1) [OF that(1)] provider_location_create_eq [OF that(2)] 2(3,4) by auto
  moreover have "keeps tid w w'"
    if "provider_location_create \<lparr>pl_id = 0, pl_provider_id = i, pl_location_id = loc_id l\<rparr> w = Inr (x, w')" for x w'
    using provider_location_create_keeps [OF that] 2(3,4) by simp
  ultimately show ?case using 2(2-4) by (auto split: option.split intro!: settles_commit)
qed simp

lemma offer_service_settles:
  "service_org w i = Some tid \<Longrightarrow> \<forall>l \<in> set ls. location_org w (loc_id l) = Some tid \<Longrightarrow>
     settles tid w (offer_service_at i ls w)"
proof (induction i ls w rule: offer_service_at.induct)
  case (2 i l ls w)
  have "settles tid w' (offer_service_at i ls w')"
    if "service_location_get i (loc_id l) w = None"
      "service_location_create \<lparr>sl_id = 0, sl_service_id = i, sl_location_id = loc_id l\<rparr> w = Inr (x, w')" for x w'
    using 2(1) [OF that(1)] service_location_create_eq [OF that(2)] 2(3,4) by auto
  moreover have "keeps tid w w'"
    if "service_location_create \<lparr>sl_id = 0, sl_service_id = i, sl_location_id = loc_id l\<rparr> w = Inr (x, w')" for x w'
    using service_location_create_keeps [OF that] 2(3,4) by simp
  ultimately show ?case using 2(2-4) by (auto split: option.split intro!: settles_commit)
qed simp

lemma active_locations:
  "tenants_ok w \<Longrightarrow> l \<in> set (location_list_by_organization tid b w) \<Longrightarrow> location_org w (loc_id l) = Some tid"
  by (auto simp: location_list_by_organization_def owner_of_mem tenants_ok_def tenant_keys_def)

lemma assign_active_settles:
  "provider_org w i = Some tid \<Longrightarrow> settles tid w (assign_provider_to i (location_list_by_organization tid b w) w)"
  by (rule settles_ok) (simp add: assign_provider_settles active_locations)

lemma offer_active_settles:
  "service_org w i = Some tid \<Longrightarrow> settles tid w (offer_service_at i (location_list_by_organization tid b w) w)"
  by (rule settles_ok) (simp add: offer_service_settles active_locations)

lemma member_by_org:
  "organization_member_get_by_org_and_user tid uid w = Some m \<Longrightarrow> tenants_ok w \<Longrightarrow>
     organization_member_get (mem_id m) w = Some m \<and> mem_organization_id m = tid"
  using tbl_get_mem [of mem_id "organization_members w" m]
  by (auto simp: organization_member_get_by_org_and_user_def organization_member_get_def find_Some_iff
      tenants_ok_def tenant_keys_def)

lemma link_provider_user_settles: "settles tid w (link_provider_user tid uid w)"
proof (rule settles_ok)
  assume ok: "tenants_ok w"
  have "keeps tid w w'" if "organization_member_get_by_org_and_user tid u w = Some m"
    "organization_member_update (m\<lparr>mem_is_active := True\<rparr>) w = Inr w'" for m w' u
    using member_update_keeps [OF that(2)] member_by_org [OF that(1) ok] by simp
  moreover have "keeps tid w w'" if "organization_member_add \<lparr>mem_id = 0, mem_organization_id = tid, mem_user_id = u,
      mem_role = PROVIDER, mem_is_active = True\<rparr> w = Inr (x, w')" for u x w'
    using member_add_keeps [OF that] by simp
  ultimately show "settles tid w (link_provider_user tid uid w)"
    by (auto simp: link_provider_user_def split: option.split intro!: settles_commit)
qed

lemma outcome_Inr [simp]:
  "integrity_as c d r = (Inr x, w') \<longleftrightarrow> r = (Inr x, w')"
  "commit q w respond = (Inr x, w') \<longleftrightarrow> q = Inr (x, w')"
  by (auto simp: integrity_as_def commit_def respond_def split: sum.splits prod.splits exn.splits)

lemma provider_create_owner:
  assumes "provider_create r w = Inr (r', w')"
  shows "provider_org w' (prov_id r') = Some (prov_organization_id r)"
proof -
  have "prov_organization_id r' = prov_organization_id r"
    using provider_create_eq [OF assms] by (metis provider.select_convs(2) provider.surjective provider.update_convs(1))
  with provider_owned.owner_create [OF assms] show ?thesis by simp
qed

lemma create_provider_tenant:
  assumes a: "usr_is_active user"
  shows "on_behalf user ORG_ADMIN_ROLES w (snd (create_provider user payload w))"
  unfolding create_provider_def
  by (rule on_behalf_admin [OF a] on_behalf_require settles_and_then settles_integrity settles_commit
      link_provider_user_settles assign_active_settles | simp add: provider_create_owner provider_create_keeps)+

lemma provider_change_settles:
  assumes "provider_get i w = Some p" and "prov_id r = prov_id p" and "prov_organization_id r = prov_organization_id p"
  shows "settles (prov_organization_id p) w (commit (saving r (provider_update r w)) w respond)"
  using provider_update_keeps [of r w _ p] assms by (auto simp: get_keys intro!: settles_commit)

lemma provider_tenant:
  assumes a: "usr_is_active user"
  shows "on_behalf user ORG_ADMIN_ROLES w (snd (update_provider user i p w))"
    "on_behalf user ORG_ADMIN_ROLES w (snd (activate_provider user i w))"
    "on_behalf user ORG_ADMIN_ROLES w (snd (deactivate_provider user i w))"
  unfolding update_provider_def activate_provider_def deactivate_provider_def Let_def
  by (rule on_behalf_admin [OF a] on_behalf_require settles_integrity | auto intro: provider_change_settles)+

lemma service_create_owner:
  assumes "service_create r w = Inr (r', w')"
  shows "service_org w' (svc_id r') = Some (svc_organization_id r)"
    "provider_org w' = provider_org w" "location_org w' = location_org w"
proof -
  have "svc_organization_id r' = svc_organization_id r"
    using service_create_eq [OF assms] by (metis service.select_convs(2) service.surjective service.update_convs(1))
  with service_owned.owner_create [OF assms] show "service_org w' (svc_id r') = Some (svc_organization_id r)" by simp
  show "provider_org w' = provider_org w" "location_org w' = location_org w"
    using service_create_eq [OF assms] by simp_all
qed

lemma provider_service_create_owners:
  "provider_service_create r w = Inr (r', w') \<Longrightarrow> provider_org w' = provider_org w \<and> service_org w' = service_org w \<and>
     locations w' = locations w"
  by (auto dest: provider_service_create_eq)

lemma assign_existing_service_settles:
  assumes "provider_get i w = Some p"
  shows "settles (prov_organization_id p) w (assign_existing_service p j d w)"
  unfolding assign_existing_service_def
  using provider_service_create_keeps provider_service_create_owners get_owner(2) get_keys(3) [OF assms] get_owner(1) [OF assms]
  by (auto simp: get_keys intro!: settles_require settles_commit settles_and_then offer_active_settles)

lemma service_with_provider_settles:
  assumes "provider_get i w = Some p" and "svc_provider_id r = i" and "svc_organization_id r = prov_organization_id p"
    and "\<And>s w1. service_create r w = Inr (s, w1) \<Longrightarrow> settles (prov_organization_id p) w1 (k s w1)"
  shows "settles (prov_organization_id p) w (commit (service_create r w) w k)"
  using service_create_keeps [of r w] assms get_owner(1) [OF assms(1)] by (auto intro!: settles_commit)

lemma new_assignment_settles:
  assumes "provider_service_create \<lparr>ps_id = 0, ps_provider_id = i, ps_service_id = j, ps_duration_minutes_override = d\<rparr> w = Inr (x, w')"
    and "provider_org w i = Some tid" and "service_org w j = Some tid"
  shows "keeps tid w w'" "provider_org w' i = Some tid" "service_org w' j = Some tid"
  using provider_service_create_keeps [OF assms(1)] provider_service_create_owners [OF assms(1)] assms(2,3) by simp_all

lemma create_assigned_service_settles:
  assumes p: "provider_get i w = Some p"
  shows "settles (prov_organization_id p) w (create_assigned_service p s w)"
  unfolding create_assigned_service_def
  by (rule settles_integrity, rule service_with_provider_settles [OF p])
    (use get_keys(3) [OF p] get_owner(1) [OF p] in
      \<open>auto simp: service_create_owner dest: new_assignment_settles
        intro!: settles_commit settles_and_then offer_active_settles\<close>)

lemma create_provider_service_tenant:
  assumes a: "usr_is_active user"
  shows "on_behalf user ORG_ADMIN_ROLES w (snd (create_provider_service user i payload w))"
  unfolding create_provider_service_def
  by (rule on_behalf_admin [OF a] on_behalf_require |
      auto split: provider_service_payload.split intro: assign_existing_service_settles create_assigned_service_settles)+

lemma ensure_assigned_settles:
  "provider_org w i = Some tid \<Longrightarrow> service_org w j = Some tid \<Longrightarrow> settles tid w (ensure_assigned i j w)"
  by (auto simp: ensure_assigned_def dest: new_assignment_settles split: option.split intro!: settles_commit)

lemma ensure_assigned_owners:
  "ensure_assigned i j w = (Inr u, w') \<Longrightarrow> provider_org w' = provider_org w \<and> service_org w' = service_org w"
  by (auto simp: ensure_assigned_def commit_def respond_def dest: provider_service_create_owners split: option.splits sum.splits)

lemma create_service_tenant:
  assumes a: "usr_is_active user"
  shows "on_behalf user ORG_ADMIN_ROLES w (snd (create_service user payload w))"
proof -
  have "settles (svc_organization_id payload) w (integrity_as c d (commit (service_create payload w) w (\<lambda>service w1.
       and_then (ensure_assigned (prov_id p) (svc_id service) w1) (\<lambda>_ w2.
       and_then (offer_service_at (svc_id service)
                   (location_list_by_organization (svc_organization_id payload) False w2) w2) (\<lambda>_ w3.
       respond service w3)))))"
    if p: "provider_get (svc_provider_id payload) w = Some p" and o': "prov_organization_id p = svc_organization_id payload" for p c d
    unfolding o' [symmetric]
    by (rule settles_integrity, rule service_with_provider_settles [OF p])
      (use get_keys(3) [OF p] get_owner(1) [OF p] o' in
        \<open>auto simp: service_create_owner ensure_assigned_owners
          intro!: settles_and_then offer_active_settles ensure_assigned_settles\<close>)
  then show ?thesis
    unfolding create_service_def
    by (intro on_behalf_require on_behalf_admin [OF a]) auto
qed

lemma service_provider_org:
  "service_get i w = Some s \<Longrightarrow> tenants_ok w \<Longrightarrow> provider_org w (svc_provider_id s) = Some (svc_organization_id s)"
  using service_get_mem by (fastforce simp: tenants_ok_def tenant_links_def)

lemma service_change_settles:
  assumes g: "service_get i w = Some s" and r: "svc_id r = svc_id s" "svc_organization_id r = svc_organization_id s"
    and p: "tenants_ok w \<Longrightarrow> provider_org w (svc_provider_id r) = Some (svc_organization_id s)"
    and k: "\<And>w1. service_update r w = Inr w1 \<Longrightarrow> tenants_ok w \<Longrightarrow> service_org w1 (svc_id r) = Some (svc_organization_id s) \<Longrightarrow>
      provider_org w1 = provider_org w \<Longrightarrow> settles (svc_organization_id s) w1 (k r w1)"
  shows "settles (svc_organization_id s) w (commit (saving r (service_update r w)) w k)"
proof (rule settles_ok, rule settles_commit)
  assume ok: "tenants_ok w"
  have g': "service_get (svc_id r) w = Some s" using g get_keys(4) [OF g] r(1) by simp
  fix x w1 assume "saving r (service_update r w) = Inr (x, w1)"
  then have u: "service_update r w = Inr w1" and x: "x = r" by simp_all
  show "keeps (svc_organization_id s) w w1"
    using service_update_keeps [OF u g' r(2)] p [OF ok] r(2) by simp
  have "service_org w1 (svc_id r) = Some (svc_organization_id s)"
    using service_owned.owner_update [OF u g' r(2)] get_owner(2) [OF g'] by simp
  moreover have "provider_org w1 = provider_org w" using service_update_eq [OF u] by simp
  ultimately show "settles (svc_organization_id s) w1 (k x w1)" unfolding x by (rule k [OF u ok])
qed

lemma update_service_tenant:
  assumes a: "usr_is_active user"
  shows "on_behalf user ORG_ADMIN_ROLES w (snd (update_service user i payload w))"
proof -
  have "settles (svc_organization_id s) w
     (commit (saving (service_patched payload s) (service_update (service_patched payload s) w)) w (\<lambda>updated w1.
         if sru_provider_id payload = None then respond updated w1
         else and_then (ensure_assigned (svc_provider_id updated) (svc_id updated) w1) (\<lambda>_ w2. respond updated w2)))"
    if g: "service_get i w = Some s" and c: "check_provider_change (sru_provider_id payload) s w = Inr u" for s u
  proof -
    have p: "provider_org w (svc_provider_id (service_patched payload s)) = Some (svc_organization_id s)" if "tenants_ok w"
      using c service_provider_org [OF g that] get_owner(1)
      by (auto simp: check_provider_change_def service_patched_def patched_def split: option.splits)
    show ?thesis
      by (rule service_change_settles [OF g _ _ p]) (auto intro!: settles_and_then ensure_assigned_settles simp: p)
  qed
  then show ?thesis
    unfolding update_service_def
    by (intro on_behalf_require on_behalf_admin [OF a] settles_require settles_integrity) auto
qed

lemma service_tenant:
  assumes a: "usr_is_active user"
  shows "on_behalf user ORG_ADMIN_ROLES w (snd (activate_service user i w))"
    "on_behalf user ORG_ADMIN_ROLES w (snd (deactivate_service user i w))"
    "on_behalf user ORG_ADMIN_ROLES w (snd (delete_service user i w))"
  unfolding activate_service_def deactivate_service_def delete_service_def Let_def
  by (rule on_behalf_admin [OF a] on_behalf_require |
      auto intro!: service_change_settles dest: service_provider_org)+

section \<open>Calendars and bookings on behalf of an organization\<close>

lemma writable_provider_acts:
  assumes "writable_provider user i w = Inr p" and "usr_is_active user"
  shows "\<exists>tid. provider_org w i = Some tid \<and> acts_for w user tid []"
  using assms membership_acts_for [of "prov_organization_id p" user None w] get_owner(1) [of i w p]
  by (auto simp: writable_provider_def require_provider_schedule_access_def split: sum.splits if_splits)

lemma readable_provider_acts:
  assumes "readable_provider user i w = Inr p" and "usr_is_active user"
  shows "\<exists>tid. provider_org w i = Some tid \<and> acts_for w user tid []"
  using assms membership_acts_for [of "prov_organization_id p" user None w] get_owner(1) [of i w p]
  by (auto simp: readable_provider_def split: sum.splits if_splits)

lemma readable_appointment_acts:
  assumes "readable_appointment user i w = Inr x" and "usr_is_active user"
  shows "appointment_get i w = Some x \<and> acts_for w user (apt_organization_id x) []"
  using assms membership_acts_for [of "apt_organization_id x" user None w]
  by (auto simp: readable_appointment_def split: sum.splits if_splits)

lemma on_behalf_keeps: "acts_for w user tid roles \<Longrightarrow> keeps tid w w' \<Longrightarrow> on_behalf user roles w w'"
  by (auto simp: on_behalf_def)

lemma handled_by_Inr [simp]: "handled_by c r = Inr x \<longleftrightarrow> r = Inr x"
  by (auto simp: handled_by_def split: sum.splits)

lemma row_of_provider_Inr [simp]: "row_of_provider own i d x = Inr r \<longleftrightarrow> x = Some r \<and> own r = i"
  by (auto simp: row_of_provider_def split: option.splits)

lemma availability_tenant:
  assumes a: "usr_is_active user"
  shows "create_availability_route user p w = Inr (x, w') \<Longrightarrow> on_behalf user [] w w'"
    "update_availability_route user i u w = Inr (x, w') \<Longrightarrow> on_behalf user [] w w'"
    "delete_availability_route user i w = Inr w' \<Longrightarrow> on_behalf user [] w w'"
    "create_availability_for_provider user j p w = Inr (x, w') \<Longrightarrow> on_behalf user [] w w'"
    "update_availability_for_provider user j i u w = Inr (x, w') \<Longrightarrow> on_behalf user [] w w'"
    "delete_availability_for_provider user j i w = Inr w' \<Longrightarrow> on_behalf user [] w w'"
  by (auto simp: create_availability_route_def update_availability_route_def delete_availability_route_def
      create_availability_for_provider_def update_availability_for_provider_def delete_availability_for_provider_def
      dest!: writable_provider_acts [OF _ a]
      dest: schedule_create_keeps(1) intro: on_behalf_keeps schedule_update_keeps(1) provider_row_delete_keeps(1))

lemma date_override_tenant:
  assumes a: "usr_is_active user"
  shows "create_date_override_route user p w = Inr (x, w') \<Longrightarrow> on_behalf user [] w w'"
    "update_date_override_route user i u w = Inr (x, w') \<Longrightarrow> on_behalf user [] w w'"
    "delete_date_override_route user i w = Inr w' \<Longrightarrow> on_behalf user [] w w'"
    "create_date_override_for_provider user j p w = Inr (x, w') \<Longrightarrow> on_behalf user [] w w'"
    "update_date_override_for_provider user j i u w = Inr (x, w') \<Longrightarrow> on_behalf user [] w w'"
    "delete_date_override_for_provider user j i w = Inr w' \<Longrightarrow> on_behalf user [] w w'"
  by (auto simp: create_date_override_route_def update_date_override_route_def delete_date_override_route_def
      create_date_override_for_provider_def update_date_override_for_provider_def delete_date_override_for_provider_def
      dest!: writable_provider_acts [OF _ a]
      dest: schedule_create_keeps(2) intro: on_behalf_keeps schedule_update_keeps(2) provider_row_delete_keeps(2))

lemma time_off_tenant:
  assumes a: "usr_is_active user"
  shows "create_time_off_route user p w = Inr (x, w') \<Longrightarrow> on_behalf user [] w w'"
    "update_time_off_route ev user i u w = Inr (x, w') \<Longrightarrow> on_behalf user [] w w'"
    "delete_time_off_route user i w = Inr w' \<Longrightarrow> on_behalf user [] w w'"
    "create_time_off_for_provider user j p w = Inr (x, w') \<Longrightarrow> on_behalf user [] w w'"
    "update_time_off_for_provider ev user j i u w = Inr (x, w') \<Longrightarrow> on_behalf user [] w w'"
    "delete_time_off_for_provider user j i w = Inr w' \<Longrightarrow> on_behalf user [] w w'"
  by (auto simp: create_time_off_route_def update_time_off_route_def delete_time_off_route_def
      create_time_off_for_provider_def update_time_off_for_provider_def delete_time_off_for_provider_def
      dest!: writable_provider_acts [OF _ a]
      dest: schedule_create_keeps(3) intro: on_behalf_keeps schedule_update_keeps(3) provider_row_delete_keeps(3))

lemma booking_tenant:
  assumes a: "usr_is_active user"
  shows "create_appointment_route ev user p w = Some (Inr (x, w')) \<Longrightarrow> on_behalf user [] w w'"
    "on_behalf user [] w (snd (cancel_appointment_route ev user i notes w))"
    "reschedule_appointment_route ev user i t w = Some (Inr (x, w')) \<Longrightarrow> on_behalf user [] w w'"
proof -
  show "create_appointment_route ev user p w = Some (Inr (x, w')) \<Longrightarrow> on_behalf user [] w w'"
    by (auto simp: create_appointment_route_def split: sum.splits
        dest!: readable_provider_acts [OF _ a] intro: on_behalf_keeps create_appointment_keeps_tenants)
  show "reschedule_appointment_route ev user i t w = Some (Inr (x, w')) \<Longrightarrow> on_behalf user [] w w'"
    by (auto simp: reschedule_appointment_route_def split: sum.splits
        dest!: readable_appointment_acts [OF _ a] intro: on_behalf_keeps reschedule_appointment_keeps_tenants)
  show "on_behalf user [] w (snd (cancel_appointment_route ev user i notes w))"
    unfolding cancel_appointment_route_def
    by (rule on_behalf_require) (auto split: prod.splits
        dest!: readable_appointment_acts [OF _ a] intro: on_behalf_keeps cancel_appointment_keeps_tenants)
qed

end
