(* ===== verification/Back_Office.thy ===== *)
theory Back_Office
  imports Calendar_Routes Rate_Limiter
begin

text \<open>
  What staff do that belongs to no single organization, and the outer layer of the application:
  \<^verbatim>\<open>routers/customers.py\<close>, \<^verbatim>\<open>customer_identities.py\<close> and \<^verbatim>\<open>admin.py\<close>, the error responses of
  \<^verbatim>\<open>core/errors.py\<close>, the request id of \<^verbatim>\<open>middleware/request_id.py\<close>, the readiness report of
  \<^verbatim>\<open>core/health.py\<close> and \<^verbatim>\<open>services/operations/migration_status.py\<close>.
\<close>

section \<open>Customers and their identities\<close>

record customer_update_payload =
  cup_full_name :: "string option option"
  cup_phone_number :: "string option option"
  cup_email :: "string option option"
  cup_preferred_language :: "string option option"

definition customer_conflict :: "string option" where
  "customer_conflict = Some ''Customer with this phone already exists''"

definition create_customer :: "customer \<Rightarrow> world \<Rightarrow> (customer \<times> world) result" where
  "create_customer payload w = handled_by customer_conflict (customer_create payload w)"

definition list_customers :: "world \<Rightarrow> customer list" where
  "list_customers w = sort_key cust_id (customers w)"

definition get_customer :: "int \<Rightarrow> world \<Rightarrow> customer result" where
  "get_customer customer_id w = or_404 ''Customer not found'' (customer_get customer_id w)"

text \<open>\<^verbatim>\<open>CustomerRepository.update\<close>: a new number is normalised with it; null columns are refused.\<close>

definition customer_patch :: "customer_update_payload \<Rightarrow> customer \<Rightarrow> world \<Rightarrow> (customer \<times> world) result" where
  "customer_patch payload customer w =
     (case (case cup_phone_number payload of
              Some (Some p) \<Rightarrow> normalize_phone_number p
            | _ \<Rightarrow> Inr (cust_phone_number_normalized customer)) of
        Inl e \<Rightarrow> Inl e
      | Inr normalized \<Rightarrow>
        if is_null (cup_full_name payload) \<or> is_null (cup_phone_number payload)
        then Inl (IntegrityError ''NOT NULL customers'')
        else
         (let updated = customer
            \<lparr>cust_full_name := patched (cup_full_name payload) (cust_full_name customer),
             cust_phone_number := patched (cup_phone_number payload) (cust_phone_number customer),
             cust_phone_number_normalized := normalized,
             cust_email := target (cup_email payload) (cust_email customer),
             cust_preferred_language := target (cup_preferred_language payload) (cust_preferred_language customer)\<rparr> in
          saving updated (customer_update updated w)))"

definition update_customer :: "int \<Rightarrow> customer_update_payload \<Rightarrow> world \<Rightarrow> (customer \<times> world) result" where
  "update_customer customer_id payload w =
     (case or_404 ''Customer not found'' (customer_get customer_id w) of
        Inl e \<Rightarrow> Inl e
      | Inr customer \<Rightarrow> handled_by customer_conflict (customer_patch payload customer w))"

definition create_identity :: "channel_identity \<Rightarrow> world \<Rightarrow> (channel_identity \<times> world) result" where
  "create_identity payload w =
     (if customer_get (cci_customer_id payload) w = None then Inl (HTTPException 404 ''Customer not found'')
      else if (case identity_get_by_channel_external_user (cci_channel payload) (cci_external_user_id payload) w of
                 None \<Rightarrow> False | Some existing \<Rightarrow> cci_customer_id existing \<noteq> cci_customer_id payload)
      then Inl (HTTPException 409 ''Identity is already linked to another customer'')
      else case identity_get_by_customer_and_channel (cci_customer_id payload) (cci_channel payload) w of
        Some existing \<Rightarrow>
          if cci_external_user_id existing = cci_external_user_id payload then Inr (existing, w)
          else Inl (HTTPException 409 ''Customer already has an identity on this channel'')
      | None \<Rightarrow> handled_by (Some ''Identity already linked'') (identity_create payload w))"

definition list_identities :: "int \<Rightarrow> world \<Rightarrow> channel_identity list" where
  "list_identities customer_id w = identity_list_by_customer customer_id w"

section \<open>The audit trail\<close>

record event_filter =
  evf_event_type :: "string option"
  evf_organization_id :: "int option"
  evf_entity_type :: "string option"
  evf_entity_id :: "int option"
  evf_status :: "string option"
  evf_date_from :: "instant option"
  evf_date_to :: "instant option"
  evf_limit :: int

definition matches :: "'a option \<Rightarrow> 'a option \<Rightarrow> bool" where
  "matches wanted column \<longleftrightarrow> wanted = None \<or> wanted = column"

definition domain_event_get :: "int \<Rightarrow> world \<Rightarrow> domain_event option" where
  "domain_event_get i w = tbl_get ev_id i (domain_events w)"

definition domain_event_list :: "event_filter \<Rightarrow> world \<Rightarrow> domain_event list" where
  "domain_event_list f w =
     take (nat (max 1 (min (evf_limit f) 500)))
       (rev (sort_key (\<lambda>e. (ev_created_at e, ev_id e))
         [e \<leftarrow> domain_events w.
            matches (evf_event_type f) (Some (ev_event_type e)) \<and>
            matches (evf_organization_id f) (ev_organization_id e) \<and>
            matches (evf_entity_type f) (ev_entity_type e) \<and>
            matches (evf_entity_id f) (ev_entity_id e) \<and>
            matches (evf_status f) (Some (ev_status e)) \<and>
            (case evf_date_from f of None \<Rightarrow> True | Some d \<Rightarrow> d \<le> ev_created_at e) \<and>
            (case evf_date_to f of None \<Rightarrow> True | Some d \<Rightarrow> ev_created_at e \<le> d)]))"

definition event_view_roles :: "membership_role list" where
  "event_view_roles = [OWNER, ADMIN, STAFF]"

definition require_admin_internal_endpoints_enabled :: "env \<Rightarrow> unit result" where
  "require_admin_internal_endpoints_enabled ev =
     check_that (cfg_enable_admin_internal_endpoints (config ev)) 404 ''Not found''"

definition require_event_visibility_access :: "user \<Rightarrow> int option \<Rightarrow> world \<Rightarrow> unit result" where
  "require_event_visibility_access user organization_id w =
     (if usr_is_platform_admin user then Inr ()
      else case organization_id of
        None \<Rightarrow> Inl (HTTPException 400 ''organization_id is required for non-platform admins.'')
      | Some oid \<Rightarrow>
        case require_org_membership oid user (Some event_view_roles) w of
          Inl e \<Rightarrow> Inl e | Inr _ \<Rightarrow> Inr ())"

definition list_domain_events ::
  "env \<Rightarrow> http_request \<Rightarrow> user \<Rightarrow> event_filter \<Rightarrow> world \<Rightarrow> domain_event list outcome" where
  "list_domain_events ev request current_user f w =
     require (require_admin_internal_endpoints_enabled ev) w (\<lambda>_.
     require (unprocessable (1 \<le> evf_limit f \<and> evf_limit f \<le> 500)) w (\<lambda>_.
     and_then (enforce_rate_limit ev request ''admin_events''
                 (build_identity_key [''user:'' @ int_str (usr_id current_user)]) default_rate_limit_message
                 ((event_defaults [])\<lparr>ev_actor_type := ''user'', ev_actor_id := Some (usr_id current_user)\<rparr>) w)
       (\<lambda>_ w1.
     require (require_event_visibility_access current_user (evf_organization_id f) w1) w1 (\<lambda>_.
     (let events = domain_event_list f w1 in
      respond (if usr_is_platform_admin current_user then events
               else [e \<leftarrow> events. ev_organization_id e = evf_organization_id f]) w1)))))"

definition get_domain_event :: "env \<Rightarrow> user \<Rightarrow> int \<Rightarrow> world \<Rightarrow> domain_event result" where
  "get_domain_event ev current_user event_id w =
     (case require_admin_internal_endpoints_enabled ev of
        Inl e \<Rightarrow> Inl e
      | Inr _ \<Rightarrow>
      case or_404 ''Domain event not found'' (domain_event_get event_id w) of
        Inl e \<Rightarrow> Inl e
      | Inr event \<Rightarrow>
        if usr_is_platform_admin current_user then Inr event
        else case ev_organization_id event of
          None \<Rightarrow> Inl (HTTPException 403 ''Organization access denied'')
        | Some oid \<Rightarrow>
          case require_org_membership oid current_user (Some event_view_roles) w of
            Inl e \<Rightarrow> Inl e | Inr _ \<Rightarrow> Inr event)"

section \<open>Readiness\<close>

text \<open>
  What a probe of a dependency found: how long it took, as reported (rounded to two digits), and
  the exception's class if it failed.
\<close>

record dependency_health =
  dh_name :: string
  dh_ok :: bool
  dh_latency_ms :: rat
  dh_error :: "string option"

definition as_payload :: "dependency_health \<Rightarrow> string \<times> rat \<times> string option" where
  "as_payload c = (if dh_ok c then ''ok'' else ''error'', dh_latency_ms c, dh_error c)"

definition build_readiness_payload ::
  "dependency_health list \<Rightarrow> bool \<times> string \<times> (string \<times> string \<times> rat \<times> string option) list" where
  "build_readiness_payload checks =
     (let ready = list_all dh_ok checks in
      (ready, if ready then ''ok'' else ''degraded'', map (\<lambda>c. (dh_name c, as_payload c)) checks))"

record migration_status =
  mgs_status :: string
  mgs_up_to_date :: bool
  mgs_head_revisions :: "string list"
  mgs_current_revisions :: "string list"
  mgs_pending_revisions :: "string list"
  mgs_error :: "string option"

text \<open>The two lookups answer sorted revisions, or the class of the exception they raise.\<close>

definition get_migration_status :: "string + string list \<Rightarrow> string + string list \<Rightarrow> migration_status" where
  "get_migration_status heads current =
     (case heads of
        Inl cls \<Rightarrow> \<lparr>mgs_status = ''unknown'', mgs_up_to_date = False, mgs_head_revisions = [],
                  mgs_current_revisions = [], mgs_pending_revisions = [],
                  mgs_error = Some (''head_lookup_failed:'' @ cls)\<rparr>
      | Inr head_revisions \<Rightarrow>
      case current of
        Inl cls \<Rightarrow> \<lparr>mgs_status = ''unknown'', mgs_up_to_date = False, mgs_head_revisions = head_revisions,
                  mgs_current_revisions = [], mgs_pending_revisions = head_revisions,
                  mgs_error = Some (''current_lookup_failed:'' @ cls)\<rparr>
      | Inr current_revisions \<Rightarrow>
       (let pending_revisions = [rev' \<leftarrow> head_revisions. rev' \<notin> set current_revisions];
            up_to_date = pending_revisions = [] \<and> head_revisions \<noteq> [] in
        \<lparr>mgs_status = (if up_to_date then ''up_to_date'' else ''outdated''), mgs_up_to_date = up_to_date,
         mgs_head_revisions = head_revisions, mgs_current_revisions = current_revisions,
         mgs_pending_revisions = pending_revisions, mgs_error = None\<rparr>))"

definition readiness_warnings :: "settings \<Rightarrow> bool \<Rightarrow> bool \<Rightarrow> migration_status \<Rightarrow> string list" where
  "readiness_warnings s database_ok redis_ok status =
     (if cfg_enable_docs s \<and> is_production s then [''ENABLE_DOCS is true in production.''] else []) @
     (if \<not> cfg_enable_rate_limiting s then [''ENABLE_RATE_LIMITING is disabled.''] else []) @
     (if \<not> database_ok then [''Database dependency check is failing.''] else []) @
     (if \<not> redis_ok then [''Redis dependency check is failing.''] else []) @
     (if \<not> mgs_up_to_date status then [''Database migration revision is not at head.''] else [])"

definition admin_ping :: string where
  "admin_ping = ''admin_ok''"

definition admin_stats :: "world \<Rightarrow> int" where
  "admin_stats w = int (length (organizations w))"

definition health_ready :: "dependency_health list \<Rightarrow> int" where
  "health_ready checks = (if fst (build_readiness_payload checks) then 200 else 503)"

definition health_live :: string where
  "health_live = ''ok''"

record readiness_summary =
  rds_environment :: string
  rds_docs_enabled :: bool
  rds_metrics_enabled :: bool
  rds_admin_internal_endpoints_enabled :: bool
  rds_rate_limiting_enabled :: bool
  rds_database_reachable :: bool
  rds_redis_reachable :: bool
  rds_dependencies :: "(string \<times> string \<times> rat \<times> string option) list"
  rds_migrations :: migration_status
  rds_cleanup_task_name :: string
  rds_cleanup_interval_seconds :: int
  rds_domain_events_retention_days :: int
  rds_idempotency_keys_retention_days :: int
  rds_related_periodic_tasks :: "string list"
  rds_warnings :: "string list"

definition get_system_readiness_summary ::
  "settings \<Rightarrow> dependency_health list \<Rightarrow> migration_status \<Rightarrow> readiness_summary" where
  "get_system_readiness_summary s probes migrations =
     (let checks = snd (snd (build_readiness_payload probes));
          reachable = (\<lambda>name. case map_of checks name of None \<Rightarrow> False | Some (status, _) \<Rightarrow> status = ''ok'') in
      \<lparr>rds_environment = resolved_environment s, rds_docs_enabled = cfg_enable_docs s,
       rds_metrics_enabled = cfg_enable_metrics s,
       rds_admin_internal_endpoints_enabled = cfg_enable_admin_internal_endpoints s,
       rds_rate_limiting_enabled = cfg_enable_rate_limiting s,
       rds_database_reachable = reachable ''database'', rds_redis_reachable = reachable ''redis'',
       rds_dependencies = checks, rds_migrations = migrations,
       rds_cleanup_task_name = ''bookpoint.ops.cleanup_operational_data'',
       rds_cleanup_interval_seconds = cfg_ops_cleanup_interval_seconds s,
       rds_domain_events_retention_days = cfg_domain_events_retention_days s,
       rds_idempotency_keys_retention_days = cfg_idempotency_keys_retention_days s,
       rds_related_periodic_tasks = [''bookpoint.notifications.appointment_reminder'', ''bookpoint.payments.expire_pending'',
         ''bookpoint.payouts.process_pending''],
       rds_warnings = readiness_warnings s (reachable ''database'') (reachable ''redis'') migrations\<rparr>)"

section \<open>Request ids and error responses\<close>

definition sanitize_request_id :: "string option \<Rightarrow> string option" where
  "sanitize_request_id value =
     (case value of
        None \<Rightarrow> None
      | Some v \<Rightarrow>
       (let normalized = strip v in
        if normalized = [] then None
        else if 128 < length normalized then None
        else if \<exists>c \<in> set normalized. code c < 33 \<or> 126 < code c then None
        else Some normalized))"

text \<open>The id the middleware gives a request; \<^verbatim>\<open>fresh\<close> is \<^verbatim>\<open>uuid4().hex\<close>.\<close>

definition request_id_of :: "string option \<Rightarrow> string \<Rightarrow> string" where
  "request_id_of header fresh = (case sanitize_request_id header of None \<Rightarrow> fresh | Some i \<Rightarrow> i)"

definition resolve_request_id :: "string option \<Rightarrow> string option \<Rightarrow> string" where
  "resolve_request_id state_request_id context_request_id =
     str_or state_request_id (str_or context_request_id ''unknown'')"

definition default_error_code :: "int \<Rightarrow> string" where
  "default_error_code status_code =
     (case map_of
        [(400, ''bad_request''), (401, ''unauthorized''), (403, ''forbidden''), (404, ''resource_not_found''),
         (409, ''conflict''), (429, ''rate_limited''), (422, ''validation_error''),
         (500, ''internal_server_error'')] status_code of
        None \<Rightarrow> ''request_failed'' | Some c \<Rightarrow> c)"

definition nonblank :: "json option \<Rightarrow> string option" where
  "nonblank v = (case v of Some (JStr s) \<Rightarrow> if strip s = [] then None else Some (strip s) | _ \<Rightarrow> None)"

definition normalize_error_message :: "json \<Rightarrow> string \<Rightarrow> string" where
  "normalize_error_message detail fallback =
     (case detail of
        JStr s \<Rightarrow> (case nonblank (Some detail) of None \<Rightarrow> fallback | Some m \<Rightarrow> m)
      | JObj entries \<Rightarrow> (case nonblank (map_of entries ''message'') of None \<Rightarrow> fallback | Some m \<Rightarrow> m)
      | _ \<Rightarrow> fallback)"

definition normalize_code :: "int \<Rightarrow> json \<Rightarrow> string" where
  "normalize_code status_code detail =
     (case detail of
        JObj entries \<Rightarrow>
          (case nonblank (map_of entries ''code'') of None \<Rightarrow> default_error_code status_code | Some c \<Rightarrow> c)
      | _ \<Rightarrow> default_error_code status_code)"

definition normalize_details :: "json \<Rightarrow> (string \<times> json) list option" where
  "normalize_details detail =
     (case detail of
        JObj entries \<Rightarrow>
          (case map_of entries ''details'' of
             Some (JObj d) \<Rightarrow> Some d
           | _ \<Rightarrow>
             (let filtered = [(k, v) \<leftarrow> entries. k \<notin> {''code'', ''message''}] in
              if filtered = [] then None else Some filtered))
      | _ \<Rightarrow> None)"

record error_response =
  er_status_code :: int
  er_body :: json
  er_headers :: "(string \<times> string) list"

definition build_error_response ::
  "string \<Rightarrow> int \<Rightarrow> string \<Rightarrow> string \<Rightarrow> (string \<times> json) list option \<Rightarrow> (string \<times> string) list \<Rightarrow> error_response" where
  "build_error_response request_id status_code error_code message details headers =
     \<lparr>er_status_code = status_code,
      er_body = JObj
        [(''error'', JObj ([(''code'', JStr error_code), (''message'', JStr message), (''request_id'', JStr request_id)] @
           (case details of None \<Rightarrow> [] | Some d \<Rightarrow> [(''details'', JObj d)]))),
         (''detail'', JStr message)],
      er_headers = headers\<rparr>"

definition http_exception_handler :: "string \<Rightarrow> int \<Rightarrow> json \<Rightarrow> (string \<times> string) list \<Rightarrow> error_response" where
  "http_exception_handler request_id status_code detail headers =
     build_error_response request_id status_code (normalize_code status_code detail)
       (normalize_error_message detail ''Request failed.'') (normalize_details detail) headers"

definition unhandled_exception_handler :: "string \<Rightarrow> error_response" where
  "unhandled_exception_handler request_id =
     build_error_response request_id 500 ''internal_server_error'' ''Internal server error.'' None []"

text \<open>
  The response to an exception that leaves an endpoint.  A refused request carries the details
  that \<^verbatim>\<open>_raise_rate_limited\<close> put together.
\<close>

definition rate_limited_detail :: "string \<Rightarrow> int \<Rightarrow> json" where
  "rate_limited_detail message retry_after = JObj
     [(''code'', JStr ''rate_limited''), (''message'', JStr message),
      (''details'', JObj [(''retry_after_seconds'', JInt retry_after)])]"

definition error_response_of :: "string \<Rightarrow> exn \<Rightarrow> error_response" where
  "error_response_of request_id e =
     (case e of
        HTTPException status_code detail \<Rightarrow> http_exception_handler request_id status_code (JStr detail) []
      | RateLimited message retry_after \<Rightarrow>
          http_exception_handler request_id 429 (rate_limited_detail message retry_after)
            [(''Retry-After'', int_str retry_after)]
      | _ \<Rightarrow> unhandled_exception_handler request_id)"

end
