(* ===== verification/Isolation.thy ===== *)
theory Isolation
  imports Tenancy Back_Office
begin

text \<open>
  The staff endpoints as one machine: a request of the catalogue or of the calendars, the world
  it leaves, and the worlds a sequence of requests can reach.  The theorems say that such
  sequences keep the tenants apart.
\<close>

section \<open>Requests\<close>

datatype catalogue_request =
    CreateOrganization organization "string option"
  | UpdateOrganization int organization_update_payload
  | DeleteOrganization int
  | AddMember int int membership_role
  | AddMemberLegacy int int membership_role
  | UpdateMember int int member_update_payload
  | UpdateMemberLegacy int member_update_payload
  | DeactivateMember int int
  | DeactivateMemberLegacy int
  | CreateLocation int location "string option"
  | UpdateLocation int int location_update_payload
  | DeactivateLocation int int
  | AssignProviderLocation int int
  | UnassignProviderLocation int int
  | AssignServiceLocation int int
  | UnassignServiceLocation int int
  | CreateProvider provider
  | UpdateProvider int provider_update_payload
  | ActivateProvider int
  | DeactivateProvider int
  | CreateProviderService int provider_service_payload
  | UnassignProviderService int int
  | CreateService service
  | UpdateService int service_update_payload
  | ActivateService int
  | DeactivateService int
  | DeleteService int

datatype calendar_request =
    CreateAvailability availability_create_payload
  | UpdateAvailability int availability_update_payload
  | DeleteAvailability int
  | CreateAvailabilityFor int availability_create_payload
  | UpdateAvailabilityFor int int availability_update_payload
  | DeleteAvailabilityFor int int
  | CreateOverride override_create_payload
  | UpdateOverride int override_update_payload
  | DeleteOverride int
  | CreateOverrideFor int override_create_payload
  | UpdateOverrideFor int int override_update_payload
  | DeleteOverrideFor int int
  | CreateTimeOff time_off_create_payload
  | UpdateTimeOff int time_off_update_payload
  | DeleteTimeOff int
  | CreateTimeOffFor int time_off_create_payload
  | UpdateTimeOffFor int int time_off_update_payload
  | DeleteTimeOffFor int int
  | CreateAppointment appointment_create_payload
  | CancelAppointment int "string option"
  | RescheduleAppointment int py_datetime

datatype staff_request = Catalogue_request catalogue_request | Calendar_request calendar_request

fun run_catalogue :: "user \<Rightarrow> catalogue_request \<Rightarrow> world \<Rightarrow> world" where
  "run_catalogue u (CreateOrganization payload slug) w = snd (create_organization u payload slug w)"
| "run_catalogue u (UpdateOrganization i p) w = snd (update_organization u i p w)"
| "run_catalogue u (DeleteOrganization i) w = snd (delete_organization u i w)"
| "run_catalogue u (AddMember i j r) w = snd (add_member u i j r w)"
| "run_catalogue u (AddMemberLegacy i j r) w = snd (add_member_legacy u i j r w)"
| "run_catalogue u (UpdateMember i j p) w = snd (update_member u i j p w)"
| "run_catalogue u (UpdateMemberLegacy j p) w = snd (update_member_legacy u j p w)"
| "run_catalogue u (DeactivateMember i j) w = snd (deactivate_member u i j w)"
| "run_catalogue u (DeactivateMemberLegacy j) w = snd (deactivate_member_legacy u j w)"
| "run_catalogue u (CreateLocation i payload slug) w = snd (create_organization_location u i payload slug w)"
| "run_catalogue u (UpdateLocation i j p) w = snd (update_organization_location u i j p w)"
| "run_catalogue u (DeactivateLocation i j) w = snd (deactivate_organization_location u i j w)"
| "run_catalogue u (AssignProviderLocation i j) w = snd (assign_provider_location u i j w)"
| "run_catalogue u (UnassignProviderLocation i j) w = snd (unassign_provider_location u i j w)"
| "run_catalogue u (AssignServiceLocation i j) w = snd (assign_service_location u i j w)"
| "run_catalogue u (UnassignServiceLocation i j) w = snd (unassign_service_location u i j w)"
| "run_catalogue u (CreateProvider payload) w = snd (create_provider u payload w)"
| "run_catalogue u (UpdateProvider i p) w = snd (update_provider u i p w)"
| "run_catalogue u (ActivateProvider i) w = snd (activate_provider u i w)"
| "run_catalogue u (DeactivateProvider i) w = snd (deactivate_provider u i w)"
| "run_catalogue u (CreateProviderService i payload) w = snd (create_provider_service u i payload w)"
| "run_catalogue u (UnassignProviderService i j) w = snd (unassign_provider_service u i j w)"
| "run_catalogue u (CreateService payload) w = snd (create_service u payload w)"
| "run_catalogue u (UpdateService i p) w = snd (update_service u i p w)"
| "run_catalogue u (ActivateService i) w = snd (activate_service u i w)"
| "run_catalogue u (DeactivateService i) w = snd (deactivate_service u i w)"
| "run_catalogue u (DeleteService i) w = snd (delete_service u i w)"

text \<open>A calendar request that fails leaves the world as it was; a slot search may not return.\<close>

definition left_by :: "world \<Rightarrow> ('a \<times> world) result \<Rightarrow> world" where
  "left_by w r = (case r of Inl _ \<Rightarrow> w | Inr (_, w') \<Rightarrow> w')"

definition deleted_by :: "world \<Rightarrow> world result \<Rightarrow> world" where
  "deleted_by w r = (case r of Inl _ \<Rightarrow> w | Inr w' \<Rightarrow> w')"

fun run_calendar :: "env \<Rightarrow> user \<Rightarrow> calendar_request \<Rightarrow> world \<Rightarrow> world option" where
  "run_calendar ev u (CreateAvailability p) w = Some (left_by w (create_availability_route u p w))"
| "run_calendar ev u (UpdateAvailability i p) w = Some (left_by w (update_availability_route u i p w))"
| "run_calendar ev u (DeleteAvailability i) w = Some (deleted_by w (delete_availability_route u i w))"
| "run_calendar ev u (CreateAvailabilityFor j p) w = Some (left_by w (create_availability_for_provider u j p w))"
| "run_calendar ev u (UpdateAvailabilityFor j i p) w = Some (left_by w (update_availability_for_provider u j i p w))"
| "run_calendar ev u (DeleteAvailabilityFor j i) w = Some (deleted_by w (delete_availability_for_provider u j i w))"
| "run_calendar ev u (CreateOverride p) w = Some (left_by w (create_date_override_route u p w))"
| "run_calendar ev u (UpdateOverride i p) w = Some (left_by w (update_date_override_route u i p w))"
| "run_calendar ev u (DeleteOverride i) w = Some (deleted_by w (delete_date_override_route u i w))"
| "run_calendar ev u (CreateOverrideFor j p) w = Some (left_by w (create_date_override_for_provider u j p w))"
| "run_calendar ev u (UpdateOverrideFor j i p) w = Some (left_by w (update_date_override_for_provider u j i p w))"
| "run_calendar ev u (DeleteOverrideFor j i) w = Some (deleted_by w (delete_date_override_for_provider u j i w))"
| "run_calendar ev u (CreateTimeOff p) w = Some (left_by w (create_time_off_route u p w))"
| "run_calendar ev u (UpdateTimeOff i p) w = Some (left_by w (update_time_off_route ev u i p w))"
| "run_calendar ev u (DeleteTimeOff i) w = Some (deleted_by w (delete_time_off_route u i w))"
| "run_calendar ev u (CreateTimeOffFor j p) w = Some (left_by w (create_time_off_for_provider u j p w))"
| "run_calendar ev u (UpdateTimeOffFor j i p) w = Some (left_by w (update_time_off_for_provider ev u j i p w))"
| "run_calendar ev u (DeleteTimeOffFor j i) w = Some (deleted_by w (delete_time_off_for_provider u j i w))"
| "run_calendar ev u (CreateAppointment p) w = map_option (left_by w) (create_appointment_route ev u p w)"
| "run_calendar ev u (CancelAppointment i notes) w = Some (snd (cancel_appointment_route ev u i notes w))"
| "run_calendar ev u (RescheduleAppointment i t) w = map_option (left_by w) (reschedule_appointment_route ev u i t w)"

fun run_staff :: "env \<Rightarrow> user \<Rightarrow> staff_request \<Rightarrow> world \<Rightarrow> world option" where
  "run_staff ev u (Catalogue_request q) w = Some (run_catalogue u q w)"
| "run_staff ev u (Calendar_request q) w = run_calendar ev u q w"

text \<open>
  Sequences of requests of active users, each in its own environment (clock, randomness), by the
  users that \<^verbatim>\<open>allowed\<close> admits in the state they meet.
\<close>

inductive requests :: "(world \<Rightarrow> user \<Rightarrow> bool) \<Rightarrow> world \<Rightarrow> world \<Rightarrow> bool" for allowed w where
  Start: "requests allowed w w"
| Request: "requests allowed w w1 \<Longrightarrow> usr_is_active user \<Longrightarrow> allowed w1 user \<Longrightarrow>
     run_staff ev user q w1 = Some w2 \<Longrightarrow> requests allowed w w2"

section \<open>Each request stays within one organization\<close>

lemma left_by_on_behalf: "(\<And>x w'. r = Inr (x, w') \<Longrightarrow> on_behalf u roles w w') \<Longrightarrow> on_behalf u roles w (left_by w r)"
  by (auto simp: left_by_def split: sum.split)

lemma deleted_by_on_behalf: "(\<And>w'. r = Inr w' \<Longrightarrow> on_behalf u roles w w') \<Longrightarrow> on_behalf u roles w (deleted_by w r)"
  by (auto simp: deleted_by_def split: sum.split)

lemmas catalogue_tenant =
  update_organization_tenant create_organization_tenant delete_organization_tenant add_member_tenant
  update_member_tenant location_tenant assignment_tenant create_provider_tenant provider_tenant
  create_provider_service_tenant create_service_tenant update_service_tenant service_tenant

lemmas calendar_tenant = availability_tenant date_override_tenant time_off_tenant booking_tenant

lemma run_catalogue_on_behalf:
  "usr_is_active u \<Longrightarrow> on_behalf u ORG_ADMIN_ROLES w (run_catalogue u q w)"
  by (cases q) (simp_all add: catalogue_tenant)

lemma run_calendar_on_behalf:
  assumes "usr_is_active u" and "run_calendar ev u q w = Some w'"
  shows "on_behalf u [] w w'"
  using assms
  by (cases q) (auto intro!: left_by_on_behalf deleted_by_on_behalf intro: calendar_tenant)

lemma acts_for_any: "acts_for w u tid roles \<Longrightarrow> acts_for w u tid []"
  by (auto simp: acts_for_def)

lemma on_behalf_any: "on_behalf u roles w w' \<Longrightarrow> on_behalf u [] w w'"
  by (auto simp: on_behalf_def dest: acts_for_any)

lemma run_staff_on_behalf:
  assumes "usr_is_active u" and "run_staff ev u q w = Some w'"
  shows "on_behalf u [] w w'"
  using assms run_catalogue_on_behalf run_calendar_on_behalf by (cases q) (auto dest: on_behalf_any)

lemma on_behalf_spares:
  assumes "on_behalf u roles w w'" and "\<not> acts_for w u tid roles" and "tenants_ok w"
    and "tid \<in> org_id ` set (organizations w)"
  shows "tenant_view tid w' = tenant_view tid w"
proof -
  obtain t where "acts_for w u t roles \<or> t \<notin> org_id ` set (organizations w)" and "keeps t w w'"
    using assms(1) by (auto simp: on_behalf_def)
  moreover from this have "tid \<noteq> t" using assms(2,4) by blast
  ultimately show ?thesis using assms(3) by (simp add: keeps_def)
qed

lemma on_behalf_tenants: "on_behalf u roles w w' \<Longrightarrow> tenants_ok w \<Longrightarrow> tenants_ok w'"
  by (auto simp: on_behalf_def keeps_def)

lemma tenant_view_organizations:
  "tenant_view tid w' = tenant_view tid w \<Longrightarrow> [x \<leftarrow> organizations w'. org_id x = tid] = [x \<leftarrow> organizations w. org_id x = tid]"
  by (drule arg_cong [of _ _ organizations]) (simp add: tenant_view_def)

lemma tenant_exists: "tid \<in> org_id ` set (organizations w) \<longleftrightarrow> [x \<leftarrow> organizations w. org_id x = tid] \<noteq> []"
  by (auto simp: filter_empty_conv)


section \<open>The catalogue\<close>

definition catalogue :: "world \<Rightarrow> world" where
  "catalogue w = empty_world
     \<lparr>organizations := organizations w, locations := locations w, providers := providers w, services := services w,
      provider_services := provider_services w, provider_locations := provider_locations w,
      service_locations := service_locations w, organization_members := organization_members w\<rparr>"

definition catalogue_view :: "int \<Rightarrow> world \<Rightarrow> world" where
  "catalogue_view tid w = tenant_view tid (catalogue w)"

lemma catalogue_view_eq:
  "catalogue_view tid w = (tenant_view tid w)\<lparr>availabilities := [], date_overrides := [], time_offs := [], appointments := []\<rparr>"
  by (simp add: catalogue_view_def catalogue_def tenant_view_def empty_world_def)

lemma catalogue_eqI:
  "outside w' = outside w \<Longrightarrow> catalogue w' = catalogue w"
  by (drule outside_eqD) (simp add: catalogue_def)

lemma catalogue_rows [simp]:
  "catalogue (w\<lparr>availabilities := x1\<rparr>) = catalogue w" "catalogue (w\<lparr>date_overrides := x2\<rparr>) = catalogue w"
  "catalogue (w\<lparr>time_offs := x3\<rparr>) = catalogue w"
  by (simp_all add: catalogue_def)

lemma catalogue_schedule_writes:
  "availability_create r1 w = Inr (a, w') \<Longrightarrow> catalogue w' = catalogue w"
  "availability_update a w = Inr w' \<Longrightarrow> catalogue w' = catalogue w"
  "date_override_create r2 w = Inr (d, w') \<Longrightarrow> catalogue w' = catalogue w"
  "date_override_update d w = Inr w' \<Longrightarrow> catalogue w' = catalogue w"
  "time_off_create r3 w = Inr (f, w') \<Longrightarrow> catalogue w' = catalogue w"
  "time_off_update f w = Inr w' \<Longrightarrow> catalogue w' = catalogue w"
  by (auto simp: availability_create_def availability_update_def date_override_create_def date_override_update_def
      time_off_create_def time_off_update_def split: sum.splits)

lemma catalogue_left_by:
  "(\<And>x w'. r = Inr (x, w') \<Longrightarrow> catalogue w' = catalogue w) \<Longrightarrow> catalogue (left_by w r) = catalogue w"
  by (auto simp: left_by_def split: sum.split)

lemma catalogue_deleted_by:
  "(\<And>w'. r = Inr w' \<Longrightarrow> catalogue w' = catalogue w) \<Longrightarrow> catalogue (deleted_by w r) = catalogue w"
  by (auto simp: deleted_by_def split: sum.split)

lemma catalogue_schedules:
  "create_availability p1 w = Inr (x1, w') \<Longrightarrow> catalogue w' = catalogue w"
  "create_override p2 w = Inr (x2, w') \<Longrightarrow> catalogue w' = catalogue w"
  "create_time_off p3 w = Inr (x3, w') \<Longrightarrow> catalogue w' = catalogue w"
  "update_availability i p4 w = Inr (x4, w') \<Longrightarrow> catalogue w' = catalogue w"
  "update_override i p5 w = Inr (x5, w') \<Longrightarrow> catalogue w' = catalogue w"
  "update_time_off ev i p6 w = Inr (x6, w') \<Longrightarrow> catalogue w' = catalogue w"
  "catalogue (availability_delete x1 w) = catalogue w" "catalogue (date_override_delete x2 w) = catalogue w"
  "catalogue (time_off_delete x3 w) = catalogue w"
  by (auto dest!: schedule_create_rows schedule_update_rows dest: catalogue_schedule_writes
      simp: availability_delete_def date_override_delete_def time_off_delete_def)

lemma catalogue_bookings:
  "create_appointment_route ev u p w = Some (Inr (x, w')) \<Longrightarrow> catalogue w' = catalogue w"
  "catalogue (snd (cancel_appointment_route ev u i notes w)) = catalogue w"
  "reschedule_appointment_route ev u i t w = Some (Inr (x, w')) \<Longrightarrow> catalogue w' = catalogue w"
  by (auto simp: create_appointment_route_def reschedule_appointment_route_def cancel_appointment_route_def require_def
      split: sum.splits prod.splits dest: outside_create_appointment outside_cancel outside_reschedule intro: catalogue_eqI)

lemma run_calendar_catalogue: "run_calendar ev u q w = Some w' \<Longrightarrow> catalogue w' = catalogue w"
  by (cases q)
    (auto intro!: catalogue_left_by catalogue_deleted_by
      simp: create_availability_route_def update_availability_route_def delete_availability_route_def
        create_availability_for_provider_def update_availability_for_provider_def delete_availability_for_provider_def
        create_date_override_route_def update_date_override_route_def delete_date_override_route_def
        create_date_override_for_provider_def update_date_override_for_provider_def delete_date_override_for_provider_def
        create_time_off_route_def update_time_off_route_def delete_time_off_route_def
        create_time_off_for_provider_def update_time_off_for_provider_def delete_time_off_for_provider_def
        catalogue_bookings catalogue_schedules(7-9)
      dest: catalogue_schedules(1-6) catalogue_bookings(1,3) split: sum.splits)

section \<open>Outsiders and members without an administrator's role\<close>

lemma requests_tenants: "requests allowed w w' \<Longrightarrow> tenants_ok w \<Longrightarrow> tenants_ok w'"
  by (induction rule: requests.induct) (auto dest: run_staff_on_behalf on_behalf_tenants)

text \<open>
  C4. Isolation of tenants.  Whatever sequence of staff requests is sent by users who are not active
  members of an organization (nor platform administrators) when each request arrives, the rows
  of that organization are afterwards exactly what they were: its own row, its locations,
  providers, services, assignments, calendars, members and bookings.
\<close>

theorem outsiders_change_nothing:
  assumes "tenants_ok w" and "tid \<in> org_id ` set (organizations w)"
    and "requests (\<lambda>w1 user. \<not> acts_for w1 user tid []) w w'"
  shows "tenant_view tid w' = tenant_view tid w"
  using assms(3)
proof induction
  case (Request w1 user ev q w2)
  have ok: "tenants_ok w1" using requests_tenants Request.hyps(1) assms(1) by blast
  have "tid \<in> org_id ` set (organizations w1)"
    using assms(2) tenant_view_organizations [OF Request.IH] by (simp add: tenant_exists)
  with on_behalf_spares [OF run_staff_on_behalf [OF Request.hyps(2,4)] Request.hyps(3) ok] Request.IH
  show ?case by simp
qed simp

text \<open>
  C5. Members without an administrator's role.  Staff and providers of an organization, and
  everybody outside it, can change its calendars and bookings but not its catalogue: its own row,
  its locations, providers, services, assignments and members are as they were after any
  sequence of their requests.
\<close>

theorem only_admins_change_catalogue:
  assumes "tenants_ok w" and "tid \<in> org_id ` set (organizations w)"
    and "requests (\<lambda>w1 user. \<not> acts_for w1 user tid ORG_ADMIN_ROLES) w w'"
  shows "catalogue_view tid w' = catalogue_view tid w"
  using assms(3)
proof induction
  case (Request w1 user ev q w2)
  have ok: "tenants_ok w1" using requests_tenants Request.hyps(1) assms(1) by blast
  have ex: "tid \<in> org_id ` set (organizations w1)"
    using assms(2) arg_cong [OF Request.IH, of organizations] by (simp add: tenant_exists catalogue_view_eq tenant_view_def)
  have "catalogue_view tid w2 = catalogue_view tid w1"
  proof (cases q)
    case (Catalogue_request c)
    with Request.hyps(4) run_catalogue_on_behalf [OF Request.hyps(2)]
    have "on_behalf user ORG_ADMIN_ROLES w1 w2" by auto
    from on_behalf_spares [OF this Request.hyps(3) ok ex] show ?thesis by (simp add: catalogue_view_eq)
  next
    case (Calendar_request c)
    with Request.hyps(4) show ?thesis by (simp add: run_calendar_catalogue catalogue_view_def)
  qed
  with Request.IH show ?case by simp
qed simp

text \<open>A second salon opened by a newcomer, and a provider of the first one who keeps its own calendar.\<close>

definition newcomer :: user where
  "newcomer = sample_admin\<lparr>usr_id := 8, usr_email := ''new'', usr_is_platform_admin := False\<rparr>"

definition team_world :: world where
  "team_world = sample_world
     \<lparr>users := [newcomer], providers := [sample_provider\<lparr>prov_user_id := Some 8\<rparr>], organization_members :=
        [\<lparr>mem_id = 1, mem_organization_id = 1, mem_user_id = 8, mem_role = PROVIDER, mem_is_active = True\<rparr>]\<rparr>"

definition second_salon :: organization where
  "second_salon = sample_organization\<lparr>org_name := ''Spa''\<rparr>"

lemma sample_tenants_ok: "tenants_ok sample_world" "tenants_ok team_world"
  by (simp_all add: tenants_ok_def tenant_keys_def tenant_links_def linked_def owner_of_def tbl_get_def tbl_ok_def
      sample_world_def team_world_def empty_world_def sample_organization_def sample_location_def sample_provider_def
      sample_service_def)

lemma request_once:
  "usr_is_active user \<Longrightarrow> allowed w user \<Longrightarrow> run_staff ev user q w = Some w' \<Longrightarrow> requests allowed w w'"
  by (rule requests.Request [OF requests.Start])

lemma second_salon_created:
  "case create_organization newcomer second_salon None sample_world of
     (r, w) \<Rightarrow> map org_slug (organizations w) = [''salon'', ''spa'']"
  by code_simp

theorem outsiders_change_nothing_witness:
  "\<exists>w'. requests (\<lambda>w1 user. \<not> acts_for w1 user 1 []) sample_world w' \<and> map org_slug (organizations w') = [''salon'', ''spa''] \<and>
     tenant_view 1 w' = tenant_view 1 sample_world"
proof -
  let ?w = "run_catalogue newcomer (CreateOrganization second_salon None) sample_world"
  have r: "requests (\<lambda>w1 user. \<not> acts_for w1 user 1 []) sample_world ?w"
  proof (rule request_once)
    show "usr_is_active newcomer" "\<not> acts_for sample_world newcomer 1 []" by code_simp+
    show "run_staff sample_env newcomer (Catalogue_request (CreateOrganization second_salon None)) sample_world = Some ?w" by simp
  qed
  have "1 \<in> org_id ` set (organizations sample_world)" by (simp add: sample_world_def sample_organization_def)
  note v = outsiders_change_nothing [OF sample_tenants_ok(1) this r]
  have "map org_slug (organizations ?w) = [''salon'', ''spa'']"
    using second_salon_created by (simp split: prod.splits)
  with r v show ?thesis by (intro exI [of _ ?w] conjI)
qed

theorem only_admins_change_catalogue_witness:
  "\<exists>w'. requests (\<lambda>w1 user. \<not> acts_for w1 user 1 ORG_ADMIN_ROLES) team_world w' \<and> length (availabilities w') = 2 \<and>
     catalogue_view 1 w' = catalogue_view 1 team_world"
proof -
  let ?q = "CreateAvailabilityFor 1 \<lparr>avc_provider_id = 1, avc_weekday = 4, avc_start_time = 9 * hour_us,
    avc_end_time = 10 * hour_us, avc_is_active = True\<rparr>"
  have l: "map_option (\<lambda>w. length (availabilities w)) (run_calendar sample_env newcomer ?q team_world) = Some 2" by code_simp
  then obtain w' where w': "run_calendar sample_env newcomer ?q team_world = Some w'" "length (availabilities w') = 2" by auto
  have r: "requests (\<lambda>w1 user. \<not> acts_for w1 user 1 ORG_ADMIN_ROLES) team_world w'"
  proof (rule request_once)
    show "usr_is_active newcomer" "\<not> acts_for team_world newcomer 1 ORG_ADMIN_ROLES" by code_simp+
    show "run_staff sample_env newcomer (Calendar_request ?q) team_world = Some w'" using w'(1) by simp
  qed
  have "1 \<in> org_id ` set (organizations team_world)" by (simp add: team_world_def sample_world_def sample_organization_def)
  from only_admins_change_catalogue [OF sample_tenants_ok(2) this r] w'(2) r show ?thesis by blast
qed


end
