(* ===== verification/Catalogue_Sound.thy ===== *)
theory Catalogue_Sound
  imports Isolation
begin

text \<open>
  What every request of the staff endpoints keeps true of the catalogue.  The locale says which
  facts about the repositories' writes are enough; its lemmas lift them to the endpoints and to
  sequences of requests.
\<close>

section \<open>Requests that keep an invariant\<close>

definition keeping :: "(world \<Rightarrow> bool) \<Rightarrow> world \<Rightarrow> 'a outcome \<Rightarrow> bool" where
  "keeping I w r \<longleftrightarrow> (I w \<longrightarrow> I (snd r))"

lemma keeping_simps [simp]: "keeping I w (respond x w)" "keeping I w (Inl e, w)"
  by (simp_all add: keeping_def respond_def)

lemma keeping_require: "(\<And>b. r = Inr b \<Longrightarrow> keeping I w (k b)) \<Longrightarrow> keeping I w (require r w k)"
  by (auto simp: require_def split: sum.splits)

lemma keeping_commit:
  "(\<And>x w'. I w \<Longrightarrow> r = Inr (x, w') \<Longrightarrow> I w') \<Longrightarrow> (\<And>x w'. I w \<Longrightarrow> r = Inr (x, w') \<Longrightarrow> keeping I w' (k x w')) \<Longrightarrow>
     keeping I w (commit r w k)"
  by (auto simp: commit_def keeping_def split: sum.splits prod.splits)

lemma keeping_and_then:
  "keeping I w r \<Longrightarrow> (\<And>x w'. I w' \<Longrightarrow> r = (Inr x, w') \<Longrightarrow> keeping I w' (k x w')) \<Longrightarrow> keeping I w (and_then r k)"
  by (auto simp: and_then_def keeping_def split: sum.splits prod.splits)

lemma keeping_integrity: "keeping I w r \<Longrightarrow> keeping I w (integrity_as c d r)"
  by (auto simp: integrity_as_def keeping_def split: sum.splits prod.splits exn.splits)

lemma keeping_if: "(b \<Longrightarrow> keeping I w r) \<Longrightarrow> (\<not> b \<Longrightarrow> keeping I w s) \<Longrightarrow> keeping I w (if b then r else s)"
  by simp

lemmas keeping_intros = keeping_require keeping_commit keeping_and_then keeping_integrity keeping_if keeping_simps

section \<open>A service that can be sold\<close>

text \<open>Its payment policy is valid and its price is not negative.\<close>

definition sellable :: "service \<Rightarrow> bool" where
  "sellable s \<longleftrightarrow>
     validate_service_payment_policy (svc_requires_payment s) (svc_payment_type s) (svc_price s) (svc_currency s)
       (svc_deposit_amount_minor s) = Inr () \<and> (case svc_price s of None \<Rightarrow> True | Some p \<Rightarrow> 0 \<le> p)"

lemma payload_sellable: "service_payload_ok s \<Longrightarrow> sellable s"
  by (cases "svc_price s") (simp_all add: service_payload_ok_def sellable_def)

lemma sellable_priced: "sellable s \<Longrightarrow> priced s"
  by (auto simp: sellable_def priced_def required_amount_minor_def validate_service_payment_policy_def Let_def
      decimal_to_minor_nonneg split: option.splits if_splits)

lemma sellable_updates [simp]:
  "sellable (s\<lparr>svc_is_active := b\<rparr>) = sellable s" "sellable (s\<lparr>svc_id := k\<rparr>) = sellable s"
  "sellable (s\<lparr>svc_organization_id := i, svc_provider_id := j\<rparr>) = sellable s"
  by (simp_all add: sellable_def)

text \<open>An update that passed the checks of the endpoint leaves a service that can be sold.\<close>

lemma patched_sellable:
  assumes "service_update_payload_ok p" and "\<not> service_update_nulls p"
    and "value_error_as 400 (validate_service_payment_policy
        (truthy (target (sru_requires_payment p) (Some (svc_requires_payment s))))
        (case target (sru_payment_type p) (Some (svc_payment_type s)) of None \<Rightarrow> FULL | Some t \<Rightarrow> t)
        (target (sru_price p) (svc_price s)) (target (sru_currency p) (svc_currency s))
        (target (sru_deposit_amount_minor p) (svc_deposit_amount_minor s))) = Inr u"
    and "sellable s"
  shows "sellable (service_patched p s)"
proof -
  have v: "validate_service_payment_policy
        (truthy (target (sru_requires_payment p) (Some (svc_requires_payment s))))
        (case target (sru_payment_type p) (Some (svc_payment_type s)) of None \<Rightarrow> FULL | Some t \<Rightarrow> t)
        (target (sru_price p) (svc_price s)) (target (sru_currency p) (svc_currency s))
        (target (sru_deposit_amount_minor p) (svc_deposit_amount_minor s)) = Inr ()"
    using assms(3) by (auto simp: value_error_as_def split: sum.splits exn.splits)
  have null: "\<not> is_null (sru_requires_payment p)" "\<not> is_null (sru_payment_type p)"
    using assms(2) by (simp_all add: service_update_nulls_def)
  have "truthy (target (sru_requires_payment p) (Some (svc_requires_payment s))) = svc_requires_payment (service_patched p s)"
    using null(1) by (auto simp: truthy_def service_patched_def is_null_def target_def patched_def split: option.splits)
  moreover have "(case target (sru_payment_type p) (Some (svc_payment_type s)) of None \<Rightarrow> FULL | Some t \<Rightarrow> t) =
       svc_payment_type (service_patched p s)"
    using null(2) by (auto simp: service_patched_def is_null_def target_def patched_def split: option.splits)
  moreover have "case target (sru_price p) (svc_price s) of None \<Rightarrow> True | Some x \<Rightarrow> 0 \<le> x"
  proof -
    have "patch_ok (\<lambda>a. 0 \<le> a) (sru_price p)" using assms(1) by (simp add: service_update_payload_ok_def)
    with assms(4) show ?thesis by (auto simp: patch_ok_def target_def sellable_def split: option.splits)
  qed
  ultimately show ?thesis using v by (simp add: sellable_def service_patched_def)
qed

section \<open>What the writes have to keep\<close>

locale catalogue_invariant =
  fixes I :: "world \<Rightarrow> bool"
  assumes catalogue_only: "I w \<Longrightarrow> catalogue w' = catalogue w \<Longrightarrow> I w'"
    and organization_created: "I w \<Longrightarrow> organization_create r1 slug w = Inr (y1, w') \<Longrightarrow> I w'"
    and organization_saved: "I w \<Longrightarrow> organization_save y1 w = Inr w' \<Longrightarrow> I w'"
    and organization_deleted: "I w \<Longrightarrow> organization_delete y1 w = Inr w' \<Longrightarrow> I w'"
    and location_created: "I w \<Longrightarrow> location_create r2 slug w = Inr (y2, w') \<Longrightarrow> I w'"
    and location_saved: "I w \<Longrightarrow> location_save y2 w = Inr w' \<Longrightarrow> I w'"
    and provider_created: "I w \<Longrightarrow> provider_create r3 w = Inr (y3, w') \<Longrightarrow> I w'"
    and provider_updated: "I w \<Longrightarrow> provider_update y3 w = Inr w' \<Longrightarrow> I w'"
    and service_created: "I w \<Longrightarrow> service_create r4 w = Inr (y4, w') \<Longrightarrow> sellable r4 \<Longrightarrow> I w'"
    and service_updated: "I w \<Longrightarrow> service_update y4 w = Inr w' \<Longrightarrow> sellable y4 \<Longrightarrow> I w'"
    and service_sellable: "I w \<Longrightarrow> service_get i w = Some y4 \<Longrightarrow> sellable y4"
    and member_added: "I w \<Longrightarrow> organization_member_add r5 w = Inr (y5, w') \<Longrightarrow> I w'"
    and member_updated: "I w \<Longrightarrow> organization_member_update y5 w = Inr w' \<Longrightarrow> I w'"
    and assignment_created: "I w \<Longrightarrow> provider_service_create r6 w = Inr (y6, w') \<Longrightarrow> I w'"
    and assignment_deleted: "I w \<Longrightarrow> I (provider_service_delete y6 w)"
    and provider_location_created: "I w \<Longrightarrow> provider_location_create r7 w = Inr (y7, w') \<Longrightarrow> I w'"
    and provider_location_deleted: "I w \<Longrightarrow> I (provider_location_delete y7 w)"
    and service_location_created: "I w \<Longrightarrow> service_location_create r8 w = Inr (y8, w') \<Longrightarrow> I w'"
    and service_location_deleted: "I w \<Longrightarrow> I (service_location_delete y8 w)"
begin

lemmas writes = organization_created organization_saved organization_deleted location_created location_saved
  provider_created provider_updated member_added member_updated assignment_created assignment_deleted
  provider_location_created provider_location_deleted service_location_created service_location_deleted

lemma organization_updated: "I w \<Longrightarrow> organization_update r slug w = Inr (y, w') \<Longrightarrow> I w'"
  by (auto simp: organization_update_def Let_def dest: writes)

lemma location_updated: "I w \<Longrightarrow> location_update r slug w = Inr (y, w') \<Longrightarrow> I w'"
  by (auto simp: location_update_def Let_def dest: writes)

lemma locations_assigned: "keeping I w (assign_provider_to i ls w)"
  by (induction ls arbitrary: w) (auto split: option.split intro!: keeping_commit dest: writes)

lemma service_offered: "keeping I w (offer_service_at i ls w)"
  by (induction ls arbitrary: w) (auto split: option.split intro!: keeping_commit dest: writes)

lemma keeping_organizations:
  "keeping I w (create_organization u r1 slug w)" "keeping I w (update_organization u i p w)"
  "keeping I w (delete_organization u i w)"
  unfolding create_organization_def update_organization_def delete_organization_def
  by (rule keeping_intros | auto split: option.split intro!: keeping_commit dest: writes organization_updated)+

lemma keeping_members:
  "keeping I w (add_member u i j role w)" "keeping I w (add_member_legacy u i j role w)"
  "keeping I w (update_member u i j p w)" "keeping I w (update_member_legacy u j p w)"
  "keeping I w (deactivate_member u i j w)" "keeping I w (deactivate_member_legacy u j w)"
proof -
  have "keeping I w (add_or_reactivate_member i j role w)" for i
    unfolding add_or_reactivate_member_def Let_def
    by (auto split: sum.split exn.split option.split prod.split intro!: keeping_commit dest: writes)
      (auto simp: keeping_def respond_def dest: writes)
  moreover have "keeping I w (member_update m p w)" "keeping I w (member_deactivate m w)" for m
    unfolding member_update_def member_deactivate_def Let_def
    by (auto intro!: keeping_commit dest: writes)
  ultimately show
    "keeping I w (add_member u i j role w)" "keeping I w (add_member_legacy u i j role w)"
    "keeping I w (update_member u i j p w)" "keeping I w (update_member_legacy u j p w)"
    "keeping I w (deactivate_member u i j w)" "keeping I w (deactivate_member_legacy u j w)"
    unfolding add_member_def add_member_legacy_def update_member_def update_member_legacy_def
      deactivate_member_def deactivate_member_legacy_def
    by (auto intro!: keeping_require)
qed

lemma location_unassigned:
  "keeping I w (respond () (provider_location_delete y7 w))" "keeping I w (respond () (service_location_delete y8 w))"
  "keeping I w (respond () (provider_service_delete y6 w))"
  by (simp_all add: keeping_def respond_def provider_location_deleted service_location_deleted assignment_deleted)

lemma keeping_locations:
  "keeping I w (create_organization_location u i r2 slug w)" "keeping I w (update_organization_location u i j p w)"
  "keeping I w (deactivate_organization_location u i j w)" "keeping I w (assign_provider_location u i j w)"
  "keeping I w (unassign_provider_location u i j w)" "keeping I w (assign_service_location u i j w)"
  "keeping I w (unassign_service_location u i j w)"
  unfolding create_organization_location_def update_organization_location_def deactivate_organization_location_def
    assign_provider_location_def unassign_provider_location_def assign_service_location_def unassign_service_location_def
  by (rule keeping_intros location_unassigned | auto dest: writes location_updated)+

lemma keeping_providers:
  "keeping I w (create_provider u r3 w)" "keeping I w (update_provider u i p w)"
  "keeping I w (activate_provider u i w)" "keeping I w (deactivate_provider u i w)"
proof -
  have link: "keeping I w (link_provider_user i j w)" for i j w
    unfolding link_provider_user_def
    by (auto split: option.split intro!: keeping_commit dest: writes)
  show "keeping I w (create_provider u r3 w)"
    unfolding create_provider_def
    by (rule keeping_intros locations_assigned link | auto dest: writes)+
  show "keeping I w (update_provider u i p w)" "keeping I w (activate_provider u i w)" "keeping I w (deactivate_provider u i w)"
    unfolding update_provider_def activate_provider_def deactivate_provider_def Let_def
    by (rule keeping_intros | auto dest: writes)+
qed

lemma service_switched:
  "service_get i w = Some s \<Longrightarrow> I w \<Longrightarrow> service_update (s\<lparr>svc_is_active := b\<rparr>) w = Inr w' \<Longrightarrow> I w'"
  by (rule service_updated) (auto dest: service_sellable)

lemma keeping_services:
  "keeping I w (create_provider_service u i payload w)" "keeping I w (unassign_provider_service u i j w)"
  "keeping I w (create_service u r4 w)" "keeping I w (update_service u i p w)"
  "keeping I w (activate_service u i w)" "keeping I w (deactivate_service u i w)" "keeping I w (delete_service u i w)"
proof -
  have ensure: "keeping I w (ensure_assigned i j w)" for i j w
    unfolding ensure_assigned_def by (auto split: option.split intro!: keeping_commit dest: writes)
  have "keeping I w (assign_existing_service q j d w)" for q j d
    unfolding assign_existing_service_def by (rule keeping_intros service_offered | auto dest: writes)+
  moreover have "keeping I w (create_assigned_service q s w)" if "sellable s" for q s
    unfolding create_assigned_service_def
    by (rule keeping_intros service_offered | use that in \<open>auto dest: writes service_created\<close>)+
  ultimately show "keeping I w (create_provider_service u i payload w)"
    unfolding create_provider_service_def
    by (intro keeping_require) (use payload_sellable in \<open>auto split: provider_service_payload.split simp: unprocessable_def\<close>)
  show "keeping I w (unassign_provider_service u i j w)"
    unfolding unassign_provider_service_def
    by (intro keeping_require location_unassigned)
  show "keeping I w (create_service u r4 w)"
    unfolding create_service_def
    by (intro keeping_require keeping_integrity keeping_commit keeping_and_then service_offered ensure keeping_simps)
      (auto simp: unprocessable_def intro: service_created payload_sellable)
  show "keeping I w (update_service u i p w)"
  proof -
    have "keeping I w (commit (saving (service_patched p s) (service_update (service_patched p s) w)) w k)"
      if "I w \<Longrightarrow> sellable (service_patched p s)" and "\<And>x w1. keeping I w1 (k x w1)" for s k
      using that by (auto intro!: keeping_commit dest: service_updated)
    note changed = this
    show ?thesis
      unfolding update_service_def unprocessable_def
    proof (intro keeping_require keeping_integrity keeping_if keeping_simps changed, goal_cases)
      case (1 x s m y z)
      then show ?case using patched_sellable service_sellable by auto
    next
      case 2
      show ?case by (auto intro!: keeping_and_then ensure)
    qed
  qed
  show "keeping I w (activate_service u i w)" "keeping I w (deactivate_service u i w)" "keeping I w (delete_service u i w)"
    unfolding activate_service_def deactivate_service_def delete_service_def Let_def
    by (intro keeping_require keeping_commit keeping_simps; auto dest: service_switched)+
qed

lemma catalogue_request_keeps: "I w \<Longrightarrow> I (run_catalogue u q w)"
  using keeping_organizations keeping_members keeping_locations keeping_providers keeping_services
  by (cases q) (simp_all add: keeping_def)

lemma staff_request_keeps: "I w \<Longrightarrow> run_staff ev u q w = Some w' \<Longrightarrow> I w'"
  by (cases q) (auto intro: catalogue_request_keeps catalogue_only dest: run_calendar_catalogue)

lemma requests_keep: "requests allowed w w' \<Longrightarrow> I w \<Longrightarrow> I w'"
  by (induction rule: requests.induct) (auto intro: staff_request_keeps)

end


section \<open>The catalogue stays sound\<close>

text \<open>
  Unique keys and slugs, commissions in their ranges, durations that are positive, and services
  that can be sold.
\<close>

definition catalogue_sound :: "world \<Rightarrow> bool" where
  "catalogue_sound w \<longleftrightarrow>
     catalogue_ok w \<and> tbl_ok org_id (organizations w) \<and> distinct (map org_slug (organizations w)) \<and>
     (\<forall>r \<in> set (organizations w). commission_config_ok (org_commission_percentage r) (org_commission_fixed_minor r)) \<and>
     (\<forall>s \<in> set (services w). sellable s)"

lemma db_insert_all:
  assumes "db_insert set_ident ident violates t r = Inr (r', t')" and "\<forall>x \<in> set t. P x"
    and "violates t r' = None \<Longrightarrow> P r'"
  shows "\<forall>x \<in> set t'. P x"
  using assms by (auto simp: db_insert_def Let_def split: option.splits)

lemma db_update_all:
  assumes "db_update ident violates t r = Inr t'" and "\<forall>x \<in> set t. P x" and "\<And>others. violates others r = None \<Longrightarrow> P r"
  shows "\<forall>x \<in> set t'. P x"
  using assms by (auto simp: db_update_def tbl_set_def split: option.splits)

text \<open>A column that is unique stays so.\<close>

lemma tbl_set_distinct:
  assumes "tbl_ok ident t" and "distinct (map key t)" and "key r \<notin> key ` set (tbl_del ident (ident r) t)"
  shows "distinct (map key (tbl_set ident r t))"
  using assms
proof (induction t)
  case (Cons x t)
  show ?case
  proof (cases "ident x = ident r")
    case True
    then have "\<forall>y \<in> set t. ident y \<noteq> ident r" using Cons.prems(1) by (auto simp: tbl_ok_def image_iff)
    then have "tbl_del ident (ident r) (x # t) = t" "tbl_set ident r (x # t) = r # t"
      using True by (auto simp: tbl_del_def tbl_set_def filter_id_conv intro!: map_idI)
    with Cons.prems show ?thesis by simp
  next
    case False
    with Cons.prems have "distinct (map key (tbl_set ident r t))" "key x \<noteq> key r"
      by (auto simp: tbl_ok_def tbl_del_def intro: Cons.IH)
    moreover have "key ` set (tbl_set ident r t) \<subseteq> insert (key r) (key ` set t)" by (auto simp: tbl_set_def)
    ultimately have "key x \<notin> key ` set (tbl_set ident r t)" using Cons.prems(2) by auto
    moreover have "tbl_set ident r (x # t) = x # tbl_set ident r t" using False by (simp add: tbl_set_def)
    ultimately show ?thesis using \<open>distinct (map key (tbl_set ident r t))\<close> by simp
  qed
qed (simp add: tbl_set_def)

lemma organization_rows_sound:
  "organization_create r slug w = Inr (y, w') \<Longrightarrow> catalogue_sound w \<Longrightarrow> catalogue_sound w'"
  "organization_save r w = Inr w' \<Longrightarrow> catalogue_sound w \<Longrightarrow> catalogue_sound w'"
proof -
  have v: "violates = organization_violates \<Longrightarrow> violates others r = None \<Longrightarrow>
      commission_config_ok (org_commission_percentage r) (org_commission_fixed_minor r) \<and> org_slug r \<notin> org_slug ` set others"
    for violates others r by (auto simp: organization_violates_def commission_config_ok_def split: if_splits)
  {
    assume c: "organization_create r slug w = Inr (y, w')" and ok: "catalogue_sound w"
  from c have "organization_violates (organizations w) y = None"
    by (auto simp: organization_create_def db_insert_def Let_def split: option.splits sum.splits if_splits)
  with organization_create_eq [OF c] v [OF refl, of "organizations w" y] ok show "catalogue_sound w'"
    by (simp add: catalogue_sound_def catalogue_ok_def tbl_ok_append)
next
  assume u: "organization_save r w = Inr w'" and ok: "catalogue_sound w"
  from u have "organization_violates (tbl_del org_id (org_id r) (organizations w)) r = None"
    by (auto simp: organization_save_def db_update_def split: option.splits sum.splits if_splits)
  from v [OF refl this] organization_save_eq [OF u] ok tbl_set_distinct [of org_id "organizations w" org_slug r]
  show "catalogue_sound w'"
    by (auto simp: catalogue_sound_def catalogue_ok_def table_simps) (auto simp: tbl_set_def)
  }
qed

lemma provider_rows_sound:
  "provider_create r w = Inr (y, w') \<Longrightarrow> catalogue_sound w \<Longrightarrow> catalogue_sound w'"
  "provider_update r w = Inr w' \<Longrightarrow> catalogue_sound w \<Longrightarrow> catalogue_sound w'"
proof -
  have v: "provider_violates others r = None \<Longrightarrow> 0 < prov_appointment_duration_minutes r" for others r
    by (auto simp: provider_violates_def split: if_splits)
  show "provider_create r w = Inr (y, w') \<Longrightarrow> catalogue_sound w \<Longrightarrow> catalogue_sound w'"
    "provider_update r w = Inr w' \<Longrightarrow> catalogue_sound w \<Longrightarrow> catalogue_sound w'"
    by (auto simp: provider_create_def provider_update_def catalogue_sound_def catalogue_ok_def split: sum.splits
        dest!: db_insert_all [where P = "\<lambda>p. 0 < prov_appointment_duration_minutes p"]
          db_update_all [where P = "\<lambda>p. 0 < prov_appointment_duration_minutes p"] intro: v)
qed

lemma service_rows_sound:
  "service_create r w = Inr (y, w') \<Longrightarrow> sellable r \<Longrightarrow> catalogue_sound w \<Longrightarrow> catalogue_sound w'"
  "service_update r w = Inr w' \<Longrightarrow> sellable r \<Longrightarrow> catalogue_sound w \<Longrightarrow> catalogue_sound w'"
proof -
  have v: "service_violates others r = None \<Longrightarrow> 0 < svc_duration_minutes r \<and> 0 \<le> svc_buffer_before_minutes r \<and>
      0 \<le> svc_buffer_after_minutes r" for others r
    by (auto simp: service_violates_def split: if_splits)
  {
    assume c: "service_create r w = Inr (y, w')" and s: "sellable r" and ok: "catalogue_sound w"
    have y: "y = r\<lparr>svc_id := svc_id y\<rparr>" using service_create_eq [OF c] by simp
    then have "sellable y" using s sellable_updates(2) by metis
    moreover from c have "service_violates (services w) y = None"
      by (auto simp: service_create_def db_insert_def Let_def split: option.splits sum.splits)
    ultimately show "catalogue_sound w'"
      using v service_create_eq [OF c] ok by (simp add: catalogue_sound_def catalogue_ok_def tbl_ok_append)
  next
    assume u: "service_update r w = Inr w'" and s: "sellable r" and ok: "catalogue_sound w"
    from u have "service_violates (tbl_del svc_id (svc_id r) (services w)) r = None"
      by (auto simp: service_update_def db_update_def split: option.splits sum.splits)
    then show "catalogue_sound w'"
      using v service_update_eq [OF u] ok s by (auto simp: catalogue_sound_def catalogue_ok_def table_simps) (auto simp: tbl_set_def)
  }
qed

lemma assignment_rows_sound:
  "provider_service_create r w = Inr (y, w') \<Longrightarrow> catalogue_sound w \<Longrightarrow> catalogue_sound w'"
  "catalogue_sound w \<Longrightarrow> catalogue_sound (provider_service_delete y w)"
proof -
  have v: "provider_service_violates others r = None \<Longrightarrow>
      (case ps_duration_minutes_override r of None \<Rightarrow> True | Some d \<Rightarrow> 0 < d)" for others r
    by (auto simp: provider_service_violates_def split: if_splits option.splits)
  show "provider_service_create r w = Inr (y, w') \<Longrightarrow> catalogue_sound w \<Longrightarrow> catalogue_sound w'"
    by (auto simp: provider_service_create_def catalogue_sound_def catalogue_ok_def split: sum.splits
        dest!: db_insert_all [where P = "\<lambda>x. case ps_duration_minutes_override x of None \<Rightarrow> True | Some d \<Rightarrow> 0 < d"] intro: v)
  show "catalogue_sound w \<Longrightarrow> catalogue_sound (provider_service_delete y w)"
    by (simp add: provider_service_delete_def catalogue_sound_def catalogue_ok_def table_simps)
qed

lemma organization_delete_sound:
  assumes "organization_delete r w = Inr w'" and "catalogue_sound w"
  shows "catalogue_sound w'"
proof -
  from assms(1) have
    "\<exists>P. organizations w' = filter P (organizations w)" "\<exists>P. services w' = filter P (services w)"
    "\<exists>P. providers w' = filter P (providers w)" "\<exists>P. provider_services w' = filter P (provider_services w)"
    by (auto simp: organization_delete_def Let_def tbl_del_def split: if_split_asm)
  with assms(2) show ?thesis
    by (auto simp: catalogue_sound_def catalogue_ok_def tbl_ok_def distinct_map_filter)
qed

lemma other_rows_sound:
  "location_create r2 slug w = Inr (y2, w') \<Longrightarrow> catalogue_sound w \<Longrightarrow> catalogue_sound w'"
  "location_save y2 w = Inr w' \<Longrightarrow> catalogue_sound w \<Longrightarrow> catalogue_sound w'"
  "organization_member_add r5 w = Inr (y5, w') \<Longrightarrow> catalogue_sound w \<Longrightarrow> catalogue_sound w'"
  "organization_member_update y5 w = Inr w' \<Longrightarrow> catalogue_sound w \<Longrightarrow> catalogue_sound w'"
  "provider_location_create r7 w = Inr (y7, w') \<Longrightarrow> catalogue_sound w \<Longrightarrow> catalogue_sound w'"
  "catalogue_sound w \<Longrightarrow> catalogue_sound (provider_location_delete y7 w)"
  "service_location_create r8 w = Inr (y8, w') \<Longrightarrow> catalogue_sound w \<Longrightarrow> catalogue_sound w'"
  "catalogue_sound w \<Longrightarrow> catalogue_sound (service_location_delete y8 w)"
  by (auto simp: catalogue_sound_def catalogue_ok_def provider_location_delete_def service_location_delete_def
      dest!: location_create_eq location_save_eq member_add_eq member_update_eq provider_location_create_eq
        service_location_create_eq)

interpretation sound: catalogue_invariant catalogue_sound
proof unfold_locales
  fix w w' assume "catalogue_sound w" and "catalogue w' = catalogue w"
  moreover from this(2) have "organizations w' = organizations w" "providers w' = providers w" "services w' = services w"
      "provider_services w' = provider_services w"
    by (simp_all add: catalogue_def empty_world_def)
  ultimately show "catalogue_sound w'" by (simp add: catalogue_sound_def catalogue_ok_def)
next
  fix i w s assume "catalogue_sound w" and "service_get i w = Some s"
  then show "sellable s" using service_get_mem by (auto simp: catalogue_sound_def)
qed (blast intro: organization_rows_sound organization_delete_sound provider_rows_sound service_rows_sound
    assignment_rows_sound other_rows_sound)+

text \<open>
  C6. What every staff request keeps.  After any sequence of requests of active users, catalogue
  requests and calendar requests, with whatever bodies, the catalogue is sound: keys and
  organization slugs are unique, no row refers to a row of another organization, commissions are
  within their ranges, and every service can be sold: one that requires a payment names an
  amount that is not negative and a currency.
\<close>

theorem staff_requests_keep_catalogue:
  assumes "tenants_ok w" and "catalogue_sound w" and "requests allowed w w'"
  shows "tenants_ok w' \<and> catalogue_sound w' \<and> (\<forall>s \<in> set (services w'). priced s)"
  using requests_tenants [OF assms(3,1)] sound.requests_keep [OF assms(3,2)] sellable_priced
  by (auto simp: catalogue_sound_def)

lemma sample_catalogue_sound: "catalogue_sound sample_world"
proof -
  have "sellable sample_service" by code_simp
  then show ?thesis
    by (simp add: catalogue_sound_def catalogue_ok_def tbl_ok_def sample_world_def empty_world_def sample_organization_def
        commission_config_ok_def sample_provider_def) (simp add: sample_service_def)
qed

theorem staff_requests_keep_catalogue_witness:
  "\<exists>w'. requests (\<lambda>_ _. True) sample_world w' \<and> map org_slug (organizations w') = [''salon'', ''spa''] \<and> catalogue_sound w'"
proof -
  let ?w = "run_catalogue newcomer (CreateOrganization second_salon None) sample_world"
  have r: "requests (\<lambda>_ _. True) sample_world ?w"
  proof (rule request_once)
    show "usr_is_active newcomer" by code_simp
    show "run_staff sample_env newcomer (Catalogue_request (CreateOrganization second_salon None)) sample_world = Some ?w" by simp
  qed simp
  have "map org_slug (organizations ?w) = [''salon'', ''spa'']"
    using second_salon_created by (simp split: prod.splits)
  with r staff_requests_keep_catalogue [OF sample_tenants_ok(1) sample_catalogue_sound r]
  show ?thesis by (intro exI [of _ ?w] conjI) simp_all
qed

end
