(* ===== verification/Publishing.thy ===== *)
theory Publishing
  imports Catalogue_Sound
begin

text \<open>
  Opening a salon: a valid organization is always created, its creator owns it and it has a
  location; a new provider works at every active location; and a new service is listed, with its
  provider, wherever that provider works.
\<close>

section \<open>A new organization\<close>











section \<open>A new provider\<close>









section \<open>A new service\<close>





section \<open>Applied to the sample salon\<close>





end
