(* ===== verification/Read_Access.thy ===== *)
theory Read_Access
  imports Catalogue_Sound
begin

text \<open>What the staff endpoints answer: rows of the organizations the caller is a member of.\<close>

definition answers_only :: "('r \<Rightarrow> bool) \<Rightarrow> 'r list result \<Rightarrow> bool" where
  "answers_only P r \<longleftrightarrow> (case r of Inl _ \<Rightarrow> True | Inr xs \<Rightarrow> list_all P xs)"

lemma answers_onlyI: "(\<And>xs x. r = Inr xs \<Longrightarrow> x \<in> set xs \<Longrightarrow> P x) \<Longrightarrow> answers_only P r"
  by (auto simp: answers_only_def list_all_iff split: sum.split)

text \<open>A guard that passed and a row chosen by the caller's own memberships.\<close>

lemma member_acts:
  "require_org_membership tid u r w = Inr m \<Longrightarrow> usr_is_active u \<Longrightarrow> acts_for w u tid []"
  using membership_acts_for acts_for_any by blast

lemma admin_acts: "usr_is_platform_admin u \<Longrightarrow> usr_is_active u \<Longrightarrow> acts_for w u tid roles"
  by (simp add: acts_for_def)

lemma own_organization_acts:
  "tid \<in> set (organization_member_list_active_org_ids_for_user (usr_id u) w) \<Longrightarrow> usr_is_active u \<Longrightarrow> acts_for w u tid []"
  by (auto simp: organization_member_list_active_org_ids_for_user_def acts_for_def)

lemmas access = member_acts admin_acts own_organization_acts

lemma organizations_read:
  "usr_is_active u \<Longrightarrow> x \<in> set (list_organizations u w) \<Longrightarrow> acts_for w u (org_id x) []"
  "usr_is_active u \<Longrightarrow> get_organization u i w = Inr y \<Longrightarrow> acts_for w u (org_id y) []"
  by (auto simp: list_organizations_def get_organization_def Let_def dest: access get_keys(1) split: if_splits)

lemma catalogue_read:
  assumes a: "usr_is_active u"
  shows "answers_only (\<lambda>x. acts_for w u (mem_organization_id x) []) (list_members u i w)"
    "answers_only (\<lambda>x. acts_for w u (loc_organization_id x) []) (list_organization_locations u i b w)"
    "answers_only (\<lambda>x. acts_for w u (prov_organization_id x) []) (list_providers u oi w)"
    "answers_only (\<lambda>x. acts_for w u (svc_organization_id x) []) (list_services u oi pp b w)"
    "answers_only (\<lambda>x. acts_for w u (apt_organization_id x) []) (list_appointments u oi pp ci w)"
  by (rule answers_onlyI; auto simp: list_members_def list_organization_locations_def list_providers_def list_services_def
      list_appointments_def organization_member_list_by_organization_def location_list_by_organization_def
      provider_list_def service_list_def appointment_list_def appointment_list_by_organization_ids_def Let_def
      dest: access [OF _ a] split: option.splits if_splits sum.splits)+


lemma provider_rows_read:
  assumes "readable_provider u i w = Inr p" and "usr_is_active u"
  shows "\<exists>tid. provider_org w i = Some tid \<and> acts_for w u tid []"
  using readable_provider_acts [OF assms] .

lemma calendars_read:
  fixes u :: user and w :: world
  assumes a: "usr_is_active u"
  defines "seen \<equiv> \<lambda>i. \<exists>tid. provider_org w i = Some tid \<and> acts_for w u tid []"
  shows "answers_only (\<lambda>x. seen (av_provider_id x)) (list_availability u i w)"
    "answers_only (\<lambda>x. seen (ov_provider_id x)) (list_date_overrides u i d1 d2 w)"
    "answers_only (\<lambda>x. seen (off_provider_id x)) (list_time_off u i t1 t2 w)"
    "answers_only (\<lambda>x. seen (ern_provider_id x)) (list_provider_earnings u i w)"
proof -
  have "acts_for w u (prov_organization_id p) []" if "require_provider_earnings_access p u w = Inr ()" for p
    using that a by (auto simp: require_provider_earnings_access_def dest: member_acts split: sum.splits)
  then have e: "seen i" if "provider_get i w = Some p" "require_provider_earnings_access p u w = Inr ()" for i p
    using that get_owner(1) by (auto simp: seen_def)
  show "answers_only (\<lambda>x. seen (av_provider_id x)) (list_availability u i w)"
    "answers_only (\<lambda>x. seen (ov_provider_id x)) (list_date_overrides u i d1 d2 w)"
    "answers_only (\<lambda>x. seen (off_provider_id x)) (list_time_off u i t1 t2 w)"
    by (rule answers_onlyI; auto simp: list_availability_def list_date_overrides_def list_time_off_def seen_def
        availability_list_by_provider_def date_override_list_by_provider_def time_off_list_by_provider_def
        dest: readable_provider_acts [OF _ a])+
  show "answers_only (\<lambda>x. seen (ern_provider_id x)) (list_provider_earnings u i w)"
    by (rule answers_onlyI) (auto simp: list_provider_earnings_def earning_list_by_provider_def dest: e)
qed

lemma assignments_read:
  assumes a: "usr_is_active u" and t: "tenants_ok w"
  shows "answers_only (\<lambda>x. acts_for w u (loc_organization_id x) []) (list_provider_locations u i b w)"
    "answers_only (\<lambda>x. acts_for w u (loc_organization_id x) []) (list_service_locations u i b w)"
    "answers_only (\<lambda>x. acts_for w u (svc_organization_id (asv_service x)) []) (list_provider_services u i b w)"
proof -
  have keys: "service_org w (svc_id s) = Some (svc_organization_id s)" if "s \<in> set (services w)" for s
    using that t by (simp add: tenants_ok_def tenant_keys_def owner_of_mem)
  note links = t [unfolded tenants_ok_def tenant_links_def linked_def]
  have guard: "acts_for w u (prov_organization_id p) []"
    if "require_provider_location_read_access p u w = Inr () \<or> require_provider_service_read_access p u w = Inr ()" for p
    using that a by (auto simp: require_provider_location_read_access_def require_provider_service_read_access_def
        dest: member_acts split: sum.splits)
  show "answers_only (\<lambda>x. acts_for w u (loc_organization_id x) []) (list_provider_locations u i b w)"
  proof (rule answers_onlyI)
    fix ls l
    assume r: "list_provider_locations u i b w = Inr ls" and l: "l \<in> set ls"
    then obtain p where p: "provider_get i w = Some p" "require_provider_location_read_access p u w = Inr ()"
      and ls: "ls = provider_location_list_by_provider i b w"
      by (auto simp: list_provider_locations_def get_provider_or_404_def or_404_def split: sum.splits option.splits)
    from l obtain x where x: "x \<in> set (provider_locations w)" "pl_provider_id x = i" "location_get (pl_location_id x) w = Some l"
      by (auto simp: ls provider_location_list_by_provider_def assigned_locations_def List.map_filter_def)
    with links get_owner(3) [OF x(3)] get_owner(1) [OF p(1)] have "loc_organization_id l = prov_organization_id p" by fastforce
    then show "acts_for w u (loc_organization_id l) []" using guard p(2) by simp
  qed
  show "answers_only (\<lambda>x. acts_for w u (loc_organization_id x) []) (list_service_locations u i b w)"
  proof (rule answers_onlyI)
    fix ls l
    assume r: "list_service_locations u i b w = Inr ls" and l: "l \<in> set ls"
    then obtain s m where s: "service_get i w = Some s" "require_org_membership (svc_organization_id s) u None w = Inr m"
      and ls: "ls = service_location_list_by_service i b w"
      by (auto simp: list_service_locations_def get_service_or_404_def or_404_def split: sum.splits option.splits)
    from l obtain x where x: "x \<in> set (service_locations w)" "sl_service_id x = i" "location_get (sl_location_id x) w = Some l"
      by (auto simp: ls service_location_list_by_service_def assigned_locations_def List.map_filter_def)
    with links get_owner(3) [OF x(3)] get_owner(2) [OF s(1)] have "loc_organization_id l = svc_organization_id s" by fastforce
    then show "acts_for w u (loc_organization_id l) []" using member_acts [OF s(2) a] by simp
  qed
  show "answers_only (\<lambda>x. acts_for w u (svc_organization_id (asv_service x)) []) (list_provider_services u i b w)"
  proof (rule answers_onlyI)
    fix ls y
    assume r: "list_provider_services u i b w = Inr ls" and y: "y \<in> set ls"
    then obtain p where p: "provider_get i w = Some p" "require_provider_service_read_access p u w = Inr ()"
      and ls: "ls = map (\<lambda>(s, x). build_assigned_service_read s x) (provider_service_list_by_provider i b w)"
      by (auto simp: list_provider_services_def get_provider_or_404_def or_404_def split: sum.splits option.splits)
    from y obtain s x where x: "x \<in> set (provider_services w)" "ps_provider_id x = i" "svc_id s = ps_service_id x" "s \<in> set (services w)"
      and s: "asv_service y = s"
      by (force simp: ls provider_service_list_by_provider_def build_assigned_service_read_def)
    with links keys get_owner(1) [OF p(1)] have "svc_organization_id s = prov_organization_id p" by fastforce
    then show "acts_for w u (svc_organization_id (asv_service y)) []" using guard p(2) s by simp
  qed
qed

lemma single_rows_read:
  assumes a: "usr_is_active u"
  shows "get_provider u i w = Inr p \<Longrightarrow> acts_for w u (prov_organization_id p) []"
    "get_service u i w = Inr s \<Longrightarrow> acts_for w u (svc_organization_id s) []"
    "get_appointment u i w = Inr x \<Longrightarrow> acts_for w u (apt_organization_id x) []"
    "get_organization_location u i j w = Inr l \<Longrightarrow> acts_for w u (loc_organization_id l) []"
  using a by (auto simp: get_provider_def get_service_def get_appointment_def get_organization_location_def
      location_get_by_org_and_id_def find_Some_iff dest: member_acts readable_appointment_acts)

lemma events_read:
  assumes a: "usr_is_active u" and r: "list_domain_events ev rq u f w = (Inr es, w')" and "e \<in> set es"
  shows "usr_is_platform_admin u \<or> (\<exists>oid. ev_organization_id e = Some oid \<and> acts_for w' u oid event_view_roles)"
proof -
  have "\<exists>oid. o' = Some oid \<and> acts_for w1 u oid event_view_roles"
    if "require_event_visibility_access u o' w1 = Inr ()" "\<not> usr_is_platform_admin u" for o' w1
    using that by (auto simp: require_event_visibility_access_def split: option.splits sum.splits
        dest!: membership_acts_for [OF _ a])
  then show ?thesis
    using r assms(3) by (auto simp: list_domain_events_def require_def and_then_def respond_def Let_def
        split: sum.splits prod.splits if_splits)
qed

text \<open>
  C13. Reads stay within the caller's organizations.  Every row that a staff listing endpoint answers
  to an active user, of the organizations themselves, their members, locations, providers, services,
  bookings, calendars and earnings, belongs to an organization that the caller is an active member of
  (platform administrators see all of them); as long as assignments join rows of one organization,
  which the application keeps, so do the locations listed for a provider or a service and the
  services listed for a provider.  Customers and their identities belong to no organization and
  every active user may list them, and audit events have a rule of their own; neither is covered.
\<close>

theorem reads_stay_within_memberships:
  assumes "usr_is_active u"
  shows "list_all (\<lambda>x. acts_for w u (org_id x) []) (list_organizations u w) \<and>
    answers_only (\<lambda>x. acts_for w u (mem_organization_id x) []) (list_members u i w) \<and>
    answers_only (\<lambda>x. acts_for w u (loc_organization_id x) []) (list_organization_locations u i b w) \<and>
    answers_only (\<lambda>x. acts_for w u (prov_organization_id x) []) (list_providers u oi w) \<and>
    answers_only (\<lambda>x. acts_for w u (svc_organization_id x) []) (list_services u oi pp b w) \<and>
    answers_only (\<lambda>x. acts_for w u (apt_organization_id x) []) (list_appointments u oi pp ci w) \<and>
    answers_only (\<lambda>x. \<exists>tid. provider_org w (av_provider_id x) = Some tid \<and> acts_for w u tid []) (list_availability u i w) \<and>
    answers_only (\<lambda>x. \<exists>tid. provider_org w (ov_provider_id x) = Some tid \<and> acts_for w u tid []) (list_date_overrides u i d1 d2 w) \<and>
    answers_only (\<lambda>x. \<exists>tid. provider_org w (off_provider_id x) = Some tid \<and> acts_for w u tid []) (list_time_off u i t1 t2 w) \<and>
    answers_only (\<lambda>x. \<exists>tid. provider_org w (ern_provider_id x) = Some tid \<and> acts_for w u tid []) (list_provider_earnings u i w) \<and>
    (tenants_ok w \<longrightarrow>
     answers_only (\<lambda>x. acts_for w u (loc_organization_id x) []) (list_provider_locations u i b w) \<and>
     answers_only (\<lambda>x. acts_for w u (loc_organization_id x) []) (list_service_locations u i b w) \<and>
     answers_only (\<lambda>x. acts_for w u (svc_organization_id (asv_service x)) []) (list_provider_services u i b w))"
  using organizations_read [OF assms] catalogue_read [OF assms] calendars_read [OF assms] assignments_read [OF assms]
  by (auto simp: list_all_iff)

theorem reads_stay_within_memberships_witness:
  "\<exists>ss. list_services newcomer (Some 1) None False team_world = Inr ss \<and> ss \<noteq> [] \<and>
     list_all (\<lambda>x. acts_for team_world newcomer (svc_organization_id x) []) ss \<and>
   list_provider_locations newcomer 1 False team_world = Inr [sample_location] \<and>
   acts_for team_world newcomer (loc_organization_id sample_location) []"
proof -
  have "list_services newcomer (Some 1) None False team_world = Inr [sample_service]"
    by (simp add: list_services_def require_org_membership_def organization_member_get_by_org_and_user_def team_world_def
        newcomer_def sample_admin_def service_list_def sample_world_def sample_service_def)
  moreover have "list_provider_locations newcomer 1 False team_world = Inr [sample_location]" by code_simp
  moreover note sample_tenants_ok(2)
  moreover have "usr_is_active newcomer" by (simp add: newcomer_def sample_admin_def)
  note reads_stay_within_memberships [OF this, where w = team_world and oi = "Some 1" and pp = None and b = False and i = 1]
  ultimately show ?thesis by (simp add: answers_only_def)
qed

end
