(* ===== verification/Migrations.thy ===== *)
theory Migrations
  imports Tenancy
begin

text \<open>
  What the revisions under \<^verbatim>\<open>alembic/versions\<close> do to the rows they find: the strict assignment of
  services to providers (0002), the slugs of organizations and the roles of members (0004), the
  assignments of services (0005), the default locations (0006) and the references and tokens of
  bookings (0007).  Rows are those of the current tables; a column that a revision has not yet
  filled in is unread.
\<close>

section \<open>0002: services get an owner\<close>

text \<open>A service of the initial schema, whose provider may be null.\<close>

record legacy_service =
  lsv_id :: int
  lsv_organization_id :: int
  lsv_provider_id :: "int option"

definition int_list_str :: "int list \<Rightarrow> string" where
  "int_list_str xs = ''['' @ join '', '' (map int_str xs) @ '']''"

definition org_ids_with_null_services :: "legacy_service list \<Rightarrow> int list" where
  "org_ids_with_null_services svcs =
     sort (remdups (map lsv_organization_id [s \<leftarrow> svcs. lsv_provider_id s = None]))"

definition providers_of :: "provider list \<Rightarrow> int \<Rightarrow> int list" where
  "providers_of provs organization_id = map prov_id [p \<leftarrow> provs. prov_organization_id p = organization_id]"

definition assign_null_services :: "int \<times> int \<Rightarrow> legacy_service list \<Rightarrow> legacy_service list" where
  "assign_null_services x svcs = map (\<lambda>s.
     if lsv_organization_id s = fst x \<and> lsv_provider_id s = None then s\<lparr>lsv_provider_id := Some (snd x)\<rparr> else s) svcs"

definition backfill_refusal :: "int list \<Rightarrow> int list \<Rightarrow> string" where
  "backfill_refusal zero multi =
     ''Cannot safely backfill services.provider_id for legacy rows with NULL provider_id. '' @
     join ''; '' ((if zero = [] then [] else [''zero-provider organization_ids='' @ int_list_str zero]) @
                  (if multi = [] then [] else [''multi-provider organization_ids='' @ int_list_str multi])) @
     ''. Manual data cleanup is required before rerunning this migration.''"

definition strict_backfill_service_provider_ids ::
  "provider list \<Rightarrow> legacy_service list \<Rightarrow> string + legacy_service list" where
  "strict_backfill_service_provider_ids provs svcs =
     (let org_ids = org_ids_with_null_services svcs in
      if org_ids = [] then Inr svcs
      else
       (let zero = [i \<leftarrow> org_ids. providers_of provs i = []];
            multi = [i \<leftarrow> org_ids. 1 < length (providers_of provs i)];
            unambiguous = [(i, hd (providers_of provs i)). i \<leftarrow> org_ids, length (providers_of provs i) = 1] in
        if zero \<noteq> [] \<or> multi \<noteq> []
        then Inl (backfill_refusal zero multi)
        else
         (let svcs' = fold assign_null_services unambiguous svcs in
          if \<exists>s \<in> set svcs'. lsv_provider_id s = None
          then Inl ''Cannot enforce provider-owned services: services.provider_id still contains NULL values after strict backfill.''
          else Inr svcs')))"

section \<open>0004: slugs of organizations and roles of members\<close>

fun slugs_from :: "string list \<Rightarrow> (int \<times> string) list \<Rightarrow> (int \<times> string) list" where
  "slugs_from used_slugs [] = []"
| "slugs_from used_slugs ((i, name) # rows) =
     (let base_slug = slugify (strip name);
          candidate = free_slug used_slugs base_slug 2 base_slug in
      (i, candidate) # slugs_from (candidate # used_slugs) rows)"

definition backfill_organization_slugs :: "organization list \<Rightarrow> organization list" where
  "backfill_organization_slugs t =
     fold (\<lambda>(i, slug). map (\<lambda>r. if org_id r = i then r\<lparr>org_slug := slug\<rparr> else r))
       (slugs_from [] (map (\<lambda>r. (org_id r, org_name r)) (sort_key org_id t))) t"

datatype legacy_role = LR_OWNER | LR_MANAGER | LR_STAFF | LR_ASSISTANT

definition migrate_role :: "legacy_role \<Rightarrow> membership_role" where
  "migrate_role r = (case r of LR_OWNER \<Rightarrow> OWNER | LR_MANAGER \<Rightarrow> ADMIN | LR_STAFF \<Rightarrow> STAFF | LR_ASSISTANT \<Rightarrow> PROVIDER)"

definition restore_role :: "membership_role \<Rightarrow> legacy_role" where
  "restore_role r = (case r of OWNER \<Rightarrow> LR_OWNER | ADMIN \<Rightarrow> LR_MANAGER | STAFF \<Rightarrow> LR_STAFF | PROVIDER \<Rightarrow> LR_ASSISTANT)"

section \<open>0005: services are assigned to their providers\<close>

definition assign_owner :: "service \<Rightarrow> provider_service list \<Rightarrow> provider_service list" where
  "assign_owner s t =
     (if \<exists>x \<in> set t. ps_provider_id x = svc_provider_id s \<and> ps_service_id x = svc_id s then t
      else t @ [\<lparr>ps_id = tbl_fresh ps_id t, ps_provider_id = svc_provider_id s, ps_service_id = svc_id s,
                 ps_duration_minutes_override = None\<rparr>])"

definition upgrade_0005 :: "world \<Rightarrow> world" where
  "upgrade_0005 w = w\<lparr>provider_services := fold assign_owner (services w) []\<rparr>"

section \<open>0006: every organization gets a location\<close>

definition create_default_locations :: "organization list \<Rightarrow> location list" where
  "create_default_locations t =
     fold (\<lambda>r ls. ls @ [\<lparr>loc_id = tbl_fresh loc_id ls, loc_organization_id = org_id r, loc_name = ''Main Location'',
        loc_slug = ''main-location'', loc_address_line_1 = org_address r, loc_address_line_2 = None,
        loc_city = Some (org_city r), loc_region = None, loc_postal_code = None, loc_country = None,
        loc_timezone = Some (org_timezone r), loc_is_active = True\<rparr>]) (sort_key org_id t) []"

text \<open>The first location of each organization.\<close>

definition default_location_map :: "location list \<Rightarrow> (int \<times> int) list" where
  "default_location_map t =
     fold (\<lambda>l m. if map_of m (loc_organization_id l) = None then m @ [(loc_organization_id l, loc_id l)] else m)
       (sort_key loc_id t) []"

definition backfill_provider_locations :: "(int \<times> int) list \<Rightarrow> provider list \<Rightarrow> provider_location list" where
  "backfill_provider_locations org_to_location t =
     fold (\<lambda>p xs. case map_of org_to_location (prov_organization_id p) of
        None \<Rightarrow> xs
      | Some l \<Rightarrow> xs @ [\<lparr>pl_id = tbl_fresh pl_id xs, pl_provider_id = prov_id p, pl_location_id = l\<rparr>])
      (sort_key prov_id t) []"

definition backfill_service_locations :: "(int \<times> int) list \<Rightarrow> service list \<Rightarrow> service_location list" where
  "backfill_service_locations org_to_location t =
     fold (\<lambda>s xs. case map_of org_to_location (svc_organization_id s) of
        None \<Rightarrow> xs
      | Some l \<Rightarrow> xs @ [\<lparr>sl_id = tbl_fresh sl_id xs, sl_service_id = svc_id s, sl_location_id = l\<rparr>])
      (sort_key svc_id t) []"

text \<open>A booking gets the location of its provider's organization; null where there is none.\<close>

definition location_of_booking :: "(int \<times> int) list \<Rightarrow> provider list \<Rightarrow> appointment \<Rightarrow> int option" where
  "location_of_booking org_to_location provs a =
     (case tbl_get prov_id (apt_provider_id a) provs of
        None \<Rightarrow> None | Some p \<Rightarrow> map_of org_to_location (prov_organization_id p))"

text \<open>The revision ends by forbidding null locations, which fails if one is left.\<close>

definition upgrade_0006 :: "world \<Rightarrow> world result" where
  "upgrade_0006 w =
     (let locs = create_default_locations (organizations w);
          org_to_location = default_location_map locs in
      if \<exists>a \<in> set (appointments w). location_of_booking org_to_location (providers w) a = None
      then Inl (IntegrityError ''NOT NULL appointments.location_id'')
      else Inr (w\<lparr>locations := locs,
                  provider_locations := backfill_provider_locations org_to_location (providers w),
                  service_locations := backfill_service_locations org_to_location (services w),
                  appointments := map (\<lambda>a. a\<lparr>apt_location_id :=
                    the (location_of_booking org_to_location (providers w) a)\<rparr>) (appointments w)\<rparr>))"

section \<open>0007: references and access tokens of bookings\<close>

text \<open>
  A source of random strings is read from a position on, until it gives one that is not used;
  the answer comes with the next position.
\<close>

partial_function (option) generate_unique :: "(nat \<Rightarrow> string) \<Rightarrow> string set \<Rightarrow> nat \<Rightarrow> (string \<times> nat) option" where
  "generate_unique source used n =
     (if source n \<in> used then generate_unique source used (Suc n) else Some (source n, Suc n))"

declare generate_unique.simps [code]

fun access_fields ::
  "(nat \<Rightarrow> string) \<Rightarrow> (nat \<Rightarrow> string) \<Rightarrow> string list \<Rightarrow> string list \<Rightarrow> nat \<Rightarrow> nat \<Rightarrow> appointment list \<Rightarrow> appointment list option" where
  "access_fields references tokens used_references used_tokens m n [] = Some []"
| "access_fields references tokens used_references used_tokens m n (a # rows) =
     (case generate_unique references (set used_references) m of
        None \<Rightarrow> None
      | Some (booking_reference, m') \<Rightarrow>
      case generate_unique tokens (set used_tokens) n of
        None \<Rightarrow> None
      | Some (booking_access_token, n') \<Rightarrow>
        map_option (\<lambda>rest. a\<lparr>apt_booking_reference := booking_reference,
                              apt_booking_access_token := booking_access_token\<rparr> # rest)
          (access_fields references tokens (booking_reference # used_references)
             (booking_access_token # used_tokens) m' n' rows))"

definition booking_reference_of :: "(nat \<Rightarrow> string) \<Rightarrow> nat \<Rightarrow> string" where
  "booking_reference_of hex n = ''BKP-'' @ upper (hex n)"

definition upgrade_0007 :: "(nat \<Rightarrow> string) \<Rightarrow> (nat \<Rightarrow> string) \<Rightarrow> world \<Rightarrow> world option" where
  "upgrade_0007 hex urlsafe w =
     map_option (\<lambda>t. w\<lparr>appointments := t\<rparr>)
       (access_fields (booking_reference_of hex) urlsafe [] [] 0 0 (sort_key apt_id (appointments w)))"

section \<open>0002 assigns every service or nothing\<close>

definition sole_provider :: "provider list \<Rightarrow> int \<Rightarrow> int option" where
  "sole_provider provs i = (case providers_of provs i of [p] \<Rightarrow> Some p | _ \<Rightarrow> None)"

definition owned_service :: "provider list \<Rightarrow> legacy_service \<Rightarrow> legacy_service" where
  "owned_service provs s =
     (if lsv_provider_id s = None then s\<lparr>lsv_provider_id := sole_provider provs (lsv_organization_id s)\<rparr> else s)"

lemma null_orgs:
  "set (org_ids_with_null_services svcs) =
     {lsv_organization_id s | s. s \<in> set svcs \<and> lsv_provider_id s = None}"
  by (auto simp: org_ids_with_null_services_def)

lemma fold_assign_null_services:
  assumes "distinct (map fst xs)"
  shows "fold assign_null_services xs svcs = map (\<lambda>s.
    if lsv_provider_id s = None then
      (case map_of xs (lsv_organization_id s) of None \<Rightarrow> s | Some p \<Rightarrow> s\<lparr>lsv_provider_id := Some p\<rparr>) else s) svcs"
  using assms
proof (induction xs arbitrary: svcs)
  case (Cons x xs)
  then have "map_of xs (fst x) = None" by (simp add: map_of_eq_None_iff)
  with Cons show ?case
    by (cases x) (auto simp: assign_null_services_def comp_def split: option.splits)
qed (auto intro!: map_idI [symmetric])

lemma sole_provider_length: "sole_provider provs i \<noteq> None \<longleftrightarrow> length (providers_of provs i) = 1"
  by (auto simp: sole_provider_def split: list.split)

lemma sole_provider_hd: "length (providers_of provs i) = 1 \<Longrightarrow> sole_provider provs i = Some (hd (providers_of provs i))"
  by (auto simp: sole_provider_def split: list.split)

lemma filter_empty_all: "[x \<leftarrow> xs. P x] = [] \<longleftrightarrow> (\<forall>x \<in> set xs. \<not> P x)"
  by (simp add: filter_empty_conv)

lemma unambiguous_providers:
  assumes "\<forall>i \<in> set is. length (providers_of provs i) = 1" and "distinct is"
  shows "fold assign_null_services [(i, hd (providers_of provs i)). i \<leftarrow> is, length (providers_of provs i) = 1] svcs =
    map (\<lambda>s. if lsv_provider_id s = None \<and> lsv_organization_id s \<in> set is
              then s\<lparr>lsv_provider_id := sole_provider provs (lsv_organization_id s)\<rparr> else s) svcs"
proof -
  have e: "concat (map (\<lambda>i. if length (providers_of provs i) = 1 then [(i, hd (providers_of provs i))] else []) is) =
      map (\<lambda>i. (i, hd (providers_of provs i))) is"
    using assms(1) by (induction "is") auto
  have d: "distinct (map fst (map (\<lambda>i. (i, hd (providers_of provs i))) is))"
    using assms(2) by (simp add: comp_def)
  have m: "map_of (map (\<lambda>i. (i, hd (providers_of provs i))) is) j =
      (if j \<in> set is then sole_provider provs j else None)" for j
    using assms(1) sole_provider_hd by (auto simp: map_of_map_restrict restrict_map_def)
  have "\<forall>j \<in> set is. \<exists>p. sole_provider provs j = Some p" using assms(1) sole_provider_hd by blast
  then show ?thesis
    unfolding e fold_assign_null_services [OF d] m by (auto split: option.split)
qed

text \<open>
  C38. The strict backfill of revision 0002 assigns every service or none.  If it succeeds, each
  service that had no provider belongs to the only provider of its organization, the other
  services are as they were and none is left without a provider; if it fails, some service
  without a provider is in an organization with no provider or with several.
\<close>

theorem strict_backfill_all_or_nothing:
  "case strict_backfill_service_provider_ids provs svcs of
     Inr svcs' \<Rightarrow> svcs' = map (owned_service provs) svcs \<and> list_all (\<lambda>s. lsv_provider_id s \<noteq> None) svcs'
   | Inl _ \<Rightarrow> \<exists>s \<in> set svcs. lsv_provider_id s = None \<and> sole_provider provs (lsv_organization_id s) = None"
proof -
  let ?is = "org_ids_with_null_services svcs"
  have d: "distinct ?is" by (simp add: org_ids_with_null_services_def)
  show ?thesis
  proof (cases "\<forall>i \<in> set ?is. length (providers_of provs i) = 1")
    case True
    have "(\<lambda>s. if lsv_provider_id s = None \<and> lsv_organization_id s \<in> set ?is
        then s\<lparr>lsv_provider_id := sole_provider provs (lsv_organization_id s)\<rparr> else s) s = owned_service provs s"
      if "s \<in> set svcs" for s
      using that by (auto simp: owned_service_def null_orgs)
    then have f: "fold assign_null_services [(i, hd (providers_of provs i)). i \<leftarrow> ?is, length (providers_of provs i) = 1] svcs =
        map (owned_service provs) svcs"
      unfolding unambiguous_providers [OF True d] by simp
    have all: "\<forall>s \<in> set (map (owned_service provs) svcs). lsv_provider_id s \<noteq> None"
      using True sole_provider_length by (auto simp: owned_service_def null_orgs)
    have "[i \<leftarrow> ?is. providers_of provs i = []] = []" "[i \<leftarrow> ?is. 1 < length (providers_of provs i)] = []"
      using True unfolding filter_empty_all by (metis list.size(3) zero_neq_one, metis less_irrefl)
    moreover have "?is = [] \<Longrightarrow> map (owned_service provs) svcs = svcs"
      using null_orgs [of svcs] by (auto simp: owned_service_def intro!: map_idI)
    ultimately have "strict_backfill_service_provider_ids provs svcs = Inr (map (owned_service provs) svcs)"
      using all unfolding strict_backfill_service_provider_ids_def Let_def f by auto
    with all show ?thesis by (simp add: list_all_iff)
  next
    case False
    then obtain i where i: "i \<in> set ?is" "length (providers_of provs i) \<noteq> 1" by blast
    then have "[i \<leftarrow> ?is. providers_of provs i = []] \<noteq> [] \<or> [i \<leftarrow> ?is. 1 < length (providers_of provs i)] \<noteq> []"
      unfolding filter_empty_all by (metis One_nat_def linorder_neqE_nat less_one length_0_conv)
    then have "\<exists>m. strict_backfill_service_provider_ids provs svcs = Inl m"
      using i(1) by (auto simp: strict_backfill_service_provider_ids_def Let_def)
    moreover have "\<exists>s \<in> set svcs. lsv_provider_id s = None \<and> sole_provider provs (lsv_organization_id s) = None"
      using i sole_provider_length [of provs i] by (auto simp: null_orgs)
    ultimately show ?thesis by auto
  qed
qed

section \<open>0004 gives the slugs that the application would have given\<close>

lemma free_slug_cong: "set used = set used' \<Longrightarrow> free_slug used base n c = free_slug used' base n c"
proof (induction used base n c rule: free_slug.induct)
  case (1 used base n c)
  then show ?case by (subst (1 2) free_slug.simps) simp
qed

lemma lower_char_space [simp]: "is_space (lower_char c) = is_space c"
proof (cases "65 \<le> code c \<and> code c \<le> 90")
  case True
  then have "code (char_of (code c + 32)) = code c + 32" by (simp add: code_def)
  with True show ?thesis by (simp add: lower_char_def is_space_def Let_def)
next
  case False
  then show ?thesis by (auto simp: lower_char_def)
qed

lemma strip_lower: "strip (lower s) = lower (strip s)"
  by (simp add: strip_def lower_def dropWhile_map rev_map comp_def)

lemma slugify_strip: "slugify (strip s) = slugify s"
  by (simp add: slugify_def strip_lower)

text \<open>Organizations created one after the other, each under the slug the application generates.\<close>

definition created_in_turn :: "organization list \<Rightarrow> world \<Rightarrow> world" where
  "created_in_turn rs w = fold (\<lambda>r w. w\<lparr>organizations := organizations w @
     [r\<lparr>org_slug := organization_generate_unique_slug (org_name r) None w\<rparr>]\<rparr>) rs w"

lemma slugs_from_cong: "set used = set used' \<Longrightarrow> slugs_from used rows = slugs_from used' rows"
proof (induction used rows arbitrary: used' rule: slugs_from.induct)
  case (2 used i name rows)
  have "free_slug used (slugify (strip name)) 2 (slugify (strip name)) =
      free_slug used' (slugify (strip name)) 2 (slugify (strip name))"
    by (rule free_slug_cong [OF 2(2)])
  moreover have "set (c # used) = set (c # used')" for c using 2(2) by simp
  ultimately show ?case using "2.IH" by (simp only: slugs_from.simps Let_def)
qed simp

lemma slugs_from_ids: "map fst (slugs_from used rows) = map fst rows"
  by (induction used rows rule: slugs_from.induct) (simp_all add: Let_def)

lemma slugs_from_distinct: "distinct (map snd (slugs_from used rows)) \<and> set (map snd (slugs_from used rows)) \<inter> set used = {}"
  using free_slug_fresh
  by (induction used rows rule: slugs_from.induct) (force simp: Let_def)+

lemma created_slugs:
  "organizations (created_in_turn rs w) = organizations w @ map2 (\<lambda>r s. r\<lparr>org_slug := s\<rparr>) rs
     (map snd (slugs_from (map org_slug (organizations w)) (map (\<lambda>r. (org_id r, org_name r)) rs)))"
proof (induction rs arbitrary: w)
  case (Cons r rs)
  let ?s = "organization_generate_unique_slug (org_name r) None w"
  let ?w = "w\<lparr>organizations := organizations w @ [r\<lparr>org_slug := ?s\<rparr>]\<rparr>"
  have s: "?s = free_slug (map org_slug (organizations w)) (slugify (strip (org_name r))) 2 (slugify (strip (org_name r)))"
    by (simp add: organization_generate_unique_slug_def Let_def slugify_strip)
  have "created_in_turn (r # rs) w = created_in_turn rs ?w" by (simp add: created_in_turn_def)
  moreover have "slugs_from (map org_slug (organizations ?w)) rows = slugs_from (?s # map org_slug (organizations w)) rows" for rows
    by (rule slugs_from_cong) simp
  ultimately show ?case using Cons.IH [of ?w] s by (simp add: Let_def)
qed (simp add: created_in_turn_def)

lemma fold_set_slugs:
  assumes "distinct (map fst xs)"
  shows "fold (\<lambda>(i, slug). map (\<lambda>r. if org_id r = i then r\<lparr>org_slug := slug\<rparr> else r)) xs t =
    map (\<lambda>r. case map_of xs (org_id r) of None \<Rightarrow> r | Some s \<Rightarrow> r\<lparr>org_slug := s\<rparr>) t"
  using assms
proof (induction xs arbitrary: t)
  case (Cons x xs)
  then have "map_of xs (fst x) = None" by (simp add: map_of_eq_None_iff)
  with Cons show ?case by (cases x) (auto split: option.splits)
qed simp

lemma map_of_zip_keys:
  "distinct (map k rs) \<Longrightarrow> length ss = length rs \<Longrightarrow>
     map (\<lambda>r. case map_of (zip (map k rs) ss) (k r) of None \<Rightarrow> r | Some s \<Rightarrow> f r s) rs = map2 f rs ss"
proof (induction rs arbitrary: ss)
  case (Cons r rs)
  then obtain s ss' where ss: "ss = s # ss'" by (cases ss) auto
  have "map (\<lambda>x. case map_of (zip (map k (r # rs)) ss) (k x) of None \<Rightarrow> x | Some s \<Rightarrow> f x s) rs =
      map (\<lambda>x. case map_of (zip (map k rs) ss') (k x) of None \<Rightarrow> x | Some s \<Rightarrow> f x s) rs"
    using Cons.prems(1) ss by (intro map_cong) (auto simp: image_iff)
  with Cons ss show ?case by simp
qed simp

text \<open>
  C36. The slug backfill of revision 0004 and the application agree: the organizations have the
  slugs that the application's generator would have given them, had they been created one after
  the other by their ids in an empty database; in particular no two have the same slug.
\<close>

theorem backfilled_slugs_as_created:
  assumes "tbl_ok org_id t"
  shows "sort_key org_id (backfill_organization_slugs t) = organizations (created_in_turn (sort_key org_id t) empty_world) \<and>
    distinct (map org_slug (backfill_organization_slugs t))"
proof -
  let ?rows = "map (\<lambda>r. (org_id r, org_name r)) (sort_key org_id t)"
  let ?xs = "slugs_from [] ?rows"
  have ids: "map fst ?xs = map org_id (sort_key org_id t)" by (simp add: slugs_from_ids comp_def)
  have d: "distinct (map org_id (sort_key org_id t))"
    using assms by (metis tbl_ok_def distinct_map distinct_sort inj_on_def set_sort)
  then have d': "distinct (map fst ?xs)" unfolding ids .
  let ?g = "\<lambda>r. case map_of ?xs (org_id r) of None \<Rightarrow> r | Some s \<Rightarrow> r\<lparr>org_slug := s\<rparr>"
  have b: "backfill_organization_slugs t = map ?g t"
    unfolding backfill_organization_slugs_def by (rule fold_set_slugs [OF d'])
  have xs: "?xs = zip (map org_id (sort_key org_id t)) (map snd ?xs)"
    unfolding ids [symmetric] by (simp add: zip_map_fst_snd)
  have len: "length (map snd ?xs) = length (sort_key org_id t)"
    using arg_cong [OF ids, of length] by simp
  have k: "org_id (?g r) = org_id r" for r by (simp split: option.split)
  have "sort_key org_id (backfill_organization_slugs t) = map ?g (sort_key org_id t)"
    unfolding b by (simp add: sort_key_map k)
  also have "\<dots> = map2 (\<lambda>r s. r\<lparr>org_slug := s\<rparr>) (sort_key org_id t) (map snd ?xs)"
    using map_of_zip_keys [OF d len, of "\<lambda>r s. r\<lparr>org_slug := s\<rparr>"] xs by metis
  finally have e: "sort_key org_id (backfill_organization_slugs t) =
      map2 (\<lambda>r s. r\<lparr>org_slug := s\<rparr>) (sort_key org_id t) (map snd ?xs)" .
  have "map org_slug (map2 (\<lambda>r s. r\<lparr>org_slug := s\<rparr>) rs ss) = ss" if "length ss = length rs" for rs :: "organization list" and ss
    using that by (induction rs ss rule: list_induct2') auto
  then have "map org_slug (sort_key org_id (backfill_organization_slugs t)) = map snd ?xs" using e len by simp
  then have "distinct (map org_slug (sort_key org_id (backfill_organization_slugs t)))" using slugs_from_distinct by metis
  then have "distinct (map org_slug (backfill_organization_slugs t))"
    using mset_eq_imp_distinct_iff [of "map org_slug (sort_key org_id (backfill_organization_slugs t))"
      "map org_slug (backfill_organization_slugs t)"] by simp
  with e show ?thesis by (simp add: created_slugs empty_world_def)
qed

section \<open>0005 and 0006 leave a database whose tenants are apart\<close>

text \<open>Rows appended under the next keys.\<close>

definition numbered_rows :: "('r \<Rightarrow> int) \<Rightarrow> (int \<Rightarrow> 'a \<Rightarrow> 'b \<Rightarrow> 'r) \<Rightarrow> ('a \<Rightarrow> 'b option) \<Rightarrow> 'a list \<Rightarrow> 'r list \<Rightarrow> 'r list" where
  "numbered_rows ident mk f = fold (\<lambda>a t. case f a of None \<Rightarrow> t | Some b \<Rightarrow> t @ [mk (tbl_fresh ident t) a b])"

lemma numbered_rows_Cons:
  "numbered_rows ident mk f (a # as) t =
     numbered_rows ident mk f as (case f a of None \<Rightarrow> t | Some b \<Rightarrow> t @ [mk (tbl_fresh ident t) a b])"
  by (simp add: numbered_rows_def)

lemma numbered_rows_ok:
  assumes "\<And>i a b. ident (mk i a b) = i" and "tbl_ok ident t"
  shows "tbl_ok ident (numbered_rows ident mk f as t)"
  using assms(2)
proof (induction as arbitrary: t)
  case (Cons a as)
  have "tbl_ok ident (t @ [mk (tbl_fresh ident t) a b])" for b
    unfolding tbl_ok_append assms(1) by (intro conjI Cons.prems tbl_fresh_notin)
  with Cons show ?case unfolding numbered_rows_Cons by (cases "f a") simp_all
qed (simp add: numbered_rows_def)

lemma numbered_rows_only:
  "x \<in> set (numbered_rows ident mk f as t) \<Longrightarrow> x \<in> set t \<or> (\<exists>i a b. a \<in> set as \<and> f a = Some b \<and> x = mk i a b)"
proof (induction as arbitrary: t)
  case (Cons a as)
  from Cons.IH [OF Cons.prems [unfolded numbered_rows_Cons]] show ?case
    by (auto split: option.splits)
qed (simp add: numbered_rows_def)

lemma numbered_rows_keep: "x \<in> set t \<Longrightarrow> x \<in> set (numbered_rows ident mk f as t)"
proof (induction as arbitrary: t)
  case (Cons a as)
  then show ?case by (simp add: numbered_rows_Cons split: option.split)
qed (simp add: numbered_rows_def)

lemma numbered_rows_all:
  "a \<in> set as \<Longrightarrow> f a = Some b \<Longrightarrow> \<exists>i. mk i a b \<in> set (numbered_rows ident mk f as t)"
proof (induction as arbitrary: t)
  case (Cons c as)
  show ?case
  proof (cases "a = c")
    case True
    have "mk (tbl_fresh ident t) a b \<in> set (numbered_rows ident mk f as (t @ [mk (tbl_fresh ident t) a b]))"
      by (rule numbered_rows_keep) simp
    with True Cons.prems(2) show ?thesis unfolding numbered_rows_Cons by auto
  next
    case False
    with Cons.prems(1) have "a \<in> set as" by simp
    from Cons.IH [OF this Cons.prems(2)] show ?thesis unfolding numbered_rows_Cons .
  qed
qed simp

definition default_location :: "int \<Rightarrow> organization \<Rightarrow> unit \<Rightarrow> location" where
  "default_location i r _ = \<lparr>loc_id = i, loc_organization_id = org_id r, loc_name = ''Main Location'',
     loc_slug = ''main-location'', loc_address_line_1 = org_address r, loc_address_line_2 = None,
     loc_city = Some (org_city r), loc_region = None, loc_postal_code = None, loc_country = None,
     loc_timezone = Some (org_timezone r), loc_is_active = True\<rparr>"

lemma numbered_default_locations:
  "create_default_locations t = numbered_rows loc_id default_location (\<lambda>_. Some ()) (sort_key org_id t) []"
  by (simp add: create_default_locations_def numbered_rows_def default_location_def)

lemma numbered_provider_locations:
  "backfill_provider_locations m t = numbered_rows pl_id (\<lambda>i p l. \<lparr>pl_id = i, pl_provider_id = prov_id p, pl_location_id = l\<rparr>)
     (\<lambda>p. map_of m (prov_organization_id p)) (sort_key prov_id t) []"
  by (simp add: backfill_provider_locations_def numbered_rows_def)

lemma numbered_service_locations:
  "backfill_service_locations m t = numbered_rows sl_id (\<lambda>i s l. \<lparr>sl_id = i, sl_service_id = svc_id s, sl_location_id = l\<rparr>)
     (\<lambda>s. map_of m (svc_organization_id s)) (sort_key svc_id t) []"
  by (simp add: backfill_service_locations_def numbered_rows_def)

lemma tbl_ok_Nil [simp]: "tbl_ok ident []"
  by (simp add: tbl_ok_def)

lemma default_locations_ok: "tbl_ok loc_id (create_default_locations t)"
  unfolding numbered_default_locations by (rule numbered_rows_ok) (simp_all add: default_location_def)

lemma default_locations_of:
  "l \<in> set (create_default_locations t) \<Longrightarrow> loc_organization_id l \<in> org_id ` set t \<and> loc_is_active l"
  unfolding numbered_default_locations by (auto dest!: numbered_rows_only simp: default_location_def)

lemma default_location_exists:
  assumes "r \<in> set t"
  shows "\<exists>l \<in> set (create_default_locations t). loc_organization_id l = org_id r"
proof -
  from assms have "r \<in> set (sort_key org_id t)" by simp
  from numbered_rows_all [OF this, where f = "\<lambda>_. Some ()" and mk = default_location and ident = loc_id and t = "[]"]
  obtain i where "default_location i r () \<in> set (create_default_locations t)"
    unfolding numbered_default_locations by auto
  moreover have "loc_organization_id (default_location i r ()) = org_id r" by (simp add: default_location_def)
  ultimately show ?thesis by blast
qed

lemma default_location_map_find:
  "map_of (fold (\<lambda>l m. if map_of m (loc_organization_id l) = None then m @ [(loc_organization_id l, loc_id l)] else m) t m) i =
     (case map_of m i of Some k \<Rightarrow> Some k | None \<Rightarrow> map_option loc_id (find (\<lambda>l. loc_organization_id l = i) t))"
  by (induction t arbitrary: m) (auto split: option.splits)

lemma default_location_map_eq:
  "map_of (default_location_map t) i = map_option loc_id (find (\<lambda>l. loc_organization_id l = i) (sort_key loc_id t))"
  by (simp add: default_location_map_def default_location_map_find)

lemma default_location_map_sound:
  assumes "map_of (default_location_map t) i = Some k"
  shows "\<exists>l \<in> set t. loc_id l = k \<and> loc_organization_id l = i"
proof -
  from assms obtain l where "find (\<lambda>l. loc_organization_id l = i) (sort_key loc_id t) = Some l" "loc_id l = k"
    unfolding default_location_map_eq by auto
  then have "l \<in> set (sort_key loc_id t)" "loc_organization_id l = i" "loc_id l = k"
    unfolding find_Some_iff by (metis nth_mem, metis, metis)
  then show ?thesis by auto
qed

lemma default_location_map_total:
  "l \<in> set t \<Longrightarrow> map_of (default_location_map t) (loc_organization_id l) \<noteq> None"
  unfolding default_location_map_eq by (auto simp: find_None_iff)

lemma assign_owner_ok:
  "tbl_ok ps_id t \<Longrightarrow> tbl_ok ps_id (assign_owner s t)"
  unfolding assign_owner_def by (simp add: tbl_ok_append)

lemma assign_owners:
  "tbl_ok ps_id t \<Longrightarrow> tbl_ok ps_id (fold assign_owner ss t)"
  by (induction ss arbitrary: t) (simp_all add: assign_owner_ok)

lemma assign_owners_only:
  "x \<in> set (fold assign_owner ss t) \<Longrightarrow>
     x \<in> set t \<or> (\<exists>s \<in> set ss. ps_provider_id x = svc_provider_id s \<and> ps_service_id x = svc_id s)"
proof (induction ss arbitrary: t)
  case (Cons s ss)
  from Cons.IH [of "assign_owner s t"] Cons.prems show ?case by (auto simp: assign_owner_def split: if_splits)
qed simp

text \<open>
  The database that 0005 finds, as its foreign keys and the application leave it: a service and
  its provider, and a booking and its service, are of one organization, which exists.
\<close>

definition single_location_ok :: "world \<Rightarrow> bool" where
  "single_location_ok w \<longleftrightarrow> tenant_keys w \<and>
     (\<forall>p \<in> set (providers w). prov_organization_id p \<in> org_id ` set (organizations w)) \<and>
     (\<forall>s \<in> set (services w). provider_org w (svc_provider_id s) = Some (svc_organization_id s)) \<and>
     (\<forall>a \<in> set (appointments w). provider_org w (apt_provider_id a) = Some (apt_organization_id a) \<and>
        (\<forall>i. apt_service_id a = Some i \<longrightarrow> service_org w i = Some (apt_organization_id a)))"

lemma default_location_known:
  assumes "i \<in> org_id ` set t"
  shows "\<exists>k. map_of (default_location_map (create_default_locations t)) i = Some k \<and>
    owner_of loc_id loc_organization_id (create_default_locations t) k = Some i"
proof -
  let ?ls = "create_default_locations t"
  from assms default_location_exists obtain l where "l \<in> set ?ls" "loc_organization_id l = i" by (metis imageE)
  with default_location_map_total [of l ?ls] obtain k where k: "map_of (default_location_map ?ls) i = Some k" by auto
  from default_location_map_sound [OF this] obtain l' where "l' \<in> set ?ls" "loc_id l' = k" "loc_organization_id l' = i" by blast
  with owner_of_mem [OF default_locations_ok, of l' t loc_organization_id] k show ?thesis by auto
qed

lemma provider_org_known:
  "single_location_ok w \<Longrightarrow> provider_org w i = Some k \<Longrightarrow> k \<in> org_id ` set (organizations w)"
  by (drule owner_of_Some) (auto simp: single_location_ok_def)

lemma location_of_booking_eq:
  "location_of_booking m (providers w) a =
     (case provider_org w (apt_provider_id a) of None \<Rightarrow> None | Some k \<Rightarrow> map_of m k)"
  by (simp add: location_of_booking_def owner_of_def split: option.split)

definition default_locations :: "world \<Rightarrow> (int \<times> int) list" where
  "default_locations w = default_location_map (create_default_locations (organizations w))"

lemma booking_located:
  assumes "single_location_ok w" and "a \<in> set (appointments w)"
  shows "\<exists>k. location_of_booking (default_locations w) (providers w) a = Some k \<and>
    owner_of loc_id loc_organization_id (create_default_locations (organizations w)) k = provider_org w (apt_provider_id a)"
proof -
  have p: "provider_org w (apt_provider_id a) = Some (apt_organization_id a)"
    using assms by (simp add: single_location_ok_def)
  from default_location_known [OF provider_org_known [OF assms(1) this]] p show ?thesis
    by (simp add: location_of_booking_eq default_locations_def)
qed

lemma assigned_owners_linked:
  assumes "single_location_ok w" and "x \<in> set (fold assign_owner (services w) [])"
  shows "linked (service_org w (ps_service_id x)) (provider_org w (ps_provider_id x))"
proof -
  from assign_owners_only [OF assms(2)] obtain s where s: "s \<in> set (services w)"
    "ps_provider_id x = svc_provider_id s" "ps_service_id x = svc_id s" by auto
  moreover have "tbl_ok svc_id (services w)" using assms(1) by (simp add: single_location_ok_def tenant_keys_def)
  ultimately show ?thesis
    using assms(1) owner_of_mem [of svc_id "services w" s svc_organization_id]
    by (simp add: linked_def single_location_ok_def)
qed

lemma located_providers_linked:
  assumes "single_location_ok w" and "x \<in> set (backfill_provider_locations (default_locations w) (providers w))"
  shows "linked (owner_of loc_id loc_organization_id (create_default_locations (organizations w)) (pl_location_id x))
    (provider_org w (pl_provider_id x))"
proof -
  from assms(2) obtain p where p: "p \<in> set (providers w)" "pl_provider_id x = prov_id p"
    "map_of (default_locations w) (prov_organization_id p) = Some (pl_location_id x)"
    unfolding numbered_provider_locations by (auto dest!: numbered_rows_only)
  have "tbl_ok prov_id (providers w)" and "prov_organization_id p \<in> org_id ` set (organizations w)"
    using assms(1) p(1) by (simp_all add: single_location_ok_def tenant_keys_def)
  with default_location_known [OF this(2)] p owner_of_mem [of prov_id "providers w" p prov_organization_id]
  show ?thesis by (simp add: linked_def default_locations_def)
qed

lemma located_services_linked:
  assumes "single_location_ok w" and "x \<in> set (backfill_service_locations (default_locations w) (services w))"
  shows "linked (owner_of loc_id loc_organization_id (create_default_locations (organizations w)) (sl_location_id x))
    (service_org w (sl_service_id x))"
proof -
  from assms(2) obtain s where s: "s \<in> set (services w)" "sl_service_id x = svc_id s"
    "map_of (default_locations w) (svc_organization_id s) = Some (sl_location_id x)"
    unfolding numbered_service_locations by (auto dest!: numbered_rows_only)
  have "tbl_ok svc_id (services w)" and "provider_org w (svc_provider_id s) = Some (svc_organization_id s)"
    using assms(1) s(1) by (simp_all add: single_location_ok_def tenant_keys_def)
  with default_location_known [OF provider_org_known [OF assms(1) this(2)]] s
    owner_of_mem [of svc_id "services w" s svc_organization_id]
  show ?thesis by (simp add: linked_def default_locations_def)
qed

lemma located_bookings_ok:
  "tbl_ok apt_id t \<Longrightarrow> tbl_ok apt_id (map (\<lambda>a. a\<lparr>apt_location_id := f a\<rparr>) t)"
  by (simp add: tbl_ok_def comp_def)

text \<open>
  C27. Revisions 0005 and 0006 put a database as the application before them left it under the
  tenancy invariant of the application with locations.  Its rows respect the foreign keys and,
  beyond what these ask, every service and every booking agrees with its provider on the organization.
  The upgrade to several locations cannot fail on such a database; afterwards the keys are unique, every assignment joins rows of one organization, every booking is at
  a location of its provider's organization, and no row has left its organization.
\<close>

theorem multi_location_establishes_tenants:
  assumes "single_location_ok w"
  shows "\<exists>w'. upgrade_0006 (upgrade_0005 w) = Inr w' \<and> tenants_ok w' \<and>
    provider_org w' = provider_org w \<and> service_org w' = service_org w \<and>
    map apt_id (appointments w') = map apt_id (appointments w) \<and>
    (\<forall>a \<in> set (appointments w'). linked (location_org w' (apt_location_id a)) (provider_org w' (apt_provider_id a)))"
proof -
  let ?m = "default_locations w" and ?locs = "create_default_locations (organizations w)"
  let ?at = "\<lambda>a. the (location_of_booking ?m (providers w) a)"
  let ?w = "w\<lparr>provider_services := fold assign_owner (services w) [], locations := ?locs,
    provider_locations := backfill_provider_locations ?m (providers w),
    service_locations := backfill_service_locations ?m (services w),
    appointments := map (\<lambda>a. a\<lparr>apt_location_id := ?at a\<rparr>) (appointments w)\<rparr>"
  have "\<not> (\<exists>a \<in> set (appointments w). location_of_booking ?m (providers w) a = None)"
    using booking_located [OF assms] by fastforce
  then have run: "upgrade_0006 (upgrade_0005 w) = Inr ?w"
    by (simp add: upgrade_0006_def upgrade_0005_def Let_def default_locations_def)
  have old: "tenant_keys w" using assms by (simp add: single_location_ok_def)
  have "tbl_ok pl_id (provider_locations ?w)" "tbl_ok sl_id (service_locations ?w)"
    by (simp_all add: numbered_provider_locations numbered_service_locations numbered_rows_ok)
  with old have keys: "tenant_keys ?w"
    by (simp add: tenant_keys_def default_locations_ok assign_owners located_bookings_ok)
  have "\<forall>a \<in> set (appointments ?w). \<forall>i. apt_service_id a = Some i \<longrightarrow> service_org ?w i = Some (apt_organization_id a)"
    using assms by (simp add: single_location_ok_def)
  with assigned_owners_linked [OF assms] located_providers_linked [OF assms] located_services_linked [OF assms] assms
  have links: "tenant_links ?w" by (simp add: tenant_links_def single_location_ok_def)
  have "linked (location_org ?w (?at a)) (provider_org ?w (apt_provider_id a))" if "a \<in> set (appointments w)" for a
    using booking_located [OF assms that] assms that by (auto simp: linked_def single_location_ok_def)
  with run keys links show ?thesis
    by (intro exI [of _ ?w] conjI) (simp_all add: tenants_ok_def comp_def)
qed

text \<open>The salon with a booking, before it had locations.\<close>

definition single_location_world :: world where
  "single_location_world = booked_world\<lparr>locations := [], provider_services := [], provider_locations := [], service_locations := []\<rparr>"

section \<open>0007 gives every booking a reference and a token of its own\<close>

text \<open>The source still gives a string outside any set of fewer than \<open>k\<close> strings, however far it has been read.\<close>

definition keeps_producing :: "(nat \<Rightarrow> string) \<Rightarrow> nat \<Rightarrow> bool" where
  "keeps_producing source k \<longleftrightarrow> (\<forall>used n. length used < k \<longrightarrow> (\<exists>m \<ge> n. source m \<notin> set used))"

lemma generate_unique_sound:
  "generate_unique source used n = Some r \<Longrightarrow> fst r \<notin> used \<and> fst r \<in> range source"
  by (rule generate_unique.raw_induct [of "\<lambda>source used n r. fst r \<notin> used \<and> fst r \<in> range source"])
    (auto split: if_splits)

lemma generate_unique_returns:
  "n \<le> m \<Longrightarrow> source m \<notin> used \<Longrightarrow> \<exists>x n'. generate_unique source used n = Some (x, n')"
proof (induction "m - n" arbitrary: n)
  case (Suc d)
  then have "d = m - Suc n" "Suc n \<le> m" by simp_all
  from Suc.hyps(1) [OF this Suc.prems(2)] show ?case by (subst generate_unique.simps) simp
qed (simp add: generate_unique.simps)

lemma generate_unique_produces:
  assumes "keeps_producing source k" and "length used < k"
  shows "\<exists>x n'. generate_unique source (set used) n = Some (x, n') \<and> x \<notin> set used \<and> x \<in> range source"
proof -
  from assms obtain m where "n \<le> m" "source m \<notin> set used" by (auto simp: keeps_producing_def)
  with generate_unique_returns [of n m source "set used"] obtain x n' where g: "generate_unique source (set used) n = Some (x, n')" by blast
  with generate_unique_sound [OF g] show ?thesis by simp
qed

definition without_access :: "appointment \<Rightarrow> appointment" where
  "without_access a = a\<lparr>apt_booking_reference := [], apt_booking_access_token := []\<rparr>"

lemma access_fields_total:
  assumes "keeps_producing references k" and "keeps_producing tokens k"
  shows "length used_references + length rows \<le> k \<Longrightarrow> length used_tokens + length rows \<le> k \<Longrightarrow>
    \<exists>t. access_fields references tokens used_references used_tokens m n rows = Some t \<and>
      map without_access t = map without_access rows \<and>
      distinct (map apt_booking_reference t) \<and> set (map apt_booking_reference t) \<subseteq> range references - set used_references \<and>
      distinct (map apt_booking_access_token t) \<and> set (map apt_booking_access_token t) \<subseteq> range tokens - set used_tokens"
proof (induction rows arbitrary: used_references used_tokens m n)
  case (Cons a rows)
  then have "length used_references < k" "length used_tokens < k" by simp_all
  with generate_unique_produces [OF assms(1), of used_references m] generate_unique_produces [OF assms(2), of used_tokens n]
  obtain x m' y n' where g:
    "generate_unique references (set used_references) m = Some (x, m')" "x \<notin> set used_references" "x \<in> range references"
    "generate_unique tokens (set used_tokens) n = Some (y, n')" "y \<notin> set used_tokens" "y \<in> range tokens" by blast
  from Cons.IH [of "x # used_references" "y # used_tokens" m' n'] Cons.prems obtain t where t:
    "access_fields references tokens (x # used_references) (y # used_tokens) m' n' rows = Some t"
    "map without_access t = map without_access rows"
    "distinct (map apt_booking_reference t)" "set (map apt_booking_reference t) \<subseteq> range references - set (x # used_references)"
    "distinct (map apt_booking_access_token t)" "set (map apt_booking_access_token t) \<subseteq> range tokens - set (y # used_tokens)"
    by auto
  let ?t = "a\<lparr>apt_booking_reference := x, apt_booking_access_token := y\<rparr> # t"
  have "x \<notin> set (map apt_booking_reference t)" "y \<notin> set (map apt_booking_access_token t)" using t(4,6) by auto
  with t(3,5) have "distinct (map apt_booking_reference ?t)" "distinct (map apt_booking_access_token ?t)" by simp_all
  moreover have "set (map apt_booking_reference ?t) \<subseteq> range references - set used_references"
    "set (map apt_booking_access_token ?t) \<subseteq> range tokens - set used_tokens" using t(4,6) g(2,3,5,6) by auto
  moreover have "access_fields references tokens used_references used_tokens m n (a # rows) = Some ?t"
    using g(1,4) t(1) by simp
  moreover have "map without_access ?t = map without_access (a # rows)" using t(2) by (simp add: without_access_def)
  ultimately show ?case by blast
qed simp

text \<open>
  C37. Revision 0007 ends, and gives every booking a reference and a token of its own.  As long as
  the random source has an unused string left for each booking, the loops of the backfill stop,
  the bookings are the ones that were there, in the order of their ids, and no two share a reference
  or a token, so the unique indexes that the revision creates next can be built.
\<close>

theorem access_backfill_unique:
  assumes "keeps_producing (booking_reference_of hex) (length (appointments w))"
    and "keeps_producing urlsafe (length (appointments w))"
  shows "\<exists>t. upgrade_0007 hex urlsafe w = Some (w\<lparr>appointments := t\<rparr>) \<and>
    map without_access t = map without_access (sort_key apt_id (appointments w)) \<and>
    distinct (map apt_booking_reference t) \<and> distinct (map apt_booking_access_token t)"
proof -
  have l: "length [] + length (sort_key apt_id (appointments w)) \<le> length (appointments w)" by simp
  from access_fields_total [OF assms l l, of 0 0] show ?thesis by (fastforce simp: upgrade_0007_def)
qed

lemma restore_migrate_role: "restore_role (migrate_role r) = r"
  by (cases r) (simp_all add: restore_role_def migrate_role_def)

section \<open>Concrete databases\<close>

lemma free_slug_base: "c \<notin> set used \<Longrightarrow> free_slug used base n c = c"
  by (simp add: free_slug.simps)

lemma slug_two_salons: "slugify (strip ''Salon'') = ''salon''"
  by code_simp

lemma slug_salon: "free_slug [''salon''] ''salon'' 2 ''salon'' = ''salon-2''"
proof -
  have "numbered ''salon'' 2 = ''salon-2''"
    by (simp add: numbered_def int_str_def nat_digits.simps decimal_digit_def)
  then show ?thesis by (simp add: free_slug.simps [of "[''salon'']" "''salon''" 2] free_slug_base)
qed

theorem backfilled_slugs_as_created_witness:
  "\<exists>t. sort_key org_id (backfill_organization_slugs t) = organizations (created_in_turn (sort_key org_id t) empty_world) \<and>
    map org_slug (backfill_organization_slugs t) = [''salon-2'', ''salon'']"
proof -
  let ?t = "[sample_organization\<lparr>org_id := 2\<rparr>, sample_organization]"
  have "tbl_ok org_id ?t" by (simp add: tbl_ok_def sample_organization_def)
  from backfilled_slugs_as_created [OF this]
  have "sort_key org_id (backfill_organization_slugs ?t) = organizations (created_in_turn (sort_key org_id ?t) empty_world)"
    by (rule conjunct1)
  moreover have "map org_slug (backfill_organization_slugs ?t) = [''salon-2'', ''salon'']"
    by (simp add: backfill_organization_slugs_def slug_salon slug_two_salons sample_organization_def Let_def free_slug_base)
  ultimately show ?thesis by (intro exI [of _ ?t] conjI)
qed

theorem multi_location_establishes_tenants_witness:
  "\<exists>w'. upgrade_0006 (upgrade_0005 single_location_world) = Inr w' \<and> tenants_ok w' \<and>
     map apt_id (appointments w') = [1]"
proof -
  have "single_location_ok single_location_world"
    by (simp add: single_location_ok_def tenant_keys_def owner_of_def tbl_get_def tbl_ok_def single_location_world_def
        booked_world_def sample_world_def empty_world_def sample_organization_def sample_location_def sample_provider_def
        sample_service_def sample_appointment_def)
  from multi_location_establishes_tenants [OF this] obtain w' where
    "upgrade_0006 (upgrade_0005 single_location_world) = Inr w'" "tenants_ok w'"
    "map apt_id (appointments w') = map apt_id (appointments single_location_world)" by blast
  then show ?thesis by (simp add: single_location_world_def booked_world_def sample_appointment_def)
qed

lemma keeps_producing_inj: "inj source \<Longrightarrow> keeps_producing source k"
proof -
  assume inj: "inj source"
  have "\<exists>m \<ge> n. source m \<notin> set used" for used n
  proof (rule ccontr)
    assume "\<not> (\<exists>m \<ge> n. source m \<notin> set used)"
    then have "source ` {n..} \<subseteq> set used" by auto
    then have "finite (source ` {n..})" by (rule finite_subset) simp
    moreover have "inj_on source {n..}" using inj by (rule inj_on_subset) simp
    ultimately have "finite {n..}" by (rule finite_imageD)
    then show False by (simp add: infinite_Ici)
  qed
  then show ?thesis by (simp add: keeps_producing_def)
qed

theorem access_backfill_unique_witness:
  "\<exists>t. upgrade_0007 (\<lambda>n. replicate n CHR ''x'') (\<lambda>n. replicate n CHR ''x'') booked_world =
       Some (booked_world\<lparr>appointments := t\<rparr>) \<and>
     map without_access t = map without_access (sort_key apt_id (appointments booked_world))"
proof -
  let ?x = "\<lambda>n. replicate n CHR ''x''"
  have "inj (booking_reference_of ?x)"
    by (rule injI) (simp add: booking_reference_of_def upper_def replicate_eq_replicate)
  moreover have "inj ?x" by (rule injI) (simp add: replicate_eq_replicate)
  ultimately show ?thesis
    using access_backfill_unique [of ?x booked_world ?x] keeps_producing_inj by blast
qed

end
