(* ===== verification/Table_Statements.thy ===== *)
theory Table_Statements
  imports Prelude
begin

text \<open>
  The database as a schema migration sees it: tables with their columns and constraints, indexes
  and enumerated types, under PostgreSQL.  A statement of \<^verbatim>\<open>alembic.op\<close> either fails, as the
  database does, or gives the next schema.  Rows are left to the theory Migrations.
\<close>

section \<open>Schemas\<close>

text \<open>A piece of SQL is a name, a label, a condition or a default.  \<open>SQL_Enum\<close> creates its type with the table, \<open>SQL_Enum_ref\<close> names a type that exists.\<close>

datatype sql = Sql string

datatype sql_type =
    SQL_Integer | SQL_String nat | SQL_Text | SQL_Boolean | SQL_Date | SQL_Time | SQL_DateTime
  | SQL_Numeric nat nat | SQL_JSON | SQL_Enum "sql list" sql | SQL_Enum_ref sql

datatype constraint_def =
    Check sql
  | Primary_key "sql list"
  | Unique "sql list"
  | Foreign_key "sql list" sql "sql list" sql
  | No_overlap "sql list" "sql list"

record column_def =
  col_type :: sql_type
  col_nullable :: bool
  col_default :: "sql option"

record table_def =
  td_columns :: "(sql \<times> column_def) list"
  td_constraints :: "(sql \<times> constraint_def) list"

record index_def =
  ix_table :: sql
  ix_columns :: "sql list"
  ix_unique :: bool

record schema =
  sc_types :: "(sql \<times> sql list) list"
  sc_tables :: "(sql \<times> table_def) list"
  sc_indexes :: "(sql \<times> index_def) list"

definition empty_schema :: schema where
  "empty_schema = \<lparr>sc_types = [], sc_tables = [], sc_indexes = []\<rparr>"

datatype ddl_error =
    Duplicate_object sql | Undefined_object sql | Dependent_objects sql | Invalid_definition sql

type_synonym ddl_result = "ddl_error + schema"

section \<open>Named objects\<close>

definition names :: "(sql \<times> 'a) list \<Rightarrow> sql list" where
  "names xs = map fst xs"

definition lookup :: "(sql \<times> 'a) list \<Rightarrow> sql \<Rightarrow> 'a option" where
  "lookup xs n = map_of xs n"

definition has :: "(sql \<times> 'a) list \<Rightarrow> sql \<Rightarrow> bool" where
  "has xs n \<longleftrightarrow> n \<in> fst ` set xs"

definition unique_names :: "(sql \<times> 'a) list \<Rightarrow> bool" where
  "unique_names xs \<longleftrightarrow> distinct (map fst xs)"

definition without :: "sql \<Rightarrow> (sql \<times> 'a) list \<Rightarrow> (sql \<times> 'a) list" where
  "without n xs = filter (\<lambda>x. fst x \<noteq> n) xs"

definition put :: "sql \<Rightarrow> 'a \<Rightarrow> (sql \<times> 'a) list \<Rightarrow> (sql \<times> 'a) list" where
  "put n a xs = map (\<lambda>x. if fst x = n then (n, a) else x) xs"

definition rename :: "sql \<Rightarrow> sql \<Rightarrow> (sql \<times> 'a) list \<Rightarrow> (sql \<times> 'a) list" where
  "rename a b xs = map (\<lambda>x. if fst x = a then (b, snd x) else x) xs"

definition covers :: "(sql \<times> 'a) list \<Rightarrow> sql list \<Rightarrow> bool" where
  "covers xs ns = list_all (has xs) ns"

text \<open>
  How names are compared when a schema is evaluated: the lengths first, then character by
  character up to the first difference.
\<close>

fun same_length :: "'a list \<Rightarrow> 'a list \<Rightarrow> bool" where
  "same_length [] [] = True"
| "same_length (x # xs) (y # ys) = same_length xs ys"
| "same_length xs ys = False"

fun same_chars :: "string \<Rightarrow> string \<Rightarrow> bool" where
  "same_chars [] [] = True"
| "same_chars (x # xs) (y # ys) = (if x = y then same_chars xs ys else False)"
| "same_chars xs ys = False"

fun same_name :: "sql \<Rightarrow> sql \<Rightarrow> bool" where
  "same_name (Sql m) (Sql n) = (if same_length m n then same_chars m n else False)"

lemma same_name_eq: "same_name m n \<longleftrightarrow> m = n"
proof -
  have "same_length xs xs" for xs :: string by (induction xs) simp_all
  moreover have "same_chars xs ys \<longleftrightarrow> xs = ys" for xs ys by (induction xs ys rule: same_chars.induct) simp_all
  ultimately show ?thesis by (cases m; cases n) auto
qed

fun member_name :: "sql \<Rightarrow> sql list \<Rightarrow> bool" where
  "member_name n [] = False"
| "member_name n (m # ms) = (if same_name m n then True else member_name n ms)"

lemma member_name_eq: "member_name n ms \<longleftrightarrow> n \<in> set ms"
  by (induction ms) (auto simp: same_name_eq)

fun same_names :: "sql list \<Rightarrow> sql list \<Rightarrow> bool" where
  "same_names [] [] = True"
| "same_names (x # xs) (y # ys) = (if same_name x y then same_names xs ys else False)"
| "same_names xs ys = False"

lemma same_names_eq: "same_names xs ys \<longleftrightarrow> xs = ys"
  by (induction xs ys rule: same_names.induct) (simp_all add: same_name_eq)

lemma lookup_code [code]:
  "lookup [] n = None"
  "lookup ((m, a) # xs) n = (if same_name m n then Some a else lookup xs n)"
  by (simp_all add: lookup_def same_name_eq)

lemma has_code [code]:
  "has [] n = False"
  "has ((m, a) # xs) n = (if same_name m n then True else has xs n)"
  by (auto simp: has_def same_name_eq)

lemma unique_names_code [code]:
  "unique_names [] = True"
  "unique_names ((m, a) # xs) = (if has xs m then False else unique_names xs)"
  by (simp_all add: unique_names_def has_def)

lemma without_code [code]:
  "without n [] = []"
  "without n ((m, a) # xs) = (if same_name m n then without n xs else (m, a) # without n xs)"
  by (simp_all add: without_def same_name_eq)

lemma put_code [code]:
  "put n a [] = []"
  "put n a ((m, b) # xs) = (if same_name m n then (n, a) # put n a xs else (m, b) # put n a xs)"
  by (simp_all add: put_def same_name_eq)

lemma rename_code [code]:
  "rename n k [] = []"
  "rename n k ((m, b) # xs) = (if same_name m n then (k, b) # rename n k xs else (m, b) # rename n k xs)"
  by (simp_all add: rename_def same_name_eq)

lemma covers_code [code]:
  "covers xs [] = True"
  "covers xs (n # ns) = (if has xs n then covers xs ns else False)"
  by (simp_all add: covers_def)

section \<open>What a definition refers to\<close>

fun column_type :: "sql_type \<Rightarrow> sql_type" where
  "column_type (SQL_Enum labels n) = SQL_Enum_ref n"
| "column_type t = t"

fun type_exists :: "schema \<Rightarrow> sql_type \<Rightarrow> bool" where
  "type_exists s (SQL_Enum labels n) = False"
| "type_exists s (SQL_Enum_ref n) = has (sc_types s) n"
| "type_exists s t = True"

text \<open>The key that a foreign key refers to.\<close>

fun is_key :: "sql list \<Rightarrow> constraint_def \<Rightarrow> bool" where
  "is_key key (Primary_key cols) = same_names cols key"
| "is_key key (Unique cols) = same_names cols key"
| "is_key key c = False"

definition has_key :: "table_def \<Rightarrow> sql list \<Rightarrow> bool" where
  "has_key t cols \<longleftrightarrow> list_ex (\<lambda>c. is_key cols (snd c)) (td_constraints t)"

fun local_columns :: "constraint_def \<Rightarrow> sql list" where
  "local_columns (Check e) = []"
| "local_columns (Primary_key cols) = cols"
| "local_columns (Unique cols) = cols"
| "local_columns (Foreign_key cols target remote ondelete) = cols"
| "local_columns (No_overlap cols statuses) = cols"

fun target_exists :: "(sql \<times> table_def) list \<Rightarrow> constraint_def \<Rightarrow> bool" where
  "target_exists ts (Foreign_key cols target remote ondelete) =
     (case lookup ts target of None \<Rightarrow> False | Some t \<Rightarrow> has_key t remote)"
| "target_exists ts c = True"

definition constraint_ok :: "(sql \<times> table_def) list \<Rightarrow> table_def \<Rightarrow> constraint_def \<Rightarrow> bool" where
  "constraint_ok ts t c \<longleftrightarrow> covers (td_columns t) (local_columns c) \<and> target_exists ts c"

text \<open>Foreign keys of other tables that need a key of a table.\<close>

fun refers :: "sql \<Rightarrow> sql list \<Rightarrow> constraint_def \<Rightarrow> bool" where
  "refers n key (Foreign_key cols target remote ondelete) = (if same_name target n then same_names remote key else False)"
| "refers n key c = False"

fun refers_to :: "sql \<Rightarrow> constraint_def \<Rightarrow> bool" where
  "refers_to n (Foreign_key cols target remote ondelete) = same_name target n"
| "refers_to n c = False"

fun key_of :: "constraint_def \<Rightarrow> sql list option" where
  "key_of (Primary_key cols) = Some cols"
| "key_of (Unique cols) = Some cols"
| "key_of c = None"

definition some_constraint :: "(constraint_def \<Rightarrow> bool) \<Rightarrow> (sql \<times> table_def) list \<Rightarrow> bool" where
  "some_constraint P ts \<longleftrightarrow> list_ex (\<lambda>t. list_ex (\<lambda>c. P (snd c)) (td_constraints (snd t))) ts"

fun of_type :: "sql \<Rightarrow> sql_type \<Rightarrow> bool" where
  "of_type n (SQL_Enum_ref m) = same_name m n"
| "of_type n t = False"

definition uses_type :: "sql \<Rightarrow> (sql \<times> table_def) list \<Rightarrow> bool" where
  "uses_type n ts \<longleftrightarrow> list_ex (\<lambda>t. list_ex (\<lambda>c. of_type n (col_type (snd c))) (td_columns (snd t))) ts"

section \<open>Statements\<close>

datatype table_item =
    Column sql sql_type bool "sql option"
  | CheckConstraint sql sql
  | ForeignKeyConstraint sql "sql list" sql "sql list" sql
  | PrimaryKeyConstraint sql "sql list"
  | UniqueConstraint "sql list" sql

datatype statement =
    Create_type sql "sql list"
  | Create_type_if_missing sql "sql list"
  | Drop_type sql
  | Drop_type_if_exists sql
  | Rename_type sql sql
  | Add_type_value sql sql
  | Create_table sql "table_item list"
  | Drop_table sql
  | Rename_table sql sql
  | Add_column sql sql sql_type bool "sql option"
  | Drop_column sql sql
  | Alter_column sql sql bool "sql option"
  | Alter_column_type sql sql sql_type
  | Add_constraint sql sql constraint_def
  | Drop_constraint sql sql
  | Drop_constraint_if_exists sql sql
  | Create_index sql sql "sql list" bool
  | Drop_index sql

fun sql_text :: "sql \<Rightarrow> string" where
  "sql_text (Sql s) = s"

text \<open>
  The columns and the constraints of a new table.  The code leaves the names of primary and foreign
  keys to the database, which makes them of the table, the column and a suffix; they are written out here.
\<close>

fun item_columns :: "table_item list \<Rightarrow> (sql \<times> column_def) list" where
  "item_columns [] = []"
| "item_columns (Column n t nullable server_default # xs) =
     (n, \<lparr>col_type = column_type t, col_nullable = nullable, col_default = server_default\<rparr>) # item_columns xs"
| "item_columns (x # xs) = item_columns xs"

fun item_constraints :: "table_item list \<Rightarrow> (sql \<times> constraint_def) list" where
  "item_constraints [] = []"
| "item_constraints (CheckConstraint e m # xs) = (m, Check e) # item_constraints xs"
| "item_constraints (ForeignKeyConstraint m cols target remote ondelete # xs) =
     (m, Foreign_key cols target remote ondelete) # item_constraints xs"
| "item_constraints (PrimaryKeyConstraint m cols # xs) = (m, Primary_key cols) # item_constraints xs"
| "item_constraints (UniqueConstraint cols m # xs) = (m, Unique cols) # item_constraints xs"
| "item_constraints (x # xs) = item_constraints xs"

fun item_types :: "table_item list \<Rightarrow> (sql \<times> sql list) list" where
  "item_types [] = []"
| "item_types (Column n (SQL_Enum labels m) nullable server_default # xs) = (m, labels) # item_types xs"
| "item_types (x # xs) = item_types xs"

definition create_type :: "sql \<Rightarrow> sql list \<Rightarrow> schema \<Rightarrow> ddl_result" where
  "create_type n labels s =
     (if has (sc_types s) n then Inl (Duplicate_object n) else Inr (s\<lparr>sc_types := (n, labels) # sc_types s\<rparr>))"

definition drop_type :: "sql \<Rightarrow> schema \<Rightarrow> ddl_result" where
  "drop_type n s =
     (if \<not> has (sc_types s) n then Inl (Undefined_object n)
      else if uses_type n (sc_tables s) then Inl (Dependent_objects n)
      else Inr (s\<lparr>sc_types := without n (sc_types s)\<rparr>))"

text \<open>The columns of a type that is renamed stay of that type.\<close>

definition retype :: "sql \<Rightarrow> sql \<Rightarrow> column_def \<Rightarrow> column_def" where
  "retype a b c = (if of_type a (col_type c) then c\<lparr>col_type := SQL_Enum_ref b\<rparr> else c)"

definition map_columns :: "(column_def \<Rightarrow> column_def) \<Rightarrow> table_def \<Rightarrow> table_def" where
  "map_columns f t = t\<lparr>td_columns := map (\<lambda>c. (fst c, f (snd c))) (td_columns t)\<rparr>"

definition rename_type :: "sql \<Rightarrow> sql \<Rightarrow> schema \<Rightarrow> ddl_result" where
  "rename_type a b s =
     (if \<not> has (sc_types s) a then Inl (Undefined_object a)
      else if has (sc_types s) b then Inl (Duplicate_object b)
      else Inr (s\<lparr>sc_types := rename a b (sc_types s),
                  sc_tables := map (\<lambda>t. (fst t, map_columns (retype a b) (snd t))) (sc_tables s)\<rparr>))"

definition add_type_value :: "sql \<Rightarrow> sql \<Rightarrow> schema \<Rightarrow> ddl_result" where
  "add_type_value n label s =
     (case lookup (sc_types s) n of
        None \<Rightarrow> Inl (Undefined_object n)
      | Some labels \<Rightarrow>
        Inr (if member_name label labels then s else s\<lparr>sc_types := put n (labels @ [label]) (sc_types s)\<rparr>))"

definition table_fits :: "schema \<Rightarrow> table_def \<Rightarrow> bool" where
  "table_fits s t \<longleftrightarrow>
     unique_names (td_columns t) \<and> unique_names (td_constraints t) \<and>
     list_all (\<lambda>c. type_exists s (col_type (snd c))) (td_columns t) \<and>
     list_all (\<lambda>c. constraint_ok (sc_tables s) t (snd c)) (td_constraints t)"

definition create_table :: "sql \<Rightarrow> table_item list \<Rightarrow> schema \<Rightarrow> ddl_result" where
  "create_table n items s =
     (let t = \<lparr>td_columns = item_columns items, td_constraints = item_constraints items\<rparr>;
          s' = s\<lparr>sc_types := item_types items @ sc_types s, sc_tables := (n, t) # sc_tables s\<rparr> in
      if has (sc_tables s) n then Inl (Duplicate_object n)
      else if \<not> unique_names (sc_types s') then Inl (Duplicate_object n)
      else if \<not> table_fits s' t then Inl (Invalid_definition n)
      else Inr s')"

definition drop_table :: "sql \<Rightarrow> schema \<Rightarrow> ddl_result" where
  "drop_table n s =
     (if \<not> has (sc_tables s) n then Inl (Undefined_object n)
      else if some_constraint (refers_to n) (without n (sc_tables s)) then Inl (Dependent_objects n)
      else Inr (s\<lparr>sc_tables := without n (sc_tables s),
                  sc_indexes := filter (\<lambda>i. \<not> same_name (ix_table (snd i)) n) (sc_indexes s)\<rparr>))"

fun retarget :: "sql \<Rightarrow> sql \<Rightarrow> constraint_def \<Rightarrow> constraint_def" where
  "retarget a b (Foreign_key cols target remote ondelete) = Foreign_key cols (if same_name target a then b else target) remote ondelete"
| "retarget a b c = c"

definition map_constraints :: "(constraint_def \<Rightarrow> constraint_def) \<Rightarrow> table_def \<Rightarrow> table_def" where
  "map_constraints f t = t\<lparr>td_constraints := map (\<lambda>c. (fst c, f (snd c))) (td_constraints t)\<rparr>"

definition rename_table :: "sql \<Rightarrow> sql \<Rightarrow> schema \<Rightarrow> ddl_result" where
  "rename_table a b s =
     (if \<not> has (sc_tables s) a then Inl (Undefined_object a)
      else if has (sc_tables s) b then Inl (Duplicate_object b)
      else Inr (s\<lparr>sc_tables := rename a b (map (\<lambda>t. (fst t, map_constraints (retarget a b) (snd t))) (sc_tables s)),
                  sc_indexes := map (\<lambda>i. (fst i, if same_name (ix_table (snd i)) a then (snd i)\<lparr>ix_table := b\<rparr> else snd i)) (sc_indexes s)\<rparr>))"

text \<open>A statement on one table.\<close>

definition alter_table :: "sql \<Rightarrow> (table_def \<Rightarrow> ddl_error + table_def) \<Rightarrow> schema \<Rightarrow> ddl_result" where
  "alter_table n f s =
     (case lookup (sc_tables s) n of
        None \<Rightarrow> Inl (Undefined_object n)
      | Some t \<Rightarrow> (case f t of Inl e \<Rightarrow> Inl e | Inr t' \<Rightarrow> Inr (s\<lparr>sc_tables := put n t' (sc_tables s)\<rparr>)))"

definition add_column :: "sql \<Rightarrow> sql \<Rightarrow> sql_type \<Rightarrow> bool \<Rightarrow> sql option \<Rightarrow> schema \<Rightarrow> ddl_result" where
  "add_column n c ty nullable server_default s = alter_table n (\<lambda>t.
     if has (td_columns t) c then Inl (Duplicate_object c)
     else if \<not> type_exists s ty then Inl (Undefined_object c)
     else Inr (t\<lparr>td_columns := td_columns t @ [(c, \<lparr>col_type = ty, col_nullable = nullable, col_default = server_default\<rparr>)]\<rparr>)) s"

text \<open>The words of a condition: what stands between blanks, brackets, quotes and operators.\<close>

fun char_in :: "char \<Rightarrow> string \<Rightarrow> bool" where
  "char_in c [] = False"
| "char_in c (d # ds) = (if c = d then True else char_in c ds)"

definition separates :: "char \<Rightarrow> bool" where
  "separates c = char_in c (CHR 0x27 # '' ()<>=!+-*/,;:'')"

fun words_from :: "string \<Rightarrow> string \<Rightarrow> string list" where
  "words_from w [] = (if w = [] then [] else [w])"
| "words_from w (c # cs) =
     (if \<not> separates c then words_from (w @ [c]) cs
      else if w = [] then words_from [] cs else w # words_from [] cs)"

fun has_word :: "string \<Rightarrow> string list \<Rightarrow> bool" where
  "has_word w [] = False"
| "has_word w (v # vs) = (if same_length v w then if same_chars v w then True else has_word w vs else has_word w vs)"

fun involves :: "sql \<Rightarrow> constraint_def \<Rightarrow> bool" where
  "involves c (Check e) = has_word (sql_text c) (words_from [] (sql_text e))"
| "involves c (No_overlap cols statuses) = member_name c (Sql ''status'' # cols)"
| "involves c d = member_name c (local_columns d)"

definition key_needed :: "sql \<Rightarrow> (sql \<times> table_def) list \<Rightarrow> constraint_def \<Rightarrow> bool" where
  "key_needed n ts c = (case key_of c of None \<Rightarrow> False | Some cols \<Rightarrow> some_constraint (refers n cols) ts)"

text \<open>The constraints and the indexes that involve a dropped column go with it.\<close>

definition drop_column :: "sql \<Rightarrow> sql \<Rightarrow> schema \<Rightarrow> ddl_result" where
  "drop_column n c s =
     (case alter_table n (\<lambda>t.
         if \<not> has (td_columns t) c then Inl (Undefined_object c)
         else if list_ex (\<lambda>d. if involves c (snd d) then key_needed n (sc_tables s) (snd d) else False) (td_constraints t)
         then Inl (Dependent_objects c)
         else Inr \<lparr>td_columns = without c (td_columns t),
                   td_constraints = filter (\<lambda>d. \<not> involves c (snd d)) (td_constraints t)\<rparr>) s of
        Inl e \<Rightarrow> Inl e
      | Inr s' \<Rightarrow> Inr (s'\<lparr>sc_indexes :=
          filter (\<lambda>i. if same_name (ix_table (snd i)) n then \<not> member_name c (ix_columns (snd i)) else True) (sc_indexes s')\<rparr>))"

definition alter_column :: "sql \<Rightarrow> sql \<Rightarrow> bool \<Rightarrow> sql option \<Rightarrow> schema \<Rightarrow> ddl_result" where
  "alter_column n c nullable server_default s = alter_table n (\<lambda>t.
     case lookup (td_columns t) c of
       None \<Rightarrow> Inl (Undefined_object c)
     | Some d \<Rightarrow> Inr (t\<lparr>td_columns := put c (d\<lparr>col_nullable := nullable,
           col_default := (if server_default = None then col_default d else server_default)\<rparr>) (td_columns t)\<rparr>)) s"

definition alter_column_type :: "sql \<Rightarrow> sql \<Rightarrow> sql_type \<Rightarrow> schema \<Rightarrow> ddl_result" where
  "alter_column_type n c ty s = alter_table n (\<lambda>t.
     case lookup (td_columns t) c of
       None \<Rightarrow> Inl (Undefined_object c)
     | Some d \<Rightarrow>
       if \<not> type_exists s ty then Inl (Undefined_object c)
       else Inr (t\<lparr>td_columns := put c (d\<lparr>col_type := ty\<rparr>) (td_columns t)\<rparr>)) s"

definition add_constraint :: "sql \<Rightarrow> sql \<Rightarrow> constraint_def \<Rightarrow> schema \<Rightarrow> ddl_result" where
  "add_constraint m n c s = alter_table n (\<lambda>t.
     if has (td_constraints t) m then Inl (Duplicate_object m)
     else if \<not> constraint_ok (sc_tables s) t c then Inl (Invalid_definition m)
     else Inr (t\<lparr>td_constraints := td_constraints t @ [(m, c)]\<rparr>)) s"

definition drop_constraint :: "sql \<Rightarrow> sql \<Rightarrow> schema \<Rightarrow> ddl_result" where
  "drop_constraint m n s = alter_table n (\<lambda>t.
     case lookup (td_constraints t) m of
       None \<Rightarrow> Inl (Undefined_object m)
     | Some c \<Rightarrow>
       if key_needed n (sc_tables s) c then Inl (Dependent_objects m)
       else Inr (t\<lparr>td_constraints := without m (td_constraints t)\<rparr>)) s"

definition has_constraint :: "sql \<Rightarrow> sql \<Rightarrow> schema \<Rightarrow> bool" where
  "has_constraint m n s = (case lookup (sc_tables s) n of None \<Rightarrow> False | Some t \<Rightarrow> has (td_constraints t) m)"

definition drop_constraint_if_exists :: "sql \<Rightarrow> sql \<Rightarrow> schema \<Rightarrow> ddl_result" where
  "drop_constraint_if_exists m n s =
     (if \<not> has (sc_tables s) n then Inl (Undefined_object n)
      else if has_constraint m n s then drop_constraint m n s else Inr s)"

definition create_index :: "sql \<Rightarrow> sql \<Rightarrow> sql list \<Rightarrow> bool \<Rightarrow> schema \<Rightarrow> ddl_result" where
  "create_index m n cols unique s =
     (case lookup (sc_tables s) n of
        None \<Rightarrow> Inl (Undefined_object n)
      | Some t \<Rightarrow>
        if has (sc_indexes s) m then Inl (Duplicate_object m)
        else if \<not> covers (td_columns t) cols then Inl (Invalid_definition m)
        else Inr (s\<lparr>sc_indexes := (m, \<lparr>ix_table = n, ix_columns = cols, ix_unique = unique\<rparr>) # sc_indexes s\<rparr>))"

definition drop_index :: "sql \<Rightarrow> schema \<Rightarrow> ddl_result" where
  "drop_index m s =
     (if has (sc_indexes s) m then Inr (s\<lparr>sc_indexes := without m (sc_indexes s)\<rparr>) else Inl (Undefined_object m))"

fun run_statement :: "statement \<Rightarrow> schema \<Rightarrow> ddl_result" where
  "run_statement (Create_type n labels) s = create_type n labels s"
| "run_statement (Create_type_if_missing n labels) s = (if has (sc_types s) n then Inr s else create_type n labels s)"
| "run_statement (Drop_type n) s = drop_type n s"
| "run_statement (Drop_type_if_exists n) s = (if has (sc_types s) n then drop_type n s else Inr s)"
| "run_statement (Rename_type a b) s = rename_type a b s"
| "run_statement (Add_type_value n label) s = add_type_value n label s"
| "run_statement (Create_table n items) s = create_table n items s"
| "run_statement (Drop_table n) s = drop_table n s"
| "run_statement (Rename_table a b) s = rename_table a b s"
| "run_statement (Add_column n c ty nullable server_default) s = add_column n c ty nullable server_default s"
| "run_statement (Drop_column n c) s = drop_column n c s"
| "run_statement (Alter_column n c nullable server_default) s = alter_column n c nullable server_default s"
| "run_statement (Alter_column_type n c ty) s = alter_column_type n c ty s"
| "run_statement (Add_constraint m n c) s = add_constraint m n c s"
| "run_statement (Drop_constraint m n) s = drop_constraint m n s"
| "run_statement (Drop_constraint_if_exists m n) s = drop_constraint_if_exists m n s"
| "run_statement (Create_index m n cols unique) s = create_index m n cols unique s"
| "run_statement (Drop_index m) s = drop_index m s"

fun run_statements :: "statement list \<Rightarrow> schema \<Rightarrow> ddl_result" where
  "run_statements [] s = Inr s"
| "run_statements (x # xs) s = (case run_statement x s of Inl e \<Rightarrow> Inl e | Inr s' \<Rightarrow> run_statements xs s')"

end
