(* ===== verification/Revisions.thy ===== *)
theory Revisions
  imports Table_Statements
begin

text \<open>
  The revisions under \<^verbatim>\<open>alembic/versions\<close>, statement by statement as they run under PostgreSQL.  The
  statements that move rows are in the theory Migrations; here they do nothing.
\<close>

text \<open>A text literal of SQL.\<close>

definition quoted :: "string \<Rightarrow> sql" where
  "quoted s = Sql ([CHR 0x27] @ s @ [CHR 0x27])"

fun run_steps :: "(schema \<Rightarrow> ddl_result) list \<Rightarrow> schema \<Rightarrow> ddl_result" where
  "run_steps [] s = Inr s"
| "run_steps (f # fs) s = (case f s of Inl e \<Rightarrow> Inl e | Inr s' \<Rightarrow> run_steps fs s')"

section \<open>0001: initial schema\<close>

definition initial_users :: "statement list" where
  "initial_users =
   [Create_table (Sql ''users'')
     [Column (Sql ''id'') SQL_Integer False None,
      Column (Sql ''email'') (SQL_String 255) False None,
      Column (Sql ''hashed_password'') (SQL_String 255) False None,
      Column (Sql ''full_name'') (SQL_String 255) False None,
      Column (Sql ''phone_number'') (SQL_String 32) True None,
      Column (Sql ''is_active'') SQL_Boolean False (Some (Sql ''true'')),
      Column (Sql ''is_platform_admin'') SQL_Boolean False (Some (Sql ''false'')),
      Column (Sql ''created_at'') SQL_DateTime False (Some (Sql ''now()'')),
      Column (Sql ''updated_at'') SQL_DateTime False (Some (Sql ''now()'')),
      PrimaryKeyConstraint (Sql ''users_pkey'') [Sql ''id'']],
    Create_index (Sql ''ix_users_id'') (Sql ''users'') [Sql ''id''] False,
    Create_index (Sql ''ix_users_email'') (Sql ''users'') [Sql ''email''] True]"

definition initial_organizations :: "statement list" where
  "initial_organizations =
   [Create_table (Sql ''organizations'')
     [Column (Sql ''id'') SQL_Integer False None,
      Column (Sql ''name'') (SQL_String 255) False None,
      Column (Sql ''business_type'') (SQL_String 100) False None,
      Column (Sql ''city'') (SQL_String 100) False None,
      Column (Sql ''address'') (SQL_String 255) True None,
      Column (Sql ''timezone'') (SQL_String 64) False None,
      Column (Sql ''is_active'') SQL_Boolean False (Some (Sql ''true'')),
      Column (Sql ''created_at'') SQL_DateTime False (Some (Sql ''now()'')),
      Column (Sql ''updated_at'') SQL_DateTime False (Some (Sql ''now()'')),
      PrimaryKeyConstraint (Sql ''organizations_pkey'') [Sql ''id'']],
    Create_index (Sql ''ix_organizations_id'') (Sql ''organizations'') [Sql ''id''] False,
    Create_index (Sql ''ix_organizations_name'') (Sql ''organizations'') [Sql ''name''] False]"

definition initial_customers :: "statement list" where
  "initial_customers =
   [Create_table (Sql ''customers'')
     [Column (Sql ''id'') SQL_Integer False None,
      Column (Sql ''full_name'') (SQL_String 255) False None,
      Column (Sql ''phone_number'') (SQL_String 32) False None,
      Column (Sql ''phone_number_normalized'') (SQL_String 32) False None,
      Column (Sql ''email'') (SQL_String 255) True None,
      Column (Sql ''preferred_language'') (SQL_String 16) True None,
      Column (Sql ''created_at'') SQL_DateTime False (Some (Sql ''now()'')),
      Column (Sql ''updated_at'') SQL_DateTime False (Some (Sql ''now()'')),
      PrimaryKeyConstraint (Sql ''customers_pkey'') [Sql ''id'']],
    Create_index (Sql ''ix_customers_id'') (Sql ''customers'') [Sql ''id''] False,
    Create_index (Sql ''ix_customers_phone_number'') (Sql ''customers'') [Sql ''phone_number''] False,
    Create_index (Sql ''ix_customers_phone_number_normalized'') (Sql ''customers'') [Sql ''phone_number_normalized''] True,
    Create_index (Sql ''ix_customers_email'') (Sql ''customers'') [Sql ''email''] False]"

definition initial_organization_members :: "statement list" where
  "initial_organization_members =
   [Create_table (Sql ''organization_members'')
     [Column (Sql ''id'') SQL_Integer False None,
      Column (Sql ''organization_id'') SQL_Integer False None,
      Column (Sql ''user_id'') SQL_Integer False None,
      Column (Sql ''role'') (SQL_Enum [Sql ''OWNER'', Sql ''MANAGER'', Sql ''STAFF'', Sql ''ASSISTANT''] (Sql ''membership_role'')) False None,
      Column (Sql ''is_active'') SQL_Boolean False (Some (Sql ''true'')),
      Column (Sql ''created_at'') SQL_DateTime False (Some (Sql ''now()'')),
      Column (Sql ''updated_at'') SQL_DateTime False (Some (Sql ''now()'')),
      ForeignKeyConstraint (Sql ''organization_members_organization_id_fkey'') [Sql ''organization_id''] (Sql ''organizations'') [Sql ''id''] (Sql ''CASCADE''),
      ForeignKeyConstraint (Sql ''organization_members_user_id_fkey'') [Sql ''user_id''] (Sql ''users'') [Sql ''id''] (Sql ''CASCADE''),
      PrimaryKeyConstraint (Sql ''organization_members_pkey'') [Sql ''id''],
      UniqueConstraint [Sql ''organization_id'', Sql ''user_id''] (Sql ''uq_org_member_org_user'')],
    Create_index (Sql ''ix_organization_members_id'') (Sql ''organization_members'') [Sql ''id''] False,
    Create_index (Sql ''ix_organization_members_organization_id'') (Sql ''organization_members'') [Sql ''organization_id''] False,
    Create_index (Sql ''ix_organization_members_user_id'') (Sql ''organization_members'') [Sql ''user_id''] False]"

definition initial_providers :: "statement list" where
  "initial_providers =
   [Create_table (Sql ''providers'')
     [Column (Sql ''id'') SQL_Integer False None,
      Column (Sql ''organization_id'') SQL_Integer False None,
      Column (Sql ''user_id'') SQL_Integer True None,
      Column (Sql ''display_name'') (SQL_String 255) False None,
      Column (Sql ''title'') (SQL_String 255) True None,
      Column (Sql ''bio'') SQL_Text True None,
      Column (Sql ''is_active'') SQL_Boolean False (Some (Sql ''true'')),
      Column (Sql ''appointment_duration_minutes'') SQL_Integer False (Some (Sql ''30'')),
      Column (Sql ''created_at'') SQL_DateTime False (Some (Sql ''now()'')),
      Column (Sql ''updated_at'') SQL_DateTime False (Some (Sql ''now()'')),
      CheckConstraint (Sql ''appointment_duration_minutes > 0'') (Sql ''ck_providers_positive_duration''),
      ForeignKeyConstraint (Sql ''providers_organization_id_fkey'') [Sql ''organization_id''] (Sql ''organizations'') [Sql ''id''] (Sql ''CASCADE''),
      ForeignKeyConstraint (Sql ''providers_user_id_fkey'') [Sql ''user_id''] (Sql ''users'') [Sql ''id''] (Sql ''SET NULL''),
      PrimaryKeyConstraint (Sql ''providers_pkey'') [Sql ''id''],
      UniqueConstraint [Sql ''user_id''] (Sql ''uq_providers_user_id'')],
    Create_index (Sql ''ix_providers_id'') (Sql ''providers'') [Sql ''id''] False,
    Create_index (Sql ''ix_providers_organization_id'') (Sql ''providers'') [Sql ''organization_id''] False]"

definition initial_services :: "statement list" where
  "initial_services =
   [Create_table (Sql ''services'')
     [Column (Sql ''id'') SQL_Integer False None,
      Column (Sql ''organization_id'') SQL_Integer False None,
      Column (Sql ''provider_id'') SQL_Integer True None,
      Column (Sql ''name'') (SQL_String 255) False None,
      Column (Sql ''description'') SQL_Text True None,
      Column (Sql ''duration_minutes'') SQL_Integer False None,
      Column (Sql ''price'') (SQL_Numeric 10 2) True None,
      Column (Sql ''is_active'') SQL_Boolean False (Some (Sql ''true'')),
      Column (Sql ''created_at'') SQL_DateTime False (Some (Sql ''now()'')),
      Column (Sql ''updated_at'') SQL_DateTime False (Some (Sql ''now()'')),
      CheckConstraint (Sql ''duration_minutes > 0'') (Sql ''ck_services_positive_duration''),
      CheckConstraint (Sql ''price IS NULL OR price >= 0'') (Sql ''ck_services_non_negative_price''),
      ForeignKeyConstraint (Sql ''services_organization_id_fkey'') [Sql ''organization_id''] (Sql ''organizations'') [Sql ''id''] (Sql ''CASCADE''),
      ForeignKeyConstraint (Sql ''services_provider_id_fkey'') [Sql ''provider_id''] (Sql ''providers'') [Sql ''id''] (Sql ''SET NULL''),
      PrimaryKeyConstraint (Sql ''services_pkey'') [Sql ''id'']],
    Create_index (Sql ''ix_services_id'') (Sql ''services'') [Sql ''id''] False,
    Create_index (Sql ''ix_services_name'') (Sql ''services'') [Sql ''name''] False,
    Create_index (Sql ''ix_services_organization_id'') (Sql ''services'') [Sql ''organization_id''] False,
    Create_index (Sql ''ix_services_provider_id'') (Sql ''services'') [Sql ''provider_id''] False]"

definition initial_customer_channel_identities :: "statement list" where
  "initial_customer_channel_identities =
   [Create_table (Sql ''customer_channel_identities'')
     [Column (Sql ''id'') SQL_Integer False None,
      Column (Sql ''customer_id'') SQL_Integer False None,
      Column (Sql ''channel'') (SQL_Enum [Sql ''WHATSAPP'', Sql ''TELEGRAM'', Sql ''WEB'', Sql ''MOBILE''] (Sql ''channel_type'')) False None,
      Column (Sql ''external_user_id'') (SQL_String 255) False None,
      Column (Sql ''external_chat_id'') (SQL_String 255) True None,
      Column (Sql ''created_at'') SQL_DateTime False (Some (Sql ''now()'')),
      Column (Sql ''updated_at'') SQL_DateTime False (Some (Sql ''now()'')),
      ForeignKeyConstraint (Sql ''customer_channel_identities_customer_id_fkey'') [Sql ''customer_id''] (Sql ''customers'') [Sql ''id''] (Sql ''CASCADE''),
      PrimaryKeyConstraint (Sql ''customer_channel_identities_pkey'') [Sql ''id''],
      UniqueConstraint [Sql ''customer_id'', Sql ''channel''] (Sql ''uq_customer_identity_customer_channel''),
      UniqueConstraint [Sql ''channel'', Sql ''external_user_id''] (Sql ''uq_customer_identity_channel_external_user'')],
    Create_index (Sql ''ix_customer_channel_identities_id'') (Sql ''customer_channel_identities'') [Sql ''id''] False,
    Create_index (Sql ''ix_customer_channel_identities_customer_id'') (Sql ''customer_channel_identities'') [Sql ''customer_id''] False]"

definition initial_provider_availability :: "statement list" where
  "initial_provider_availability =
   [Create_table (Sql ''provider_availability'')
     [Column (Sql ''id'') SQL_Integer False None,
      Column (Sql ''provider_id'') SQL_Integer False None,
      Column (Sql ''weekday'') SQL_Integer False None,
      Column (Sql ''start_time'') SQL_Time False None,
      Column (Sql ''end_time'') SQL_Time False None,
      Column (Sql ''is_active'') SQL_Boolean False (Some (Sql ''true'')),
      Column (Sql ''created_at'') SQL_DateTime False (Some (Sql ''now()'')),
      Column (Sql ''updated_at'') SQL_DateTime False (Some (Sql ''now()'')),
      CheckConstraint (Sql ''weekday >= 0 AND weekday <= 6'') (Sql ''ck_provider_availability_weekday_range''),
      CheckConstraint (Sql ''start_time < end_time'') (Sql ''ck_provider_availability_start_before_end''),
      ForeignKeyConstraint (Sql ''provider_availability_provider_id_fkey'') [Sql ''provider_id''] (Sql ''providers'') [Sql ''id''] (Sql ''CASCADE''),
      PrimaryKeyConstraint (Sql ''provider_availability_pkey'') [Sql ''id''],
      UniqueConstraint [Sql ''provider_id'', Sql ''weekday'', Sql ''start_time'', Sql ''end_time''] (Sql ''uq_provider_availability_provider_weekday_window'')],
    Create_index (Sql ''ix_provider_availability_id'') (Sql ''provider_availability'') [Sql ''id''] False,
    Create_index (Sql ''ix_provider_availability_provider_id'') (Sql ''provider_availability'') [Sql ''provider_id''] False]"

definition initial_provider_time_off :: "statement list" where
  "initial_provider_time_off =
   [Create_table (Sql ''provider_time_off'')
     [Column (Sql ''id'') SQL_Integer False None,
      Column (Sql ''provider_id'') SQL_Integer False None,
      Column (Sql ''start_datetime'') SQL_DateTime False None,
      Column (Sql ''end_datetime'') SQL_DateTime False None,
      Column (Sql ''reason'') (SQL_String 255) True None,
      Column (Sql ''created_at'') SQL_DateTime False (Some (Sql ''now()'')),
      Column (Sql ''updated_at'') SQL_DateTime False (Some (Sql ''now()'')),
      CheckConstraint (Sql ''start_datetime < end_datetime'') (Sql ''ck_provider_time_off_start_before_end''),
      ForeignKeyConstraint (Sql ''provider_time_off_provider_id_fkey'') [Sql ''provider_id''] (Sql ''providers'') [Sql ''id''] (Sql ''CASCADE''),
      PrimaryKeyConstraint (Sql ''provider_time_off_pkey'') [Sql ''id'']],
    Create_index (Sql ''ix_provider_time_off_id'') (Sql ''provider_time_off'') [Sql ''id''] False,
    Create_index (Sql ''ix_provider_time_off_provider_id'') (Sql ''provider_time_off'') [Sql ''provider_id''] False]"

definition initial_appointments :: "statement list" where
  "initial_appointments =
   [Create_table (Sql ''appointments'')
     [Column (Sql ''id'') SQL_Integer False None,
      Column (Sql ''organization_id'') SQL_Integer False None,
      Column (Sql ''provider_id'') SQL_Integer False None,
      Column (Sql ''service_id'') SQL_Integer True None,
      Column (Sql ''customer_id'') SQL_Integer False None,
      Column (Sql ''start_datetime'') SQL_DateTime False None,
      Column (Sql ''end_datetime'') SQL_DateTime False None,
      Column (Sql ''status'') (SQL_Enum [Sql ''PENDING'', Sql ''CONFIRMED'', Sql ''CANCELLED'', Sql ''COMPLETED'', Sql ''NO_SHOW''] (Sql ''appointment_status'')) False (Some (quoted ''PENDING'')),
      Column (Sql ''booking_channel'') (SQL_Enum [Sql ''WHATSAPP'', Sql ''TELEGRAM'', Sql ''WEB'', Sql ''MOBILE'', Sql ''DASHBOARD'', Sql ''ADMIN''] (Sql ''booking_channel'')) False (Some (quoted ''WEB'')),
      Column (Sql ''notes'') SQL_Text True None,
      Column (Sql ''created_at'') SQL_DateTime False (Some (Sql ''now()'')),
      Column (Sql ''updated_at'') SQL_DateTime False (Some (Sql ''now()'')),
      CheckConstraint (Sql ''start_datetime < end_datetime'') (Sql ''ck_appointments_start_before_end''),
      ForeignKeyConstraint (Sql ''appointments_customer_id_fkey'') [Sql ''customer_id''] (Sql ''customers'') [Sql ''id''] (Sql ''CASCADE''),
      ForeignKeyConstraint (Sql ''appointments_organization_id_fkey'') [Sql ''organization_id''] (Sql ''organizations'') [Sql ''id''] (Sql ''CASCADE''),
      ForeignKeyConstraint (Sql ''appointments_provider_id_fkey'') [Sql ''provider_id''] (Sql ''providers'') [Sql ''id''] (Sql ''CASCADE''),
      ForeignKeyConstraint (Sql ''appointments_service_id_fkey'') [Sql ''service_id''] (Sql ''services'') [Sql ''id''] (Sql ''SET NULL''),
      PrimaryKeyConstraint (Sql ''appointments_pkey'') [Sql ''id'']],
    Create_index (Sql ''ix_appointments_id'') (Sql ''appointments'') [Sql ''id''] False,
    Create_index (Sql ''ix_appointments_organization_id'') (Sql ''appointments'') [Sql ''organization_id''] False,
    Create_index (Sql ''ix_appointments_provider_id'') (Sql ''appointments'') [Sql ''provider_id''] False,
    Create_index (Sql ''ix_appointments_service_id'') (Sql ''appointments'') [Sql ''service_id''] False,
    Create_index (Sql ''ix_appointments_customer_id'') (Sql ''appointments'') [Sql ''customer_id''] False,
    Create_index (Sql ''ix_appointments_start_datetime'') (Sql ''appointments'') [Sql ''start_datetime''] False,
    Create_index (Sql ''ix_appointments_end_datetime'') (Sql ''appointments'') [Sql ''end_datetime''] False,
    Create_index (Sql ''ix_appointments_status'') (Sql ''appointments'') [Sql ''status''] False,
    Create_index (Sql ''ix_appointments_provider_time_window'') (Sql ''appointments'') [Sql ''provider_id'', Sql ''start_datetime'', Sql ''end_datetime''] False,
    Create_index (Sql ''ix_appointments_org_start'') (Sql ''appointments'') [Sql ''organization_id'', Sql ''start_datetime''] False,
    Create_index (Sql ''ix_appointments_customer_start'') (Sql ''appointments'') [Sql ''customer_id'', Sql ''start_datetime''] False,
    Add_constraint (Sql ''ex_appointments_provider_no_overlap'') (Sql ''appointments'') (No_overlap [Sql ''provider_id'', Sql ''start_datetime'', Sql ''end_datetime''] [Sql ''PENDING'', Sql ''CONFIRMED''])]"

definition initial_conversation_states :: "statement list" where
  "initial_conversation_states =
   [Create_table (Sql ''conversation_states'')
     [Column (Sql ''id'') SQL_Integer False None,
      Column (Sql ''customer_id'') SQL_Integer False None,
      Column (Sql ''channel'') (SQL_Enum [Sql ''WHATSAPP'', Sql ''TELEGRAM'', Sql ''WEB'', Sql ''MOBILE''] (Sql ''conversation_channel_type'')) False None,
      Column (Sql ''current_flow'') (SQL_String 100) True None,
      Column (Sql ''current_step'') (SQL_String 100) True None,
      Column (Sql ''context_json'') SQL_JSON False None,
      Column (Sql ''created_at'') SQL_DateTime False (Some (Sql ''now()'')),
      Column (Sql ''updated_at'') SQL_DateTime False (Some (Sql ''now()'')),
      ForeignKeyConstraint (Sql ''conversation_states_customer_id_fkey'') [Sql ''customer_id''] (Sql ''customers'') [Sql ''id''] (Sql ''CASCADE''),
      PrimaryKeyConstraint (Sql ''conversation_states_pkey'') [Sql ''id''],
      UniqueConstraint [Sql ''customer_id'', Sql ''channel''] (Sql ''uq_conversation_state_customer_channel'')],
    Create_index (Sql ''ix_conversation_states_id'') (Sql ''conversation_states'') [Sql ''id''] False,
    Create_index (Sql ''ix_conversation_states_customer_id'') (Sql ''conversation_states'') [Sql ''customer_id''] False]"

definition initial_message_logs :: "statement list" where
  "initial_message_logs =
   [Create_table (Sql ''message_logs'')
     [Column (Sql ''id'') SQL_Integer False None,
      Column (Sql ''customer_id'') SQL_Integer True None,
      Column (Sql ''organization_id'') SQL_Integer True None,
      Column (Sql ''provider_id'') SQL_Integer True None,
      Column (Sql ''direction'') (SQL_Enum [Sql ''INBOUND'', Sql ''OUTBOUND''] (Sql ''message_direction'')) False None,
      Column (Sql ''channel'') (SQL_Enum [Sql ''WHATSAPP'', Sql ''TELEGRAM'', Sql ''WEB'', Sql ''MOBILE''] (Sql ''message_channel_type'')) False None,
      Column (Sql ''external_message_id'') (SQL_String 255) True None,
      Column (Sql ''payload_json'') SQL_JSON False None,
      Column (Sql ''created_at'') SQL_DateTime False (Some (Sql ''now()'')),
      ForeignKeyConstraint (Sql ''message_logs_customer_id_fkey'') [Sql ''customer_id''] (Sql ''customers'') [Sql ''id''] (Sql ''SET NULL''),
      ForeignKeyConstraint (Sql ''message_logs_organization_id_fkey'') [Sql ''organization_id''] (Sql ''organizations'') [Sql ''id''] (Sql ''SET NULL''),
      ForeignKeyConstraint (Sql ''message_logs_provider_id_fkey'') [Sql ''provider_id''] (Sql ''providers'') [Sql ''id''] (Sql ''SET NULL''),
      PrimaryKeyConstraint (Sql ''message_logs_pkey'') [Sql ''id'']],
    Create_index (Sql ''ix_message_logs_id'') (Sql ''message_logs'') [Sql ''id''] False,
    Create_index (Sql ''ix_message_logs_customer_id'') (Sql ''message_logs'') [Sql ''customer_id''] False,
    Create_index (Sql ''ix_message_logs_organization_id'') (Sql ''message_logs'') [Sql ''organization_id''] False,
    Create_index (Sql ''ix_message_logs_provider_id'') (Sql ''message_logs'') [Sql ''provider_id''] False,
    Create_index (Sql ''ix_message_logs_external_message_id'') (Sql ''message_logs'') [Sql ''external_message_id''] False]"

definition initial_notifications :: "statement list" where
  "initial_notifications =
   [Create_table (Sql ''notifications'')
     [Column (Sql ''id'') SQL_Integer False None,
      Column (Sql ''appointment_id'') SQL_Integer False None,
      Column (Sql ''type'') (SQL_Enum [Sql ''REMINDER'', Sql ''STATUS_UPDATE''] (Sql ''notification_type'')) False None,
      Column (Sql ''status'') (SQL_Enum [Sql ''PENDING'', Sql ''SENT'', Sql ''FAILED''] (Sql ''notification_status'')) False (Some (quoted ''PENDING'')),
      Column (Sql ''scheduled_for'') SQL_DateTime False None,
      Column (Sql ''sent_at'') SQL_DateTime True None,
      Column (Sql ''payload_json'') SQL_JSON True None,
      Column (Sql ''created_at'') SQL_DateTime False (Some (Sql ''now()'')),
      Column (Sql ''updated_at'') SQL_DateTime False (Some (Sql ''now()'')),
      ForeignKeyConstraint (Sql ''notifications_appointment_id_fkey'') [Sql ''appointment_id''] (Sql ''appointments'') [Sql ''id''] (Sql ''CASCADE''),
      PrimaryKeyConstraint (Sql ''notifications_pkey'') [Sql ''id'']],
    Create_index (Sql ''ix_notifications_id'') (Sql ''notifications'') [Sql ''id''] False,
    Create_index (Sql ''ix_notifications_appointment_id'') (Sql ''notifications'') [Sql ''appointment_id''] False,
    Create_index (Sql ''ix_notifications_status'') (Sql ''notifications'') [Sql ''status''] False]"

definition upgrade_initial :: "statement list" where
  "upgrade_initial =
     initial_users @ initial_organizations @ initial_customers @ initial_organization_members @ initial_providers @ initial_services @ initial_customer_channel_identities @ initial_provider_availability @ initial_provider_time_off @ initial_appointments @ initial_conversation_states @ initial_message_logs @ initial_notifications"

definition downgrade_initial :: "statement list" where
  "downgrade_initial =
   [Drop_index (Sql ''ix_notifications_status''),
    Drop_index (Sql ''ix_notifications_appointment_id''),
    Drop_index (Sql ''ix_notifications_id''),
    Drop_table (Sql ''notifications''),
    Drop_index (Sql ''ix_message_logs_external_message_id''),
    Drop_index (Sql ''ix_message_logs_provider_id''),
    Drop_index (Sql ''ix_message_logs_organization_id''),
    Drop_index (Sql ''ix_message_logs_customer_id''),
    Drop_index (Sql ''ix_message_logs_id''),
    Drop_table (Sql ''message_logs''),
    Drop_index (Sql ''ix_conversation_states_customer_id''),
    Drop_index (Sql ''ix_conversation_states_id''),
    Drop_table (Sql ''conversation_states''),
    Drop_constraint_if_exists (Sql ''ex_appointments_provider_no_overlap'') (Sql ''appointments''),
    Drop_index (Sql ''ix_appointments_customer_start''),
    Drop_index (Sql ''ix_appointments_org_start''),
    Drop_index (Sql ''ix_appointments_provider_time_window''),
    Drop_index (Sql ''ix_appointments_status''),
    Drop_index (Sql ''ix_appointments_end_datetime''),
    Drop_index (Sql ''ix_appointments_start_datetime''),
    Drop_index (Sql ''ix_appointments_customer_id''),
    Drop_index (Sql ''ix_appointments_service_id''),
    Drop_index (Sql ''ix_appointments_provider_id''),
    Drop_index (Sql ''ix_appointments_organization_id''),
    Drop_index (Sql ''ix_appointments_id''),
    Drop_table (Sql ''appointments''),
    Drop_index (Sql ''ix_provider_time_off_provider_id''),
    Drop_index (Sql ''ix_provider_time_off_id''),
    Drop_table (Sql ''provider_time_off''),
    Drop_index (Sql ''ix_provider_availability_provider_id''),
    Drop_index (Sql ''ix_provider_availability_id''),
    Drop_table (Sql ''provider_availability''),
    Drop_index (Sql ''ix_customer_channel_identities_customer_id''),
    Drop_index (Sql ''ix_customer_channel_identities_id''),
    Drop_table (Sql ''customer_channel_identities''),
    Drop_index (Sql ''ix_services_provider_id''),
    Drop_index (Sql ''ix_services_organization_id''),
    Drop_index (Sql ''ix_services_name''),
    Drop_index (Sql ''ix_services_id''),
    Drop_table (Sql ''services''),
    Drop_index (Sql ''ix_providers_organization_id''),
    Drop_index (Sql ''ix_providers_id''),
    Drop_table (Sql ''providers''),
    Drop_index (Sql ''ix_organization_members_user_id''),
    Drop_index (Sql ''ix_organization_members_organization_id''),
    Drop_index (Sql ''ix_organization_members_id''),
    Drop_table (Sql ''organization_members''),
    Drop_index (Sql ''ix_customers_phone_number_normalized''),
    Drop_index (Sql ''ix_customers_email''),
    Drop_index (Sql ''ix_customers_phone_number''),
    Drop_index (Sql ''ix_customers_id''),
    Drop_table (Sql ''customers''),
    Drop_index (Sql ''ix_organizations_name''),
    Drop_index (Sql ''ix_organizations_id''),
    Drop_table (Sql ''organizations''),
    Drop_index (Sql ''ix_users_email''),
    Drop_index (Sql ''ix_users_id''),
    Drop_table (Sql ''users''),
    Drop_type_if_exists (Sql ''notification_status''),
    Drop_type_if_exists (Sql ''notification_type''),
    Drop_type_if_exists (Sql ''message_channel_type''),
    Drop_type_if_exists (Sql ''message_direction''),
    Drop_type_if_exists (Sql ''conversation_channel_type''),
    Drop_type_if_exists (Sql ''appointment_status''),
    Drop_type_if_exists (Sql ''booking_channel''),
    Drop_type_if_exists (Sql ''channel_type''),
    Drop_type_if_exists (Sql ''membership_role'')]"

section \<open>0002: provider owned services foundation\<close>

definition upgrade_provider_owned_services :: "statement list" where
  "upgrade_provider_owned_services =
   [Add_column (Sql ''services'') (Sql ''currency'') (SQL_String 3) True None,
    Add_column (Sql ''services'') (Sql ''buffer_before_minutes'') SQL_Integer False (Some (Sql ''0'')),
    Add_column (Sql ''services'') (Sql ''buffer_after_minutes'') SQL_Integer False (Some (Sql ''0'')),
    Add_constraint (Sql ''ck_services_non_negative_buffer_before'') (Sql ''services'') (Check (Sql ''buffer_before_minutes >= 0'')),
    Add_constraint (Sql ''ck_services_non_negative_buffer_after'') (Sql ''services'') (Check (Sql ''buffer_after_minutes >= 0'')),
    Drop_constraint (Sql ''services_provider_id_fkey'') (Sql ''services''),
    Add_constraint (Sql ''fk_services_provider_id_providers'') (Sql ''services'') (Foreign_key [Sql ''provider_id''] (Sql ''providers'') [Sql ''id''] (Sql ''CASCADE'')),
    Alter_column (Sql ''services'') (Sql ''provider_id'') False None]"

definition downgrade_provider_owned_services :: "statement list" where
  "downgrade_provider_owned_services =
   [Drop_constraint (Sql ''fk_services_provider_id_providers'') (Sql ''services''),
    Add_constraint (Sql ''services_provider_id_fkey'') (Sql ''services'') (Foreign_key [Sql ''provider_id''] (Sql ''providers'') [Sql ''id''] (Sql ''SET NULL'')),
    Alter_column (Sql ''services'') (Sql ''provider_id'') True None,
    Drop_constraint (Sql ''ck_services_non_negative_buffer_after'') (Sql ''services''),
    Drop_constraint (Sql ''ck_services_non_negative_buffer_before'') (Sql ''services''),
    Drop_column (Sql ''services'') (Sql ''buffer_after_minutes''),
    Drop_column (Sql ''services'') (Sql ''buffer_before_minutes''),
    Drop_column (Sql ''services'') (Sql ''currency'')]"

section \<open>0003: provider date overrides\<close>

definition upgrade_provider_date_overrides :: "statement list" where
  "upgrade_provider_date_overrides =
   [Create_table (Sql ''provider_date_overrides'')
     [Column (Sql ''id'') SQL_Integer False None,
      Column (Sql ''provider_id'') SQL_Integer False None,
      Column (Sql ''override_date'') SQL_Date False None,
      Column (Sql ''start_time'') SQL_Time True None,
      Column (Sql ''end_time'') SQL_Time True None,
      Column (Sql ''is_available'') SQL_Boolean False (Some (Sql ''true'')),
      Column (Sql ''is_active'') SQL_Boolean False (Some (Sql ''true'')),
      Column (Sql ''created_at'') SQL_DateTime False (Some (Sql ''now()'')),
      Column (Sql ''updated_at'') SQL_DateTime False (Some (Sql ''now()'')),
      CheckConstraint (Sql ''(is_available = true AND start_time IS NOT NULL AND end_time IS NOT NULL AND start_time < end_time) OR (is_available = false AND start_time IS NULL AND end_time IS NULL)'') (Sql ''ck_provider_date_overrides_time_shape''),
      ForeignKeyConstraint (Sql ''provider_date_overrides_provider_id_fkey'') [Sql ''provider_id''] (Sql ''providers'') [Sql ''id''] (Sql ''CASCADE''),
      PrimaryKeyConstraint (Sql ''provider_date_overrides_pkey'') [Sql ''id'']],
    Create_index (Sql ''ix_provider_date_overrides_id'') (Sql ''provider_date_overrides'') [Sql ''id''] False,
    Create_index (Sql ''ix_provider_date_overrides_provider_id'') (Sql ''provider_date_overrides'') [Sql ''provider_id''] False,
    Create_index (Sql ''ix_provider_date_overrides_override_date'') (Sql ''provider_date_overrides'') [Sql ''override_date''] False,
    Create_index (Sql ''ix_provider_date_overrides_provider_date'') (Sql ''provider_date_overrides'') [Sql ''provider_id'', Sql ''override_date''] False]"

definition downgrade_provider_date_overrides :: "statement list" where
  "downgrade_provider_date_overrides =
   [Drop_index (Sql ''ix_provider_date_overrides_provider_date''),
    Drop_index (Sql ''ix_provider_date_overrides_override_date''),
    Drop_index (Sql ''ix_provider_date_overrides_provider_id''),
    Drop_index (Sql ''ix_provider_date_overrides_id''),
    Drop_table (Sql ''provider_date_overrides'')]"

section \<open>0004: organization system slug + memberships alignment\<close>

definition schema_rename_membership_table_if_needed :: "schema \<Rightarrow> ddl_result" where
  "schema_rename_membership_table_if_needed s =
     (if has (sc_tables s) (Sql ''organization_members'') \<and> \<not> has (sc_tables s) (Sql ''organization_memberships'')
      then rename_table (Sql ''organization_members'') (Sql ''organization_memberships'') s else Inr s)"

definition swap_constraint :: "sql \<Rightarrow> sql \<Rightarrow> sql \<Rightarrow> constraint_def \<Rightarrow> schema \<Rightarrow> ddl_result" where
  "swap_constraint old new n c s = run_steps
     [\<lambda>s. if has_constraint old n s then drop_constraint old n s else Inr s,
      \<lambda>s. if has_constraint new n s then Inr s else add_constraint new n c s] s"

definition schema_migrate_membership_roles :: "statement list" where
  "schema_migrate_membership_roles =
   [Rename_type (Sql ''membership_role'') (Sql ''membership_role_old''),
    Create_type (Sql ''membership_role'') [(Sql ''OWNER''), (Sql ''ADMIN''), (Sql ''PROVIDER''), (Sql ''STAFF'')],
    Alter_column_type (Sql ''organization_memberships'') (Sql ''role'') (SQL_Enum_ref (Sql ''membership_role'')),
    Drop_type (Sql ''membership_role_old'')]"

definition schema_restore_membership_roles :: "statement list" where
  "schema_restore_membership_roles =
   [Rename_type (Sql ''membership_role'') (Sql ''membership_role_new''),
    Create_type (Sql ''membership_role'') [(Sql ''OWNER''), (Sql ''MANAGER''), (Sql ''STAFF''), (Sql ''ASSISTANT'')],
    Alter_column_type (Sql ''organization_memberships'') (Sql ''role'') (SQL_Enum_ref (Sql ''membership_role'')),
    Drop_type (Sql ''membership_role_new'')]"

definition upgrade_organization_system :: "schema \<Rightarrow> ddl_result" where
  "upgrade_organization_system s = run_steps
     [run_statements
        [Add_column (Sql ''organizations'') (Sql ''slug'') (SQL_String 255) True None,
         Alter_column (Sql ''organizations'') (Sql ''slug'') False None,
         Create_index (Sql ''ix_organizations_slug'') (Sql ''organizations'') [(Sql ''slug'')] True],
      schema_rename_membership_table_if_needed,
      swap_constraint (Sql ''uq_org_member_org_user'') (Sql ''uq_org_membership_org_user'') (Sql ''organization_memberships'')
        (Unique [(Sql ''organization_id''), (Sql ''user_id'')]),
      run_statements schema_migrate_membership_roles] s"

definition downgrade_organization_system :: "schema \<Rightarrow> ddl_result" where
  "downgrade_organization_system s = run_steps
     [run_statements schema_restore_membership_roles,
      swap_constraint (Sql ''uq_org_membership_org_user'') (Sql ''uq_org_member_org_user'') (Sql ''organization_memberships'')
        (Unique [(Sql ''organization_id''), (Sql ''user_id'')]),
      \<lambda>s. if has (sc_tables s) (Sql ''organization_memberships'') \<and> \<not> has (sc_tables s) (Sql ''organization_members'')
          then rename_table (Sql ''organization_memberships'') (Sql ''organization_members'') s else Inr s,
      run_statements [Drop_index (Sql ''ix_organizations_slug''), Drop_column (Sql ''organizations'') (Sql ''slug'')]] s"

section \<open>0005: provider service assignments\<close>

definition upgrade_provider_service_assignments :: "statement list" where
  "upgrade_provider_service_assignments =
   [Create_table (Sql ''provider_services'')
     [Column (Sql ''id'') SQL_Integer False None,
      Column (Sql ''provider_id'') SQL_Integer False None,
      Column (Sql ''service_id'') SQL_Integer False None,
      Column (Sql ''duration_minutes_override'') SQL_Integer True None,
      Column (Sql ''created_at'') SQL_DateTime False (Some (Sql ''now()'')),
      Column (Sql ''updated_at'') SQL_DateTime False (Some (Sql ''now()'')),
      CheckConstraint (Sql ''duration_minutes_override IS NULL OR duration_minutes_override > 0'') (Sql ''ck_provider_services_positive_duration_override''),
      ForeignKeyConstraint (Sql ''provider_services_provider_id_fkey'') [Sql ''provider_id''] (Sql ''providers'') [Sql ''id''] (Sql ''CASCADE''),
      ForeignKeyConstraint (Sql ''provider_services_service_id_fkey'') [Sql ''service_id''] (Sql ''services'') [Sql ''id''] (Sql ''CASCADE''),
      PrimaryKeyConstraint (Sql ''provider_services_pkey'') [Sql ''id''],
      UniqueConstraint [Sql ''provider_id'', Sql ''service_id''] (Sql ''uq_provider_services_provider_service'')],
    Create_index (Sql ''ix_provider_services_id'') (Sql ''provider_services'') [Sql ''id''] False,
    Create_index (Sql ''ix_provider_services_provider_id'') (Sql ''provider_services'') [Sql ''provider_id''] False,
    Create_index (Sql ''ix_provider_services_service_id'') (Sql ''provider_services'') [Sql ''service_id''] False]"

definition downgrade_provider_service_assignments :: "statement list" where
  "downgrade_provider_service_assignments =
   [Drop_index (Sql ''ix_provider_services_service_id''),
    Drop_index (Sql ''ix_provider_services_provider_id''),
    Drop_index (Sql ''ix_provider_services_id''),
    Drop_table (Sql ''provider_services'')]"

section \<open>0006: multi location support\<close>

definition upgrade_multi_location_support :: "statement list" where
  "upgrade_multi_location_support =
   [Create_table (Sql ''organization_locations'')
     [Column (Sql ''id'') SQL_Integer False None,
      Column (Sql ''organization_id'') SQL_Integer False None,
      Column (Sql ''name'') (SQL_String 255) False None,
      Column (Sql ''slug'') (SQL_String 255) False None,
      Column (Sql ''address_line_1'') (SQL_String 255) True None,
      Column (Sql ''address_line_2'') (SQL_String 255) True None,
      Column (Sql ''city'') (SQL_String 100) True None,
      Column (Sql ''region'') (SQL_String 100) True None,
      Column (Sql ''postal_code'') (SQL_String 32) True None,
      Column (Sql ''country'') (SQL_String 100) True None,
      Column (Sql ''timezone'') (SQL_String 64) True None,
      Column (Sql ''is_active'') SQL_Boolean False (Some (Sql ''true'')),
      Column (Sql ''created_at'') SQL_DateTime False (Some (Sql ''now()'')),
      Column (Sql ''updated_at'') SQL_DateTime False (Some (Sql ''now()'')),
      ForeignKeyConstraint (Sql ''organization_locations_organization_id_fkey'') [Sql ''organization_id''] (Sql ''organizations'') [Sql ''id''] (Sql ''CASCADE''),
      PrimaryKeyConstraint (Sql ''organization_locations_pkey'') [Sql ''id''],
      UniqueConstraint [Sql ''organization_id'', Sql ''slug''] (Sql ''uq_organization_locations_org_slug'')],
    Create_index (Sql ''ix_organization_locations_id'') (Sql ''organization_locations'') [Sql ''id''] False,
    Create_index (Sql ''ix_organization_locations_organization_id'') (Sql ''organization_locations'') [Sql ''organization_id''] False,
    Create_index (Sql ''ix_organization_locations_slug'') (Sql ''organization_locations'') [Sql ''slug''] False,
    Create_table (Sql ''provider_locations'')
     [Column (Sql ''id'') SQL_Integer False None,
      Column (Sql ''provider_id'') SQL_Integer False None,
      Column (Sql ''location_id'') SQL_Integer False None,
      Column (Sql ''created_at'') SQL_DateTime False (Some (Sql ''now()'')),
      Column (Sql ''updated_at'') SQL_DateTime False (Some (Sql ''now()'')),
      ForeignKeyConstraint (Sql ''provider_locations_provider_id_fkey'') [Sql ''provider_id''] (Sql ''providers'') [Sql ''id''] (Sql ''CASCADE''),
      ForeignKeyConstraint (Sql ''provider_locations_location_id_fkey'') [Sql ''location_id''] (Sql ''organization_locations'') [Sql ''id''] (Sql ''CASCADE''),
      PrimaryKeyConstraint (Sql ''provider_locations_pkey'') [Sql ''id''],
      UniqueConstraint [Sql ''provider_id'', Sql ''location_id''] (Sql ''uq_provider_locations_provider_location'')],
    Create_index (Sql ''ix_provider_locations_id'') (Sql ''provider_locations'') [Sql ''id''] False,
    Create_index (Sql ''ix_provider_locations_provider_id'') (Sql ''provider_locations'') [Sql ''provider_id''] False,
    Create_index (Sql ''ix_provider_locations_location_id'') (Sql ''provider_locations'') [Sql ''location_id''] False,
    Create_table (Sql ''service_locations'')
     [Column (Sql ''id'') SQL_Integer False None,
      Column (Sql ''service_id'') SQL_Integer False None,
      Column (Sql ''location_id'') SQL_Integer False None,
      Column (Sql ''created_at'') SQL_DateTime False (Some (Sql ''now()'')),
      Column (Sql ''updated_at'') SQL_DateTime False (Some (Sql ''now()'')),
      ForeignKeyConstraint (Sql ''service_locations_service_id_fkey'') [Sql ''service_id''] (Sql ''services'') [Sql ''id''] (Sql ''CASCADE''),
      ForeignKeyConstraint (Sql ''service_locations_location_id_fkey'') [Sql ''location_id''] (Sql ''organization_locations'') [Sql ''id''] (Sql ''CASCADE''),
      PrimaryKeyConstraint (Sql ''service_locations_pkey'') [Sql ''id''],
      UniqueConstraint [Sql ''service_id'', Sql ''location_id''] (Sql ''uq_service_locations_service_location'')],
    Create_index (Sql ''ix_service_locations_id'') (Sql ''service_locations'') [Sql ''id''] False,
    Create_index (Sql ''ix_service_locations_service_id'') (Sql ''service_locations'') [Sql ''service_id''] False,
    Create_index (Sql ''ix_service_locations_location_id'') (Sql ''service_locations'') [Sql ''location_id''] False,
    Add_column (Sql ''appointments'') (Sql ''location_id'') SQL_Integer True None,
    Add_constraint (Sql ''fk_appointments_location_id_organization_locations'') (Sql ''appointments'') (Foreign_key [Sql ''location_id''] (Sql ''organization_locations'') [Sql ''id''] (Sql ''RESTRICT'')),
    Create_index (Sql ''ix_appointments_location_id'') (Sql ''appointments'') [Sql ''location_id''] False,
    Alter_column (Sql ''appointments'') (Sql ''location_id'') False None]"

definition downgrade_multi_location_support :: "statement list" where
  "downgrade_multi_location_support =
   [Drop_index (Sql ''ix_appointments_location_id''),
    Drop_constraint (Sql ''fk_appointments_location_id_organization_locations'') (Sql ''appointments''),
    Drop_column (Sql ''appointments'') (Sql ''location_id''),
    Drop_index (Sql ''ix_service_locations_location_id''),
    Drop_index (Sql ''ix_service_locations_service_id''),
    Drop_index (Sql ''ix_service_locations_id''),
    Drop_table (Sql ''service_locations''),
    Drop_index (Sql ''ix_provider_locations_location_id''),
    Drop_index (Sql ''ix_provider_locations_provider_id''),
    Drop_index (Sql ''ix_provider_locations_id''),
    Drop_table (Sql ''provider_locations''),
    Drop_index (Sql ''ix_organization_locations_slug''),
    Drop_index (Sql ''ix_organization_locations_organization_id''),
    Drop_index (Sql ''ix_organization_locations_id''),
    Drop_table (Sql ''organization_locations'')]"

section \<open>0007: customer self-service booking access\<close>

definition upgrade_customer_booking_access :: "statement list" where
  "upgrade_customer_booking_access =
   [Add_column (Sql ''appointments'') (Sql ''booking_reference'') (SQL_String 24) True None,
    Add_column (Sql ''appointments'') (Sql ''booking_access_token'') (SQL_String 128) True None,
    Alter_column (Sql ''appointments'') (Sql ''booking_reference'') False None,
    Alter_column (Sql ''appointments'') (Sql ''booking_access_token'') False None,
    Create_index (Sql ''ix_appointments_booking_reference'') (Sql ''appointments'') [Sql ''booking_reference''] True,
    Create_index (Sql ''ix_appointments_booking_access_token'') (Sql ''appointments'') [Sql ''booking_access_token''] True]"

definition downgrade_customer_booking_access :: "statement list" where
  "downgrade_customer_booking_access =
   [Drop_index (Sql ''ix_appointments_booking_access_token''),
    Drop_index (Sql ''ix_appointments_booking_reference''),
    Drop_column (Sql ''appointments'') (Sql ''booking_access_token''),
    Drop_column (Sql ''appointments'') (Sql ''booking_reference'')]"

section \<open>0008: payment foundation\<close>

definition upgrade_payment_foundation :: "statement list" where
  "upgrade_payment_foundation =
   [Create_type_if_missing (Sql ''payment_status'') [Sql ''pending'', Sql ''requires_action'', Sql ''succeeded'', Sql ''failed'', Sql ''canceled'', Sql ''refunded''],
    Create_type_if_missing (Sql ''payment_type'') [Sql ''full'', Sql ''deposit''],
    Add_column (Sql ''services'') (Sql ''requires_payment'') SQL_Boolean False (Some (Sql ''false'')),
    Add_column (Sql ''services'') (Sql ''payment_type'') (SQL_Enum_ref (Sql ''payment_type'')) False (Some (quoted ''full'')),
    Add_column (Sql ''services'') (Sql ''deposit_amount_minor'') SQL_Integer True None,
    Add_constraint (Sql ''ck_services_positive_deposit_amount_minor'') (Sql ''services'') (Check (Sql ''deposit_amount_minor IS NULL OR deposit_amount_minor > 0'')),
    Add_constraint (Sql ''ck_services_deposit_requires_amount'') (Sql ''services'') (Check (Sql ''(payment_type != 'deposit') OR deposit_amount_minor IS NOT NULL'')),
    Create_table (Sql ''payments'')
     [Column (Sql ''id'') SQL_Integer False None,
      Column (Sql ''appointment_id'') SQL_Integer False None,
      Column (Sql ''organization_id'') SQL_Integer False None,
      Column (Sql ''amount_minor'') SQL_Integer False None,
      Column (Sql ''currency'') (SQL_String 3) False None,
      Column (Sql ''provider_name'') (SQL_String 32) False None,
      Column (Sql ''provider_payment_intent_id'') (SQL_String 255) True None,
      Column (Sql ''provider_checkout_session_id'') (SQL_String 255) True None,
      Column (Sql ''provider_checkout_url'') (SQL_String 1024) True None,
      Column (Sql ''status'') (SQL_Enum_ref (Sql ''payment_status'')) False None,
      Column (Sql ''payment_type'') (SQL_Enum_ref (Sql ''payment_type'')) False None,
      Column (Sql ''paid_at'') SQL_DateTime True None,
      Column (Sql ''created_at'') SQL_DateTime False (Some (Sql ''now()'')),
      Column (Sql ''updated_at'') SQL_DateTime False (Some (Sql ''now()'')),
      CheckConstraint (Sql ''amount_minor >= 0'') (Sql ''ck_payments_non_negative_amount_minor''),
      ForeignKeyConstraint (Sql ''payments_appointment_id_fkey'') [Sql ''appointment_id''] (Sql ''appointments'') [Sql ''id''] (Sql ''CASCADE''),
      ForeignKeyConstraint (Sql ''payments_organization_id_fkey'') [Sql ''organization_id''] (Sql ''organizations'') [Sql ''id''] (Sql ''CASCADE''),
      PrimaryKeyConstraint (Sql ''payments_pkey'') [Sql ''id'']],
    Create_index (Sql ''ix_payments_id'') (Sql ''payments'') [Sql ''id''] False,
    Create_index (Sql ''ix_payments_appointment_id'') (Sql ''payments'') [Sql ''appointment_id''] False,
    Create_index (Sql ''ix_payments_organization_id'') (Sql ''payments'') [Sql ''organization_id''] False,
    Create_index (Sql ''ix_payments_status'') (Sql ''payments'') [Sql ''status''] False,
    Create_index (Sql ''ix_payments_provider_name'') (Sql ''payments'') [Sql ''provider_name''] False,
    Create_index (Sql ''ix_payments_provider_checkout_session_id'') (Sql ''payments'') [Sql ''provider_checkout_session_id''] True,
    Create_index (Sql ''ix_payments_provider_payment_intent_id'') (Sql ''payments'') [Sql ''provider_payment_intent_id''] True]"

definition downgrade_payment_foundation :: "statement list" where
  "downgrade_payment_foundation =
   [Drop_index (Sql ''ix_payments_provider_payment_intent_id''),
    Drop_index (Sql ''ix_payments_provider_checkout_session_id''),
    Drop_index (Sql ''ix_payments_provider_name''),
    Drop_index (Sql ''ix_payments_status''),
    Drop_index (Sql ''ix_payments_organization_id''),
    Drop_index (Sql ''ix_payments_appointment_id''),
    Drop_index (Sql ''ix_payments_id''),
    Drop_table (Sql ''payments''),
    Drop_constraint (Sql ''ck_services_deposit_requires_amount'') (Sql ''services''),
    Drop_constraint (Sql ''ck_services_positive_deposit_amount_minor'') (Sql ''services''),
    Drop_column (Sql ''services'') (Sql ''deposit_amount_minor''),
    Drop_column (Sql ''services'') (Sql ''payment_type''),
    Drop_column (Sql ''services'') (Sql ''requires_payment''),
    Drop_type_if_exists (Sql ''payment_status''),
    Drop_type_if_exists (Sql ''payment_type'')]"

section \<open>0009: pending payment enforcement\<close>

definition upgrade_pending_payment_enforcement :: "statement list" where
  "upgrade_pending_payment_enforcement =
   [Add_type_value (Sql ''appointment_status'') (Sql ''PENDING_PAYMENT''),
    Drop_constraint_if_exists (Sql ''ex_appointments_provider_no_overlap'') (Sql ''appointments''),
    Add_constraint (Sql ''ex_appointments_provider_no_overlap'') (Sql ''appointments'') (No_overlap [Sql ''provider_id'', Sql ''start_datetime'', Sql ''end_datetime''] [Sql ''PENDING'', Sql ''PENDING_PAYMENT'', Sql ''CONFIRMED''])]"

definition downgrade_pending_payment_enforcement :: "statement list" where
  "downgrade_pending_payment_enforcement =
   [Drop_constraint_if_exists (Sql ''ex_appointments_provider_no_overlap'') (Sql ''appointments''),
    Add_constraint (Sql ''ex_appointments_provider_no_overlap'') (Sql ''appointments'') (No_overlap [Sql ''provider_id'', Sql ''start_datetime'', Sql ''end_datetime''] [Sql ''PENDING'', Sql ''CONFIRMED''])]"

section \<open>0010: refunds and cancellation policies\<close>

definition upgrade_refunds_and_cancellation_policies :: "statement list" where
  "upgrade_refunds_and_cancellation_policies =
   [Create_type_if_missing (Sql ''cancellation_policy_type'') [Sql ''flexible'', Sql ''moderate'', Sql ''strict''],
    Create_type_if_missing (Sql ''refund_status'') [Sql ''pending'', Sql ''succeeded'', Sql ''failed''],
    Add_column (Sql ''services'') (Sql ''cancellation_policy_type'') (SQL_Enum_ref (Sql ''cancellation_policy_type'')) False (Some (quoted ''flexible'')),
    Add_column (Sql ''services'') (Sql ''cancellation_window_hours'') SQL_Integer False (Some (Sql ''24'')),
    Add_constraint (Sql ''ck_services_non_negative_cancellation_window_hours'') (Sql ''services'') (Check (Sql ''cancellation_window_hours >= 0'')),
    Create_table (Sql ''refunds'')
     [Column (Sql ''id'') SQL_Integer False None,
      Column (Sql ''payment_id'') SQL_Integer False None,
      Column (Sql ''amount_minor'') SQL_Integer False None,
      Column (Sql ''currency'') (SQL_String 3) False None,
      Column (Sql ''provider_refund_id'') (SQL_String 255) True None,
      Column (Sql ''status'') (SQL_Enum_ref (Sql ''refund_status'')) False None,
      Column (Sql ''processed_at'') SQL_DateTime True None,
      Column (Sql ''created_at'') SQL_DateTime False (Some (Sql ''now()'')),
      Column (Sql ''updated_at'') SQL_DateTime False (Some (Sql ''now()'')),
      CheckConstraint (Sql ''amount_minor >= 0'') (Sql ''ck_refunds_non_negative_amount_minor''),
      ForeignKeyConstraint (Sql ''refunds_payment_id_fkey'') [Sql ''payment_id''] (Sql ''payments'') [Sql ''id''] (Sql ''CASCADE''),
      PrimaryKeyConstraint (Sql ''refunds_pkey'') [Sql ''id'']],
    Create_index (Sql ''ix_refunds_id'') (Sql ''refunds'') [Sql ''id''] False,
    Create_index (Sql ''ix_refunds_payment_id'') (Sql ''refunds'') [Sql ''payment_id''] False,
    Create_index (Sql ''ix_refunds_status'') (Sql ''refunds'') [Sql ''status''] False,
    Create_index (Sql ''ix_refunds_provider_refund_id'') (Sql ''refunds'') [Sql ''provider_refund_id''] False]"

definition downgrade_refunds_and_cancellation_policies :: "statement list" where
  "downgrade_refunds_and_cancellation_policies =
   [Drop_index (Sql ''ix_refunds_provider_refund_id''),
    Drop_index (Sql ''ix_refunds_status''),
    Drop_index (Sql ''ix_refunds_payment_id''),
    Drop_index (Sql ''ix_refunds_id''),
    Drop_table (Sql ''refunds''),
    Drop_constraint (Sql ''ck_services_non_negative_cancellation_window_hours'') (Sql ''services''),
    Drop_column (Sql ''services'') (Sql ''cancellation_window_hours''),
    Drop_column (Sql ''services'') (Sql ''cancellation_policy_type''),
    Drop_type_if_exists (Sql ''refund_status''),
    Drop_type_if_exists (Sql ''cancellation_policy_type'')]"

section \<open>0011: platform commissions and payouts\<close>

definition upgrade_platform_commissions_and_payouts :: "statement list" where
  "upgrade_platform_commissions_and_payouts =
   [Create_type_if_missing (Sql ''commission_type'') [Sql ''percentage'', Sql ''fixed''],
    Create_type_if_missing (Sql ''provider_earning_status'') [Sql ''pending'', Sql ''ready_for_payout'', Sql ''paid_out''],
    Create_type_if_missing (Sql ''payout_status'') [Sql ''pending'', Sql ''processing'', Sql ''completed'', Sql ''failed''],
    Add_column (Sql ''organizations'') (Sql ''commission_type'') (SQL_Enum_ref (Sql ''commission_type'')) False (Some (quoted ''percentage'')),
    Add_column (Sql ''organizations'') (Sql ''commission_percentage'') (SQL_Numeric 5 4) False (Some (Sql ''0.10'')),
    Add_column (Sql ''organizations'') (Sql ''commission_fixed_minor'') SQL_Integer False (Some (Sql ''0'')),
    Add_constraint (Sql ''ck_organizations_commission_percentage_range'') (Sql ''organizations'') (Check (Sql ''commission_percentage >= 0 AND commission_percentage <= 1'')),
    Add_constraint (Sql ''ck_organizations_commission_fixed_non_negative'') (Sql ''organizations'') (Check (Sql ''commission_fixed_minor >= 0'')),
    Create_table (Sql ''payouts'')
     [Column (Sql ''id'') SQL_Integer False None,
      Column (Sql ''provider_id'') SQL_Integer False None,
      Column (Sql ''total_amount_minor'') SQL_Integer False None,
      Column (Sql ''currency'') (SQL_String 3) False None,
      Column (Sql ''status'') (SQL_Enum_ref (Sql ''payout_status'')) False (Some (quoted ''pending'')),
      Column (Sql ''provider_payout_reference'') (SQL_String 255) True None,
      Column (Sql ''processed_at'') SQL_DateTime True None,
      Column (Sql ''created_at'') SQL_DateTime False (Some (Sql ''now()'')),
      Column (Sql ''updated_at'') SQL_DateTime False (Some (Sql ''now()'')),
      CheckConstraint (Sql ''total_amount_minor >= 0'') (Sql ''ck_payouts_non_negative_total_amount_minor''),
      ForeignKeyConstraint (Sql ''payouts_provider_id_fkey'') [Sql ''provider_id''] (Sql ''providers'') [Sql ''id''] (Sql ''CASCADE''),
      PrimaryKeyConstraint (Sql ''payouts_pkey'') [Sql ''id'']],
    Create_index (Sql ''ix_payouts_id'') (Sql ''payouts'') [Sql ''id''] False,
    Create_index (Sql ''ix_payouts_provider_id'') (Sql ''payouts'') [Sql ''provider_id''] False,
    Create_index (Sql ''ix_payouts_status'') (Sql ''payouts'') [Sql ''status''] False,
    Create_index (Sql ''ix_payouts_provider_payout_reference'') (Sql ''payouts'') [Sql ''provider_payout_reference''] False,
    Create_table (Sql ''provider_earnings'')
     [Column (Sql ''id'') SQL_Integer False None,
      Column (Sql ''provider_id'') SQL_Integer False None,
      Column (Sql ''appointment_id'') SQL_Integer False None,
      Column (Sql ''payment_id'') SQL_Integer False None,
      Column (Sql ''payout_id'') SQL_Integer True None,
      Column (Sql ''gross_amount_minor'') SQL_Integer False None,
      Column (Sql ''platform_fee_minor'') SQL_Integer False None,
      Column (Sql ''provider_amount_minor'') SQL_Integer False None,
      Column (Sql ''refunded_amount_minor'') SQL_Integer False (Some (Sql ''0'')),
      Column (Sql ''adjustment_pending_minor'') SQL_Integer False (Some (Sql ''0'')),
      Column (Sql ''currency'') (SQL_String 3) False None,
      Column (Sql ''status'') (SQL_Enum_ref (Sql ''provider_earning_status'')) False (Some (quoted ''pending'')),
      Column (Sql ''created_at'') SQL_DateTime False (Some (Sql ''now()'')),
      Column (Sql ''updated_at'') SQL_DateTime False (Some (Sql ''now()'')),
      CheckConstraint (Sql ''gross_amount_minor >= 0'') (Sql ''ck_provider_earnings_non_negative_gross''),
      CheckConstraint (Sql ''platform_fee_minor >= 0'') (Sql ''ck_provider_earnings_non_negative_platform_fee''),
      CheckConstraint (Sql ''provider_amount_minor >= 0'') (Sql ''ck_provider_earnings_non_negative_provider_amount''),
      CheckConstraint (Sql ''refunded_amount_minor >= 0'') (Sql ''ck_provider_earnings_non_negative_refunded_amount''),
      CheckConstraint (Sql ''adjustment_pending_minor >= 0'') (Sql ''ck_provider_earnings_non_negative_adjustment_pending''),
      CheckConstraint (Sql ''platform_fee_minor + provider_amount_minor <= gross_amount_minor'') (Sql ''ck_provider_earnings_provider_plus_fee_lte_gross''),
      ForeignKeyConstraint (Sql ''provider_earnings_appointment_id_fkey'') [Sql ''appointment_id''] (Sql ''appointments'') [Sql ''id''] (Sql ''CASCADE''),
      ForeignKeyConstraint (Sql ''provider_earnings_payment_id_fkey'') [Sql ''payment_id''] (Sql ''payments'') [Sql ''id''] (Sql ''CASCADE''),
      ForeignKeyConstraint (Sql ''provider_earnings_provider_id_fkey'') [Sql ''provider_id''] (Sql ''providers'') [Sql ''id''] (Sql ''CASCADE''),
      ForeignKeyConstraint (Sql ''provider_earnings_payout_id_fkey'') [Sql ''payout_id''] (Sql ''payouts'') [Sql ''id''] (Sql ''SET NULL''),
      PrimaryKeyConstraint (Sql ''provider_earnings_pkey'') [Sql ''id''],
      UniqueConstraint [Sql ''payment_id''] (Sql ''uq_provider_earnings_payment_id'')],
    Create_index (Sql ''ix_provider_earnings_id'') (Sql ''provider_earnings'') [Sql ''id''] False,
    Create_index (Sql ''ix_provider_earnings_provider_id'') (Sql ''provider_earnings'') [Sql ''provider_id''] False,
    Create_index (Sql ''ix_provider_earnings_appointment_id'') (Sql ''provider_earnings'') [Sql ''appointment_id''] False,
    Create_index (Sql ''ix_provider_earnings_payment_id'') (Sql ''provider_earnings'') [Sql ''payment_id''] False,
    Create_index (Sql ''ix_provider_earnings_payout_id'') (Sql ''provider_earnings'') [Sql ''payout_id''] False,
    Create_index (Sql ''ix_provider_earnings_status'') (Sql ''provider_earnings'') [Sql ''status''] False]"

definition downgrade_platform_commissions_and_payouts :: "statement list" where
  "downgrade_platform_commissions_and_payouts =
   [Drop_index (Sql ''ix_provider_earnings_status''),
    Drop_index (Sql ''ix_provider_earnings_payout_id''),
    Drop_index (Sql ''ix_provider_earnings_payment_id''),
    Drop_index (Sql ''ix_provider_earnings_appointment_id''),
    Drop_index (Sql ''ix_provider_earnings_provider_id''),
    Drop_index (Sql ''ix_provider_earnings_id''),
    Drop_table (Sql ''provider_earnings''),
    Drop_index (Sql ''ix_payouts_provider_payout_reference''),
    Drop_index (Sql ''ix_payouts_status''),
    Drop_index (Sql ''ix_payouts_provider_id''),
    Drop_index (Sql ''ix_payouts_id''),
    Drop_table (Sql ''payouts''),
    Drop_constraint (Sql ''ck_organizations_commission_fixed_non_negative'') (Sql ''organizations''),
    Drop_constraint (Sql ''ck_organizations_commission_percentage_range'') (Sql ''organizations''),
    Drop_column (Sql ''organizations'') (Sql ''commission_fixed_minor''),
    Drop_column (Sql ''organizations'') (Sql ''commission_percentage''),
    Drop_column (Sql ''organizations'') (Sql ''commission_type''),
    Drop_type_if_exists (Sql ''payout_status''),
    Drop_type_if_exists (Sql ''provider_earning_status''),
    Drop_type_if_exists (Sql ''commission_type'')]"

section \<open>0012: idempotency keys table\<close>

definition upgrade_idempotency_keys :: "statement list" where
  "upgrade_idempotency_keys =
   [Create_table (Sql ''idempotency_keys'')
     [Column (Sql ''id'') SQL_Integer False None,
      Column (Sql ''idempotency_key'') (SQL_String 255) False None,
      Column (Sql ''scope'') (SQL_String 255) False None,
      Column (Sql ''request_hash'') (SQL_String 64) False None,
      Column (Sql ''response_status_code'') SQL_Integer True None,
      Column (Sql ''response_body_json'') SQL_JSON True None,
      Column (Sql ''resource_type'') (SQL_String 64) True None,
      Column (Sql ''resource_id'') SQL_Integer True None,
      Column (Sql ''created_at'') SQL_DateTime False (Some (Sql ''now()'')),
      Column (Sql ''updated_at'') SQL_DateTime False (Some (Sql ''now()'')),
      PrimaryKeyConstraint (Sql ''idempotency_keys_pkey'') [Sql ''id''],
      UniqueConstraint [Sql ''idempotency_key'', Sql ''scope''] (Sql ''uq_idempotency_keys_scope_key'')],
    Create_index (Sql ''ix_idempotency_keys_id'') (Sql ''idempotency_keys'') [Sql ''id''] False,
    Create_index (Sql ''ix_idempotency_keys_key'') (Sql ''idempotency_keys'') [Sql ''idempotency_key''] False,
    Create_index (Sql ''ix_idempotency_keys_scope'') (Sql ''idempotency_keys'') [Sql ''scope''] False]"

definition downgrade_idempotency_keys :: "statement list" where
  "downgrade_idempotency_keys =
   [Drop_index (Sql ''ix_idempotency_keys_scope''),
    Drop_index (Sql ''ix_idempotency_keys_key''),
    Drop_index (Sql ''ix_idempotency_keys_id''),
    Drop_table (Sql ''idempotency_keys'')]"

section \<open>0013: domain events table\<close>

definition upgrade_domain_events :: "statement list" where
  "upgrade_domain_events =
   [Create_table (Sql ''domain_events'')
     [Column (Sql ''id'') SQL_Integer False None,
      Column (Sql ''event_type'') (SQL_String 100) False None,
      Column (Sql ''entity_type'') (SQL_String 64) True None,
      Column (Sql ''entity_id'') SQL_Integer True None,
      Column (Sql ''organization_id'') SQL_Integer True None,
      Column (Sql ''actor_type'') (SQL_String 32) False (Some (quoted ''system'')),
      Column (Sql ''actor_id'') SQL_Integer True None,
      Column (Sql ''request_id'') (SQL_String 128) True None,
      Column (Sql ''related_payment_id'') SQL_Integer True None,
      Column (Sql ''related_appointment_id'') SQL_Integer True None,
      Column (Sql ''related_payout_id'') SQL_Integer True None,
      Column (Sql ''status'') (SQL_String 16) False (Some (quoted ''info'')),
      Column (Sql ''payload_json'') SQL_JSON True None,
      Column (Sql ''created_at'') SQL_DateTime False (Some (Sql ''now()'')),
      ForeignKeyConstraint (Sql ''domain_events_organization_id_fkey'') [Sql ''organization_id''] (Sql ''organizations'') [Sql ''id''] (Sql ''SET NULL''),
      ForeignKeyConstraint (Sql ''domain_events_related_payment_id_fkey'') [Sql ''related_payment_id''] (Sql ''payments'') [Sql ''id''] (Sql ''SET NULL''),
      ForeignKeyConstraint (Sql ''domain_events_related_appointment_id_fkey'') [Sql ''related_appointment_id''] (Sql ''appointments'') [Sql ''id''] (Sql ''SET NULL''),
      ForeignKeyConstraint (Sql ''domain_events_related_payout_id_fkey'') [Sql ''related_payout_id''] (Sql ''payouts'') [Sql ''id''] (Sql ''SET NULL''),
      PrimaryKeyConstraint (Sql ''domain_events_pkey'') [Sql ''id'']],
    Create_index (Sql ''ix_domain_events_id'') (Sql ''domain_events'') [Sql ''id''] False,
    Create_index (Sql ''ix_domain_events_event_type'') (Sql ''domain_events'') [Sql ''event_type''] False,
    Create_index (Sql ''ix_domain_events_organization_id'') (Sql ''domain_events'') [Sql ''organization_id''] False,
    Create_index (Sql ''ix_domain_events_entity_type'') (Sql ''domain_events'') [Sql ''entity_type''] False,
    Create_index (Sql ''ix_domain_events_entity_id'') (Sql ''domain_events'') [Sql ''entity_id''] False,
    Create_index (Sql ''ix_domain_events_entity_lookup'') (Sql ''domain_events'') [Sql ''entity_type'', Sql ''entity_id''] False,
    Create_index (Sql ''ix_domain_events_status'') (Sql ''domain_events'') [Sql ''status''] False,
    Create_index (Sql ''ix_domain_events_created_at'') (Sql ''domain_events'') [Sql ''created_at''] False,
    Create_index (Sql ''ix_domain_events_request_id'') (Sql ''domain_events'') [Sql ''request_id''] False,
    Create_index (Sql ''ix_domain_events_related_payment_id'') (Sql ''domain_events'') [Sql ''related_payment_id''] False,
    Create_index (Sql ''ix_domain_events_related_appointment_id'') (Sql ''domain_events'') [Sql ''related_appointment_id''] False,
    Create_index (Sql ''ix_domain_events_related_payout_id'') (Sql ''domain_events'') [Sql ''related_payout_id''] False]"

definition downgrade_domain_events :: "statement list" where
  "downgrade_domain_events =
   [Drop_index (Sql ''ix_domain_events_related_payout_id''),
    Drop_index (Sql ''ix_domain_events_related_appointment_id''),
    Drop_index (Sql ''ix_domain_events_related_payment_id''),
    Drop_index (Sql ''ix_domain_events_request_id''),
    Drop_index (Sql ''ix_domain_events_created_at''),
    Drop_index (Sql ''ix_domain_events_status''),
    Drop_index (Sql ''ix_domain_events_entity_lookup''),
    Drop_index (Sql ''ix_domain_events_entity_id''),
    Drop_index (Sql ''ix_domain_events_entity_type''),
    Drop_index (Sql ''ix_domain_events_organization_id''),
    Drop_index (Sql ''ix_domain_events_event_type''),
    Drop_index (Sql ''ix_domain_events_id''),
    Drop_table (Sql ''domain_events'')]"

section \<open>0014: whatsapp conversation state and message dedup\<close>

definition upgrade_whatsapp_conversation_state_and_message_dedup :: "statement list" where
  "upgrade_whatsapp_conversation_state_and_message_dedup =
   [Add_column (Sql ''conversation_states'') (Sql ''external_user_id'') (SQL_String 255) True None,
    Add_column (Sql ''conversation_states'') (Sql ''selected_organization_id'') SQL_Integer True None,
    Add_column (Sql ''conversation_states'') (Sql ''selected_provider_id'') SQL_Integer True None,
    Add_column (Sql ''conversation_states'') (Sql ''selected_service_id'') SQL_Integer True None,
    Add_column (Sql ''conversation_states'') (Sql ''selected_location_id'') SQL_Integer True None,
    Add_column (Sql ''conversation_states'') (Sql ''selected_slot_start'') SQL_DateTime True None,
    Add_column (Sql ''conversation_states'') (Sql ''last_interaction_at'') SQL_DateTime True None,
    Add_constraint (Sql ''fk_conversation_states_selected_organization'') (Sql ''conversation_states'') (Foreign_key [Sql ''selected_organization_id''] (Sql ''organizations'') [Sql ''id''] (Sql ''SET NULL'')),
    Add_constraint (Sql ''fk_conversation_states_selected_provider'') (Sql ''conversation_states'') (Foreign_key [Sql ''selected_provider_id''] (Sql ''providers'') [Sql ''id''] (Sql ''SET NULL'')),
    Add_constraint (Sql ''fk_conversation_states_selected_service'') (Sql ''conversation_states'') (Foreign_key [Sql ''selected_service_id''] (Sql ''services'') [Sql ''id''] (Sql ''SET NULL'')),
    Add_constraint (Sql ''fk_conversation_states_selected_location'') (Sql ''conversation_states'') (Foreign_key [Sql ''selected_location_id''] (Sql ''organization_locations'') [Sql ''id''] (Sql ''SET NULL'')),
    Alter_column (Sql ''conversation_states'') (Sql ''last_interaction_at'') False (Some (Sql ''CURRENT_TIMESTAMP'')),
    Create_index (Sql ''ix_conversation_states_external_user_id'') (Sql ''conversation_states'') [Sql ''external_user_id''] False,
    Create_index (Sql ''ix_conversation_states_selected_organization_id'') (Sql ''conversation_states'') [Sql ''selected_organization_id''] False,
    Create_index (Sql ''ix_conversation_states_selected_provider_id'') (Sql ''conversation_states'') [Sql ''selected_provider_id''] False,
    Create_index (Sql ''ix_conversation_states_selected_service_id'') (Sql ''conversation_states'') [Sql ''selected_service_id''] False,
    Create_index (Sql ''ix_conversation_states_selected_location_id'') (Sql ''conversation_states'') [Sql ''selected_location_id''] False,
    Create_index (Sql ''ix_conversation_states_last_interaction_at'') (Sql ''conversation_states'') [Sql ''last_interaction_at''] False,
    Add_constraint (Sql ''uq_message_logs_channel_direction_external'') (Sql ''message_logs'') (Unique [Sql ''channel'', Sql ''direction'', Sql ''external_message_id''])]"

definition downgrade_whatsapp_conversation_state_and_message_dedup :: "statement list" where
  "downgrade_whatsapp_conversation_state_and_message_dedup =
   [Drop_constraint (Sql ''uq_message_logs_channel_direction_external'') (Sql ''message_logs''),
    Drop_index (Sql ''ix_conversation_states_last_interaction_at''),
    Drop_index (Sql ''ix_conversation_states_selected_location_id''),
    Drop_index (Sql ''ix_conversation_states_selected_service_id''),
    Drop_index (Sql ''ix_conversation_states_selected_provider_id''),
    Drop_index (Sql ''ix_conversation_states_selected_organization_id''),
    Drop_index (Sql ''ix_conversation_states_external_user_id''),
    Drop_constraint (Sql ''fk_conversation_states_selected_location'') (Sql ''conversation_states''),
    Drop_constraint (Sql ''fk_conversation_states_selected_service'') (Sql ''conversation_states''),
    Drop_constraint (Sql ''fk_conversation_states_selected_provider'') (Sql ''conversation_states''),
    Drop_constraint (Sql ''fk_conversation_states_selected_organization'') (Sql ''conversation_states''),
    Drop_column (Sql ''conversation_states'') (Sql ''last_interaction_at''),
    Drop_column (Sql ''conversation_states'') (Sql ''selected_slot_start''),
    Drop_column (Sql ''conversation_states'') (Sql ''selected_location_id''),
    Drop_column (Sql ''conversation_states'') (Sql ''selected_service_id''),
    Drop_column (Sql ''conversation_states'') (Sql ''selected_provider_id''),
    Drop_column (Sql ''conversation_states'') (Sql ''selected_organization_id''),
    Drop_column (Sql ''conversation_states'') (Sql ''external_user_id'')]"

section \<open>The chain of revisions\<close>

definition revisions :: "((schema \<Rightarrow> ddl_result) \<times> (schema \<Rightarrow> ddl_result)) list" where
  "revisions =
    [(run_statements upgrade_initial, run_statements downgrade_initial),
     (run_statements upgrade_provider_owned_services, run_statements downgrade_provider_owned_services),
     (run_statements upgrade_provider_date_overrides, run_statements downgrade_provider_date_overrides),
     (upgrade_organization_system, downgrade_organization_system),
     (run_statements upgrade_provider_service_assignments, run_statements downgrade_provider_service_assignments),
     (run_statements upgrade_multi_location_support, run_statements downgrade_multi_location_support),
     (run_statements upgrade_customer_booking_access, run_statements downgrade_customer_booking_access),
     (run_statements upgrade_payment_foundation, run_statements downgrade_payment_foundation),
     (run_statements upgrade_pending_payment_enforcement, run_statements downgrade_pending_payment_enforcement),
     (run_statements upgrade_refunds_and_cancellation_policies, run_statements downgrade_refunds_and_cancellation_policies),
     (run_statements upgrade_platform_commissions_and_payouts, run_statements downgrade_platform_commissions_and_payouts),
     (run_statements upgrade_idempotency_keys, run_statements downgrade_idempotency_keys),
     (run_statements upgrade_domain_events, run_statements downgrade_domain_events),
     (run_statements upgrade_whatsapp_conversation_state_and_message_dedup, run_statements downgrade_whatsapp_conversation_state_and_message_dedup)]"

end
