(* ===== verification/Declared_Schema.thy ===== *)
theory Declared_Schema
  imports Table_Statements
begin

text \<open>
  The tables as the classes under \<^verbatim>\<open>app/models\<close> declare them to the ORM: columns, keys, constraints
  and indexes.  Defaults that Python computes, and relationships, are left out.  The names that the
  ORM makes up for keys and indexes (the index on a column is \<^verbatim>\<open>ix\<close>, the table and the column) are
  written out, and a column that refers to another one has its type.
\<close>

datatype mapped_option = Primary_column sql | Indexed sql | Unique_value | References sql sql sql

datatype mapped_column = Mapped sql sql_type bool "mapped_option list"

datatype table_arg = Item table_item | Index sql "sql list"

record model =
  mdl_table :: sql
  mdl_columns :: "mapped_column list"
  mdl_args :: "table_arg list"

definition timestamp_mixin :: "mapped_column list" where
  "timestamp_mixin =
     [Mapped (Sql ''created_at'') SQL_DateTime False [],
      Mapped (Sql ''updated_at'') SQL_DateTime False []]"

definition model_appointments :: model where
  "model_appointments = \<lparr>mdl_table = Sql ''appointments'',
     mdl_columns =
     [Mapped (Sql ''id'') SQL_Integer False [Primary_column (Sql ''appointments_pkey''), Indexed (Sql ''ix_appointments_id'')],
      Mapped (Sql ''booking_reference'') (SQL_String 24) False [Indexed (Sql ''ix_appointments_booking_reference''), Unique_value],
      Mapped (Sql ''booking_access_token'') (SQL_String 128) False [Indexed (Sql ''ix_appointments_booking_access_token''), Unique_value],
      Mapped (Sql ''organization_id'') SQL_Integer False [References (Sql ''organizations'') (Sql ''id'') (Sql ''CASCADE''), Indexed (Sql ''ix_appointments_organization_id'')],
      Mapped (Sql ''location_id'') SQL_Integer False [References (Sql ''organization_locations'') (Sql ''id'') (Sql ''RESTRICT''), Indexed (Sql ''ix_appointments_location_id'')],
      Mapped (Sql ''provider_id'') SQL_Integer False [References (Sql ''providers'') (Sql ''id'') (Sql ''CASCADE''), Indexed (Sql ''ix_appointments_provider_id'')],
      Mapped (Sql ''service_id'') SQL_Integer True [References (Sql ''services'') (Sql ''id'') (Sql ''SET NULL''), Indexed (Sql ''ix_appointments_service_id'')],
      Mapped (Sql ''customer_id'') SQL_Integer False [References (Sql ''customers'') (Sql ''id'') (Sql ''CASCADE''), Indexed (Sql ''ix_appointments_customer_id'')],
      Mapped (Sql ''start_datetime'') SQL_DateTime False [],
      Mapped (Sql ''end_datetime'') SQL_DateTime False [],
      Mapped (Sql ''status'') (SQL_Enum [Sql ''PENDING'', Sql ''PENDING_PAYMENT'', Sql ''CONFIRMED'', Sql ''CANCELLED'', Sql ''COMPLETED'', Sql ''NO_SHOW''] (Sql ''appointment_status'')) False [Indexed (Sql ''ix_appointments_status'')],
      Mapped (Sql ''booking_channel'') (SQL_Enum [Sql ''WHATSAPP'', Sql ''TELEGRAM'', Sql ''WEB'', Sql ''MOBILE'', Sql ''DASHBOARD'', Sql ''ADMIN''] (Sql ''booking_channel'')) False [],
      Mapped (Sql ''notes'') SQL_Text True []] @ timestamp_mixin,
     mdl_args = [Item (CheckConstraint (Sql ''start_datetime < end_datetime'') (Sql ''ck_appointments_start_before_end'')),
       Index (Sql ''ix_appointments_provider_time_window'') [Sql ''provider_id'', Sql ''start_datetime'', Sql ''end_datetime''],
       Index (Sql ''ix_appointments_org_start'') [Sql ''organization_id'', Sql ''start_datetime''],
       Index (Sql ''ix_appointments_customer_start'') [Sql ''customer_id'', Sql ''start_datetime'']]\<rparr>"

definition model_conversation_states :: model where
  "model_conversation_states = \<lparr>mdl_table = Sql ''conversation_states'',
     mdl_columns =
     [Mapped (Sql ''id'') SQL_Integer False [Primary_column (Sql ''conversation_states_pkey''), Indexed (Sql ''ix_conversation_states_id'')],
      Mapped (Sql ''customer_id'') SQL_Integer False [References (Sql ''customers'') (Sql ''id'') (Sql ''CASCADE''), Indexed (Sql ''ix_conversation_states_customer_id'')],
      Mapped (Sql ''channel'') (SQL_Enum [Sql ''WHATSAPP'', Sql ''TELEGRAM'', Sql ''WEB'', Sql ''MOBILE''] (Sql ''conversation_channel_type'')) False [],
      Mapped (Sql ''external_user_id'') (SQL_String 255) True [Indexed (Sql ''ix_conversation_states_external_user_id'')],
      Mapped (Sql ''current_flow'') (SQL_String 100) True [],
      Mapped (Sql ''current_step'') (SQL_String 100) True [],
      Mapped (Sql ''selected_organization_id'') SQL_Integer True [References (Sql ''organizations'') (Sql ''id'') (Sql ''SET NULL''), Indexed (Sql ''ix_conversation_states_selected_organization_id'')],
      Mapped (Sql ''selected_provider_id'') SQL_Integer True [References (Sql ''providers'') (Sql ''id'') (Sql ''SET NULL''), Indexed (Sql ''ix_conversation_states_selected_provider_id'')],
      Mapped (Sql ''selected_service_id'') SQL_Integer True [References (Sql ''services'') (Sql ''id'') (Sql ''SET NULL''), Indexed (Sql ''ix_conversation_states_selected_service_id'')],
      Mapped (Sql ''selected_location_id'') SQL_Integer True [References (Sql ''organization_locations'') (Sql ''id'') (Sql ''SET NULL''), Indexed (Sql ''ix_conversation_states_selected_location_id'')],
      Mapped (Sql ''selected_slot_start'') SQL_DateTime True [],
      Mapped (Sql ''context_json'') SQL_JSON False [],
      Mapped (Sql ''last_interaction_at'') SQL_DateTime False [Indexed (Sql ''ix_conversation_states_last_interaction_at'')]] @ timestamp_mixin,
     mdl_args = [Item (UniqueConstraint [Sql ''customer_id'', Sql ''channel''] (Sql ''uq_conversation_state_customer_channel''))]\<rparr>"

definition model_customers :: model where
  "model_customers = \<lparr>mdl_table = Sql ''customers'',
     mdl_columns =
     [Mapped (Sql ''id'') SQL_Integer False [Primary_column (Sql ''customers_pkey''), Indexed (Sql ''ix_customers_id'')],
      Mapped (Sql ''full_name'') (SQL_String 255) False [],
      Mapped (Sql ''phone_number'') (SQL_String 32) False [Indexed (Sql ''ix_customers_phone_number'')],
      Mapped (Sql ''phone_number_normalized'') (SQL_String 32) False [Indexed (Sql ''ix_customers_phone_number_normalized''), Unique_value],
      Mapped (Sql ''email'') (SQL_String 255) True [Indexed (Sql ''ix_customers_email'')],
      Mapped (Sql ''preferred_language'') (SQL_String 16) True []] @ timestamp_mixin,
     mdl_args = []\<rparr>"

definition model_customer_channel_identities :: model where
  "model_customer_channel_identities = \<lparr>mdl_table = Sql ''customer_channel_identities'',
     mdl_columns =
     [Mapped (Sql ''id'') SQL_Integer False [Primary_column (Sql ''customer_channel_identities_pkey''), Indexed (Sql ''ix_customer_channel_identities_id'')],
      Mapped (Sql ''customer_id'') SQL_Integer False [References (Sql ''customers'') (Sql ''id'') (Sql ''CASCADE''), Indexed (Sql ''ix_customer_channel_identities_customer_id'')],
      Mapped (Sql ''channel'') (SQL_Enum [Sql ''WHATSAPP'', Sql ''TELEGRAM'', Sql ''WEB'', Sql ''MOBILE''] (Sql ''channel_type'')) False [],
      Mapped (Sql ''external_user_id'') (SQL_String 255) False [],
      Mapped (Sql ''external_chat_id'') (SQL_String 255) True []] @ timestamp_mixin,
     mdl_args = [Item (UniqueConstraint [Sql ''customer_id'', Sql ''channel''] (Sql ''uq_customer_identity_customer_channel'')),
       Item (UniqueConstraint [Sql ''channel'', Sql ''external_user_id''] (Sql ''uq_customer_identity_channel_external_user''))]\<rparr>"

definition model_domain_events :: model where
  "model_domain_events = \<lparr>mdl_table = Sql ''domain_events'',
     mdl_columns =
     [Mapped (Sql ''id'') SQL_Integer False [Primary_column (Sql ''domain_events_pkey''), Indexed (Sql ''ix_domain_events_id'')],
      Mapped (Sql ''event_type'') (SQL_String 100) False [Indexed (Sql ''ix_domain_events_event_type'')],
      Mapped (Sql ''entity_type'') (SQL_String 64) True [Indexed (Sql ''ix_domain_events_entity_type'')],
      Mapped (Sql ''entity_id'') SQL_Integer True [Indexed (Sql ''ix_domain_events_entity_id'')],
      Mapped (Sql ''organization_id'') SQL_Integer True [References (Sql ''organizations'') (Sql ''id'') (Sql ''SET NULL''), Indexed (Sql ''ix_domain_events_organization_id'')],
      Mapped (Sql ''actor_type'') (SQL_String 32) False [],
      Mapped (Sql ''actor_id'') SQL_Integer True [],
      Mapped (Sql ''request_id'') (SQL_String 128) True [Indexed (Sql ''ix_domain_events_request_id'')],
      Mapped (Sql ''related_payment_id'') SQL_Integer True [References (Sql ''payments'') (Sql ''id'') (Sql ''SET NULL''), Indexed (Sql ''ix_domain_events_related_payment_id'')],
      Mapped (Sql ''related_appointment_id'') SQL_Integer True [References (Sql ''appointments'') (Sql ''id'') (Sql ''SET NULL''), Indexed (Sql ''ix_domain_events_related_appointment_id'')],
      Mapped (Sql ''related_payout_id'') SQL_Integer True [References (Sql ''payouts'') (Sql ''id'') (Sql ''SET NULL''), Indexed (Sql ''ix_domain_events_related_payout_id'')],
      Mapped (Sql ''status'') (SQL_String 16) False [Indexed (Sql ''ix_domain_events_status'')],
      Mapped (Sql ''payload_json'') SQL_JSON True [],
      Mapped (Sql ''created_at'') SQL_DateTime False [Indexed (Sql ''ix_domain_events_created_at'')]],
     mdl_args = [Index (Sql ''ix_domain_events_entity_lookup'') [Sql ''entity_type'', Sql ''entity_id'']]\<rparr>"

definition model_idempotency_keys :: model where
  "model_idempotency_keys = \<lparr>mdl_table = Sql ''idempotency_keys'',
     mdl_columns =
     [Mapped (Sql ''id'') SQL_Integer False [Primary_column (Sql ''idempotency_keys_pkey''), Indexed (Sql ''ix_idempotency_keys_id'')],
      Mapped (Sql ''idempotency_key'') (SQL_String 255) False [Indexed (Sql ''ix_idempotency_keys_idempotency_key'')],
      Mapped (Sql ''scope'') (SQL_String 255) False [Indexed (Sql ''ix_idempotency_keys_scope'')],
      Mapped (Sql ''request_hash'') (SQL_String 64) False [],
      Mapped (Sql ''response_status_code'') SQL_Integer True [],
      Mapped (Sql ''response_body_json'') SQL_JSON True [],
      Mapped (Sql ''resource_type'') (SQL_String 64) True [],
      Mapped (Sql ''resource_id'') SQL_Integer True []] @ timestamp_mixin,
     mdl_args = [Item (UniqueConstraint [Sql ''idempotency_key'', Sql ''scope''] (Sql ''uq_idempotency_keys_scope_key''))]\<rparr>"

definition model_message_logs :: model where
  "model_message_logs = \<lparr>mdl_table = Sql ''message_logs'',
     mdl_columns =
     [Mapped (Sql ''id'') SQL_Integer False [Primary_column (Sql ''message_logs_pkey''), Indexed (Sql ''ix_message_logs_id'')],
      Mapped (Sql ''customer_id'') SQL_Integer True [References (Sql ''customers'') (Sql ''id'') (Sql ''SET NULL''), Indexed (Sql ''ix_message_logs_customer_id'')],
      Mapped (Sql ''organization_id'') SQL_Integer True [References (Sql ''organizations'') (Sql ''id'') (Sql ''SET NULL''), Indexed (Sql ''ix_message_logs_organization_id'')],
      Mapped (Sql ''provider_id'') SQL_Integer True [References (Sql ''providers'') (Sql ''id'') (Sql ''SET NULL''), Indexed (Sql ''ix_message_logs_provider_id'')],
      Mapped (Sql ''direction'') (SQL_Enum [Sql ''INBOUND'', Sql ''OUTBOUND''] (Sql ''message_direction'')) False [],
      Mapped (Sql ''channel'') (SQL_Enum [Sql ''WHATSAPP'', Sql ''TELEGRAM'', Sql ''WEB'', Sql ''MOBILE''] (Sql ''message_channel_type'')) False [],
      Mapped (Sql ''external_message_id'') (SQL_String 255) True [Indexed (Sql ''ix_message_logs_external_message_id'')],
      Mapped (Sql ''payload_json'') SQL_JSON False [],
      Mapped (Sql ''created_at'') SQL_DateTime False []],
     mdl_args = [Item (UniqueConstraint [Sql ''channel'', Sql ''direction'', Sql ''external_message_id''] (Sql ''uq_message_logs_channel_direction_external''))]\<rparr>"

definition model_notifications :: model where
  "model_notifications = \<lparr>mdl_table = Sql ''notifications'',
     mdl_columns =
     [Mapped (Sql ''id'') SQL_Integer False [Primary_column (Sql ''notifications_pkey''), Indexed (Sql ''ix_notifications_id'')],
      Mapped (Sql ''appointment_id'') SQL_Integer False [References (Sql ''appointments'') (Sql ''id'') (Sql ''CASCADE''), Indexed (Sql ''ix_notifications_appointment_id'')],
      Mapped (Sql ''type'') (SQL_Enum [Sql ''REMINDER'', Sql ''STATUS_UPDATE''] (Sql ''notification_type'')) False [],
      Mapped (Sql ''status'') (SQL_Enum [Sql ''PENDING'', Sql ''SENT'', Sql ''FAILED''] (Sql ''notification_status'')) False [Indexed (Sql ''ix_notifications_status'')],
      Mapped (Sql ''scheduled_for'') SQL_DateTime False [],
      Mapped (Sql ''sent_at'') SQL_DateTime True [],
      Mapped (Sql ''payload_json'') SQL_JSON True []] @ timestamp_mixin,
     mdl_args = []\<rparr>"

definition model_organizations :: model where
  "model_organizations = \<lparr>mdl_table = Sql ''organizations'',
     mdl_columns =
     [Mapped (Sql ''id'') SQL_Integer False [Primary_column (Sql ''organizations_pkey''), Indexed (Sql ''ix_organizations_id'')],
      Mapped (Sql ''name'') (SQL_String 255) False [Indexed (Sql ''ix_organizations_name'')],
      Mapped (Sql ''slug'') (SQL_String 255) False [Indexed (Sql ''ix_organizations_slug''), Unique_value],
      Mapped (Sql ''business_type'') (SQL_String 100) False [],
      Mapped (Sql ''city'') (SQL_String 100) False [],
      Mapped (Sql ''address'') (SQL_String 255) True [],
      Mapped (Sql ''timezone'') (SQL_String 64) False [],
      Mapped (Sql ''is_active'') SQL_Boolean False [],
      Mapped (Sql ''commission_type'') (SQL_Enum [Sql ''percentage'', Sql ''fixed''] (Sql ''commission_type'')) False [],
      Mapped (Sql ''commission_percentage'') (SQL_Numeric 5 4) False [],
      Mapped (Sql ''commission_fixed_minor'') SQL_Integer False []] @ timestamp_mixin,
     mdl_args = [Item (CheckConstraint (Sql ''commission_percentage >= 0 AND commission_percentage <= 1'') (Sql ''ck_organizations_commission_percentage_range'')),
       Item (CheckConstraint (Sql ''commission_fixed_minor >= 0'') (Sql ''ck_organizations_commission_fixed_non_negative''))]\<rparr>"

definition model_organization_locations :: model where
  "model_organization_locations = \<lparr>mdl_table = Sql ''organization_locations'',
     mdl_columns =
     [Mapped (Sql ''id'') SQL_Integer False [Primary_column (Sql ''organization_locations_pkey''), Indexed (Sql ''ix_organization_locations_id'')],
      Mapped (Sql ''organization_id'') SQL_Integer False [References (Sql ''organizations'') (Sql ''id'') (Sql ''CASCADE''), Indexed (Sql ''ix_organization_locations_organization_id'')],
      Mapped (Sql ''name'') (SQL_String 255) False [],
      Mapped (Sql ''slug'') (SQL_String 255) False [Indexed (Sql ''ix_organization_locations_slug'')],
      Mapped (Sql ''address_line_1'') (SQL_String 255) True [],
      Mapped (Sql ''address_line_2'') (SQL_String 255) True [],
      Mapped (Sql ''city'') (SQL_String 100) True [],
      Mapped (Sql ''region'') (SQL_String 100) True [],
      Mapped (Sql ''postal_code'') (SQL_String 32) True [],
      Mapped (Sql ''country'') (SQL_String 100) True [],
      Mapped (Sql ''timezone'') (SQL_String 64) True [],
      Mapped (Sql ''is_active'') SQL_Boolean False []] @ timestamp_mixin,
     mdl_args = [Item (UniqueConstraint [Sql ''organization_id'', Sql ''slug''] (Sql ''uq_organization_locations_org_slug''))]\<rparr>"

definition model_organization_memberships :: model where
  "model_organization_memberships = \<lparr>mdl_table = Sql ''organization_memberships'',
     mdl_columns =
     [Mapped (Sql ''id'') SQL_Integer False [Primary_column (Sql ''organization_memberships_pkey''), Indexed (Sql ''ix_organization_memberships_id'')],
      Mapped (Sql ''organization_id'') SQL_Integer False [References (Sql ''organizations'') (Sql ''id'') (Sql ''CASCADE''), Indexed (Sql ''ix_organization_memberships_organization_id'')],
      Mapped (Sql ''user_id'') SQL_Integer False [References (Sql ''users'') (Sql ''id'') (Sql ''CASCADE''), Indexed (Sql ''ix_organization_memberships_user_id'')],
      Mapped (Sql ''role'') (SQL_Enum [Sql ''OWNER'', Sql ''ADMIN'', Sql ''PROVIDER'', Sql ''STAFF''] (Sql ''membership_role'')) False [],
      Mapped (Sql ''is_active'') SQL_Boolean False []] @ timestamp_mixin,
     mdl_args = [Item (UniqueConstraint [Sql ''organization_id'', Sql ''user_id''] (Sql ''uq_org_membership_org_user''))]\<rparr>"

definition model_payments :: model where
  "model_payments = \<lparr>mdl_table = Sql ''payments'',
     mdl_columns =
     [Mapped (Sql ''id'') SQL_Integer False [Primary_column (Sql ''payments_pkey''), Indexed (Sql ''ix_payments_id'')],
      Mapped (Sql ''appointment_id'') SQL_Integer False [References (Sql ''appointments'') (Sql ''id'') (Sql ''CASCADE''), Indexed (Sql ''ix_payments_appointment_id'')],
      Mapped (Sql ''organization_id'') SQL_Integer False [References (Sql ''organizations'') (Sql ''id'') (Sql ''CASCADE''), Indexed (Sql ''ix_payments_organization_id'')],
      Mapped (Sql ''amount_minor'') SQL_Integer False [],
      Mapped (Sql ''currency'') (SQL_String 3) False [],
      Mapped (Sql ''provider_name'') (SQL_String 32) False [Indexed (Sql ''ix_payments_provider_name'')],
      Mapped (Sql ''provider_payment_intent_id'') (SQL_String 255) True [Indexed (Sql ''ix_payments_provider_payment_intent_id'')],
      Mapped (Sql ''provider_checkout_session_id'') (SQL_String 255) True [Indexed (Sql ''ix_payments_provider_checkout_session_id'')],
      Mapped (Sql ''provider_checkout_url'') (SQL_String 1024) True [],
      Mapped (Sql ''status'') (SQL_Enum [Sql ''pending'', Sql ''requires_action'', Sql ''succeeded'', Sql ''failed'', Sql ''canceled'', Sql ''refunded''] (Sql ''payment_status'')) False [Indexed (Sql ''ix_payments_status'')],
      Mapped (Sql ''payment_type'') (SQL_Enum [Sql ''full'', Sql ''deposit''] (Sql ''payment_type'')) False [],
      Mapped (Sql ''paid_at'') SQL_DateTime True []] @ timestamp_mixin,
     mdl_args = [Item (CheckConstraint (Sql ''amount_minor >= 0'') (Sql ''ck_payments_non_negative_amount_minor''))]\<rparr>"

definition model_payouts :: model where
  "model_payouts = \<lparr>mdl_table = Sql ''payouts'',
     mdl_columns =
     [Mapped (Sql ''id'') SQL_Integer False [Primary_column (Sql ''payouts_pkey''), Indexed (Sql ''ix_payouts_id'')],
      Mapped (Sql ''provider_id'') SQL_Integer False [References (Sql ''providers'') (Sql ''id'') (Sql ''CASCADE''), Indexed (Sql ''ix_payouts_provider_id'')],
      Mapped (Sql ''total_amount_minor'') SQL_Integer False [],
      Mapped (Sql ''currency'') (SQL_String 3) False [],
      Mapped (Sql ''status'') (SQL_Enum [Sql ''pending'', Sql ''processing'', Sql ''completed'', Sql ''failed''] (Sql ''payout_status'')) False [Indexed (Sql ''ix_payouts_status'')],
      Mapped (Sql ''provider_payout_reference'') (SQL_String 255) True [Indexed (Sql ''ix_payouts_provider_payout_reference'')],
      Mapped (Sql ''processed_at'') SQL_DateTime True []] @ timestamp_mixin,
     mdl_args = [Item (CheckConstraint (Sql ''total_amount_minor >= 0'') (Sql ''ck_payouts_non_negative_total_amount_minor''))]\<rparr>"

definition model_providers :: model where
  "model_providers = \<lparr>mdl_table = Sql ''providers'',
     mdl_columns =
     [Mapped (Sql ''id'') SQL_Integer False [Primary_column (Sql ''providers_pkey''), Indexed (Sql ''ix_providers_id'')],
      Mapped (Sql ''organization_id'') SQL_Integer False [References (Sql ''organizations'') (Sql ''id'') (Sql ''CASCADE''), Indexed (Sql ''ix_providers_organization_id'')],
      Mapped (Sql ''user_id'') SQL_Integer True [References (Sql ''users'') (Sql ''id'') (Sql ''SET NULL''), Indexed (Sql ''ix_providers_user_id''), Unique_value],
      Mapped (Sql ''display_name'') (SQL_String 255) False [],
      Mapped (Sql ''title'') (SQL_String 255) True [],
      Mapped (Sql ''bio'') SQL_Text True [],
      Mapped (Sql ''is_active'') SQL_Boolean False [],
      Mapped (Sql ''appointment_duration_minutes'') SQL_Integer False []] @ timestamp_mixin,
     mdl_args = [Item (CheckConstraint (Sql ''appointment_duration_minutes > 0'') (Sql ''ck_providers_positive_duration''))]\<rparr>"

definition model_provider_availability :: model where
  "model_provider_availability = \<lparr>mdl_table = Sql ''provider_availability'',
     mdl_columns =
     [Mapped (Sql ''id'') SQL_Integer False [Primary_column (Sql ''provider_availability_pkey''), Indexed (Sql ''ix_provider_availability_id'')],
      Mapped (Sql ''provider_id'') SQL_Integer False [References (Sql ''providers'') (Sql ''id'') (Sql ''CASCADE''), Indexed (Sql ''ix_provider_availability_provider_id'')],
      Mapped (Sql ''weekday'') SQL_Integer False [],
      Mapped (Sql ''start_time'') SQL_Time False [],
      Mapped (Sql ''end_time'') SQL_Time False [],
      Mapped (Sql ''is_active'') SQL_Boolean False []] @ timestamp_mixin,
     mdl_args = [Item (CheckConstraint (Sql ''weekday >= 0 AND weekday <= 6'') (Sql ''ck_provider_availability_weekday_range'')),
       Item (CheckConstraint (Sql ''start_time < end_time'') (Sql ''ck_provider_availability_start_before_end'')),
       Item (UniqueConstraint [Sql ''provider_id'', Sql ''weekday'', Sql ''start_time'', Sql ''end_time''] (Sql ''uq_provider_availability_provider_weekday_window''))]\<rparr>"

definition model_provider_date_overrides :: model where
  "model_provider_date_overrides = \<lparr>mdl_table = Sql ''provider_date_overrides'',
     mdl_columns =
     [Mapped (Sql ''id'') SQL_Integer False [Primary_column (Sql ''provider_date_overrides_pkey''), Indexed (Sql ''ix_provider_date_overrides_id'')],
      Mapped (Sql ''provider_id'') SQL_Integer False [References (Sql ''providers'') (Sql ''id'') (Sql ''CASCADE''), Indexed (Sql ''ix_provider_date_overrides_provider_id'')],
      Mapped (Sql ''override_date'') SQL_Date False [Indexed (Sql ''ix_provider_date_overrides_override_date'')],
      Mapped (Sql ''start_time'') SQL_Time True [],
      Mapped (Sql ''end_time'') SQL_Time True [],
      Mapped (Sql ''is_available'') SQL_Boolean False [],
      Mapped (Sql ''is_active'') SQL_Boolean False []] @ timestamp_mixin,
     mdl_args = [Item (CheckConstraint (Sql ''(is_available = true AND start_time IS NOT NULL AND end_time IS NOT NULL AND start_time < end_time) OR (is_available = false AND start_time IS NULL AND end_time IS NULL)'') (Sql ''ck_provider_date_overrides_time_shape''))]\<rparr>"

definition model_provider_earnings :: model where
  "model_provider_earnings = \<lparr>mdl_table = Sql ''provider_earnings'',
     mdl_columns =
     [Mapped (Sql ''id'') SQL_Integer False [Primary_column (Sql ''provider_earnings_pkey''), Indexed (Sql ''ix_provider_earnings_id'')],
      Mapped (Sql ''provider_id'') SQL_Integer False [References (Sql ''providers'') (Sql ''id'') (Sql ''CASCADE''), Indexed (Sql ''ix_provider_earnings_provider_id'')],
      Mapped (Sql ''appointment_id'') SQL_Integer False [References (Sql ''appointments'') (Sql ''id'') (Sql ''CASCADE''), Indexed (Sql ''ix_provider_earnings_appointment_id'')],
      Mapped (Sql ''payment_id'') SQL_Integer False [References (Sql ''payments'') (Sql ''id'') (Sql ''CASCADE''), Indexed (Sql ''ix_provider_earnings_payment_id'')],
      Mapped (Sql ''payout_id'') SQL_Integer True [References (Sql ''payouts'') (Sql ''id'') (Sql ''SET NULL''), Indexed (Sql ''ix_provider_earnings_payout_id'')],
      Mapped (Sql ''gross_amount_minor'') SQL_Integer False [],
      Mapped (Sql ''platform_fee_minor'') SQL_Integer False [],
      Mapped (Sql ''provider_amount_minor'') SQL_Integer False [],
      Mapped (Sql ''refunded_amount_minor'') SQL_Integer False [],
      Mapped (Sql ''adjustment_pending_minor'') SQL_Integer False [],
      Mapped (Sql ''currency'') (SQL_String 3) False [],
      Mapped (Sql ''status'') (SQL_Enum [Sql ''pending'', Sql ''ready_for_payout'', Sql ''paid_out''] (Sql ''provider_earning_status'')) False [Indexed (Sql ''ix_provider_earnings_status'')]] @ timestamp_mixin,
     mdl_args = [Item (UniqueConstraint [Sql ''payment_id''] (Sql ''uq_provider_earnings_payment_id'')),
       Item (CheckConstraint (Sql ''gross_amount_minor >= 0'') (Sql ''ck_provider_earnings_non_negative_gross'')),
       Item (CheckConstraint (Sql ''platform_fee_minor >= 0'') (Sql ''ck_provider_earnings_non_negative_platform_fee'')),
       Item (CheckConstraint (Sql ''provider_amount_minor >= 0'') (Sql ''ck_provider_earnings_non_negative_provider_amount'')),
       Item (CheckConstraint (Sql ''refunded_amount_minor >= 0'') (Sql ''ck_provider_earnings_non_negative_refunded_amount'')),
       Item (CheckConstraint (Sql ''adjustment_pending_minor >= 0'') (Sql ''ck_provider_earnings_non_negative_adjustment_pending'')),
       Item (CheckConstraint (Sql ''platform_fee_minor + provider_amount_minor <= gross_amount_minor'') (Sql ''ck_provider_earnings_provider_plus_fee_lte_gross''))]\<rparr>"

definition model_provider_locations :: model where
  "model_provider_locations = \<lparr>mdl_table = Sql ''provider_locations'',
     mdl_columns =
     [Mapped (Sql ''id'') SQL_Integer False [Primary_column (Sql ''provider_locations_pkey''), Indexed (Sql ''ix_provider_locations_id'')],
      Mapped (Sql ''provider_id'') SQL_Integer False [References (Sql ''providers'') (Sql ''id'') (Sql ''CASCADE''), Indexed (Sql ''ix_provider_locations_provider_id'')],
      Mapped (Sql ''location_id'') SQL_Integer False [References (Sql ''organization_locations'') (Sql ''id'') (Sql ''CASCADE''), Indexed (Sql ''ix_provider_locations_location_id'')]] @ timestamp_mixin,
     mdl_args = [Item (UniqueConstraint [Sql ''provider_id'', Sql ''location_id''] (Sql ''uq_provider_locations_provider_location''))]\<rparr>"

definition model_provider_services :: model where
  "model_provider_services = \<lparr>mdl_table = Sql ''provider_services'',
     mdl_columns =
     [Mapped (Sql ''id'') SQL_Integer False [Primary_column (Sql ''provider_services_pkey''), Indexed (Sql ''ix_provider_services_id'')],
      Mapped (Sql ''provider_id'') SQL_Integer False [References (Sql ''providers'') (Sql ''id'') (Sql ''CASCADE''), Indexed (Sql ''ix_provider_services_provider_id'')],
      Mapped (Sql ''service_id'') SQL_Integer False [References (Sql ''services'') (Sql ''id'') (Sql ''CASCADE''), Indexed (Sql ''ix_provider_services_service_id'')],
      Mapped (Sql ''duration_minutes_override'') SQL_Integer True []] @ timestamp_mixin,
     mdl_args = [Item (UniqueConstraint [Sql ''provider_id'', Sql ''service_id''] (Sql ''uq_provider_services_provider_service'')),
       Item (CheckConstraint (Sql ''duration_minutes_override IS NULL OR duration_minutes_override > 0'') (Sql ''ck_provider_services_positive_duration_override''))]\<rparr>"

definition model_provider_time_off :: model where
  "model_provider_time_off = \<lparr>mdl_table = Sql ''provider_time_off'',
     mdl_columns =
     [Mapped (Sql ''id'') SQL_Integer False [Primary_column (Sql ''provider_time_off_pkey''), Indexed (Sql ''ix_provider_time_off_id'')],
      Mapped (Sql ''provider_id'') SQL_Integer False [References (Sql ''providers'') (Sql ''id'') (Sql ''CASCADE''), Indexed (Sql ''ix_provider_time_off_provider_id'')],
      Mapped (Sql ''start_datetime'') SQL_DateTime False [],
      Mapped (Sql ''end_datetime'') SQL_DateTime False [],
      Mapped (Sql ''reason'') (SQL_String 255) True []] @ timestamp_mixin,
     mdl_args = [Item (CheckConstraint (Sql ''start_datetime < end_datetime'') (Sql ''ck_provider_time_off_start_before_end''))]\<rparr>"

definition model_refunds :: model where
  "model_refunds = \<lparr>mdl_table = Sql ''refunds'',
     mdl_columns =
     [Mapped (Sql ''id'') SQL_Integer False [Primary_column (Sql ''refunds_pkey''), Indexed (Sql ''ix_refunds_id'')],
      Mapped (Sql ''payment_id'') SQL_Integer False [References (Sql ''payments'') (Sql ''id'') (Sql ''CASCADE''), Indexed (Sql ''ix_refunds_payment_id'')],
      Mapped (Sql ''amount_minor'') SQL_Integer False [],
      Mapped (Sql ''currency'') (SQL_String 3) False [],
      Mapped (Sql ''provider_refund_id'') (SQL_String 255) True [Indexed (Sql ''ix_refunds_provider_refund_id'')],
      Mapped (Sql ''status'') (SQL_Enum [Sql ''pending'', Sql ''succeeded'', Sql ''failed''] (Sql ''refund_status'')) False [Indexed (Sql ''ix_refunds_status'')],
      Mapped (Sql ''processed_at'') SQL_DateTime True []] @ timestamp_mixin,
     mdl_args = [Item (CheckConstraint (Sql ''amount_minor >= 0'') (Sql ''ck_refunds_non_negative_amount_minor''))]\<rparr>"

definition model_services :: model where
  "model_services = \<lparr>mdl_table = Sql ''services'',
     mdl_columns =
     [Mapped (Sql ''id'') SQL_Integer False [Primary_column (Sql ''services_pkey''), Indexed (Sql ''ix_services_id'')],
      Mapped (Sql ''organization_id'') SQL_Integer False [References (Sql ''organizations'') (Sql ''id'') (Sql ''CASCADE''), Indexed (Sql ''ix_services_organization_id'')],
      Mapped (Sql ''provider_id'') SQL_Integer False [References (Sql ''providers'') (Sql ''id'') (Sql ''CASCADE''), Indexed (Sql ''ix_services_provider_id'')],
      Mapped (Sql ''name'') (SQL_String 255) False [Indexed (Sql ''ix_services_name'')],
      Mapped (Sql ''description'') SQL_Text True [],
      Mapped (Sql ''duration_minutes'') SQL_Integer False [],
      Mapped (Sql ''price'') (SQL_Numeric 10 2) True [],
      Mapped (Sql ''currency'') (SQL_String 3) True [],
      Mapped (Sql ''requires_payment'') SQL_Boolean False [],
      Mapped (Sql ''payment_type'') (SQL_Enum [Sql ''full'', Sql ''deposit''] (Sql ''payment_type'')) False [],
      Mapped (Sql ''deposit_amount_minor'') SQL_Integer True [],
      Mapped (Sql ''cancellation_policy_type'') (SQL_Enum [Sql ''flexible'', Sql ''moderate'', Sql ''strict''] (Sql ''cancellation_policy_type'')) False [],
      Mapped (Sql ''cancellation_window_hours'') SQL_Integer False [],
      Mapped (Sql ''buffer_before_minutes'') SQL_Integer False [],
      Mapped (Sql ''buffer_after_minutes'') SQL_Integer False [],
      Mapped (Sql ''is_active'') SQL_Boolean False []] @ timestamp_mixin,
     mdl_args = [Item (CheckConstraint (Sql ''duration_minutes > 0'') (Sql ''ck_services_positive_duration'')),
       Item (CheckConstraint (Sql ''price IS NULL OR price >= 0'') (Sql ''ck_services_non_negative_price'')),
       Item (CheckConstraint (Sql ''buffer_before_minutes >= 0'') (Sql ''ck_services_non_negative_buffer_before'')),
       Item (CheckConstraint (Sql ''buffer_after_minutes >= 0'') (Sql ''ck_services_non_negative_buffer_after'')),
       Item (CheckConstraint (Sql ''deposit_amount_minor IS NULL OR deposit_amount_minor > 0'') (Sql ''ck_services_positive_deposit_amount_minor'')),
       Item (CheckConstraint (Sql ''(payment_type != 'deposit') OR deposit_amount_minor IS NOT NULL'') (Sql ''ck_services_deposit_requires_amount'')),
       Item (CheckConstraint (Sql ''cancellation_window_hours >= 0'') (Sql ''ck_services_non_negative_cancellation_window_hours''))]\<rparr>"

definition model_service_locations :: model where
  "model_service_locations = \<lparr>mdl_table = Sql ''service_locations'',
     mdl_columns =
     [Mapped (Sql ''id'') SQL_Integer False [Primary_column (Sql ''service_locations_pkey''), Indexed (Sql ''ix_service_locations_id'')],
      Mapped (Sql ''service_id'') SQL_Integer False [References (Sql ''services'') (Sql ''id'') (Sql ''CASCADE''), Indexed (Sql ''ix_service_locations_service_id'')],
      Mapped (Sql ''location_id'') SQL_Integer False [References (Sql ''organization_locations'') (Sql ''id'') (Sql ''CASCADE''), Indexed (Sql ''ix_service_locations_location_id'')]] @ timestamp_mixin,
     mdl_args = [Item (UniqueConstraint [Sql ''service_id'', Sql ''location_id''] (Sql ''uq_service_locations_service_location''))]\<rparr>"

definition model_users :: model where
  "model_users = \<lparr>mdl_table = Sql ''users'',
     mdl_columns =
     [Mapped (Sql ''id'') SQL_Integer False [Primary_column (Sql ''users_pkey''), Indexed (Sql ''ix_users_id'')],
      Mapped (Sql ''email'') (SQL_String 255) False [Indexed (Sql ''ix_users_email''), Unique_value],
      Mapped (Sql ''hashed_password'') (SQL_String 255) False [],
      Mapped (Sql ''full_name'') (SQL_String 255) False [],
      Mapped (Sql ''phone_number'') (SQL_String 32) True [],
      Mapped (Sql ''is_active'') SQL_Boolean False [],
      Mapped (Sql ''is_platform_admin'') SQL_Boolean False []] @ timestamp_mixin,
     mdl_args = []\<rparr>"

definition models :: "model list" where
  "models =
    [model_appointments,
     model_conversation_states,
     model_customers,
     model_customer_channel_identities,
     model_domain_events,
     model_idempotency_keys,
     model_message_logs,
     model_notifications,
     model_organizations,
     model_organization_locations,
     model_organization_memberships,
     model_payments,
     model_payouts,
     model_providers,
     model_provider_availability,
     model_provider_date_overrides,
     model_provider_earnings,
     model_provider_locations,
     model_provider_services,
     model_provider_time_off,
     model_refunds,
     model_services,
     model_service_locations,
     model_users]"

section \<open>The schema of the models\<close>

fun mapped_name :: "mapped_column \<Rightarrow> sql" where
  "mapped_name (Mapped n t nullable opts) = n"

text \<open>A column that is unique and indexed has a unique index, and no constraint.\<close>

fun has_index :: "mapped_option list \<Rightarrow> bool" where
  "has_index [] = False"
| "has_index (Indexed m # xs) = True"
| "has_index (x # xs) = has_index xs"

fun has_unique :: "mapped_option list \<Rightarrow> bool" where
  "has_unique [] = False"
| "has_unique (Unique_value # xs) = True"
| "has_unique (x # xs) = has_unique xs"

fun option_constraints :: "sql \<Rightarrow> bool \<Rightarrow> mapped_option list \<Rightarrow> constraint_def list" where
  "option_constraints n indexed [] = []"
| "option_constraints n indexed (Primary_column m # xs) = Primary_key [n] # option_constraints n indexed xs"
| "option_constraints n indexed (References t c ondelete # xs) =
     Foreign_key [n] t [c] ondelete # option_constraints n indexed xs"
| "option_constraints n indexed (Unique_value # xs) =
     (if indexed then option_constraints n indexed xs else Unique [n] # option_constraints n indexed xs)"
| "option_constraints n indexed (Indexed m # xs) = option_constraints n indexed xs"

fun column_constraints :: "mapped_column list \<Rightarrow> constraint_def list" where
  "column_constraints [] = []"
| "column_constraints (Mapped n t nullable opts # cs) = option_constraints n (has_index opts) opts @ column_constraints cs"

fun arg_constraints :: "table_arg list \<Rightarrow> constraint_def list" where
  "arg_constraints [] = []"
| "arg_constraints (Item (CheckConstraint e m) # xs) = Check e # arg_constraints xs"
| "arg_constraints (Item (UniqueConstraint cols m) # xs) = Unique cols # arg_constraints xs"
| "arg_constraints (x # xs) = arg_constraints xs"

definition declared_constraints :: "model \<Rightarrow> constraint_def list" where
  "declared_constraints m = column_constraints (mdl_columns m) @ arg_constraints (mdl_args m)"

fun option_indexes :: "sql \<Rightarrow> sql \<Rightarrow> bool \<Rightarrow> mapped_option list \<Rightarrow> (sql \<times> index_def) list" where
  "option_indexes tab n unique [] = []"
| "option_indexes tab n unique (Indexed m # xs) =
     (m, \<lparr>ix_table = tab, ix_columns = [n], ix_unique = unique\<rparr>) # option_indexes tab n unique xs"
| "option_indexes tab n unique (x # xs) = option_indexes tab n unique xs"

fun column_indexes :: "sql \<Rightarrow> mapped_column list \<Rightarrow> (sql \<times> index_def) list" where
  "column_indexes tab [] = []"
| "column_indexes tab (Mapped n t nullable opts # cs) = option_indexes tab n (has_unique opts) opts @ column_indexes tab cs"

fun arg_indexes :: "sql \<Rightarrow> table_arg list \<Rightarrow> (sql \<times> index_def) list" where
  "arg_indexes tab [] = []"
| "arg_indexes tab (Index m cols # xs) =
     (m, \<lparr>ix_table = tab, ix_columns = cols, ix_unique = False\<rparr>) # arg_indexes tab xs"
| "arg_indexes tab (x # xs) = arg_indexes tab xs"

definition declared_indexes :: "model \<Rightarrow> (sql \<times> index_def) list" where
  "declared_indexes m = column_indexes (mdl_table m) (mdl_columns m) @ arg_indexes (mdl_table m) (mdl_args m)"

section \<open>Comparison with a schema\<close>

fun same_labels :: "sql list \<Rightarrow> sql list \<Rightarrow> bool" where
  "same_labels [] ys = True"
| "same_labels (x # xs) ys = (if member_name x ys then same_labels xs ys else False)"

text \<open>A column of a table: its type, for an enumeration its labels, and whether it may be null.\<close>

fun type_agrees :: "(sql \<times> sql list) list \<Rightarrow> sql_type \<Rightarrow> sql_type \<Rightarrow> bool" where
  "type_agrees types (SQL_Enum labels n) t =
     (if of_type n t
      then (case lookup types n of None \<Rightarrow> False | Some ls \<Rightarrow> same_labels labels ls \<and> same_labels ls labels)
      else False)"
| "type_agrees types t u = (t = u)"

fun columns_agree :: "(sql \<times> sql list) list \<Rightarrow> (sql \<times> column_def) list \<Rightarrow> mapped_column list \<Rightarrow> bool" where
  "columns_agree types cols [] = True"
| "columns_agree types cols (Mapped n t nullable opts # cs) =
     (case lookup cols n of
        None \<Rightarrow> False
      | Some c \<Rightarrow> if type_agrees types t (col_type c) \<and> nullable = col_nullable c then columns_agree types cols cs else False)"

text \<open>The names of keys are the database's; the texts of the other constraints are compared.\<close>

fun same_constraint :: "constraint_def \<Rightarrow> constraint_def \<Rightarrow> bool" where
  "same_constraint (Check d) (Check e) = same_name d e"
| "same_constraint (Primary_key xs) (Primary_key ys) = same_names xs ys"
| "same_constraint (Unique xs) (Unique ys) = same_names xs ys"
| "same_constraint (Foreign_key xs t us d) (Foreign_key ys u vs e) =
     (if same_names xs ys then if same_name t u then if same_names us vs then same_name d e else False else False else False)"
| "same_constraint c d = False"

fun is_no_overlap :: "constraint_def \<Rightarrow> bool" where
  "is_no_overlap (No_overlap cols statuses) = True"
| "is_no_overlap c = False"

definition missing_constraints :: "model \<Rightarrow> table_def \<Rightarrow> constraint_def list" where
  "missing_constraints m t =
     filter (\<lambda>c. \<not> list_ex (\<lambda>d. same_constraint c (snd d)) (td_constraints t)) (declared_constraints m)"

definition undeclared_constraints :: "model \<Rightarrow> table_def \<Rightarrow> sql list" where
  "undeclared_constraints m t =
     map fst (filter (\<lambda>d. \<not> list_ex (\<lambda>c. same_constraint c (snd d)) (declared_constraints m)) (td_constraints t))"

definition table_agrees :: "schema \<Rightarrow> model \<Rightarrow> bool" where
  "table_agrees s m =
     (case lookup (sc_tables s) (mdl_table m) of
        None \<Rightarrow> False
      | Some t \<Rightarrow>
        if list_all (\<lambda>c. member_name (fst c) (map mapped_name (mdl_columns m))) (td_columns t)
        then if columns_agree (sc_types s) (td_columns t) (mdl_columns m) then missing_constraints m t = [] else False
        else False)"

fun only_in_database :: "(sql \<times> table_def) list \<Rightarrow> model list \<Rightarrow> sql list" where
  "only_in_database tables [] = []"
| "only_in_database tables (m # ms) =
     (case lookup tables (mdl_table m) of
        None \<Rightarrow> only_in_database tables ms
      | Some t \<Rightarrow> undeclared_constraints m t @ only_in_database tables ms)"

fun same_index :: "index_def \<Rightarrow> index_def \<Rightarrow> bool" where
  "same_index i j =
     (if same_name (ix_table i) (ix_table j) then if same_names (ix_columns i) (ix_columns j) then ix_unique i = ix_unique j
      else False else False)"

text \<open>The entries of one list of indexes that are not, or not the same, in another.\<close>

fun indexes_missing :: "(sql \<times> index_def) list \<Rightarrow> (sql \<times> index_def) list \<Rightarrow> sql list" where
  "indexes_missing ys [] = []"
| "indexes_missing ys ((n, i) # xs) =
     (case lookup ys n of
        None \<Rightarrow> n # indexes_missing ys xs
      | Some j \<Rightarrow> if same_index i j then indexes_missing ys xs else n # indexes_missing ys xs)"

fun all_indexes :: "model list \<Rightarrow> (sql \<times> index_def) list" where
  "all_indexes [] = []"
| "all_indexes (m # ms) = declared_indexes m @ all_indexes ms"

text \<open>Every model has its table, and every table its model.\<close>

definition tables_agree :: "schema \<Rightarrow> model list \<Rightarrow> bool" where
  "tables_agree s ms \<longleftrightarrow>
     list_all (table_agrees s) ms \<and> list_all (\<lambda>t. member_name (fst t) (map mdl_table ms)) (sc_tables s)"

text \<open>
  What the models do not declare or declare otherwise: constraints of the database, indexes of the
  models, and indexes of the database.
\<close>

definition schema_differences :: "schema \<Rightarrow> model list \<Rightarrow> sql list \<times> sql list \<times> sql list" where
  "schema_differences s ms =
     (only_in_database (sc_tables s) ms, indexes_missing (sc_indexes s) (all_indexes ms),
      indexes_missing (all_indexes ms) (sc_indexes s))"

end
