(* ===== verification/Migrated_Schema.thy ===== *)
theory Migrated_Schema
  imports Revisions Declared_Schema
begin

text \<open>
  What the chain of revisions makes of an empty database: every revision applies and can be
  undone, and the schema at its end is the one the models declare.
\<close>

section \<open>Running the chain\<close>

fun migrate :: "((schema \<Rightarrow> ddl_result) \<times> (schema \<Rightarrow> ddl_result)) list \<Rightarrow> schema \<Rightarrow> ddl_result" where
  "migrate [] s = Inr s"
| "migrate (r # rs) s = (case fst r s of Inl e \<Rightarrow> Inl e | Inr s' \<Rightarrow> migrate rs s')"

text \<open>
  The same entries, in any order.  Entries that are in the same order are compared one by one.
\<close>

fun aligned :: "('a \<Rightarrow> 'a \<Rightarrow> bool) \<Rightarrow> (sql \<times> 'a) list \<Rightarrow> (sql \<times> 'a) list \<Rightarrow> bool" where
  "aligned eq [] [] = True"
| "aligned eq ((m, a) # xs) ((n, b) # ys) = (if same_name m n then if eq a b then aligned eq xs ys else False else False)"
| "aligned eq xs ys = False"

fun entries_in :: "('a \<Rightarrow> 'a \<Rightarrow> bool) \<Rightarrow> (sql \<times> 'a) list \<Rightarrow> (sql \<times> 'a) list \<Rightarrow> bool" where
  "entries_in eq [] ys = True"
| "entries_in eq ((m, a) # xs) ys =
     (case lookup ys m of None \<Rightarrow> False | Some b \<Rightarrow> if eq a b then entries_in eq xs ys else False)"

definition same_entries :: "('a \<Rightarrow> 'a \<Rightarrow> bool) \<Rightarrow> (sql \<times> 'a) list \<Rightarrow> (sql \<times> 'a) list \<Rightarrow> bool" where
  "same_entries eq xs ys =
     (if aligned eq xs ys then True else if same_length xs ys then entries_in eq xs ys else False)"

definition same_table :: "table_def \<Rightarrow> table_def \<Rightarrow> bool" where
  "same_table t u \<longleftrightarrow>
     same_entries (=) (td_columns t) (td_columns u) \<and> same_entries (=) (td_constraints t) (td_constraints u)"

text \<open>
  A schema is restored when its tables and its indexes are as they were, and its types still have
  their labels: PostgreSQL cannot take a label back.
\<close>

fun labels_in :: "sql list \<Rightarrow> sql list \<Rightarrow> bool" where
  "labels_in [] ys = True"
| "labels_in (x # xs) ys = (if member_name x ys then labels_in xs ys else False)"

definition restored :: "schema \<Rightarrow> schema \<Rightarrow> bool" where
  "restored s s' \<longleftrightarrow>
     same_entries labels_in (sc_types s) (sc_types s') \<and>
     same_entries same_table (sc_tables s) (sc_tables s') \<and>
     same_entries (=) (sc_indexes s) (sc_indexes s')"

fun reversible :: "((schema \<Rightarrow> ddl_result) \<times> (schema \<Rightarrow> ddl_result)) list \<Rightarrow> schema \<Rightarrow> bool" where
  "reversible [] s = True"
| "reversible (r # rs) s =
     (case fst r s of
        Inl e \<Rightarrow> False
      | Inr s' \<Rightarrow>
        if (case snd r s' of Inl e \<Rightarrow> False | Inr s'' \<Rightarrow> restored s s'') then reversible rs s' else False)"

section \<open>Evaluation\<close>

text \<open>Nothing is rewritten inside a name, inside names that are compared, and inside statements still to be run.\<close>

lemma eval_cong:
  "Sql a = Sql a" "same_chars b c = same_chars b c" "same_length b c = same_length b c"
  by (rule refl)+

lemma field_cong:
  "sc_types s = sc_types s" "sc_tables s = sc_tables s" "sc_indexes s = sc_indexes s"
  "td_columns t = td_columns t" "td_constraints t = td_constraints t"
  by (rule refl)+

lemma empty_schema_fields: "sc_types empty_schema = []" "sc_tables empty_schema = []" "sc_indexes empty_schema = []"
  by (simp_all add: empty_schema_def)

lemma entry_fields: "td_columns (snd (n, t)) = td_columns t" "td_constraints (snd (n, t)) = td_constraints t"
  by simp_all

lemma statement_cong:
  "create_type n ls s = create_type n ls s"
  "drop_type n s = drop_type n s"
  "rename_type m n s = rename_type m n s"
  "add_type_value m n s = add_type_value m n s"
  "create_table n items s = create_table n items s"
  "drop_table n s = drop_table n s"
  "rename_table m n s = rename_table m n s"
  "add_column m n ty b d s = add_column m n ty b d s"
  "drop_column m n s = drop_column m n s"
  "alter_column m n b d s = alter_column m n b d s"
  "alter_column_type m n ty s = alter_column_type m n ty s"
  "add_constraint m n c s = add_constraint m n c s"
  "drop_constraint m n s = drop_constraint m n s"
  "drop_constraint_if_exists m n s = drop_constraint_if_exists m n s"
  "create_index m n cols b s = create_index m n cols b s"
  "drop_index m s = drop_index m s"
  "run_statement x s = run_statement x s"
  "run_statements sts s = run_statements sts s"
  "run_steps fs s = run_steps fs s"
  "migrate rs s = migrate rs s"
  "reversible rs s = reversible rs s"
  by (rule refl)+

text \<open>Scans of a list that is already a value: it is not rewritten again at each step.\<close>

definition scan_lookup :: "(sql \<times> 'a) list \<Rightarrow> sql \<Rightarrow> 'a option" where "scan_lookup = lookup"

definition scan_has :: "(sql \<times> 'a) list \<Rightarrow> sql \<Rightarrow> bool" where "scan_has = has"

definition scan_without :: "sql \<Rightarrow> (sql \<times> 'a) list \<Rightarrow> (sql \<times> 'a) list" where "scan_without = without"

definition scan_put :: "sql \<Rightarrow> 'a \<Rightarrow> (sql \<times> 'a) list \<Rightarrow> (sql \<times> 'a) list" where "scan_put = put"

lemma eval_scan:
  "lookup xs n = scan_lookup xs n" "has xs n = scan_has xs n" "without n xs = scan_without n xs" "put n a xs = scan_put n a xs"
  by (simp_all add: scan_lookup_def scan_has_def scan_without_def scan_put_def)

lemma eval_scan_steps:
  "scan_lookup [] n = None"
  "scan_lookup ((m, a) # xs) n = (if same_name m n then Some a else scan_lookup xs n)"
  "scan_has ([] :: (sql \<times> 'b) list) n = False"
  "scan_has ((m, b) # ys) n = (if same_name m n then True else scan_has ys n)"
  "scan_without n [] = []"
  "scan_without n ((m, a) # xs) = (if same_name m n then scan_without n xs else (m, a) # scan_without n xs)"
  "scan_put n c [] = []"
  "scan_put n c ((m, a) # xs) = (if same_name m n then (n, c) # scan_put n c xs else (m, a) # scan_put n c xs)"
  by (simp_all add: scan_lookup_def scan_has_def scan_without_def scan_put_def lookup_code has_code without_code put_code)

lemma run_append:
  "run_statements (xs @ ys) s = (case run_statements xs s of Inl e \<Rightarrow> Inl e | Inr s' \<Rightarrow> run_statements ys s')"
  by (induction xs arbitrary: s) (auto split: sum.split)

lemmas eval_basics =
  if_True if_False sum.case option.case prod.case fst_conv snd_conv char.inject simp_thms Let_def list.map
  list_ex_Nil_iff list_ex_Cons_iff list_all_Nil_iff list_all_Cons_iff append.simps filter.simps list.case
  schema.select_convs schema.update_convs table_def.select_convs table_def.update_convs
  column_def.select_convs column_def.update_convs index_def.select_convs index_def.update_convs

lemmas eval_names =
  same_length.simps same_chars.simps same_name.simps member_name.simps same_names.simps
  unique_names_code rename_code covers_code eval_scan_steps
  eval_scan

lemmas eval_schema =
  is_key.simps column_type.simps type_exists.simps local_columns.simps target_exists.simps refers.simps
  refers_to.simps key_of.simps of_type.simps item_columns.simps item_constraints.simps item_types.simps
  retarget.simps involves.simps words_from.simps sql_text.simps separates_def char_in.simps has_word.simps list.distinct
  table_fits_def constraint_ok_def has_key_def uses_type_def some_constraint_def key_needed_def
  map_columns_def retype_def map_constraints_def alter_table_def has_constraint_def

lemmas eval_statements =
  run_statement.simps run_statements.simps run_steps.simps run_append
  create_type_def drop_type_def rename_type_def add_type_value_def create_table_def drop_table_def
  rename_table_def add_column_def drop_column_def alter_column_def alter_column_type_def add_constraint_def
  drop_constraint_def drop_constraint_if_exists_def create_index_def drop_index_def

lemmas eval_revisions =
  migrate.simps reversible.simps empty_schema_fields entry_fields empty_schema_def quoted_def revisions_def
  schema_rename_membership_table_if_needed_def swap_constraint_def
  upgrade_organization_system_def downgrade_organization_system_def
  arg_cong [OF initial_users_def, of "\<lambda>xs. run_statements xs s" for s]
  arg_cong [OF initial_organizations_def, of "\<lambda>xs. run_statements xs s" for s]
  arg_cong [OF initial_customers_def, of "\<lambda>xs. run_statements xs s" for s]
  arg_cong [OF initial_organization_members_def, of "\<lambda>xs. run_statements xs s" for s]
  arg_cong [OF initial_providers_def, of "\<lambda>xs. run_statements xs s" for s]
  arg_cong [OF initial_services_def, of "\<lambda>xs. run_statements xs s" for s]
  arg_cong [OF initial_customer_channel_identities_def, of "\<lambda>xs. run_statements xs s" for s]
  arg_cong [OF initial_provider_availability_def, of "\<lambda>xs. run_statements xs s" for s]
  arg_cong [OF initial_provider_time_off_def, of "\<lambda>xs. run_statements xs s" for s]
  arg_cong [OF initial_appointments_def, of "\<lambda>xs. run_statements xs s" for s]
  arg_cong [OF initial_conversation_states_def, of "\<lambda>xs. run_statements xs s" for s]
  arg_cong [OF initial_message_logs_def, of "\<lambda>xs. run_statements xs s" for s]
  arg_cong [OF initial_notifications_def, of "\<lambda>xs. run_statements xs s" for s]
  arg_cong [OF upgrade_initial_def, of "\<lambda>xs. run_statements xs s" for s]
  arg_cong [OF downgrade_initial_def, of "\<lambda>xs. run_statements xs s" for s]
  arg_cong [OF upgrade_provider_owned_services_def, of "\<lambda>xs. run_statements xs s" for s]
  arg_cong [OF downgrade_provider_owned_services_def, of "\<lambda>xs. run_statements xs s" for s]
  arg_cong [OF upgrade_provider_date_overrides_def, of "\<lambda>xs. run_statements xs s" for s]
  arg_cong [OF downgrade_provider_date_overrides_def, of "\<lambda>xs. run_statements xs s" for s]
  arg_cong [OF schema_migrate_membership_roles_def, of "\<lambda>xs. run_statements xs s" for s]
  arg_cong [OF schema_restore_membership_roles_def, of "\<lambda>xs. run_statements xs s" for s]
  arg_cong [OF upgrade_provider_service_assignments_def, of "\<lambda>xs. run_statements xs s" for s]
  arg_cong [OF downgrade_provider_service_assignments_def, of "\<lambda>xs. run_statements xs s" for s]
  arg_cong [OF upgrade_multi_location_support_def, of "\<lambda>xs. run_statements xs s" for s]
  arg_cong [OF downgrade_multi_location_support_def, of "\<lambda>xs. run_statements xs s" for s]
  arg_cong [OF upgrade_customer_booking_access_def, of "\<lambda>xs. run_statements xs s" for s]
  arg_cong [OF downgrade_customer_booking_access_def, of "\<lambda>xs. run_statements xs s" for s]
  arg_cong [OF upgrade_payment_foundation_def, of "\<lambda>xs. run_statements xs s" for s]
  arg_cong [OF downgrade_payment_foundation_def, of "\<lambda>xs. run_statements xs s" for s]
  arg_cong [OF upgrade_pending_payment_enforcement_def, of "\<lambda>xs. run_statements xs s" for s]
  arg_cong [OF downgrade_pending_payment_enforcement_def, of "\<lambda>xs. run_statements xs s" for s]
  arg_cong [OF upgrade_refunds_and_cancellation_policies_def, of "\<lambda>xs. run_statements xs s" for s]
  arg_cong [OF downgrade_refunds_and_cancellation_policies_def, of "\<lambda>xs. run_statements xs s" for s]
  arg_cong [OF upgrade_platform_commissions_and_payouts_def, of "\<lambda>xs. run_statements xs s" for s]
  arg_cong [OF downgrade_platform_commissions_and_payouts_def, of "\<lambda>xs. run_statements xs s" for s]
  arg_cong [OF upgrade_idempotency_keys_def, of "\<lambda>xs. run_statements xs s" for s]
  arg_cong [OF downgrade_idempotency_keys_def, of "\<lambda>xs. run_statements xs s" for s]
  arg_cong [OF upgrade_domain_events_def, of "\<lambda>xs. run_statements xs s" for s]
  arg_cong [OF downgrade_domain_events_def, of "\<lambda>xs. run_statements xs s" for s]
  arg_cong [OF upgrade_whatsapp_conversation_state_and_message_dedup_def, of "\<lambda>xs. run_statements xs s" for s]
  arg_cong [OF downgrade_whatsapp_conversation_state_and_message_dedup_def, of "\<lambda>xs. run_statements xs s" for s]
  arg_cong [OF revisions_def, of "\<lambda>rs. migrate rs s" for s]
  arg_cong [OF revisions_def, of "\<lambda>rs. reversible rs s" for s]

lemmas eval_all = eval_basics eval_names eval_schema eval_statements eval_revisions

lemma scan_cong:
  "scan_lookup xs n = scan_lookup xs n" "scan_has ys n = scan_has ys n" "scan_without n xs = scan_without n xs"
  "scan_put n a xs = scan_put n a xs"
  by simp_all

lemma lambda_cong:
  "s = s' \<Longrightarrow> alter_table n f s = alter_table n f s'"
  "xs = xs' \<Longrightarrow> list_ex P xs = list_ex P xs'" "xs = xs' \<Longrightarrow> list_all P xs = list_all P xs'"
  "ys = ys' \<Longrightarrow> filter Q ys = filter Q ys'" "zs = zs' \<Longrightarrow> map g zs = map g zs'"
  by simp_all

lemmas eval_congs = eval_cong field_cong statement_cong scan_cong lambda_cong sum.case_cong_weak option.case_cong_weak prod.case_cong_weak if_weak_cong

lemmas eval_restored =
  restored_def same_entries_def aligned.simps entries_in.simps same_table_def labels_in.simps

lemmas eval_models =
  models_def timestamp_mixin_def model.select_convs mapped_name.simps has_index.simps has_unique.simps
  option_constraints.simps column_constraints.simps arg_constraints.simps declared_constraints_def
  option_indexes.simps column_indexes.simps arg_indexes.simps declared_indexes_def same_labels.simps
  type_agrees.simps columns_agree.simps same_constraint.simps missing_constraints_def undeclared_constraints_def
  table_agrees_def only_in_database.simps same_index.simps indexes_missing.simps all_indexes.simps
  tables_agree_def schema_differences_def
  model_appointments_def
  model_conversation_states_def
  model_customers_def
  model_customer_channel_identities_def
  model_domain_events_def
  model_idempotency_keys_def
  model_message_logs_def
  model_notifications_def
  model_organizations_def
  model_organization_locations_def
  model_organization_memberships_def
  model_payments_def
  model_payouts_def
  model_providers_def
  model_provider_availability_def
  model_provider_date_overrides_def
  model_provider_earnings_def
  model_provider_locations_def
  model_provider_services_def
  model_provider_time_off_def
  model_refunds_def
  model_services_def
  model_service_locations_def
  model_users_def

section \<open>Every revision can be undone\<close>

text \<open>
  Every revision can be applied and taken back.  On the schema that its predecessors leave,
  each of the fourteen revisions succeeds, and its downgrade then restores that schema: its tables with
  their columns and constraints, its indexes, and its types with their labels (of which the downgrade
  of 0009 leaves one more, as PostgreSQL cannot drop it).
\<close>

lemma revisions_reversible: "reversible revisions empty_schema"
  by (simp only: eval_all eval_restored cong: eval_congs)

section \<open>The migrated schema is the declared one\<close>

text \<open>
  The chain of revisions and the models describe the same tables.  The schema that the
  revisions build has the tables of the models and no other, every column has the declared type,
  labels and nullability, and every declared key, foreign key and condition is there.  Besides the
  exclusion constraint, which the ORM cannot declare, the only differences in these respects are the
  unique key of \<^verbatim>\<open>providers.user_id\<close>, declared as a unique index, and the indexes listed: some bear other
  names, some are not declared, and the two identifiers of a payment at its provider are unique in
  the database and not in the models.  Defaults of columns are not compared.
\<close>

lemma migrated_schema_as_declared:
  "case migrate revisions empty_schema of
     Inl e \<Rightarrow> False
   | Inr s \<Rightarrow> tables_agree s models \<and> schema_differences s models =
      ([Sql ''ex_appointments_provider_no_overlap'', Sql ''uq_providers_user_id''],
       [Sql ''ix_idempotency_keys_idempotency_key'', Sql ''ix_organization_memberships_id'',
        Sql ''ix_organization_memberships_organization_id'', Sql ''ix_organization_memberships_user_id'',
        Sql ''ix_payments_provider_payment_intent_id'', Sql ''ix_payments_provider_checkout_session_id'',
        Sql ''ix_providers_user_id''],
       [Sql ''ix_idempotency_keys_key'', Sql ''ix_payments_provider_payment_intent_id'',
        Sql ''ix_payments_provider_checkout_session_id'', Sql ''ix_provider_date_overrides_provider_date'',
        Sql ''ix_appointments_end_datetime'', Sql ''ix_appointments_start_datetime'',
        Sql ''ix_organization_members_user_id'', Sql ''ix_organization_members_organization_id'',
        Sql ''ix_organization_members_id''])"
  by (simp only: eval_all eval_models cong: eval_congs)

end
