(* ===== verification/Spec2Isabelle.thy ===== *)
theory Spec2Isabelle
  imports Chat_Booking Publishing Read_Access Migrations Migrated_Schema
begin

text \<open>
  BookPoint: a verification library for the booking back end under \<^verbatim>\<open>src/backend\<close>.

  \<^bold>\<open>The program.\<close>  BookPoint is a multi-tenant service with which salons and clinics let their
  customers book appointments.  An organization has locations, providers and services; a customer
  looks for free slots and books one over public endpoints or over WhatsApp, pays a checkout, may
  cancel or move the booking later and is reminded of it; the provider earns the payment less a
  commission and is paid out.  FastAPI routers (\<^verbatim>\<open>app/api/routers\<close>) call services
  (\<^verbatim>\<open>app/services\<close>), which read and write rows through repositories (\<^verbatim>\<open>app/repositories\<close>) over the
  tables of \<^verbatim>\<open>app/models\<close>; Celery tasks (\<^verbatim>\<open>app/workers/tasks.py\<close>) do the periodic work, and Alembic
  revisions (\<^verbatim>\<open>alembic/versions\<close>) build the tables.

  \<^bold>\<open>State.\<close>  A \<open>world\<close> (theory Schema) holds one list of rows per table, and what lives outside the
  database: the counters, the store of the rate limiter and the tasks handed to the broker.  A row is
  a record with the columns of its class; rows get keys from \<open>tbl_fresh\<close>.  Writes go through
  \<open>db_insert\<close> and \<open>db_update\<close>, which refuse a row that violates a CHECK, UNIQUE or EXCLUDE constraint
  with an \<open>IntegrityError\<close>.  The clock, random tokens, settings, the time-zone database, Redis,
  hashing, tokens, JSON parsing, \<^verbatim>\<open>datetime.fromisoformat\<close> and the HTTP gateway are fields of an
  environment \<open>env\<close>: third-party code is a parameter.  The world is passed and returned explicitly.
  An operation in one transaction returns a \<open>result\<close>, the exception or the answer with the next
  world; one that commits on the way returns an \<open>outcome\<close>, exception or answer together with the world
  that is left in either case; one that might not end returns an \<open>option\<close>.

  \<^bold>\<open>Theories, from the bottom.\<close>
  \<^item> Prelude: exceptions, results, tables and their laws, and the interface \<open>repository\<close> with its
    extension \<open>guarded_repository\<close> for tables with an overlap guard.
  \<^item> Enums, Schema, Config: \<^verbatim>\<open>models/*.py\<close> and \<^verbatim>\<open>core/config.py\<close>.  Clock, Pystring, Pytext, Money:
    \<^verbatim>\<open>utils/*.py\<close> and what the code uses of Python's text and date functions.
  \<^item> Repositories: one definition per query and write of \<^verbatim>\<open>repositories/*.py\<close>; every repository
    class is an interpretation of \<open>repository\<close>.  Observability: \<^verbatim>\<open>services/observability\<close> and
    \<^verbatim>\<open>services/notifications/dispatcher.py\<close>.  Sample_Data: the small salon of the witnesses.
  \<^item> Scheduling, Schedule_Admin, Appointments: free slots, calendars and bookings
    (\<^verbatim>\<open>services/scheduling_service.py\<close>, \<^verbatim>\<open>provider_*_service.py\<close>, \<^verbatim>\<open>appointment_service.py\<close>).
  \<^item> Earnings, Refunds, Payments, Payouts: \<^verbatim>\<open>services/payments/*.py\<close>.
  \<^item> Rate_Limiter, Idempotency, Access: \<^verbatim>\<open>services/rate_limiter.py\<close>, \<^verbatim>\<open>idempotency_service.py\<close>,
    \<^verbatim>\<open>dependencies/*.py\<close>, \<^verbatim>\<open>auth_service.py\<close>.  Their interfaces are \<open>rate_store\<close>, interpreted by the
    in-process store, and \<open>keyed_handler\<close>, interpreted by the four endpoints that take a key.
  \<^item> Discovery, Self_Service, Money_Routes: what customers and the payment provider call.
  \<^item> Whatsapp_Io, Whatsapp, Conversation, Chat_Booking: \<^verbatim>\<open>services/whatsapp/*.py\<close>, the flows of the
    conversation and what they guarantee.  Workers: \<^verbatim>\<open>workers/tasks.py\<close> and the clean-up.
  \<^item> Catalogue, Staff_Routes, Provider_Routes, Calendar_Routes, Back_Office: the endpoints of the staff
    (\<^verbatim>\<open>routers/organizations.py\<close>, \<^verbatim>\<open>organization_members.py\<close>, \<^verbatim>\<open>locations.py\<close>, \<^verbatim>\<open>providers.py\<close>,
    \<^verbatim>\<open>services.py\<close>, \<^verbatim>\<open>provider_*.py\<close>, \<^verbatim>\<open>appointments.py\<close>, \<^verbatim>\<open>scheduling.py\<close>, \<^verbatim>\<open>customers.py\<close>,
    \<^verbatim>\<open>admin.py\<close>), with the bodies' schemas, error bodies and health endpoints.
  \<^item> Tenancy, Isolation, Catalogue_Sound, Publishing, Read_Access: the staff endpoints as one machine
    and what it keeps.  \<open>owned_repository\<close> extends \<open>repository\<close> by an owner of each row, and
    \<open>catalogue_invariant\<close> says which writes keep an invariant; both are interpreted by the model.
  \<^item> Table_Statements, Revisions, Declared_Schema, Migrated_Schema, Migrations: the statements of
    the revisions, the tables the models declare, and what the revisions do to rows.

  \<^bold>\<open>What the lemmas show.\<close>
  \<^item> Bookings: no sequence of bookings leaves two live bookings of a provider overlapping with their
    buffers; a listed slot is one that can be booked, and every bookable slot is listed; a conflicting
    booking is refused; moving touches one row; calendars stay consistent.  The theorems on the slot
    search assume that the service of every appointment is still assigned to its provider
    (\<open>schedule_ok\<close>), which unassigning a service does not keep, and that on the days searched no local
    time falls outside the day's midnights (\<open>zone_regular\<close>), which a change of clocks over midnight breaks.
  \<^item> Money: a success confirms and credits once, refunds stay within the paid amount and follow the
    policy, a payout pays each earning once, the ledger of an earning stays balanced.
  \<^item> Requests: a retried request with a key replays its answer; the limiter refines a counter and
    bounds any window; a booking is shown only to the holder of its token.
  \<^item> Tenants: requests of outsiders change nothing of an organization, requests of members
    without an administrator's role change nothing of its catalogue, listings answer rows of the
    caller's organizations only, and every request keeps the catalogue sound.
  \<^item> Conversation: whatever is sent, only the sender's own live bookings are touched, every answer is
    one the channel accepts, a redelivered message does nothing, and a chosen slot gets booked.
  \<^item> Workers: one reminder per booking, overdue bookings are released, ready earnings paid.
  \<^item> Migrations: the back-fills give unique slugs and references and keep the tenants apart; lemmas
    of Migrated_Schema evaluate the whole chain, forwards and back, and compare the tables it builds
    with those the models declare (defaults of columns are not compared).

  \<^bold>\<open>Loops and bounds.\<close>  The slot search and the search for unused references are
  \<open>partial_function (option)\<close>; theorems show that they return (the first for a positive step, the
  second while the source still has unused strings).  The search for a free slug is a \<open>function\<close>
  that ends because finitely many slugs are taken.  Other loops recurse on lists or have a measure.
  No fuel is used.  Integers are unbounded, as in Python, and money is \<open>int\<close> in minor units or \<open>rat\<close>.

  \<^bold>\<open>Not modelled.\<close>  Requests run one after the other, so row locks have no effect; what another
  session commits inside the idempotency protocol is a parameter (\<open>race\<close>).  Foreign keys are not checked
  on writes, and only the cascade of deleting an organization is modelled; \<^verbatim>\<open>updated_at\<close> is left out.
  Rounding of the four decimal places of a commission by the database and text beyond ASCII are left
  out, and of PostgreSQL's limits on lengths and ranges only those of an organization are
  modelled (\<open>organization_fits\<close>).  Constraints are those the models declare: the unique indexes that
  revision 0008 puts on the provider's identifiers of a payment are not among them.  The
  schema statements follow PostgreSQL; the SQLite variants of the revisions are not modelled.  Logging,
  database sessions, the assembly of the application, the probes behind the health report, the
  schedule of the Celery beat, the parsing of environment variables and the scripts are glue or
  third-party set-up, and carry no state of the program.
\<close>

end
